(* ===== verification/Prelude.thy ===== *)
theory Prelude
  imports Main "HOL-Library.Char_ord" "HOL-Library.List_Lexorder"
begin

text \<open>
  Shared vocabulary of the development: the string and list functions of JavaScript that the
  sources of \<^verbatim>\<open>lib/\<close> use (\<^verbatim>\<open>startsWith\<close>, \<^verbatim>\<open>endsWith\<close>,
  \<^verbatim>\<open>split\<close>, \<^verbatim>\<open>trim\<close>, \<^verbatim>\<open>join\<close>, regular-expression character
  classes), POSIX \<^verbatim>\<open>path\<close> functions, and the lemmas on lists every component uses.
  A string is an Isabelle \<^typ>\<open>string\<close>, its characters being the bytes of the UTF-8 text.
\<close>

named_theorems js_simps \<open>evaluation of the JavaScript string functions\<close>

section \<open>Strings\<close>

type_synonym str = string

definition starts_with :: "str \<Rightarrow> str \<Rightarrow> bool" where
  "starts_with s p \<longleftrightarrow> take (length p) s = p"

definition ends_with :: "str \<Rightarrow> str \<Rightarrow> bool" where
  "ends_with s p \<longleftrightarrow> length p \<le> length s \<and> drop (length s - length p) s = p"

definition drop_end :: "nat \<Rightarrow> str \<Rightarrow> str" where
  "drop_end n s = take (length s - n) s"

fun str_includes :: "str \<Rightarrow> str \<Rightarrow> bool" where
  "str_includes [] p = (p = [])"
| "str_includes (c # s) p = (starts_with (c # s) p \<or> str_includes s p)"

fun index_of :: "char \<Rightarrow> str \<Rightarrow> nat option" where
  "index_of c [] = None"
| "index_of c (d # s) = (if c = d then Some 0 else map_option Suc (index_of c s))"

text \<open>\<^verbatim>\<open>s.split(c)\<close> for a single character: always at least one piece.\<close>

fun split_on :: "char \<Rightarrow> str \<Rightarrow> str list" where
  "split_on c [] = [[]]"
| "split_on c (d # s) =
     (if d = c then [] # split_on c s
      else (case split_on c s of [] \<Rightarrow> [[d]] | w # ws \<Rightarrow> (d # w) # ws))"

fun join :: "str \<Rightarrow> str list \<Rightarrow> str" where
  "join sep [] = []"
| "join sep [w] = w"
| "join sep (w # v # ws) = w @ sep @ join sep (v # ws)"

definition is_ws :: "char \<Rightarrow> bool" where
  "is_ws c \<longleftrightarrow> c \<in> {CHR 0x20, CHR 0x09, CHR 0x0A, CHR 0x0B, CHR 0x0C, CHR 0x0D}"

definition is_digit :: "char \<Rightarrow> bool" where
  "is_digit c \<longleftrightarrow> CHR ''0'' \<le> c \<and> c \<le> CHR ''9''"

definition is_lower :: "char \<Rightarrow> bool" where
  "is_lower c \<longleftrightarrow> CHR ''a'' \<le> c \<and> c \<le> CHR ''z''"

definition is_upper :: "char \<Rightarrow> bool" where
  "is_upper c \<longleftrightarrow> CHR ''A'' \<le> c \<and> c \<le> CHR ''Z''"

definition is_hex :: "char \<Rightarrow> bool" where
  "is_hex c \<longleftrightarrow> is_digit c \<or> (CHR ''a'' \<le> c \<and> c \<le> CHR ''f'')"

definition is_alnum :: "char \<Rightarrow> bool" where
  "is_alnum c \<longleftrightarrow> is_digit c \<or> is_lower c \<or> is_upper c"

definition is_word :: "char \<Rightarrow> bool" where
  "is_word c \<longleftrightarrow> is_alnum c \<or> c = CHR ''_''"

definition trim_start :: "str \<Rightarrow> str" where
  "trim_start s = dropWhile is_ws s"

definition trim :: "str \<Rightarrow> str" where
  "trim s = rev (dropWhile is_ws (rev (dropWhile is_ws s)))"

text \<open>\<^verbatim>\<open>s.split(/\s+/).filter(Boolean)\<close>: the maximal runs without white space.\<close>

fun words_acc :: "str \<Rightarrow> str \<Rightarrow> str list" where
  "words_acc acc [] = (if acc = [] then [] else [rev acc])"
| "words_acc acc (c # s) =
     (if is_ws c then (if acc = [] then words_acc [] s else rev acc # words_acc [] s)
      else words_acc (c # acc) s)"

definition ws_words :: "str \<Rightarrow> str list" where
  "ws_words s = words_acc [] s"

definition lines :: "str \<Rightarrow> str list" where
  "lines s = split_on (CHR 0x0A) s"

definition nonempty_lines :: "str \<Rightarrow> str list" where
  "nonempty_lines s = filter (\<lambda>l. l \<noteq> []) (lines s)"

text \<open>Decimal numbers: reading digits and \<^verbatim>\<open>String(n)\<close>.\<close>

definition digit_val :: "char \<Rightarrow> nat" where
  "digit_val c = of_char c - 48"

definition digits_val :: "str \<Rightarrow> nat" where
  "digits_val s = foldl (\<lambda>n c. 10 * n + digit_val c) 0 s"

definition digit_char :: "nat \<Rightarrow> char" where
  "digit_char d = char_of (48 + d)"

fun nat_str :: "nat \<Rightarrow> str" where
  "nat_str n = (if n < 10 then [digit_char n] else nat_str (n div 10) @ [digit_char (n mod 10)])"

declare nat_str.simps [simp del]

definition int_str :: "int \<Rightarrow> str" where
  "int_str i = (if i < 0 then CHR ''-'' # nat_str (nat (- i)) else nat_str (nat i))"

definition pad_start :: "nat \<Rightarrow> char \<Rightarrow> str \<Rightarrow> str" where
  "pad_start n c s = replicate (n - length s) c @ s"

definition lower_char :: "char \<Rightarrow> char" where
  "lower_char c = (if is_upper c then char_of ((of_char c :: nat) + 32) else c)"

definition upper_char :: "char \<Rightarrow> char" where
  "upper_char c = (if is_lower c then char_of ((of_char c :: nat) - 32) else c)"

section \<open>POSIX paths (\<^verbatim>\<open>node:path\<close>)\<close>

text \<open>
  \<^verbatim>\<open>path.normalize\<close> resolves empty, \<^verbatim>\<open>.\<close> and \<^verbatim>\<open>..\<close> segments,
  keeping a leading slash; \<^verbatim>\<open>path.join\<close> joins with a slash and normalizes.
\<close>

fun norm_segs :: "bool \<Rightarrow> str list \<Rightarrow> str list \<Rightarrow> str list" where
  "norm_segs rooted acc [] = rev acc"
| "norm_segs rooted acc (s # ss) =
     (if s = [] \<or> s = ''.'' then norm_segs rooted acc ss
      else if s = ''..'' then
        (case acc of
           [] \<Rightarrow> (if rooted then norm_segs rooted [] ss else norm_segs rooted [''..''] ss)
         | a # as \<Rightarrow> (if a = ''..'' then norm_segs rooted (''..'' # acc) ss else norm_segs rooted as ss))
      else norm_segs rooted (s # acc) ss)"

definition path_normalize :: "str \<Rightarrow> str" where
  "path_normalize p =
     (let rooted = starts_with p ''/'';
          body = join ''/'' (norm_segs rooted [] (split_on (CHR ''/'') p));
          tail = (if ends_with p ''/'' \<and> body \<noteq> [] then ''/'' else [])
      in if p = [] then ''.''
         else if rooted then ''/'' @ body @ tail
         else if body = [] then (if ends_with p ''/'' then ''./'' else ''.'') else body @ tail)"

definition path_join :: "str list \<Rightarrow> str" where
  "path_join ps = path_normalize (join ''/'' (filter (\<lambda>p. p \<noteq> []) ps))"

definition strip_slashes :: "str \<Rightarrow> str" where
  "strip_slashes p = rev (dropWhile (\<lambda>c. c = CHR ''/'') (rev p))"

definition path_basename :: "str \<Rightarrow> str" where
  "path_basename p = last (split_on (CHR ''/'') (strip_slashes p))"

definition path_dirname :: "str \<Rightarrow> str" where
  "path_dirname p =
     (let segs = split_on (CHR ''/'') (strip_slashes p)
      in if length segs \<le> 1 then (if starts_with p ''/'' then ''/'' else ''.'')
         else let d = strip_slashes (join ''/'' (butlast segs))
              in if d = [] then ''/'' else d)"

definition path_is_absolute :: "str \<Rightarrow> bool" where
  "path_is_absolute p = starts_with p ''/''"

section \<open>Lists\<close>

definition list_some :: "('a \<Rightarrow> bool) \<Rightarrow> 'a list \<Rightarrow> bool" where
  "list_some p xs = list_ex p xs"

definition find_last :: "('a \<Rightarrow> bool) \<Rightarrow> 'a list \<Rightarrow> 'a option" where
  "find_last p xs = List.find p (rev xs)"

text \<open>\<^verbatim>\<open>[...new Set(xs)]\<close>: the first occurrence of every element, in order.\<close>

definition uniq :: "'a list \<Rightarrow> 'a list" where
  "uniq xs = rev (remdups (rev xs))"

text \<open>All or none: \<open>None\<close> when an element has no value.\<close>

fun all_some :: "'a option list \<Rightarrow> 'a list option" where
  "all_some [] = Some []"
| "all_some (None # xs) = None"
| "all_some (Some x # xs) = map_option (Cons x) (all_some xs)"

definition is_none :: "'a option \<Rightarrow> bool" where
  "is_none x \<longleftrightarrow> x = None"

section \<open>Lemmas\<close>

lemma starts_with_append [simp]: "starts_with (p @ s) p"
  by (simp add: starts_with_def)

lemma starts_with_Nil [simp]: "starts_with s []"
  by (simp add: starts_with_def)

lemma starts_with_iff: "starts_with s p \<longleftrightarrow> (\<exists>r. s = p @ r)"
  by (metis append_take_drop_id starts_with_append starts_with_def)

lemma ends_with_append [simp]: "ends_with (s @ p) p"
  by (simp add: ends_with_def)

lemma ends_with_iff: "ends_with s p \<longleftrightarrow> (\<exists>r. s = r @ p)"
proof
  assume "ends_with s p"
  then show "\<exists>r. s = r @ p"
    unfolding ends_with_def by (metis append_take_drop_id)
qed auto

lemma split_on_neq_Nil [simp]: "split_on c s \<noteq> []"
  by (induction s) (auto split: list.splits)

lemma join_split_on: "join [c] (split_on c s) = s"
proof (induction s)
  case (Cons d s)
  obtain w ws where w: "split_on c s = w # ws"
    by (cases "split_on c s") auto
  show ?case
    using Cons w by (cases ws) auto
qed simp

lemma split_on_no_sep: "w \<in> set (split_on c s) \<Longrightarrow> c \<notin> set w"
  by (induction s arbitrary: w) (auto split: list.splits if_splits)

lemma set_uniq [simp]: "set (uniq xs) = set xs"
  by (simp add: uniq_def)

lemma distinct_uniq [simp]: "distinct (uniq xs)"
  by (simp add: uniq_def)

lemma find_last_Nil [simp]: "find_last p [] = None"
  by (simp add: find_last_def)

lemma find_last_snoc [simp]: "find_last p (xs @ [x]) = (if p x then Some x else find_last p xs)"
  by (simp add: find_last_def)

lemma find_last_Some:
  "find_last p xs = Some x \<longleftrightarrow>
     (\<exists>as bs. xs = as @ x # bs \<and> p x \<and> (\<forall>b \<in> set bs. \<not> p b))"
proof (induction xs rule: rev_induct)
  case (snoc y ys)
  show ?case
  proof (cases "p y")
    case True
    have "y = x" if "ys @ [y] = as @ x # bs" "\<forall>b \<in> set bs. \<not> p b" for as bs
      using that True by (cases bs rule: rev_cases) auto
    moreover have "\<exists>as bs. ys @ [y] = as @ y # bs \<and> p y \<and> (\<forall>b \<in> set bs. \<not> p b)"
      using True by (intro exI [of _ ys] exI [of _ "[]"]) auto
    ultimately show ?thesis using True by auto
  next
    case False
    have "(\<exists>as bs. ys @ [y] = as @ x # bs \<and> p x \<and> (\<forall>b \<in> set bs. \<not> p b)) \<longleftrightarrow>
      (\<exists>as bs. ys = as @ x # bs \<and> p x \<and> (\<forall>b \<in> set bs. \<not> p b))"
    proof
      assume "\<exists>as bs. ys @ [y] = as @ x # bs \<and> p x \<and> (\<forall>b \<in> set bs. \<not> p b)"
      then obtain as bs where *: "ys @ [y] = as @ x # bs" "p x" "\<forall>b \<in> set bs. \<not> p b" by blast
      from * False have "bs \<noteq> []" by auto
      then obtain bs' b where "bs = bs' @ [b]" by (metis rev_exhaust)
      with * show "\<exists>as bs. ys = as @ x # bs \<and> p x \<and> (\<forall>b \<in> set bs. \<not> p b)"
        by (intro exI [of _ as] exI [of _ bs']) auto
    next
      assume "\<exists>as bs. ys = as @ x # bs \<and> p x \<and> (\<forall>b \<in> set bs. \<not> p b)"
      then obtain as bs where "ys = as @ x # bs" "p x" "\<forall>b \<in> set bs. \<not> p b" by blast
      with False show "\<exists>as bs. ys @ [y] = as @ x # bs \<and> p x \<and> (\<forall>b \<in> set bs. \<not> p b)"
        by (intro exI [of _ as] exI [of _ "bs @ [y]"]) auto
    qed
    with False snoc show ?thesis by simp
  qed
qed simp

lemma find_last_None: "find_last p xs = None \<longleftrightarrow> (\<forall>x \<in> set xs. \<not> p x)"
  by (auto simp: find_last_def find_None_iff)

end
