(* ===== verification/Json.thy ===== *)
theory Json
  imports Complex_Main Prelude
begin

text \<open>
  JSON as the JavaScript standard library reads and writes it: \<^verbatim>\<open>JSON.parse\<close>
  (\<open>json_parse\<close>, \<open>None\<close> where it throws), \<^verbatim>\<open>JSON.stringify\<close>
  (\<open>json_text\<close>), property access, truthiness and the \<^verbatim>\<open>Number(x)\<close>
  conversion. A number is the rational it denotes; an object is the association list of its own
  properties in insertion order.
\<close>

datatype json =
    JNull
  | JBool bool
  | JNum rat
  | JStr str
  | JArr "json list"
  | JObj "(str \<times> json) list"

section \<open>Reading\<close>

definition skip_ws :: "str \<Rightarrow> str" where
  "skip_ws s = dropWhile (\<lambda>c. c \<in> {CHR 0x20, CHR 0x09, CHR 0x0A, CHR 0x0D}) s"

text \<open>The UTF-8 bytes of a code point below 65536 (a \<^verbatim>\<open>\u\<close> escape).\<close>

definition utf8 :: "nat \<Rightarrow> str" where
  "utf8 n =
     (if n < 128 then [char_of n]
      else if n < 2048 then [char_of (192 + n div 64), char_of (128 + n mod 64)]
      else [char_of (224 + n div 4096), char_of (128 + n div 64 mod 64), char_of (128 + n mod 64)])"

definition hex_digit :: "char \<Rightarrow> nat option" where
  "hex_digit c =
     (let n = of_char c :: nat in
      if is_digit c then Some (n - 48)
      else if CHR ''a'' \<le> c \<and> c \<le> CHR ''f'' then Some (n - 87)
      else if CHR ''A'' \<le> c \<and> c \<le> CHR ''F'' then Some (n - 55)
      else None)"

definition hex4 :: "char \<Rightarrow> char \<Rightarrow> char \<Rightarrow> char \<Rightarrow> nat option" where
  "hex4 a b c d =
     (case (hex_digit a, hex_digit b, hex_digit c, hex_digit d) of
        (Some w, Some x, Some y, Some z) \<Rightarrow> Some (((w * 16 + x) * 16 + y) * 16 + z)
      | _ \<Rightarrow> None)"

definition simple_escape :: "char \<Rightarrow> char option" where
  "simple_escape e =
     (if e = CHR 0x22 then Some (CHR 0x22) else if e = CHR 0x5C then Some (CHR 0x5C)
      else if e = CHR ''/'' then Some (CHR ''/'') else if e = CHR ''b'' then Some (CHR 0x08)
      else if e = CHR ''f'' then Some (CHR 0x0C) else if e = CHR ''n'' then Some (CHR 0x0A)
      else if e = CHR ''r'' then Some (CHR 0x0D) else if e = CHR ''t'' then Some (CHR 0x09)
      else None)"

text \<open>The rest of a string after its opening quote: the decoded text and what follows the closing quote.\<close>

fun read_string :: "str \<Rightarrow> (str \<times> str) option" where
  "read_string [] = None"
| "read_string (c # s) =
     (if c = CHR 0x22 then Some ([], s)
      else if c = CHR 0x5C then
        (case s of
           e # s1 \<Rightarrow>
             (if e = CHR ''u'' then
                (case s1 of
                   h1 # h2 # h3 # h4 # s2 \<Rightarrow>
                     (case hex4 h1 h2 h3 h4 of
                        Some n \<Rightarrow> map_option (\<lambda>(t, r). (utf8 n @ t, r)) (read_string s2)
                      | None \<Rightarrow> None)
                 | _ \<Rightarrow> None)
              else
                (case simple_escape e of
                   Some x \<Rightarrow> map_option (\<lambda>(t, r). (x # t, r)) (read_string s1)
                 | None \<Rightarrow> None))
         | [] \<Rightarrow> None)
      else if c < CHR 0x20 then None
      else map_option (\<lambda>(t, r). (c # t, r)) (read_string s))"

text \<open>\<^verbatim>\<open>-?(0|[1-9][0-9]*)(\.[0-9]+)?([eE][+-]?[0-9]+)?\<close>\<close>

definition read_digits :: "str \<Rightarrow> str \<times> str" where
  "read_digits s = (takeWhile is_digit s, dropWhile is_digit s)"

definition read_frac :: "str \<Rightarrow> (str \<times> str) option" where
  "read_frac s =
     (case s of
        c # r \<Rightarrow> (if c = CHR ''.'' then
                  (let (ds, r') = read_digits r in if ds = [] then None else Some (ds, r'))
                else Some ([], s))
      | [] \<Rightarrow> Some ([], []))"

definition read_exp :: "str \<Rightarrow> (int \<times> str) option" where
  "read_exp s =
     (case s of
        c # r \<Rightarrow>
          (if c = CHR ''e'' \<or> c = CHR ''E'' then
             (let (neg, r1) = (case r of x # r1 \<Rightarrow> if x = CHR ''-'' then (True, r1)
                                          else if x = CHR ''+'' then (False, r1) else (False, r)
                               | [] \<Rightarrow> (False, r));
                  (ds, r2) = read_digits r1
              in if ds = [] then None
                 else Some ((if neg then - int (digits_val ds) else int (digits_val ds)), r2))
           else Some (0, s))
      | [] \<Rightarrow> Some (0, []))"

definition pow10 :: "int \<Rightarrow> rat" where
  "pow10 e = (if 0 \<le> e then of_int (10 ^ nat e) else 1 / of_int (10 ^ nat (- e)))"

definition num_value :: "bool \<Rightarrow> str \<Rightarrow> str \<Rightarrow> int \<Rightarrow> rat" where
  "num_value neg ip fp e =
     (let m = of_int (int (digits_val (ip @ fp))) * pow10 (e - int (length fp))
      in if neg then - m else m)"

definition read_number :: "str \<Rightarrow> (rat \<times> str) option" where
  "read_number s =
     (let (neg, s1) = (case s of c # r \<Rightarrow> if c = CHR ''-'' then (True, r) else (False, s) | [] \<Rightarrow> (False, s));
          (ip, s2) = read_digits s1
      in if ip = [] \<or> (1 < length ip \<and> hd ip = CHR ''0'') then None
         else (case read_frac s2 of None \<Rightarrow> None
               | Some (fp, s3) \<Rightarrow>
                   (case read_exp s3 of None \<Rightarrow> None
                    | Some (e, s4) \<Rightarrow> Some (num_value neg ip fp e, s4))))"

text \<open>A key written twice keeps its first place and its last value.\<close>

fun obj_put :: "str \<Rightarrow> 'a \<Rightarrow> (str \<times> 'a) list \<Rightarrow> (str \<times> 'a) list" where
  "obj_put k v [] = [(k, v)]"
| "obj_put k v ((k', v') # kvs) = (if k = k' then (k, v) # kvs else (k', v') # obj_put k v kvs)"

text \<open>
  Recursive descent. The first argument bounds the nesting and the number of elements; every call
  that matters consumes a character, so the length of the text is enough.
\<close>

fun read_value :: "nat \<Rightarrow> str \<Rightarrow> (json \<times> str) option"
and read_elems :: "nat \<Rightarrow> str \<Rightarrow> (json list \<times> str) option"
and read_members :: "nat \<Rightarrow> (str \<times> json) list \<Rightarrow> str \<Rightarrow> ((str \<times> json) list \<times> str) option" where
  "read_value 0 s = None"
| "read_value (Suc n) s0 =
     (let s = skip_ws s0 in
      if starts_with s ''null'' then Some (JNull, drop 4 s)
      else if starts_with s ''true'' then Some (JBool True, drop 4 s)
      else if starts_with s ''false'' then Some (JBool False, drop 5 s)
      else (case s of
         [] \<Rightarrow> None
       | c # r \<Rightarrow>
           if c = CHR 0x22 then map_option (\<lambda>(t, r'). (JStr t, r')) (read_string r)
           else if c = CHR ''['' then
             (case skip_ws r of
                d # r' \<Rightarrow> if d = CHR '']'' then Some (JArr [], r')
                          else map_option (\<lambda>(xs, r''). (JArr xs, r'')) (read_elems n r)
              | [] \<Rightarrow> None)
           else if c = CHR ''{'' then
             (case skip_ws r of
                d # r' \<Rightarrow> if d = CHR ''}'' then Some (JObj [], r')
                          else map_option (\<lambda>(kvs, r''). (JObj kvs, r'')) (read_members n [] r)
              | [] \<Rightarrow> None)
           else map_option (\<lambda>(q, r'). (JNum q, r')) (read_number s)))"
| "read_elems 0 s = None"
| "read_elems (Suc n) s =
     (case read_value n s of
        None \<Rightarrow> None
      | Some (v, r) \<Rightarrow>
          (case skip_ws r of
             [] \<Rightarrow> None
           | c # r' \<Rightarrow>
               if c = CHR '']'' then Some ([v], r')
               else if c = CHR '','' then map_option (\<lambda>(vs, r''). (v # vs, r'')) (read_elems n r')
               else None))"
| "read_members 0 acc s = None"
| "read_members (Suc n) acc s0 =
     (case skip_ws s0 of
        [] \<Rightarrow> None
      | q # s \<Rightarrow>
          if q \<noteq> CHR 0x22 then None
          else (case read_string s of
             None \<Rightarrow> None
           | Some (k, r) \<Rightarrow>
               (case skip_ws r of
                  [] \<Rightarrow> None
                | c # r1 \<Rightarrow>
                    if c \<noteq> CHR '':'' then None
                    else (case read_value n r1 of
                       None \<Rightarrow> None
                     | Some (v, r2) \<Rightarrow>
                         (case skip_ws r2 of
                            [] \<Rightarrow> None
                          | d # r3 \<Rightarrow>
                              if d = CHR ''}'' then Some (obj_put k v acc, r3)
                              else if d = CHR '','' then read_members n (obj_put k v acc) r3
                              else None)))))"

definition json_parse :: "str \<Rightarrow> json option" where
  "json_parse s =
     (case read_value (2 * length s + 1) s of
        Some (v, r) \<Rightarrow> if skip_ws r = [] then Some v else None
      | None \<Rightarrow> None)"

section \<open>Properties, truthiness, numbers\<close>

text \<open>\<^verbatim>\<open>undefined\<close> is \<open>None\<close>; reading a property of \<^verbatim>\<open>null\<close> or
  \<^verbatim>\<open>undefined\<close> throws, which the callers write out.\<close>

definition jget :: "str \<Rightarrow> json \<Rightarrow> json option" where
  "jget k v = (case v of JObj kvs \<Rightarrow> map_of kvs k | _ \<Rightarrow> None)"

definition truthy :: "json option \<Rightarrow> bool" where
  "truthy v =
     (case v of
        None \<Rightarrow> False
      | Some JNull \<Rightarrow> False
      | Some (JBool b) \<Rightarrow> b
      | Some (JNum q) \<Rightarrow> q \<noteq> 0
      | Some (JStr s) \<Rightarrow> s \<noteq> []
      | Some (JArr _) \<Rightarrow> True
      | Some (JObj _) \<Rightarrow> True)"

text \<open>The number a string denotes under \<^verbatim>\<open>Number(s)\<close> (decimal literals; \<open>None\<close> is NaN or infinite).\<close>

definition str_number :: "str \<Rightarrow> rat option" where
  "str_number s0 =
     (let s = trim s0;
          (neg, s1) = (case s of c # r \<Rightarrow> if c = CHR ''-'' then (True, r)
                                   else if c = CHR ''+'' then (False, r) else (False, s)
                       | [] \<Rightarrow> (False, s));
          (ip, s2) = read_digits s1;
          (fp, s3) = (case s2 of c # r \<Rightarrow> if c = CHR ''.'' then read_digits r else ([], s2) | [] \<Rightarrow> ([], s2))
      in if s = [] then Some 0
         else if ip = [] \<and> fp = [] then None
         else (case read_exp s3 of
            Some (e, r) \<Rightarrow> if r = [] then Some (num_value neg ip fp e) else None
          | None \<Rightarrow> None))"

text \<open>\<^verbatim>\<open>Number(x)\<close>; an array converts as the string of its only element.\<close>

fun to_number :: "json option \<Rightarrow> rat option" where
  "to_number None = None"
| "to_number (Some JNull) = Some 0"
| "to_number (Some (JBool b)) = Some (if b then 1 else 0)"
| "to_number (Some (JNum q)) = Some q"
| "to_number (Some (JStr s)) = str_number s"
| "to_number (Some (JArr [])) = Some 0"
| "to_number (Some (JArr [x])) =
     (case x of JNum q \<Rightarrow> Some q | JStr s \<Rightarrow> str_number s | JNull \<Rightarrow> Some 0
      | JArr ys \<Rightarrow> to_number (Some (JArr ys)) | _ \<Rightarrow> None)"
| "to_number (Some (JArr (x # y # zs))) = None"
| "to_number (Some (JObj kvs)) = None"

text \<open>
  \<^verbatim>\<open>x[k]\<close> on any value that is neither \<^verbatim>\<open>null\<close> nor \<^verbatim>\<open>undefined\<close>: arrays and
  strings have indices and a length.
\<close>

definition index_key :: "str \<Rightarrow> nat option" where
  "index_key k =
     (if k \<noteq> [] \<and> list_all is_digit k \<and> (k = ''0'' \<or> hd k \<noteq> CHR ''0'') then Some (digits_val k) else None)"

definition member_of :: "str \<Rightarrow> json \<Rightarrow> json option" where
  "member_of k v =
     (case v of
        JObj kvs \<Rightarrow> map_of kvs k
      | JArr xs \<Rightarrow>
          (if k = ''length'' then Some (JNum (of_nat (length xs)))
           else case index_key k of Some i \<Rightarrow> (if i < length xs then Some (xs ! i) else None) | None \<Rightarrow> None)
      | JStr s \<Rightarrow>
          (if k = ''length'' then Some (JNum (of_nat (length s)))
           else case index_key k of Some i \<Rightarrow> (if i < length s then Some (JStr [s ! i]) else None) | None \<Rightarrow> None)
      | _ \<Rightarrow> None)"

text \<open>\<^verbatim>\<open>a === b\<close> for values from two different texts: objects and arrays are never identical.\<close>

definition strict_eq :: "json option \<Rightarrow> json \<Rightarrow> bool" where
  "strict_eq a b =
     (case a of None \<Rightarrow> False
      | Some v \<Rightarrow> v = b \<and> (case b of JArr _ \<Rightarrow> False | JObj _ \<Rightarrow> False | _ \<Rightarrow> True))"

section \<open>Writing\<close>

definition hex_char :: "nat \<Rightarrow> char" where
  "hex_char n = (if n < 10 then char_of (48 + n) else char_of (87 + n))"

definition escape_char :: "char \<Rightarrow> str" where
  "escape_char c =
     (if c = CHR 0x22 then [CHR 0x5C, CHR 0x22]
      else if c = CHR 0x5C then [CHR 0x5C, CHR 0x5C]
      else if c = CHR 0x08 then [CHR 0x5C, CHR ''b'']
      else if c = CHR 0x0C then [CHR 0x5C, CHR ''f'']
      else if c = CHR 0x0A then [CHR 0x5C, CHR ''n'']
      else if c = CHR 0x0D then [CHR 0x5C, CHR ''r'']
      else if c = CHR 0x09 then [CHR 0x5C, CHR ''t'']
      else if c < CHR 0x20 then
        [CHR 0x5C, CHR ''u'', CHR ''0'', CHR ''0'', hex_char (of_char c div 16), hex_char (of_char c mod 16)]
      else [c])"

definition quote_str :: "str \<Rightarrow> str" where
  "quote_str s = [CHR 0x22] @ concat (map escape_char s) @ [CHR 0x22]"

text \<open>A number is written as its decimal digits, at most 20 of them after the point.\<close>

primrec fraction_digits :: "nat \<Rightarrow> rat \<Rightarrow> str" where
  "fraction_digits 0 q = []"
| "fraction_digits (Suc n) q =
     (if q = 0 then [] else digit_char (nat \<lfloor>10 * q\<rfloor>) # fraction_digits n (10 * q - of_int \<lfloor>10 * q\<rfloor>))"

definition num_text :: "rat \<Rightarrow> str" where
  "num_text q =
     (let n = \<lfloor>\<bar>q\<bar>\<rfloor>; f = fraction_digits 20 (\<bar>q\<bar> - of_int n) in
      (if q < 0 then ''-'' else []) @ int_str n @ (if f = [] then [] else ''.'' @ f))"

fun json_text :: "json \<Rightarrow> str" where
  "json_text JNull = ''null''"
| "json_text (JBool b) = (if b then ''true'' else ''false'')"
| "json_text (JNum q) = num_text q"
| "json_text (JStr s) = quote_str s"
| "json_text (JArr vs) = ''['' @ join '','' (map json_text vs) @ '']''"
| "json_text (JObj kvs) = ''{'' @ join '','' (map (\<lambda>(k, v). quote_str k @ '':'' @ json_text v) kvs) @ ''}''"

text \<open>
  \<^verbatim>\<open>String(x)\<close>. A number with a fraction or above \<^verbatim>\<open>1e21\<close> keeps only its whole part and a
  dot: the modelled code looks at digits only.
\<close>

fun js_string :: "json \<Rightarrow> str" where
  "js_string JNull = ''null''"
| "js_string (JBool b) = (if b then ''true'' else ''false'')"
| "js_string (JNum q) = (if of_int \<lfloor>q\<rfloor> = q \<and> \<bar>q\<bar> < 10 ^ 21 then int_str \<lfloor>q\<rfloor> else int_str \<lfloor>q\<rfloor> @ ''.'')"
| "js_string (JStr s) = s"
| "js_string (JArr vs) = join '','' (map (\<lambda>v. if v = JNull then [] else js_string v) vs)"
| "js_string (JObj kvs) = ''[object Object]''"

section \<open>Lemmas\<close>

lemma map_of_obj_put [simp]: "map_of (obj_put k v kvs) = (map_of kvs)(k \<mapsto> v)"
  by (induction kvs) (auto simp: fun_eq_iff)

lemma truthy_simps [simp]:
  "truthy None = False" "truthy (Some JNull) = False" "truthy (Some (JBool b)) = b"
  "truthy (Some (JNum q)) = (q \<noteq> 0)" "truthy (Some (JStr s)) = (s \<noteq> [])"
  "truthy (Some (JArr vs)) = True" "truthy (Some (JObj kvs)) = True"
  by (simp_all add: truthy_def)

lemma jget_simps [simp]:
  "jget k (JObj kvs) = map_of kvs k" "jget k JNull = None" "jget k (JBool b) = None"
  "jget k (JNum q) = None" "jget k (JStr s) = None" "jget k (JArr vs) = None"
  by (simp_all add: jget_def)

end
