(* ===== verification/Host.thy ===== *)
theory Host
  imports Json
begin

text \<open>
  The system executor's interface (\<^verbatim>\<open>lib/executor.js\<close>, header comment) and programs over it.

  Every operation of ovhost reaches the machine through \<^verbatim>\<open>ctx.exec\<close>. Here the machine is a
  parameter: a \<open>host\<close> record whose fields answer each request, and an answer may depend on
  everything that was requested before (the list of \<open>event\<close>s, newest first), so the theorems
  hold for every behaviour of git, npm, systemd, the file system, the network and the clock. A
  request that can throw answers a sum, \<open>Inl\<close> being the thrown message.

  A program is a state and exception transformer over the event list and a local state
  (the JavaScript objects an operation mutates). Exceptions keep the state, as in the source.
  Log lines (\<^verbatim>\<open>ctx.log\<close>) are left out; they carry no state.
\<close>

section \<open>Requests\<close>

record run_opts =
  o_as :: "str option"
  o_priv :: bool
  o_cwd :: "str option"
  o_input :: "str option"

definition as_owner :: "str \<Rightarrow> run_opts" where
  "as_owner u = \<lparr>o_as = Some u, o_priv = False, o_cwd = None, o_input = None\<rparr>"

definition as_owner_in :: "str \<Rightarrow> str \<Rightarrow> run_opts" where
  "as_owner_in u d = \<lparr>o_as = Some u, o_priv = False, o_cwd = Some d, o_input = None\<rparr>"

definition as_root :: run_opts where
  "as_root = \<lparr>o_as = None, o_priv = True, o_cwd = None, o_input = None\<rparr>"

definition as_self :: run_opts where
  "as_self = \<lparr>o_as = None, o_priv = False, o_cwd = None, o_input = None\<rparr>"

record run_result =
  rc :: int
  rout :: str
  rerr :: str

record file_stat =
  st_is_file :: bool
  st_is_dir :: bool
  st_is_symlink :: bool
  st_nlink :: nat
  st_size :: int
  st_mtime :: int
  st_uid :: int
  st_owner :: str
  st_mode :: int

record http_result =
  hs_status :: int
  hs_body :: str
  hs_error :: "str option"

record listener =
  l_pid :: "int option"
  l_process :: "str option"

record dir_entry =
  e_name :: str
  e_is_dir :: bool

text \<open>
  What the off-site copies ask of the object store (\<^verbatim>\<open>client.send\<close> of the S3 client): the first argument is the
  bucket, the second the key or prefix. A body is a string of bytes.
\<close>

datatype store_cmd =
    Put_Object str str str str
  | Create_Upload str str str
  | Upload_Part str str str nat str
  | Complete_Upload str str str "(str option \<times> nat) list"
  | Abort_Upload str str str
  | List_Objects str str "str option" "nat option"
  | Get_Object str str
  | Delete_Object str str

datatype event =
    ERun str "str list" run_opts
  | ERead str
  | EWrite str str
  | EAppend str str
  | ERemove str
  | ESymlink str str
  | EReadlink str
  | EStat str
  | EStatfs str
  | EReaddir str
  | EMkdir str "str option"
  | ECreate str str
  | EPidAlive int
  | EHttp str
  | ERequest str str str
  | EPsql str str
  | EListeners int
  | EMem
  | EDeployLock str str int
  | EDeployUnlock
  | ENow
  | ESleep int
  | EUserName
  | EHostname
  | ERandom
  | EReadStream str
  | EWriteStream str str
  | EKill int str
  | EStore store_cmd

record host =
  h_run :: "event list \<Rightarrow> str \<Rightarrow> str list \<Rightarrow> run_opts \<Rightarrow> run_result"
  h_read :: "event list \<Rightarrow> str \<Rightarrow> str + str option"
  h_write :: "event list \<Rightarrow> str \<Rightarrow> str \<Rightarrow> str + unit"
  h_append :: "event list \<Rightarrow> str \<Rightarrow> str \<Rightarrow> str + unit"
  h_remove :: "event list \<Rightarrow> str \<Rightarrow> str + unit"
  h_symlink :: "event list \<Rightarrow> str \<Rightarrow> str \<Rightarrow> str + unit"
  h_readlink :: "event list \<Rightarrow> str \<Rightarrow> str option"
  h_stat :: "event list \<Rightarrow> str \<Rightarrow> file_stat option"
  h_statfs :: "event list \<Rightarrow> str \<Rightarrow> str + int"
  h_readdir :: "event list \<Rightarrow> str \<Rightarrow> dir_entry list option"
  h_mkdir :: "event list \<Rightarrow> str \<Rightarrow> str + unit"
  h_create :: "event list \<Rightarrow> str \<Rightarrow> str \<Rightarrow> str + bool"
  h_pid_alive :: "event list \<Rightarrow> int \<Rightarrow> bool"
  h_http :: "event list \<Rightarrow> str \<Rightarrow> http_result"
  h_request :: "event list \<Rightarrow> str \<Rightarrow> str \<Rightarrow> str \<Rightarrow> http_result"
  h_psql :: "event list \<Rightarrow> str \<Rightarrow> str \<Rightarrow> str + (str \<times> str option) list list"
  h_listeners :: "event list \<Rightarrow> int \<Rightarrow> str + listener list"
  h_mem :: "event list \<Rightarrow> str + int option"
  h_deploy_lock :: "event list \<Rightarrow> str \<Rightarrow> str \<Rightarrow> int \<Rightarrow> str + unit"
  h_now :: "event list \<Rightarrow> int"
  h_user_name :: "event list \<Rightarrow> str"
  h_hostname :: "event list \<Rightarrow> str"
  h_random :: "event list \<Rightarrow> str"
  h_read_stream :: "event list \<Rightarrow> str \<Rightarrow> str list \<times> str option"
  h_write_stream :: "event list \<Rightarrow> str \<Rightarrow> str \<Rightarrow> str + unit"
  h_kill :: "event list \<Rightarrow> int \<Rightarrow> str \<Rightarrow> str + bool"
  h_is_root :: bool
  h_collate :: "str \<Rightarrow> str \<Rightarrow> bool"
  h_date_parse :: "str \<Rightarrow> int option"

text \<open>
  \<open>h_is_root\<close> is whether ovhost runs as root, \<open>h_collate a b\<close> is \<^verbatim>\<open>a.localeCompare(b) <= 0\<close>, the collation of the machine's
  locale; \<open>h_date_parse\<close> is the runtime's \<^verbatim>\<open>Date.parse\<close> (\<open>None\<close> is NaN). \<open>h_read_stream\<close> is what a stream yields and the
  error it may end with; a write stream creates its file, and fails when it exists.
  The clock of a machine: it never runs backwards, and a sleep takes at least its time.
\<close>

definition clock_ok :: "host \<Rightarrow> bool" where
  "clock_ok H \<longleftrightarrow>
     (\<forall>tr e. h_now H tr \<le> h_now H (e # tr)) \<and>
     (\<forall>tr ms. h_now H tr + ms \<le> h_now H (ESleep ms # tr))"

section \<open>Exceptions\<close>

text \<open>
  The error classes of the sources. A message keeps its fixed words; interpolated values are left
  out. \<open>OpError\<close> (\<^verbatim>\<open>lib/release-ops.js\<close>) carries its exit code and the optional
  \<^verbatim>\<open>result\<close> of its third argument. \<open>OutOfFuel\<close> is no value of the program: it says
  that the bound given to a polling loop was too small, and the termination theorems exclude it.
\<close>

datatype exc =
    JsError str
  | OpError str nat "str option"
  | LockedError str
  | SocketGuardError str
  | IncidentsError str nat
  | AnnounceError str nat
  | DnsError str nat
  | OffsiteError str nat
  | ArchiveError str nat
  | DrillError str nat
  | InventoryError str
  | UsageError str
  | BackupError str json
  | OutOfFuel

definition exc_message :: "exc \<Rightarrow> str" where
  "exc_message e =
     (case e of
        JsError m \<Rightarrow> m | OpError m x r \<Rightarrow> m | LockedError m \<Rightarrow> m | SocketGuardError m \<Rightarrow> m
      | IncidentsError m x \<Rightarrow> m | AnnounceError m x \<Rightarrow> m | DnsError m x \<Rightarrow> m | OffsiteError m x \<Rightarrow> m
      | ArchiveError m x \<Rightarrow> m | DrillError m x \<Rightarrow> m | InventoryError m \<Rightarrow> m | UsageError m \<Rightarrow> m | BackupError m r \<Rightarrow> m | OutOfFuel \<Rightarrow> [])"

section \<open>Programs\<close>

type_synonym 'l state = "event list \<times> 'l"
type_synonym ('l, 'a) prog = "'l state \<Rightarrow> (exc + 'a) \<times> 'l state"

definition ret :: "'a \<Rightarrow> ('l, 'a) prog" where
  "ret x = (\<lambda>s. (Inr x, s))"

definition throw :: "exc \<Rightarrow> ('l, 'a) prog" where
  "throw e = (\<lambda>s. (Inl e, s))"

definition bind :: "('l, 'a) prog \<Rightarrow> ('a \<Rightarrow> ('l, 'b) prog) \<Rightarrow> ('l, 'b) prog" where
  "bind m f = (\<lambda>s. case m s of (Inl e, s') \<Rightarrow> (Inl e, s') | (Inr x, s') \<Rightarrow> f x s')"

definition andthen :: "('l, 'a) prog \<Rightarrow> ('l, 'b) prog \<Rightarrow> ('l, 'b) prog" where
  "andthen m k = bind m (\<lambda>_. k)"

definition try_catch :: "('l, 'a) prog \<Rightarrow> (exc \<Rightarrow> ('l, 'a) prog) \<Rightarrow> ('l, 'a) prog" where
  "try_catch m h =
     (\<lambda>s. case m s of
        (Inl e, s') \<Rightarrow> (if e = OutOfFuel then (Inl e, s') else h e s')
      | (Inr x, s') \<Rightarrow> (Inr x, s'))"

text \<open>No handler sees \<open>OutOfFuel\<close>. \<^verbatim>\<open>try { m } finally { f }\<close>: an exception of \<open>f\<close> replaces the outcome of \<open>m\<close>.\<close>

definition try_finally :: "('l, 'a) prog \<Rightarrow> ('l, unit) prog \<Rightarrow> ('l, 'a) prog" where
  "try_finally m f =
     (\<lambda>s. case m s of (r, s') \<Rightarrow>
        (case f s' of (Inl e, s'') \<Rightarrow> (Inl e, s'') | (Inr _, s'') \<Rightarrow> (r, s'')))"

definition getl :: "('l, 'l) prog" where
  "getl = (\<lambda>(tr, l). (Inr l, (tr, l)))"

definition modl :: "('l \<Rightarrow> 'l) \<Rightarrow> ('l, unit) prog" where
  "modl f = (\<lambda>(tr, l). (Inr (), (tr, f l)))"

definition whenever :: "bool \<Rightarrow> ('l, unit) prog \<Rightarrow> ('l, unit) prog" where
  "whenever b m = (if b then m else ret ())"

primrec each :: "('a \<Rightarrow> ('l, unit) prog) \<Rightarrow> 'a list \<Rightarrow> ('l, unit) prog" where
  "each f [] = ret ()"
| "each f (x # xs) = andthen (f x) (each f xs)"

primrec foldp :: "('b \<Rightarrow> 'a \<Rightarrow> ('l, 'b) prog) \<Rightarrow> 'b \<Rightarrow> 'a list \<Rightarrow> ('l, 'b) prog" where
  "foldp f b [] = ret b"
| "foldp f b (x # xs) = bind (f b x) (\<lambda>b'. foldp f b' xs)"

definition mapp :: "('a \<Rightarrow> ('l, 'b) prog) \<Rightarrow> 'a list \<Rightarrow> ('l, 'b list) prog" where
  "mapp f xs = foldp (\<lambda>acc x. bind (f x) (\<lambda>y. ret (acc @ [y]))) [] xs"

definition filterp :: "('a \<Rightarrow> ('l, bool) prog) \<Rightarrow> 'a list \<Rightarrow> ('l, 'a list) prog" where
  "filterp f xs = foldp (\<lambda>acc x. bind (f x) (\<lambda>b. ret (if b then acc @ [x] else acc))) [] xs"

definition of_sum :: "exc + 'a \<Rightarrow> ('l, 'a) prog" where
  "of_sum r = (case r of Inl e \<Rightarrow> throw e | Inr x \<Rightarrow> ret x)"

text \<open>A program over a state of its own.\<close>

definition with_state :: "'m \<Rightarrow> ('m, unit) prog \<Rightarrow> ('l, 'm) prog" where
  "with_state m0 p =
     (\<lambda>(tr, l). case p (tr, m0) of
        (Inl e, tr', m) \<Rightarrow> (Inl e, tr', l)
      | (Inr _, tr', m) \<Rightarrow> (Inr m, tr', l))"

section \<open>The executor's operations\<close>

definition ask :: "event \<Rightarrow> (event list \<Rightarrow> 'a) \<Rightarrow> ('l, 'a) prog" where
  "ask e f = (\<lambda>(tr, l). (Inr (f tr), (e # tr, l)))"

definition ask_or :: "event \<Rightarrow> (event list \<Rightarrow> str + 'a) \<Rightarrow> ('l, 'a) prog" where
  "ask_or e f =
     (\<lambda>(tr, l). ((case f tr of Inl m \<Rightarrow> Inl (JsError m) | Inr x \<Rightarrow> Inr x), (e # tr, l)))"

definition exec_run :: "host \<Rightarrow> str \<Rightarrow> str list \<Rightarrow> run_opts \<Rightarrow> ('l, run_result) prog" where
  "exec_run H c as opts = ask (ERun c as opts) (\<lambda>tr. h_run H tr c as opts)"

definition exec_read :: "host \<Rightarrow> str \<Rightarrow> ('l, str option) prog" where
  "exec_read H p = ask_or (ERead p) (\<lambda>tr. h_read H tr p)"

definition exec_write :: "host \<Rightarrow> str \<Rightarrow> str \<Rightarrow> ('l, unit) prog" where
  "exec_write H p t = ask_or (EWrite p t) (\<lambda>tr. h_write H tr p t)"

definition exec_append :: "host \<Rightarrow> str \<Rightarrow> str \<Rightarrow> ('l, unit) prog" where
  "exec_append H p t = ask_or (EAppend p t) (\<lambda>tr. h_append H tr p t)"

definition exec_remove :: "host \<Rightarrow> str \<Rightarrow> ('l, unit) prog" where
  "exec_remove H p = ask_or (ERemove p) (\<lambda>tr. h_remove H tr p)"

definition exec_symlink :: "host \<Rightarrow> str \<Rightarrow> str \<Rightarrow> ('l, unit) prog" where
  "exec_symlink H target p = ask_or (ESymlink target p) (\<lambda>tr. h_symlink H tr target p)"

definition exec_readlink :: "host \<Rightarrow> str \<Rightarrow> ('l, str option) prog" where
  "exec_readlink H p = ask (EReadlink p) (\<lambda>tr. h_readlink H tr p)"

definition exec_stat :: "host \<Rightarrow> str \<Rightarrow> ('l, file_stat option) prog" where
  "exec_stat H p = ask (EStat p) (\<lambda>tr. h_stat H tr p)"

definition exec_statfs :: "host \<Rightarrow> str \<Rightarrow> ('l, int) prog" where
  "exec_statfs H p = ask_or (EStatfs p) (\<lambda>tr. h_statfs H tr p)"

definition exec_readdir :: "host \<Rightarrow> str \<Rightarrow> ('l, dir_entry list option) prog" where
  "exec_readdir H p = ask (EReaddir p) (\<lambda>tr. h_readdir H tr p)"

definition exec_mkdir :: "host \<Rightarrow> str \<Rightarrow> str option \<Rightarrow> ('l, unit) prog" where
  "exec_mkdir H p owner = ask_or (EMkdir p owner) (\<lambda>tr. h_mkdir H tr p)"

definition exec_create :: "host \<Rightarrow> str \<Rightarrow> str \<Rightarrow> ('l, bool) prog" where
  "exec_create H p t = ask_or (ECreate p t) (\<lambda>tr. h_create H tr p t)"

definition exec_pid_alive :: "host \<Rightarrow> int \<Rightarrow> ('l, bool) prog" where
  "exec_pid_alive H pid = ask (EPidAlive pid) (\<lambda>tr. h_pid_alive H tr pid)"

definition exec_http :: "host \<Rightarrow> str \<Rightarrow> ('l, http_result) prog" where
  "exec_http H url = ask (EHttp url) (\<lambda>tr. h_http H tr url)"

definition exec_request :: "host \<Rightarrow> str \<Rightarrow> str \<Rightarrow> str \<Rightarrow> ('l, http_result) prog" where
  "exec_request H meth url b = ask (ERequest meth url b) (\<lambda>tr. h_request H tr meth url b)"

definition exec_psql :: "host \<Rightarrow> str \<Rightarrow> str \<Rightarrow> ('l, (str \<times> str option) list list) prog" where
  "exec_psql H db sql = ask_or (EPsql db sql) (\<lambda>tr. h_psql H tr db sql)"

definition exec_listeners :: "host \<Rightarrow> int \<Rightarrow> ('l, listener list) prog" where
  "exec_listeners H port = ask_or (EListeners port) (\<lambda>tr. h_listeners H tr port)"

definition exec_mem :: "host \<Rightarrow> ('l, int option) prog" where
  "exec_mem H = ask_or EMem (\<lambda>tr. h_mem H tr)"

definition exec_deploy_lock :: "host \<Rightarrow> str \<Rightarrow> str \<Rightarrow> int \<Rightarrow> ('l, unit) prog" where
  "exec_deploy_lock H file svc secs =
     ask_or (EDeployLock file svc secs) (\<lambda>tr. h_deploy_lock H tr file svc secs)"

definition exec_deploy_unlock :: "host \<Rightarrow> ('l, unit) prog" where
  "exec_deploy_unlock H = ask EDeployUnlock (\<lambda>_. ())"

definition exec_now :: "host \<Rightarrow> ('l, int) prog" where
  "exec_now H = ask ENow (\<lambda>tr. h_now H tr)"

definition exec_sleep :: "host \<Rightarrow> int \<Rightarrow> ('l, unit) prog" where
  "exec_sleep H ms = ask (ESleep ms) (\<lambda>_. ())"

definition exec_user_name :: "host \<Rightarrow> ('l, str) prog" where
  "exec_user_name H = ask EUserName (\<lambda>tr. h_user_name H tr)"

definition exec_hostname :: "host \<Rightarrow> ('l, str) prog" where
  "exec_hostname H = ask EHostname (\<lambda>tr. h_hostname H tr)"

definition exec_read_stream :: "host \<Rightarrow> str \<Rightarrow> ('l, str list \<times> str option) prog" where
  "exec_read_stream H p = ask (EReadStream p) (\<lambda>tr. h_read_stream H tr p)"

definition exec_write_stream :: "host \<Rightarrow> str \<Rightarrow> str \<Rightarrow> ('l, unit) prog" where
  "exec_write_stream H p t = ask_or (EWriteStream p t) (\<lambda>tr. h_write_stream H tr p t)"

definition exec_kill :: "host \<Rightarrow> int \<Rightarrow> str \<Rightarrow> ('l, bool) prog" where
  "exec_kill H pid sig = ask_or (EKill pid sig) (\<lambda>tr. h_kill H tr pid sig)"

definition random_hex :: "host \<Rightarrow> ('l, str) prog" where
  "random_hex H = ask ERandom (\<lambda>tr. h_random H tr)"

text \<open>\<^verbatim>\<open>xs.sort((a, b) => a.localeCompare(b))\<close>: a stable insertion sort by the collation.\<close>

fun insert_by :: "('a \<Rightarrow> 'a \<Rightarrow> bool) \<Rightarrow> 'a \<Rightarrow> 'a list \<Rightarrow> 'a list" where
  "insert_by le x [] = [x]"
| "insert_by le x (y # ys) = (if le x y then x # y # ys else y # insert_by le x ys)"

definition sort_by :: "('a \<Rightarrow> 'a \<Rightarrow> bool) \<Rightarrow> 'a list \<Rightarrow> 'a list" where
  "sort_by le xs = foldr (insert_by le) xs []"

lemma set_insert_by [simp]: "set (insert_by le x ys) = insert x (set ys)"
  by (induction ys) auto

lemma set_sort_by [simp]: "set (sort_by le xs) = set xs"
  unfolding sort_by_def by (induction xs) auto

lemma length_insert_by [simp]: "length (insert_by le x ys) = Suc (length ys)"
  by (induction ys) auto

lemma length_sort_by [simp]: "length (sort_by le xs) = length xs"
  unfolding sort_by_def by (induction xs) auto

section \<open>Evaluation\<close>

named_theorems prog_simps \<open>run a program on a concrete host\<close>

lemmas [prog_simps] =
  ret_def throw_def bind_def andthen_def try_catch_def try_finally_def getl_def modl_def
  whenever_def of_sum_def ask_def ask_or_def mapp_def filterp_def
  exec_run_def exec_read_def exec_write_def exec_append_def exec_remove_def exec_symlink_def
  exec_readlink_def exec_stat_def exec_statfs_def exec_readdir_def exec_mkdir_def exec_create_def
  exec_pid_alive_def exec_http_def exec_request_def exec_psql_def exec_listeners_def exec_mem_def
  exec_deploy_lock_def exec_deploy_unlock_def exec_now_def exec_sleep_def exec_user_name_def
  exec_hostname_def random_hex_def exec_read_stream_def exec_write_stream_def exec_kill_def

section \<open>Footprints\<close>

text \<open>
  \<open>emits A m\<close>: whatever the host answers, \<open>m\<close> only makes requests that satisfy \<open>A\<close>
  and forgets none of the earlier ones. \<open>frames m\<close>: \<open>m\<close> leaves the local state alone.
\<close>

definition emits :: "(event \<Rightarrow> bool) \<Rightarrow> ('l, 'a) prog \<Rightarrow> bool" where
  "emits A m \<longleftrightarrow>
     (\<forall>tr l. \<exists>es. fst (snd (m (tr, l))) = es @ tr \<and> (\<forall>e \<in> set es. A e))"

definition frames :: "('l, 'a) prog \<Rightarrow> bool" where
  "frames m \<longleftrightarrow> (\<forall>tr l. snd (snd (m (tr, l))) = l)"

named_theorems emits_rules \<open>footprints of the program constructors and operations\<close>
named_theorems frames_rules \<open>operations that leave the local state alone\<close>

lemma emitsI:
  "(\<And>tr l. \<exists>es. fst (snd (m (tr, l))) = es @ tr \<and> (\<forall>e \<in> set es. A e)) \<Longrightarrow> emits A m"
  by (simp add: emits_def)

lemma emitsD:
  assumes "emits A m" and "m (tr, l) = (r, tr', l')"
  obtains es where "tr' = es @ tr" and "\<forall>e \<in> set es. A e"
  using assms unfolding emits_def by (metis fst_conv snd_conv)

lemma emits_ret [emits_rules]: "emits A (ret x)"
  by (simp add: emits_def ret_def)

lemma emits_throw [emits_rules]: "emits A (throw e)"
  by (simp add: emits_def throw_def)

lemma emits_getl [emits_rules]: "emits A getl"
  by (simp add: emits_def getl_def)

lemma emits_modl [emits_rules]: "emits A (modl f)"
  by (simp add: emits_def modl_def)

lemma emits_bind [emits_rules]:
  assumes m: "emits A m" and f: "\<And>x. emits A (f x)"
  shows "emits A (bind m f)"
proof (rule emitsI)
  fix tr l
  obtain r tr' l' where run: "m (tr, l) = (r, tr', l')" by (cases "m (tr, l)") auto
  from m run obtain es where es: "tr' = es @ tr" "\<forall>e \<in> set es. A e" by (rule emitsD)
  show "\<exists>es. fst (snd (bind m f (tr, l))) = es @ tr \<and> (\<forall>e \<in> set es. A e)"
  proof (cases r)
    case (Inl e)
    with run es show ?thesis by (auto simp: bind_def)
  next
    case (Inr x)
    obtain r2 tr2 l2 where run2: "f x (tr', l') = (r2, tr2, l2)" by (cases "f x (tr', l')") auto
    from f [of x] run2 obtain es2 where "tr2 = es2 @ tr'" "\<forall>e \<in> set es2. A e" by (rule emitsD)
    with run run2 Inr es show ?thesis
      by (intro exI [of _ "es2 @ es"]) (auto simp: bind_def)
  qed
qed

lemma emits_andthen [emits_rules]: "emits A m \<Longrightarrow> emits A k \<Longrightarrow> emits A (andthen m k)"
  unfolding andthen_def by (rule emits_bind)

lemma emits_try_catch [emits_rules]:
  assumes m: "emits A m" and h: "\<And>e. emits A (h e)"
  shows "emits A (try_catch m h)"
proof (rule emitsI)
  fix tr l
  obtain r tr' l' where run: "m (tr, l) = (r, tr', l')" by (cases "m (tr, l)") auto
  from m run obtain es where es: "tr' = es @ tr" "\<forall>e \<in> set es. A e" by (rule emitsD)
  show "\<exists>es. fst (snd (try_catch m h (tr, l))) = es @ tr \<and> (\<forall>e \<in> set es. A e)"
  proof (cases r)
    case (Inr x)
    with run es show ?thesis by (auto simp: try_catch_def)
  next
    case (Inl e)
    obtain r2 tr2 l2 where run2: "h e (tr', l') = (r2, tr2, l2)" by (cases "h e (tr', l')") auto
    from h [of e] run2 obtain es2 where "tr2 = es2 @ tr'" "\<forall>e \<in> set es2. A e" by (rule emitsD)
    with run run2 Inl es show ?thesis
      by (cases "e = OutOfFuel") (auto simp: try_catch_def intro!: exI [of _ "es2 @ es"])
  qed
qed

lemma emits_try_finally [emits_rules]:
  assumes m: "emits A m" and f: "emits A f"
  shows "emits A (try_finally m f)"
proof (rule emitsI)
  fix tr l
  obtain r tr' l' where run: "m (tr, l) = (r, tr', l')" by (cases "m (tr, l)") auto
  from m run obtain es where es: "tr' = es @ tr" "\<forall>e \<in> set es. A e" by (rule emitsD)
  obtain r2 tr2 l2 where run2: "f (tr', l') = (r2, tr2, l2)" by (cases "f (tr', l')") auto
  from f run2 obtain es2 where es2: "tr2 = es2 @ tr'" "\<forall>e \<in> set es2. A e" by (rule emitsD)
  show "\<exists>es. fst (snd (try_finally m f (tr, l))) = es @ tr \<and> (\<forall>e \<in> set es. A e)"
    using run run2 es es2
    by (intro exI [of _ "es2 @ es"]) (auto simp: try_finally_def split: sum.splits)
qed

lemma emits_if [emits_rules]:
  "(b \<Longrightarrow> emits A m) \<Longrightarrow> (\<not> b \<Longrightarrow> emits A n) \<Longrightarrow> emits A (if b then m else n)"
  by simp

lemma emits_whenever [emits_rules]: "(b \<Longrightarrow> emits A m) \<Longrightarrow> emits A (whenever b m)"
  by (simp add: whenever_def emits_ret)

lemma emits_option [emits_rules]:
  "(x = None \<Longrightarrow> emits A m) \<Longrightarrow> (\<And>y. x = Some y \<Longrightarrow> emits A (f y)) \<Longrightarrow>
   emits A (case x of None \<Rightarrow> m | Some y \<Rightarrow> f y)"
  by (cases x) simp_all

lemma emits_prod [emits_rules]:
  "(\<And>a b. x = (a, b) \<Longrightarrow> emits A (f a b)) \<Longrightarrow> emits A (case x of (a, b) \<Rightarrow> f a b)"
  by (cases x) simp

lemma emits_prod_app [emits_rules]:
  "(\<And>a b. x = (a, b) \<Longrightarrow> emits A (f a b y)) \<Longrightarrow> emits A ((case x of (a, b) \<Rightarrow> f a b) y)"
  by (cases x) simp

lemma emits_list [emits_rules]:
  "(x = [] \<Longrightarrow> emits A m) \<Longrightarrow> (\<And>y ys. x = y # ys \<Longrightarrow> emits A (f y ys)) \<Longrightarrow>
   emits A (case x of [] \<Rightarrow> m | y # ys \<Rightarrow> f y ys)"
  by (cases x) simp_all

lemma emits_Let [emits_rules]: "(\<And>y. y = x \<Longrightarrow> emits A (f y)) \<Longrightarrow> emits A (let y = x in f y)"
  by simp

lemma emits_foldp [emits_rules]:
  "(\<And>b x. x \<in> set xs \<Longrightarrow> emits A (f b x)) \<Longrightarrow> emits A (foldp f b xs)"
  by (induction xs arbitrary: b) (auto intro!: emits_ret emits_bind)

lemma emits_each [emits_rules]:
  "(\<And>x. x \<in> set xs \<Longrightarrow> emits A (f x)) \<Longrightarrow> emits A (each f xs)"
  by (induction xs) (auto intro!: emits_ret emits_andthen)

lemma emits_mapp [emits_rules]:
  "(\<And>x. x \<in> set xs \<Longrightarrow> emits A (f x)) \<Longrightarrow> emits A (mapp f xs)"
  unfolding mapp_def by (intro emits_foldp emits_bind emits_ret)

lemma emits_filterp [emits_rules]:
  "(\<And>x. x \<in> set xs \<Longrightarrow> emits A (f x)) \<Longrightarrow> emits A (filterp f xs)"
  unfolding filterp_def by (intro emits_foldp emits_bind emits_ret)

lemma emits_of_sum [emits_rules]: "emits A (of_sum r)"
  unfolding of_sum_def by (cases r) (simp_all add: emits_ret emits_throw)

lemma emits_ask: "A e \<Longrightarrow> emits A (ask e f)"
  unfolding emits_def ask_def by auto

lemma emits_ask_or: "A e \<Longrightarrow> emits A (ask_or e f)"
  unfolding emits_def ask_or_def by auto

lemma emits_exec [emits_rules]:
  "A (ERun c as opts) \<Longrightarrow> emits A (exec_run H c as opts)"
  "A (ERead p) \<Longrightarrow> emits A (exec_read H p)"
  "A (EWrite p t) \<Longrightarrow> emits A (exec_write H p t)"
  "A (EAppend p t) \<Longrightarrow> emits A (exec_append H p t)"
  "A (ERemove p) \<Longrightarrow> emits A (exec_remove H p)"
  "A (ESymlink t p) \<Longrightarrow> emits A (exec_symlink H t p)"
  "A (EReadlink p) \<Longrightarrow> emits A (exec_readlink H p)"
  "A (EStat p) \<Longrightarrow> emits A (exec_stat H p)"
  "A (EStatfs p) \<Longrightarrow> emits A (exec_statfs H p)"
  "A (EReaddir p) \<Longrightarrow> emits A (exec_readdir H p)"
  "A (EMkdir p ow) \<Longrightarrow> emits A (exec_mkdir H p ow)"
  "A (ECreate p t) \<Longrightarrow> emits A (exec_create H p t)"
  "A (EPidAlive pid) \<Longrightarrow> emits A (exec_pid_alive H pid)"
  "A (EHttp u) \<Longrightarrow> emits A (exec_http H u)"
  "A (ERequest me u b) \<Longrightarrow> emits A (exec_request H me u b)"
  "A (EPsql db q) \<Longrightarrow> emits A (exec_psql H db q)"
  "A (EListeners port) \<Longrightarrow> emits A (exec_listeners H port)"
  "A EMem \<Longrightarrow> emits A (exec_mem H)"
  "A (EDeployLock f s secs) \<Longrightarrow> emits A (exec_deploy_lock H f s secs)"
  "A EDeployUnlock \<Longrightarrow> emits A (exec_deploy_unlock H)"
  "A ENow \<Longrightarrow> emits A (exec_now H)"
  "A (ESleep ms) \<Longrightarrow> emits A (exec_sleep H ms)"
  "A EUserName \<Longrightarrow> emits A (exec_user_name H)"
  "A EHostname \<Longrightarrow> emits A (exec_hostname H)"
  "A ERandom \<Longrightarrow> emits A (random_hex H)"
  "A (EReadStream p) \<Longrightarrow> emits A (exec_read_stream H p)"
  "A (EWriteStream p t) \<Longrightarrow> emits A (exec_write_stream H p t)"
  "A (EKill pid sig) \<Longrightarrow> emits A (exec_kill H pid sig)"
  by (simp_all add: emits_ask emits_ask_or exec_run_def exec_read_def exec_write_def
      exec_append_def exec_remove_def exec_symlink_def exec_readlink_def exec_stat_def exec_statfs_def
      exec_readdir_def exec_mkdir_def exec_create_def exec_pid_alive_def exec_http_def
      exec_request_def exec_psql_def exec_listeners_def exec_mem_def exec_deploy_lock_def
      exec_deploy_unlock_def exec_now_def exec_sleep_def exec_user_name_def exec_hostname_def
      random_hex_def exec_read_stream_def exec_write_stream_def exec_kill_def)

lemma emits_mono: "emits A m \<Longrightarrow> (\<And>e. A e \<Longrightarrow> B e) \<Longrightarrow> emits B m"
  unfolding emits_def by meson

end
