(* ===== verification/Service.thy ===== *)
theory Service
  imports Host
begin

text \<open>
  The normalised inventory entry of a service, as \<^verbatim>\<open>normaliseService\<close> and
  \<^verbatim>\<open>normalise\<close> of \<^verbatim>\<open>lib/inventory.js\<close> build it: one record per
  JavaScript object, one field per property the deploy engine reads. A property that may be
  \<^verbatim>\<open>null\<close> is an option; a map from names to values is an association list, so that
  \<^verbatim>\<open>Object.entries\<close> keeps its order.
\<close>

record install_cfg =
  i_command :: "str list"
  i_always :: bool
  i_restore_lockfile :: bool
  i_lockfile :: str
  i_workspace :: bool

record drain_cfg =
  d_policy :: str
  d_wait_max_seconds :: int
  d_poll_seconds :: int
  d_quiet_checks :: int

record ready_cfg =
  rd_url :: str
  rd_timeout_seconds :: int
  rd_release :: bool
  rd_all_units :: bool

datatype probe_cfg =
    HttpJsonCount str "str option" "(str \<times> json) list" str "str list"
  | PostgresqlCount str str
  | SumCount "probe_cfg list"
  | OtherKind str

record protected_cfg =
  p_label :: "str option"
  p_probe :: probe_cfg

record preflight_check =
  c_label :: str
  c_packages :: "str list option"
  c_argv :: "str list"

record preflight_cfg =
  pf_syntax_check :: bool
  pf_dirs :: "str list"
  pf_checks :: "preflight_check list"

record aux_unit =
  a_unit :: str
  a_restart_on :: "str list"
  a_apply_on :: "str list"
  a_apply_hint :: "str option"

record nginx_cfg =
  n_vhost :: "str option"
  n_repo_vhost :: "str option"
  n_repo_vhosts :: "str option"
  n_skip_vhosts :: "str list"
  n_install_on_deploy :: bool
  n_domains :: "str list option"
  n_variant :: "str option"
  n_sse_paths :: "str list option"
  n_ws_paths :: "str list option"
  n_cert_name :: "str option"
  n_max_body :: "str option"

record release_cfg =
  r_git :: str
  r_releases_dir :: str
  r_current :: str
  r_id :: str
  r_links :: "(str \<times> str) list"
  r_reuse_modules :: bool
  r_chown :: "str option"
  r_keep :: nat
  r_settle_seconds :: int
  r_socket_port :: "int option"

record guard_cfg =
  g_min_available_mib :: int
  g_memory_wait_seconds :: int
  g_memory_poll_seconds :: int
  g_lock_wait_seconds :: int

record database =
  db_name :: str
  db_database :: str
  db_engine :: str

record object_dir =
  ob_name :: str
  ob_path :: str
  ob_verify :: bool

text \<open>
  The drill block. A target names the environment variables that take the URL of a restored database; the headers of a
  request are left out.
\<close>

record compare_cfg =
  cc_path :: str
  cc_ignore :: "str list"

record acceptance_cfg =
  ac_path :: str
  ac_status :: int
  ac_keys :: "str list"

record drill_cfg =
  dc_port :: int
  dc_databases :: "(str \<times> str \<times> str) list"
  dc_env :: "(str \<times> str) list"
  dc_dirs :: "str list"
  dc_command :: "str list option"
  dc_unit :: "str option"
  dc_production_port :: "int option"
  dc_bind :: "(str \<times> str) list"
  dc_requires :: "(str \<times> str) list"
  dc_ready :: str
  dc_ready_timeout :: int
  dc_compare :: "compare_cfg list"
  dc_counts :: "(str \<times> str) list"
  dc_counts_tolerance :: int
  dc_acceptance :: "acceptance_cfg list"
  dc_outbound :: bool
  dc_runtime_max :: int

datatype drill_block = Drill_Off | Drill_On drill_cfg

text \<open>The required names of the env file: listed, or those of the checkout's example.\<close>

datatype required_names = Listed "str list" | From_Example

record service =
  s_id :: str
  s_repo :: str
  s_manifest :: str
  s_code_dir :: str
  s_layout :: str
  s_origin :: "str option"
  s_owner :: str
  s_run_as :: str
  s_remote :: str
  s_branch :: str
  s_strategy :: str
  s_release :: release_cfg
  s_managed :: bool
  s_deploy_policy :: str
  s_skip_packages :: "str list"
  s_remove_untracked_lockfiles :: bool
  s_generated :: "str list"
  s_preflight :: preflight_cfg
  s_install_units :: bool
  s_enable_units :: bool
  s_units_match :: "str option"
  s_release_files :: "str option"
  s_units :: "str list"
  s_worker_units :: "str list"
  s_auxiliary_units :: "aux_unit list"
  s_socket_unit :: "str option"
  s_unit_sources :: "(str \<times> str) list"
  s_port :: "int option"
  s_ready :: "ready_cfg option"
  s_packages :: "str list"
  s_install :: install_cfg
  s_build :: "str list list"
  s_no_restart_paths :: "str list"
  s_protected :: "protected_cfg option"
  s_drain :: drain_cfg
  s_databases :: "database list"
  s_objects :: "object_dir list"
  s_backup_on_change :: "str list"
  s_nginx :: "nginx_cfg option"
  s_env_file :: "str option"
  s_env_required :: required_names
  s_env_example :: str
  s_lifecycle :: "json option"
  s_drill :: "drill_block option"
  s_deploy_guard :: guard_cfg

record nginx_dirs =
  sites_available :: str
  sites_enabled :: str
  nginx_bin :: str

record inventory =
  inv_host :: json
  inv_state_dir :: str
  inv_backup_dir :: str
  inv_backup_staging_dir :: str
  inv_drill_dir :: str
  inv_deploy_guard :: guard_cfg
  inv_nginx :: nginx_dirs
  inv_events_env_file :: "str option"
  inv_node_source :: str
  inv_nodes :: "(str \<times> json) list list"
  inv_services :: "(str \<times> service) list"

text \<open>
  \<^verbatim>\<open>ctx\<close>: the executor and the inventory every operation takes, with what the code reads of
  its own process (\<^verbatim>\<open>process.pid\<close>, \<^verbatim>\<open>process.env.SUDO_USER\<close>). \<open>ctx_fuel\<close>
  bounds the polling loops (\<open>Locks\<close>, \<open>Readiness\<close> and \<open>Sessions\<close> show bounds that suffice).
\<close>

record ctx =
  exec :: host
  inv :: inventory
  ctx_pid :: int
  ctx_sudo_user :: "str option"
  ctx_fuel :: nat

text \<open>\<^verbatim>\<open>service(inv, id)\<close>: the entry, or an error for an unknown id.\<close>

definition find_service :: "inventory \<Rightarrow> str \<Rightarrow> ('l, service) prog" where
  "find_service i sid =
     (case map_of (inv_services i) sid of
        Some s \<Rightarrow> ret s
      | None \<Rightarrow> throw (InventoryError ''unknown service''))"

text \<open>
  What \<^verbatim>\<open>normaliseService\<close> guarantees of an entry and the deploy engine relies on: a unit to
  restart is never a socket unit, and the commands an operator configures are not systemctl.
\<close>

definition argv_ok :: "str list \<Rightarrow> bool" where
  "argv_ok argv \<longleftrightarrow> argv \<noteq> [] \<and> hd argv \<noteq> ''systemctl''"

definition units_ok :: "service \<Rightarrow> bool" where
  "units_ok svc \<longleftrightarrow>
     (\<forall>u \<in> set (s_units svc). \<not> ends_with u ''.socket'') \<and>
     (\<forall>a \<in> set (s_auxiliary_units svc). \<not> ends_with (a_unit a) ''.socket'')"

definition units_named :: "service \<Rightarrow> bool" where
  "units_named svc \<longleftrightarrow> [] \<notin> set (s_units svc) \<and> (\<forall>a \<in> set (s_auxiliary_units svc). a_unit a \<noteq> [])"

definition commands_ok :: "service \<Rightarrow> bool" where
  "commands_ok svc \<longleftrightarrow>
     argv_ok (i_command (s_install svc)) \<and>
     (\<forall>b \<in> set (s_build svc). argv_ok b) \<and>
     (\<forall>c \<in> set (pf_checks (s_preflight svc)). argv_ok (c_argv c))"

end
