(* ===== verification/Systemd.thy ===== *)
theory Systemd
  imports Service
begin

text \<open>
  The systemd adapter, \<^verbatim>\<open>lib/systemd.js\<close>: the guarded \<open>systemctl\<close>, the parser of
  \<^verbatim>\<open>systemctl show\<close>, and the operations built on them. The lemmas show that the only way to stop or
  restart a socket unit is \<open>rebind_socket\<close> with one of its two reasons.
\<close>

section \<open>Actions\<close>

definition socket_safe_actions :: "str list" where
  "socket_safe_actions =
     [''show'', ''is-active'', ''is-enabled'', ''start'', ''enable'', ''cat'', ''status'',
      ''list-units'', ''list-unit-files'']"

definition allowed_actions :: "str list" where
  "allowed_actions =
     [''show'', ''is-active'', ''is-enabled'', ''start'', ''enable'', ''restart'', ''reload'',
      ''cat'', ''status'', ''daemon-reload'', ''list-units'', ''list-unit-files'']"

definition read_only_actions :: "str list" where
  "read_only_actions =
     [''show'', ''is-active'', ''is-enabled'', ''cat'', ''status'', ''list-units'', ''list-unit-files'']"

definition show_props :: "str list" where
  "show_props =
     [''LoadState'', ''ActiveState'', ''SubState'', ''MainPID'', ''FragmentPath'', ''UnitFileState'',
      ''DropInPaths'', ''PartOf'', ''NRestarts'', ''TimeoutStopUSec'', ''KillSignal'', ''Type'']"

definition run_opts_for :: "str \<Rightarrow> run_opts" where
  "run_opts_for action = (if action \<in> set read_only_actions then as_self else as_root)"

text \<open>The unit argument is \<open>None\<close> for \<^verbatim>\<open>daemon-reload\<close>.\<close>

definition systemctl_args :: "str \<Rightarrow> str option \<Rightarrow> str list" where
  "systemctl_args action uopt =
     (let u = (case uopt of Some u \<Rightarrow> u | None \<Rightarrow> ''undefined'') in
      if action = ''show'' then [''show'', u, ''--property='' @ join '','' show_props]
      else if action = ''list-units'' then
        [''list-units'', ''--all'', ''--plain'', ''--no-legend'', ''--no-pager'', u]
      else if action = ''list-unit-files'' then
        [''list-unit-files'', ''--no-legend'', ''--no-pager'', u]
      else (case uopt of Some u' \<Rightarrow> (if u' = [] then [action] else [action, u']) | None \<Rightarrow> [action]))"

definition names_socket :: "str option \<Rightarrow> bool" where
  "names_socket uopt = (case uopt of Some u \<Rightarrow> u \<noteq> [] \<and> ends_with u ''.socket'' | None \<Rightarrow> False)"

definition systemctl :: "host \<Rightarrow> str \<Rightarrow> str option \<Rightarrow> ('l, run_result) prog" where
  "systemctl H action uopt =
     (if action \<notin> set allowed_actions then throw (JsError ''ovhost does not run systemctl'')
      else if names_socket uopt \<and> action \<notin> set socket_safe_actions
      then throw (SocketGuardError ''socket units are never stopped or restarted'')
      else exec_run H ''systemctl'' (systemctl_args action uopt) (run_opts_for action))"

section \<open>\<^verbatim>\<open>systemctl show\<close>\<close>

record unit_state =
  u_unit :: str
  u_load :: str
  u_active :: str
  u_sub :: str
  u_main_pid :: "rat option"
  u_fragment_path :: str
  u_unit_file_state :: str
  u_drop_ins :: "str list"
  u_part_of :: "str list"
  u_restarts :: "rat option"
  u_timeout_stop :: str
  u_kill_signal :: str
  u_type :: str

text \<open>The last line of a name wins; a line without a name before its \<^verbatim>\<open>=\<close> is skipped.\<close>

fun read_props :: "(str \<times> str) list \<Rightarrow> str list \<Rightarrow> (str \<times> str) list" where
  "read_props acc [] = acc"
| "read_props acc (line # ls) =
     (case index_of (CHR ''='') line of
        Some i \<Rightarrow> (if 0 < i then read_props (obj_put (take i line) (drop (Suc i) line) acc) ls
                   else read_props acc ls)
      | None \<Rightarrow> read_props acc ls)"

text \<open>\<^verbatim>\<open>props.X || fallback\<close>: an absent or empty property takes the fallback.\<close>

definition prop_or :: "str \<Rightarrow> str \<Rightarrow> (str \<times> str) list \<Rightarrow> str" where
  "prop_or fallback k props =
     (case map_of props k of Some v \<Rightarrow> (if v = [] then fallback else v) | None \<Rightarrow> fallback)"

definition unit_state_of :: "str \<Rightarrow> str \<Rightarrow> unit_state" where
  "unit_state_of u text =
     (let props = read_props [] (lines text) in
      \<lparr>u_unit = u,
       u_load = prop_or ''unknown'' ''LoadState'' props,
       u_active = prop_or ''unknown'' ''ActiveState'' props,
       u_sub = prop_or ''unknown'' ''SubState'' props,
       u_main_pid = str_number (prop_or ''0'' ''MainPID'' props),
       u_fragment_path = prop_or [] ''FragmentPath'' props,
       u_unit_file_state = prop_or [] ''UnitFileState'' props,
       u_drop_ins = ws_words (prop_or [] ''DropInPaths'' props),
       u_part_of = ws_words (prop_or [] ''PartOf'' props),
       u_restarts = str_number (prop_or ''0'' ''NRestarts'' props),
       u_timeout_stop = prop_or [] ''TimeoutStopUSec'' props,
       u_kill_signal = prop_or [] ''KillSignal'' props,
       u_type = prop_or [] ''Type'' props\<rparr>)"

definition show_unit :: "host \<Rightarrow> str \<Rightarrow> ('l, unit_state) prog" where
  "show_unit H u = bind (systemctl H ''show'' (Some u)) (\<lambda>r. ret (unit_state_of u (rout r)))"

section \<open>Operations\<close>

record instance_row =
  ir_unit :: str
  ir_load :: "str option"
  ir_active :: "str option"
  ir_sub :: "str option"

definition nth_opt :: "'a list \<Rightarrow> nat \<Rightarrow> 'a option" where
  "nth_opt xs i = (if i < length xs then Some (xs ! i) else None)"

text \<open>The columns of a \<^verbatim>\<open>list-units\<close> line.\<close>

definition instance_row_of :: "str \<Rightarrow> instance_row option" where
  "instance_row_of line =
     (case ws_words line of
        u # rest \<Rightarrow> (if ends_with u ''.service''
                    then Some \<lparr>ir_unit = u, ir_load = nth_opt rest 0, ir_active = nth_opt rest 1, ir_sub = nth_opt rest 2\<rparr>
                    else None)
      | [] \<Rightarrow> None)"

definition instances :: "host \<Rightarrow> str \<Rightarrow> ('l, instance_row list) prog" where
  "instances H worker =
     (let pattern = (if ends_with worker ''@.service'' then drop_end 8 worker @ ''*.service'' else worker) in
      bind (systemctl H ''list-units'' (Some pattern)) (\<lambda>r.
      if rc r \<noteq> 0 then throw (JsError ''systemctl list-units failed'')
      else ret (List.map_filter instance_row_of (lines (rout r)))))"

definition restart :: "host \<Rightarrow> str \<Rightarrow> ('l, unit) prog" where
  "restart H u =
     bind (systemctl H ''restart'' (Some u)) (\<lambda>r.
     if rc r \<noteq> 0 then throw (JsError ''systemctl restart failed'') else ret ())"

text \<open>\<open>(started, state)\<close>: a socket unit that is not listening is started, never restarted.\<close>

definition ensure_socket_active :: "host \<Rightarrow> str \<Rightarrow> ('l, bool \<times> unit_state) prog" where
  "ensure_socket_active H u =
     bind (show_unit H u) (\<lambda>st.
     if u_active st = ''active'' then ret (False, st)
     else bind (systemctl H ''start'' (Some u)) (\<lambda>r.
       if rc r \<noteq> 0 then throw (JsError ''systemctl start failed'') else ret (True, st)))"

definition first_word :: "str \<Rightarrow> str" where
  "first_word l = (case ws_words l of w # _ \<Rightarrow> w | [] \<Rightarrow> [])"

definition list_unit_files :: "host \<Rightarrow> str \<Rightarrow> ('l, str list) prog" where
  "list_unit_files H pattern =
     bind (systemctl H ''list-unit-files'' (Some pattern)) (\<lambda>r.
     if rc r \<noteq> 0 \<and> trim (rout r) \<noteq> [] then throw (JsError ''systemctl list-unit-files failed'')
     else ret (filter (\<lambda>u. u \<noteq> [] \<and> ends_with u ''.service'' \<and> \<not> ends_with u ''@.service'')
                 (map first_word (lines (rout r)))))"

definition enable :: "host \<Rightarrow> str \<Rightarrow> ('l, bool) prog" where
  "enable H u = bind (systemctl H ''enable'' (Some u)) (\<lambda>r. ret (rc r = 0))"

definition holds_listener :: "listener \<Rightarrow> bool" where
  "holds_listener h \<longleftrightarrow>
     l_pid h = Some 1 \<and> (l_process h = None \<or> l_process h = Some [] \<or> l_process h = Some ''systemd'')"

definition socket_held :: "host \<Rightarrow> int \<Rightarrow> ('l, bool) prog" where
  "socket_held H port = bind (exec_listeners H port) (\<lambda>hs. ret (list_ex holds_listener hs))"

definition rebind_reasons :: "str list" where
  "rebind_reasons = [''socket-changed'', ''socket-not-held'']"

text \<open>\<open>(stopped, socketRestarted)\<close>.\<close>

definition rebind_socket :: "host \<Rightarrow> str \<Rightarrow> str \<Rightarrow> str \<Rightarrow> ('l, bool \<times> bool) prog" where
  "rebind_socket H serviceUnit socketUnit reason =
     (if reason \<notin> set rebind_reasons then throw (SocketGuardError ''not a reason to restart a socket unit'')
      else if \<not> ends_with serviceUnit ''.service'' \<or> \<not> ends_with socketUnit ''.socket''
      then throw (SocketGuardError ''rebind needs a .service and a .socket unit'')
      else
        bind (exec_run H ''systemctl'' [''stop'', serviceUnit] as_root) (\<lambda>stop.
        bind (exec_run H ''systemctl'' [''restart'', socketUnit] as_root) (\<lambda>sock.
        bind (exec_run H ''systemctl'' [''start'', serviceUnit] as_root) (\<lambda>start.
        if rc start \<noteq> 0 then throw (JsError ''systemctl start failed after rebinding'')
        else ret (rc stop = 0, rc sock = 0)))))"

definition daemon_reload :: "host \<Rightarrow> ('l, unit) prog" where
  "daemon_reload H =
     bind (systemctl H ''daemon-reload'' None) (\<lambda>r.
     if rc r \<noteq> 0 then throw (JsError ''systemctl daemon-reload failed'') else ret ())"

definition reload_nginx :: "host \<Rightarrow> ('l, unit) prog" where
  "reload_nginx H =
     bind (systemctl H ''reload'' (Some ''nginx.service'')) (\<lambda>r.
     if rc r \<noteq> 0 then throw (JsError ''systemctl reload nginx failed'') else ret ())"

section \<open>Footprints\<close>

text \<open>
  A request is harmless to the units when it is no \<^verbatim>\<open>systemctl\<close> call, or one that only reads.
  \<open>socket_kept\<close> refuses the calls that take a listener away; \<open>restarts_only us\<close> the calls that
  restart or stop a unit outside \<open>us\<close>.
\<close>

fun harmless :: "event \<Rightarrow> bool" where
  "harmless (ERun c args opts) \<longleftrightarrow> c \<noteq> ''systemctl'' \<or> (args \<noteq> [] \<and> hd args \<in> set read_only_actions)"
| "harmless e \<longleftrightarrow> True"

fun socket_kept :: "event \<Rightarrow> bool" where
  "socket_kept (ERun c args opts) \<longleftrightarrow>
     \<not> (c = ''systemctl'' \<and> args \<noteq> [] \<and> hd args \<notin> set socket_safe_actions \<and>
        (\<exists>u \<in> set (tl args). ends_with u ''.socket''))"
| "socket_kept e \<longleftrightarrow> True"

fun restarted_unit :: "event \<Rightarrow> str option" where
  "restarted_unit (ERun c args opts) =
     (if c = ''systemctl'' \<and> args \<noteq> [] \<and> hd args \<in> {''restart'', ''stop''} \<and> tl args \<noteq> [] then Some (hd (tl args)) else None)"
| "restarted_unit e = None"

definition restarts_only :: "str list \<Rightarrow> event \<Rightarrow> bool" where
  "restarts_only us e \<longleftrightarrow> (case restarted_unit e of None \<Rightarrow> True | Some u \<Rightarrow> u \<in> set us)"

text \<open>A class of requests that admits every harmless one: the interface the footprint lemmas use.\<close>

locale event_class =
  fixes A :: "event \<Rightarrow> bool"
  assumes admits_harmless: "harmless e \<Longrightarrow> A e"
begin

lemma admits_run [simp]: "c \<noteq> ''systemctl'' \<Longrightarrow> A (ERun c args opts)"
  by (rule admits_harmless) simp

lemma admits_other [simp]:
  "A (ERead p)" "A (EWrite p t)" "A (EAppend p t)" "A (ERemove p)" "A (ESymlink p t)"
  "A (EReadlink p)" "A (EStat p)" "A (EStatfs p)" "A (EReaddir p)" "A (EMkdir p ow)" "A (ECreate p t)"
  "A (EPidAlive i)" "A (EHttp u)" "A (ERequest m u b)" "A (EPsql d q)" "A (EListeners i)"
  "A EMem" "A (EDeployLock f s i)" "A EDeployUnlock" "A ENow" "A (ESleep i)" "A EUserName"
  "A EHostname" "A ERandom" "A (EReadStream p)" "A (EWriteStream p t)" "A (EKill i g)" "A (EStore x)"
  by (auto intro: admits_harmless)

lemma emits_systemctl_read [emits_rules]:
  "action \<in> set read_only_actions \<Longrightarrow> emits A (systemctl H action u)"
  unfolding systemctl_def
  by (intro emits_rules admits_harmless) (auto simp: systemctl_args_def read_only_actions_def Let_def split: option.splits)

lemma emits_show_unit [emits_rules]: "emits A (show_unit H u)"
  unfolding show_unit_def by (intro emits_rules) (simp add: read_only_actions_def)

lemma emits_instances [emits_rules]: "emits A (instances H u)"
  unfolding instances_def by (intro emits_rules) (simp_all add: read_only_actions_def)

lemma emits_list_unit_files [emits_rules]: "emits A (list_unit_files H u)"
  unfolding list_unit_files_def by (intro emits_rules) (simp_all add: read_only_actions_def)

lemma emits_socket_held [emits_rules]: "emits A (socket_held H port)"
  unfolding socket_held_def by (intro emits_rules) simp

end

text \<open>A class that also admits what ovhost does to units while their sockets keep listening.\<close>

locale service_class = event_class +
  assumes admits_start: "A (ERun ''systemctl'' [''start'', u] opts)"
    and admits_enable: "A (ERun ''systemctl'' [''enable'', u] opts)"
    and admits_daemon_reload: "A (ERun ''systemctl'' [''daemon-reload''] opts)"
    and admits_reload_nginx: "A (ERun ''systemctl'' [''reload'', ''nginx.service''] opts)"
begin

lemma emits_start_unit [emits_rules]: "u \<noteq> [] \<Longrightarrow> emits A (systemctl H ''start'' (Some u))"
  unfolding systemctl_def
  by (intro emits_rules) (simp_all add: systemctl_args_def admits_start)

lemma emits_enable_unit [emits_rules]: "u \<noteq> [] \<Longrightarrow> emits A (systemctl H ''enable'' (Some u))"
  unfolding systemctl_def
  by (intro emits_rules) (simp_all add: systemctl_args_def admits_enable)

lemma emits_enable [emits_rules]: "u \<noteq> [] \<Longrightarrow> emits A (enable H u)"
  unfolding enable_def by (intro emits_rules)

lemma emits_ensure_socket_active [emits_rules]: "u \<noteq> [] \<Longrightarrow> emits A (ensure_socket_active H u)"
  unfolding ensure_socket_active_def by (intro emits_rules)

lemma emits_daemon_reload [emits_rules]: "emits A (daemon_reload H)"
  unfolding daemon_reload_def systemctl_def
  by (intro emits_rules) (simp_all add: systemctl_args_def admits_daemon_reload)

lemma emits_reload_nginx [emits_rules]: "emits A (reload_nginx H)"
  unfolding reload_nginx_def systemctl_def
  by (intro emits_rules) (simp_all add: systemctl_args_def admits_reload_nginx)

end

lemma harmless_socket_kept: "harmless e \<Longrightarrow> socket_kept e"
  by (cases e) (auto simp: read_only_actions_def socket_safe_actions_def)

lemma harmless_restarts_only: "harmless e \<Longrightarrow> restarts_only us e"
  by (cases e) (auto simp: restarts_only_def read_only_actions_def)

interpretation kept: service_class socket_kept
proof unfold_locales
  show "socket_kept (ERun ''systemctl'' [''reload'', ''nginx.service''] opts)" for opts
    by (simp add: ends_with_def)
qed (auto simp: harmless_socket_kept socket_safe_actions_def)

interpretation only: service_class "restarts_only us" for us
  by unfold_locales (rule harmless_restarts_only, assumption, simp_all add: restarts_only_def)

text \<open>What the guard does: a restart goes through only for a unit that is no socket.\<close>

lemma restart_socket_kept [emits_rules]: "emits socket_kept (restart H u)"
  unfolding restart_def systemctl_def
  by (intro emits_rules) (auto simp: systemctl_args_def names_socket_def socket_safe_actions_def)

lemma restart_only [emits_rules]: "u \<in> set us \<Longrightarrow> emits (restarts_only us) (restart H u)"
  unfolding restart_def systemctl_def
  by (intro emits_rules) (auto simp: systemctl_args_def restarts_only_def)

end
