(* ===== verification/Git.thy ===== *)
theory Git
  imports Systemd
begin

text \<open>
  The git adapter, \<^verbatim>\<open>lib/git.js\<close>: every command runs as the checkout owner, with
  \<^verbatim>\<open>-C <dir>\<close>; its standard output is what the operations parse. A failing command throws
  unless the operation allows it to fail.
\<close>

record git_handle =
  g_dir :: str
  g_safe :: bool
  g_owner :: str
  g_remote :: str
  g_branch :: str

definition git_at :: "service \<Rightarrow> str \<Rightarrow> bool \<Rightarrow> git_handle" where
  "git_at svc dir safe =
     \<lparr>g_dir = dir, g_safe = safe, g_owner = s_owner svc, g_remote = s_remote svc, g_branch = s_branch svc\<rparr>"

definition git_of :: "service \<Rightarrow> git_handle" where
  "git_of svc = git_at svc (s_repo svc) False"

definition git_pre :: "git_handle \<Rightarrow> str list" where
  "git_pre g = [''-C'', g_dir g] @ (if g_safe g then [''-c'', ''safe.directory='' @ g_dir g] else [])"

definition git_try :: "host \<Rightarrow> git_handle \<Rightarrow> str list \<Rightarrow> ('l, run_result) prog" where
  "git_try H g args = exec_run H ''git'' (git_pre g @ args) (as_owner (g_owner g))"

definition git_run :: "host \<Rightarrow> git_handle \<Rightarrow> str list \<Rightarrow> ('l, run_result) prog" where
  "git_run H g args =
     bind (git_try H g args) (\<lambda>r.
     if rc r \<noteq> 0 then throw (JsError ''git failed'') else ret r)"

definition git_do :: "host \<Rightarrow> git_handle \<Rightarrow> str list \<Rightarrow> ('l, unit) prog" where
  "git_do H g args = bind (git_run H g args) (\<lambda>_. ret ())"

definition git_head :: "host \<Rightarrow> git_handle \<Rightarrow> ('l, str) prog" where
  "git_head H g = bind (git_run H g [''rev-parse'', ''HEAD'']) (\<lambda>r. ret (trim (rout r)))"

definition git_branch :: "host \<Rightarrow> git_handle \<Rightarrow> ('l, str) prog" where
  "git_branch H g =
     bind (git_run H g [''rev-parse'', ''--abbrev-ref'', ''HEAD'']) (\<lambda>r. ret (trim (rout r)))"

definition git_rev_parse :: "host \<Rightarrow> git_handle \<Rightarrow> str \<Rightarrow> ('l, str) prog" where
  "git_rev_parse H g ref =
     bind (git_run H g [''rev-parse'', ''--verify'', ref @ ''^{commit}'']) (\<lambda>r. ret (trim (rout r)))"

definition git_has_commit :: "host \<Rightarrow> git_handle \<Rightarrow> str \<Rightarrow> ('l, bool) prog" where
  "git_has_commit H g sha =
     bind (git_try H g [''cat-file'', ''-e'', sha @ ''^{commit}'']) (\<lambda>r. ret (rc r = 0))"

text \<open>Tracked changes only: the path after the two status letters and the space.\<close>

definition git_dirty :: "host \<Rightarrow> git_handle \<Rightarrow> ('l, str list) prog" where
  "git_dirty H g =
     bind (git_run H g [''status'', ''--porcelain'', ''--untracked-files=no''])
       (\<lambda>r. ret (map (drop 3) (nonempty_lines (rout r))))"

definition git_skip_worktree :: "host \<Rightarrow> git_handle \<Rightarrow> ('l, str list) prog" where
  "git_skip_worktree H g =
     bind (git_run H g [''ls-files'', ''-v''])
       (\<lambda>r. ret (map (drop 2) (filter (\<lambda>l. starts_with l ''S '') (lines (rout r)))))"

definition git_no_skip_worktree :: "host \<Rightarrow> git_handle \<Rightarrow> str \<Rightarrow> ('l, unit) prog" where
  "git_no_skip_worktree H g file =
     bind (git_try H g [''update-index'', ''--no-skip-worktree'', ''--'', file]) (\<lambda>_. ret ())"

definition git_rm_cached :: "host \<Rightarrow> git_handle \<Rightarrow> str \<Rightarrow> ('l, unit) prog" where
  "git_rm_cached H g file = git_do H g [''rm'', ''--cached'', ''-q'', ''-r'', ''--'', file]"

definition git_fetch :: "host \<Rightarrow> git_handle \<Rightarrow> ('l, unit) prog" where
  "git_fetch H g = git_do H g [''fetch'', ''--quiet'', g_remote g, g_branch g]"

definition git_changed_files :: "host \<Rightarrow> git_handle \<Rightarrow> str \<Rightarrow> str \<Rightarrow> ('l, str list) prog" where
  "git_changed_files H g a b =
     bind (git_run H g [''diff'', ''--name-only'', a, b]) (\<lambda>r. ret (nonempty_lines (rout r)))"

definition git_added_files :: "host \<Rightarrow> git_handle \<Rightarrow> str \<Rightarrow> str \<Rightarrow> ('l, str list) prog" where
  "git_added_files H g a b =
     bind (git_run H g [''diff'', ''--name-only'', ''--diff-filter=A'', a, b])
       (\<lambda>r. ret (nonempty_lines (rout r)))"

definition git_log :: "host \<Rightarrow> git_handle \<Rightarrow> str \<Rightarrow> str \<Rightarrow> ('l, str list) prog" where
  "git_log H g a b =
     bind (git_try H g [''log'', ''--oneline'', ''--no-decorate'', a @ ''..'' @ b])
       (\<lambda>r. ret (nonempty_lines (rout r)))"

definition git_show :: "host \<Rightarrow> git_handle \<Rightarrow> str \<Rightarrow> str \<Rightarrow> ('l, str option) prog" where
  "git_show H g sha file =
     bind (git_try H g [''show'', sha @ '':'' @ file])
       (\<lambda>r. ret (if rc r = 0 then Some (rout r) else None))"

definition git_ff_merge :: "host \<Rightarrow> git_handle \<Rightarrow> str \<Rightarrow> ('l, unit) prog" where
  "git_ff_merge H g sha = git_do H g [''merge'', ''--ff-only'', ''--quiet'', sha]"

definition git_reset_hard :: "host \<Rightarrow> git_handle \<Rightarrow> str \<Rightarrow> ('l, unit) prog" where
  "git_reset_hard H g sha = git_do H g [''reset'', ''--hard'', ''--quiet'', sha]"

definition git_checkout_file :: "host \<Rightarrow> git_handle \<Rightarrow> str \<Rightarrow> ('l, unit) prog" where
  "git_checkout_file H g file = git_do H g [''checkout'', ''--'', file]"

text \<open>Restored in batches of 200 paths.\<close>

fun batches :: "nat \<Rightarrow> 'a list \<Rightarrow> 'a list list" where
  "batches n xs = (if xs = [] \<or> n = 0 then [] else take n xs # batches n (drop n xs))"

declare batches.simps [simp del]

definition git_checkout_paths :: "host \<Rightarrow> git_handle \<Rightarrow> str list \<Rightarrow> ('l, unit) prog" where
  "git_checkout_paths H g files =
     each (\<lambda>b. git_do H g ([''checkout'', ''--''] @ b)) (batches 200 files)"

definition git_worktree_add :: "host \<Rightarrow> git_handle \<Rightarrow> str \<Rightarrow> str \<Rightarrow> ('l, unit) prog" where
  "git_worktree_add H g wt sha = git_do H g [''worktree'', ''add'', ''--detach'', ''--quiet'', wt, sha]"

definition git_worktree_remove :: "host \<Rightarrow> git_handle \<Rightarrow> str \<Rightarrow> ('l, bool) prog" where
  "git_worktree_remove H g wt =
     bind (git_try H g [''worktree'', ''remove'', ''--force'', wt]) (\<lambda>r. ret (rc r = 0))"

definition git_worktree_prune :: "host \<Rightarrow> git_handle \<Rightarrow> ('l, unit) prog" where
  "git_worktree_prune H g = bind (git_try H g [''worktree'', ''prune'']) (\<lambda>_. ret ())"

text \<open>\<^verbatim>\<open>/^(\w+:\/\/)[^@/]+@/\<close> loses everything between the scheme and the @.\<close>

definition redact_url :: "str \<Rightarrow> str" where
  "redact_url url =
     (let scheme = takeWhile is_word url; rest = dropWhile is_word url in
      if scheme \<noteq> [] \<and> starts_with rest ''://'' then
        (let auth = drop 3 rest;
             cred = takeWhile (\<lambda>c. c \<noteq> CHR ''@'' \<and> c \<noteq> CHR ''/'') auth;
             after = dropWhile (\<lambda>c. c \<noteq> CHR ''@'' \<and> c \<noteq> CHR ''/'') auth
         in if cred \<noteq> [] \<and> starts_with after ''@'' then scheme @ ''://'' @ drop 1 after else url)
      else url)"

definition git_remote_url :: "host \<Rightarrow> git_handle \<Rightarrow> ('l, str) prog" where
  "git_remote_url H g =
     bind (git_try H g [''config'', ''--get'', ''remote.'' @ g_remote g @ ''.url''])
       (\<lambda>r. ret (redact_url (trim (rout r))))"

section \<open>Lemmas\<close>

text \<open>Batches lose and reorder nothing, and none is longer than its bound.\<close>

lemma concat_batches: "0 < n \<Longrightarrow> concat (batches n xs) = xs"
proof (induction n xs rule: batches.induct)
  case (1 n xs)
  then show ?case by (subst batches.simps) auto
qed

lemma length_batches: "b \<in> set (batches n xs) \<Longrightarrow> 0 < length b \<and> length b \<le> n"
proof (induction n xs rule: batches.induct)
  case (1 n xs)
  then show ?case by (subst (asm) (2) batches.simps) (auto split: if_splits)
qed

lemma redact_url_credentials:
  assumes scheme: "scheme \<noteq> []" "\<forall>c \<in> set scheme. is_word c"
    and cred: "cred \<noteq> []" "CHR ''@'' \<notin> set cred" "CHR ''/'' \<notin> set cred"
  shows "redact_url (scheme @ ''://'' @ cred @ ''@'' @ host) = scheme @ ''://'' @ host"
proof -
  have colon: "\<not> is_word (CHR '':'')" by (simp add: is_word_def is_alnum_def is_digit_def is_lower_def is_upper_def)
  have "takeWhile is_word (scheme @ ''://'' @ cred @ ''@'' @ host) = scheme"
    "dropWhile is_word (scheme @ ''://'' @ cred @ ''@'' @ host) = ''://'' @ cred @ ''@'' @ host"
    using scheme(2) colon by (simp_all add: takeWhile_append2 dropWhile_append2)
  moreover have "takeWhile (\<lambda>c. c \<noteq> CHR ''@'' \<and> c \<noteq> CHR ''/'') (cred @ ''@'' @ host) = cred"
    "dropWhile (\<lambda>c. c \<noteq> CHR ''@'' \<and> c \<noteq> CHR ''/'') (cred @ ''@'' @ host) = ''@'' @ host"
    using cred(2,3) by (subst takeWhile_append2 dropWhile_append2; auto)+
  ultimately show ?thesis
    using scheme(1) cred(1) unfolding redact_url_def Let_def by (simp add: starts_with_def)
qed

context event_class
begin

lemma emits_git_try [emits_rules]: "emits A (git_try H g args)"
  unfolding git_try_def by (intro emits_rules) simp

lemma emits_git_run [emits_rules]: "emits A (git_run H g args)"
  unfolding git_run_def by (intro emits_rules)

lemma emits_git_do [emits_rules]: "emits A (git_do H g args)"
  unfolding git_do_def by (intro emits_rules)

lemma emits_git [emits_rules]:
  "emits A (git_head H g)" "emits A (git_branch H g)" "emits A (git_rev_parse H g r)"
  "emits A (git_has_commit H g r)" "emits A (git_dirty H g)" "emits A (git_skip_worktree H g)"
  "emits A (git_no_skip_worktree H g f)" "emits A (git_rm_cached H g f)" "emits A (git_fetch H g)"
  "emits A (git_changed_files H g a b)" "emits A (git_added_files H g a b)"
  "emits A (git_log H g a b)" "emits A (git_show H g a f)" "emits A (git_ff_merge H g r)"
  "emits A (git_reset_hard H g r)" "emits A (git_checkout_file H g f)"
  "emits A (git_checkout_paths H g fs)" "emits A (git_worktree_add H g f r)"
  "emits A (git_worktree_remove H g f)" "emits A (git_worktree_prune H g)"
  "emits A (git_remote_url H g)"
  unfolding git_head_def git_branch_def git_rev_parse_def git_has_commit_def git_dirty_def
    git_skip_worktree_def git_no_skip_worktree_def git_rm_cached_def git_fetch_def
    git_changed_files_def git_added_files_def git_log_def git_show_def git_ff_merge_def
    git_reset_hard_def git_checkout_file_def git_checkout_paths_def git_worktree_add_def
    git_worktree_remove_def git_worktree_prune_def git_remote_url_def
  by (intro emits_rules)+

end

end
