(* ===== verification/Dates.thy ===== *)
theory Dates
  imports Prelude
begin

text \<open>
  The UTC calendar of JavaScript's \<^verbatim>\<open>Date\<close>: \<^verbatim>\<open>Date.UTC\<close>, the
  \<^verbatim>\<open>getUTC*\<close> readers and \<^verbatim>\<open>toISOString\<close>, over milliseconds since
  1970-01-01. The proleptic Gregorian calendar is computed by days from 0000-03-01.
\<close>

type_synonym civil = "int \<times> int \<times> int"

definition days_from_civil :: "int \<Rightarrow> int \<Rightarrow> int \<Rightarrow> int" where
  "days_from_civil y m d =
     (let y' = (if m \<le> 2 then y - 1 else y);
          era = y' div 400; yoe = y' mod 400;
          mp = (if m > 2 then m - 3 else m + 9);
          doy = (153 * mp + 2) div 5 + d - 1
      in era * 146097 + yoe * 365 + yoe div 4 - yoe div 100 + doy - 719468)"

definition civil_from_days :: "int \<Rightarrow> civil" where
  "civil_from_days z0 =
     (let z = z0 + 719468;
          era = z div 146097; doe = z mod 146097;
          yoe = (doe - doe div 1460 + doe div 36524 - doe div 146096) div 365;
          doy = doe - (365 * yoe + yoe div 4 - yoe div 100);
          mp = (5 * doy + 2) div 153;
          d = doy - (153 * mp + 2) div 5 + 1;
          m = (if mp < 10 then mp + 3 else mp - 9)
      in (yoe + era * 400 + (if m \<le> 2 then 1 else 0), m, d))"

definition ms_per_day :: int where
  "ms_per_day = 86400000"

text \<open>
  \<^verbatim>\<open>Date.UTC(y, m, d, h, mi, s)\<close> with the month counted from 0: an overflowing month carries
  into the year, an overflowing day counts on, and a year from 0 to 99 means 1900 to 1999.
\<close>

definition date_utc :: "int \<Rightarrow> int \<Rightarrow> int \<Rightarrow> int \<Rightarrow> int \<Rightarrow> int \<Rightarrow> int" where
  "date_utc y m d h mi s =
     (let y1 = (if 0 \<le> y \<and> y \<le> 99 then y + 1900 else y)
      in (days_from_civil (y1 + m div 12) (m mod 12 + 1) 1 + (d - 1)) * ms_per_day
         + h * 3600000 + mi * 60000 + s * 1000)"

definition utc_day :: "int \<Rightarrow> int" where
  "utc_day ms = ms div ms_per_day"

definition utc_civil :: "int \<Rightarrow> civil" where
  "utc_civil ms = civil_from_days (utc_day ms)"

definition utc_year :: "int \<Rightarrow> int" where
  "utc_year ms = fst (utc_civil ms)"

text \<open>\<^verbatim>\<open>getUTCDay\<close>: Sunday is 0; 1970-01-01 was a Thursday.\<close>

definition utc_weekday :: "int \<Rightarrow> int" where
  "utc_weekday ms = (utc_day ms + 4) mod 7"

definition pad2 :: "int \<Rightarrow> str" where
  "pad2 n = pad_start 2 (CHR ''0'') (int_str n)"

definition pad_n :: "nat \<Rightarrow> int \<Rightarrow> str" where
  "pad_n k n = pad_start k (CHR ''0'') (int_str n)"

definition utc_clock :: "int \<Rightarrow> int \<times> int \<times> int" where
  "utc_clock ms = (let t = ms mod ms_per_day in (t div 3600000, t div 60000 mod 60, t div 1000 mod 60))"

text \<open>\<^verbatim>\<open>2026-10-12T03:04:05.678Z\<close>\<close>

definition iso_string :: "int \<Rightarrow> str" where
  "iso_string ms =
     (let (y, m, d) = utc_civil ms; (h, mi, s) = utc_clock ms
      in pad_n 4 y @ ''-'' @ pad2 m @ ''-'' @ pad2 d @ ''T'' @ pad2 h @ '':'' @ pad2 mi @ '':'' @ pad2 s
         @ ''.'' @ pad_n 3 (ms mod 1000) @ ''Z'')"

text \<open>\<^verbatim>\<open>20261012T030405Z\<close>: the same with the separators and the fraction removed.\<close>

definition compact_stamp :: "int \<Rightarrow> str" where
  "compact_stamp ms =
     (let (y, m, d) = utc_civil ms; (h, mi, s) = utc_clock ms
      in pad_n 4 y @ pad2 m @ pad2 d @ ''T'' @ pad2 h @ pad2 mi @ pad2 s @ ''Z'')"

lemma utc_day_date_utc:
  assumes "0 \<le> h" "h < 24" "0 \<le> mi" "mi < 60" "0 \<le> s" "s < 60"
  shows "utc_day (date_utc y m d h mi s) =
    days_from_civil ((if 0 \<le> y \<and> y \<le> 99 then y + 1900 else y) + m div 12) (m mod 12 + 1) 1 + (d - 1)"
proof -
  let ?t = "h * 3600000 + mi * 60000 + s * 1000"
  have "0 \<le> ?t" "?t < ms_per_day" using assms by (auto simp: ms_per_day_def)
  then have "(D * ms_per_day + ?t) div ms_per_day = D" for D
    by (simp add: ms_per_day_def)
  then show ?thesis
    unfolding utc_day_def date_utc_def Let_def by (simp add: add.assoc)
qed

end
