(* ===== verification/Locks.thy ===== *)
theory Locks
  imports Git Dates
begin

text \<open>
  Admission: \<^verbatim>\<open>lib/lock.js\<close> (one operation per service at a time, a file holding the owner's
  pid) and \<^verbatim>\<open>lib/deploy-guard.js\<close> (one deploy per host, a kernel flock held by the executor; the
  memory check before an install).
\<close>

section \<open>The service lock\<close>

definition lock_file :: "inventory \<Rightarrow> str \<Rightarrow> str" where
  "lock_file i sid = path_join [inv_state_dir i, ''locks'', sid @ ''.lock'']"

definition lock_body :: "int \<Rightarrow> int \<Rightarrow> str" where
  "lock_body pid now = json_text (JObj [(''pid'', JNum (of_int pid)), (''at'', JStr (iso_string now))])"

text \<open>
  Who holds the lock, from the text of its file: an unreadable or malformed file names nobody. A pid that is
  no whole number is no process.
\<close>

definition holder_pid :: "str option \<Rightarrow> json option" where
  "holder_pid text =
     (case text of
        Some t \<Rightarrow> (case json_parse t of Some v \<Rightarrow> jget ''pid'' v | None \<Rightarrow> None)
      | None \<Rightarrow> None)"

definition json_pid_alive :: "host \<Rightarrow> json option \<Rightarrow> ('l, bool) prog" where
  "json_pid_alive H v =
     (case v of
        Some (JNum q) \<Rightarrow> (if q \<noteq> 0 \<and> of_int \<lfloor>q\<rfloor> = q then exec_pid_alive H \<lfloor>q\<rfloor> else ret False)
      | _ \<Rightarrow> ret False)"

text \<open>The result says whether a stale lock was removed; the handle is the lock's file.\<close>

definition lock_acquire :: "ctx \<Rightarrow> str \<Rightarrow> ('l, str \<times> bool) prog" where
  "lock_acquire c sid =
     (let H = exec c; file = lock_file (inv c) sid in
      bind (exec_now H) (\<lambda>now.
      let body = lock_body (ctx_pid c) now in
      bind (exec_create H file body) (\<lambda>made.
      if made then ret (file, False)
      else
        bind (try_catch (bind (exec_read H file) (\<lambda>t. ret (holder_pid t))) (\<lambda>_. ret None)) (\<lambda>holder.
        bind (json_pid_alive H holder) (\<lambda>alive.
        if alive then throw (LockedError ''another ovhost operation is running'')
        else
          andthen (exec_remove H file)
          (bind (exec_create H file body) (\<lambda>again.
           if again then ret (file, True)
           else throw (LockedError ''could not take the lock''))))))))"

definition lock_release :: "ctx \<Rightarrow> str \<Rightarrow> ('l, unit) prog" where
  "lock_release c file = exec_remove (exec c) file"

section \<open>The host lock\<close>

definition deploy_lock_file :: str where
  "deploy_lock_file = ''/run/lock/openvibe-host-deploy.lock''"

definition guard_acquire :: "ctx \<Rightarrow> service \<Rightarrow> ('l, unit) prog" where
  "guard_acquire c svc =
     try_catch
       (exec_deploy_lock (exec c) deploy_lock_file (s_id svc) (g_lock_wait_seconds (inv_deploy_guard (inv c))))
       (\<lambda>e. throw (LockedError ''the host deploy lock''))"

text \<open>
  The host lock is released only while the protected-session poll waits, then taken back.
  \<open>held\<close> records in the local state whether \<^verbatim>\<open>held.current\<close> is set.
\<close>

definition wait_outside_lock ::
  "ctx \<Rightarrow> service \<Rightarrow> (bool \<Rightarrow> 'l \<Rightarrow> 'l) \<Rightarrow> ('l, 'a) prog \<Rightarrow> ('l, 'a) prog" where
  "wait_outside_lock c svc held work =
     andthen (exec_deploy_unlock (exec c))
     (andthen (modl (held False))
     (try_finally work (andthen (guard_acquire c svc) (modl (held True)))))"

section \<open>Memory before an install\<close>

definition mib :: int where
  "mib = 1024 * 1024"

primrec memory_wait :: "host \<Rightarrow> guard_cfg \<Rightarrow> int \<Rightarrow> nat \<Rightarrow> ('l, unit) prog" where
  "memory_wait H g start 0 = throw OutOfFuel"
| "memory_wait H g start (Suc n) =
     bind (exec_mem H) (\<lambda>bytes.
     case bytes of
       None \<Rightarrow> throw (JsError ''cannot read MemAvailable'')
     | Some b \<Rightarrow>
         if g_min_available_mib g * mib \<le> b then ret ()
         else
           bind (exec_now H) (\<lambda>t.
           if g_memory_wait_seconds g * 1000 \<le> t - start
           then throw (JsError ''MemAvailable stayed below the minimum; dependency install was not started'')
           else
             bind (exec_now H) (\<lambda>t2.
             andthen (exec_sleep H (min (g_memory_poll_seconds g * 1000) (g_memory_wait_seconds g * 1000 - (t2 - start))))
               (memory_wait H g start n))))"

definition enough_memory :: "ctx \<Rightarrow> guard_cfg \<Rightarrow> ('l, unit) prog" where
  "enough_memory c g = bind (exec_now (exec c)) (\<lambda>start. memory_wait (exec c) g start (ctx_fuel c))"

section \<open>Footprints\<close>

context event_class
begin

lemma emits_json_pid_alive [emits_rules]: "emits A (json_pid_alive H v)"
  unfolding json_pid_alive_def by (auto split: option.split json.split intro!: emits_rules)

lemma emits_lock_acquire [emits_rules]: "emits A (lock_acquire c sid)"
  unfolding lock_acquire_def Let_def
  by (intro emits_rules) simp_all

lemma emits_lock_release [emits_rules]: "emits A (lock_release c f)"
  unfolding lock_release_def by (intro emits_rules) simp

lemma emits_guard_acquire [emits_rules]: "emits A (guard_acquire c svc)"
  unfolding guard_acquire_def by (intro emits_rules) simp

lemma emits_wait_outside_lock [emits_rules]:
  "emits A work \<Longrightarrow> emits A (wait_outside_lock c svc held work)"
  unfolding wait_outside_lock_def by (intro emits_rules) simp_all

lemma emits_memory_wait [emits_rules]: "emits A (memory_wait H g start n)"
  by (induction n) (auto intro!: emits_rules)

lemma emits_enough_memory [emits_rules]: "emits A (enough_memory c g)"
  unfolding enough_memory_def by (intro emits_rules) simp

end

section \<open>The memory wait ends\<close>

lemma clock_mono: "clock_ok H \<Longrightarrow> h_now H tr \<le> h_now H (es @ tr)"
proof (induction es)
  case (Cons e es)
  have "h_now H (es @ tr) \<le> h_now H (e # es @ tr)" using Cons.prems by (simp add: clock_ok_def)
  with Cons show ?case by simp
qed simp

lemma clock_sleep: "clock_ok H \<Longrightarrow> h_now H tr + ms \<le> h_now H (ESleep ms # tr)"
  by (simp add: clock_ok_def)

lemma clock_step: "clock_ok H \<Longrightarrow> h_now H tr \<le> h_now H (e # tr)"
  by (simp add: clock_ok_def)

text \<open>
  Every round but the last sleeps a whole poll interval, so with a positive interval the number of
  rounds is bounded by the waiting time, whatever memory does.
\<close>

lemma memory_wait_ends:
  assumes clock: "clock_ok H" and poll: "0 < g_memory_poll_seconds g"
  shows "g_memory_wait_seconds g * 1000 - (h_now H tr - start) \<le> int n * (g_memory_poll_seconds g * 1000)
    \<Longrightarrow> fst (memory_wait H g start (Suc n) (tr, l)) \<noteq> Inl OutOfFuel"
proof (induction n arbitrary: tr)
  case 0
  have "h_now H tr \<le> h_now H (EMem # tr)" by (rule clock_step [OF clock])
  with 0 show ?case
    by (simp add: prog_simps split: option.split sum.split)
next
  case (Suc n)
  let ?w = "g_memory_wait_seconds g * 1000" and ?p = "g_memory_poll_seconds g * 1000"
  let ?t1 = "h_now H (EMem # tr)" and ?t2 = "h_now H (ENow # EMem # tr)"
  let ?ms = "min ?p (?w - (?t2 - start))"
  let ?tr = "ESleep ?ms # ENow # ENow # EMem # tr"
  have tr: "h_now H tr \<le> ?t1" "?t1 \<le> ?t2" "?t2 \<le> h_now H (ENow # ENow # EMem # tr)"
    by (rule clock_step [OF clock])+
  have adv: "h_now H (ENow # ENow # EMem # tr) + ?ms \<le> h_now H ?tr"
    by (rule clock_sleep [OF clock])
  have "?w - (h_now H ?tr - start) \<le> int n * ?p"
  proof (cases "?p \<le> ?w - (?t2 - start)")
    case True
    then have "h_now H tr + ?p \<le> h_now H ?tr" using tr adv by (simp add: min_def)
    then show ?thesis using Suc.prems by (simp add: algebra_simps)
  next
    case False
    have "h_now H (ENow # ENow # EMem # tr) + (?w - (?t2 - start)) \<le> h_now H ?tr"
      using adv False by (simp add: min_def)
    then have "?w - (h_now H ?tr - start) \<le> 0" using tr by linarith
    moreover have "0 \<le> int n * ?p" using poll by simp
    ultimately show ?thesis by linarith
  qed
  then have IH: "fst (memory_wait H g start (Suc n) (?tr, l)) \<noteq> Inl OutOfFuel" by (rule Suc.IH)
  show ?case
    using IH by (subst memory_wait.simps) (simp add: prog_simps split: option.split sum.split del: memory_wait.simps)
qed

end
