(* ===== verification/Deps.thy ===== *)
theory Deps
  imports Locks
begin

text \<open>
  Dependencies, \<^verbatim>\<open>lib/deps.js\<close>: which packages there are, when to install, and the proof that
  every declared dependency resolves before anything restarts.
\<close>

definition skipped :: "str \<Rightarrow> str list \<Rightarrow> bool" where
  "skipped dir patterns =
     list_ex (\<lambda>p. if ends_with p ''*'' then starts_with dir (butlast p) else dir = path_normalize p) patterns"

definition expand_pattern :: "host \<Rightarrow> service \<Rightarrow> str \<Rightarrow> ('l, str list) prog" where
  "expand_pattern H svc pattern =
     (if ends_with pattern ''/*'' then
        (let base = drop_end 2 pattern in
         bind (exec_readdir H (path_join [s_repo svc, base])) (\<lambda>es.
         let entries = (case es of Some xs \<Rightarrow> xs | None \<Rightarrow> []);
             names = sort_by (h_collate H) (map e_name (filter e_is_dir entries));
             dirs = filter (\<lambda>d. \<not> skipped d (s_skip_packages svc)) (map (\<lambda>n. path_join [base, n]) names)
         in filterp (\<lambda>d. bind (exec_stat H (path_join [s_repo svc, d, ''package.json''])) (\<lambda>st. ret (st \<noteq> None))) dirs))
      else if skipped (path_normalize pattern) (s_skip_packages svc) then ret []
      else
        bind (exec_stat H (path_join [s_repo svc, pattern, ''package.json''])) (\<lambda>st.
        ret (if st \<noteq> None then [path_normalize pattern] else [])))"

definition expand_packages :: "host \<Rightarrow> service \<Rightarrow> ('l, str list) prog" where
  "expand_packages H svc = bind (mapp (expand_pattern H svc) (s_packages svc)) (\<lambda>ds. ret (concat ds))"

text \<open>
  The three dependency fields, or \<open>None\<close> when the text does not parse or is \<^verbatim>\<open>null\<close>. The
  code compares their JSON texts; two parsed values have the same text when they are equal.
\<close>

definition or_empty :: "json option \<Rightarrow> json" where
  "or_empty v = (if truthy v then the v else JObj [])"

definition dep_fields :: "str option \<Rightarrow> json list option" where
  "dep_fields text =
     (case text of None \<Rightarrow> None
      | Some t \<Rightarrow>
          (case json_parse t of
             None \<Rightarrow> None
           | Some JNull \<Rightarrow> None
           | Some j \<Rightarrow> Some [or_empty (jget ''dependencies'' j), or_empty (jget ''optionalDependencies'' j),
                            or_empty (jget ''engines'' j)]))"

record need =
  lockfile_changed :: bool
  deps_changed :: bool
  needed :: bool

definition no_need :: need where
  "no_need = \<lparr>lockfile_changed = False, deps_changed = False, needed = False\<rparr>"

definition needs_install :: "host \<Rightarrow> git_handle \<Rightarrow> str \<Rightarrow> str \<Rightarrow> str \<Rightarrow> str \<Rightarrow> ('l, need) prog" where
  "needs_install H g a b pkgDir lockfile =
     (let lock = path_join [pkgDir, lockfile]; pkg = path_join [pkgDir, ''package.json''] in
      bind (git_show H g a lock) (\<lambda>lockA.
      bind (git_show H g b lock) (\<lambda>lockB.
      bind (git_show H g a pkg) (\<lambda>pkgA.
      bind (git_show H g b pkg) (\<lambda>pkgB.
      let lc = (lockA \<noteq> lockB); dc = (dep_fields pkgA \<noteq> dep_fields pkgB)
      in ret \<lparr>lockfile_changed = lc, deps_changed = dc, needed = lc \<or> dc\<rparr>)))))"

text \<open>\<^verbatim>\<open>const [cmd, ...args] = svc.install.command\<close>; the lockfile is put back from git afterwards.\<close>

definition install :: "ctx \<Rightarrow> service \<Rightarrow> git_handle \<Rightarrow> str \<Rightarrow> ('l, unit) prog" where
  "install c svc g pkgDir =
     (let H = exec c; cfg = s_install svc in
      andthen (enough_memory c (s_deploy_guard svc))
      (bind (exec_run H (hd (i_command cfg)) (tl (i_command cfg)) (as_owner_in (s_owner svc) (path_join [s_repo svc, pkgDir]))) (\<lambda>r.
       if rc r \<noteq> 0 then throw (JsError ''install failed'')
       else whenever (i_restore_lockfile cfg)
         (let lock = path_join [pkgDir, i_lockfile cfg] in
          bind (git_dirty H g) (\<lambda>dirty.
          whenever (lock \<in> set dirty) (git_checkout_file H g lock))))))"

record dep_problem =
  dp_pkg :: str
  dp_dep :: "str option"
  dp_reason :: str

text \<open>\<^verbatim>\<open>Object.keys(pkg.dependencies || {})\<close>\<close>

definition object_keys :: "json option \<Rightarrow> str list" where
  "object_keys v =
     (case v of
        Some (JObj kvs) \<Rightarrow> map fst kvs
      | Some (JArr xs) \<Rightarrow> map nat_str [0..<length xs]
      | Some (JStr s) \<Rightarrow> map nat_str [0..<length s]
      | _ \<Rightarrow> [])"

text \<open>One dependency resolves when its package.json is there, parses, and names it.\<close>

definition check_dep :: "host \<Rightarrow> str \<Rightarrow> str \<Rightarrow> str \<Rightarrow> ('l, dep_problem list) prog" where
  "check_dep H pkgDir rootdir dep =
     bind (exec_read H (path_join [rootdir, ''node_modules'', dep, ''package.json''])) (\<lambda>text.
     case text of
       None \<Rightarrow> ret [\<lparr>dp_pkg = pkgDir, dp_dep = Some dep, dp_reason = ''package.json is missing''\<rparr>]
     | Some t \<Rightarrow>
         (case json_parse t of
            None \<Rightarrow> ret [\<lparr>dp_pkg = pkgDir, dp_dep = Some dep, dp_reason = ''its package.json does not parse''\<rparr>]
          | Some meta \<Rightarrow>
              (if meta = JNull then throw (JsError ''TypeError'')
               else if jget ''name'' meta = Some (JStr dep) then ret []
               else ret [\<lparr>dp_pkg = pkgDir, dp_dep = Some dep, dp_reason = ''installed package has another name''\<rparr>])))"

text \<open>A missing file reads as \<^verbatim>\<open>null\<close>, and so does its parse: reading its fields throws.\<close>

definition verify_package :: "host \<Rightarrow> service \<Rightarrow> str \<Rightarrow> ('l, dep_problem list) prog" where
  "verify_package H svc pkgDir =
     (let rootdir = path_join [s_repo svc, pkgDir] in
      bind (exec_read H (path_join [rootdir, ''package.json''])) (\<lambda>text.
      case (case text of Some t \<Rightarrow> json_parse t | None \<Rightarrow> Some JNull) of
        None \<Rightarrow> ret [\<lparr>dp_pkg = pkgDir, dp_dep = None, dp_reason = ''package.json does not parse''\<rparr>]
      | Some pkg \<Rightarrow>
          (if pkg = JNull then throw (JsError ''TypeError'')
           else bind (mapp (check_dep H pkgDir rootdir) (object_keys (jget ''dependencies'' pkg)))
                  (\<lambda>pss. ret (concat pss)))))"

definition verify :: "host \<Rightarrow> service \<Rightarrow> str list \<Rightarrow> ('l, dep_problem list) prog" where
  "verify H svc pkgDirs = bind (mapp (verify_package H svc) pkgDirs) (\<lambda>pss. ret (concat pss))"

text \<open>Packages in the order of their first problem, each with its problems in order.\<close>

definition by_package :: "dep_problem list \<Rightarrow> (str \<times> dep_problem list) list" where
  "by_package ps = map (\<lambda>k. (k, filter (\<lambda>p. dp_pkg p = k) ps)) (uniq (map dp_pkg ps))"

definition repair_package ::
  "ctx \<Rightarrow> service \<Rightarrow> git_handle \<Rightarrow> str list \<Rightarrow> str \<times> dep_problem list \<Rightarrow> ('l, str list) prog" where
  "repair_package c svc g repaired e =
     (let (pkgDir, ps) = e; place = (if i_workspace (s_install svc) then ''.'' else pkgDir) in
      andthen
        (each (\<lambda>p. case dp_dep p of
             Some dep \<Rightarrow>
               bind (exec_run (exec c) ''rm'' [''-rf'', ''--'', path_join [s_repo svc, pkgDir, ''node_modules'', dep]] (as_owner (s_owner svc))) (\<lambda>_. ret ())
           | None \<Rightarrow> ret ()) ps)
        (if place \<in> set repaired then ret repaired
         else andthen (install c svc g place) (ret (repaired @ [place]))))"

definition verify_and_repair ::
  "ctx \<Rightarrow> service \<Rightarrow> git_handle \<Rightarrow> str list \<Rightarrow> ('l, dep_problem list \<times> str list) prog" where
  "verify_and_repair c svc g pkgDirs =
     bind (verify (exec c) svc pkgDirs) (\<lambda>problems.
     if problems = [] then ret (problems, [])
     else
       bind (foldp (repair_package c svc g) [] (by_package problems)) (\<lambda>repaired.
       bind (verify (exec c) svc pkgDirs) (\<lambda>problems2. ret (problems2, repaired))))"

section \<open>Footprints\<close>

context event_class
begin

lemma emits_expand_pattern [emits_rules]: "emits A (expand_pattern H svc p)"
  unfolding expand_pattern_def by (intro emits_rules) simp_all

lemma emits_expand_packages [emits_rules]: "emits A (expand_packages H svc)"
  unfolding expand_packages_def by (intro emits_rules)

lemma emits_needs_install [emits_rules]: "emits A (needs_install H g a b p l)"
  unfolding needs_install_def by (intro emits_rules)

lemma emits_install [emits_rules]:
  "argv_ok (i_command (s_install svc)) \<Longrightarrow> emits A (install c svc g p)"
  unfolding install_def argv_ok_def by (intro emits_rules) simp_all

lemma emits_check_dep [emits_rules]: "emits A (check_dep H p r d)"
  unfolding check_dep_def by (intro emits_rules) simp_all

lemma emits_verify_package [emits_rules]: "emits A (verify_package H svc p)"
  unfolding verify_package_def Let_def by (intro emits_rules) simp_all

lemma emits_verify [emits_rules]: "emits A (verify H svc ps)"
  unfolding verify_def by (intro emits_rules)

lemma emits_repair_package [emits_rules]:
  "argv_ok (i_command (s_install svc)) \<Longrightarrow> emits A (repair_package c svc g r e)"
  unfolding repair_package_def by (intro emits_rules) simp_all

lemma emits_verify_and_repair [emits_rules]:
  "argv_ok (i_command (s_install svc)) \<Longrightarrow> emits A (verify_and_repair c svc g ps)"
  unfolding verify_and_repair_def by (intro emits_rules)

end

end
