(* ===== verification/Probes.thy ===== *)
theory Probes
  imports Systemd
begin

text \<open>
  Protected-session probes, \<^verbatim>\<open>lib/probes.js\<close>: how many sessions a restart would cut. The
  result's count is \<open>None\<close> (\<^verbatim>\<open>null\<close>) when the probe cannot tell.
\<close>

record count_result =
  cr_count :: "rat option"
  cr_unknown :: "str option"
  cr_not_running :: bool
  cr_none :: bool

definition counted :: "rat \<Rightarrow> count_result" where
  "counted n = \<lparr>cr_count = Some n, cr_unknown = None, cr_not_running = False, cr_none = False\<rparr>"

definition unknown :: "str \<Rightarrow> count_result" where
  "unknown why = \<lparr>cr_count = None, cr_unknown = Some why, cr_not_running = False, cr_none = False\<rparr>"

text \<open>\<^verbatim>\<open>at(obj, 'a.b.c')\<close>: \<^verbatim>\<open>undefined\<close> from the first missing or null step on.\<close>

fun at_path :: "json option \<Rightarrow> str list \<Rightarrow> json option" where
  "at_path w [] = w"
| "at_path w (k # ks) =
     (case w of None \<Rightarrow> at_path None ks
      | Some v \<Rightarrow> at_path (if v = JNull then None else member_of k v) ks)"

definition json_at :: "json \<Rightarrow> str \<Rightarrow> json option" where
  "json_at v dotted = at_path (Some v) (filter (\<lambda>s. s \<noteq> []) (split_on (CHR ''.'') dotted))"

definition running_states :: "str list" where
  "running_states = [''active'', ''activating'', ''reloading'', ''deactivating'']"

primrec any_running :: "host \<Rightarrow> str list \<Rightarrow> ('l, bool) prog" where
  "any_running H [] = ret False"
| "any_running H (u # us) =
     bind (show_unit H u) (\<lambda>st.
     if u_active st \<in> set running_states then ret True else any_running H us)"

definition running :: "host \<Rightarrow> service \<Rightarrow> ('l, bool) prog" where
  "running H svc = any_running H (s_units svc)"

text \<open>\<^verbatim>\<open>where\<close>: \<^verbatim>\<open>true\<close> matches any truthy value but the string 0.\<close>

definition where_matches :: "(str \<times> json) list \<Rightarrow> json \<Rightarrow> bool" where
  "where_matches wh x =
     list_all (\<lambda>(k, v).
        let actual = (if x = JNull then None else member_of k x)
        in if v = JBool True then truthy actual \<and> actual \<noteq> Some (JStr ''0'') else strict_eq actual v) wh"

fun add_fields :: "json \<Rightarrow> rat \<Rightarrow> str list \<Rightarrow> count_result" where
  "add_fields b tot [] = counted tot"
| "add_fields b tot (f # fs) =
     (let raw = json_at b f in
      if raw = None then add_fields b tot fs
      else if raw = Some JNull then unknown ''unknown at a field''
      else case to_number raw of
          None \<Rightarrow> unknown ''no number at a field''
        | Some extra \<Rightarrow> add_fields b (tot + extra) fs)"

text \<open>What a JSON answer counts: the matching elements of an array, or a field and its added fields.\<close>

definition count_json :: "str option \<Rightarrow> (str \<times> json) list \<Rightarrow> str \<Rightarrow> str list \<Rightarrow> json \<Rightarrow> count_result" where
  "count_json arr wh fld adds b =
     (case arr of
        Some a \<Rightarrow>
          (if a = [] then
             (case to_number (json_at b fld) of
                None \<Rightarrow> unknown ''no number at the field'' | Some n \<Rightarrow> add_fields b n adds)
           else (case json_at b a of
                Some (JArr xs) \<Rightarrow> counted (of_nat (length (filter (where_matches wh) xs)))
              | _ \<Rightarrow> unknown ''no array''))
      | None \<Rightarrow>
          (case to_number (json_at b fld) of
             None \<Rightarrow> unknown ''no number at the field'' | Some n \<Rightarrow> add_fields b n adds))"

definition count_http :: "http_result \<Rightarrow> str option \<Rightarrow> (str \<times> json) list \<Rightarrow> str \<Rightarrow> str list \<Rightarrow> count_result" where
  "count_http r arr wh fld adds =
     (if hs_status r < 200 \<or> 300 \<le> hs_status r then unknown ''HTTP status or unreachable''
      else case json_parse (hs_body r) of
          None \<Rightarrow> unknown ''response is not JSON''
        | Some b \<Rightarrow> count_json arr wh fld adds b)"

text \<open>\<^verbatim>\<open>Object.values(rows[0])[0]\<close>: the first column of the first row.\<close>

definition first_value :: "(str \<times> str option) list list \<Rightarrow> json option" where
  "first_value rows =
     (case rows of
        ((k, v) # _) # _ \<Rightarrow> Some (case v of Some s \<Rightarrow> JStr s | None \<Rightarrow> JNull)
      | _ \<Rightarrow> None)"

definition count_one :: "host \<Rightarrow> probe_cfg \<Rightarrow> ('l, count_result) prog" where
  "count_one H p =
     (case p of
        HttpJsonCount url arr wh fld adds \<Rightarrow>
          try_catch (bind (exec_http H url) (\<lambda>r. ret (count_http r arr wh fld adds)))
            (\<lambda>e. ret (unknown ''threw''))
      | PostgresqlCount db sql \<Rightarrow>
          try_catch (bind (exec_psql H db sql) (\<lambda>rows.
             ret (case to_number (first_value rows) of
                    None \<Rightarrow> unknown ''query returned no number'' | Some n \<Rightarrow> counted n)))
            (\<lambda>e. ret (unknown ''threw''))
      | _ \<Rightarrow> ret (unknown ''unknown probe kind''))"

primrec sum_probes :: "host \<Rightarrow> rat \<Rightarrow> probe_cfg list \<Rightarrow> ('l, count_result) prog" where
  "sum_probes H tot [] = ret (counted tot)"
| "sum_probes H tot (p # ps) =
     bind (count_one H p) (\<lambda>r.
     case cr_count r of
       None \<Rightarrow> ret (unknown ''part unknown'')
     | Some n \<Rightarrow> sum_probes H (tot + n) ps)"

definition count_protected :: "host \<Rightarrow> service \<Rightarrow> ('l, count_result) prog" where
  "count_protected H svc =
     (case s_protected svc of
        None \<Rightarrow> ret ((counted 0)\<lparr>cr_none := True\<rparr>)
      | Some p \<Rightarrow>
          bind (running H svc) (\<lambda>up.
          if \<not> up then ret ((counted 0)\<lparr>cr_not_running := True\<rparr>)
          else (case p_probe p of
                  SumCount ps \<Rightarrow> sum_probes H 0 ps
                | q \<Rightarrow> count_one H q)))"

section \<open>Lemmas\<close>

context event_class
begin

lemma emits_any_running [emits_rules]: "emits A (any_running H us)"
  by (induction us) (auto intro!: emits_rules)

lemma emits_running [emits_rules]: "emits A (running H svc)"
  unfolding running_def by (rule emits_any_running)

lemma emits_count_one [emits_rules]: "emits A (count_one H p)"
  unfolding count_one_def by (cases p) (auto intro!: emits_rules)

lemma emits_sum_probes [emits_rules]: "emits A (sum_probes H t ps)"
  by (induction ps arbitrary: t) (auto intro!: emits_rules)

lemma emits_count_protected [emits_rules]: "emits A (count_protected H svc)"
  unfolding count_protected_def
  by (auto intro!: emits_rules split: option.split probe_cfg.split)

end

end
