(* ===== verification/Sessions.thy ===== *)
theory Sessions
  imports Probes Locks
begin

text \<open>
  The protected-session guard of \<^verbatim>\<open>lib/release-ops.js\<close> (\<open>guardSessions\<close>), used by both deploy
  engines: a restart goes ahead only when no session is active, when the operator forces it, or when
  the drain policy reports instead of holding.
\<close>

section \<open>Exit codes and options\<close>

definition exit_ok :: nat where "exit_ok = 0"
definition exit_usage :: nat where "exit_usage = 1"
definition exit_validation :: nat where "exit_validation = 2"
definition exit_rolled_back :: nat where "exit_rolled_back = 3"
definition exit_rollback_failed :: nat where "exit_rollback_failed = 4"
definition exit_protected :: nat where "exit_protected = 5"
definition exit_frozen :: nat where "exit_frozen = 6"

lemmas exit_defs = exit_ok_def exit_usage_def exit_validation_def exit_rolled_back_def
  exit_rollback_failed_def exit_protected_def exit_frozen_def

text \<open>The options of an operation. \<open>op_fetch\<close> is \<^verbatim>\<open>opts.fetch !== false\<close>.\<close>

record op_opts =
  op_to :: "str option"
  op_fetch :: bool
  op_restart :: bool
  op_force :: bool
  op_wait_idle :: bool
  op_install_units :: bool
  op_ready_timeout :: "int option"
  op_prepare_only :: bool

definition default_opts :: op_opts where
  "default_opts =
     \<lparr>op_to = None, op_fetch = True, op_restart = False, op_force = False, op_wait_idle = False,
      op_install_units = False, op_ready_timeout = None, op_prepare_only = False\<rparr>"

section \<open>State\<close>

text \<open>
  What both engines keep while they run: the host lock (\<^verbatim>\<open>hostLock.current\<close>) and the fields of
  the release record the guard writes.
\<close>

record session_note =
  sn_count :: "rat option"
  sn_unknown :: "str option"
  sn_when :: str
  sn_waited :: "int option"

record op_state =
  os_host_lock :: bool
  os_sessions :: "session_note option"
  os_forced :: bool

definition note_of :: "count_result \<Rightarrow> str \<Rightarrow> session_note" where
  "note_of r when =
     \<lparr>sn_count = cr_count r, sn_unknown = cr_unknown r, sn_when = when, sn_waited = None\<rparr>"

definition is_idle :: "count_result \<Rightarrow> bool" where
  "is_idle r \<longleftrightarrow> cr_not_running r \<or> cr_count r = Some 0"

section \<open>The guard\<close>

definition note_waited :: "int \<Rightarrow> 'x op_state_scheme \<Rightarrow> 'x op_state_scheme" where
  "note_waited secs s =
     s\<lparr>os_sessions := map_option (\<lambda>n. n\<lparr>sn_waited := Some secs, sn_count := Some 0\<rparr>) (os_sessions s)\<rparr>"

text \<open>Poll until \<open>d_quiet_checks\<close> idle answers in a row, or the waiting time is over.\<close>

primrec poll_idle ::
  "host \<Rightarrow> service \<Rightarrow> int \<Rightarrow> nat \<Rightarrow> nat \<Rightarrow> ('x op_state_scheme, unit) prog" where
  "poll_idle H svc start quiet 0 = throw OutOfFuel"
| "poll_idle H svc start quiet (Suc n) =
     bind (exec_now H) (\<lambda>t.
     if t - start < d_wait_max_seconds (s_drain svc) * 1000 then
       andthen (exec_sleep H (d_poll_seconds (s_drain svc) * 1000))
       (bind (count_protected H svc) (\<lambda>r.
        let quiet' = (if is_idle r then quiet + 1 else 0) in
        if d_quiet_checks (s_drain svc) \<le> int quiet' then
          bind (exec_now H) (\<lambda>t2. modl (note_waited ((t2 - start + 500) div 1000)))
        else bind (exec_now H) (\<lambda>_. poll_idle H svc start quiet' n)))
     else throw (OpError ''gave up waiting; nothing was restarted'' exit_protected (Some ''gave-up-waiting'')))"

text \<open>\<open>idle_wait\<close> is \<^verbatim>\<open>opts.onIdleWait\<close>: the engines run the poll outside the host lock.\<close>

definition guard_sessions ::
  "ctx \<Rightarrow> service \<Rightarrow> op_opts \<Rightarrow> str \<Rightarrow>
   (('x op_state_scheme, unit) prog \<Rightarrow> ('x op_state_scheme, unit) prog) \<Rightarrow> ('x op_state_scheme, unit) prog" where
  "guard_sessions c svc opts when idle_wait =
     (let H = exec c in
      bind (count_protected H svc) (\<lambda>first.
      andthen (modl (\<lambda>s. s\<lparr>os_sessions := Some (note_of first when)\<rparr>))
      (if is_idle first then ret ()
       else if op_force opts then modl (\<lambda>s. s\<lparr>os_forced := True\<rparr>)
       else if d_policy (s_drain svc) = ''report'' \<and> cr_count first \<noteq> None \<and> \<not> op_wait_idle opts then ret ()
       else if \<not> (op_wait_idle opts \<or> d_policy (s_drain svc) = ''wait'')
       then throw (OpError ''refusing to restart'' exit_protected (Some ''refused''))
       else bind (exec_now H) (\<lambda>start. idle_wait (poll_idle H svc start 0 (ctx_fuel c))))))"

definition set_host_lock :: "bool \<Rightarrow> 'x op_state_scheme \<Rightarrow> 'x op_state_scheme" where
  "set_host_lock b s = s\<lparr>os_host_lock := b\<rparr>"

definition guarded ::
  "ctx \<Rightarrow> service \<Rightarrow> op_opts \<Rightarrow> str \<Rightarrow> ('x op_state_scheme, unit) prog" where
  "guarded c svc opts when =
     guard_sessions c svc opts when (wait_outside_lock c svc set_host_lock)"

end
