(* ===== verification/Plan.thy ===== *)
theory Plan
  imports Deps Sessions
begin

text \<open>
  What a deploy or a rollback would do: \<open>computePlan\<close> of \<^verbatim>\<open>lib/release-ops.js\<close>. It fetches the
  remote (unless told not to) and changes nothing else. The fields of the plan that repeat the service's
  own entry are left to the entry.
\<close>

datatype op_mode = Deploy | Rollback

definition given :: "str option \<Rightarrow> str option" where
  "given v = (if v = Some [] then None else v)"

definition matches_one :: "str \<Rightarrow> str \<Rightarrow> bool" where
  "matches_one file p =
     (if ends_with p ''/'' then starts_with file p
      else if starts_with p ''*.'' then CHR ''/'' \<notin> set file \<and> ends_with file (drop 1 p)
      else if starts_with p ''**/*.'' then ends_with file (drop 4 p)
      else file = p)"

definition matches_path :: "str \<Rightarrow> str list \<Rightarrow> bool" where
  "matches_path file patterns = list_ex (matches_one file) patterns"

text \<open>\<^verbatim>\<open>process.env.SUDO_USER || (await exec.userName())\<close>\<close>

definition operator_name :: "ctx \<Rightarrow> ('l, str) prog" where
  "operator_name c =
     (case given (ctx_sudo_user c) of Some u \<Rightarrow> ret u | None \<Rightarrow> exec_user_name (exec c))"

text \<open>\<^verbatim>\<open>/^[A-Za-z0-9][A-Za-z0-9._/-]{0,199}$/\<close>\<close>

definition is_ref_name :: "str \<Rightarrow> bool" where
  "is_ref_name s \<longleftrightarrow>
     (case s of [] \<Rightarrow> False
      | x # r \<Rightarrow> is_alnum x \<and> length r \<le> 199 \<and> list_all (\<lambda>y. is_alnum y \<or> y \<in> set ''._/-'') r)"

record install_item =
  in_pkg :: str
  in_lockfile_changed :: bool
  in_deps_changed :: bool
  in_needed :: bool
  in_missing_modules :: bool
  in_install :: bool

record drift =
  dr_unit :: str
  dr_source :: str
  dr_installed :: bool

record deploy_plan =
  p_branch :: str
  p_from :: str
  p_to :: str
  p_dirty :: "str list"
  p_untracked_deleted :: "str list"
  p_generated_dirty :: "str list"
  p_commits :: "str list"
  p_changed :: "str list"
  p_code_changed :: "str list"
  p_lockfile_changed :: bool
  p_installs :: "install_item list"
  p_untracked_lockfiles :: "str list"
  p_untracked_generated :: "str list"
  p_restart_needed :: bool
  p_units :: "str list"
  p_aux_restart :: "str list"
  p_aux_apply :: "str list"
  p_extra_units :: "str list"
  p_skipped_jobs :: "str list"
  p_unit_drift :: "drift list"
  p_backup_needed :: bool
  p_sessions :: "count_result option"
  p_install_vhosts :: bool
  p_vhosts_removed :: "str list"
  p_nginx_not_installed :: bool

definition up_to_date :: "deploy_plan \<Rightarrow> bool" where
  "up_to_date p \<longleftrightarrow> p_from p = p_to p"

section \<open>The pieces\<close>

definition plan_target :: "host \<Rightarrow> service \<Rightarrow> git_handle \<Rightarrow> op_mode \<Rightarrow> str option \<Rightarrow> bool \<Rightarrow> ('l, str) prog" where
  "plan_target H svc g mode dest fetch =
     (case mode of
        Deploy \<Rightarrow>
          andthen (whenever fetch (git_fetch H g))
            (git_rev_parse H g (case given dest of Some t \<Rightarrow> t | None \<Rightarrow> s_remote svc @ ''/'' @ s_branch svc))
      | Rollback \<Rightarrow>
          (case given dest of
             None \<Rightarrow> throw (OpError ''rollback needs a target sha'' exit_usage None)
           | Some t \<Rightarrow>
               bind (git_has_commit H g t) (\<lambda>there.
               if \<not> there then throw (OpError ''the commit is not in the repository'' exit_usage None)
               else git_rev_parse H g t)))"

text \<open>
  The dirty or skip-worktree paths, when every one of them is a path the release stops tracking;
  otherwise none.
\<close>

definition stopped_tracking :: "host \<Rightarrow> git_handle \<Rightarrow> str \<Rightarrow> str \<Rightarrow> str list \<Rightarrow> ('l, str list) prog" where
  "stopped_tracking H g a b paths =
     bind (filterp (\<lambda>f.
        bind (git_show H g a f) (\<lambda>old.
        if old = None then ret False
        else bind (git_show H g b f) (\<lambda>new. ret (new = None)))) paths) (\<lambda>stopped.
     ret (if length stopped = length paths then stopped else []))"

text \<open>Packages whose package.json the release adds, when a declared pattern covers them.\<close>

definition in_patterns :: "str \<Rightarrow> str list \<Rightarrow> bool" where
  "in_patterns dir patterns =
     list_ex (\<lambda>p. p = dir \<or> (ends_with p ''/*'' \<and> path_dirname dir = drop_end 2 p)) patterns"

fun with_new_packages :: "service \<Rightarrow> str list \<Rightarrow> str list \<Rightarrow> str list" where
  "with_new_packages svc dirs [] = dirs"
| "with_new_packages svc dirs (f # fs) =
     (let dir = path_dirname f in
      with_new_packages svc
        (if path_basename f = ''package.json'' \<and> in_patterns dir (s_packages svc) \<and> dir \<notin> set dirs
            \<and> \<not> skipped dir (s_skip_packages svc)
         then dirs @ [dir] else dirs) fs)"

definition is_generated_lockfile :: "service \<Rightarrow> str \<Rightarrow> bool" where
  "is_generated_lockfile svc f \<longleftrightarrow>
     s_remove_untracked_lockfiles svc \<and> path_basename f = i_lockfile (s_install svc) \<and>
     \<not> skipped (path_dirname f) (s_skip_packages svc)"

text \<open>Files on disk that the release adds: a generated lockfile, or exactly the bytes it brings.\<close>

definition untracked_lockfiles ::
  "host \<Rightarrow> service \<Rightarrow> git_handle \<Rightarrow> str \<Rightarrow> str list \<Rightarrow> ('l, str list) prog" where
  "untracked_lockfiles H svc g b added =
     filterp (\<lambda>f. let p = path_join [s_repo svc, f] in
        bind (exec_stat H p) (\<lambda>st.
        if st = None then ret False
        else if is_generated_lockfile svc f then ret True
        else bind (exec_read H p) (\<lambda>mine. bind (git_show H g b f) (\<lambda>theirs. ret (mine = theirs))))) added"

definition repo_vhosts :: "service \<Rightarrow> str option" where
  "repo_vhosts svc = (case s_nginx svc of Some n \<Rightarrow> given (n_repo_vhosts n) | None \<Rightarrow> None)"

definition skip_vhosts :: "service \<Rightarrow> str list" where
  "skip_vhosts svc = (case s_nginx svc of Some n \<Rightarrow> n_skip_vhosts n | None \<Rightarrow> [])"

definition is_repo_vhost :: "service \<Rightarrow> str \<Rightarrow> bool" where
  "is_repo_vhost svc f =
     (case repo_vhosts svc of
        None \<Rightarrow> False
      | Some v \<Rightarrow>
          (if ends_with v ''*.conf''
           then path_dirname f = path_dirname v \<and> ends_with (path_basename f) ''.conf''
           else f = v))"

definition untracked_generated ::
  "host \<Rightarrow> service \<Rightarrow> git_handle \<Rightarrow> str \<Rightarrow> str \<Rightarrow> str list \<Rightarrow> str list \<Rightarrow> ('l, str list) prog" where
  "untracked_generated H svc g a b removed changed =
     (if s_generated svc = [] \<and> repo_vhosts svc = None then ret []
      else filterp (\<lambda>f.
        if is_repo_vhost svc f \<and> path_basename f \<in> set (skip_vhosts svc) then ret False
        else if (\<not> matches_path f (s_generated svc) \<and> \<not> is_repo_vhost svc f) \<or> f \<in> set removed then ret False
        else
          bind (git_show H g a f) (\<lambda>old.
          if old \<noteq> None then ret False
          else
            bind (git_show H g b f) (\<lambda>new.
            if new = None then ret False
            else bind (exec_stat H (path_join [s_repo svc, f])) (\<lambda>st. ret (st \<noteq> None))))) changed)"

definition has_modules :: "host \<Rightarrow> str \<Rightarrow> ('l, bool) prog" where
  "has_modules H dir = bind (exec_stat H (path_join [dir, ''node_modules''])) (\<lambda>st. ret (st \<noteq> None))"

definition install_item_of :: "service \<Rightarrow> str \<Rightarrow> need \<Rightarrow> bool \<Rightarrow> install_item" where
  "install_item_of svc pkg nd hasModules =
     \<lparr>in_pkg = pkg, in_lockfile_changed = lockfile_changed nd, in_deps_changed = deps_changed nd,
      in_needed = needed nd, in_missing_modules = \<not> hasModules,
      in_install = (needed nd \<or> i_always (s_install svc) \<or> \<not> hasModules)\<rparr>"

text \<open>A workspace installs once at the root; otherwise each package installs for itself.\<close>

definition workspace_need :: "host \<Rightarrow> service \<Rightarrow> git_handle \<Rightarrow> str \<Rightarrow> str \<Rightarrow> str list \<Rightarrow> ('l, need) prog" where
  "workspace_need H svc g a b pkgDirs =
     (if a = b then ret no_need
      else
        bind (foldp (\<lambda>acc pkg.
            bind (needs_install H g a b pkg (i_lockfile (s_install svc))) (\<lambda>n.
            ret (if pkg = ''.'' then lockfile_changed n else fst acc, snd acc \<or> deps_changed n)))
          (False, False) (''.'' # pkgDirs)) (\<lambda>(lc, dc).
        ret \<lparr>lockfile_changed = lc, deps_changed = dc, needed = lc \<or> dc\<rparr>))"

definition plan_installs ::
  "host \<Rightarrow> service \<Rightarrow> git_handle \<Rightarrow> str \<Rightarrow> str \<Rightarrow> str list \<Rightarrow> ('l, install_item list) prog" where
  "plan_installs H svc g a b pkgDirs =
     (if i_workspace (s_install svc) then
        bind (workspace_need H svc g a b pkgDirs) (\<lambda>nd.
        bind (has_modules H (s_repo svc)) (\<lambda>hm.
        ret [install_item_of svc ''.'' nd hm]))
      else mapp (\<lambda>pkg.
        bind (if a = b then ret no_need else needs_install H g a b pkg (i_lockfile (s_install svc))) (\<lambda>nd.
        bind (has_modules H (path_join [s_repo svc, pkg])) (\<lambda>hm.
        ret (install_item_of svc pkg nd hm)))) pkgDirs)"

text \<open>Unit files on the host that match the pattern: services, and oneshot jobs that are left alone.\<close>

definition matching_units :: "host \<Rightarrow> service \<Rightarrow> ('l, str list \<times> str list) prog" where
  "matching_units H svc =
     (case given (s_units_match svc) of
        None \<Rightarrow> ret ([], [])
      | Some pat \<Rightarrow>
          bind (try_catch
             (bind (list_unit_files H pat) (\<lambda>us.
              ret (filter (\<lambda>u. u \<notin> set (s_units svc) \<and> u \<notin> set (s_worker_units svc)) us)))
             (\<lambda>_. ret [])) (\<lambda>found.
          foldp (\<lambda>(extra, jobs) u.
             bind (try_catch (bind (show_unit H u) (\<lambda>st. ret (u_type st))) (\<lambda>_. ret [])) (\<lambda>ty.
             ret (if ty = ''oneshot'' then (extra, jobs @ [u]) else (extra @ [u], jobs)))) ([], []) found))"

definition aux_restart :: "service \<Rightarrow> op_mode \<Rightarrow> str list \<Rightarrow> str list" where
  "aux_restart svc mode changed =
     (if mode = Deploy
      then map a_unit (filter (\<lambda>a. a_restart_on a \<noteq> [] \<and> list_ex (\<lambda>f. matches_path f (a_restart_on a)) changed)
             (s_auxiliary_units svc))
      else [])"

definition aux_apply :: "service \<Rightarrow> op_mode \<Rightarrow> str list \<Rightarrow> str list" where
  "aux_apply svc mode changed =
     (if mode = Deploy
      then map a_unit (filter (\<lambda>a. a_apply_on a \<noteq> [] \<and> list_ex (\<lambda>f. matches_path f (a_apply_on a)) changed)
             (s_auxiliary_units svc))
      else [])"

definition unit_path :: "str \<Rightarrow> str" where
  "unit_path u = path_join [''/etc/systemd/system'', u]"

definition unit_drift :: "host \<Rightarrow> service \<Rightarrow> git_handle \<Rightarrow> str \<Rightarrow> ('l, drift list) prog" where
  "unit_drift H svc g b =
     foldp (\<lambda>acc (u, src).
        bind (git_show H g b src) (\<lambda>want.
        if want = None then ret acc
        else
          bind (exec_read H (unit_path u)) (\<lambda>have.
          ret (if have \<noteq> want then acc @ [\<lparr>dr_unit = u, dr_source = src, dr_installed = (have \<noteq> None)\<rparr>] else acc))))
       [] (s_unit_sources svc)"

definition vhosts_removed :: "host \<Rightarrow> service \<Rightarrow> git_handle \<Rightarrow> str \<Rightarrow> str list \<Rightarrow> ('l, str list) prog" where
  "vhosts_removed H svc g b changed =
     (case s_nginx svc of
        None \<Rightarrow> ret []
      | Some n \<Rightarrow>
          (case (n_install_on_deploy n, given (n_repo_vhosts n)) of
             (True, Some v) \<Rightarrow>
               foldp (\<lambda>acc f.
                 if ends_with f ''.conf'' \<and> path_dirname f = path_dirname v \<and> path_basename f \<notin> set (n_skip_vhosts n)
                 then bind (git_show H g b f) (\<lambda>new. ret (if new = None then acc @ [path_basename f] else acc))
                 else ret acc) [] changed
           | _ \<Rightarrow> ret []))"

section \<open>The plan\<close>

definition nginx_not_installed :: "service \<Rightarrow> str list \<Rightarrow> bool" where
  "nginx_not_installed svc changed =
     (case s_nginx svc of
        None \<Rightarrow> False
      | Some n \<Rightarrow>
          (case given (n_repo_vhost n) of
             None \<Rightarrow> False
           | Some v \<Rightarrow> \<not> n_install_on_deploy n \<and> v \<in> set changed))"

definition installs_vhosts :: "service \<Rightarrow> bool" where
  "installs_vhosts svc = (case s_nginx svc of Some n \<Rightarrow> n_install_on_deploy n | None \<Rightarrow> False)"

text \<open>The second half: from the two commits and the changed files to the finished plan.\<close>

definition finish_plan ::
  "ctx \<Rightarrow> service \<Rightarrow> git_handle \<Rightarrow> op_mode \<Rightarrow> bool \<Rightarrow> deploy_plan \<Rightarrow> str list \<Rightarrow> ('l, deploy_plan) prog" where
  "finish_plan c svc g mode rest p pkgDirs =
     (let H = exec c; a = p_from p; b = p_to p; changed = p_changed p in
      bind (plan_installs H svc g a b pkgDirs) (\<lambda>installs.
      let code = filter (\<lambda>f. \<not> matches_path f (s_no_restart_paths svc)) changed in
      bind (matching_units H svc) (\<lambda>(extra, jobs).
      let us = s_units svc @ extra; need = (us \<noteq> [] \<and> (rest \<or> code \<noteq> [])) in
      bind (unit_drift H svc g b) (\<lambda>drifts.
      bind (if need then bind (count_protected H svc) (\<lambda>r. ret (Some r)) else ret None) (\<lambda>sessions.
      bind (vhosts_removed H svc g b changed) (\<lambda>gone.
      ret (p\<lparr>p_code_changed := code, p_lockfile_changed := list_ex in_lockfile_changed installs,
             p_installs := installs, p_restart_needed := need, p_units := us,
             p_aux_restart := aux_restart svc mode changed, p_aux_apply := aux_apply svc mode changed,
             p_extra_units := extra, p_skipped_jobs := jobs, p_unit_drift := drifts,
             p_backup_needed := (s_databases svc \<noteq> [] \<and> list_ex (\<lambda>f. f \<in> set (s_backup_on_change svc)) changed),
             p_sessions := sessions, p_install_vhosts := installs_vhosts svc, p_vhosts_removed := gone,
             p_nginx_not_installed := nginx_not_installed svc changed\<rparr>)))))))"

definition blank_plan :: "str \<Rightarrow> str \<Rightarrow> str \<Rightarrow> str list \<Rightarrow> str list \<Rightarrow> deploy_plan" where
  "blank_plan branch a b commits changed =
     \<lparr>p_branch = branch, p_from = a, p_to = b, p_dirty = [], p_untracked_deleted = [], p_generated_dirty = [],
      p_commits = commits, p_changed = changed, p_code_changed = [], p_lockfile_changed = False, p_installs = [],
      p_untracked_lockfiles = [], p_untracked_generated = [], p_restart_needed = False, p_units = [],
      p_aux_restart = [], p_aux_apply = [], p_extra_units = [], p_skipped_jobs = [], p_unit_drift = [],
      p_backup_needed = False, p_sessions = None, p_install_vhosts = False, p_vhosts_removed = [],
      p_nginx_not_installed = False\<rparr>"

definition compute_plan ::
  "ctx \<Rightarrow> service \<Rightarrow> op_mode \<Rightarrow> str option \<Rightarrow> bool \<Rightarrow> bool \<Rightarrow> ('l, deploy_plan) prog" where
  "compute_plan c svc mode dest fetch rest =
     (let H = exec c; g = git_of svc; gen = (\<lambda>f. matches_path f (s_generated svc)) in
      if (case dest of Some t \<Rightarrow> \<not> is_ref_name t | None \<Rightarrow> False)
      then throw (OpError ''not a sha or ref name'' exit_usage None)
      else
        bind (git_head H g) (\<lambda>a.
        bind (git_branch H g) (\<lambda>branch.
        bind (git_dirty H g) (\<lambda>dirtyAll.
        let dirty = filter (\<lambda>f. \<not> gen f) dirtyAll in
        bind (plan_target H svc g mode dest fetch) (\<lambda>b.
        bind (if a = b then ret [] else git_changed_files H g a b) (\<lambda>changed.
        bind (if a = b then ret [] else case mode of Deploy \<Rightarrow> git_log H g a b | Rollback \<Rightarrow> git_log H g b a) (\<lambda>commits.
        bind (git_skip_worktree H g) (\<lambda>skips.
        bind (stopped_tracking H g a b (uniq (dirty @ filter (\<lambda>f. \<not> gen f) skips))) (\<lambda>gone.
        bind (expand_packages H svc) (\<lambda>dirs.
        bind (if a = b then ret [] else git_added_files H g a b) (\<lambda>added.
        bind (untracked_lockfiles H svc g b added) (\<lambda>locks.
        bind (untracked_generated H svc g a b locks changed) (\<lambda>outs.
        finish_plan c svc g mode rest
          ((blank_plan branch a b commits changed)
             \<lparr>p_dirty := filter (\<lambda>f. f \<notin> set gone) dirty, p_untracked_deleted := gone,
              p_generated_dirty := filter gen dirtyAll, p_untracked_lockfiles := locks,
              p_untracked_generated := outs\<rparr>)
          (with_new_packages svc dirs changed))))))))))))))"

section \<open>Footprints\<close>

context event_class
begin

lemma emits_operator_name [emits_rules]: "emits A (operator_name c)"
  unfolding operator_name_def by (intro emits_rules) simp

lemma emits_plan_target [emits_rules]: "emits A (plan_target H svc g mode dest fetch)"
  unfolding plan_target_def by (cases mode) (auto intro!: emits_rules)

lemma emits_plan_pieces [emits_rules]:
  "emits A (stopped_tracking H g a b ps)" "emits A (untracked_lockfiles H svc g b fs)"
  "emits A (untracked_generated H svc g a b rs fs)" "emits A (has_modules H d)"
  "emits A (unit_drift H svc g b)" "emits A (matching_units H svc)"
  unfolding stopped_tracking_def untracked_lockfiles_def untracked_generated_def has_modules_def
    unit_drift_def matching_units_def Let_def
  by (intro emits_rules; simp)+

lemma emits_plan_installs [emits_rules]: "emits A (plan_installs H svc g a b ds)"
  unfolding plan_installs_def workspace_need_def by (intro emits_rules)

lemma emits_vhosts_removed [emits_rules]: "emits A (vhosts_removed H svc g b fs)"
  unfolding vhosts_removed_def by (auto intro!: emits_rules split: option.split bool.split)

lemma emits_finish_plan [emits_rules]: "emits A (finish_plan c svc g mode r p ds)"
  unfolding finish_plan_def Let_def by (intro emits_rules)

lemma emits_compute_plan [emits_rules]: "emits A (compute_plan c svc mode dest fetch r)"
  unfolding compute_plan_def Let_def by (intro emits_rules) (auto intro!: emits_rules split: op_mode.split)

end

end
