(* ===== verification/Database.thy ===== *)
theory Database
  imports Systemd Dates
begin

text \<open>
  PostgreSQL, \<^verbatim>\<open>lib/dbengine.js\<close>: the commands ovhost runs as the \<^verbatim>\<open>postgres\<close> user, and the
  verification that pgBackRest holds a recent backup of the cluster.
\<close>

definition pg_user :: str where
  "pg_user = ''postgres''"

definition pg_stanza :: str where
  "pg_stanza = ''openvibe''"

text \<open>SQL quoting: an identifier in double quotes, a literal in single quotes, each doubling its own quote.\<close>

definition double_char :: "char \<Rightarrow> str \<Rightarrow> str" where
  "double_char q s = concat (map (\<lambda>c. if c = q then [q, q] else [c]) s)"

definition sql_ident :: "str \<Rightarrow> str" where
  "sql_ident s = CHR 0x22 # double_char (CHR 0x22) s @ [CHR 0x22]"

definition sql_literal :: "str \<Rightarrow> str" where
  "sql_literal s = CHR 0x27 # double_char (CHR 0x27) s @ [CHR 0x27]"

definition dump_file_name :: "database \<Rightarrow> str" where
  "dump_file_name db = db_name db @ ''.dump''"

definition run_pg :: "host \<Rightarrow> str \<Rightarrow> str list \<Rightarrow> ('l, run_result) prog" where
  "run_pg H cmd args =
     bind (exec_run H cmd args (as_owner pg_user)) (\<lambda>r.
     if rc r \<noteq> 0 then throw (JsError (cmd @ '' failed'')) else ret r)"

definition db_exists :: "host \<Rightarrow> database \<Rightarrow> ('l, bool) prog" where
  "db_exists H db =
     bind (exec_psql H ''postgres'' (''SELECT 1 AS present FROM pg_database WHERE datname = '' @ sql_literal (db_database db)))
       (\<lambda>rows. ret (rows \<noteq> []))"

definition pg_dump :: "host \<Rightarrow> database \<Rightarrow> str \<Rightarrow> ('l, str) prog" where
  "pg_dump H db dest =
     bind (run_pg H ''pg_dump'' [''-w'', ''-Fc'', ''-f'', dest, ''-d'', db_database db]) (\<lambda>_. ret dest)"

text \<open>The reader's user: \<open>None\<close> is ovhost itself.\<close>

definition verify_dump :: "host \<Rightarrow> str \<Rightarrow> str option \<Rightarrow> ('l, bool) prog" where
  "verify_dump H file reader =
     bind (exec_run H ''pg_restore'' [''--list'', file] (as_self\<lparr>o_as := reader\<rparr>)) (\<lambda>r.
     if rc r \<noteq> 0 then throw (JsError ''pg_restore --list failed'') else ret True)"

definition create_database :: "host \<Rightarrow> str \<Rightarrow> str option \<Rightarrow> ('l, str) prog" where
  "create_database H database owner =
     bind (run_pg H ''createdb''
       ([''-w''] @ (case owner of Some u \<Rightarrow> (if u = [] then [] else [''--owner='' @ u]) | None \<Rightarrow> []) @ [database]))
       (\<lambda>_. ret database)"

definition drop_database :: "host \<Rightarrow> str \<Rightarrow> ('l, unit) prog" where
  "drop_database H database =
     bind (run_pg H ''dropdb'' [''-w'', ''--if-exists'', ''--force'', database]) (\<lambda>_. ret ())"

definition pg_restore :: "host \<Rightarrow> str \<Rightarrow> str \<Rightarrow> str option \<Rightarrow> ('l, str) prog" where
  "pg_restore H dumpFile database role =
     bind (run_pg H ''pg_restore''
       ([''-w'', ''--no-owner'', ''--no-privileges''] @
        (case role of Some u \<Rightarrow> (if u = [] then [] else [''--role='' @ u]) | None \<Rightarrow> []) @ [''-d'', database, dumpFile]))
       (\<lambda>_. ret database)"

text \<open>A column of a row: absent is \<^verbatim>\<open>undefined\<close>, SQL NULL is \<^verbatim>\<open>null\<close>.\<close>

definition column :: "str \<Rightarrow> (str \<times> str option) list \<Rightarrow> json option" where
  "column k row =
     (case map_of row k of
        None \<Rightarrow> None
      | Some None \<Rightarrow> Some JNull
      | Some (Some s) \<Rightarrow> Some (JStr s))"

definition scratch_names :: "str \<Rightarrow> (str \<times> str option) list list \<Rightarrow> str list" where
  "scratch_names prefix rows =
     List.map_filter (\<lambda>row. case column ''name'' row of
        Some (JStr n) \<Rightarrow> (if starts_with n prefix then Some n else None) | _ \<Rightarrow> None) rows"

definition scratch_leftovers :: "host \<Rightarrow> str \<Rightarrow> ('l, str list \<times> str list) prog" where
  "scratch_leftovers H prefix =
     (let p = sql_literal prefix in
      bind (exec_psql H ''postgres'' (''SELECT datname AS name FROM pg_database WHERE left(datname, length('' @ p @ '')) = '' @ p)) (\<lambda>dbs.
      bind (exec_psql H ''postgres'' (''SELECT rolname AS name FROM pg_roles WHERE left(rolname, length('' @ p @ '')) = '' @ p)) (\<lambda>roles.
      ret (scratch_names prefix dbs, scratch_names prefix roles))))"

section \<open>pgBackRest\<close>

definition pgbackrest_info :: "host \<Rightarrow> ('l, json list) prog" where
  "pgbackrest_info H =
     bind (run_pg H ''pgbackrest'' [''--stanza='' @ pg_stanza, ''info'', ''--output=json'']) (\<lambda>r.
     case json_parse (rout r) of
       None \<Rightarrow> throw (JsError ''pgbackrest info did not answer JSON'')
     | Some (JArr xs) \<Rightarrow> ret xs
     | Some _ \<Rightarrow> ret [])"

text \<open>The newest backup of a stanza, by its stop time in epoch seconds; one without a stop time is skipped.\<close>

definition stop_of :: "json \<Rightarrow> rat option" where
  "stop_of b =
     (let ts = jget ''timestamp'' b in
      if truthy (Some b) \<and> truthy ts then to_number (jget ''stop'' (the ts)) else None)"

fun newest_of :: "(json \<times> rat) option \<Rightarrow> json list \<Rightarrow> (json \<times> rat) option" where
  "newest_of best [] = best"
| "newest_of best (b # bs) =
     newest_of
       (case stop_of b of
          None \<Rightarrow> best
        | Some s \<Rightarrow>
            (if (case best of None \<Rightarrow> True | Some (_, s0) \<Rightarrow> s0 < s)
             then Some (if truthy (jget ''type'' b) then the (jget ''type'' b) else JStr ''unknown'', s)
             else best)) bs"

text \<open>\<^verbatim>\<open>for (const b of stanza.backup || [])\<close>: what is no array, string or falsy value throws.\<close>

definition newest_backup :: "json \<Rightarrow> exc + (json \<times> rat) option" where
  "newest_backup stanza =
     (if \<not> truthy (jget ''backup'' stanza) then Inr None
      else case jget ''backup'' stanza of
          Some (JArr bs) \<Rightarrow> Inr (newest_of None bs)
        | Some (JStr s) \<Rightarrow> Inr None
        | _ \<Rightarrow> Inl (JsError ''TypeError''))"

text \<open>\<^verbatim>\<open>new Date(ms).toISOString()\<close>: a RangeError outside the time values a Date can hold.\<close>

definition date_iso :: "rat \<Rightarrow> exc + str" where
  "date_iso ms =
     (if 8640000000000000 < \<bar>ms\<bar> then Inl (JsError ''RangeError'')
      else Inr (iso_string (if 0 \<le> ms then \<lfloor>ms\<rfloor> else \<lceil>ms\<rceil>)))"

definition max_backup_age :: rat where
  "max_backup_age = 26 * 3600"

text \<open>What the answer of \<^verbatim>\<open>pgbackrest info\<close> shows at time \<open>now\<close>: the newest backup's type and stop.\<close>

definition judge_pgbackrest :: "int \<Rightarrow> json list \<Rightarrow> exc + json \<times> str" where
  "judge_pgbackrest now stanzas =
     (case List.find (\<lambda>s. jget ''name'' s = Some (JStr pg_stanza)) stanzas of
        None \<Rightarrow> Inl (JsError ''the cluster is not being backed up'')
      | Some stanza \<Rightarrow>
          (let st = jget ''status'' stanza;
               code = (if truthy st then jget ''code'' (the st) else st);
               n = (if truthy code then to_number code else Some 0) in
           if n \<noteq> Some 0 then Inl (JsError ''pgBackRest stanza is not ok'')
           else case newest_backup stanza of
               Inl e \<Rightarrow> Inl e
             | Inr None \<Rightarrow> Inl (JsError ''pgBackRest stanza holds no backup at all'')
             | Inr (Some (type, stop)) \<Rightarrow>
                 (if max_backup_age < of_int (now div 1000) - stop
                  then Inl (JsError ''the newest pgBackRest backup is too old'')
                  else case date_iso (stop * 1000) of Inl e \<Rightarrow> Inl e | Inr at_iso \<Rightarrow> Inr (type, at_iso))))"

definition verify_pgbackrest :: "host \<Rightarrow> int \<Rightarrow> ('l, json \<times> str) prog" where
  "verify_pgbackrest H now = bind (pgbackrest_info H) (\<lambda>xs. of_sum (judge_pgbackrest now xs))"

definition wal_failed_count :: "host \<Rightarrow> ('l, rat) prog" where
  "wal_failed_count H =
     bind (exec_psql H ''postgres'' ''SELECT failed_count::text AS n FROM pg_stat_archiver'') (\<lambda>rows.
     case (case rows of row # _ \<Rightarrow> to_number (column ''n'' row) | [] \<Rightarrow> None) of
       None \<Rightarrow> throw (JsError ''pg_stat_archiver returned no failed_count'')
     | Some n \<Rightarrow> ret n)"

section \<open>Lemmas\<close>

text \<open>The newest backup is one of the stanza's, and none of them stopped later.\<close>

lemma newest_of_ge:
  assumes "newest_of best bs = Some (ty, s)"
  shows "(\<forall>b \<in> set bs. \<forall>s'. stop_of b = Some s' \<longrightarrow> s' \<le> s) \<and>
    (case best of None \<Rightarrow> \<exists>b \<in> set bs. stop_of b = Some s
                | Some (t0, s0) \<Rightarrow> s0 \<le> s \<and> (s = s0 \<or> (\<exists>b \<in> set bs. stop_of b = Some s)))"
  using assms
proof (induction bs arbitrary: best)
  case Nil
  then show ?case by simp
next
  case (Cons b bs)
  then show ?case
    by (cases "stop_of b"; cases best; force split: if_splits)
qed

context event_class
begin

lemma emits_run_pg [emits_rules]: "c \<noteq> ''systemctl'' \<Longrightarrow> emits A (run_pg H c args)"
  unfolding run_pg_def by (intro emits_rules) simp

lemma emits_database [emits_rules]:
  "emits A (db_exists H db)" "emits A (pg_dump H db dest)" "emits A (verify_dump H f rd)"
  "emits A (create_database H d ow)" "emits A (drop_database H d)" "emits A (pg_restore H f d ro)"
  "emits A (scratch_leftovers H p)" "emits A (wal_failed_count H)"
  unfolding db_exists_def pg_dump_def verify_dump_def create_database_def drop_database_def
    pg_restore_def scratch_leftovers_def wal_failed_count_def Let_def
  by (intro emits_rules; simp)+

lemma emits_pgbackrest_info [emits_rules]: "emits A (pgbackrest_info H)"
  unfolding pgbackrest_info_def
  by (intro emits_rules) (auto split: json.split option.split intro!: emits_rules)

lemma emits_verify_pgbackrest [emits_rules]: "emits A (verify_pgbackrest H now)"
  unfolding verify_pgbackrest_def by (intro emits_rules)

end

end
