(* ===== verification/Retention.thy ===== *)
theory Retention
  imports Dates
begin

text \<open>
  Backup retention, \<^verbatim>\<open>lib/retention.js\<close>: pure functions over stamps
  (\<^verbatim>\<open>YYYYMMDD-HHMMSS\<close>, UTC). \<open>keep_spec\<close> states the policy without the loop.
\<close>

text \<open>\<^verbatim>\<open>/^(\d{4})(\d{2})(\d{2})-(\d{2})(\d{2})(\d{2})$/\<close>\<close>

definition is_stamp :: "str \<Rightarrow> bool" where
  "is_stamp s \<longleftrightarrow>
     length s = 15 \<and> list_all is_digit (take 8 s) \<and> s ! 8 = CHR ''-'' \<and> list_all is_digit (drop 9 s)"

definition digits_at :: "nat \<Rightarrow> nat \<Rightarrow> str \<Rightarrow> int" where
  "digits_at i n s = int (digits_val (take n (drop i s)))"

definition parse_stamp :: "str \<Rightarrow> int option" where
  "parse_stamp s =
     (if is_stamp s
      then Some (date_utc (digits_at 0 4 s) (digits_at 4 2 s - 1) (digits_at 6 2 s)
                   (digits_at 9 2 s) (digits_at 11 2 s) (digits_at 13 2 s))
      else None)"

text \<open>The ISO-8601 week, as its year and number: the one that holds the week's Thursday.\<close>

definition iso_week :: "int \<Rightarrow> int \<times> int" where
  "iso_week ms =
     (let day = (utc_weekday ms + 6) mod 7;
          (y, m, d) = utc_civil ms;
          thursday = date_utc y (m - 1) (d - day + 3) 0 0 0;
          ty = utc_year thursday
      in (ty, (thursday - date_utc ty 0 1 0 0 0) div ms_per_day div 7 + 1))"

text \<open>\<^verbatim>\<open>2026-W39\<close>\<close>

definition iso_week_key :: "int \<Rightarrow> str" where
  "iso_week_key ms = (let (y, w) = iso_week ms in int_str y @ ''-W'' @ pad2 w)"

definition day_of :: "str \<Rightarrow> str" where
  "day_of s = take 8 s"

definition week_of :: "str \<Rightarrow> str" where
  "week_of s = (case parse_stamp s of Some ms \<Rightarrow> iso_week_key ms | None \<Rightarrow> [])"

text \<open>One pass over the stamps, newest first: what is kept, and the days and weeks that used a slot.\<close>

fun keep_loop :: "nat \<Rightarrow> nat \<Rightarrow> str list \<Rightarrow> str list \<Rightarrow> str list \<Rightarrow> str list \<Rightarrow> str list" where
  "keep_loop daily weekly days weeks kept [] = kept"
| "keep_loop daily weekly days weeks kept (s # ss) =
     (let d = day_of s; w = week_of s;
          newday = (d \<notin> set days \<and> length days < daily);
          newweek = (w \<notin> set weeks \<and> length weeks < weekly)
      in keep_loop daily weekly (if newday then d # days else days) (if newweek then w # weeks else weeks)
           (if newday \<or> newweek then List.insert s kept else kept) ss)"

definition newest_first :: "str list \<Rightarrow> str list" where
  "newest_first stamps = rev (sort (filter (\<lambda>s. parse_stamp s \<noteq> None) (uniq stamps)))"

definition keep :: "nat \<Rightarrow> nat \<Rightarrow> str list \<Rightarrow> str list" where
  "keep daily weekly stamps = keep_loop daily weekly [] [] [] (newest_first stamps)"

section \<open>The policy\<close>

text \<open>The first stamp of each new key, while fewer than \<open>n\<close> keys were seen.\<close>

fun firsts :: "(str \<Rightarrow> 'k) \<Rightarrow> nat \<Rightarrow> 'k list \<Rightarrow> str list \<Rightarrow> str set" where
  "firsts key n seen [] = {}"
| "firsts key n seen (s # ss) =
     (if key s \<notin> set seen \<and> length seen < n then insert s (firsts key n (key s # seen) ss)
      else firsts key n seen ss)"

lemma keep_loop_firsts:
  "set (keep_loop daily weekly days weeks kept ss) =
     set kept \<union> firsts day_of daily days ss \<union> firsts week_of weekly weeks ss"
  by (induction ss arbitrary: days weeks kept) (auto simp: Let_def)

lemma firsts_full: "n \<le> length seen \<Longrightarrow> firsts key n seen ss = {}"
  by (induction ss) auto

lemma firsts_iff:
  assumes "distinct ss" "distinct seen"
  shows "s \<in> firsts key n seen ss \<longleftrightarrow>
    (\<exists>as bs. ss = as @ s # bs \<and> key s \<notin> set seen \<union> key ` set as \<and> card (set seen \<union> key ` set as) < n)"
  using assms
proof (induction ss arbitrary: seen)
  case (Cons x ss)
  have split: "(\<exists>as bs. x # ss = as @ s # bs \<and> P as) \<longleftrightarrow>
      x = s \<and> P [] \<or> (\<exists>as bs. ss = as @ s # bs \<and> P (x # as))" for P
    by (simp add: Cons_eq_append_conv) blast
  have len: "card (set seen) = length seen" by (rule distinct_card [OF Cons.prems(2)])
  show ?case
  proof (cases "key x \<notin> set seen \<and> length seen < n")
    case True
    have IH: "s \<in> firsts key n (key x # seen) ss \<longleftrightarrow>
      (\<exists>as bs. ss = as @ s # bs \<and> key s \<notin> set (key x # seen) \<union> key ` set as \<and>
         card (set (key x # seen) \<union> key ` set as) < n)"
      by (rule Cons.IH) (use Cons.prems True in auto)
    show ?thesis
      unfolding split using True len by (auto simp: IH)
  next
    case False
    have IH: "s \<in> firsts key n seen ss \<longleftrightarrow>
      (\<exists>as bs. ss = as @ s # bs \<and> key s \<notin> set seen \<union> key ` set as \<and> card (set seen \<union> key ` set as) < n)"
      by (rule Cons.IH) (use Cons.prems in auto)
    show ?thesis
    proof (cases "length seen < n")
      case True
      with False have "key x \<in> set seen" by simp
      then have "set seen \<union> key ` set (x # as) = set seen \<union> key ` set as" for as by auto
      with True False show ?thesis unfolding split by (auto simp: IH)
    next
      case ge: False
      have "\<not> card (set seen \<union> key ` set as) < n" for as
      proof -
        have "card (set seen) \<le> card (set seen \<union> key ` set as)" by (intro card_mono) auto
        with ge len show ?thesis by simp
      qed
      from this [of "x # as" for as] this [of "[]"] ge show ?thesis unfolding split by (simp add: firsts_full)
    qed
  qed
qed simp

lemma newest_first_set: "set (newest_first stamps) = {s \<in> set stamps. parse_stamp s \<noteq> None}"
  unfolding newest_first_def by (auto simp: set_uniq)

lemma newest_first_distinct: "distinct (newest_first stamps)"
  unfolding newest_first_def by (simp add: distinct_uniq)

lemma newest_first_split:
  assumes "newest_first stamps = as @ s # bs"
  shows "set as = {x \<in> set (newest_first stamps). s < x}"
proof -
  have sorted: "sorted (rev (as @ s # bs))" unfolding assms [symmetric] newest_first_def by simp
  have dist: "distinct (as @ s # bs)" unfolding assms [symmetric] by (rule newest_first_distinct)
  from sorted have ge: "x \<in> set as \<Longrightarrow> s \<le> x" and le: "x \<in> set bs \<Longrightarrow> x \<le> s" for x
    by (simp_all add: sorted_append)
  have as: "x \<in> set as \<Longrightarrow> s < x" for x using ge [of x] dist by (cases "x = s") auto
  have bs: "x \<in> set bs \<Longrightarrow> \<not> s < x" for x using le [of x] by simp
  show ?thesis unfolding assms using as bs by auto
qed

lemma firsts_newest_first:
  "s \<in> firsts key n [] (newest_first stamps) \<longleftrightarrow>
     s \<in> set (newest_first stamps) \<and>
     (let later = {x \<in> set (newest_first stamps). s < x} in key s \<notin> key ` later \<and> card (key ` later) < n)"
proof -
  let ?L = "newest_first stamps"
  have "s \<in> firsts key n [] ?L \<longleftrightarrow>
      (\<exists>as bs. ?L = as @ s # bs \<and> key s \<notin> key ` set as \<and> card (key ` set as) < n)"
    using firsts_iff [OF newest_first_distinct, of "[]" s key n stamps] by simp
  also have "\<dots> \<longleftrightarrow> s \<in> set ?L \<and> key s \<notin> key ` {x \<in> set ?L. s < x} \<and> card (key ` {x \<in> set ?L. s < x}) < n"
    (is "_ \<longleftrightarrow> ?R")
  proof
    assume "\<exists>as bs. ?L = as @ s # bs \<and> key s \<notin> key ` set as \<and> card (key ` set as) < n"
    then obtain as bs where *: "?L = as @ s # bs" "key s \<notin> key ` set as" "card (key ` set as) < n" by blast
    have mem: "s \<in> set ?L" using *(1) by simp
    show ?R using mem *(2,3) unfolding newest_first_split [OF *(1), symmetric] by (intro conjI)
  next
    assume R: ?R
    then obtain as bs where split: "?L = as @ s # bs" by (meson split_list)
    from R have "key s \<notin> key ` set as" "card (key ` set as) < n"
      unfolding newest_first_split [OF split, symmetric] by simp_all
    with split show "\<exists>as bs. ?L = as @ s # bs \<and> key s \<notin> key ` set as \<and> card (key ` set as) < n"
      by (intro exI conjI)
  qed
  finally show ?thesis by (simp add: Let_def)
qed

lemma keep_firsts:
  "set (keep daily weekly stamps) =
     firsts day_of daily [] (newest_first stamps) \<union> firsts week_of weekly [] (newest_first stamps)"
  unfolding keep_def by (simp add: keep_loop_firsts)

lemma firsts_subset: "firsts key n seen ss \<subseteq> set ss"
  by (induction ss arbitrary: seen) auto

lemma card_firsts: "card (firsts key n seen ss) \<le> n - length seen"
proof (induction ss arbitrary: seen)
  case (Cons s ss)
  have "card (insert s (firsts key n (key s # seen) ss)) \<le> Suc (card (firsts key n (key s # seen) ss))"
    by (rule card_insert_le_m1) simp_all
  also have "\<dots> \<le> Suc (n - Suc (length seen))" using Cons.IH [of "key s # seen"] by simp
  finally show ?case using Cons.IH [of seen] by auto
qed simp

text \<open>
  Property C24. The loop of \<^verbatim>\<open>keep\<close> is the policy of its comment: a well-formed stamp is kept
  exactly when it is the newest of its day and fewer than \<open>daily\<close> later days have a backup, or the
  newest of its ISO week and fewer than \<open>weekly\<close> later weeks have one.
\<close>

theorem keep_spec:
  "s \<in> set (keep daily weekly stamps) \<longleftrightarrow>
     s \<in> set stamps \<and> parse_stamp s \<noteq> None \<and>
     (let later = {x \<in> set stamps. parse_stamp x \<noteq> None \<and> s < x} in
        day_of s \<notin> day_of ` later \<and> card (day_of ` later) < daily \<or>
        week_of s \<notin> week_of ` later \<and> card (week_of ` later) < weekly)"
proof -
  have later: "{x \<in> set (newest_first stamps). s < x} = {x \<in> set stamps. parse_stamp x \<noteq> None \<and> s < x}"
    unfolding newest_first_set by auto
  show ?thesis
    unfolding keep_firsts Un_iff firsts_newest_first later newest_first_set Let_def by auto
qed

text \<open>
  Whatever the stamps, at most \<open>daily + weekly\<close> backups are kept, all of them stamps that
  were there.
\<close>

theorem keep_bounds:
  "card (set (keep daily weekly stamps)) \<le> daily + weekly \<and> set (keep daily weekly stamps) \<subseteq> set stamps"
proof -
  have "card (set (keep daily weekly stamps)) \<le>
      card (firsts day_of daily [] (newest_first stamps)) + card (firsts week_of weekly [] (newest_first stamps))"
    unfolding keep_firsts by (rule card_Un_le)
  also have "\<dots> \<le> daily + weekly"
    using card_firsts [of day_of daily "[]" "newest_first stamps"] card_firsts [of week_of weekly "[]" "newest_first stamps"]
    by simp
  finally show ?thesis
    unfolding keep_firsts using firsts_subset newest_first_set by fastforce
qed

end
