(* ===== verification/Backup.thy ===== *)
theory Backup
  imports Database Retention
begin

text \<open>
  \<^verbatim>\<open>lib/commands/backup.js\<close>: one service's backup (verify the cluster's own backup layer, dump
  the databases that are due, archive the object directories, move the checked copies into place) and
  the pruning of its old ones.
\<close>

definition logical_dump_interval_ms :: int where
  "logical_dump_interval_ms = 7 * 86400000"

definition archive_headroom :: int where
  "archive_headroom = 1024 * 1024"

text \<open>Every warning of a tar that exited 1 names a file that changed or went away while it was read.\<close>

definition benign_tar_warning :: "str \<Rightarrow> bool" where
  "benign_tar_warning l =
     (let s = map lower_char l in
      str_includes s ''file changed as we read it'' \<or> str_includes s ''file removed before we read it'' \<or>
      str_includes s ''cannot stat: no such file or directory'')"

definition tar_warnings_only :: "str \<Rightarrow> bool" where
  "tar_warnings_only err =
     (let ls = filter (\<lambda>l. l \<noteq> []) (map trim (lines err)) in ls \<noteq> [] \<and> list_all benign_tar_warning ls)"

text \<open>\<^verbatim>\<open>YYYYMMDD-HHMMSS\<close>\<close>

definition backup_stamp :: "int \<Rightarrow> str" where
  "backup_stamp ms =
     (let (y, m, d) = utc_civil ms; (h, mi, s) = utc_clock ms
      in pad_n 4 y @ pad2 m @ pad2 d @ ''-'' @ pad2 h @ pad2 mi @ pad2 s)"

text \<open>The mode is its octal text, as \<^verbatim>\<open>chmod\<close> gets it.\<close>

definition root_run :: "host \<Rightarrow> str \<Rightarrow> str list \<Rightarrow> ('l, unit) prog" where
  "root_run H cmd args =
     bind (exec_run H cmd args as_root) (\<lambda>r.
     if rc r \<noteq> 0 then throw (JsError (cmd @ '' failed'')) else ret ())"

definition lock_down :: "host \<Rightarrow> str \<Rightarrow> str \<Rightarrow> ('l, unit) prog" where
  "lock_down H p mode =
     andthen (root_run H ''chown'' [''root:root'', ''--'', p]) (root_run H ''chmod'' [mode, ''--'', p])"

definition private_dir :: "host \<Rightarrow> str \<Rightarrow> ('l, unit) prog" where
  "private_dir H p = andthen (exec_mkdir H p (Some ''root'')) (lock_down H p ''0700'')"

definition rm_rf :: "host \<Rightarrow> str \<Rightarrow> ('l, unit) prog" where
  "rm_rf H p = bind (exec_run H ''rm'' [''-rf'', ''--'', p] as_root) (\<lambda>_. ret ())"

section \<open>Verification\<close>

definition archiver_file :: "inventory \<Rightarrow> str" where
  "archiver_file i = path_join [inv_state_dir i, ''pgbackrest-archiver.json'']"

definition archiver_count :: "str option \<Rightarrow> rat option" where
  "archiver_count text =
     (case text of
        None \<Rightarrow> None
      | Some t \<Rightarrow>
          (case json_parse t of
             Some v \<Rightarrow> (case jget ''failedCount'' v of Some (JNum n) \<Rightarrow> Some n | _ \<Rightarrow> None)
           | None \<Rightarrow> None))"

definition read_archiver :: "ctx \<Rightarrow> ('l, rat option) prog" where
  "read_archiver c = bind (exec_read (exec c) (archiver_file (inv c))) (\<lambda>t. ret (archiver_count t))"

definition write_archiver :: "ctx \<Rightarrow> rat \<Rightarrow> ('l, unit) prog" where
  "write_archiver c n =
     andthen (exec_mkdir (exec c) (inv_state_dir (inv c)) None)
     (bind (exec_now (exec c)) (\<lambda>t.
      exec_write (exec c) (archiver_file (inv c))
        (json_text (JObj [(''failedCount'', JNum n), (''at'', JStr (iso_string t))]) @ [CHR 0x0A])))"

record pg_verified =
  vf_type :: "json option"
  vf_stop :: "str option"
  vf_wal_ok :: "bool option"
  vf_ok :: bool
  vf_error :: "str option"

definition verify_postgres :: "ctx \<Rightarrow> ('l, pg_verified) prog" where
  "verify_postgres c =
     try_catch
       (bind (exec_now (exec c)) (\<lambda>now.
        bind (verify_pgbackrest (exec c) now) (\<lambda>(type, stop).
        bind (wal_failed_count (exec c)) (\<lambda>failed.
        bind (read_archiver c) (\<lambda>previous.
        let walOk = (case previous of None \<Rightarrow> True | Some p \<Rightarrow> failed \<le> p) in
        andthen (write_archiver c failed)
        (ret \<lparr>vf_type = Some type, vf_stop = Some stop, vf_wal_ok = Some walOk, vf_ok = walOk,
              vf_error = (if walOk then None else Some ''the WAL archiver failed_count rose'')\<rparr>))))))
       (\<lambda>e. ret \<lparr>vf_type = None, vf_stop = None, vf_wal_ok = None, vf_ok = False, vf_error = Some (exc_message e)\<rparr>)"

section \<open>When a logical dump is due\<close>

definition backup_log :: "inventory \<Rightarrow> str \<Rightarrow> str" where
  "backup_log i sid = path_join [inv_state_dir i, ''backups'', sid @ ''.jsonl'']"

text \<open>\<^verbatim>\<open>(r.files || []).some(...)\<close>: what is no array has no \<^verbatim>\<open>some\<close>; a null element has no property.\<close>

fun some_dump :: "json list \<Rightarrow> exc + bool" where
  "some_dump [] = Inr False"
| "some_dump (f # fs) =
     (if f = JNull then Inl (JsError ''TypeError'')
      else case jget ''file'' f of
          Some (JStr s) \<Rightarrow> (if ends_with s ''.dump'' then Inr True else some_dump fs)
        | _ \<Rightarrow> some_dump fs)"

definition has_dump :: "json \<Rightarrow> exc + bool" where
  "has_dump r =
     (if \<not> truthy (jget ''files'' r) then Inr False
      else case jget ''files'' r of Some (JArr fs) \<Rightarrow> some_dump fs | _ \<Rightarrow> Inl (JsError ''TypeError''))"

fun last_dump :: "str list \<Rightarrow> exc + json option" where
  "last_dump [] = Inr None"
| "last_dump (l # ls) =
     (case json_parse l of
        None \<Rightarrow> last_dump ls
      | Some r \<Rightarrow>
          (if \<not> truthy (Some r) \<or> jget ''ok'' r = Some (JBool False) then last_dump ls
           else case has_dump r of
               Inl e \<Rightarrow> Inl e
             | Inr True \<Rightarrow> Inr (if truthy (jget ''at'' r) then jget ''at'' r else None)
             | Inr False \<Rightarrow> last_dump ls))"

definition last_good_dump_at :: "ctx \<Rightarrow> str \<Rightarrow> ('l, json option) prog" where
  "last_good_dump_at c sid =
     bind (exec_read (exec c) (backup_log (inv c) sid)) (\<lambda>text.
     of_sum (last_dump (rev (nonempty_lines (case text of Some t \<Rightarrow> t | None \<Rightarrow> [])))))"

definition dump_due :: "ctx \<Rightarrow> str \<Rightarrow> bool \<Rightarrow> ('l, bool) prog" where
  "dump_due c sid logical =
     bind (last_good_dump_at c sid) (\<lambda>lst.
     case (case lst of None \<Rightarrow> None | Some v \<Rightarrow> h_date_parse (exec c) (js_string v)) of
       None \<Rightarrow> ret True
     | Some t \<Rightarrow>
         (if logical then ret True
          else bind (exec_now (exec c)) (\<lambda>now. ret (logical_dump_interval_ms < now - t))))"

section \<open>The copies\<close>

record backup_file =
  bf_name :: str
  bf_source :: str
  bf_dest :: "str option"
  bf_file :: "str option"
  bf_objects :: bool
  bf_source_bytes :: "rat option"
  bf_check :: "str option"
  bf_seconds :: "int option"
  bf_skipped :: "str option"
  bf_error :: "str option"
  bf_bytes :: "int option"

definition new_file :: "str \<Rightarrow> str \<Rightarrow> str option \<Rightarrow> backup_file" where
  "new_file name src dest =
     \<lparr>bf_name = name, bf_source = src, bf_dest = dest, bf_file = None, bf_objects = False,
      bf_source_bytes = None, bf_check = None, bf_seconds = None, bf_skipped = None, bf_error = None,
      bf_bytes = None\<rparr>"

definition rounded_seconds :: "int \<Rightarrow> int \<Rightarrow> int" where
  "rounded_seconds t0 t = (t - t0 + 500) div 1000"

definition dump_one :: "host \<Rightarrow> str \<Rightarrow> str \<Rightarrow> database \<Rightarrow> ('l, backup_file) prog" where
  "dump_one H stage dir db =
     (let file = dump_file_name db;
          f = new_file (db_name db) (db_database db) (Some (path_join [dir, file])) in
      bind (exec_now H) (\<lambda>t0.
      bind (try_catch (bind (pg_dump H db (path_join [stage, file])) (\<lambda>_. ret None))
              (\<lambda>e. ret (Some (exc_message e)))) (\<lambda>err.
      case err of
        Some m \<Rightarrow> ret (f\<lparr>bf_error := Some m\<rparr>)
      | None \<Rightarrow>
          bind (exec_now H) (\<lambda>t1.
          ret (f\<lparr>bf_file := Some file, bf_check := Some ''pg_dump -Fc'', bf_seconds := Some (rounded_seconds t0 t1)\<rparr>)))))"

definition dump_all :: "host \<Rightarrow> str \<Rightarrow> str \<Rightarrow> bool \<Rightarrow> database list \<Rightarrow> ('l, backup_file list) prog" where
  "dump_all H stage dir due dbs =
     mapp (dump_one H stage dir) (filter (\<lambda>db. due \<and> db_engine db = ''postgresql'') dbs)"

definition du_bytes :: "run_result \<Rightarrow> rat option" where
  "du_bytes r =
     (if rc r = 0 then str_number (takeWhile (\<lambda>ch. \<not> is_ws ch) (trim (rout r))) else None)"

text \<open>One object directory: skipped, refused for want of space, or archived by tar.\<close>

definition archive_object :: "ctx \<Rightarrow> str \<Rightarrow> str \<Rightarrow> object_dir \<Rightarrow> ('l, backup_file) prog" where
  "archive_object c stage dir ob =
     (let H = exec c; file = ob_name ob @ ''.tar.gz''; archive = path_join [stage, file];
          f = new_file (ob_name ob) (ob_path ob) (Some (path_join [dir, file])) in
      bind (exec_stat H (ob_path ob)) (\<lambda>st.
      if st = None then ret (f\<lparr>bf_dest := None, bf_skipped := Some ''not found''\<rparr>)
      else
        bind (exec_now H) (\<lambda>t0.
        bind (exec_run H ''du'' [''-sb'', ''--'', ob_path ob] as_root) (\<lambda>du.
        let bytes = du_bytes du in
        bind (case bytes of
                None \<Rightarrow> ret True
              | Some n \<Rightarrow>
                  bind (exec_statfs H (inv_backup_staging_dir (inv c))) (\<lambda>free.
                  ret (n + of_int archive_headroom \<le> of_int free))) (\<lambda>room.
        if \<not> room then ret (f\<lparr>bf_error := Some ''not enough free space''\<rparr>)
        else
          andthen (rm_rf H archive)
          (bind (exec_run H ''tar''
             [''-czf'', archive, ''-C'', ob_path ob, ''--exclude=./tmp'', ''--exclude=./tmp/*'', ''.''] as_root) (\<lambda>r.
           if rc r \<noteq> 0 \<and> \<not> (rc r = 1 \<and> tar_warnings_only (rerr r))
           then ret (f\<lparr>bf_error := Some ''tar''\<rparr>)
           else
             bind (exec_now H) (\<lambda>t1.
             ret (f\<lparr>bf_file := Some file, bf_objects := True, bf_source_bytes := bytes,
                    bf_check := Some ''object archive'', bf_seconds := Some (rounded_seconds t0 t1)\<rparr>)))))))))"

definition is_copy :: "backup_file \<Rightarrow> bool" where
  "is_copy f \<longleftrightarrow> (case bf_file f of Some n \<Rightarrow> n \<noteq> [] | None \<Rightarrow> False) \<and> bf_error f = None"

text \<open>A copy must be a plain file with one name before root takes it over.\<close>

definition check_copy :: "host \<Rightarrow> str \<Rightarrow> backup_file \<Rightarrow> ('l, backup_file) prog" where
  "check_copy H stage f =
     (if \<not> is_copy f then ret f
      else
        (let p = path_join [stage, the (bf_file f)] in
         bind (exec_stat H p) (\<lambda>st.
         case st of
           None \<Rightarrow> ret (f\<lparr>bf_error := Some ''the copy is not a plain file''\<rparr>)
         | Some s \<Rightarrow>
             (if \<not> st_is_file s \<or> st_is_symlink s \<or> st_nlink s \<noteq> 1
              then ret (f\<lparr>bf_error := Some ''the copy is not a plain file''\<rparr>)
              else andthen (lock_down H p ''0600'') (ret (f\<lparr>bf_bytes := Some (st_size s)\<rparr>))))))"

definition copy_names :: "backup_file list \<Rightarrow> str list" where
  "copy_names fs = map (\<lambda>f. the (bf_file f)) (filter is_copy fs)"

definition sweep_stage :: "host \<Rightarrow> str \<Rightarrow> str list \<Rightarrow> ('l, unit) prog" where
  "sweep_stage H stage wanted =
     bind (exec_readdir H stage) (\<lambda>es.
     each (\<lambda>e. whenever (e_name e \<notin> set wanted) (rm_rf H (path_join [stage, e_name e])))
       (case es of Some xs \<Rightarrow> xs | None \<Rightarrow> []))"

definition make_copies :: "ctx \<Rightarrow> service \<Rightarrow> str \<Rightarrow> str \<Rightarrow> bool \<Rightarrow> ('l, backup_file list) prog" where
  "make_copies c svc stage dir due =
     (let H = exec c in
      bind (dump_all H stage dir due (s_databases svc)) (\<lambda>dumps.
      andthen (lock_down H stage ''0700'')
      (bind (mapp (archive_object c stage dir) (s_objects svc)) (\<lambda>archives.
       bind (mapp (check_copy H stage) (dumps @ archives)) (\<lambda>files.
       let wanted = copy_names files in
       andthen (sweep_stage H stage wanted)
       (andthen (whenever (wanted \<noteq> [])
          (andthen (root_run H ''mv'' [''-T'', ''--'', stage, dir]) (lock_down H dir ''0700'')))
        (ret files)))))))"

section \<open>The record\<close>

record backup_record =
  bk_service :: str
  bk_at :: str
  bk_reason :: str
  bk_engine :: "str option"
  bk_ok :: bool
  bk_dir :: "str option"
  bk_files :: "backup_file list"
  bk_verified :: "pg_verified option"

definition field :: "str \<Rightarrow> json option \<Rightarrow> (str \<times> json) list" where
  "field k v = (case v of None \<Rightarrow> [] | Some x \<Rightarrow> [(k, x)])"

definition or_null :: "str option \<Rightarrow> json" where
  "or_null v = (case v of None \<Rightarrow> JNull | Some s \<Rightarrow> JStr s)"

definition file_json :: "backup_file \<Rightarrow> json" where
  "file_json f =
     JObj ([(''name'', JStr (bf_name f)), (''source'', JStr (bf_source f))]
       @ field ''dest'' (map_option JStr (bf_dest f)) @ field ''file'' (map_option JStr (bf_file f))
       @ (if bf_objects f then [(''kind'', JStr ''objects''),
            (''sourceBytes'', case bf_source_bytes f of None \<Rightarrow> JNull | Some n \<Rightarrow> JNum n)] else [])
       @ field ''check'' (map_option JStr (bf_check f)) @ field ''seconds'' (map_option (\<lambda>n. JNum (of_int n)) (bf_seconds f))
       @ field ''skipped'' (map_option JStr (bf_skipped f)) @ field ''error'' (map_option JStr (bf_error f))
       @ field ''bytes'' (map_option (\<lambda>n. JNum (of_int n)) (bf_bytes f)))"

definition verified_json :: "pg_verified \<Rightarrow> json" where
  "verified_json v =
     JObj (field ''type'' (vf_type v) @ field ''stop'' (map_option JStr (vf_stop v))
       @ field ''walOk'' (map_option JBool (vf_wal_ok v)) @ [(''ok'', JBool (vf_ok v))]
       @ field ''error'' (map_option JStr (vf_error v)))"

definition backup_json :: "backup_record \<Rightarrow> json" where
  "backup_json r =
     JObj ([(''service'', JStr (bk_service r)), (''at'', JStr (bk_at r)), (''reason'', JStr (bk_reason r)),
        (''engine'', or_null (bk_engine r)), (''ok'', JBool (bk_ok r))]
       @ field ''dir'' (map_option JStr (bk_dir r)) @ [(''files'', JArr (map file_json (bk_files r)))]
       @ (case bk_verified r of
            Some v \<Rightarrow> [(''verified'', verified_json v)]
          | None \<Rightarrow> (if bk_dir r = None then [(''verified'', JNull)] else [])))"

definition write_record ::
  "ctx \<Rightarrow> str \<Rightarrow> str \<Rightarrow> str option \<Rightarrow> bool \<Rightarrow> str option \<Rightarrow> backup_file list \<Rightarrow> pg_verified option \<Rightarrow> ('l, backup_record) prog" where
  "write_record c sid reason engine good dir files verified =
     bind (exec_now (exec c)) (\<lambda>t.
     let r = \<lparr>bk_service = sid, bk_at = iso_string t, bk_reason = reason, bk_engine = engine, bk_ok = good,
              bk_dir = dir, bk_files = files, bk_verified = verified\<rparr> in
     andthen (exec_append (exec c) (backup_log (inv c) sid) (json_text (backup_json r) @ [CHR 0x0A])) (ret r))"

section \<open>One service's backup\<close>

text \<open>Stage, copy and move; the staging directory is removed on every path.\<close>

definition copy_service :: "ctx \<Rightarrow> str \<Rightarrow> service \<Rightarrow> str \<Rightarrow> bool \<Rightarrow> pg_verified option \<Rightarrow> ('l, backup_record) prog" where
  "copy_service c sid svc reason due verified =
     (let H = exec c; i = inv c;
          hasPg = list_ex (\<lambda>d. db_engine d = ''postgresql'') (s_databases svc) in
      bind (exec_now H) (\<lambda>t.
      let st = backup_stamp t; dir = path_join [inv_backup_dir i, sid, st];
          stage = path_join [inv_backup_staging_dir i, sid @ ''-'' @ st] in
      bind (exec_stat H dir) (\<lambda>there.
      if there \<noteq> None then throw (JsError ''a backup never overwrites another'')
      else
        andthen (private_dir H (inv_backup_dir i))
        (andthen (private_dir H (path_join [inv_backup_dir i, sid]))
        (andthen (exec_mkdir H (inv_backup_staging_dir i) (Some ''root''))
        (andthen (lock_down H (inv_backup_staging_dir i) ''0711'')
        (bind (exec_stat H stage) (\<lambda>old.
         andthen (whenever (old \<noteq> None) (rm_rf H stage))
         (andthen (exec_mkdir H stage (Some (if hasPg then pg_user else ''root'')))
         (bind (try_finally (make_copies c svc stage dir due)
                  (bind (exec_stat H stage) (\<lambda>lft. whenever (lft \<noteq> None) (rm_rf H stage)))) (\<lambda>files.
          let failed = filter (\<lambda>f. bf_error f \<noteq> None) files;
              copied = filter (\<lambda>f. bf_dest f \<noteq> None \<and> bf_error f = None) files in
          bind (write_record c sid reason (if hasPg then Some ''postgresql'' else None)
                  (failed = [] \<and> copied \<noteq> []) (Some dir) files verified) (\<lambda>r.
          if failed \<noteq> [] then throw (BackupError ''copies failed'' (backup_json r)) else ret r))))))))))))"

definition backup :: "ctx \<Rightarrow> str \<Rightarrow> str \<Rightarrow> bool \<Rightarrow> ('l, backup_record) prog" where
  "backup c sid reason logical =
     bind (find_service (inv c) sid) (\<lambda>svc.
     if s_databases svc = [] \<and> s_objects svc = []
     then throw (JsError ''declares no databases or object directories'')
     else
       (let hasPg = list_ex (\<lambda>d. db_engine d = ''postgresql'') (s_databases svc);
            engine = (if hasPg then Some ''postgresql'' else None) in
        bind (if hasPg then bind (verify_postgres c) (\<lambda>v. ret (Some v)) else ret None) (\<lambda>verified.
        if (case verified of Some v \<Rightarrow> \<not> vf_ok v | None \<Rightarrow> False)
        then bind (write_record c sid reason engine False None [] verified) (\<lambda>r.
             throw (BackupError ''PostgreSQL verification failed'' (backup_json r)))
        else
          bind (if hasPg then dump_due c sid logical else ret False) (\<lambda>due.
          if \<not> due \<and> s_objects svc = [] then write_record c sid reason engine True None [] verified
          else copy_service c sid svc reason due verified))))"

section \<open>Pruning\<close>

text \<open>The parsed lines of the service's backup log that name a directory.\<close>

definition log_records :: "str option \<Rightarrow> json list" where
  "log_records text =
     filter (\<lambda>r. truthy (Some r) \<and> truthy (jget ''dir'' r))
       (List.map_filter json_parse (nonempty_lines (case text of Some t \<Rightarrow> t | None \<Rightarrow> [])))"

text \<open>
  Directory name to good or not: a directory is good when any of its records is. A record whose
  \<^verbatim>\<open>dir\<close> is no string makes \<^verbatim>\<open>path.normalize\<close> throw.
\<close>

fun recorded_dirs :: "str \<Rightarrow> (str \<times> bool) list \<Rightarrow> json list \<Rightarrow> exc + (str \<times> bool) list" where
  "recorded_dirs base acc [] = Inr acc"
| "recorded_dirs base acc (r # rs) =
     (case jget ''dir'' r of
        Some (JStr d) \<Rightarrow>
          (if path_dirname (path_normalize d) \<noteq> base then recorded_dirs base acc rs
           else
             (let name = path_basename d; was = (case map_of acc name of Some b \<Rightarrow> b | None \<Rightarrow> False) in
              recorded_dirs base (obj_put name (was \<or> jget ''ok'' r \<noteq> Some (JBool False)) acc) rs))
      | _ \<Rightarrow> Inl (JsError ''TypeError''))"

record prune_result =
  pp_kept :: "str list"
  pp_removed :: "str list"
  pp_unrecorded :: "str list"

text \<open>The decision: \<open>dirs\<close> are the stamped directories there are, \<open>rec\<close> what the log says of them.\<close>

definition prune_plan :: "nat \<Rightarrow> nat \<Rightarrow> (str \<Rightarrow> bool option) \<Rightarrow> str list \<Rightarrow> prune_result" where
  "prune_plan daily weekly rec dirs =
     (let good = filter (\<lambda>d. rec d = Some True) dirs;
          unrecorded = filter (\<lambda>d. rec d = None) dirs in
      if good = [] then \<lparr>pp_kept = dirs, pp_removed = [], pp_unrecorded = unrecorded\<rparr>
      else
        (let keepSet = keep daily weekly good; newestGood = last (sort good);
             remove = filter (\<lambda>d. case rec d of
                 None \<Rightarrow> False
               | Some True \<Rightarrow> d \<notin> set keepSet
               | Some False \<Rightarrow> d < newestGood) dirs
         in \<lparr>pp_kept = filter (\<lambda>d. d \<notin> set remove) dirs, pp_removed = remove, pp_unrecorded = unrecorded\<rparr>))"

definition prune_backups :: "ctx \<Rightarrow> str \<Rightarrow> nat \<Rightarrow> nat \<Rightarrow> ('l, prune_result) prog" where
  "prune_backups c sid daily weekly =
     (let H = exec c; base = path_join [inv_backup_dir (inv c), sid] in
      bind (exec_readdir H base) (\<lambda>es.
      bind (exec_read H (backup_log (inv c) sid)) (\<lambda>text.
      bind (of_sum (recorded_dirs base [] (log_records text))) (\<lambda>recorded.
      let dirs = map e_name (filter (\<lambda>e. e_is_dir e \<and> is_stamp (e_name e)) (case es of Some xs \<Rightarrow> xs | None \<Rightarrow> []));
          plan = prune_plan daily weekly (map_of recorded) dirs in
      andthen
        (each (\<lambda>d. let full = path_join [base, d] in
           whenever (path_dirname full = base \<and> is_stamp (path_basename full))
             (root_run H ''rm'' [''-rf'', ''--'', full])) (pp_removed plan))
        (ret plan)))))"

section \<open>Footprints\<close>

context event_class
begin

lemma emits_root_run [emits_rules]: "cmd \<noteq> ''systemctl'' \<Longrightarrow> emits A (root_run H cmd args)"
  unfolding root_run_def by (intro emits_rules) simp

lemma emits_backup_steps [emits_rules]:
  "emits A (lock_down H p m)" "emits A (private_dir H p)" "emits A (rm_rf H p)"
  "emits A (read_archiver c)" "emits A (write_archiver c n)" "emits A (last_good_dump_at c sid)"
  unfolding lock_down_def private_dir_def rm_rf_def read_archiver_def write_archiver_def
    last_good_dump_at_def
  by (intro emits_rules; simp)+

lemma emits_verify_postgres [emits_rules]: "emits A (verify_postgres c)"
  unfolding verify_postgres_def Let_def by (intro emits_rules) simp_all

lemma emits_dump_due [emits_rules]: "emits A (dump_due c sid b)"
  unfolding dump_due_def by (intro emits_rules) simp_all

lemma emits_dump_all [emits_rules]: "emits A (dump_all H stage dir due dbs)"
  unfolding dump_all_def dump_one_def Let_def by (intro emits_rules) simp_all

lemma emits_archive_object [emits_rules]: "emits A (archive_object c stage dir ob)"
  unfolding archive_object_def Let_def by (intro emits_rules) simp_all

lemma emits_check_copy [emits_rules]: "emits A (check_copy H stage f)"
  unfolding check_copy_def Let_def by (intro emits_rules) simp_all

lemma emits_sweep_stage [emits_rules]: "emits A (sweep_stage H stage ws)"
  unfolding sweep_stage_def by (intro emits_rules) simp_all

lemma emits_make_copies [emits_rules]: "emits A (make_copies c svc stage dir due)"
  unfolding make_copies_def Let_def by (intro emits_rules) simp_all

lemma emits_write_record [emits_rules]: "emits A (write_record c sid reason e g d fs v)"
  unfolding write_record_def Let_def by (intro emits_rules) simp_all

lemma emits_copy_service [emits_rules]: "emits A (copy_service c sid svc reason due v)"
  unfolding copy_service_def Let_def by (intro emits_rules) simp_all

lemma emits_find_service [emits_rules]: "emits A (find_service i sid)"
  unfolding find_service_def by (intro emits_rules)

lemma emits_backup [emits_rules]: "emits A (backup c sid reason logical)"
  unfolding backup_def Let_def by (intro emits_rules)

end

section \<open>What pruning leaves\<close>

lemma last_sort_top:
  fixes xs :: "str list"
  assumes x: "x \<in> set xs"
  shows "x \<le> last (sort xs)"
proof -
  from x have ne: "sort xs \<noteq> []" by (metis empty_iff empty_set set_sort)
  have "sorted (butlast (sort xs) @ [last (sort xs)])" using ne by simp
  then have "\<forall>y \<in> set (butlast (sort xs)). y \<le> last (sort xs)" by (simp add: sorted_append)
  moreover from x ne have "x \<in> set (butlast (sort xs) @ [last (sort xs)])" by simp
  ultimately show ?thesis by auto
qed

lemma last_sort_in: "xs \<noteq> [] \<Longrightarrow> last (sort xs) \<in> set (xs :: str list)"
  by (metis empty_set last_in_set set_empty set_sort)

lemma newest_good_kept:
  assumes good: "good \<noteq> []" and stamps: "\<forall>d \<in> set good. is_stamp d" and slot: "0 < daily \<or> 0 < weekly"
  shows "last (sort good) \<in> set (keep daily weekly good)"
proof -
  let ?g = "last (sort good)"
  have g: "?g \<in> set good" by (rule last_sort_in [OF good])
  note top = last_sort_top [of _ good]
  have "?g \<in> set (newest_first good)" using g stamps by (simp add: newest_first_set parse_stamp_def)
  moreover have none: "{x \<in> set (newest_first good). ?g < x} = {}"
    using top by (auto simp: newest_first_set not_less)
  ultimately have "?g \<in> firsts day_of daily [] (newest_first good) \<or> ?g \<in> firsts week_of weekly [] (newest_first good)"
    using slot unfolding firsts_newest_first none Let_def by auto
  then show ?thesis unfolding keep_firsts by blast
qed

text \<open>
  Property C25. Pruning removes a directory only when the backup log names it and a strictly newer good
  backup stays; everything it does not remove stays as it was.
\<close>

theorem prune_leaves_newer_good:
  assumes stamps: "\<forall>d \<in> set dirs. is_stamp d" and slot: "0 < daily \<or> 0 < weekly"
  shows "let p = prune_plan daily weekly rec dirs in
    (\<forall>d \<in> set (pp_removed p). rec d \<noteq> None \<and> (\<exists>g \<in> set (pp_kept p). rec g = Some True \<and> d < g)) \<and>
    set (pp_kept p) = set dirs - set (pp_removed p) \<and> set (pp_removed p) \<subseteq> set dirs"
proof (cases "filter (\<lambda>d. rec d = Some True) dirs = []")
  case True
  then show ?thesis unfolding prune_plan_def by (simp add: Let_def)
next
  case False
  define p where "p = prune_plan daily weekly rec dirs"
  let ?good = "filter (\<lambda>d. rec d = Some True) dirs" and ?g = "last (sort (filter (\<lambda>d. rec d = Some True) dirs))"
  have kept: "?g \<in> set (keep daily weekly ?good)"
    by (rule newest_good_kept [OF False _ slot]) (use stamps in simp)
  have g: "?g \<in> set ?good" by (rule last_sort_in [OF False])
  note top = last_sort_top [of _ ?good]
  have removed: "d \<in> set (pp_removed p) \<longleftrightarrow> d \<in> set dirs \<and>
      (rec d = Some True \<and> d \<notin> set (keep daily weekly ?good) \<or> rec d = Some False \<and> d < ?g)" for d
    unfolding p_def prune_plan_def using False by (auto simp: Let_def split: option.split bool.split)
  have stay: "set (pp_kept p) = set dirs - set (pp_removed p)"
    unfolding p_def prune_plan_def using False by (auto simp: Let_def)
  have gk: "?g \<in> set (pp_kept p)" using kept g unfolding stay by (simp add: removed)
  have newer: "d < ?g" if "d \<in> set (pp_removed p)" for d
    using that kept top [of d] unfolding removed by (auto simp: less_le)
  have gt: "rec ?g = Some True" using g by simp
  have "rec d \<noteq> None \<and> (\<exists>g \<in> set (pp_kept p). rec g = Some True \<and> d < g)" if "d \<in> set (pp_removed p)" for d
    using that gk gt newer [OF that] unfolding removed by blast
  moreover have "set (pp_removed p) \<subseteq> set dirs" using removed by blast
  ultimately show ?thesis unfolding p_def [symmetric] Let_def using stay by blast
qed

theorem prune_leaves_newer_good_witness:
  "let p = prune_plan 1 0 [''20260102-030405'' \<mapsto> True, ''20260101-030405'' \<mapsto> True] [''20260101-030405'', ''20260102-030405''] in
    (\<forall>d \<in> set (pp_removed p). [''20260102-030405'' \<mapsto> True, ''20260101-030405'' \<mapsto> True] d \<noteq> None \<and>
       (\<exists>g \<in> set (pp_kept p). [''20260102-030405'' \<mapsto> True, ''20260101-030405'' \<mapsto> True] g = Some True \<and> d < g)) \<and>
    set (pp_kept p) = set [''20260101-030405'', ''20260102-030405''] - set (pp_removed p) \<and>
    set (pp_removed p) \<subseteq> set [''20260101-030405'', ''20260102-030405'']"
  by (rule prune_leaves_newer_good) (simp_all add: is_stamp_def is_digit_def)

end
