(* ===== verification/Preflight.thy ===== *)
theory Preflight
  imports Deps
begin

text \<open>
  \<^verbatim>\<open>lib/preflight.js\<close>: what must hold before anything restarts. The run never touches a unit.
\<close>

datatype preflight_problem =
    SyntaxErrorIn str
  | InvalidJsonIn str
  | PackageMissing str str
  | CheckFailed str str

record preflight_result =
  syntax_checked :: nat
  dirs_made :: "str list"
  checks_run :: nat
  problems :: "preflight_problem list"

definition no_preflight :: preflight_result where
  "no_preflight = \<lparr>syntax_checked = 0, dirs_made = [], checks_run = 0, problems = []\<rparr>"

text \<open>One changed file: a script goes through \<^verbatim>\<open>node --check\<close>, a JSON file is parsed.\<close>

definition syntax_check_file ::
  "host \<Rightarrow> service \<Rightarrow> str \<Rightarrow> nat \<times> preflight_problem list \<Rightarrow> str \<Rightarrow> ('l, nat \<times> preflight_problem list) prog" where
  "syntax_check_file H svc rootdir acc f =
     (let (checked, ps) = acc; file = path_join [rootdir, f] in
      if ends_with f ''.js'' \<or> ends_with f ''.cjs'' then
        bind (exec_stat H file) (\<lambda>st.
        case st of
          None \<Rightarrow> ret acc
        | Some s \<Rightarrow>
            (if \<not> st_is_file s then ret acc
             else bind (exec_run H ''node'' [''--check'', file] (as_owner_in (s_owner svc) rootdir)) (\<lambda>r.
               ret (checked + 1, if rc r \<noteq> 0 then ps @ [SyntaxErrorIn f] else ps))))
      else if ends_with f ''.json'' then
        bind (exec_read H file) (\<lambda>text.
        case text of
          None \<Rightarrow> ret acc
        | Some t \<Rightarrow> ret (checked, if json_parse t = None then ps @ [InvalidJsonIn f] else ps))
      else ret acc)"

definition syntax_check :: "host \<Rightarrow> service \<Rightarrow> str \<Rightarrow> str list \<Rightarrow> ('l, nat \<times> preflight_problem list) prog" where
  "syntax_check H svc rootdir changed = foldp (syntax_check_file H svc rootdir) (0, []) changed"

definition make_dirs :: "host \<Rightarrow> service \<Rightarrow> str \<Rightarrow> str list \<Rightarrow> ('l, str list) prog" where
  "make_dirs H svc rootdir pkgDirs =
     foldp (\<lambda>made (pkg, d).
         let dir = path_join [rootdir, pkg, d] in
         bind (exec_stat H dir) (\<lambda>st.
         if st \<noteq> None then ret made
         else andthen (exec_mkdir H dir (Some (s_run_as svc))) (ret (made @ [path_join [pkg, d]]))))
       [] (List.product pkgDirs (pf_dirs (s_preflight svc)))"

definition run_check ::
  "host \<Rightarrow> service \<Rightarrow> str \<Rightarrow> nat \<times> preflight_problem list \<Rightarrow> preflight_check \<times> str \<Rightarrow> ('l, nat \<times> preflight_problem list) prog" where
  "run_check H svc rootdir acc e =
     (let (n, ps) = acc; (c, pkg) = e; dir = path_join [rootdir, pkg] in
      bind (exec_stat H dir) (\<lambda>st.
      if st = None then ret (n, ps @ [PackageMissing (c_label c) pkg])
      else
        bind (exec_run H (hd (c_argv c)) (tl (c_argv c)) (as_owner_in (s_run_as svc) dir)) (\<lambda>r.
        ret (n + 1, if rc r \<noteq> 0 then ps @ [CheckFailed (c_label c) pkg] else ps))))"

definition check_dirs :: "preflight_cfg \<Rightarrow> str list \<Rightarrow> (preflight_check \<times> str) list" where
  "check_dirs p pkgDirs =
     concat (map (\<lambda>c. map (Pair c) (case c_packages c of None \<Rightarrow> pkgDirs | Some ds \<Rightarrow> ds)) (pf_checks p))"

definition preflight_run :: "host \<Rightarrow> service \<Rightarrow> str \<Rightarrow> str list \<Rightarrow> str list \<Rightarrow> ('l, preflight_result) prog" where
  "preflight_run H svc rootdir changed pkgDirs =
     (let p = s_preflight svc in
      bind (if pf_syntax_check p \<and> changed \<noteq> [] then syntax_check H svc rootdir changed else ret (0, [])) (\<lambda>(n, ps).
      if ps \<noteq> [] then ret (no_preflight\<lparr>syntax_checked := n, problems := ps\<rparr>)
      else
        bind (make_dirs H svc rootdir pkgDirs) (\<lambda>made.
        bind (foldp (run_check H svc rootdir) (0, []) (check_dirs p pkgDirs)) (\<lambda>(k, qs).
        ret \<lparr>syntax_checked = n, dirs_made = made, checks_run = k, problems = qs\<rparr>))))"

section \<open>Footprints\<close>

lemma check_dirs_check: "(c, pkg) \<in> set (check_dirs p ds) \<Longrightarrow> c \<in> set (pf_checks p)"
  by (auto simp: check_dirs_def)

context event_class
begin

lemma emits_syntax_check [emits_rules]: "emits A (syntax_check H svc rootdir changed)"
  unfolding syntax_check_def syntax_check_file_def Let_def by (intro emits_rules) simp_all

lemma emits_make_dirs [emits_rules]: "emits A (make_dirs H svc rootdir ds)"
  unfolding make_dirs_def Let_def by (intro emits_rules) simp_all

lemma emits_run_check [emits_rules]:
  "argv_ok (c_argv (fst e)) \<Longrightarrow> emits A (run_check H svc rootdir acc e)"
  unfolding run_check_def argv_ok_def by (intro emits_rules) auto

lemma emits_preflight_run [emits_rules]:
  "commands_ok svc \<Longrightarrow> emits A (preflight_run H svc rootdir changed ds)"
  unfolding preflight_run_def Let_def
  by (intro emits_rules) (auto simp: commands_ok_def dest: check_dirs_check)

end

end
