(* ===== verification/Readiness.thy ===== *)
theory Readiness
  imports Probes Locks
begin

text \<open>
  Readiness, \<^verbatim>\<open>lib/readiness.js\<close>: poll the ready URL after a restart until it answers 2xx (with
  the units and the release it must name, when asked for), a unit fails, or the time is up.
\<close>

record probe_result =
  pr_ok :: "bool option"
  pr_status :: int
  pr_error :: "str option"

definition ok_status :: "int \<Rightarrow> bool" where
  "ok_status n \<longleftrightarrow> 200 \<le> n \<and> n < 300"

definition ready_probe :: "host \<Rightarrow> service \<Rightarrow> ('l, probe_result) prog" where
  "ready_probe H svc =
     (case s_ready svc of
        None \<Rightarrow> ret \<lparr>pr_ok = None, pr_status = 0, pr_error = None\<rparr>
      | Some rd \<Rightarrow>
          bind (exec_now H) (\<lambda>t0.
          bind (exec_http H (rd_url rd)) (\<lambda>r.
          bind (exec_now H) (\<lambda>t1.
          ret \<lparr>pr_ok = Some (ok_status (hs_status r)), pr_status = hs_status r, pr_error = hs_error r\<rparr>))))"

text \<open>The origin of a URL: its scheme and authority.\<close>

definition url_origin :: "str \<Rightarrow> str option" where
  "url_origin url =
     (let scheme = takeWhile (\<lambda>c. c \<noteq> CHR '':'') url; rest = dropWhile (\<lambda>c. c \<noteq> CHR '':'') url in
      if scheme \<noteq> [] \<and> starts_with rest ''://'' then
        Some (scheme @ ''://'' @ takeWhile (\<lambda>c. c \<noteq> CHR ''/'' \<and> c \<noteq> CHR ''?'' \<and> c \<noteq> CHR ''#'') (drop 3 rest))
      else None)"

text \<open>A release is named by 7 to 40 lower-case hexadecimal digits, a prefix of the sha.\<close>

definition is_sha_prefix :: "str \<Rightarrow> bool" where
  "is_sha_prefix s \<longleftrightarrow> 7 \<le> length s \<and> length s \<le> 40 \<and> list_all is_hex s"

definition release_named :: "json \<Rightarrow> str" where
  "release_named m =
     (let v = (if truthy (Some m) then jget ''release'' m else Some m)
      in if truthy v then map lower_char (js_string (the v)) else [])"

definition names_release :: "json \<Rightarrow> str \<Rightarrow> bool" where
  "names_release m sha \<longleftrightarrow> is_sha_prefix (release_named m) \<and> starts_with sha (release_named m)"

text \<open>\<open>None\<close> when \<^verbatim>\<open>/release.json\<close> names the sha, else the reason it does not.\<close>

definition release_matches :: "host \<Rightarrow> ready_cfg \<Rightarrow> str \<Rightarrow> ('l, str option) prog" where
  "release_matches H rd sha =
     (case url_origin (rd_url rd) of
        None \<Rightarrow> ret (Some ''no URL for /release.json'')
      | Some origin \<Rightarrow>
          bind (exec_http H (origin @ ''/release.json'')) (\<lambda>r.
          if hs_status r \<noteq> 200 then ret (Some ''/release.json did not answer 200'')
          else case json_parse (hs_body r) of
              None \<Rightarrow> ret (Some ''/release.json is not JSON'')
            | Some m \<Rightarrow>
                ret (if names_release m sha then None else Some ''/release.json names another release'')))"

record ready_result =
  rr_ok :: bool
  rr_skipped :: bool
  rr_reason :: "str option"
  rr_seconds :: int

definition seconds_since :: "int \<Rightarrow> int \<Rightarrow> int" where
  "seconds_since start t = (t - start + 500) div 1000"

definition show_all :: "host \<Rightarrow> str list \<Rightarrow> ('l, unit_state list) prog" where
  "show_all H us = mapp (show_unit H) us"

text \<open>
  One round: the reason the service is not ready yet (\<open>None\<close> when it is) and the unit states
  already read for it.
\<close>

definition ready_round ::
  "host \<Rightarrow> service \<Rightarrow> ready_cfg \<Rightarrow> str option \<Rightarrow> str list \<Rightarrow> ('l, str option \<times> unit_state list option) prog" where
  "ready_round H svc rd expectSha us =
     bind (ready_probe H svc) (\<lambda>p.
     if pr_ok p = Some True then
       bind (if rd_all_units rd then bind (show_all H us) (\<lambda>sts. ret (Some sts)) else ret None) (\<lambda>states.
       let down = (case states of Some sts \<Rightarrow> filter (\<lambda>st. u_active st \<noteq> ''active'') sts | None \<Rightarrow> []) in
       if down \<noteq> [] then ret (Some ''not active'', states)
       else (case expectSha of
               Some sha \<Rightarrow> (if rd_release rd \<and> sha \<noteq> []
                           then bind (release_matches H rd sha) (\<lambda>m. ret (m, states))
                           else ret (None, states))
             | None \<Rightarrow> ret (None, states)))
     else ret (Some (if pr_status p \<noteq> 0 then ''HTTP status''
                     else case pr_error p of Some e \<Rightarrow> e | None \<Rightarrow> ''unreachable''), None))"

primrec ready_loop ::
  "host \<Rightarrow> service \<Rightarrow> ready_cfg \<Rightarrow> str option \<Rightarrow> str list \<Rightarrow> int \<Rightarrow> int \<Rightarrow> str option \<Rightarrow> nat \<Rightarrow> ('l, ready_result) prog" where
  "ready_loop H svc rd expectSha us limit start reason 0 = throw OutOfFuel"
| "ready_loop H svc rd expectSha us limit start reason (Suc n) =
     bind (exec_now H) (\<lambda>t.
     if limit \<le> t - start then
       bind (exec_now H) (\<lambda>t2.
       ret \<lparr>rr_ok = False, rr_skipped = False, rr_reason = reason, rr_seconds = seconds_since start t2\<rparr>)
     else
       bind (ready_round H svc rd expectSha us) (\<lambda>(why, states).
       if why = None then
         bind (exec_now H) (\<lambda>t2.
         ret \<lparr>rr_ok = True, rr_skipped = False, rr_reason = None, rr_seconds = seconds_since start t2\<rparr>)
       else
         bind (case states of Some sts \<Rightarrow> ret sts | None \<Rightarrow> show_all H us) (\<lambda>sts.
         if list_ex (\<lambda>st. u_active st = ''failed'') sts then
           bind (exec_now H) (\<lambda>t2.
           ret \<lparr>rr_ok = False, rr_skipped = False, rr_reason = Some ''a unit failed'', rr_seconds = seconds_since start t2\<rparr>)
         else andthen (exec_sleep H 1000) (ready_loop H svc rd expectSha us limit start why n))))"

definition ready_limit :: "ready_cfg \<Rightarrow> int option \<Rightarrow> int" where
  "ready_limit rd timeout =
     (case timeout of
        Some t \<Rightarrow> (if t \<noteq> 0 then t else if rd_timeout_seconds rd \<noteq> 0 then rd_timeout_seconds rd else 90)
      | None \<Rightarrow> if rd_timeout_seconds rd \<noteq> 0 then rd_timeout_seconds rd else 90) * 1000"

definition wait_ready ::
  "ctx \<Rightarrow> service \<Rightarrow> int option \<Rightarrow> str option \<Rightarrow> str list \<Rightarrow> ('l, ready_result) prog" where
  "wait_ready c svc timeout expectSha us =
     (case s_ready svc of
        None \<Rightarrow> ret \<lparr>rr_ok = True, rr_skipped = True, rr_reason = None, rr_seconds = 0\<rparr>
      | Some rd \<Rightarrow>
          bind (exec_now (exec c)) (\<lambda>start.
          ready_loop (exec c) svc rd expectSha us (ready_limit rd timeout) start (Some ''never probed'') (ctx_fuel c)))"

section \<open>Lemmas\<close>

context event_class
begin

lemma emits_ready_probe [emits_rules]: "emits A (ready_probe H svc)"
  unfolding ready_probe_def by (intro emits_rules) simp_all

lemma emits_release_matches [emits_rules]: "emits A (release_matches H rd sha)"
  unfolding release_matches_def by (intro emits_rules) simp_all

lemma emits_show_all [emits_rules]: "emits A (show_all H us)"
  unfolding show_all_def by (intro emits_rules)

lemma emits_ready_round [emits_rules]: "emits A (ready_round H svc rd sha us)"
  unfolding ready_round_def Let_def by (intro emits_rules)

lemma emits_ready_loop [emits_rules]: "emits A (ready_loop H svc rd sha us limit start reason n)"
  by (induction n arbitrary: reason) (auto intro!: emits_rules)

lemma emits_wait_ready [emits_rules]: "emits A (wait_ready c svc timeout sha us)"
  unfolding wait_ready_def by (intro emits_rules) simp_all

end

end
