(* ===== verification/Releases.thy ===== *)
theory Releases
  imports Service Dates
begin

text \<open>
  The release log, \<^verbatim>\<open>lib/releases.js\<close>: one JSON object per line, and the release a rollback
  returns to.
\<close>

definition log_path :: "inventory \<Rightarrow> str \<Rightarrow> str" where
  "log_path i sid = path_join [inv_state_dir i, ''releases'', sid @ ''.jsonl'']"

definition new_id :: "host \<Rightarrow> int \<Rightarrow> ('l, str) prog" where
  "new_id H now = bind (random_hex H) (\<lambda>hex. ret (''rel_'' @ compact_stamp now @ ''_'' @ hex))"

definition append_record :: "ctx \<Rightarrow> str \<Rightarrow> json \<Rightarrow> ('l, unit) prog" where
  "append_record c sid r = exec_append (exec c) (log_path (inv c) sid) (json_text r @ [CHR 0x0A])"

text \<open>A blank line is skipped, and so is a line that does not parse (a torn last line).\<close>

definition parse_log :: "str \<Rightarrow> json list" where
  "parse_log text = List.map_filter (\<lambda>l. if trim l = [] then None else json_parse l) (lines text)"

definition list_records :: "ctx \<Rightarrow> str \<Rightarrow> ('l, json list) prog" where
  "list_records c sid =
     bind (exec_read (exec c) (log_path (inv c) sid)) (\<lambda>text.
     ret (case text of None \<Rightarrow> [] | Some t \<Rightarrow> parse_log t))"

text \<open>
  The newest record of a successful deploy that brought the checkout to \<open>cur\<close> from another
  commit. Reading a property of a \<^verbatim>\<open>null\<close> record throws.
\<close>

definition brought_to :: "str \<Rightarrow> json \<Rightarrow> bool" where
  "brought_to cur r \<longleftrightarrow>
     jget ''result'' r = Some (JStr ''deployed'') \<and> jget ''to'' r = Some (JStr cur) \<and>
     truthy (jget ''from'' r) \<and> jget ''from'' r \<noteq> Some (JStr cur)"

fun scan_back :: "str \<Rightarrow> json list \<Rightarrow> exc + json option" where
  "scan_back cur [] = Inr None"
| "scan_back cur (r # rs) =
     (if r = JNull then Inl (JsError ''TypeError'')
      else if brought_to cur r then Inr (jget ''from'' r)
      else scan_back cur rs)"

definition previous_for :: "json list \<Rightarrow> str \<Rightarrow> exc + json option" where
  "previous_for records cur = scan_back cur (rev records)"

section \<open>Lemmas\<close>

lemma truthy_Some: "truthy v \<Longrightarrow> \<exists>x. v = Some x"
  by (cases v) (auto simp: truthy_def)

lemma scan_back_cases:
  "scan_back cur rs = Inr v \<Longrightarrow>
     (case v of
        None \<Rightarrow> \<forall>r \<in> set rs. \<not> brought_to cur r
      | Some x \<Rightarrow> \<exists>as r bs. rs = as @ r # bs \<and> brought_to cur r \<and> jget ''from'' r = Some x \<and>
          (\<forall>a \<in> set as. \<not> brought_to cur a))"
proof (induction rs)
  case (Cons r rs)
  show ?case
  proof (cases "brought_to cur r")
    case True
    then obtain x where x: "jget ''from'' r = Some x"
      using truthy_Some unfolding brought_to_def by blast
    with True Cons.prems have "v = Some x" by (simp split: if_splits)
    moreover have "r # rs = [] @ r # rs" "\<forall>a \<in> set []. \<not> brought_to cur a" by simp_all
    ultimately show ?thesis using True x by (simp only: option.case) blast
  next
    case False
    with Cons have IH: "case v of
        None \<Rightarrow> \<forall>r \<in> set rs. \<not> brought_to cur r
      | Some x \<Rightarrow> \<exists>as r bs. rs = as @ r # bs \<and> brought_to cur r \<and> jget ''from'' r = Some x \<and>
          (\<forall>a \<in> set as. \<not> brought_to cur a)"
      by (simp split: if_splits)
    show ?thesis
    proof (cases v)
      case None
      with IH False show ?thesis by simp
    next
      case (Some x)
      with IH obtain as r' bs where "rs = as @ r' # bs" "brought_to cur r'" "jget ''from'' r' = Some x"
        "\<forall>a \<in> set as. \<not> brought_to cur a" by auto
      with False have "r # rs = (r # as) @ r' # bs" "\<forall>a \<in> set (r # as). \<not> brought_to cur a" by simp_all
      with \<open>brought_to cur r'\<close> \<open>jget ''from'' r' = Some x\<close> show ?thesis
        unfolding Some option.case by blast
    qed
  qed
qed simp

lemma scan_back_total: "JNull \<notin> set rs \<Longrightarrow> \<exists>v. scan_back cur rs = Inr v"
  by (induction rs) auto

lemma previous_for_cases:
  assumes "previous_for records cur = Inr v"
  shows "case v of
        None \<Rightarrow> \<forall>r \<in> set records. \<not> brought_to cur r
      | Some x \<Rightarrow> \<exists>older r newer. records = older @ r # newer \<and> brought_to cur r \<and>
          jget ''from'' r = Some x \<and> (\<forall>n \<in> set newer. \<not> brought_to cur n)"
proof -
  from assms have s: "scan_back cur (rev records) = Inr v" by (simp add: previous_for_def)
  show ?thesis
  proof (cases v)
    case None
    with scan_back_cases [OF s] show ?thesis by simp
  next
    case (Some x)
    with scan_back_cases [OF s] obtain as r bs where *: "rev records = as @ r # bs" "brought_to cur r"
      "jget ''from'' r = Some x" "\<forall>a \<in> set as. \<not> brought_to cur a" by auto
    from arg_cong [of _ _ rev, OF *(1)] have "records = rev bs @ r # rev as" by simp
    moreover have "\<forall>n \<in> set (rev as). \<not> brought_to cur n" using *(4) by simp
    ultimately show ?thesis unfolding Some option.case using *(2,3) by blast
  qed
qed

end
