(* ===== verification/Nginx.thy ===== *)
theory Nginx
  imports Systemd
begin

text \<open>
  \<^verbatim>\<open>lib/nginx.js\<close>: installing vhosts. The new files are written and linked, \<^verbatim>\<open>nginx -t\<close>
  runs, and when it fails every change is undone in reverse order; nginx is reloaded only after a clean test.
\<close>

record vhost =
  v_name :: str
  v_text :: "str option"

text \<open>The text is \<^verbatim>\<open>null\<close> when its file could not be read; writing that throws.\<close>

definition write_text :: "host \<Rightarrow> str \<Rightarrow> str option \<Rightarrow> ('l, unit) prog" where
  "write_text H p t = (case t of None \<Rightarrow> throw (JsError ''TypeError'') | Some x \<Rightarrow> exec_write H p x)"

definition is_vhost_name :: "str \<Rightarrow> bool" where
  "is_vhost_name s \<longleftrightarrow> s \<noteq> [] \<and> list_all (\<lambda>c. is_alnum c \<or> c \<in> {CHR ''.'', CHR ''_'', CHR ''-''}) s"

text \<open>The closures the code pushes on its undo list.\<close>

datatype undo =
    Relink str str
  | Rewrite str str
  | Delete str

fun run_undo :: "host \<Rightarrow> undo \<Rightarrow> ('l, unit) prog" where
  "run_undo H (Relink target p) = exec_symlink H target p"
| "run_undo H (Rewrite p t) = exec_write H p t"
| "run_undo H (Delete p) = exec_remove H p"

text \<open>Whether \<^verbatim>\<open>nginx -t\<close> is clean, and what it prints.\<close>

definition nginx_test :: "ctx \<Rightarrow> ('l, bool \<times> str) prog" where
  "nginx_test c =
     bind (exec_run (exec c) (nginx_bin (inv_nginx (inv c))) [''-t''] as_root) (\<lambda>r. ret (rc r = 0, trim (rerr r @ rout r)))"

definition avail :: "ctx \<Rightarrow> str \<Rightarrow> str" where
  "avail c name = path_join [sites_available (inv_nginx (inv c)), name]"

definition enabled :: "ctx \<Rightarrow> str \<Rightarrow> str" where
  "enabled c name = path_join [sites_enabled (inv_nginx (inv c)), name]"

text \<open>Take one vhost out; the undo list grows at its head.\<close>

definition remove_vhost ::
  "ctx \<Rightarrow> vhost list \<Rightarrow> undo list \<times> str list \<Rightarrow> str \<Rightarrow> ('l, undo list \<times> str list) prog" where
  "remove_vhost c files acc name =
     (let (undos, removed) = acc; H = exec c; av = avail c name; en = enabled c name in
      if \<not> is_vhost_name name \<or> list_ex (\<lambda>f. v_name f = name) files
      then throw (JsError ''cannot remove vhost'')
      else
        bind (exec_read H av) (\<lambda>prevText.
        bind (exec_readlink H en) (\<lambda>target0.
        let target = (if target0 = Some [] then None else target0) in
        bind (case target of Some t \<Rightarrow> ret True | None \<Rightarrow> bind (exec_stat H en) (\<lambda>st. ret (st \<noteq> None))) (\<lambda>link.
        bind (if link then
                bind (case target of
                        Some t \<Rightarrow> ret (Relink t en)
                      | None \<Rightarrow> bind (exec_read H en) (\<lambda>copy. ret (Rewrite en (case copy of Some x \<Rightarrow> x | None \<Rightarrow> [])))) (\<lambda>u.
                andthen (exec_remove H en) (ret (u # undos)))
              else ret undos) (\<lambda>undos1.
        bind (case prevText of
                Some t \<Rightarrow> andthen (exec_remove H av) (ret (Rewrite av t # undos1))
              | None \<Rightarrow> ret undos1) (\<lambda>undos2.
        ret (undos2, if link \<or> prevText \<noteq> None then removed @ [name] else removed)))))))"

definition install_vhost ::
  "ctx \<Rightarrow> undo list \<times> str list \<Rightarrow> vhost \<Rightarrow> ('l, undo list \<times> str list) prog" where
  "install_vhost c acc f =
     (let (undos, changed) = acc; H = exec c; name = v_name f; av = avail c name; en = enabled c name in
      if \<not> is_vhost_name name then throw (JsError ''vhost name is not a file name'')
      else
        bind (exec_read H av) (\<lambda>prev.
        bind (if prev \<noteq> v_text f then
                andthen (write_text H av (v_text f))
                  (ret ((case prev of None \<Rightarrow> Delete av | Some t \<Rightarrow> Rewrite av t) # undos, changed @ [name]))
              else ret (undos, changed)) (\<lambda>(undos1, changed1).
        bind (exec_stat H en) (\<lambda>st.
        if st = None then
          andthen (exec_symlink H av en)
            (ret (Delete en # undos1, if name \<in> set changed1 then changed1 else changed1 @ [name]))
        else ret (undos1, changed1)))))"

text \<open>\<open>(changed, removed, reloaded)\<close>\<close>

definition nginx_install ::
  "ctx \<Rightarrow> vhost list \<Rightarrow> str list \<Rightarrow> ('l, str list \<times> str list \<times> bool) prog" where
  "nginx_install c files remove =
     bind (foldp (remove_vhost c files) ([], []) remove) (\<lambda>(undos, removed).
     bind (foldp (install_vhost c) (undos, []) files) (\<lambda>(undos2, changed).
     if changed = [] \<and> removed = [] then ret (changed, removed, False)
     else
       bind (nginx_test c) (\<lambda>(ok, output).
       if \<not> ok then
         andthen (each (run_undo (exec c)) undos2) (throw (JsError ''nginx -t failed''))
       else andthen (reload_nginx (exec c)) (ret (changed, removed, True)))))"

section \<open>Footprints\<close>

context service_class
begin

lemma emits_write_text [emits_rules]: "emits A (write_text H p t)"
  unfolding write_text_def by (intro emits_rules) simp_all

lemma emits_run_undo [emits_rules]: "emits A (run_undo H u)"
  by (cases u) (auto intro!: emits_rules)

lemma emits_remove_vhost [emits_rules]: "emits A (remove_vhost c files acc name)"
  unfolding remove_vhost_def Let_def by (intro emits_rules) simp_all

lemma emits_install_vhost [emits_rules]: "emits A (install_vhost c acc f)"
  unfolding install_vhost_def Let_def by (intro emits_rules) simp_all

lemma emits_nginx_test [emits_rules]:
  "nginx_bin (inv_nginx (inv c)) \<noteq> ''systemctl'' \<Longrightarrow> emits A (nginx_test c)"
  unfolding nginx_test_def by (intro emits_rules) simp_all

lemma emits_nginx_install [emits_rules]:
  "nginx_bin (inv_nginx (inv c)) \<noteq> ''systemctl'' \<Longrightarrow> emits A (nginx_install c files remove)"
  unfolding nginx_install_def by (intro emits_rules)

end

end
