(* ===== verification/Operation.thy ===== *)
theory Operation
  imports Plan Backup Preflight Readiness Releases Nginx
begin

text \<open>
  What the two deploy engines share: the release record, its opening and closing under the service lock
  and the host lock, and the backup before a restart. \<open>base_state\<close> holds the record's fields that
  both engines write; each engine extends it.
\<close>

record preflight_note =
  pn_ok :: bool
  pn_problems :: "preflight_problem list"
  pn_checks :: nat
  pn_syntax_checked :: nat

record base_state = op_state +
  os_id :: str
  os_started :: str
  os_operator :: str
  os_hostname :: str
  os_from :: "str option"
  os_to :: "str option"
  os_commits :: nat
  os_lockfile_changed :: bool
  os_installed :: "str list"
  os_deps_verified :: "bool option"
  os_restart_needed :: "bool option"
  os_restarted :: bool
  os_ready :: "bool option"
  os_result :: "str option"
  os_deps_repaired :: "str list"
  os_preflight :: "preflight_note option"
  os_units_installed :: "str list option"
  os_backup :: "str option list option"
  os_rollback_to :: "str option"
  os_rollback_ready :: "bool option"
  os_error :: "str option"
  os_finished :: "str option"
  os_write :: bool

text \<open>
  The fields only one engine writes: first those of a checkout that moves in place, then those of a
  releases directory with a \<^verbatim>\<open>current\<close> link.
\<close>

record engine_state = base_state +
  ck_removed :: "str list"
  ck_dropped :: "str list"
  ck_moved :: bool
  ck_built :: bool
  ck_restored :: bool
  ck_aux_pending :: "str list"
  ck_aux_restarted :: "str list"
  ly_from_release :: "str option"
  ly_to_release :: "str option"
  ly_switched :: bool
  ly_prepared :: "str option"
  ly_removed_prepared :: bool
  ly_pruned :: "str list option"
  ly_socket_rebind :: "str option"
  ly_socket_held :: "bool option"

definition fresh :: "base_state \<Rightarrow> engine_state" where
  "fresh b = base_state.extend b (engine_state.fields [] [] False False False [] [] None None False None False None None None)"

text \<open>The record as it is created, before the engine's own fields.\<close>

definition open_record :: "ctx \<Rightarrow> ('l, base_state) prog" where
  "open_record c =
     (let H = exec c in
      bind (exec_now H) (\<lambda>t0.
      bind (new_id H t0) (\<lambda>rid.
      bind (exec_now H) (\<lambda>t.
      bind (operator_name c) (\<lambda>operator.
      bind (exec_hostname H) (\<lambda>hname.
      ret \<lparr>os_host_lock = False, os_sessions = None, os_forced = False, os_id = rid,
           os_started = iso_string t, os_operator = operator, os_hostname = hname, os_from = None,
           os_to = None, os_commits = 0, os_lockfile_changed = False, os_installed = [],
           os_deps_verified = None, os_restart_needed = None, os_restarted = False, os_ready = None,
           os_result = None, os_deps_repaired = [], os_preflight = None, os_units_installed = None,
           os_backup = None, os_rollback_to = None, os_rollback_ready = None, os_error = None,
           os_finished = None, os_write = True\<rparr>))))))"

section \<open>The record's JSON\<close>

definition opt_json :: "('a \<Rightarrow> json) \<Rightarrow> 'a option \<Rightarrow> json" where
  "opt_json f v = (case v of None \<Rightarrow> JNull | Some x \<Rightarrow> f x)"

definition names_json :: "str list \<Rightarrow> json" where
  "names_json xs = JArr (map JStr xs)"

definition listed :: "str \<Rightarrow> str list \<Rightarrow> (str \<times> json) list" where
  "listed k xs = (if xs = [] then [] else [(k, names_json xs)])"

definition marked :: "str \<Rightarrow> bool \<Rightarrow> (str \<times> json) list" where
  "marked k b = (if b then [(k, JBool True)] else [])"

definition mode_name :: "op_mode \<Rightarrow> str" where
  "mode_name m = (case m of Deploy \<Rightarrow> ''deploy'' | Rollback \<Rightarrow> ''rollback'')"

definition session_label :: "service \<Rightarrow> str" where
  "session_label svc =
     (case s_protected svc of
        None \<Rightarrow> ''protected sessions''
      | Some p \<Rightarrow> (case given (p_label p) of Some l \<Rightarrow> l | None \<Rightarrow> ''protected sessions''))"

definition sessions_json :: "service \<Rightarrow> session_note \<Rightarrow> json" where
  "sessions_json svc n =
     JObj ([(''count'', opt_json JNum (sn_count n)), (''label'', JStr (session_label svc)), (''unknown'', opt_json JStr (sn_unknown n)),
            (''checkedWhen'', JStr (sn_when n))]
           @ field ''waitedSeconds'' (map_option (\<lambda>i. JNum (of_int i)) (sn_waited n)))"

definition problem_text :: "preflight_problem \<Rightarrow> str" where
  "problem_text p =
     (case p of
        SyntaxErrorIn f \<Rightarrow> ''syntax error in '' @ f
      | InvalidJsonIn f \<Rightarrow> ''invalid JSON in '' @ f
      | PackageMissing l d \<Rightarrow> l @ '': '' @ d @ '' does not exist''
      | CheckFailed l d \<Rightarrow> l @ '' failed in '' @ d)"

definition preflight_json :: "preflight_note \<Rightarrow> json" where
  "preflight_json n =
     JObj ((''ok'', JBool (pn_ok n)) #
           (if pn_ok n then [(''checks'', JNum (of_nat (pn_checks n))), (''syntaxChecked'', JNum (of_nat (pn_syntax_checked n)))]
            else [(''problems'', names_json (map problem_text (pn_problems n)))]))"

definition rollback_json :: "'x base_state_scheme \<Rightarrow> (str \<times> json) list" where
  "rollback_json s =
     (case os_rollback_to s of
        None \<Rightarrow> []
      | Some t \<Rightarrow> [(''autoRollback'', JObj ((''to'', JStr t) # field ''ready'' (map_option JBool (os_rollback_ready s))))])"

section \<open>Opening and closing\<close>

text \<open>\<^verbatim>\<open>err.result\<close>: only an \<open>OpError\<close> may carry one.\<close>

definition exc_result :: "exc \<Rightarrow> str option" where
  "exc_result e = (case e of OpError m x r \<Rightarrow> r | _ \<Rightarrow> None)"

definition exc_exit :: "exc \<Rightarrow> nat option" where
  "exc_exit e =
     (case e of
        OpError m x r \<Rightarrow> Some x | IncidentsError m x \<Rightarrow> Some x | AnnounceError m x \<Rightarrow> Some x | DnsError m x \<Rightarrow> Some x
      | OffsiteError m x \<Rightarrow> Some x | ArchiveError m x \<Rightarrow> Some x | DrillError m x \<Rightarrow> Some x | _ \<Rightarrow> None)"

definition note_error :: "exc \<Rightarrow> 'x base_state_scheme \<Rightarrow> 'x base_state_scheme" where
  "note_error e s =
     s\<lparr>os_result := Some (case exc_result e of
           Some r \<Rightarrow> r
         | None \<Rightarrow> (case os_result s of Some r \<Rightarrow> r | None \<Rightarrow> ''failed'')),
       os_error := Some (exc_message e)\<rparr>"

text \<open>
  The \<^verbatim>\<open>finally\<close> block: stamp the record, append it (a failing append is only a warning), release the
  host lock when it is held, and release the service lock.
\<close>

definition close_operation ::
  "ctx \<Rightarrow> str \<Rightarrow> str \<Rightarrow> ('x base_state_scheme \<Rightarrow> json) \<Rightarrow> ('x base_state_scheme, unit) prog" where
  "close_operation c sid file to_json =
     bind (exec_now (exec c)) (\<lambda>t.
     andthen (modl (\<lambda>s. s\<lparr>os_finished := Some (iso_string t)\<rparr>))
     (bind getl (\<lambda>s.
      andthen (whenever (os_write s)
        (try_catch (append_record c sid (to_json s)) (\<lambda>_. ret ())))
      (andthen (whenever (os_host_lock s) (exec_deploy_unlock (exec c)))
        (lock_release c file)))))"

text \<open>\<^verbatim>\<open>try { body } catch (err) { ... throw err; } finally { ... }\<close> around an engine's work.\<close>

definition run_operation ::
  "ctx \<Rightarrow> str \<Rightarrow> str \<Rightarrow> ('x base_state_scheme \<Rightarrow> json) \<Rightarrow> ('x base_state_scheme, 'a) prog \<Rightarrow> ('x base_state_scheme, 'a) prog" where
  "run_operation c sid file to_json body =
     try_finally
       (try_catch body (\<lambda>e. andthen (modl (note_error e)) (throw e)))
       (close_operation c sid file to_json)"

definition take_host_lock :: "ctx \<Rightarrow> service \<Rightarrow> ('x op_state_scheme, unit) prog" where
  "take_host_lock c svc = andthen (guard_acquire c svc) (modl (set_host_lock True))"

definition backup_before_restart :: "ctx \<Rightarrow> service \<Rightarrow> ('x base_state_scheme, unit) prog" where
  "backup_before_restart c svc =
     bind getl (\<lambda>s.
     bind (backup c (s_id svc) (''pre-deploy '' @ take 12 (case os_to s of Some t \<Rightarrow> t | None \<Rightarrow> [])) False) (\<lambda>r.
     modl (\<lambda>s. s\<lparr>os_backup := Some (map bf_dest (bk_files r))\<rparr>)))"

section \<open>Footprints\<close>

context event_class
begin

lemma emits_new_id [emits_rules]: "emits A (new_id H t)"
  unfolding new_id_def by (intro emits_rules) simp

lemma emits_append_record [emits_rules]: "emits A (append_record c sid r)"
  unfolding append_record_def by (intro emits_rules) simp

lemma emits_list_records [emits_rules]: "emits A (list_records c sid)"
  unfolding list_records_def by (intro emits_rules) simp

lemma emits_open_record [emits_rules]: "emits A (open_record c)"
  unfolding open_record_def Let_def by (intro emits_rules) simp_all

lemma emits_close_operation [emits_rules]: "emits A (close_operation c sid file j)"
  unfolding close_operation_def by (intro emits_rules) simp_all

lemma emits_run_operation [emits_rules]: "emits A body \<Longrightarrow> emits A (run_operation c sid file j body)"
  unfolding run_operation_def by (intro emits_rules)

lemma emits_take_host_lock [emits_rules]: "emits A (take_host_lock c svc)"
  unfolding take_host_lock_def by (intro emits_rules)

lemma emits_backup_before_restart [emits_rules]: "emits A (backup_before_restart c svc)"
  unfolding backup_before_restart_def by (intro emits_rules)

lemma emits_poll_idle [emits_rules]: "emits A (poll_idle H svc start q n)"
  by (induction n arbitrary: q) (auto intro!: emits_rules simp: Let_def)

lemma emits_guarded [emits_rules]: "emits A (guarded c svc opts when)"
  unfolding guarded_def guard_sessions_def Let_def by (intro emits_rules) simp_all

end

end
