(* ===== verification/Incidents.thy ===== *)
theory Incidents
  imports Service
begin

text \<open>
  Freezes, \<^verbatim>\<open>lib/incidents.js\<close>: a local file per frozen service (or for all of them) that
  \<^verbatim>\<open>ovhost deploy\<close> refuses to pass without \<^verbatim>\<open>--force\<close>; and the checks of what an
  incident command is given.
\<close>

text \<open>\<^verbatim>\<open>/^[a-z][a-z0-9-]{1,39}$/\<close>\<close>

definition is_service_id :: "str \<Rightarrow> bool" where
  "is_service_id s \<longleftrightarrow>
     (case s of [] \<Rightarrow> False
      | c # r \<Rightarrow> is_lower c \<and> 1 \<le> length r \<and> length r \<le> 39 \<and>
          list_all (\<lambda>x. is_lower x \<or> is_digit x \<or> x = CHR ''-'') r)"

text \<open>\<^verbatim>\<open>/^inc_[0-9A-HJKMNP-TV-Z]{26}$/\<close>\<close>

definition is_crockford :: "char \<Rightarrow> bool" where
  "is_crockford x \<longleftrightarrow> is_digit x \<or> is_upper x \<and> x \<notin> {CHR ''I'', CHR ''L'', CHR ''O'', CHR ''U''}"

definition is_incident_id :: "str \<Rightarrow> bool" where
  "is_incident_id s \<longleftrightarrow> starts_with s ''inc_'' \<and> length s = 30 \<and> list_all is_crockford (drop 4 s)"

definition parse_services :: "str option \<Rightarrow> exc + str list" where
  "parse_services v =
     (let s = filter (\<lambda>x. x \<noteq> []) (map trim (split_on (CHR '','') (case v of Some t \<Rightarrow> t | None \<Rightarrow> []))) in
      if s = [] then Inl (IncidentsError ''--services names at least one service id'' 1)
      else if \<not> list_all is_service_id s then Inl (IncidentsError ''not a service id'' 1)
      else Inr s)"

definition need_id :: "str option \<Rightarrow> exc + str" where
  "need_id v =
     (case v of
        Some s \<Rightarrow> (if is_incident_id s then Inr s else Inl (IncidentsError ''name the incident'' 1))
      | None \<Rightarrow> Inl (IncidentsError ''name the incident'' 1))"

text \<open>An option given without a value is \<^verbatim>\<open>true\<close>.\<close>

datatype flag_value = Bare | Given str

definition need_text :: "flag_value option \<Rightarrow> exc + str" where
  "need_text v =
     (case v of
        Some (Given s) \<Rightarrow> (if trim s = [] then Inl (IncidentsError ''is required'' 1) else Inr (trim s))
      | _ \<Rightarrow> Inl (IncidentsError ''is required'' 1))"

section \<open>Freezes\<close>

definition freeze_dir :: "inventory \<Rightarrow> str" where
  "freeze_dir i = path_join [inv_state_dir i, ''freeze'']"

definition freeze_file :: "inventory \<Rightarrow> str \<Rightarrow> str" where
  "freeze_file i sid = path_join [freeze_dir i, sid @ ''.json'']"

definition freeze_id :: "str \<Rightarrow> bool" where
  "freeze_id sid \<longleftrightarrow> sid = ''all'' \<or> is_service_id sid"

text \<open>\<^verbatim>\<open>JSON.stringify(rec, null, 2)\<close> of an object whose values are strings or null.\<close>

definition flat_text :: "(str \<times> json) list \<Rightarrow> str" where
  "flat_text kvs =
     (let nl = [CHR 0x0A] in
      ''{'' @ nl @ join ('','' @ nl) (map (\<lambda>(k, v). ''  '' @ quote_str k @ '': '' @ json_text v) kvs) @ nl @ ''}'')"

definition text_or_null :: "str option \<Rightarrow> json" where
  "text_or_null v = (case v of Some s \<Rightarrow> (if s = [] then JNull else JStr s) | None \<Rightarrow> JNull)"

definition freeze_fields :: "str \<Rightarrow> str \<Rightarrow> str option \<Rightarrow> str option \<Rightarrow> str \<Rightarrow> (str \<times> json) list" where
  "freeze_fields sid reason incident who now =
     [(''service'', JStr sid), (''reason'', JStr reason), (''incident'', text_or_null incident),
      (''by'', text_or_null who), (''at'', JStr now)]"

definition freeze ::
  "ctx \<Rightarrow> str \<Rightarrow> flag_value option \<Rightarrow> str option \<Rightarrow> str option \<Rightarrow> str \<Rightarrow> ('l, json) prog" where
  "freeze c sid reason incident who now =
     (if \<not> freeze_id sid then throw (IncidentsError ''not a service id'' 1)
      else
        bind (of_sum (need_text reason)) (\<lambda>why.
        let rec = freeze_fields sid why incident who now in
        andthen (exec_mkdir (exec c) (freeze_dir (inv c)) None)
        (andthen (exec_write (exec c) (freeze_file (inv c) sid) (flat_text rec @ [CHR 0x0A]))
        (ret (JObj rec)))))"

text \<open>A freeze file that cannot be read or does not parse holds nothing.\<close>

definition freeze_of :: "str option \<Rightarrow> json option" where
  "freeze_of text =
     (case text of
        None \<Rightarrow> None
      | Some t \<Rightarrow>
          (case json_parse (if t = [] then ''null'' else t) of
             Some v \<Rightarrow> (if truthy (Some v) then Some v else None)
           | None \<Rightarrow> None))"

fun first_freeze :: "ctx \<Rightarrow> str list \<Rightarrow> ('l, json option) prog" where
  "first_freeze c [] = ret None"
| "first_freeze c (f # fs) =
     bind (try_catch (bind (exec_read (exec c) (freeze_file (inv c) f)) (\<lambda>t. ret (freeze_of t))) (\<lambda>_. ret None)) (\<lambda>r.
     case r of Some v \<Rightarrow> ret (Some v) | None \<Rightarrow> first_freeze c fs)"

text \<open>The freeze that holds a service: its own, else the one for all.\<close>

definition frozen :: "ctx \<Rightarrow> str \<Rightarrow> bool \<Rightarrow> ('l, json option) prog" where
  "frozen c sid exact = first_freeze c (if exact then [sid] else [sid, ''all''])"

definition unfreeze :: "ctx \<Rightarrow> str \<Rightarrow> ('l, bool) prog" where
  "unfreeze c sid =
     (if \<not> freeze_id sid then throw (IncidentsError ''not a service id'' 1)
      else
        bind (frozen c sid True) (\<lambda>had.
        andthen (whenever (had \<noteq> None) (exec_remove (exec c) (freeze_file (inv c) sid)))
        (ret (had \<noteq> None))))"

end
