(* ===== verification/Release_Ops.thy ===== *)
theory Release_Ops
  imports Operation Incidents
begin

text \<open>
  The in-place deploy engine of \<^verbatim>\<open>lib/release-ops.js\<close>: a git checkout that moves to a new commit,
  is made ready to run, and whose units restart; with the way back when any of it fails.
\<close>

section \<open>Helpers\<close>

definition note_installed :: "str \<Rightarrow> 'x base_state_scheme \<Rightarrow> 'x base_state_scheme" where
  "note_installed pkg s = s\<lparr>os_installed := os_installed s @ [pkg]\<rparr>"

definition install_all :: "ctx \<Rightarrow> service \<Rightarrow> git_handle \<Rightarrow> install_item list \<Rightarrow> ('x base_state_scheme, unit) prog" where
  "install_all c svc g items =
     each (\<lambda>i. whenever (in_install i) (andthen (install c svc g (in_pkg i)) (modl (note_installed (in_pkg i))))) items"

text \<open>\<open>(pkgDirs, problems, repaired)\<close>\<close>

definition verify_deps :: "ctx \<Rightarrow> service \<Rightarrow> git_handle \<Rightarrow> ('l, str list \<times> dep_problem list \<times> str list) prog" where
  "verify_deps c svc g =
     bind (expand_packages (exec c) svc) (\<lambda>dirs.
     bind (verify_and_repair c svc g dirs) (\<lambda>(problems, repaired). ret (dirs, problems, repaired)))"

text \<open>\<open>noted\<close>: whether a release record was passed, which then says that a build ran.\<close>

definition run_build :: "ctx \<Rightarrow> service \<Rightarrow> bool \<Rightarrow> (engine_state, unit) prog" where
  "run_build c svc noted =
     andthen (whenever (noted \<and> s_build svc \<noteq> []) (modl (\<lambda>s. s\<lparr>ck_built := True\<rparr>)))
       (each (\<lambda>argv.
          bind (exec_run (exec c) (hd argv) (tl argv) (as_owner_in (s_owner svc) (s_repo svc))) (\<lambda>r.
          whenever (rc r \<noteq> 0) (throw (JsError ''build step failed'')))) (s_build svc))"

definition vhost_sources :: "host \<Rightarrow> service \<Rightarrow> nginx_cfg \<Rightarrow> str \<Rightarrow> ('l, str list) prog" where
  "vhost_sources H svc n pattern =
     (if ends_with pattern ''*.conf'' then
        (let dir = path_dirname pattern in
         bind (exec_readdir H (path_join [s_repo svc, dir])) (\<lambda>es.
         ret (map (\<lambda>e. path_join [dir, e_name e])
               (filter (\<lambda>e. \<not> e_is_dir e \<and> ends_with (e_name e) ''.conf'' \<and> e_name e \<notin> set (n_skip_vhosts n))
                  (case es of Some xs \<Rightarrow> xs | None \<Rightarrow> [])))))
      else ret [pattern])"

definition install_repo_vhosts :: "ctx \<Rightarrow> service \<Rightarrow> nginx_cfg \<Rightarrow> ('l, unit) prog" where
  "install_repo_vhosts c svc n =
     (case (case given (n_repo_vhosts n) of Some v \<Rightarrow> Some v | None \<Rightarrow> given (n_repo_vhost n)) of
        None \<Rightarrow> ret ()
      | Some pattern \<Rightarrow>
          bind (vhost_sources (exec c) svc n pattern) (\<lambda>names.
          bind (mapp (\<lambda>rel. bind (exec_read (exec c) (path_join [s_repo svc, rel])) (\<lambda>t.
                  ret \<lparr>v_name = path_basename rel, v_text = t\<rparr>)) (sort names)) (\<lambda>files.
          bind (nginx_install c files []) (\<lambda>_. ret ()))))"

text \<open>The exit code of \<^verbatim>\<open>install\<close> is not looked at.\<close>

definition copy_unit :: "ctx \<Rightarrow> service \<Rightarrow> str list \<Rightarrow> str \<times> str \<Rightarrow> ('l, str list) prog" where
  "copy_unit c svc changed e =
     (let (u, src) = e; H = exec c; file = path_join [s_repo svc, src] in
      bind (exec_read H file) (\<lambda>want.
      if want = None then ret changed
      else
        bind (exec_read H (unit_path u)) (\<lambda>have.
        if have = want then ret changed
        else
          bind (exec_run H ''install'' [''-m'', ''0644'', ''-D'', file, unit_path u] as_root) (\<lambda>_.
          ret (changed @ [u])))))"

definition install_units :: "ctx \<Rightarrow> service \<Rightarrow> ('x base_state_scheme, unit) prog" where
  "install_units c svc =
     bind (foldp (copy_unit c svc) [] (s_unit_sources svc)) (\<lambda>changed.
     andthen (whenever (changed \<noteq> []) (daemon_reload (exec c)))
     (andthen (modl (\<lambda>s. s\<lparr>os_units_installed := Some changed\<rparr>))
     (whenever (s_enable_units svc)
       (each (\<lambda>u. bind (systemctl (exec c) ''enable'' (Some u)) (\<lambda>r.
          whenever (rc r \<noteq> 0) (throw (JsError ''systemctl enable failed''))))
        (s_units svc @ map a_unit (s_auxiliary_units svc))))))"

text \<open>Restart the service units (never the socket) and poll readiness.\<close>

definition restart_and_wait ::
  "ctx \<Rightarrow> service \<Rightarrow> int option \<Rightarrow> str list \<Rightarrow> str option \<Rightarrow> ('l, ready_result) prog" where
  "restart_and_wait c svc timeout us expectSha =
     andthen
       (case given (s_socket_unit svc) of
          Some u \<Rightarrow> bind (ensure_socket_active (exec c) u) (\<lambda>_. ret ())
        | None \<Rightarrow> ret ())
     (andthen (each (restart (exec c)) us)
       (wait_ready c svc timeout expectSha us))"

definition restore_checkout :: "ctx \<Rightarrow> service \<Rightarrow> git_handle \<Rightarrow> str \<Rightarrow> (engine_state, unit) prog" where
  "restore_checkout c svc g sha =
     andthen (git_reset_hard (exec c) g sha)
     (bind getl (\<lambda>s.
      andthen (each (install c svc g) (os_installed s))
      (bind (verify_deps c svc g) (\<lambda>(dirs, problems, repaired).
       if problems \<noteq> [] then throw (JsError ''after restoring these dependencies still do not resolve'')
       else whenever (ck_built s) (run_build c svc False)))))"

section \<open>Announcements\<close>

record announcement =
  an_service :: "json option"
  an_release :: "json option"
  an_origin :: str

text \<open>\<^verbatim>\<open>String(v)\<close> of a property that may be missing.\<close>

definition js_text :: "json option \<Rightarrow> str" where
  "js_text v = (case v of Some x \<Rightarrow> js_string x | None \<Rightarrow> ''undefined'')"

definition is_domain :: "str \<Rightarrow> bool" where
  "is_domain s \<longleftrightarrow> s \<noteq> [] \<and> list_all (\<lambda>x. is_lower x \<or> is_digit x \<or> x \<in> set ''.-'') s"

definition announcement_of :: "str \<Rightarrow> str option \<Rightarrow> announcement option" where
  "announcement_of domain text =
     (case (case text of None \<Rightarrow> None | Some t \<Rightarrow> json_parse (if t = [] then ''null'' else t)) of
        None \<Rightarrow> None
      | Some m \<Rightarrow>
          (if truthy (Some m) \<and> is_service_id (js_text (jget ''service'' m))
              \<and> is_sha_prefix (js_text (jget ''release'' m)) \<and> is_domain domain
           then Some \<lparr>an_service = jget ''service'' m, an_release = jget ''release'' m, an_origin = ''https://'' @ domain\<rparr>
           else None))"

definition release_announcements :: "ctx \<Rightarrow> service \<Rightarrow> ('l, announcement list option) prog" where
  "release_announcements c svc =
     (case given (s_release_files svc) of
        None \<Rightarrow> ret None
      | Some pattern \<Rightarrow>
          (let H = exec c; dir = hd (split_on (CHR ''/'') pattern) in
           bind (exec_readdir H (path_join [s_repo svc, dir])) (\<lambda>es.
           let domains = sort (map e_name (filter e_is_dir (case es of Some xs \<Rightarrow> xs | None \<Rightarrow> []))) in
           bind (mapp (\<lambda>d.
              bind (try_catch (exec_read H (path_join [s_repo svc, dir, d, ''release.json''])) (\<lambda>_. ret None)) (\<lambda>t.
              ret (announcement_of d t))) domains) (\<lambda>out.
           ret (Some (List.map_filter id out))))))"

section \<open>Moving the checkout\<close>

definition remove_untracked :: "ctx \<Rightarrow> service \<Rightarrow> str list \<Rightarrow> (engine_state, unit) prog" where
  "remove_untracked c svc fs =
     each (\<lambda>f.
       bind (exec_run (exec c) ''rm'' [''-f'', ''--'', path_join [s_repo svc, f]] (as_owner (s_owner svc))) (\<lambda>_.
       modl (\<lambda>s. s\<lparr>ck_removed := ck_removed s @ [f]\<rparr>))) fs"

definition drop_from_index :: "ctx \<Rightarrow> git_handle \<Rightarrow> str list \<Rightarrow> (engine_state, unit) prog" where
  "drop_from_index c g fs =
     each (\<lambda>f.
       andthen (git_no_skip_worktree (exec c) g f)
       (andthen (git_rm_cached (exec c) g f)
       (modl (\<lambda>s. s\<lparr>ck_dropped := ck_dropped s @ [f]\<rparr>)))) fs"

definition move_checkout ::
  "ctx \<Rightarrow> service \<Rightarrow> git_handle \<Rightarrow> op_mode \<Rightarrow> deploy_plan \<Rightarrow> (engine_state, unit) prog" where
  "move_checkout c svc g mode p =
     andthen (whenever (p_generated_dirty p \<noteq> [] \<and> \<not> up_to_date p) (git_checkout_paths (exec c) g (p_generated_dirty p)))
     (andthen (remove_untracked c svc (p_untracked_lockfiles p))
     (andthen (remove_untracked c svc (p_untracked_generated p))
     (andthen (drop_from_index c g (p_untracked_deleted p))
     (whenever (\<not> up_to_date p)
       (andthen (case mode of Deploy \<Rightarrow> git_ff_merge (exec c) g (p_to p) | Rollback \<Rightarrow> git_reset_hard (exec c) g (p_to p))
         (modl (\<lambda>s. s\<lparr>ck_moved := True\<rparr>)))))))"

section \<open>Making the release ready to run\<close>

definition checked_deps :: "ctx \<Rightarrow> service \<Rightarrow> git_handle \<Rightarrow> ('x base_state_scheme, str list) prog" where
  "checked_deps c svc g =
     bind (verify_deps c svc g) (\<lambda>(dirs, problems, repaired).
     andthen (modl (\<lambda>s. s\<lparr>os_deps_verified := Some (problems = []), os_deps_repaired := repaired\<rparr>))
     (if problems \<noteq> [] then throw (OpError ''dependencies do not resolve'' exit_validation None) else ret dirs))"

definition checked_preflight ::
  "ctx \<Rightarrow> service \<Rightarrow> str \<Rightarrow> str list \<Rightarrow> str list \<Rightarrow> ('x base_state_scheme, unit) prog" where
  "checked_preflight c svc rootdir changed dirs =
     bind (preflight_run (exec c) svc rootdir changed dirs) (\<lambda>pf.
     if problems pf \<noteq> [] then
       andthen (modl (\<lambda>s. s\<lparr>os_preflight := Some \<lparr>pn_ok = False, pn_problems = problems pf, pn_checks = 0, pn_syntax_checked = 0\<rparr>\<rparr>))
         (throw (OpError ''preflight failed'' exit_validation None))
     else
       whenever (pf_checks (s_preflight svc) \<noteq> [] \<or> pf_syntax_check (s_preflight svc))
         (modl (\<lambda>s. s\<lparr>os_preflight := Some \<lparr>pn_ok = True, pn_problems = [], pn_checks = checks_run pf, pn_syntax_checked = syntax_checked pf\<rparr>\<rparr>)))"

definition restart_auxiliary :: "ctx \<Rightarrow> deploy_plan \<Rightarrow> (engine_state, unit) prog" where
  "restart_auxiliary c p =
     andthen (modl (\<lambda>s. s\<lparr>ck_aux_pending := ck_aux_pending s @ p_aux_apply p\<rparr>))
       (each (\<lambda>u. andthen (restart (exec c) u) (modl (\<lambda>s. s\<lparr>ck_aux_restarted := ck_aux_restarted s @ [u]\<rparr>)))
         (p_aux_restart p))"

definition stage_release ::
  "ctx \<Rightarrow> service \<Rightarrow> git_handle \<Rightarrow> op_opts \<Rightarrow> deploy_plan \<Rightarrow> (engine_state, unit) prog" where
  "stage_release c svc g opts p =
     andthen (install_all c svc g (p_installs p))
     (bind (checked_deps c svc g) (\<lambda>dirs.
      andthen (run_build c svc True)
      (andthen (checked_preflight c svc (s_repo svc) (p_changed p) dirs)
      (andthen (whenever (p_install_vhosts p)
         (try_catch (case s_nginx svc of Some n \<Rightarrow> install_repo_vhosts c svc n | None \<Rightarrow> ret ())
           (\<lambda>e. throw (OpError (exc_message e) exit_validation None))))
      (andthen (whenever (op_install_units opts \<or> s_install_units svc) (install_units c svc))
      (andthen (whenever (p_backup_needed p \<and> p_restart_needed p) (backup_before_restart c svc))
      (andthen (whenever (p_restart_needed p) (guarded c svc opts ''immediately before the restart''))
        (restart_auxiliary c p))))))))"

text \<open>The \<^verbatim>\<open>catch\<close>: the files go back, then the error goes on with what was done about it.\<close>

definition stage_failed ::
  "ctx \<Rightarrow> service \<Rightarrow> git_handle \<Rightarrow> deploy_plan \<Rightarrow> exc \<Rightarrow> (engine_state, unit) prog" where
  "stage_failed c svc g p e =
     bind getl (\<lambda>s.
     andthen (whenever (ck_moved s)
       (try_catch
         (andthen (restore_checkout c svc g (p_from p)) (modl (\<lambda>s. s\<lparr>ck_restored := True\<rparr>)))
         (\<lambda>e2. throw (OpError (exc_message e @ '' AND restoring failed: MANUAL INTERVENTION REQUIRED'')
                        exit_rollback_failed (Some ''restore-failed'')))))
     (bind getl (\<lambda>s2.
      let note = (if ck_restored s2 then '' (checkout restored; nothing restarted)'' else '' (nothing restarted)'') in
      throw (case e of
         OpError m x r \<Rightarrow> OpError (m @ note) x r
       | _ \<Rightarrow> OpError (exc_message e @ note) exit_validation None))))"

section \<open>The restart\<close>

record outcome =
  oc_exit :: nat
  oc_plan :: deploy_plan
  oc_announcements :: "announcement list option"

definition set_result :: "str \<Rightarrow> 'x base_state_scheme \<Rightarrow> 'x base_state_scheme" where
  "set_result r s = s\<lparr>os_result := Some r\<rparr>"

definition success_name :: "op_mode \<Rightarrow> str" where
  "success_name mode = (case mode of Deploy \<Rightarrow> ''deployed'' | Rollback \<Rightarrow> ''rolled-back'')"

definition without_restart ::
  "ctx \<Rightarrow> service \<Rightarrow> op_mode \<Rightarrow> deploy_plan \<Rightarrow> announcement list option \<Rightarrow> (engine_state, outcome) prog" where
  "without_restart c svc mode p ann =
     andthen (modl (set_result (success_name mode)))
     (andthen (whenever (s_ready svc \<noteq> None)
        (bind (ready_probe (exec c) svc) (\<lambda>r. modl (\<lambda>s. s\<lparr>os_ready := pr_ok r\<rparr>))))
     (ret \<lparr>oc_exit = exit_ok, oc_plan = p, oc_announcements = ann\<rparr>))"

definition roll_back ::
  "ctx \<Rightarrow> service \<Rightarrow> git_handle \<Rightarrow> op_opts \<Rightarrow> deploy_plan \<Rightarrow> (engine_state, outcome) prog" where
  "roll_back c svc g opts p =
     andthen (modl (\<lambda>s. s\<lparr>os_rollback_to := Some (p_from p)\<rparr>))
     (bind (try_catch
        (andthen (restore_checkout c svc g (p_from p))
        (bind (restart_and_wait c svc (op_ready_timeout opts) (p_units p) (Some (p_from p))) (\<lambda>back.
         andthen (modl (\<lambda>s. s\<lparr>os_rollback_ready := Some (rr_ok back)\<rparr>))
         (if rr_ok back
          then andthen (modl (set_result ''failed-rolled-back'')) (ret exit_rolled_back)
          else andthen (modl (set_result ''rollback-failed'')) (ret exit_rollback_failed)))))
        (\<lambda>e. andthen (modl (\<lambda>s. (set_result ''rollback-failed'' s)\<lparr>os_error := Some (exc_message e)\<rparr>))
               (ret exit_rollback_failed))) (\<lambda>code.
      ret \<lparr>oc_exit = code, oc_plan = p, oc_announcements = None\<rparr>))"

definition with_restart ::
  "ctx \<Rightarrow> service \<Rightarrow> git_handle \<Rightarrow> op_mode \<Rightarrow> op_opts \<Rightarrow> deploy_plan \<Rightarrow> announcement list option \<Rightarrow> (engine_state, outcome) prog" where
  "with_restart c svc g mode opts p ann =
     bind (restart_and_wait c svc (op_ready_timeout opts) (p_units p) (Some (p_to p))) (\<lambda>r.
     andthen (modl (\<lambda>s. s\<lparr>os_restarted := True, os_ready := Some (rr_ok r)\<rparr>))
     (if rr_ok r then
        andthen (modl (set_result (success_name mode)))
          (ret \<lparr>oc_exit = exit_ok, oc_plan = p, oc_announcements = ann\<rparr>)
      else roll_back c svc g opts p))"

section \<open>Deploy and rollback of a checkout\<close>

definition note_plan :: "deploy_plan \<Rightarrow> 'x base_state_scheme \<Rightarrow> 'x base_state_scheme" where
  "note_plan p s =
     s\<lparr>os_from := Some (p_from p), os_to := Some (p_to p), os_commits := length (p_commits p),
       os_lockfile_changed := p_lockfile_changed p, os_restart_needed := Some (p_restart_needed p)\<rparr>"

definition nothing_new ::
  "ctx \<Rightarrow> service \<Rightarrow> op_mode \<Rightarrow> op_opts \<Rightarrow> deploy_plan \<Rightarrow> (engine_state, outcome) prog" where
  "nothing_new c svc mode opts p =
     (let out = \<lparr>oc_exit = exit_ok, oc_plan = p, oc_announcements = None\<rparr> in
      if op_install_units opts \<and> p_unit_drift p \<noteq> [] \<and> mode = Deploy
      then andthen (install_units c svc) (andthen (modl (set_result ''units-installed'')) (ret out))
      else andthen (modl (\<lambda>s. (set_result ''unchanged'' s)\<lparr>os_write := False\<rparr>)) (ret out))"

definition deploy_plan_steps ::
  "ctx \<Rightarrow> service \<Rightarrow> git_handle \<Rightarrow> op_mode \<Rightarrow> op_opts \<Rightarrow> deploy_plan \<Rightarrow> (engine_state, outcome) prog" where
  "deploy_plan_steps c svc g mode opts p =
     andthen (whenever (p_restart_needed p) (guarded c svc opts ''before the checkout moves''))
     (andthen (move_checkout c svc g mode p)
     (andthen (try_catch (stage_release c svc g opts p) (stage_failed c svc g p))
     (bind (release_announcements c svc) (\<lambda>ann.
      if \<not> p_restart_needed p then without_restart c svc mode p ann
      else with_restart c svc g mode opts p ann))))"

definition apply_body :: "ctx \<Rightarrow> service \<Rightarrow> op_mode \<Rightarrow> op_opts \<Rightarrow> (engine_state, outcome) prog" where
  "apply_body c svc mode opts =
     andthen (take_host_lock c svc)
     (bind (compute_plan c svc mode (op_to opts) (op_fetch opts) (op_restart opts)) (\<lambda>p.
      andthen (modl (note_plan p))
      (if p_branch p \<noteq> s_branch svc then throw (OpError ''the checkout is on another branch'' exit_usage None)
       else if p_dirty p \<noteq> [] then throw (OpError ''tracked local changes'' exit_validation None)
       else if up_to_date p \<and> \<not> op_restart opts then nothing_new c svc mode opts p
       else deploy_plan_steps c svc (git_of svc) mode opts p)))"

definition checkout_json :: "service \<Rightarrow> op_mode \<Rightarrow> engine_state \<Rightarrow> json" where
  "checkout_json svc mode s =
     JObj ([(''id'', JStr (os_id s)), (''service'', JStr (s_id svc)), (''strategy'', JStr (s_strategy svc)),
        (''action'', JStr (mode_name mode)), (''startedAt'', JStr (os_started s)), (''operator'', JStr (os_operator s)),
        (''host'', JStr (os_hostname s)), (''from'', opt_json JStr (os_from s)), (''to'', opt_json JStr (os_to s)),
        (''commits'', JNum (of_nat (os_commits s))), (''lockfileChanged'', JBool (os_lockfile_changed s)),
        (''installed'', names_json (os_installed s)), (''depsVerified'', opt_json JBool (os_deps_verified s)),
        (''restartNeeded'', opt_json JBool (os_restart_needed s)), (''restarted'', JBool (os_restarted s)),
        (''ready'', opt_json JBool (os_ready s)), (''forced'', JBool (os_forced s)), (''result'', opt_json JStr (os_result s))]
      @ field ''protectedSessions'' (map_option (sessions_json svc) (os_sessions s))
      @ listed ''removedUntracked'' (ck_removed s) @ listed ''droppedFromIndex'' (ck_dropped s)
      @ marked ''checkoutMoved'' (ck_moved s) @ listed ''depsRepaired'' (os_deps_repaired s)
      @ marked ''built'' (ck_built s) @ field ''preflight'' (map_option preflight_json (os_preflight s))
      @ field ''unitsInstalled'' (map_option names_json (os_units_installed s))
      @ field ''backup'' (map_option (\<lambda>fs. JArr (map (opt_json JStr) fs)) (os_backup s))
      @ listed ''auxApplyPending'' (ck_aux_pending s) @ listed ''auxRestarted'' (ck_aux_restarted s)
      @ marked ''checkoutRestored'' (ck_restored s) @ rollback_json s
      @ field ''error'' (map_option JStr (os_error s)) @ field ''finishedAt'' (map_option JStr (os_finished s)))"

definition apply_checkout :: "ctx \<Rightarrow> service \<Rightarrow> op_mode \<Rightarrow> op_opts \<Rightarrow> (engine_state, outcome) prog" where
  "apply_checkout c svc mode opts =
     (if \<not> s_managed svc then throw (OpError ''not managed by ovhost'' exit_usage None)
      else if op_prepare_only opts then throw (OpError ''--prepare-only needs a release-layout service'' exit_usage None)
      else
        bind (exec_readlink (exec c) (path_join [s_repo svc, ''current''])) (\<lambda>cur.
        if given cur \<noteq> None then throw (OpError ''uses the releases/current layout'' exit_usage None)
        else
          bind (lock_acquire c (s_id svc)) (\<lambda>(file, stale).
          bind (open_record c) (\<lambda>b.
          andthen (modl (\<lambda>_. fresh b))
            (run_operation c (s_id svc) file (checkout_json svc mode) (apply_body c svc mode opts))))))"

section \<open>Footprints\<close>

definition nginx_ok :: "ctx \<Rightarrow> bool" where
  "nginx_ok c \<longleftrightarrow> nginx_bin (inv_nginx (inv c)) \<noteq> ''systemctl''"

text \<open>What an entry must satisfy for its footprint to be bounded.\<close>

definition entry_ok :: "ctx \<Rightarrow> service \<Rightarrow> bool" where
  "entry_ok c svc \<longleftrightarrow> commands_ok svc \<and> units_named svc \<and> nginx_ok c"

context event_class
begin

lemma emits_install_all [emits_rules]:
  "commands_ok svc \<Longrightarrow> emits A (install_all c svc g is)"
  unfolding install_all_def commands_ok_def by (intro emits_rules) simp_all

lemma emits_verify_deps [emits_rules]: "commands_ok svc \<Longrightarrow> emits A (verify_deps c svc g)"
  unfolding verify_deps_def commands_ok_def by (intro emits_rules) simp_all

lemma emits_run_build [emits_rules]: "commands_ok svc \<Longrightarrow> emits A (run_build c svc b)"
  unfolding run_build_def commands_ok_def argv_ok_def by (intro emits_rules) simp_all

lemma emits_restore_checkout [emits_rules]: "commands_ok svc \<Longrightarrow> emits A (restore_checkout c svc g sha)"
  unfolding restore_checkout_def by (intro emits_rules) (simp_all add: commands_ok_def)

lemma emits_release_announcements [emits_rules]: "emits A (release_announcements c svc)"
  unfolding release_announcements_def Let_def by (intro emits_rules) simp_all

lemma emits_move_checkout [emits_rules]: "emits A (move_checkout c svc g mode p)"
  unfolding move_checkout_def remove_untracked_def drop_from_index_def
  by (intro emits_rules; simp split: op_mode.split add: emits_rules)+

lemma emits_checked_deps [emits_rules]: "commands_ok svc \<Longrightarrow> emits A (checked_deps c svc g)"
  unfolding checked_deps_def by (intro emits_rules)

lemma emits_checked_preflight [emits_rules]: "commands_ok svc \<Longrightarrow> emits A (checked_preflight c svc r f d)"
  unfolding checked_preflight_def by (intro emits_rules)

lemma emits_stage_failed [emits_rules]: "commands_ok svc \<Longrightarrow> emits A (stage_failed c svc g p e)"
  unfolding stage_failed_def Let_def by (intro emits_rules)

lemma emits_without_restart [emits_rules]: "emits A (without_restart c svc mode p ann)"
  unfolding without_restart_def by (intro emits_rules)

end

context service_class
begin

lemma emits_install_repo_vhosts [emits_rules]: "nginx_ok c \<Longrightarrow> emits A (install_repo_vhosts c svc n)"
  unfolding install_repo_vhosts_def vhost_sources_def Let_def nginx_ok_def by (intro emits_rules) simp_all

lemma emits_install_units [emits_rules]: "units_named svc \<Longrightarrow> emits A (install_units c svc)"
  unfolding install_units_def copy_unit_def units_named_def Let_def by (intro emits_rules) auto

lemma emits_nothing_new [emits_rules]: "units_named svc \<Longrightarrow> emits A (nothing_new c svc mode opts p)"
  unfolding nothing_new_def Let_def by (intro emits_rules)

end

end
