(* ===== verification/Sample.thy ===== *)
theory Sample
  imports Release_Ops
begin

text \<open>
  A concrete host, inventory and service, on which the properties with hypotheses are shown to apply: a
  checkout of one service with one unit, whose remote is one commit ahead.
\<close>

definition said :: "int \<Rightarrow> str \<Rightarrow> run_result" where
  "said code text = \<lparr>rc = code, rout = text, rerr = []\<rparr>"

definition sample_git :: "str \<Rightarrow> str list \<Rightarrow> run_result" where
  "sample_git dirty args =
     (if args = [''rev-parse'', ''HEAD''] then said 0 ''1111111''
      else if args = [''rev-parse'', ''--abbrev-ref'', ''HEAD''] then said 0 ''main''
      else if args = [''rev-parse'', ''--verify'', ''origin/main^{commit}''] then said 0 ''2222222''
      else if hd args = ''status'' then said 0 dirty
      else if args = [''diff'', ''--name-only'', ''1111111'', ''2222222''] then said 0 ''app.js''
      else if hd args = ''show'' then said 128 []
      else said 0 [])"

definition sample_run :: "str \<Rightarrow> str \<Rightarrow> str list \<Rightarrow> run_result" where
  "sample_run dirty cmd args =
     (if cmd = ''git'' then sample_git dirty (drop 2 args)
      else if cmd = ''systemctl'' \<and> hd args = ''show'' then said 0 ''ActiveState=active''
      else said 0 [])"

text \<open>A clock that only sleeping moves.\<close>

definition slept :: "event \<Rightarrow> int" where
  "slept e = (case e of ESleep ms \<Rightarrow> max 0 ms | _ \<Rightarrow> 0)"

definition sample_host :: "str \<Rightarrow> int \<Rightarrow> host" where
  "sample_host dirty status =
     \<lparr>h_run = (\<lambda>tr cmd args opts. sample_run dirty cmd args),
      h_read = (\<lambda>tr p. Inr None), h_write = (\<lambda>tr p t. Inr ()), h_append = (\<lambda>tr p t. Inr ()),
      h_remove = (\<lambda>tr p. Inr ()), h_symlink = (\<lambda>tr t p. Inr ()), h_readlink = (\<lambda>tr p. None),
      h_stat = (\<lambda>tr p. None), h_statfs = (\<lambda>tr p. Inr 0), h_readdir = (\<lambda>tr p. None),
      h_mkdir = (\<lambda>tr p. Inr ()), h_create = (\<lambda>tr p t. Inr True), h_pid_alive = (\<lambda>tr i. False),
      h_http = (\<lambda>tr u. \<lparr>hs_status = status, hs_body = [], hs_error = None\<rparr>),
      h_request = (\<lambda>tr m u b. \<lparr>hs_status = 200, hs_body = [], hs_error = None\<rparr>),
      h_psql = (\<lambda>tr d q. Inr []), h_listeners = (\<lambda>tr p. Inr []), h_mem = (\<lambda>tr. Inr (Some 0)),
      h_deploy_lock = (\<lambda>tr f s n. Inr ()),
      h_now = (\<lambda>tr. sum_list (map slept tr)),
      h_user_name = (\<lambda>tr. ''root''), h_hostname = (\<lambda>tr. ''host''), h_random = (\<lambda>tr. ''abcd''),
      h_read_stream = (\<lambda>tr p. ([], None)), h_write_stream = (\<lambda>tr p t. Inr ()), h_kill = (\<lambda>tr p g. Inr False),
      h_is_root = True, h_collate = (\<lambda>a b. a \<le> b), h_date_parse = (\<lambda>s. None)\<rparr>"

definition sample_guard :: guard_cfg where
  "sample_guard =
     \<lparr>g_min_available_mib = 0, g_memory_wait_seconds = 60, g_memory_poll_seconds = 5, g_lock_wait_seconds = 60\<rparr>"

definition sample_service :: service where
  "sample_service =
     \<lparr>s_id = ''app'', s_repo = ''/srv/app'', s_manifest = ''app'', s_code_dir = ''/srv/app'', s_layout = ''git'',
      s_origin = Some ''https://app.example'', s_owner = ''app'', s_run_as = ''app'', s_remote = ''origin'',
      s_branch = ''main'', s_strategy = ''git-checkout'',
      s_release = \<lparr>r_git = [], r_releases_dir = [], r_current = [], r_id = [], r_links = [], r_reuse_modules = False,
        r_chown = None, r_keep = 5, r_settle_seconds = 1, r_socket_port = None\<rparr>,
      s_managed = True, s_deploy_policy = ''auto'', s_skip_packages = [], s_remove_untracked_lockfiles = False,
      s_generated = [], s_preflight = \<lparr>pf_syntax_check = False, pf_dirs = [], pf_checks = []\<rparr>,
      s_install_units = False, s_enable_units = False, s_units_match = None, s_release_files = None,
      s_units = [''app.service''], s_worker_units = [], s_auxiliary_units = [], s_socket_unit = Some ''app.socket'',
      s_unit_sources = [], s_port = Some 4000,
      s_ready = Some \<lparr>rd_url = ''http://127.0.0.1:4000/ready'', rd_timeout_seconds = 3, rd_release = False, rd_all_units = False\<rparr>,
      s_packages = [],
      s_install = \<lparr>i_command = [''npm'', ''ci''], i_always = False, i_restore_lockfile = True,
        i_lockfile = ''package-lock.json'', i_workspace = False\<rparr>,
      s_build = [], s_no_restart_paths = [''docs/''], s_protected = None,
      s_drain = \<lparr>d_policy = ''refuse'', d_wait_max_seconds = 60, d_poll_seconds = 5, d_quiet_checks = 2\<rparr>,
      s_databases = [], s_objects = [], s_backup_on_change = [], s_nginx = None, s_env_file = None, s_env_required = Listed [],
      s_env_example = ''.env.example'', s_lifecycle = None, s_drill = None, s_deploy_guard = sample_guard\<rparr>"

definition sample_inventory :: inventory where
  "sample_inventory =
     \<lparr>inv_host = JNull, inv_state_dir = ''/var/lib/openvibe-host'', inv_backup_dir = ''/backup'', inv_backup_staging_dir = ''/backup/.staging'', inv_drill_dir = ''/drills'',
      inv_deploy_guard = sample_guard,
      inv_nginx = \<lparr>sites_available = ''/etc/nginx/sites-available'', sites_enabled = ''/etc/nginx/sites-enabled'', nginx_bin = ''nginx''\<rparr>,
      inv_events_env_file = None, inv_node_source = ''primary'', inv_nodes = [],
      inv_services = [(''app'', sample_service)]\<rparr>"

text \<open>\<open>dirty\<close> is what \<^verbatim>\<open>git status\<close> prints, \<open>status\<close> what the ready URL answers.\<close>

definition sample_ctx :: "str \<Rightarrow> int \<Rightarrow> ctx" where
  "sample_ctx dirty status =
     \<lparr>exec = sample_host dirty status, inv = sample_inventory, ctx_pid = 7, ctx_sudo_user = None, ctx_fuel = 20\<rparr>"

definition blank_state :: engine_state where
  "blank_state =
     fresh \<lparr>os_host_lock = False, os_sessions = None, os_forced = False, os_id = [], os_started = [],
       os_operator = [], os_hostname = [], os_from = None, os_to = None, os_commits = 0,
       os_lockfile_changed = False, os_installed = [], os_deps_verified = None, os_restart_needed = None,
       os_restarted = False, os_ready = None, os_result = None, os_deps_repaired = [], os_preflight = None,
       os_units_installed = None, os_backup = None, os_rollback_to = None, os_rollback_ready = None,
       os_error = None, os_finished = None, os_write = True\<rparr>"

text \<open>The same service with protected sessions counted by a query, and a plan that restarts it.\<close>

definition sample_busy :: service where
  "sample_busy = sample_service\<lparr>s_protected := Some \<lparr>p_label = None, p_probe = PostgresqlCount ''app'' ''select 1''\<rparr>\<rparr>"

definition sample_plan :: deploy_plan where
  "sample_plan = (blank_plan ''main'' ''1111111'' ''2222222'' [] [''app.js''])\<lparr>p_restart_needed := True\<rparr>"

lemma sample_clock: "clock_ok (sample_host dirty status)"
  by (auto simp: clock_ok_def sample_host_def slept_def split: event.split)

lemma sample_entry_ok: "entry_ok (sample_ctx dirty status) sample_service"
  by (simp add: entry_ok_def commands_ok_def argv_ok_def units_named_def nginx_ok_def sample_ctx_def
      sample_inventory_def sample_service_def)

lemma sample_count:
  "count_protected (exec (sample_ctx [] 200)) sample_busy ([], blank_state) =
     (Inr (unknown ''query returned no number''),
      [EPsql ''app'' ''select 1'', ERun ''systemctl'' (systemctl_args ''show'' (Some ''app.service'')) as_self], blank_state)"
  by code_simp

end
