(* ===== verification/Outcome.thy ===== *)
theory Outcome
  imports Host
begin

text \<open>
  What a program may raise and return: \<open>raises E m\<close> bounds its exceptions, \<open>returns P m\<close> its
  values, and \<open>clean A m\<close> says that a run which ends in an \<open>OpError\<close> made only requests in
  \<open>A\<close>, whatever other runs do.
\<close>

definition raises :: "(exc \<Rightarrow> bool) \<Rightarrow> ('l, 'a) prog \<Rightarrow> bool" where
  "raises E m \<longleftrightarrow> (\<forall>s e s'. m s = (Inl e, s') \<longrightarrow> E e)"

definition returns :: "('a \<Rightarrow> bool) \<Rightarrow> ('l, 'a) prog \<Rightarrow> bool" where
  "returns P m \<longleftrightarrow> (\<forall>s x s'. m s = (Inr x, s') \<longrightarrow> P x)"

named_theorems raises_rules \<open>exceptions of the program constructors and operations\<close>
named_theorems returns_rules \<open>values of the program constructors and operations\<close>

section \<open>Exceptions\<close>

lemma raisesD: "raises E m \<Longrightarrow> m s = (Inl e, s') \<Longrightarrow> E e"
  unfolding raises_def by blast

lemma raises_pure [raises_rules]:
  "raises E (ret x)" "raises E getl" "raises E (modl f)"
  by (auto simp: raises_def ret_def getl_def modl_def)

lemma raises_throw [raises_rules]: "E e \<Longrightarrow> raises E (throw e)"
  by (auto simp: raises_def throw_def)

lemma raises_of_sum [raises_rules]: "(\<And>e. r = Inl e \<Longrightarrow> E e) \<Longrightarrow> raises E (of_sum r)"
  by (cases r) (auto simp: raises_def of_sum_def throw_def ret_def)

lemma raises_bind [raises_rules]: "raises E m \<Longrightarrow> (\<And>x. raises E (f x)) \<Longrightarrow> raises E (bind m f)"
  by (fastforce simp: raises_def bind_def split: prod.splits sum.splits)

lemma raises_andthen [raises_rules]: "raises E m \<Longrightarrow> raises E k \<Longrightarrow> raises E (andthen m k)"
  unfolding andthen_def by (rule raises_bind)

lemma raises_try_catch [raises_rules]:
  "E OutOfFuel \<Longrightarrow> (\<And>e. raises E (h e)) \<Longrightarrow> raises E (try_catch m h)"
  by (fastforce simp: raises_def try_catch_def split: prod.splits sum.splits if_splits)

lemma raises_try_finally [raises_rules]: "raises E m \<Longrightarrow> raises E f \<Longrightarrow> raises E (try_finally m f)"
  by (fastforce simp: raises_def try_finally_def split: prod.splits sum.splits)

lemma raises_if [raises_rules]:
  "(b \<Longrightarrow> raises E m) \<Longrightarrow> (\<not> b \<Longrightarrow> raises E n) \<Longrightarrow> raises E (if b then m else n)"
  by simp

lemma raises_whenever [raises_rules]: "(b \<Longrightarrow> raises E m) \<Longrightarrow> raises E (whenever b m)"
  by (simp add: whenever_def raises_pure)

lemma raises_option [raises_rules]:
  "(x = None \<Longrightarrow> raises E m) \<Longrightarrow> (\<And>y. x = Some y \<Longrightarrow> raises E (f y)) \<Longrightarrow>
   raises E (case x of None \<Rightarrow> m | Some y \<Rightarrow> f y)"
  by (cases x) simp_all

lemma raises_prod [raises_rules]:
  "(\<And>a b. x = (a, b) \<Longrightarrow> raises E (f a b)) \<Longrightarrow> raises E (case x of (a, b) \<Rightarrow> f a b)"
  by (cases x) simp

lemma raises_Let [raises_rules]: "(\<And>y. y = x \<Longrightarrow> raises E (f y)) \<Longrightarrow> raises E (let y = x in f y)"
  by simp

lemma raises_foldp [raises_rules]: "(\<And>b x. raises E (f b x)) \<Longrightarrow> raises E (foldp f b xs)"
  by (induction xs arbitrary: b) (auto intro!: raises_pure raises_bind)

lemma raises_each [raises_rules]: "(\<And>x. raises E (f x)) \<Longrightarrow> raises E (each f xs)"
  by (induction xs) (auto intro!: raises_pure raises_andthen)

lemma raises_mapp [raises_rules]: "(\<And>x. raises E (f x)) \<Longrightarrow> raises E (mapp f xs)"
  unfolding mapp_def by (intro raises_foldp raises_bind raises_pure)

lemma raises_ask: "raises E (ask e f)"
  by (auto simp: raises_def ask_def)

lemma raises_ask_or: "(\<And>m. E (JsError m)) \<Longrightarrow> raises E (ask_or e f)"
  by (auto simp: raises_def ask_or_def split: sum.splits)

lemma raises_exec [raises_rules]:
  "raises E (exec_run H c as opts)" "raises E (exec_readlink H p)" "raises E (exec_stat H p)"
  "raises E (exec_readdir H p)" "raises E (exec_http H u)" "raises E (exec_now H)"
  "raises E (exec_sleep H ms)" "raises E (exec_deploy_unlock H)" "raises E (exec_user_name H)"
  "raises E (exec_hostname H)" "raises E (random_hex H)" "raises E (exec_read_stream H p)"
  by (simp_all add: raises_ask exec_run_def exec_readlink_def exec_stat_def exec_readdir_def
      exec_http_def exec_now_def exec_sleep_def exec_deploy_unlock_def exec_user_name_def
      exec_hostname_def random_hex_def exec_read_stream_def)

lemma raises_exec_or [raises_rules]:
  assumes "\<And>m. E (JsError m)"
  shows "raises E (exec_read H p)" "raises E (exec_append H p t)" "raises E (exec_remove H p)"
    "raises E (exec_listeners H port)" "raises E (exec_write_stream H p t)" "raises E (exec_kill H pid sig)"
  using assms by (simp_all add: raises_ask_or exec_read_def exec_append_def exec_remove_def exec_listeners_def exec_write_stream_def exec_kill_def)

fun no_op_error :: "exc \<Rightarrow> bool" where
  "no_op_error (OpError m x r) = False"
| "no_op_error _ = True"

section \<open>Values\<close>

lemma returnsD: "returns P m \<Longrightarrow> m s = (Inr x, s') \<Longrightarrow> P x"
  unfolding returns_def by blast

lemma returns_ret [returns_rules]: "P x \<Longrightarrow> returns P (ret x)"
  by (simp add: returns_def ret_def)

lemma returns_throw [returns_rules]: "returns P (throw e)"
  by (simp add: returns_def throw_def)

lemma returns_bind: "returns Q m \<Longrightarrow> (\<And>x. Q x \<Longrightarrow> returns P (f x)) \<Longrightarrow> returns P (bind m f)"
  by (fastforce simp: returns_def bind_def split: prod.splits sum.splits)

lemma returns_bind_any [returns_rules]: "(\<And>x. returns P (f x)) \<Longrightarrow> returns P (bind m f)"
  by (fastforce simp: returns_def bind_def split: prod.splits sum.splits)

lemma returns_andthen [returns_rules]: "returns P k \<Longrightarrow> returns P (andthen m k)"
  unfolding andthen_def by (rule returns_bind_any)

lemma returns_try_catch [returns_rules]:
  "returns P m \<Longrightarrow> (\<And>e. returns P (h e)) \<Longrightarrow> returns P (try_catch m h)"
  by (fastforce simp: returns_def try_catch_def split: prod.splits sum.splits if_splits)

lemma returns_if [returns_rules]:
  "(b \<Longrightarrow> returns P m) \<Longrightarrow> (\<not> b \<Longrightarrow> returns P n) \<Longrightarrow> returns P (if b then m else n)"
  by simp

lemma returns_prod [returns_rules]:
  "(\<And>a b. x = (a, b) \<Longrightarrow> returns P (f a b)) \<Longrightarrow> returns P (case x of (a, b) \<Rightarrow> f a b)"
  by (cases x) simp

lemma returns_Let [returns_rules]: "(\<And>y. y = x \<Longrightarrow> returns P (f y)) \<Longrightarrow> returns P (let y = x in f y)"
  by simp

lemma returns_foldp:
  "P b \<Longrightarrow> (\<And>b x. P b \<Longrightarrow> x \<in> set xs \<Longrightarrow> returns P (f b x)) \<Longrightarrow> returns P (foldp f b xs)"
  by (induction xs arbitrary: b) (auto intro: returns_ret returns_bind)

lemma returns_mapp_map:
  assumes "\<And>x. returns (\<lambda>y. g y = h x) (f x)"
  shows "returns (\<lambda>ys. map g ys = map h xs) (mapp f xs)"
proof -
  have "returns (\<lambda>ys. map g ys = map g acc @ map h xs) (foldp (\<lambda>acc x. bind (f x) (\<lambda>y. ret (acc @ [y]))) acc xs)" for acc
    using assms by (induction xs arbitrary: acc) (fastforce simp: returns_def bind_def ret_def split: prod.splits sum.splits)+
  then show ?thesis unfolding mapp_def by (metis append_Nil list.simps(8))
qed

section \<open>Operations that stop\<close>

definition clean :: "(event \<Rightarrow> bool) \<Rightarrow> ('l, 'a) prog \<Rightarrow> bool" where
  "clean A m \<longleftrightarrow>
     (\<forall>tr l msg x r tr' l'. m (tr, l) = (Inl (OpError msg x r), tr', l') \<longrightarrow>
        (\<exists>es. tr' = es @ tr \<and> (\<forall>e \<in> set es. A e)))"

lemma cleanD:
  assumes "clean A m" "m (tr, l) = (Inl (OpError msg x r), tr', l')"
  obtains es where "tr' = es @ tr" "\<forall>e \<in> set es. A e"
  using assms unfolding clean_def by blast

lemma clean_emits: "emits A m \<Longrightarrow> clean A m"
  unfolding clean_def by (meson emitsD)

lemma clean_raises: "raises no_op_error m \<Longrightarrow> clean A m"
  unfolding clean_def raises_def by fastforce

lemma clean_bind:
  assumes m: "emits A m" and f: "\<And>x. Q x \<Longrightarrow> clean A (f x)" and q: "returns Q m"
  shows "clean A (bind m f)"
  unfolding clean_def
proof (intro allI impI)
  fix tr l msg x r tr' l'
  assume run: "bind m f (tr, l) = (Inl (OpError msg x r), tr', l')"
  obtain r1 tr1 l1 where m1: "m (tr, l) = (r1, tr1, l1)" by (cases "m (tr, l)") auto
  from m m1 obtain es where es: "tr1 = es @ tr" "\<forall>e \<in> set es. A e" by (rule emitsD)
  show "\<exists>es. tr' = es @ tr \<and> (\<forall>e \<in> set es. A e)"
  proof (cases r1)
    case (Inl e)
    with run m1 es show ?thesis by (auto simp: bind_def)
  next
    case (Inr y)
    have "Q y" by (rule returnsD [OF q]) (use m1 Inr in simp)
    from Inr run m1 have "f y (tr1, l1) = (Inl (OpError msg x r), tr', l')" by (simp add: bind_def)
    with f [OF \<open>Q y\<close>] obtain es2 where "tr' = es2 @ tr1" "\<forall>e \<in> set es2. A e" by (rule cleanD)
    with es show ?thesis by (intro exI [of _ "es2 @ es"]) auto
  qed
qed

lemma clean_bind_any: "emits A m \<Longrightarrow> (\<And>x. clean A (f x)) \<Longrightarrow> clean A (bind m f)"
  by (rule clean_bind [where Q = "\<lambda>_. True"]) (simp_all add: returns_def)

lemma clean_andthen: "emits A m \<Longrightarrow> clean A k \<Longrightarrow> clean A (andthen m k)"
  unfolding andthen_def by (rule clean_bind_any)

lemma clean_if: "(b \<Longrightarrow> clean A m) \<Longrightarrow> (\<not> b \<Longrightarrow> clean A n) \<Longrightarrow> clean A (if b then m else n)"
  by simp

text \<open>A handler that notes the error and throws it again keeps the footprint of the body.\<close>

lemma clean_rethrow: "clean A m \<Longrightarrow> clean A (try_catch m (\<lambda>e. andthen (modl (f e)) (throw e)))"
  unfolding clean_def try_catch_def andthen_def bind_def modl_def throw_def
  by (auto split: prod.splits sum.splits if_splits) blast+

lemma clean_try_finally:
  assumes m: "clean A m" and f: "emits A f" and quiet: "raises no_op_error f"
  shows "clean A (try_finally m f)"
  unfolding clean_def
proof (intro allI impI)
  fix tr l msg x r tr' l'
  assume run: "try_finally m f (tr, l) = (Inl (OpError msg x r), tr', l')"
  obtain r1 tr1 l1 where m1: "m (tr, l) = (r1, tr1, l1)" by (cases "m (tr, l)") auto
  obtain r2 tr2 l2 where f1: "f (tr1, l1) = (r2, tr2, l2)" by (cases "f (tr1, l1)") auto
  from f f1 obtain es2 where es2: "tr2 = es2 @ tr1" "\<forall>e \<in> set es2. A e" by (rule emitsD)
  show "\<exists>es. tr' = es @ tr \<and> (\<forall>e \<in> set es. A e)"
  proof (cases r2)
    case (Inl e)
    with run m1 f1 have "e = OpError msg x r" by (simp add: try_finally_def)
    with Inl f1 have "f (tr1, l1) = (Inl (OpError msg x r), tr2, l2)" by simp
    from raisesD [OF quiet this] have False by simp
    then show ?thesis ..
  next
    case (Inr u)
    with run m1 f1 have "r1 = Inl (OpError msg x r)" "tr' = tr2" by (simp_all add: try_finally_def)
    with m m1 obtain es where "tr1 = es @ tr" "\<forall>e \<in> set es. A e" by (blast elim: cleanD)
    with es2 \<open>tr' = tr2\<close> show ?thesis by (intro exI [of _ "es2 @ es"]) auto
  qed
qed

section \<open>Triples\<close>

text \<open>
  \<open>triple P m Q R\<close>: a run from a local state in \<open>P\<close> returns \<open>x\<close> in a state of \<open>Q x\<close>
  or raises \<open>e\<close> in a state of \<open>R e\<close>.
\<close>

definition triple :: "('l \<Rightarrow> bool) \<Rightarrow> ('l, 'a) prog \<Rightarrow> ('a \<Rightarrow> 'l \<Rightarrow> bool) \<Rightarrow> (exc \<Rightarrow> 'l \<Rightarrow> bool) \<Rightarrow> bool" where
  "triple P m Q R \<longleftrightarrow>
     (\<forall>tr l r tr' l'. P l \<longrightarrow> m (tr, l) = (r, tr', l') \<longrightarrow>
        (case r of Inl e \<Rightarrow> R e l' | Inr x \<Rightarrow> Q x l'))"

lemma tripleI:
  "(\<And>tr l r tr' l'. P l \<Longrightarrow> m (tr, l) = (r, tr', l') \<Longrightarrow>
      (case r of Inl e \<Rightarrow> R e l' | Inr x \<Rightarrow> Q x l')) \<Longrightarrow> triple P m Q R"
  unfolding triple_def by blast

lemma tripleD_value: "triple P m Q R \<Longrightarrow> P l \<Longrightarrow> m (tr, l) = (Inr x, tr', l') \<Longrightarrow> Q x l'"
  unfolding triple_def by fastforce

lemma tripleD_exc: "triple P m Q R \<Longrightarrow> P l \<Longrightarrow> m (tr, l) = (Inl e, tr', l') \<Longrightarrow> R e l'"
  unfolding triple_def by fastforce

lemma triple_conseq:
  "triple P m Q R \<Longrightarrow> (\<And>l. P' l \<Longrightarrow> P l) \<Longrightarrow> (\<And>x l. Q x l \<Longrightarrow> Q' x l) \<Longrightarrow> (\<And>e l. R e l \<Longrightarrow> R' e l) \<Longrightarrow>
   triple P' m Q' R'"
  unfolding triple_def by (metis (no_types, lifting) sum.case sum.exhaust)

lemma triple_ret: "(\<And>l. P l \<Longrightarrow> Q x l) \<Longrightarrow> triple P (ret x) Q R"
  by (rule tripleI) (auto simp: ret_def)

lemma triple_throw: "(\<And>l. P l \<Longrightarrow> R e l) \<Longrightarrow> triple P (throw e) Q R"
  by (rule tripleI) (auto simp: throw_def)

lemma triple_modl: "(\<And>l. P l \<Longrightarrow> Q () (f l)) \<Longrightarrow> triple P (modl f) Q R"
  by (rule tripleI) (auto simp: modl_def)

lemma triple_getl: "(\<And>l. P l \<Longrightarrow> Q l l) \<Longrightarrow> triple P getl Q R"
  by (rule tripleI) (auto simp: getl_def)

lemma triple_bind:
  assumes m: "triple P m Q' R" and f: "\<And>x. triple (Q' x) (f x) Q R"
  shows "triple P (bind m f) Q R"
proof (rule tripleI)
  fix tr l r tr' l'
  assume P: "P l" and run: "bind m f (tr, l) = (r, tr', l')"
  obtain r1 tr1 l1 where m1: "m (tr, l) = (r1, tr1, l1)" by (cases "m (tr, l)") auto
  show "case r of Inl e \<Rightarrow> R e l' | Inr x \<Rightarrow> Q x l'"
  proof (cases r1)
    case (Inl e)
    with run m1 tripleD_exc [OF m P] show ?thesis by (auto simp: bind_def)
  next
    case (Inr x)
    with run m1 have run2: "f x (tr1, l1) = (r, tr', l')" by (simp add: bind_def)
    from tripleD_value [OF m P] m1 Inr have "Q' x l1" by simp
    with run2 f show ?thesis unfolding triple_def by blast
  qed
qed

lemma triple_andthen: "triple P m (\<lambda>_. Q') R \<Longrightarrow> triple Q' k Q R \<Longrightarrow> triple P (andthen m k) Q R"
  unfolding andthen_def by (rule triple_bind)

lemma triple_try_catch:
  assumes m: "triple P m Q R'" and h: "\<And>e. e \<noteq> OutOfFuel \<Longrightarrow> triple (R' e) (h e) Q R"
    and fuel: "\<And>l. R' OutOfFuel l \<Longrightarrow> R OutOfFuel l"
  shows "triple P (try_catch m h) Q R"
proof (rule tripleI)
  fix tr l r tr' l'
  assume P: "P l" and run: "try_catch m h (tr, l) = (r, tr', l')"
  obtain r1 tr1 l1 where m1: "m (tr, l) = (r1, tr1, l1)" by (cases "m (tr, l)") auto
  show "case r of Inl e \<Rightarrow> R e l' | Inr x \<Rightarrow> Q x l'"
  proof (cases r1)
    case (Inr x)
    with run m1 tripleD_value [OF m P] show ?thesis by (auto simp: try_catch_def)
  next
    case (Inl e)
    from tripleD_exc [OF m P] m1 Inl have R': "R' e l1" by simp
    show ?thesis
    proof (cases "e = OutOfFuel")
      case True
      with run m1 Inl R' fuel show ?thesis by (auto simp: try_catch_def)
    next
      case False
      with run m1 Inl have run2: "h e (tr1, l1) = (r, tr', l')" by (simp add: try_catch_def)
      with R' h [OF False] show ?thesis unfolding triple_def by blast
    qed
  qed
qed

lemma triple_if: "triple (\<lambda>l. P l \<and> b) m Q R \<Longrightarrow> triple (\<lambda>l. P l \<and> \<not> b) n Q R \<Longrightarrow> triple P (if b then m else n) Q R"
  by (cases b) (simp_all add: triple_def)

lemma triple_whenever:
  "(b \<Longrightarrow> triple P m Q R) \<Longrightarrow> (\<And>l. P l \<Longrightarrow> \<not> b \<Longrightarrow> Q () l) \<Longrightarrow> triple P (whenever b m) Q R"
  by (cases b) (auto simp: whenever_def intro: triple_ret)

lemma triple_prod: "(\<And>a b. triple P (f a b) Q R) \<Longrightarrow> triple P (case x of (a, b) \<Rightarrow> f a b) Q R"
  by (cases x) simp

lemmas triple_rules = triple_ret triple_throw triple_modl triple_getl triple_bind triple_andthen
  triple_try_catch triple_if triple_whenever triple_prod

section \<open>Runs\<close>

text \<open>How a run of a composed program that returns splits into the runs of its parts.\<close>

named_theorems run_iffs \<open>a run that returns, taken apart\<close>

lemma ret_run [run_iffs]: "ret x s = (r, s') \<longleftrightarrow> r = Inr x \<and> s' = s"
  by (auto simp: ret_def)

lemma throw_run [run_iffs]: "throw e s = (r, s') \<longleftrightarrow> r = Inl e \<and> s' = s"
  by (auto simp: throw_def)

lemma modl_run [run_iffs]: "modl f (tr, l) = (r, s') \<longleftrightarrow> r = Inr () \<and> s' = (tr, f l)"
  by (auto simp: modl_def)

lemma getl_run [run_iffs]: "getl (tr, l) = (r, s') \<longleftrightarrow> r = Inr l \<and> s' = (tr, l)"
  by (auto simp: getl_def)

lemma bind_run [run_iffs]: "bind m f s = (Inr y, s') \<longleftrightarrow> (\<exists>x tr l. m s = (Inr x, tr, l) \<and> f x (tr, l) = (Inr y, s'))"
  by (auto simp: bind_def split: prod.splits sum.splits)

lemma andthen_run [run_iffs]: "andthen m k s = (Inr y, s') \<longleftrightarrow> (\<exists>x tr l. m s = (Inr x, tr, l) \<and> k (tr, l) = (Inr y, s'))"
  by (simp add: andthen_def bind_run)

lemma try_catch_run [run_iffs]:
  "try_catch m h s = (Inr x, s') \<longleftrightarrow>
     m s = (Inr x, s') \<or> (\<exists>e tr l. e \<noteq> OutOfFuel \<and> m s = (Inl e, tr, l) \<and> h e (tr, l) = (Inr x, s'))"
  by (auto simp: try_catch_def split: prod.splits sum.splits)

lemma whenever_run [run_iffs]:
  "whenever b m s = (Inr u, s') \<longleftrightarrow> (if b then m s = (Inr u, s') else s' = s)"
  by (auto simp: whenever_def ret_def)

lemma try_finally_run [run_iffs]:
  "try_finally m f s = (Inr x, s') \<longleftrightarrow> (\<exists>tr l. m s = (Inr x, tr, l) \<and> f (tr, l) = (Inr (), s'))"
  by (auto simp: try_finally_def split: prod.splits sum.splits)

lemma rethrow_run [run_iffs]:
  "try_catch m (\<lambda>e. andthen (modl (f e)) (throw e)) s = (Inr x, s') \<longleftrightarrow> m s = (Inr x, s')"
  by (auto simp: try_catch_run andthen_run throw_run)

end
