(* ===== verification/Frames.thy ===== *)
theory Frames
  imports Release_Ops Outcome
begin

text \<open>
  What the operations leave alone in the local state: \<open>leaves f m\<close> says that \<open>m\<close>, however it
  ends, does not change the part \<open>f\<close> of it. The adapters leave everything alone; the engines' steps
  write the fields of their record.
\<close>

definition leaves :: "('l \<Rightarrow> 'b) \<Rightarrow> ('l, 'a) prog \<Rightarrow> bool" where
  "leaves f m \<longleftrightarrow> (\<forall>tr l. f (snd (snd (m (tr, l)))) = f l)"

named_theorems leaves_rules \<open>what the program constructors and operations leave alone\<close>

lemma leavesD: "leaves f m \<Longrightarrow> m (tr, l) = (r, tr', l') \<Longrightarrow> f l' = f l"
  unfolding leaves_def by (metis snd_conv)

text \<open>A predicate on what is left alone survives.\<close>

lemma triple_leaves: "leaves f m \<Longrightarrow> triple (\<lambda>l. P (f l)) m (\<lambda>x l. P (f l)) (\<lambda>e l. P (f l))"
  by (rule tripleI) (auto dest: leavesD split: sum.split)

lemma triple_unchanged: "leaves id m \<Longrightarrow> triple P m (\<lambda>x. P) (\<lambda>e. P)"
  using triple_leaves [of id m P] by simp

lemma triple_skip: "leaves id m \<Longrightarrow> (\<And>e l. P l \<Longrightarrow> R e l) \<Longrightarrow> triple P m (\<lambda>_. P) R"
  by (rule tripleI) (auto dest: leavesD split: sum.split)

lemma triple_skip_bind:
  "leaves id m \<Longrightarrow> (\<And>e l. P l \<Longrightarrow> R e l) \<Longrightarrow> (\<And>x. triple P (f x) Q R) \<Longrightarrow> triple P (bind m f) Q R"
  by (rule triple_bind [OF triple_skip])

lemma triple_skip_andthen:
  "leaves id m \<Longrightarrow> (\<And>e l. P l \<Longrightarrow> R e l) \<Longrightarrow> triple P k Q R \<Longrightarrow> triple P (andthen m k) Q R"
  by (rule triple_andthen [OF triple_skip])

lemma triple_set_andthen:
  "triple (\<lambda>l'. \<exists>l. P l \<and> l' = f l) k Q R \<Longrightarrow> triple P (andthen (modl f) k) Q R"
  by (rule triple_andthen [OF triple_modl [where Q = "\<lambda>_ l'. \<exists>l. P l \<and> l' = f l"]]) auto

lemma leaves_pure [leaves_rules]: "leaves f (ret x)" "leaves f (throw e)" "leaves f getl"
  by (simp_all add: leaves_def ret_def throw_def getl_def)

lemma leaves_of_sum [leaves_rules]: "leaves f (of_sum r)"
  by (cases r) (simp_all add: of_sum_def leaves_pure)

lemma leaves_modl [leaves_rules]: "(\<And>l. f (h l) = f l) \<Longrightarrow> leaves f (modl h)"
  by (simp add: leaves_def modl_def)

lemma leaves_bind [leaves_rules]: "leaves f m \<Longrightarrow> (\<And>x. leaves f (k x)) \<Longrightarrow> leaves f (bind m k)"
  unfolding leaves_def bind_def by (auto split: prod.splits sum.splits) (metis snd_conv)+

lemma leaves_andthen [leaves_rules]: "leaves f m \<Longrightarrow> leaves f k \<Longrightarrow> leaves f (andthen m k)"
  unfolding andthen_def by (rule leaves_bind)

lemma leaves_try_catch [leaves_rules]: "leaves f m \<Longrightarrow> (\<And>e. leaves f (h e)) \<Longrightarrow> leaves f (try_catch m h)"
  unfolding leaves_def try_catch_def by (auto split: prod.splits sum.splits) (metis snd_conv)+

lemma leaves_try_finally [leaves_rules]: "leaves f m \<Longrightarrow> leaves f k \<Longrightarrow> leaves f (try_finally m k)"
  unfolding leaves_def try_finally_def by (auto split: prod.splits sum.splits) (metis snd_conv)+

lemma leaves_if [leaves_rules]: "leaves f m \<Longrightarrow> leaves f n \<Longrightarrow> leaves f (if b then m else n)"
  by simp

lemma leaves_whenever [leaves_rules]: "leaves f m \<Longrightarrow> leaves f (whenever b m)"
  by (simp add: whenever_def leaves_pure)

lemma leaves_option [leaves_rules]:
  "leaves f m \<Longrightarrow> (\<And>y. leaves f (k y)) \<Longrightarrow> leaves f (case x of None \<Rightarrow> m | Some y \<Rightarrow> k y)"
  by (cases x) simp_all

lemma leaves_prod [leaves_rules]: "(\<And>a b. leaves f (k a b)) \<Longrightarrow> leaves f (case x of (a, b) \<Rightarrow> k a b)"
  by (cases x) simp

lemma leaves_prod_app [leaves_rules]: "(\<And>a b. leaves f (k a b y)) \<Longrightarrow> leaves f ((case x of (a, b) \<Rightarrow> k a b) y)"
  by (cases x) simp

lemma leaves_list [leaves_rules]:
  "leaves f m \<Longrightarrow> (\<And>y ys. leaves f (k y ys)) \<Longrightarrow> leaves f (case x of [] \<Rightarrow> m | y # ys \<Rightarrow> k y ys)"
  by (cases x) simp_all

lemma leaves_mode [leaves_rules]:
  "leaves f m \<Longrightarrow> leaves f n \<Longrightarrow> leaves f (case mode of Deploy \<Rightarrow> m | Rollback \<Rightarrow> n)"
  by (cases mode) simp_all

lemma leaves_Let [leaves_rules]: "leaves f (k x) \<Longrightarrow> leaves f (let y = x in k y)"
  by simp

lemma leaves_foldp [leaves_rules]: "(\<And>b x. leaves f (k b x)) \<Longrightarrow> leaves f (foldp k b xs)"
  by (induction xs arbitrary: b) (auto intro!: leaves_pure leaves_bind)

lemma leaves_each [leaves_rules]: "(\<And>x. leaves f (k x)) \<Longrightarrow> leaves f (each k xs)"
  by (induction xs) (auto intro!: leaves_pure leaves_andthen)

lemma leaves_mapp [leaves_rules]: "(\<And>x. leaves f (k x)) \<Longrightarrow> leaves f (mapp k xs)"
  unfolding mapp_def by (intro leaves_foldp leaves_bind leaves_pure)

lemma leaves_filterp [leaves_rules]: "(\<And>x. leaves f (k x)) \<Longrightarrow> leaves f (filterp k xs)"
  unfolding filterp_def by (intro leaves_foldp leaves_bind leaves_pure)

lemma leaves_ask [leaves_rules]: "leaves f (ask e g)" "leaves f (ask_or e h)"
  by (simp_all add: leaves_def ask_def ask_or_def)

section \<open>The adapters\<close>

lemmas exec_ops =
  exec_run_def exec_read_def exec_write_def exec_append_def exec_remove_def exec_symlink_def
  exec_readlink_def exec_stat_def exec_statfs_def exec_readdir_def exec_mkdir_def exec_create_def
  exec_pid_alive_def exec_http_def exec_request_def exec_psql_def exec_listeners_def exec_mem_def
  exec_deploy_lock_def exec_deploy_unlock_def exec_now_def exec_sleep_def exec_user_name_def
  exec_hostname_def random_hex_def exec_read_stream_def exec_write_stream_def exec_kill_def

lemma leaves_systemd [leaves_rules]:
  "leaves f (systemctl H a u)" "leaves f (show_unit H v)" "leaves f (restart H v)"
  "leaves f (ensure_socket_active H v)" "leaves f (list_unit_files H v)" "leaves f (enable H v)"
  "leaves f (daemon_reload H)" "leaves f (reload_nginx H)" "leaves f (socket_held H port)"
  unfolding systemctl_def show_unit_def restart_def ensure_socket_active_def list_unit_files_def
    enable_def daemon_reload_def reload_nginx_def socket_held_def exec_ops
  by (intro leaves_rules)+

lemma leaves_git [leaves_rules]:
  "leaves f (git_try H g as)" "leaves f (git_run H g as)" "leaves f (git_do H g as)"
  unfolding git_do_def git_run_def git_try_def exec_ops by (intro leaves_rules)+

lemmas git_ops =
  git_head_def git_branch_def git_rev_parse_def git_has_commit_def git_dirty_def
  git_skip_worktree_def git_no_skip_worktree_def git_rm_cached_def git_fetch_def
  git_changed_files_def git_added_files_def git_log_def git_show_def git_ff_merge_def
  git_reset_hard_def git_checkout_file_def git_checkout_paths_def

lemma leaves_memory_wait [leaves_rules]: "leaves f (memory_wait H g start n)"
  by (induction n) (auto intro!: leaves_rules simp: exec_ops)

lemma leaves_install [leaves_rules]: "leaves f (install c svc g p)"
  unfolding install_def enough_memory_def git_ops exec_ops by (intro leaves_rules)

lemma leaves_expand_packages [leaves_rules]: "leaves f (expand_packages H svc)"
  unfolding expand_packages_def expand_pattern_def exec_ops by (intro leaves_rules)

lemma leaves_verify_and_repair [leaves_rules]: "leaves f (verify_and_repair c svc g ds)"
  unfolding verify_and_repair_def verify_def verify_package_def check_dep_def repair_package_def exec_ops
  by (intro leaves_rules)

lemma leaves_count_one [leaves_rules]: "leaves f (count_one H p)"
  unfolding count_one_def exec_ops by (cases p) (auto intro!: leaves_rules)

lemma leaves_any_running [leaves_rules]: "leaves f (any_running H us)"
  by (induction us) (auto intro!: leaves_rules)

lemma leaves_sum_probes [leaves_rules]: "leaves f (sum_probes H t ps)"
  by (induction ps arbitrary: t) (auto intro!: leaves_rules)

lemma leaves_count_protected [leaves_rules]: "leaves f (count_protected H svc)"
  unfolding count_protected_def running_def
  by (auto intro!: leaves_rules split: option.split probe_cfg.split)

lemma leaves_ready_loop [leaves_rules]: "leaves f (ready_loop H svc rd sha us limit start why n)"
proof (induction n arbitrary: why)
  case (Suc n)
  then show ?case
    unfolding ready_loop.simps ready_round_def ready_probe_def release_matches_def show_all_def exec_ops
    by (intro leaves_rules)
qed (simp add: leaves_pure)

lemma leaves_ready_probe [leaves_rules]: "leaves f (ready_probe H svc)"
  unfolding ready_probe_def exec_ops by (intro leaves_rules)

lemma leaves_wait_ready [leaves_rules]: "leaves f (wait_ready c svc t sha us)"
  unfolding wait_ready_def exec_ops by (intro leaves_rules)

lemma leaves_preflight_run [leaves_rules]: "leaves f (preflight_run H svc r fs ds)"
  unfolding preflight_run_def syntax_check_def syntax_check_file_def make_dirs_def run_check_def exec_ops
  by (intro leaves_rules)

lemma leaves_nginx_install [leaves_rules]: "leaves f (nginx_install c fs rs)"
proof -
  have "leaves f (run_undo H u)" for H u by (cases u) (simp_all add: exec_ops leaves_ask)
  then show ?thesis
    unfolding nginx_install_def remove_vhost_def install_vhost_def nginx_test_def write_text_def exec_ops
    by (intro leaves_rules)
qed

lemma leaves_compute_plan [leaves_rules]: "leaves f (compute_plan c svc mode dest fetch r)"
  unfolding compute_plan_def finish_plan_def plan_target_def stopped_tracking_def untracked_lockfiles_def
    untracked_generated_def plan_installs_def workspace_need_def needs_install_def has_modules_def
    matching_units_def unit_drift_def git_ops exec_ops Let_def
  by (intro leaves_rules) (auto simp: vhosts_removed_def git_ops intro!: leaves_rules split: option.split bool.split)

lemma leaves_backup [leaves_rules]: "leaves f (backup c sid reason logical)"
proof -
  have pg: "leaves f (run_pg H cmd as)" and root: "leaves f (root_run H cmd as)" for H cmd as
    unfolding run_pg_def root_run_def exec_ops by (intro leaves_rules)+
  have info: "leaves f (pgbackrest_info H)" for H
    unfolding pgbackrest_info_def by (auto intro!: leaves_rules pg split: option.split json.split)
  show ?thesis
    unfolding backup_def find_service_def verify_postgres_def verify_pgbackrest_def wal_failed_count_def
      read_archiver_def write_archiver_def dump_due_def last_good_dump_at_def write_record_def
      copy_service_def private_dir_def lock_down_def rm_rf_def make_copies_def dump_all_def dump_one_def
      pg_dump_def archive_object_def check_copy_def sweep_stage_def exec_ops Let_def
    by (intro leaves_rules pg root info)
qed

section \<open>The engine's steps\<close>

lemma leaves_restart_and_wait [leaves_rules]: "leaves f (restart_and_wait c svc t us sha)"
  unfolding restart_and_wait_def by (intro leaves_rules)

lemma leaves_verify_deps [leaves_rules]: "leaves f (verify_deps c svc g)"
  unfolding verify_deps_def by (intro leaves_rules)

lemma leaves_release_announcements [leaves_rules]: "leaves f (release_announcements c svc)"
  unfolding release_announcements_def exec_ops by (intro leaves_rules)

lemma leaves_run_build [leaves_rules]:
  "(\<And>l. b \<Longrightarrow> f (l\<lparr>ck_built := True\<rparr>) = f l) \<Longrightarrow> leaves f (run_build c svc b)"
  unfolding run_build_def exec_ops
  by (cases "b \<and> s_build svc \<noteq> []") (auto simp: whenever_def intro!: leaves_rules)

lemma leaves_restore_checkout [leaves_rules]: "leaves f (restore_checkout c svc g sha)"
  unfolding restore_checkout_def git_ops by (intro leaves_rules) simp

end
