(* ===== verification/Deploy_Safety.thy ===== *)
theory Deploy_Safety
  imports Sample Frames
begin

text \<open>
  What the in-place engine promises whatever git, npm, systemd, nginx and the network answer: sockets keep
  listening, a refused operation restarts nothing, the locks go back, and the exit code tells the outcome.
\<close>

section \<open>Sockets\<close>

lemma given_not_empty: "given v = Some u \<Longrightarrow> u \<noteq> []"
  by (auto simp: given_def split: if_splits)

context service_class
begin

lemma emits_ensure_socket: "emits A
    (case given (s_socket_unit svc) of
       Some u \<Rightarrow> bind (ensure_socket_active (exec c) u) (\<lambda>_. ret ())
     | None \<Rightarrow> ret ())"
  by (intro emits_rules) (rule given_not_empty)

end

lemma kept_restart_and_wait [emits_rules]: "emits socket_kept (restart_and_wait c svc timeout us sha)"
  unfolding restart_and_wait_def by (intro emits_andthen kept.emits_ensure_socket) (intro emits_rules)+

lemma kept_stage_release [emits_rules]:
  "entry_ok c svc \<Longrightarrow> emits socket_kept (stage_release c svc g opts p)"
  unfolding stage_release_def restart_auxiliary_def entry_ok_def
  by (intro emits_rules) simp_all

lemma kept_with_restart [emits_rules]:
  "entry_ok c svc \<Longrightarrow> emits socket_kept (with_restart c svc g mode opts p ann)"
  unfolding with_restart_def roll_back_def entry_ok_def by (intro emits_rules) simp_all

lemma kept_apply_body [emits_rules]:
  "entry_ok c svc \<Longrightarrow> emits socket_kept (apply_body c svc mode opts)"
  unfolding apply_body_def deploy_plan_steps_def
  by (intro emits_rules) (simp_all add: entry_ok_def)

lemma kept_apply_checkout [emits_rules]:
  "entry_ok c svc \<Longrightarrow> emits socket_kept (apply_checkout c svc mode opts)"
  unfolding apply_checkout_def by (intro emits_rules) simp_all

section \<open>Refusals\<close>

abbreviation aux_units :: "service \<Rightarrow> str list" where
  "aux_units svc \<equiv> map a_unit (s_auxiliary_units svc)"

lemma aux_restart_units: "set (aux_restart svc mode changed) \<subseteq> set (aux_units svc)"
  by (auto simp: aux_restart_def)

lemma finish_plan_aux: "returns (\<lambda>p. set (p_aux_restart p) \<subseteq> set (aux_units svc)) (finish_plan c svc g mode r p ds)"
  unfolding finish_plan_def Let_def by (intro returns_rules) (use aux_restart_units in auto)

lemma compute_plan_aux:
  "returns (\<lambda>p. set (p_aux_restart p) \<subseteq> set (aux_units svc)) (compute_plan c svc mode dest fetch r)"
  unfolding compute_plan_def Let_def by (intro returns_rules finish_plan_aux)

lemma only_stage_release [emits_rules]:
  "entry_ok c svc \<Longrightarrow> set (p_aux_restart p) \<subseteq> set us \<Longrightarrow> emits (restarts_only us) (stage_release c svc g opts p)"
  unfolding stage_release_def restart_auxiliary_def entry_ok_def
  by (intro emits_rules) auto

lemma quiet_restart: "raises no_op_error (restart H u)"
  unfolding restart_def systemctl_def by (intro raises_rules) simp_all

lemma quiet_ensure_socket: "raises no_op_error (ensure_socket_active H u)"
  unfolding ensure_socket_active_def show_unit_def systemctl_def by (intro raises_rules) simp_all

lemma quiet_show_all: "raises no_op_error (show_all H us)"
  unfolding show_all_def show_unit_def systemctl_def by (intro raises_rules) simp_all

lemma quiet_ready_loop: "raises no_op_error (ready_loop H svc rd sha us limit start why n)"
proof (induction n arbitrary: why)
  case 0
  show ?case by (simp add: raises_throw)
next
  case (Suc n)
  show ?case
    unfolding ready_loop.simps ready_round_def ready_probe_def release_matches_def Let_def
    by (intro raises_rules quiet_show_all Suc.IH)
qed

lemma quiet_restart_and_wait: "raises no_op_error (restart_and_wait c svc timeout us sha)"
  unfolding restart_and_wait_def wait_ready_def
  by (intro raises_rules quiet_restart quiet_ensure_socket quiet_ready_loop)

lemma quiet_with_restart: "raises no_op_error (with_restart c svc g mode opts p ann)"
  unfolding with_restart_def roll_back_def
  by (intro raises_rules quiet_restart_and_wait) simp_all

lemma quiet_close: "raises no_op_error (close_operation c sid file j)"
  unfolding close_operation_def lock_release_def by (intro raises_rules) simp_all

lemma clean_deploy_plan_steps:
  assumes ok: "entry_ok c svc" and aux: "set (p_aux_restart p) \<subseteq> set us"
  shows "clean (restarts_only us) (deploy_plan_steps c svc g mode opts p)"
  unfolding deploy_plan_steps_def
  using ok aux
  by (intro clean_andthen clean_bind_any clean_if clean_raises [OF quiet_with_restart] clean_emits emits_rules)
    (simp_all add: entry_ok_def)

lemma clean_apply_body:
  assumes ok: "entry_ok c svc"
  shows "clean (restarts_only (aux_units svc)) (apply_body c svc mode opts)"
  unfolding apply_body_def
proof (intro clean_andthen clean_bind [OF _ _ compute_plan_aux])
  fix p :: deploy_plan
  assume aux: "set (p_aux_restart p) \<subseteq> set (aux_units svc)"
  show "clean (restarts_only (aux_units svc))
    (if p_branch p \<noteq> s_branch svc then throw (OpError ''the checkout is on another branch'' exit_usage None)
     else if p_dirty p \<noteq> [] then throw (OpError ''tracked local changes'' exit_validation None)
     else if up_to_date p \<and> \<not> op_restart opts then nothing_new c svc mode opts p
     else deploy_plan_steps c svc (git_of svc) mode opts p)"
    using ok by (intro clean_if clean_deploy_plan_steps [OF ok aux]) (intro clean_emits emits_rules; simp add: entry_ok_def)+
qed (intro emits_rules)+

lemma clean_apply_checkout:
  assumes ok: "entry_ok c svc"
  shows "clean (restarts_only (aux_units svc)) (apply_checkout c svc mode opts)"
proof -
  have body: "clean (restarts_only (aux_units svc))
      (run_operation c (s_id svc) lf (checkout_json svc mode) (apply_body c svc mode opts))" for lf
    unfolding run_operation_def
    by (intro clean_try_finally clean_rethrow clean_apply_body ok quiet_close emits_rules)
  show ?thesis
    unfolding apply_checkout_def
    by (intro clean_if clean_emits [OF emits_throw] clean_bind_any clean_andthen emits_rules)
      (auto intro!: clean_bind_any clean_andthen body emits_rules)
qed

lemma restarts_only_iff: "restarts_only us e \<longleftrightarrow> (\<forall>u. restarted_unit e = Some u \<longrightarrow> u \<in> set us)"
  by (cases "restarted_unit e") (auto simp: restarts_only_def)

section \<open>Outcomes\<close>

text \<open>The exit code of an operation that returns says what its record says.\<close>

definition outcome_ok :: "op_mode \<Rightarrow> nat \<Rightarrow> engine_state \<Rightarrow> bool" where
  "outcome_ok mode code s \<longleftrightarrow>
     (code = exit_ok \<and> (os_result s = Some (success_name mode) \<and> (os_restarted s \<longrightarrow> os_ready s = Some True) \<or>
        os_result s \<in> {Some ''unchanged'', Some ''units-installed''})) \<or>
     (code = exit_rolled_back \<and> os_result s = Some ''failed-rolled-back'' \<and> os_restarted s \<and>
        os_ready s = Some False \<and> os_rollback_ready s = Some True) \<or>
     (code = exit_rollback_failed \<and> os_result s = Some ''rollback-failed'' \<and> os_restarted s \<and> os_ready s = Some False)"

lemma roll_back_outcome:
  "triple (\<lambda>s. os_restarted s \<and> os_ready s = Some False) (roll_back c svc g opts p)
     (\<lambda>out. outcome_ok mode (oc_exit out)) (\<lambda>e s. True)"
proof -
  let ?P = "\<lambda>s. os_restarted s \<and> os_ready s = Some False"
  have body: "triple ?P
     (andthen (restore_checkout c svc g (p_from p))
        (bind (restart_and_wait c svc (op_ready_timeout opts) (p_units p) (Some (p_from p))) (\<lambda>back.
         andthen (modl (\<lambda>s. s\<lparr>os_rollback_ready := Some (rr_ok back)\<rparr>))
         (if rr_ok back
          then andthen (modl (set_result ''failed-rolled-back'')) (ret exit_rolled_back)
          else andthen (modl (set_result ''rollback-failed'')) (ret exit_rollback_failed)))))
     (outcome_ok mode) (\<lambda>e. ?P)"
    by (rule triple_skip_andthen [OF leaves_restore_checkout], simp,
        rule triple_skip_bind [OF leaves_restart_and_wait], simp)
      (intro triple_set_andthen triple_if triple_ret; auto simp: set_result_def outcome_ok_def exit_defs)
  have handler: "triple ?P
     (andthen (modl (\<lambda>s. (set_result ''rollback-failed'' s)\<lparr>os_error := Some (exc_message e)\<rparr>))
        (ret exit_rollback_failed)) (outcome_ok mode) (\<lambda>e s. True)" for e
    by (intro triple_set_andthen triple_ret) (auto simp: set_result_def outcome_ok_def exit_defs)
  show ?thesis
    unfolding roll_back_def
    by (rule triple_andthen [OF triple_modl [where Q = "\<lambda>_. ?P"]], simp)
      (rule triple_bind [OF triple_try_catch [OF body handler]]; simp add: triple_ret)
qed

lemma with_restart_outcome:
  "triple (\<lambda>s. True) (with_restart c svc g mode opts p ann)
     (\<lambda>out. outcome_ok mode (oc_exit out)) (\<lambda>e s. True)"
proof -
  have undo: "triple (\<lambda>l'. (\<exists>l. True \<and> l' = l\<lparr>os_restarted := True, os_ready := Some (rr_ok r)\<rparr>) \<and> \<not> rr_ok r)
     (roll_back c svc g opts p) (\<lambda>out. outcome_ok mode (oc_exit out)) (\<lambda>e s. True)" for r
    by (rule triple_conseq [OF roll_back_outcome]) auto
  show ?thesis
    unfolding with_restart_def
    by (rule triple_skip_bind [OF leaves_restart_and_wait], simp)
      (intro triple_set_andthen triple_if triple_ret undo;
        auto simp: set_result_def outcome_ok_def exit_defs success_name_def)
qed

text \<open>Everything before the restart leaves the \<^verbatim>\<open>restarted\<close> mark as it was.\<close>

lemma leaves_restarted_guarded: "leaves os_restarted (guarded c svc opts when)"
proof -
  have poll: "leaves os_restarted (poll_idle H svc start q n)" for H start q n
  proof (induction n arbitrary: q)
    case (Suc n)
    then show ?case unfolding poll_idle.simps note_waited_def exec_ops by (intro leaves_rules) simp_all
  qed (simp add: leaves_pure)
  show ?thesis
    unfolding guarded_def guard_sessions_def wait_outside_lock_def guard_acquire_def exec_ops
    by (intro leaves_rules poll) (simp_all add: set_host_lock_def)
qed

lemma leaves_restarted_steps:
  "leaves os_restarted (take_host_lock c svc)" "leaves os_restarted (move_checkout c svc g mode p)"
  "leaves os_restarted (install_units c svc)" "leaves os_restarted (stage_failed c svc g p e)"
  "leaves os_restarted (without_restart c svc mode p ann)" "leaves os_restarted (nothing_new c svc mode opts p)"
  unfolding take_host_lock_def guard_acquire_def move_checkout_def remove_untracked_def drop_from_index_def
    install_units_def copy_unit_def stage_failed_def without_restart_def nothing_new_def git_ops exec_ops
  by (intro leaves_rules; simp add: set_host_lock_def set_result_def)+

lemma leaves_restarted_stage: "leaves os_restarted (stage_release c svc g opts p)"
  unfolding stage_release_def install_all_def checked_deps_def checked_preflight_def install_repo_vhosts_def
    vhost_sources_def restart_auxiliary_def backup_before_restart_def exec_ops
  by (intro leaves_rules leaves_restarted_guarded leaves_restarted_steps) (simp_all add: note_installed_def)

lemma without_restart_outcome:
  "triple (\<lambda>s. \<not> os_restarted s) (without_restart c svc mode p ann)
     (\<lambda>out. outcome_ok mode (oc_exit out)) (\<lambda>e s. True)"
  unfolding without_restart_def whenever_def
  by (rule triple_set_andthen, cases "s_ready svc = None", simp_all)
    (((rule triple_andthen [OF triple_ret [where Q = "\<lambda>_ s. \<not> os_restarted s \<and> os_result s = Some (success_name mode)"]]
       | rule triple_andthen [OF triple_skip_bind [OF leaves_ready_probe _ triple_modl [where Q = "\<lambda>_ s. \<not> os_restarted s \<and> os_result s = Some (success_name mode)"]]]);
      auto simp: set_result_def outcome_ok_def exit_defs intro!: triple_ret)+)

lemma nothing_new_outcome:
  "triple P (nothing_new c svc mode opts p) (\<lambda>out. outcome_ok mode (oc_exit out)) (\<lambda>e s. True)"
proof -
  have any: "triple P m (\<lambda>_ s. True) (\<lambda>e s. True)" for m :: "(engine_state, unit) prog"
    by (rule tripleI) (auto split: sum.split)
  show ?thesis
    unfolding nothing_new_def Let_def
    by (intro triple_if triple_set_andthen triple_ret triple_andthen [OF triple_conseq [OF any]])
      (auto simp: set_result_def outcome_ok_def exit_defs)
qed

lemma keep_bind:
  "leaves os_restarted m \<Longrightarrow> (\<And>x. triple (\<lambda>s. \<not> os_restarted s) (f x) Q (\<lambda>e s. True)) \<Longrightarrow>
   triple (\<lambda>s. \<not> os_restarted s) (bind m f) Q (\<lambda>e s. True)"
  by (rule triple_bind [where Q' = "\<lambda>x s. \<not> os_restarted s"])
    (auto intro: triple_conseq [OF triple_leaves [where P = Not]])

lemma keep_andthen:
  "leaves os_restarted m \<Longrightarrow> triple (\<lambda>s. \<not> os_restarted s) k Q (\<lambda>e s. True) \<Longrightarrow>
   triple (\<lambda>s. \<not> os_restarted s) (andthen m k) Q (\<lambda>e s. True)"
  unfolding andthen_def by (rule keep_bind)

lemma deploy_plan_steps_outcome:
  "triple (\<lambda>s. \<not> os_restarted s) (deploy_plan_steps c svc g mode opts p)
     (\<lambda>out. outcome_ok mode (oc_exit out)) (\<lambda>e s. True)"
  unfolding deploy_plan_steps_def
  by (intro keep_andthen keep_bind leaves_whenever leaves_restarted_guarded leaves_restarted_steps
      leaves_try_catch leaves_restarted_stage leaves_release_announcements)
    (simp add: without_restart_outcome triple_conseq [OF with_restart_outcome])

lemma apply_body_outcome:
  "triple (\<lambda>s. \<not> os_restarted s) (apply_body c svc mode opts)
     (\<lambda>out. outcome_ok mode (oc_exit out)) (\<lambda>e s. True)"
proof -
  have thrown: "triple P (throw e) Q (\<lambda>e s. True)" for P :: "engine_state \<Rightarrow> bool" and e and Q :: "outcome \<Rightarrow> engine_state \<Rightarrow> bool"
    by (rule triple_throw) simp
  have noted: "leaves os_restarted (modl (note_plan p))" for p :: deploy_plan
    by (rule leaves_modl) (simp add: note_plan_def)
  show ?thesis
    unfolding apply_body_def
    by (intro keep_andthen keep_bind noted leaves_restarted_steps leaves_compute_plan)
      (simp add: thrown nothing_new_outcome deploy_plan_steps_outcome)
qed

lemma close_keeps_result:
  "leaves (\<lambda>s. outcome_ok mode code (s\<lparr>os_finished := None\<rparr>)) (close_operation c sid file j)"
  unfolding close_operation_def lock_release_def append_record_def exec_ops
  by (intro leaves_rules) simp

lemma outcome_ok_finished: "outcome_ok mode code (s\<lparr>os_finished := f\<rparr>) = outcome_ok mode code s"
  by (simp add: outcome_ok_def)

lemma apply_checkout_outcome:
  assumes run: "apply_checkout c svc mode opts (tr, l) = (Inr out, tr', l')"
  shows "outcome_ok mode (oc_exit out) l'"
proof -
  from run obtain lf stale b tr1 l1 where
    op: "run_operation c (s_id svc) lf (checkout_json svc mode) (apply_body c svc mode opts) (tr1, fresh b) = (Inr out, tr', l')"
    and b: "\<not> os_restarted b"
    unfolding apply_checkout_def open_record_def
    by (auto simp: run_iffs Let_def split: if_splits prod.splits)
  from op obtain tr2 l2 where body: "apply_body c svc mode opts (tr1, fresh b) = (Inr out, tr2, l2)"
    and close: "close_operation c (s_id svc) lf (checkout_json svc mode) (tr2, l2) = (Inr (), tr', l')"
    unfolding run_operation_def try_finally_run rethrow_run by blast
  have "\<not> os_restarted (fresh b)" using b by (simp add: fresh_def base_state.defs engine_state.defs)
  from tripleD_value [OF apply_body_outcome this body] have "outcome_ok mode (oc_exit out) l2" .
  moreover from leavesD [OF close_keeps_result close, of mode "oc_exit out"]
  have "outcome_ok mode (oc_exit out) (l'\<lparr>os_finished := None\<rparr>) = outcome_ok mode (oc_exit out) (l2\<lparr>os_finished := None\<rparr>)" .
  ultimately show ?thesis by (simp add: outcome_ok_finished)
qed

section \<open>Properties\<close>

text \<open>
  Property C1. A deploy or rollback of a checkout never stops or restarts a socket unit: whatever the host
  answers, every request it makes keeps the sockets listening.
\<close>

theorem deploy_keeps_sockets:
  assumes "entry_ok c svc"
  shows "\<exists>es. fst (snd (apply_checkout c svc mode opts (tr, l))) = es @ tr \<and> (\<forall>e \<in> set es. socket_kept e)"
  using kept_apply_checkout [OF assms, of mode opts] unfolding emits_def by blast

theorem deploy_keeps_sockets_witness:
  "\<exists>es. fst (snd (apply_checkout (sample_ctx [] 200) sample_service Deploy default_opts ([], blank_state))) = es @ [] \<and>
     (\<forall>e \<in> set es. socket_kept e)"
  by (rule deploy_keeps_sockets [OF sample_entry_ok])

text \<open>
  Property C2. An operation that ends in one of ovhost's own errors (a usage error, a failed validation,
  protected sessions, a failed restore) restarted and stopped no unit but declared auxiliary ones.
\<close>

theorem refusal_restarts_nothing:
  assumes "entry_ok c svc"
  shows "case apply_checkout c svc mode opts (tr, l) of
      (Inl (OpError msg x r), tr', l') \<Rightarrow>
        \<exists>es. tr' = es @ tr \<and>
          (\<forall>e \<in> set es. \<forall>u. restarted_unit e = Some u \<longrightarrow> u \<in> set (map a_unit (s_auxiliary_units svc)))
    | _ \<Rightarrow> True"
proof -
  have clean: "clean (restarts_only (aux_units svc)) (apply_checkout c svc mode opts)"
    by (rule clean_apply_checkout [OF assms])
  obtain r tr' l' where run: "apply_checkout c svc mode opts (tr, l) = (r, tr', l')"
    by (cases "apply_checkout c svc mode opts (tr, l)") auto
  show ?thesis
  proof (cases "\<exists>msg x q. r = Inl (OpError msg x q)")
    case True
    with run clean obtain es where "tr' = es @ tr" "\<forall>e \<in> set es. restarts_only (aux_units svc) e"
      by (blast elim: cleanD)
    with run True show ?thesis by (auto simp: restarts_only_iff)
  next
    case False
    with run show ?thesis by (auto split: sum.split exc.split)
  qed
qed

theorem refusal_restarts_nothing_witness:
  "case apply_checkout (sample_ctx '' M app.js'' 200) sample_service Deploy default_opts ([], blank_state) of
      (Inl (OpError msg x r), tr', l') \<Rightarrow>
        \<exists>es. tr' = es @ [] \<and>
          (\<forall>e \<in> set es. \<forall>u. restarted_unit e = Some u \<longrightarrow> u \<in> set (map a_unit (s_auxiliary_units sample_service)))
    | _ \<Rightarrow> True"
  by (rule refusal_restarts_nothing [OF sample_entry_ok])

text \<open>
  Property C3. How every operation ends, whatever its body did: the record is stamped and appended unless
  it was withheld, the host lock is released when it is held, and the service lock is removed last.
\<close>

theorem operation_closes:
  "let (r1, tr1, l1) = body (tr, l);
       l2 = (case r1 of Inl e \<Rightarrow> (if e = OutOfFuel then l1 else note_error e l1) | Inr x \<Rightarrow> l1);
       l3 = l2\<lparr>os_finished := Some (iso_string (h_now (exec c) tr1))\<rparr>
   in snd (run_operation c sid file to_json body (tr, l)) =
        (ERemove file #
           (if os_host_lock l1 then [EDeployUnlock] else []) @
           (if os_write l1 then [EAppend (log_path (inv c) sid) (json_text (to_json l3) @ [CHR 0x0A])] else []) @
           ENow # tr1, l3) \<and>
      fst (run_operation c sid file to_json body (tr, l)) \<in> {r1} \<union> {Inl (JsError m) | m. True}"
proof -
  obtain r1 tr1 l1 where body: "body (tr, l) = (r1, tr1, l1)" by (cases "body (tr, l)") auto
  show ?thesis
    unfolding run_operation_def close_operation_def lock_release_def append_record_def body prod.case Let_def
    by (cases r1) (auto simp: prog_simps body note_error_def split: sum.splits)
qed

text \<open>
  Property C4. An operation that returns tells the truth about it: exit 0 with a result that says deployed
  (or rolled back, unchanged, units installed) and a ready service if it restarted; exit 3 only when the
  service was restarted, was not ready, and the previous commit is ready again; exit 4 only when the way
  back failed.
\<close>

theorem exit_code_matches_record:
  "case apply_checkout c svc mode opts (tr, l) of
      (Inr out, tr', l') \<Rightarrow> outcome_ok mode (oc_exit out) l'
    | (Inl e, tr', l') \<Rightarrow> True"
proof (cases "apply_checkout c svc mode opts (tr, l)")
  case (fields r tr' l')
  show ?thesis
  proof (cases r)
    case (Inr out)
    with fields have "apply_checkout c svc mode opts (tr, l) = (Inr out, tr', l')" by simp
    then have "outcome_ok mode (oc_exit out) l'" by (rule apply_checkout_outcome)
    with fields Inr show ?thesis by simp
  qed (use fields in simp)
qed

end
