(* ===== verification/Guard.thy ===== *)
theory Guard
  imports Deploy_Safety
begin

text \<open>
  What the waits promise: a restart goes ahead only after enough idle answers in a row, a refusal comes
  before the checkout moves, and every polling loop ends when the clock advances.
\<close>

section \<open>Idle answers in a row\<close>

fun waits :: "event \<Rightarrow> bool" where
  "waits ENow = True"
| "waits (ESleep ms) = True"
| "waits _ = False"

text \<open>
  \<open>idle_streak H svc l k tr\<close>: the history \<open>tr\<close> ends in \<open>k\<close> session counts in a row that were
  idle, with nothing but waiting between them.
\<close>

inductive idle_streak :: "host \<Rightarrow> service \<Rightarrow> 'l \<Rightarrow> nat \<Rightarrow> event list \<Rightarrow> bool" for H svc l where
  streak_none: "idle_streak H svc l 0 tr"
| streak_more: "idle_streak H svc l k tr \<Longrightarrow> \<forall>e \<in> set es. waits e \<Longrightarrow>
    count_protected H svc (es @ tr, l) = (Inr r, tr2, l) \<Longrightarrow> is_idle r \<Longrightarrow> idle_streak H svc l (Suc k) tr2"

inductive_cases idle_streak_SucE: "idle_streak H svc l (Suc k) tr"

lemma count_unchanged: "count_protected H svc (tr, l) = (r, tr', l') \<Longrightarrow> l' = l"
  using leavesD [OF leaves_count_protected [of id]] by fastforce

lemma poll_idle_streak:
  assumes "poll_idle H svc start q n (tr, l) = (Inr (), tr', l')"
    and "idle_streak H svc l q tr0" and "tr = es @ tr0" and "\<forall>e \<in> set es. waits e"
  shows "\<exists>k tr2. tr' = ENow # tr2 \<and> idle_streak H svc l k tr2 \<and> d_quiet_checks (s_drain svc) \<le> int k"
  using assms
proof (induction n arbitrary: q tr tr0 es)
  case 0
  then show ?case by (simp add: throw_def)
next
  case (Suc n)
  let ?ms = "d_poll_seconds (s_drain svc) * 1000"
  from Suc.prems(1) obtain r tr1 l1 where
    count: "count_protected H svc (ESleep ?ms # ENow # tr, l) = (Inr r, tr1, l1)"
    and rest: "(let quiet' = (if is_idle r then q + 1 else 0) in
        if d_quiet_checks (s_drain svc) \<le> int quiet' then
          bind (exec_now H) (\<lambda>t2. modl (note_waited ((t2 - start + 500) div 1000)))
        else bind (exec_now H) (\<lambda>_. poll_idle H svc start quiet' n)) (tr1, l1) = (Inr (), tr', l')"
    by (auto simp: bind_run andthen_run exec_now_def exec_sleep_def ask_def throw_run split: if_splits)
  from count_unchanged [OF count] have l1: "l1 = l" .
  have streak: "idle_streak H svc l (if is_idle r then Suc q else 0) tr1"
  proof (cases "is_idle r")
    case True
    have "idle_streak H svc l (Suc q) tr1"
      by (rule streak_more [OF Suc.prems(2), of "ESleep ?ms # ENow # es"])
        (use count l1 Suc.prems(3,4) True in simp_all)
    with True show ?thesis by simp
  qed (simp add: streak_none)
  show ?case
  proof (cases "d_quiet_checks (s_drain svc) \<le> int (if is_idle r then Suc q else 0)")
    case True
    with rest have "tr' = ENow # tr1"
      by (auto simp: Let_def bind_run exec_now_def ask_def modl_run split: if_splits)
    with True streak show ?thesis by blast
  next
    case False
    with rest l1 have "poll_idle H svc start (if is_idle r then Suc q else 0) n (ENow # tr1, l) = (Inr (), tr', l')"
      by (auto simp: Let_def bind_run exec_now_def ask_def split: if_splits)
    from Suc.IH [OF this streak, of "[ENow]"] show ?thesis by simp
  qed
qed

text \<open>Why a guard let the operation go on.\<close>

definition may_restart :: "host \<Rightarrow> service \<Rightarrow> op_opts \<Rightarrow> count_result \<Rightarrow> event list \<Rightarrow> bool" where
  "may_restart H svc opts first tr' \<longleftrightarrow>
     is_idle first \<or> op_force opts \<or>
     (d_policy (s_drain svc) = ''report'' \<and> cr_count first \<noteq> None \<and> \<not> op_wait_idle opts) \<or>
     (\<exists>k (l :: engine_state) tr2 es. tr' = es @ tr2 \<and> idle_streak H svc l k tr2 \<and>
        d_quiet_checks (s_drain svc) \<le> int k \<and> (\<forall>e \<in> set es. \<forall>c as o'. e \<noteq> ERun c as o'))"

lemma wait_outside_run:
  assumes "wait_outside_lock c svc held work (tr, l) = (Inr x, tr', l')"
  obtains tr1 l1 where "work (EDeployUnlock # tr, held False l) = (Inr x, tr1, l1)"
    and "tr' = EDeployLock deploy_lock_file (s_id svc) (g_lock_wait_seconds (inv_deploy_guard (inv c))) # tr1"
proof -
  from assms obtain tr1 l1 where work: "work (EDeployUnlock # tr, held False l) = (Inr x, tr1, l1)"
    and fin: "andthen (guard_acquire c svc) (modl (held True)) (tr1, l1) = (Inr (), tr', l')"
    unfolding wait_outside_lock_def by (auto simp: andthen_run try_finally_run modl_run exec_deploy_unlock_def ask_def)
  from fin have "tr' = EDeployLock deploy_lock_file (s_id svc) (g_lock_wait_seconds (inv_deploy_guard (inv c))) # tr1"
    unfolding guard_acquire_def
    by (auto simp: andthen_run try_catch_run modl_run throw_run exec_deploy_lock_def ask_or_def split: sum.splits)
  with work show ?thesis by (rule that)
qed

lemma guarded_may_restart:
  fixes l :: engine_state
  assumes run: "guarded c svc opts when (tr, l) = (Inr (), tr', l')"
    and first: "count_protected (exec c) svc (tr, l) = (Inr r, tr1, l1)"
  shows "may_restart (exec c) svc opts r tr'"
proof (cases "is_idle r \<or> op_force opts \<or> (d_policy (s_drain svc) = ''report'' \<and> cr_count r \<noteq> None \<and> \<not> op_wait_idle opts)")
  case True
  then show ?thesis unfolding may_restart_def by blast
next
  case False
  with run first obtain start tr2 l2 where
    "wait_outside_lock c svc set_host_lock (poll_idle (exec c) svc start 0 (ctx_fuel c)) (tr2, l2) = (Inr (), tr', l')"
    unfolding guarded_def guard_sessions_def
    by (auto simp: Let_def bind_run andthen_run modl_run throw_run exec_now_def ask_def split: if_splits)
  then obtain tr3 l3 where
    poll: "poll_idle (exec c) svc start 0 (ctx_fuel c) (EDeployUnlock # tr2, set_host_lock False l2) = (Inr (), tr3, l3)"
    and tr': "tr' = EDeployLock deploy_lock_file (s_id svc) (g_lock_wait_seconds (inv_deploy_guard (inv c))) # tr3"
    by (rule wait_outside_run)
  have "\<exists>k tr4. tr3 = ENow # tr4 \<and> idle_streak (exec c) svc (set_host_lock False l2) k tr4 \<and>
      d_quiet_checks (s_drain svc) \<le> int k"
    by (rule poll_idle_streak [OF poll streak_none, where es = "[]"]) simp_all
  then obtain k tr4 where
    k: "tr3 = ENow # tr4" "idle_streak (exec c) svc (set_host_lock False l2) k tr4" "d_quiet_checks (s_drain svc) \<le> int k"
    by blast
  have "tr' = [EDeployLock deploy_lock_file (s_id svc) (g_lock_wait_seconds (inv_deploy_guard (inv c))), ENow] @ tr4"
    using tr' k by simp
  moreover have "\<forall>e \<in> set [EDeployLock deploy_lock_file (s_id svc) (g_lock_wait_seconds (inv_deploy_guard (inv c))), ENow].
      \<forall>c as o'. e \<noteq> ERun c as o'" by simp
  ultimately show ?thesis unfolding may_restart_def using k(2,3) by blast
qed

section \<open>The loops end\<close>

abbreviation fuelled :: "exc \<Rightarrow> bool" where
  "fuelled e \<equiv> e \<noteq> OutOfFuel"

lemma fuelled_try_catch:
  "raises fuelled m \<Longrightarrow> (\<And>e. raises fuelled (h e)) \<Longrightarrow> raises fuelled (try_catch m h)"
  unfolding raises_def try_catch_def by (fastforce split: prod.splits sum.splits if_splits)

lemma fuelled_show_unit: "raises fuelled (show_unit H u)"
  unfolding show_unit_def systemctl_def by (intro raises_rules) simp_all

lemma fuelled_any_running: "raises fuelled (any_running H us)"
  by (induction us) (auto intro!: raises_rules fuelled_show_unit)

lemma fuelled_count_one: "raises fuelled (count_one H p)"
  unfolding count_one_def
  by (cases p) (auto intro!: raises_rules fuelled_try_catch simp: exec_psql_def raises_ask_or)

lemma fuelled_sum_probes: "raises fuelled (sum_probes H t ps)"
  by (induction ps arbitrary: t) (auto intro!: raises_rules fuelled_count_one)

lemma fuelled_count_protected: "raises fuelled (count_protected H svc)"
  unfolding count_protected_def running_def
  by (auto intro!: raises_rules fuelled_any_running fuelled_count_one fuelled_sum_probes split: option.split probe_cfg.split)

lemma fuelled_ready_round: "raises fuelled (ready_round H svc rd sha us)"
  unfolding ready_round_def ready_probe_def release_matches_def show_all_def Let_def
  by (intro raises_rules fuelled_show_unit)

text \<open>A program with any footprint only moves the clock forward.\<close>

lemma run_later:
  assumes "clock_ok H" and "emits (\<lambda>e. True) m" and "m (tr, l) = (r, tr', l')"
  shows "h_now H tr \<le> h_now H tr'"
proof -
  from assms(2,3) obtain es where "tr' = es @ tr" by (rule emitsD)
  with clock_mono [OF assms(1)] show ?thesis by simp
qed

interpretation every: event_class "\<lambda>e. True"
  by unfold_locales simp

lemma poll_idle_ends:
  assumes clock: "clock_ok H" and poll: "0 < d_poll_seconds (s_drain svc)"
  shows "d_wait_max_seconds (s_drain svc) * 1000 - (h_now H tr - start) \<le> int n * (d_poll_seconds (s_drain svc) * 1000)
    \<Longrightarrow> fst (poll_idle H svc start q (Suc n) (tr, l)) \<noteq> Inl OutOfFuel"
proof (induction n arbitrary: q tr l)
  case 0
  then show ?case by (simp add: bind_def exec_now_def ask_def throw_def)
next
  case (Suc n)
  let ?w = "d_wait_max_seconds (s_drain svc) * 1000" and ?p = "d_poll_seconds (s_drain svc) * 1000"
  obtain r tr1 l1 where count: "count_protected H svc (ESleep ?p # ENow # tr, l) = (r, tr1, l1)"
    by (cases "count_protected H svc (ESleep ?p # ENow # tr, l)") auto
  have "h_now H tr + ?p \<le> h_now H (ESleep ?p # ENow # tr)"
    using clock_step [OF clock, of tr ENow] clock_sleep [OF clock, of "ENow # tr" ?p] by linarith
  also have "\<dots> \<le> h_now H tr1" by (rule run_later [OF clock every.emits_count_protected count])
  also have "\<dots> \<le> h_now H (ENow # tr1)" by (rule clock_step [OF clock])
  finally have later: "?w - (h_now H (ENow # tr1) - start) \<le> int n * ?p"
    using Suc.prems by (simp add: algebra_simps)
  show ?case
  proof (cases r)
    case (Inl e)
    with count have "count_protected H svc (ESleep ?p # ENow # tr, l) = (Inl e, tr1, l1)" by simp
    from raisesD [OF fuelled_count_protected this] have "e \<noteq> OutOfFuel" .
    with Inl count show ?thesis
      by (simp add: bind_def andthen_def exec_now_def exec_sleep_def ask_def throw_def)
  next
    case (Inr x)
    have IH: "fst (poll_idle H svc start q' (Suc n) (ENow # tr1, l1)) \<noteq> Inl OutOfFuel" for q'
      by (rule Suc.IH [OF later])
    show ?thesis
      using count Inr IH
      by (subst poll_idle.simps)
        (simp add: bind_def andthen_def exec_now_def exec_sleep_def ask_def throw_def modl_def Let_def del: poll_idle.simps)
  qed
qed

lemma fuel_bind:
  assumes m: "raises fuelled m"
    and f: "\<And>x tr' l'. m (tr, l) = (Inr x, tr', l') \<Longrightarrow> fst (f x (tr', l')) \<noteq> Inl OutOfFuel"
  shows "fst (bind m f (tr, l)) \<noteq> Inl OutOfFuel"
proof -
  obtain r tr' l' where run: "m (tr, l) = (r, tr', l')" by (cases "m (tr, l)") auto
  show ?thesis
  proof (cases r)
    case (Inl e)
    with run have "m (tr, l) = (Inl e, tr', l')" by simp
    from raisesD [OF m this] Inl run show ?thesis by (simp add: bind_def)
  next
    case (Inr x)
    with run f show ?thesis by (simp add: bind_def)
  qed
qed

lemma ready_loop_ends:
  assumes clock: "clock_ok H"
  shows "limit - (h_now H tr - start) \<le> int n * 1000 \<Longrightarrow>
    fst (ready_loop H svc rd sha us limit start why (Suc n) (tr, l)) \<noteq> Inl OutOfFuel"
proof (induction n arbitrary: why tr l)
  case 0
  then show ?case by (simp add: bind_def exec_now_def ask_def ret_def)
next
  case (Suc n)
  have later: "h_now H tr \<le> h_now H tr1 \<Longrightarrow> h_now H tr1 + 1000 \<le> h_now H (ESleep 1000 # tr1) \<Longrightarrow>
      limit - (h_now H (ESleep 1000 # tr1) - start) \<le> int n * 1000" for tr1
    using Suc.prems by simp
  show ?case
    unfolding ready_loop.simps(2) [of H svc rd sha us limit start why "Suc n"]
  proof (rule fuel_bind [OF raises_exec(6)])
    fix t tr1 l1
    assume run1: "exec_now H (tr, l) = (Inr t, tr1, l1)"
    have t1: "h_now H tr \<le> h_now H tr1" using run1 clock_step [OF clock, of tr ENow] by (auto simp: exec_now_def ask_def)
    let ?rest = "\<lambda>(why', states).
       if why' = None then
         bind (exec_now H) (\<lambda>t2.
         ret \<lparr>rr_ok = True, rr_skipped = False, rr_reason = None, rr_seconds = seconds_since start t2\<rparr>)
       else
         bind (case states of Some sts \<Rightarrow> ret sts | None \<Rightarrow> show_all H us) (\<lambda>sts.
         if list_ex (\<lambda>st. u_active st = ''failed'') sts then
           bind (exec_now H) (\<lambda>t2.
           ret \<lparr>rr_ok = False, rr_skipped = False, rr_reason = Some ''a unit failed'', rr_seconds = seconds_since start t2\<rparr>)
         else andthen (exec_sleep H 1000) (ready_loop H svc rd sha us limit start why' (Suc n)))"
    have "fst (bind (ready_round H svc rd sha us) ?rest (tr1, l1)) \<noteq> Inl OutOfFuel"
    proof (rule fuel_bind [OF fuelled_ready_round])
      fix x tr2 l2
      assume run2: "ready_round H svc rd sha us (tr1, l1) = (Inr x, tr2, l2)"
      have t2: "h_now H tr1 \<le> h_now H tr2" by (rule run_later [OF clock every.emits_ready_round run2])
      obtain why' states where x: "x = (why', states)" by (cases x)
      show "fst (?rest x (tr2, l2)) \<noteq> Inl OutOfFuel"
      proof (cases "why' = None")
        case True
        then show ?thesis unfolding x by (simp add: bind_def exec_now_def ask_def ret_def)
      next
        case False
        let ?states = "case states of Some sts \<Rightarrow> ret sts | None \<Rightarrow> show_all H us"
        have quiet: "raises fuelled ?states" unfolding show_all_def by (intro raises_rules fuelled_show_unit)
        have em: "emits (\<lambda>e. True) ?states" by (intro emits_rules every.emits_show_all)
        have "fst (bind ?states (\<lambda>sts.
           if list_ex (\<lambda>st. u_active st = ''failed'') sts then
             bind (exec_now H) (\<lambda>t2.
             ret \<lparr>rr_ok = False, rr_skipped = False, rr_reason = Some ''a unit failed'', rr_seconds = seconds_since start t2\<rparr>)
           else andthen (exec_sleep H 1000) (ready_loop H svc rd sha us limit start why' (Suc n))) (tr2, l2)) \<noteq> Inl OutOfFuel"
        proof (rule fuel_bind [OF quiet])
          fix sts tr3 l3
          assume run3: "?states (tr2, l2) = (Inr sts, tr3, l3)"
          have t3: "h_now H tr2 \<le> h_now H tr3" by (rule run_later [OF clock em run3])
          have "fst (ready_loop H svc rd sha us limit start why' (Suc n) (ESleep 1000 # tr3, l3)) \<noteq> Inl OutOfFuel"
            by (rule Suc.IH [OF later]) (use t1 t2 t3 clock_sleep [OF clock] in auto)
          then show "fst ((if list_ex (\<lambda>st. u_active st = ''failed'') sts then
             bind (exec_now H) (\<lambda>t2.
             ret \<lparr>rr_ok = False, rr_skipped = False, rr_reason = Some ''a unit failed'', rr_seconds = seconds_since start t2\<rparr>)
           else andthen (exec_sleep H 1000) (ready_loop H svc rd sha us limit start why' (Suc n))) (tr3, l3)) \<noteq> Inl OutOfFuel"
            by (simp add: bind_def andthen_def exec_now_def exec_sleep_def ask_def ret_def del: ready_loop.simps)
        qed
        then show ?thesis unfolding x prod.case if_not_P [OF False] .
      qed
    qed
    then show "fst ((if limit \<le> t - start then
       bind (exec_now H) (\<lambda>t2.
       ret \<lparr>rr_ok = False, rr_skipped = False, rr_reason = why, rr_seconds = seconds_since start t2\<rparr>)
     else bind (ready_round H svc rd sha us) ?rest) (tr1, l1)) \<noteq> Inl OutOfFuel"
      by (simp add: bind_def exec_now_def ask_def ret_def)
  qed
qed

lemma andthen_modl: "andthen (modl f) k (tr, l) = k (tr, f l)"
  by (simp add: andthen_def bind_def modl_def)

lemma wait_outside_fuel:
  assumes "fst (work (EDeployUnlock # tr, held False l)) \<noteq> Inl OutOfFuel"
  shows "fst (wait_outside_lock c svc held work (tr, l)) \<noteq> Inl OutOfFuel"
  using assms unfolding wait_outside_lock_def guard_acquire_def
  by (auto simp: andthen_def bind_def modl_def exec_deploy_unlock_def exec_deploy_lock_def ask_def ask_or_def
      try_finally_def try_catch_def throw_def split: prod.splits sum.splits)

lemma guarded_ends:
  fixes l :: "'x op_state_scheme"
  assumes clock: "clock_ok (exec c)" and poll: "0 < d_poll_seconds (s_drain svc)" and fuel: "ctx_fuel c = Suc n"
    and enough: "d_wait_max_seconds (s_drain svc) \<le> int n * d_poll_seconds (s_drain svc)"
  shows "fst (guarded c svc opts when (tr, l)) \<noteq> Inl OutOfFuel"
  unfolding guarded_def guard_sessions_def Let_def
proof (rule fuel_bind [OF fuelled_count_protected])
  fix first tr1 and l1 :: "'x op_state_scheme"
  have poll: "fst (poll_idle (exec c) svc start 0 (ctx_fuel c) (EDeployUnlock # ENow # tr2, l2)) \<noteq> Inl OutOfFuel"
    if "start = h_now (exec c) tr2" for start tr2 and l2 :: "'x op_state_scheme"
    unfolding fuel
  proof (rule poll_idle_ends [OF clock poll])
    have "start \<le> h_now (exec c) (EDeployUnlock # ENow # tr2)"
      using that clock_mono [OF clock, of tr2 "[EDeployUnlock, ENow]"] by simp
    then show "d_wait_max_seconds (s_drain svc) * 1000 - (h_now (exec c) (EDeployUnlock # ENow # tr2) - start)
        \<le> int n * (d_poll_seconds (s_drain svc) * 1000)"
      using enough by (simp add: algebra_simps)
  qed
  have wait: "fst (bind (exec_now (exec c)) (\<lambda>start. wait_outside_lock c svc set_host_lock
      (poll_idle (exec c) svc start 0 (ctx_fuel c))) (tr2, l2)) \<noteq> Inl OutOfFuel" for tr2 and l2 :: "'x op_state_scheme"
    by (simp add: bind_def exec_now_def ask_def) (rule wait_outside_fuel, rule poll, rule refl)
  show "fst (andthen (modl (\<lambda>s. s\<lparr>os_sessions := Some (note_of first when)\<rparr>))
      (if is_idle first then ret () else if op_force opts then modl (\<lambda>s. s\<lparr>os_forced := True\<rparr>)
       else if d_policy (s_drain svc) = ''report'' \<and> cr_count first \<noteq> None \<and> \<not> op_wait_idle opts then ret ()
       else if \<not> (op_wait_idle opts \<or> d_policy (s_drain svc) = ''wait'')
       then throw (OpError ''refusing to restart'' exit_protected (Some ''refused''))
       else bind (exec_now (exec c)) (\<lambda>start. wait_outside_lock c svc set_host_lock
              (poll_idle (exec c) svc start 0 (ctx_fuel c)))) (tr1, l1)) \<noteq> Inl OutOfFuel"
    unfolding andthen_modl
    by (cases "is_idle first"; cases "op_force opts";
        cases "d_policy (s_drain svc) = ''report'' \<and> cr_count first \<noteq> None \<and> \<not> op_wait_idle opts";
        cases "op_wait_idle opts \<or> d_policy (s_drain svc) = ''wait''")
      (simp_all only: if_True if_False simp_thms wait, simp_all add: modl_def ret_def throw_def)
qed

section \<open>Properties\<close>

text \<open>
  Property C5. A guard lets a restart through only for one of its reasons: the first count is idle, the
  operator forces it, the policy reports a known count, or the last answers were idle as many times in
  a row as the drain asks for. An unknown count is never one of them.
\<close>

theorem guard_reasons:
  fixes l :: engine_state
  shows "case (count_protected (exec c) svc (tr, l), guarded c svc opts when (tr, l)) of
      ((Inr first, tr1, l1), (Inr u, tr', l')) \<Rightarrow> may_restart (exec c) svc opts first tr'
    | ((Inl e, tr1, l1), (r, tr', l')) \<Rightarrow> r = Inl e \<and> tr' = tr1
    | _ \<Rightarrow> True"
proof -
  obtain r1 tr1 l1 where count: "count_protected (exec c) svc (tr, l) = (r1, tr1, l1)"
    by (cases "count_protected (exec c) svc (tr, l)") auto
  obtain r tr' l' where run: "guarded c svc opts when (tr, l) = (r, tr', l')"
    by (cases "guarded c svc opts when (tr, l)") auto
  show ?thesis
  proof (cases r1)
    case (Inl e)
    with count run show ?thesis unfolding guarded_def guard_sessions_def by (auto simp: Let_def bind_def)
  next
    case (Inr first)
    with count run guarded_may_restart [of c svc opts "when" tr l tr' l' first tr1 l1] show ?thesis
      by (cases r) auto
  qed
qed

text \<open>
  Protected sessions are looked at before the checkout moves: with sessions active (or their
  number unknown), no \<^verbatim>\<open>--force\<close>, no wait and a policy that refuses, the deploy stops with exit 5
  having asked for nothing but the count.
\<close>

theorem refused_before_move:
  assumes need: "p_restart_needed p"
    and count: "count_protected (exec c) svc (tr, l) = (Inr r, tr1, l1)"
    and active: "\<not> is_idle r" and opts: "\<not> op_force opts" "\<not> op_wait_idle opts"
    and policy: "d_policy (s_drain svc) \<noteq> ''wait''" "d_policy (s_drain svc) = ''report'' \<Longrightarrow> cr_count r = None"
  shows "deploy_plan_steps c svc g mode opts p (tr, l) =
    (Inl (OpError ''refusing to restart'' exit_protected (Some ''refused'')), tr1,
     l1\<lparr>os_sessions := Some (note_of r ''before the checkout moves'')\<rparr>)"
  using assms unfolding deploy_plan_steps_def guarded_def guard_sessions_def
  by (auto simp: whenever_def andthen_def bind_def modl_def throw_def Let_def)

theorem refused_before_move_witness:
  "deploy_plan_steps (sample_ctx [] 200) sample_busy (git_of sample_busy) Deploy default_opts sample_plan ([], blank_state) =
    (Inl (OpError ''refusing to restart'' exit_protected (Some ''refused'')),
     [EPsql ''app'' ''select 1'', ERun ''systemctl'' (systemctl_args ''show'' (Some ''app.service'')) as_self],
     blank_state\<lparr>os_sessions := Some (note_of (unknown ''query returned no number'') ''before the checkout moves'')\<rparr>)"
  by (rule refused_before_move [OF _ sample_count])
    (simp_all add: sample_plan_def is_idle_def unknown_def default_opts_def sample_busy_def sample_service_def)

text \<open>
  Property C6. The wait for idle sessions always ends: with a clock that advances and a positive poll
  interval, the fuel for one round more than the waiting time holds intervals is enough.
\<close>

theorem guard_ends:
  assumes "clock_ok (exec c)" and "0 < d_poll_seconds (s_drain svc)" and "ctx_fuel c = Suc n"
    and "d_wait_max_seconds (s_drain svc) \<le> int n * d_poll_seconds (s_drain svc)"
  shows "fst (guarded c svc opts when (tr, l)) \<noteq> Inl OutOfFuel"
  by (rule guarded_ends [OF assms])

theorem guard_ends_witness:
  "fst (guarded (sample_ctx [] 200) sample_busy default_opts ''now'' ([], blank_state)) \<noteq> Inl OutOfFuel"
  by (rule guard_ends [where n = 19])
    (simp_all add: sample_ctx_def sample_clock sample_busy_def sample_service_def)

text \<open>
  Waiting for readiness always ends: one round a second until the limit, whatever the probes
  and the units answer.
\<close>

theorem readiness_ends:
  assumes "clock_ok (exec c)" and "s_ready svc = Some rd" and "ctx_fuel c = Suc n"
    and "ready_limit rd timeout \<le> int n * 1000"
  shows "fst (wait_ready c svc timeout sha us (tr, l)) \<noteq> Inl OutOfFuel"
proof -
  have "h_now (exec c) tr \<le> h_now (exec c) (ENow # tr)" by (rule clock_step [OF assms(1)])
  then have "fst (ready_loop (exec c) svc rd sha us (ready_limit rd timeout) (h_now (exec c) tr)
      (Some ''never probed'') (Suc n) (ENow # tr, l)) \<noteq> Inl OutOfFuel"
    by (intro ready_loop_ends [OF assms(1)]) (use assms(4) in simp)
  then show ?thesis
    unfolding wait_ready_def by (simp add: assms bind_def exec_now_def ask_def del: ready_loop.simps)
qed

theorem readiness_ends_witness:
  "fst (wait_ready (sample_ctx [] 500) sample_service None None [''app.service''] ([], blank_state)) \<noteq> Inl OutOfFuel"
  by (rule readiness_ends [where n = 19 and rd = "the (s_ready sample_service)"])
    (simp_all add: sample_ctx_def sample_clock sample_service_def ready_limit_def)

end
