(* ===== verification/Checked.thy ===== *)
theory Checked
  imports Json
begin

text \<open>
  Validation of untyped JSON, as the sources write it: a check either throws, an
  error of the module with its message (\<open>Refused\<close>) or a \<^verbatim>\<open>TypeError\<close> of the runtime, or gives a
  value; and the operations of JavaScript on a value of any type (\<^verbatim>\<open>v.k\<close>, \<^verbatim>\<open>v || d\<close>,
  \<^verbatim>\<open>String(v)\<close>, \<^verbatim>\<open>Object.entries\<close>, spread, iteration).
\<close>

section \<open>Checks\<close>

datatype fault = Refused str | TypeFault

type_synonym 'a checked = "fault + 'a"

definition refuse :: "str \<Rightarrow> 'a checked" where
  "refuse m = Inl (Refused m)"

definition type_error :: "'a checked" where
  "type_error = Inl TypeFault"

definition sbind :: "'a checked \<Rightarrow> ('a \<Rightarrow> 'b checked) \<Rightarrow> 'b checked" where
  "sbind m f = (case m of Inl e \<Rightarrow> Inl e | Inr x \<Rightarrow> f x)"

definition demand :: "bool \<Rightarrow> str \<Rightarrow> unit checked" where
  "demand b m = (if b then Inr () else refuse m)"

definition next_check :: "unit checked \<Rightarrow> 'a checked \<Rightarrow> 'a checked" where
  "next_check m k = sbind m (\<lambda>_. k)"

definition wanted :: "bool \<Rightarrow> unit checked \<Rightarrow> unit checked" where
  "wanted b m = (if b then m else Inr ())"

primrec check_each :: "('a \<Rightarrow> unit checked) \<Rightarrow> 'a list \<Rightarrow> unit checked" where
  "check_each f [] = Inr ()"
| "check_each f (x # xs) = next_check (f x) (check_each f xs)"

primrec map_checked :: "('a \<Rightarrow> 'b checked) \<Rightarrow> 'a list \<Rightarrow> 'b list checked" where
  "map_checked f [] = Inr []"
| "map_checked f (x # xs) = sbind (f x) (\<lambda>y. sbind (map_checked f xs) (\<lambda>ys. Inr (y # ys)))"

text \<open>The checks of a list made one after another.\<close>

primrec checks :: "unit checked list \<Rightarrow> unit checked" where
  "checks [] = Inr ()"
| "checks (m # ms) = next_check m (checks ms)"

text \<open>\<^verbatim>\<open>xs.map(f)\<close> where the callback refuses what it has seen: \<open>f\<close> gets the earlier results.\<close>

fun map_seen :: "('b list \<Rightarrow> 'a \<Rightarrow> 'b checked) \<Rightarrow> 'b list \<Rightarrow> 'a list \<Rightarrow> 'b list checked" where
  "map_seen f seen [] = Inr seen"
| "map_seen f seen (x # xs) = sbind (f seen x) (\<lambda>y. map_seen f (seen @ [y]) xs)"

section \<open>Values of any type\<close>

definition is_null :: "json option \<Rightarrow> bool" where
  "is_null v \<longleftrightarrow> v = None \<or> v = Some JNull"

text \<open>\<^verbatim>\<open>String(v)\<close> and \<^verbatim>\<open>re.test(v)\<close>.\<close>

definition text_of :: "json option \<Rightarrow> str" where
  "text_of v = (case v of None \<Rightarrow> ''undefined'' | Some x \<Rightarrow> js_string x)"

definition matches :: "(str \<Rightarrow> bool) \<Rightarrow> json option \<Rightarrow> bool" where
  "matches p v = p (text_of v)"

text \<open>\<^verbatim>\<open>v || d\<close>\<close>

definition or_else :: "json option \<Rightarrow> json \<Rightarrow> json" where
  "or_else v d = (case v of Some x \<Rightarrow> (if truthy v then x else d) | None \<Rightarrow> d)"

text \<open>\<^verbatim>\<open>v.k\<close>, which throws on \<^verbatim>\<open>null\<close> and \<^verbatim>\<open>undefined\<close>, and \<^verbatim>\<open>v && v.k\<close>.\<close>

definition field_of :: "str \<Rightarrow> json option \<Rightarrow> json option checked" where
  "field_of k v =
     (case v of None \<Rightarrow> type_error | Some JNull \<Rightarrow> type_error | Some x \<Rightarrow> Inr (member_of k x))"

definition soft :: "str \<Rightarrow> json option \<Rightarrow> json option" where
  "soft k v = (case v of None \<Rightarrow> None | Some x \<Rightarrow> (if truthy v then member_of k x else None))"

text \<open>A property that is used when it is truthy.\<close>

definition when_set :: "json option \<Rightarrow> json option" where
  "when_set v = (if truthy v then v else None)"

definition string_of :: "json option \<Rightarrow> str option" where
  "string_of v = (case v of Some (JStr s) \<Rightarrow> Some s | _ \<Rightarrow> None)"

definition array_of :: "json option \<Rightarrow> json list option" where
  "array_of v = (case v of Some (JArr xs) \<Rightarrow> Some xs | _ \<Rightarrow> None)"

definition object_of :: "json option \<Rightarrow> (str \<times> json) list option" where
  "object_of v = (case v of Some (JObj kvs) \<Rightarrow> Some kvs | _ \<Rightarrow> None)"

text \<open>\<^verbatim>\<open>Object.entries(v)\<close>, and what \<^verbatim>\<open>...v\<close> copies.\<close>

definition numbered :: "json list \<Rightarrow> (str \<times> json) list" where
  "numbered xs = map (\<lambda>(i, x). (nat_str i, x)) (zip [0..<length xs] xs)"

definition entries_of :: "json \<Rightarrow> (str \<times> json) list" where
  "entries_of v =
     (case v of JObj kvs \<Rightarrow> kvs | JArr xs \<Rightarrow> numbered xs | JStr s \<Rightarrow> numbered (map (\<lambda>c. JStr [c]) s) | _ \<Rightarrow> [])"

definition put_all :: "(str \<times> 'a) list \<Rightarrow> (str \<times> 'a) list \<Rightarrow> (str \<times> 'a) list" where
  "put_all kvs new = foldl (\<lambda>acc (k, v). obj_put k v acc) kvs new"

definition merged :: "json \<Rightarrow> json \<Rightarrow> json" where
  "merged a b = JObj (put_all (entries_of a) (entries_of b))"

text \<open>\<^verbatim>\<open>for (const x of v)\<close>: arrays and strings iterate.\<close>

definition iterated :: "json \<Rightarrow> json list checked" where
  "iterated v =
     (case v of JArr xs \<Rightarrow> Inr xs | JStr s \<Rightarrow> Inr (map (\<lambda>c. JStr [c]) s) | _ \<Rightarrow> type_error)"

text \<open>A method only arrays have.\<close>

definition as_array :: "json \<Rightarrow> json list checked" where
  "as_array v = (case v of JArr xs \<Rightarrow> Inr xs | _ \<Rightarrow> type_error)"

section \<open>Numbers\<close>

definition is_whole :: "rat \<Rightarrow> bool" where
  "is_whole q \<longleftrightarrow> of_int \<lfloor>q\<rfloor> = q"

text \<open>A whole number between two bounds, or the refusal.\<close>

definition whole_in :: "int \<Rightarrow> int \<Rightarrow> str \<Rightarrow> rat option \<Rightarrow> int checked" where
  "whole_in lo hi m v =
     (case v of
        Some q \<Rightarrow> (if is_whole q \<and> lo \<le> \<lfloor>q\<rfloor> \<and> \<lfloor>q\<rfloor> \<le> hi then Inr \<lfloor>q\<rfloor> else refuse m)
      | None \<Rightarrow> refuse m)"

definition number_or :: "rat \<Rightarrow> json option \<Rightarrow> rat option" where
  "number_or d v = (if is_null v then Some d else to_number v)"

section \<open>Facts of a check that passed\<close>

named_theorems passed_iffs \<open>what a check that gave a value was about\<close>

lemma sbind_Inr [passed_iffs]: "sbind m f = Inr y \<longleftrightarrow> (\<exists>x. m = Inr x \<and> f x = Inr y)"
  by (cases m) (simp_all add: sbind_def)

lemma next_check_Inr [passed_iffs]: "next_check m k = Inr y \<longleftrightarrow> m = Inr () \<and> k = Inr y"
  by (simp add: next_check_def sbind_Inr)

lemma demand_Inr [passed_iffs]: "demand b m = Inr u \<longleftrightarrow> b"
  by (simp add: demand_def refuse_def)

lemma wanted_Inr [passed_iffs]: "wanted b m = Inr u \<longleftrightarrow> (b \<longrightarrow> m = Inr u)"
  by (simp add: wanted_def)

lemma refuse_Inr [passed_iffs]: "refuse m = Inr y \<longleftrightarrow> False" "type_error = Inr y \<longleftrightarrow> False"
  by (simp_all add: refuse_def type_error_def)

lemma check_each_Inr [passed_iffs]: "check_each f xs = Inr u \<longleftrightarrow> (\<forall>x \<in> set xs. f x = Inr ())"
  by (induction xs) (auto simp: next_check_Inr)

lemma checks_Inr [passed_iffs]: "checks ms = Inr u \<longleftrightarrow> (\<forall>m \<in> set ms. m = Inr ())"
  by (induction ms) (auto simp: next_check_Inr)

lemma map_checked_Inr [passed_iffs]: "map_checked f xs = Inr ys \<longleftrightarrow> list_all2 (\<lambda>x y. f x = Inr y) xs ys"
  by (induction xs arbitrary: ys) (auto simp: sbind_Inr list_all2_Cons1)

lemma whole_in_Inr [passed_iffs]:
  "whole_in lo hi m v = Inr i \<longleftrightarrow> v = Some (of_int i) \<and> lo \<le> i \<and> i \<le> hi"
  by (auto simp: whole_in_def is_whole_def refuse_def split: option.splits)

text \<open>Every result of \<open>map_seen\<close> was checked against the results before it.\<close>

lemma map_seen_Inr:
  "map_seen f seen xs = Inr ys \<Longrightarrow>
   \<exists>zs. ys = seen @ zs \<and> length zs = length xs \<and>
     (\<forall>i < length zs. f (seen @ take i zs) (xs ! i) = Inr (zs ! i))"
proof (induction f seen xs arbitrary: ys rule: map_seen.induct)
  case (2 f seen x xs)
  then obtain y where y: "f seen x = Inr y" and rest: "map_seen f (seen @ [y]) xs = Inr ys"
    by (auto simp: sbind_Inr)
  from 2(1) [OF rest] obtain zs where zs: "ys = seen @ y # zs" "length zs = length xs"
    "\<forall>i < length zs. f (seen @ y # take i zs) (xs ! i) = Inr (zs ! i)" by auto
  have "f (seen @ take i (y # zs)) ((x # xs) ! i) = Inr ((y # zs) ! i)" if "i < length (y # zs)" for i
    using that y zs(3) by (cases i) auto
  with zs show ?case by (intro exI [of _ "y # zs"]) auto
qed simp

text \<open>No result repeats the key of an earlier one when the callback refuses a key it has seen.\<close>

lemma map_seen_distinct:
  assumes run: "map_seen f [] xs = Inr ys"
    and fresh: "\<And>seen x y. f seen x = Inr y \<Longrightarrow> key y \<notin> key ` set seen"
  shows "distinct (map key ys)"
proof -
  from map_seen_Inr [OF run] have step: "\<forall>i < length ys. f (take i ys) (xs ! i) = Inr (ys ! i)" by auto
  have "key (ys ! i) \<noteq> key (ys ! j)" if "j < i" "i < length ys" for i j
  proof -
    from step that(2) have "f (take i ys) (xs ! i) = Inr (ys ! i)" by blast
    then have "key (ys ! i) \<notin> key ` set (take i ys)" by (rule fresh)
    moreover from that have "ys ! j \<in> set (take i ys)" by (auto simp: in_set_conv_nth)
    ultimately show ?thesis by (metis imageI)
  qed
  then have "key (ys ! i) \<noteq> key (ys ! j)" if "i < length ys" "j < length ys" "i \<noteq> j" for i j
    using that by (metis linorder_neqE_nat)
  then show ?thesis by (simp add: distinct_conv_nth)
qed

lemma map_of_put_all: "map_of (put_all kvs new) = map_of kvs ++ map_of (rev new)"
proof (induction new rule: rev_induct)
  case (snoc kv new)
  then show ?case by (cases kv) (auto simp: put_all_def fun_eq_iff map_add_def split: option.split)
qed (simp add: put_all_def)

end
