(* ===== verification/Release_Layout.thy ===== *)
theory Release_Layout
  imports Release_Ops
begin

text \<open>
  The release-layout engine, \<^verbatim>\<open>lib/release-layout.js\<close>: releases side by side, a
  \<^verbatim>\<open>current\<close> link that is switched by an atomic rename, and rollback by switching back.
\<close>

section \<open>Paths\<close>

text \<open>\<^verbatim>\<open>path.resolve(base, p)\<close> for an absolute base, and \<^verbatim>\<open>path.relative\<close> between absolute paths.\<close>

definition path_resolve :: "str \<Rightarrow> str \<Rightarrow> str" where
  "path_resolve base p =
     (let q = strip_slashes (path_normalize (if path_is_absolute p then p else base @ ''/'' @ p))
      in if q = [] then ''/'' else q)"

fun drop_common :: "str list \<Rightarrow> str list \<Rightarrow> str list \<times> str list" where
  "drop_common (x # xs) (y # ys) = (if x = y then drop_common xs ys else (x # xs, y # ys))"
| "drop_common xs ys = (xs, ys)"

definition path_segs :: "str \<Rightarrow> str list" where
  "path_segs p = filter (\<lambda>s. s \<noteq> []) (split_on (CHR ''/'') (path_normalize p))"

definition path_relative :: "str \<Rightarrow> str \<Rightarrow> str" where
  "path_relative a b =
     (let (up, down) = drop_common (path_segs a) (path_segs b) in join ''/'' (map (\<lambda>_. ''..'') up @ down))"

section \<open>Releases\<close>

definition new_release_id :: "int \<Rightarrow> str \<Rightarrow> str \<Rightarrow> str" where
  "new_release_id now sha fmt =
     (if fmt = ''sha12'' then take 12 sha
      else
        (let (y, m, d) = utc_civil now; (h, mi, s) = utc_clock now
         in int_str y @ pad2 m @ pad2 d @ ''-'' @ pad2 h @ pad2 mi @ pad2 s @ ''-'' @ take 8 sha))"

definition git_clone_of :: "service \<Rightarrow> git_handle" where
  "git_clone_of svc = git_at svc (r_git (s_release svc)) False"

definition git_release_of :: "service \<Rightarrow> str \<Rightarrow> git_handle" where
  "git_release_of svc dir = git_at svc dir True"

definition is_full_sha :: "str \<Rightarrow> bool" where
  "is_full_sha s \<longleftrightarrow> length s = 40 \<and> list_all is_hex s"

text \<open>\<^verbatim>\<open>/([0-9a-f]{8,40})$/\<close>: at most the last 40 of the hexadecimal digits a name ends with.\<close>

definition sha_suffix :: "str \<Rightarrow> str option" where
  "sha_suffix name =
     (let run = takeWhile is_hex (rev name)
      in if length run < 8 then None else Some (rev (take 40 run)))"

definition release_sha :: "host \<Rightarrow> service \<Rightarrow> str \<Rightarrow> ('l, str option) prog" where
  "release_sha H svc dir =
     bind (try_catch (bind (git_head H (git_release_of svc dir)) (\<lambda>h. ret (if is_full_sha h then Some h else None)))
             (\<lambda>_. ret None)) (\<lambda>sha.
     case sha of
       Some h \<Rightarrow> ret (Some h)
     | None \<Rightarrow>
         (case sha_suffix (path_basename dir) of
            None \<Rightarrow> ret None
          | Some m \<Rightarrow>
              try_catch (bind (git_rev_parse H (git_clone_of svc) m) (\<lambda>h. ret (Some h))) (\<lambda>_. ret None)))"

text \<open>\<open>cu_dir\<close> is \<open>None\<close> when \<^verbatim>\<open>current\<close> is not a link to a release.\<close>

record current_link =
  cu_dir :: "str option"
  cu_id :: "str option"
  cu_sha :: "str option"

definition no_current :: current_link where
  "no_current = \<lparr>cu_dir = None, cu_id = None, cu_sha = None\<rparr>"

definition current_release :: "host \<Rightarrow> service \<Rightarrow> ('l, current_link) prog" where
  "current_release H svc =
     (let link = r_current (s_release svc); releases = r_releases_dir (s_release svc) in
      bind (exec_readlink H link) (\<lambda>target.
      case given target of
        None \<Rightarrow> ret no_current
      | Some t \<Rightarrow>
          (let dir = path_resolve (path_dirname link) t;
               inside = (starts_with dir (releases @ ''/'') \<and> path_dirname dir = releases) in
           bind (exec_stat H dir) (\<lambda>st.
           if \<not> inside \<or> (case st of Some s \<Rightarrow> \<not> st_is_dir s | None \<Rightarrow> True) then ret no_current
           else bind (release_sha H svc dir) (\<lambda>sha.
             ret \<lparr>cu_dir = Some dir, cu_id = Some (path_basename dir), cu_sha = sha\<rparr>)))))"

record release_dir =
  rel_id :: str
  rel_dir :: str
  rel_mtime :: int

text \<open>Newest first: ids that begin with their time by name, others by their time and then by name.\<close>

definition newer_release :: "host \<Rightarrow> bool \<Rightarrow> release_dir \<Rightarrow> release_dir \<Rightarrow> bool" where
  "newer_release H timeIds a b \<longleftrightarrow>
     (if timeIds then h_collate H (rel_id b) (rel_id a)
      else rel_mtime b < rel_mtime a \<or> rel_mtime b = rel_mtime a \<and> h_collate H (rel_id b) (rel_id a))"

definition list_releases :: "host \<Rightarrow> service \<Rightarrow> ('l, release_dir list) prog" where
  "list_releases H svc =
     bind (exec_readdir H (r_releases_dir (s_release svc))) (\<lambda>es.
     bind (mapp (\<lambda>e.
        let dir = path_join [r_releases_dir (s_release svc), e_name e] in
        bind (exec_stat H dir) (\<lambda>st.
        ret \<lparr>rel_id = e_name e, rel_dir = dir, rel_mtime = (case st of Some s \<Rightarrow> st_mtime s | None \<Rightarrow> 0)\<rparr>))
       (filter (\<lambda>e. e_is_dir e \<and> \<not> starts_with (e_name e) ''.'') (case es of Some xs \<Rightarrow> xs | None \<Rightarrow> []))) (\<lambda>out.
     ret (sort_by (newer_release H (r_id (s_release svc) = ''time-sha8'')) out)))"

text \<open>\<^verbatim>\<open>/@([^@]+)\.service$/\<close>\<close>

definition instance_id :: "str \<Rightarrow> str option" where
  "instance_id u =
     (if ends_with u ''.service'' \<and> CHR ''@'' \<in> set (drop_end 8 u)
      then (let i = last (split_on (CHR ''@'') (drop_end 8 u)) in if i = [] then None else Some i)
      else None)"

definition is_dead :: "instance_row \<Rightarrow> bool" where
  "is_dead i \<longleftrightarrow> ir_active i \<in> {Some ''inactive'', Some ''dead''} \<and> ir_sub i = Some ''dead''"

text \<open>The release a process runs from: the first segment of its working directory below the releases.\<close>

definition release_below :: "str \<Rightarrow> str \<Rightarrow> str option" where
  "release_below releases cwd =
     (let rel = path_relative releases cwd in
      if rel \<noteq> [] \<and> \<not> starts_with rel ''..'' \<and> \<not> path_is_absolute rel
      then Some (hd (split_on (CHR ''/'') rel)) else None)"

definition unit_release :: "host \<Rightarrow> service \<Rightarrow> str \<Rightarrow> ('l, str list) prog" where
  "unit_release H svc u =
     bind (try_catch (bind (show_unit H u) (\<lambda>st. ret (u_main_pid st))) (\<lambda>_. ret None)) (\<lambda>pid.
     case pid of
       None \<Rightarrow> ret []
     | Some q \<Rightarrow>
         (if q = 0 then ret []
          else
            bind (exec_readlink H (''/proc/'' @ js_string (JNum q) @ ''/cwd'')) (\<lambda>cwd.
            ret (case given cwd of
                   None \<Rightarrow> []
                 | Some d \<Rightarrow> (case release_below (r_releases_dir (s_release svc)) d of Some i \<Rightarrow> [i] | None \<Rightarrow> [])))))"

definition worker_releases :: "host \<Rightarrow> str \<Rightarrow> ('l, str list) prog" where
  "worker_releases H w =
     (if \<not> ends_with w ''@.service'' then ret []
      else
        bind (try_catch (instances H w) (\<lambda>_. ret [])) (\<lambda>rows.
        ret (List.map_filter (\<lambda>i. instance_id (ir_unit i)) (filter (\<lambda>i. \<not> is_dead i) rows))))"

definition releases_in_use :: "host \<Rightarrow> service \<Rightarrow> ('l, str list) prog" where
  "releases_in_use H svc =
     bind (mapp (unit_release H svc) (s_units svc)) (\<lambda>own.
     bind (mapp (worker_releases H) (s_worker_units svc)) (\<lambda>workers.
     ret (concat own @ concat workers)))"

section \<open>The release a rollback returns to\<close>

record release_target =
  rt_id :: str
  rt_dir :: str
  rt_sha :: "str option"

definition is_release_name :: "str \<Rightarrow> bool" where
  "is_release_name s \<longleftrightarrow>
     (case s of [] \<Rightarrow> False
      | x # r \<Rightarrow> is_alnum x \<and> length r \<le> 99 \<and> list_all (\<lambda>y. is_alnum y \<or> y \<in> set ''._-'') r)"

primrec find_by_sha :: "host \<Rightarrow> service \<Rightarrow> str \<Rightarrow> release_dir list \<Rightarrow> ('l, release_target option) prog" where
  "find_by_sha H svc to [] = ret None"
| "find_by_sha H svc to (r # rs) =
     bind (release_sha H svc (rel_dir r)) (\<lambda>sha.
     case given sha of
       Some s \<Rightarrow>
         (if starts_with s to then ret (Some \<lparr>rt_id = rel_id r, rt_dir = rel_dir r, rt_sha = Some s\<rparr>)
          else find_by_sha H svc to rs)
     | None \<Rightarrow> find_by_sha H svc to rs)"

text \<open>The newest record of a deploy that left a release there still is for the current one.\<close>

fun left_release :: "release_dir list \<Rightarrow> str option \<Rightarrow> json list \<Rightarrow> exc + release_dir option" where
  "left_release list cur [] = Inr None"
| "left_release list cur (r # rs) =
     (if r = JNull then Inl (JsError ''TypeError'')
      else if jget ''result'' r = Some (JStr ''deployed'') \<and> jget ''toRelease'' r = Some (opt_json JStr cur)
              \<and> truthy (jget ''fromRelease'' r) \<and> jget ''fromRelease'' r \<noteq> Some (opt_json JStr cur)
      then (case List.find (\<lambda>x. jget ''fromRelease'' r = Some (JStr (rel_id x))) list of
              Some hit \<Rightarrow> Inr (Some hit)
            | None \<Rightarrow> left_release list cur rs)
      else left_release list cur rs)"

definition target_of :: "host \<Rightarrow> service \<Rightarrow> release_dir \<Rightarrow> ('l, release_target) prog" where
  "target_of H svc r =
     bind (release_sha H svc (rel_dir r)) (\<lambda>sha. ret \<lparr>rt_id = rel_id r, rt_dir = rel_dir r, rt_sha = sha\<rparr>)"

definition rollback_target :: "ctx \<Rightarrow> service \<Rightarrow> current_link \<Rightarrow> str option \<Rightarrow> ('l, release_target) prog" where
  "rollback_target c svc cur to =
     (let H = exec c in
      bind (list_releases H svc) (\<lambda>list.
      case to of
        Some t \<Rightarrow>
          (if \<not> is_release_name t then throw (OpError ''not a release id or sha'' exit_usage None)
           else
             (case List.find (\<lambda>r. rel_id r = t) list of
                Some r \<Rightarrow> target_of H svc r
              | None \<Rightarrow>
                  bind (if is_sha_prefix t then find_by_sha H svc t list else ret None) (\<lambda>hit.
                  case hit of
                    Some h \<Rightarrow> ret h
                  | None \<Rightarrow> throw (OpError ''no such release'' exit_usage None))))
      | None \<Rightarrow>
          bind (list_records c (s_id svc)) (\<lambda>records.
          bind (of_sum (left_release list (cu_id cur) (rev records))) (\<lambda>hit.
          case hit of
            Some r \<Rightarrow> target_of H svc r
          | None \<Rightarrow>
              (case List.find (\<lambda>r. Some (rel_id r) \<noteq> cu_id cur) list of
                 None \<Rightarrow> throw (OpError ''no previous release to roll back to'' exit_usage None)
               | Some r \<Rightarrow> target_of H svc r)))))"

section \<open>The plan\<close>

record layout_item = install_item +
  li_reuse :: "str option"

record socket_note =
  sk_unit :: str
  sk_port :: "int option"
  sk_held :: "bool option"
  sk_changed :: bool

record layout_plan =
  lp_from :: str
  lp_to :: str
  lp_from_release :: str
  lp_to_release :: str
  lp_current_dir :: str
  lp_target_dir :: str
  lp_reuse :: bool
  lp_up_to_date :: bool
  lp_commits :: "str list"
  lp_changed :: "str list"
  lp_code_changed :: "str list"
  lp_lockfile_changed :: bool
  lp_installs :: "layout_item list"
  lp_restart_needed :: bool
  lp_socket :: "socket_note option"
  lp_unit_drift :: "drift list"
  lp_backup_needed :: bool
  lp_sessions :: "count_result option"
  lp_nginx_not_installed :: bool

text \<open>The commit, the release directory and id, and whether a release already made is used again.\<close>

definition layout_target ::
  "ctx \<Rightarrow> service \<Rightarrow> op_mode \<Rightarrow> str option \<Rightarrow> bool \<Rightarrow> current_link \<Rightarrow> ('l, str \<times> str \<times> str \<times> bool) prog" where
  "layout_target c svc mode to fetch cur =
     (let H = exec c; g = git_clone_of svc; rel = s_release svc in
      case mode of
        Deploy \<Rightarrow>
          andthen (whenever fetch (git_fetch H g))
          (bind (git_rev_parse H g (case given to of Some t \<Rightarrow> t | None \<Rightarrow> s_remote svc @ ''/'' @ s_branch svc)) (\<lambda>target.
           bind (exec_now H) (\<lambda>now.
           let tid = new_release_id now target (r_id rel); dir = path_join [r_releases_dir rel, tid] in
           if r_id rel = ''sha12'' \<and> Some tid \<noteq> cu_id cur
           then bind (exec_stat H dir) (\<lambda>st. ret (target, dir, tid, st \<noteq> None))
           else ret (target, dir, tid, False))))
      | Rollback \<Rightarrow>
          bind (rollback_target c svc cur to) (\<lambda>t.
          case given (rt_sha t) of
            None \<Rightarrow> throw (OpError ''cannot tell which commit the release holds'' exit_usage None)
          | Some sha \<Rightarrow> ret (sha, rt_dir t, rt_id t, False)))"

definition layout_drift ::
  "host \<Rightarrow> service \<Rightarrow> git_handle \<Rightarrow> str \<Rightarrow> ('l, drift list \<times> bool) prog" where
  "layout_drift H svc g b =
     foldp (\<lambda>(acc, sock) (u, src).
        bind (git_show H g b src) (\<lambda>want.
        if want = None then ret (acc, sock)
        else
          bind (exec_read H (unit_path u)) (\<lambda>have.
          ret (if have \<noteq> want
               then (acc @ [\<lparr>dr_unit = u, dr_source = src, dr_installed = (have \<noteq> None)\<rparr>],
                     sock \<or> Some u = s_socket_unit svc \<and> have \<noteq> None)
               else (acc, sock))))) ([], False) (s_unit_sources svc)"

definition layout_install ::
  "host \<Rightarrow> service \<Rightarrow> git_handle \<Rightarrow> op_mode \<Rightarrow> bool \<Rightarrow> str \<Rightarrow> str \<Rightarrow> str \<Rightarrow> str option \<Rightarrow> str \<Rightarrow> ('l, layout_item) prog" where
  "layout_install H svc g mode reuse a b curDir curId pkg =
     (if mode = Rollback \<or> reuse then
        ret \<lparr>in_pkg = pkg, in_lockfile_changed = False, in_deps_changed = False, in_needed = False,
             in_missing_modules = False, in_install = False, li_reuse = Some ''its own''\<rparr>
      else
        bind (if b = a then ret no_need else needs_install H g a b pkg (i_lockfile (s_install svc))) (\<lambda>nd.
        bind (exec_stat H (path_join [curDir, pkg, ''node_modules''])) (\<lambda>st.
        let inst = (needed nd \<or> \<not> r_reuse_modules (s_release svc) \<or> st = None) in
        ret \<lparr>in_pkg = pkg, in_lockfile_changed = lockfile_changed nd, in_deps_changed = deps_changed nd,
             in_needed = needed nd, in_missing_modules = (st = None), in_install = inst,
             li_reuse = (if inst then None else curId)\<rparr>)))"

text \<open>\<^verbatim>\<open>svc.release.socketPort || svc.port\<close>\<close>

definition listen_port :: "service \<Rightarrow> int option" where
  "listen_port svc =
     (let real = (\<lambda>p. case p of Some n \<Rightarrow> (if n = 0 then None else Some n) | None \<Rightarrow> None)
      in case real (r_socket_port (s_release svc)) of Some n \<Rightarrow> Some n | None \<Rightarrow> real (s_port svc))"

definition layout_socket :: "host \<Rightarrow> service \<Rightarrow> bool \<Rightarrow> ('l, socket_note option) prog" where
  "layout_socket H svc changed =
     (case given (s_socket_unit svc) of
        None \<Rightarrow> ret None
      | Some u \<Rightarrow>
          bind (case listen_port svc of
                  Some port \<Rightarrow> bind (socket_held H port) (\<lambda>b. ret (Some b))
                | None \<Rightarrow> ret None) (\<lambda>h.
          ret (Some \<lparr>sk_unit = u, sk_port = listen_port svc, sk_held = h, sk_changed = changed\<rparr>)))"

definition repo_vhost_changed :: "service \<Rightarrow> str list \<Rightarrow> bool" where
  "repo_vhost_changed svc changed =
     (case s_nginx svc of
        None \<Rightarrow> False
      | Some n \<Rightarrow> (case given (n_repo_vhost n) of Some v \<Rightarrow> v \<in> set changed | None \<Rightarrow> False))"

definition finish_layout_plan ::
  "ctx \<Rightarrow> service \<Rightarrow> op_mode \<Rightarrow> bool \<Rightarrow> str \<Rightarrow> str \<Rightarrow> str \<Rightarrow> str \<times> str \<times> str \<times> bool \<Rightarrow> ('l, layout_plan) prog" where
  "finish_layout_plan c svc mode rest curDir curId a t =
     (let H = exec c; g = git_clone_of svc; (b, dir, tid, reuse) = t in
      bind (if b = a then ret [] else git_changed_files H g a b) (\<lambda>changed.
      bind (if b = a then ret []
            else case mode of Deploy \<Rightarrow> git_log H g a b | Rollback \<Rightarrow> git_log H g b a) (\<lambda>commits.
      let code = filter (\<lambda>f. \<not> matches_path f (s_no_restart_paths svc)) changed in
      bind (layout_drift H svc g b) (\<lambda>(drifts, sockChanged).
      let need = (s_units svc \<noteq> [] \<and> (rest \<or> code \<noteq> [] \<or> drifts \<noteq> [])) in
      bind (expand_packages H (svc\<lparr>s_repo := curDir\<rparr>)) (\<lambda>dirs.
      bind (mapp (layout_install H svc g mode reuse a b curDir (Some curId)) (if dirs = [] then [''.''] else dirs)) (\<lambda>installs.
      bind (if need then bind (count_protected H svc) (\<lambda>r. ret (Some r)) else ret None) (\<lambda>sessions.
      bind (layout_socket H svc sockChanged) (\<lambda>sock.
      ret \<lparr>lp_from = a, lp_to = b, lp_from_release = curId, lp_to_release = tid, lp_current_dir = curDir,
           lp_target_dir = dir, lp_reuse = reuse,
           lp_up_to_date = (case mode of Deploy \<Rightarrow> b = a | Rollback \<Rightarrow> tid = curId),
           lp_commits = commits, lp_changed = changed, lp_code_changed = code,
           lp_lockfile_changed = list_ex in_lockfile_changed installs, lp_installs = installs,
           lp_restart_needed = need, lp_socket = sock, lp_unit_drift = drifts,
           lp_backup_needed = (s_databases svc \<noteq> [] \<and> list_ex (\<lambda>f. f \<in> set (s_backup_on_change svc)) changed),
           lp_sessions = sessions, lp_nginx_not_installed = repo_vhost_changed svc changed\<rparr>))))))))"

definition layout_compute_plan ::
  "ctx \<Rightarrow> service \<Rightarrow> op_mode \<Rightarrow> str option \<Rightarrow> bool \<Rightarrow> bool \<Rightarrow> ('l, layout_plan) prog" where
  "layout_compute_plan c svc mode to fetch rest =
     (if mode = Deploy \<and> (case to of Some t \<Rightarrow> \<not> is_ref_name t | None \<Rightarrow> False)
      then throw (OpError ''not a sha or ref name'' exit_usage None)
      else
        bind (current_release (exec c) svc) (\<lambda>cur.
        case (cu_dir cur, cu_id cur) of
          (Some curDir, Some curId) \<Rightarrow>
            (case given (cu_sha cur) of
               None \<Rightarrow> throw (OpError ''cannot tell which commit the current release holds'' exit_usage None)
             | Some a \<Rightarrow>
                 bind (exec_stat (exec c) (r_git (s_release svc))) (\<lambda>st.
                 if st = None then throw (OpError ''release.git does not exist'' exit_usage None)
                 else
                   bind (layout_target c svc mode to fetch cur) (\<lambda>t.
                   finish_layout_plan c svc mode rest curDir curId a t)))
        | _ \<Rightarrow> throw (OpError ''current is not a link to a release'' exit_usage None)))"

section \<open>Steps\<close>

definition switch_current :: "ctx \<Rightarrow> service \<Rightarrow> str \<Rightarrow> ('l, unit) prog" where
  "switch_current c svc dir =
     (let H = exec c; link = r_current (s_release svc);
          tmp = path_join [path_dirname link, ''.'' @ path_basename link @ ''.tmp''] in
      andthen (exec_remove H tmp)
      (andthen (exec_symlink H dir tmp)
      (bind (exec_run H ''mv'' [''-T'', ''-f'', tmp, link] as_root) (\<lambda>r.
       whenever (rc r \<noteq> 0) (throw (JsError ''could not switch''))))))"

definition copy_release_unit ::
  "host \<Rightarrow> service \<Rightarrow> str \<Rightarrow> str list \<times> bool \<Rightarrow> str \<times> str \<Rightarrow> ('l, str list \<times> bool) prog" where
  "copy_release_unit H svc dir acc e =
     (let (changed, sock) = acc; (u, src) = e; file = path_join [dir, src] in
      bind (exec_read H file) (\<lambda>want.
      if want = None then ret acc
      else
        bind (exec_read H (unit_path u)) (\<lambda>have.
        if have = want then ret acc
        else
          bind (exec_run H ''install'' [''-m'', ''0644'', ''-D'', file, unit_path u] as_root) (\<lambda>r.
          if rc r \<noteq> 0 then throw (JsError ''could not install the unit file'')
          else ret (changed @ [u], sock \<or> Some u = s_socket_unit svc \<and> have \<noteq> None)))))"

text \<open>\<open>(changed, socketChanged)\<close>\<close>

definition install_release_units :: "ctx \<Rightarrow> service \<Rightarrow> str \<Rightarrow> ('l, str list \<times> bool) prog" where
  "install_release_units c svc dir =
     (let H = exec c in
      bind (foldp (copy_release_unit H svc dir) ([], False) (s_unit_sources svc)) (\<lambda>(changed, sock).
      andthen (whenever (changed \<noteq> [])
        (andthen (daemon_reload H)
        (andthen (case given (s_socket_unit svc) of Some u \<Rightarrow> bind (enable H u) (\<lambda>_. ret ()) | None \<Rightarrow> ret ())
          (each (\<lambda>u. bind (enable H u) (\<lambda>_. ret ())) (s_units svc)))))
      (ret (changed, sock))))"

record restart_result =
  rl_ready :: ready_result
  rl_rebind :: "str option"
  rl_socket_held :: "bool option"

text \<open>Why the socket must be bound again, if it must.\<close>

definition rebind_reason :: "ctx \<Rightarrow> service \<Rightarrow> bool \<Rightarrow> ('l, str option) prog" where
  "rebind_reason c svc socketChanged =
     (case given (s_socket_unit svc) of
        None \<Rightarrow> ret None
      | Some u \<Rightarrow>
          andthen (bind (ensure_socket_active (exec c) u) (\<lambda>_. ret ()))
          (bind (case listen_port svc of Some port \<Rightarrow> socket_held (exec c) port | None \<Rightarrow> ret True) (\<lambda>h.
           ret (if socketChanged then Some ''socket-changed''
                else if \<not> h then Some ''socket-not-held'' else None))))"

definition restart_release ::
  "ctx \<Rightarrow> service \<Rightarrow> bool \<Rightarrow> str option \<Rightarrow> int option \<Rightarrow> ('l, restart_result) prog" where
  "restart_release c svc socketChanged expectSha timeout =
     (let H = exec c; first = (case s_units svc of u # _ \<Rightarrow> u | [] \<Rightarrow> []);
          sock = (case s_socket_unit svc of Some u \<Rightarrow> u | None \<Rightarrow> []) in
      bind (rebind_reason c svc socketChanged) (\<lambda>why.
      bind (case why of
              Some w \<Rightarrow> bind (rebind_socket H first sock w) (\<lambda>_. ret (drop 1 (s_units svc)))
            | None \<Rightarrow> ret (s_units svc)) (\<lambda>us.
      andthen (each (restart H) us)
      (bind (wait_ready c svc timeout expectSha (s_units svc)) (\<lambda>r.
       bind (case (given (s_socket_unit svc), listen_port svc) of
               (Some u, Some port) \<Rightarrow>
                 (if rr_ok r then bind (socket_held H port) (\<lambda>b. ret (Some b)) else ret None)
             | _ \<Rightarrow> ret None) (\<lambda>h.
       ret \<lparr>rl_ready = r, rl_rebind = why, rl_socket_held = h\<rparr>))))))"

text \<open>Which releases pruning removes: beyond the newest \<open>keep\<close>, those nothing needs.\<close>

definition prune_choice :: "nat \<Rightarrow> str option \<Rightarrow> str list \<Rightarrow> str list \<Rightarrow> release_dir list \<Rightarrow> release_dir list" where
  "prune_choice n cur keepIds inUse list =
     filter (\<lambda>r. Some (rel_id r) \<noteq> cur \<and> rel_id r \<notin> set keepIds \<and> rel_id r \<notin> set inUse) (drop n list)"

definition remove_release :: "host \<Rightarrow> service \<Rightarrow> release_dir \<Rightarrow> ('l, unit) prog" where
  "remove_release H svc r =
     bind (git_worktree_remove H (git_clone_of svc) (rel_dir r)) (\<lambda>gone.
     whenever (\<not> gone) (bind (exec_run H ''rm'' [''-rf'', ''--'', rel_dir r] as_root) (\<lambda>_. ret ())))"

definition prune_releases :: "ctx \<Rightarrow> service \<Rightarrow> str list \<Rightarrow> ('l, str list) prog" where
  "prune_releases c svc keepIds =
     (let H = exec c in
      bind (list_releases H svc) (\<lambda>list.
      bind (current_release H svc) (\<lambda>cur.
      bind (releases_in_use H svc) (\<lambda>inUse.
      let gone = prune_choice (r_keep (s_release svc)) (cu_id cur) keepIds inUse list in
      andthen (each (remove_release H svc) gone)
      (andthen (git_worktree_prune H (git_clone_of svc)) (ret (map rel_id gone)))))))"

section \<open>Preparing a release\<close>

definition make_link :: "host \<Rightarrow> str \<Rightarrow> str \<times> str \<Rightarrow> ('l, unit) prog" where
  "make_link H dir e =
     (let (name, target) = e; place = path_join [dir, name] in
      bind (exec_readlink H place) (\<lambda>old.
      whenever (given old = None)
        (bind (exec_stat H place) (\<lambda>st.
         andthen (whenever (st \<noteq> None) (bind (exec_run H ''rm'' [''-rf'', ''--'', place] as_root) (\<lambda>_. ret ())))
           (exec_symlink H target place)))))"

definition fill_modules :: "ctx \<Rightarrow> service \<Rightarrow> service \<Rightarrow> layout_plan \<Rightarrow> layout_item \<Rightarrow> (engine_state, unit) prog" where
  "fill_modules c svc rsvc p i =
     (let H = exec c; dir = lp_target_dir p in
      if in_install i then
        andthen (install c rsvc (git_release_of svc dir) (in_pkg i)) (modl (note_installed (in_pkg i)))
      else
        bind (exec_run H ''cp'' [''-al'', path_join [lp_current_dir p, in_pkg i, ''node_modules''],
                path_join [dir, in_pkg i, ''node_modules'']] (as_owner (s_owner svc))) (\<lambda>r.
        whenever (rc r \<noteq> 0) (throw (JsError ''cp -al node_modules failed''))))"

definition make_release :: "ctx \<Rightarrow> service \<Rightarrow> service \<Rightarrow> layout_plan \<Rightarrow> (engine_state, unit) prog" where
  "make_release c svc rsvc p =
     (let H = exec c in
      andthen (exec_mkdir H (r_releases_dir (s_release svc)) None)
      (andthen (git_worktree_add H (git_clone_of svc) (lp_target_dir p) (lp_to p))
      (andthen (modl (\<lambda>s. s\<lparr>ly_prepared := Some (lp_to_release p)\<rparr>))
      (andthen (each (make_link H (lp_target_dir p)) (r_links (s_release svc)))
        (each (fill_modules c svc rsvc p) (lp_installs p))))))"

text \<open>The service as it is inside the new release: its directory, and no lockfile to put back.\<close>

definition release_service :: "service \<Rightarrow> str \<Rightarrow> service" where
  "release_service svc dir =
     svc\<lparr>s_repo := dir, s_install := (s_install svc)\<lparr>i_restore_lockfile := False\<rparr>\<rparr>"

definition chown_release :: "host \<Rightarrow> service \<Rightarrow> str \<Rightarrow> ('l, unit) prog" where
  "chown_release H svc dir =
     (case given (r_chown (s_release svc)) of
        None \<Rightarrow> ret ()
      | Some owner \<Rightarrow>
          bind (exec_run H ''chown'' [''-R'', owner, dir] as_root) (\<lambda>r.
          whenever (rc r \<noteq> 0) (throw (JsError ''chown failed''))))"

definition prepare_release :: "ctx \<Rightarrow> service \<Rightarrow> layout_plan \<Rightarrow> (engine_state, unit) prog" where
  "prepare_release c svc p =
     (let dir = lp_target_dir p; rsvc = release_service svc dir in
      andthen (whenever (\<not> lp_reuse p) (make_release c svc rsvc p))
      (bind (checked_deps c rsvc (git_release_of svc dir)) (\<lambda>dirs.
       andthen (checked_preflight c rsvc dir (lp_changed p) dirs)
         (chown_release (exec c) svc dir))))"

section \<open>Deploy and rollback\<close>

record layout_outcome =
  lo_exit :: nat
  lo_plan :: layout_plan

text \<open>A release that was prepared and will not be used is removed again.\<close>

definition discard_prepared :: "ctx \<Rightarrow> service \<Rightarrow> str \<Rightarrow> (engine_state, unit) prog" where
  "discard_prepared c svc dir =
     bind getl (\<lambda>s.
     whenever (ly_prepared s \<noteq> None)
       (bind (git_worktree_remove (exec c) (git_clone_of svc) dir) (\<lambda>_.
        modl (\<lambda>s. s\<lparr>ly_removed_prepared := True\<rparr>))))"

definition prepare_failed :: "ctx \<Rightarrow> service \<Rightarrow> str \<Rightarrow> exc \<Rightarrow> (engine_state, unit) prog" where
  "prepare_failed c svc dir e =
     andthen (discard_prepared c svc dir)
       (throw (OpError ''the release was not made; nothing restarted''
          (case e of OpError m x r \<Rightarrow> x | _ \<Rightarrow> exit_validation) None))"

definition switch_to :: "ctx \<Rightarrow> service \<Rightarrow> layout_plan \<Rightarrow> str \<Rightarrow> (engine_state, unit) prog" where
  "switch_to c svc p dir =
     whenever (dir \<noteq> lp_current_dir p)
       (andthen (switch_current c svc dir) (modl (\<lambda>s. s\<lparr>ly_switched := True\<rparr>)))"

definition finish_deploy ::
  "ctx \<Rightarrow> service \<Rightarrow> op_mode \<Rightarrow> layout_plan \<Rightarrow> (engine_state, layout_outcome) prog" where
  "finish_deploy c svc mode p =
     andthen (modl (set_result (success_name mode)))
     (andthen (whenever (mode = Deploy)
       (bind (prune_releases c svc [lp_from_release p]) (\<lambda>gone. modl (\<lambda>s. s\<lparr>ly_pruned := Some gone\<rparr>))))
     (ret \<lparr>lo_exit = exit_ok, lo_plan = p\<rparr>))"

definition switch_only ::
  "ctx \<Rightarrow> service \<Rightarrow> op_mode \<Rightarrow> layout_plan \<Rightarrow> str \<Rightarrow> (engine_state, layout_outcome) prog" where
  "switch_only c svc mode p dir =
     andthen (switch_to c svc p dir)
     (if s_ready svc = None then finish_deploy c svc mode p
      else
        andthen (exec_sleep (exec c) (r_settle_seconds (s_release svc) * 1000))
        (bind (ready_probe (exec c) svc) (\<lambda>pr.
         andthen (modl (\<lambda>s. s\<lparr>os_ready := pr_ok pr\<rparr>))
         (if pr_ok pr = Some True then finish_deploy c svc mode p
          else
            andthen (switch_current c svc (lp_current_dir p))
            (bind (ready_probe (exec c) svc) (\<lambda>back.
             andthen (modl (\<lambda>s. s\<lparr>os_rollback_to := Some (lp_from_release p), os_rollback_ready := pr_ok back\<rparr>))
             (andthen (modl (set_result ''failed-rolled-back''))
               (ret \<lparr>lo_exit = exit_rolled_back, lo_plan = p\<rparr>))))))))"

definition guard_release ::
  "ctx \<Rightarrow> service \<Rightarrow> op_opts \<Rightarrow> layout_plan \<Rightarrow> str \<Rightarrow> (engine_state, unit) prog" where
  "guard_release c svc opts p dir =
     try_catch
       (andthen (guarded c svc opts ''before the switch'')
          (whenever (lp_backup_needed p)
             (andthen (backup_before_restart c svc)
               (guarded c svc opts ''immediately before the restart''))))
       (\<lambda>e. andthen (discard_prepared c svc dir) (throw e))"

definition switch_back ::
  "ctx \<Rightarrow> service \<Rightarrow> op_opts \<Rightarrow> layout_plan \<Rightarrow> (engine_state, layout_outcome) prog" where
  "switch_back c svc opts p =
     andthen (modl (\<lambda>s. s\<lparr>os_rollback_to := Some (lp_from_release p)\<rparr>))
     (bind (try_catch
        (bind getl (\<lambda>s.
         andthen (whenever (ly_switched s) (switch_current c svc (lp_current_dir p)))
         (bind (install_release_units c svc (lp_current_dir p)) (\<lambda>(changed, sock).
          bind (restart_release c svc sock (Some (lp_from p)) (op_ready_timeout opts)) (\<lambda>b.
          andthen (modl (\<lambda>s. s\<lparr>os_rollback_ready := Some (rr_ok (rl_ready b))\<rparr>))
          (if rr_ok (rl_ready b)
           then andthen (modl (set_result ''failed-rolled-back'')) (ret exit_rolled_back)
           else andthen (modl (set_result ''rollback-failed'')) (ret exit_rollback_failed)))))))
        (\<lambda>e. andthen (modl (\<lambda>s. (set_result ''rollback-failed'' s)\<lparr>os_error := Some (exc_message e)\<rparr>))
               (ret exit_rollback_failed))) (\<lambda>code.
      ret \<lparr>lo_exit = code, lo_plan = p\<rparr>))"

definition note_restart :: "restart_result \<Rightarrow> engine_state \<Rightarrow> engine_state" where
  "note_restart r s =
     s\<lparr>os_restarted := True, os_ready := Some (rr_ok (rl_ready r)),
       ly_socket_rebind := (case rl_rebind r of Some w \<Rightarrow> Some w | None \<Rightarrow> ly_socket_rebind s),
       ly_socket_held := (case rl_socket_held r of Some h \<Rightarrow> Some h | None \<Rightarrow> ly_socket_held s)\<rparr>"

definition switch_and_restart ::
  "ctx \<Rightarrow> service \<Rightarrow> op_mode \<Rightarrow> op_opts \<Rightarrow> layout_plan \<Rightarrow> str \<Rightarrow> (engine_state, layout_outcome) prog" where
  "switch_and_restart c svc mode opts p dir =
     andthen (switch_to c svc p dir)
     (bind (install_release_units c svc dir) (\<lambda>(changed, sock).
      andthen (modl (\<lambda>s. s\<lparr>os_units_installed := Some changed\<rparr>))
      (bind (restart_release c svc sock (Some (lp_to p)) (op_ready_timeout opts)) (\<lambda>r.
       andthen (modl (note_restart r))
       (if rr_ok (rl_ready r) then finish_deploy c svc mode p else switch_back c svc opts p)))))"

definition layout_steps ::
  "ctx \<Rightarrow> service \<Rightarrow> op_mode \<Rightarrow> op_opts \<Rightarrow> layout_plan \<Rightarrow> (engine_state, layout_outcome) prog" where
  "layout_steps c svc mode opts p =
     (let dir = (if lp_up_to_date p then lp_current_dir p else lp_target_dir p) in
      andthen (whenever (mode = Deploy \<and> \<not> lp_up_to_date p)
        (try_catch (prepare_release c svc p) (prepare_failed c svc (lp_target_dir p))))
      (if op_prepare_only opts
       then andthen (modl (set_result ''prepared'')) (ret \<lparr>lo_exit = exit_ok, lo_plan = p\<rparr>)
       else if \<not> lp_restart_needed p then switch_only c svc mode p dir
       else andthen (guard_release c svc opts p dir) (switch_and_restart c svc mode opts p dir)))"

definition note_layout_plan :: "layout_plan \<Rightarrow> engine_state \<Rightarrow> engine_state" where
  "note_layout_plan p s =
     s\<lparr>os_from := Some (lp_from p), os_to := Some (lp_to p), ly_from_release := Some (lp_from_release p),
       ly_to_release := Some (lp_to_release p), os_commits := length (lp_commits p),
       os_lockfile_changed := lp_lockfile_changed p, os_restart_needed := Some (lp_restart_needed p)\<rparr>"

definition layout_body :: "ctx \<Rightarrow> service \<Rightarrow> op_mode \<Rightarrow> op_opts \<Rightarrow> (engine_state, layout_outcome) prog" where
  "layout_body c svc mode opts =
     andthen (take_host_lock c svc)
     (bind (layout_compute_plan c svc mode (op_to opts) (op_fetch opts) (op_restart opts)) (\<lambda>p.
      andthen (modl (note_layout_plan p))
      (if lp_up_to_date p \<and> \<not> op_restart opts
       then andthen (modl (\<lambda>s. (set_result ''unchanged'' s)\<lparr>os_write := False\<rparr>)) (ret \<lparr>lo_exit = exit_ok, lo_plan = p\<rparr>)
       else layout_steps c svc mode opts p)))"

definition layout_json :: "service \<Rightarrow> op_mode \<Rightarrow> engine_state \<Rightarrow> json" where
  "layout_json svc mode s =
     JObj ([(''id'', JStr (os_id s)), (''service'', JStr (s_id svc)), (''strategy'', JStr (s_strategy svc)),
        (''layout'', JStr ''release''), (''action'', JStr (mode_name mode)), (''startedAt'', JStr (os_started s)),
        (''operator'', JStr (os_operator s)), (''host'', JStr (os_hostname s)), (''from'', opt_json JStr (os_from s)),
        (''to'', opt_json JStr (os_to s)), (''fromRelease'', opt_json JStr (ly_from_release s)),
        (''toRelease'', opt_json JStr (ly_to_release s)), (''commits'', JNum (of_nat (os_commits s))),
        (''lockfileChanged'', JBool (os_lockfile_changed s)), (''installed'', names_json (os_installed s)),
        (''depsVerified'', opt_json JBool (os_deps_verified s)), (''restartNeeded'', opt_json JBool (os_restart_needed s)),
        (''switched'', JBool (ly_switched s)), (''restarted'', JBool (os_restarted s)), (''ready'', opt_json JBool (os_ready s)),
        (''forced'', JBool (os_forced s)), (''result'', opt_json JStr (os_result s))]
      @ field ''prepared'' (map_option JStr (ly_prepared s)) @ listed ''depsRepaired'' (os_deps_repaired s)
      @ field ''preflight'' (map_option preflight_json (os_preflight s))
      @ marked ''removedPrepared'' (ly_removed_prepared s)
      @ field ''protectedSessions'' (map_option (sessions_json svc) (os_sessions s))
      @ field ''backup'' (map_option (\<lambda>fs. JArr (map (opt_json JStr) fs)) (os_backup s))
      @ field ''unitsInstalled'' (map_option names_json (os_units_installed s))
      @ field ''socketRebind'' (map_option JStr (ly_socket_rebind s))
      @ field ''socketHeld'' (map_option JBool (ly_socket_held s))
      @ field ''pruned'' (map_option names_json (ly_pruned s)) @ rollback_json s
      @ field ''error'' (map_option JStr (os_error s)) @ field ''finishedAt'' (map_option JStr (os_finished s)))"

definition apply_layout :: "ctx \<Rightarrow> service \<Rightarrow> op_mode \<Rightarrow> op_opts \<Rightarrow> (engine_state, layout_outcome) prog" where
  "apply_layout c svc mode opts =
     (if \<not> s_managed svc then throw (OpError ''not managed by ovhost'' exit_usage None)
      else
        bind (lock_acquire c (s_id svc)) (\<lambda>(file, stale).
        bind (open_record c) (\<lambda>b.
        andthen (modl (\<lambda>_. fresh b))
          (run_operation c (s_id svc) file (layout_json svc mode) (layout_body c svc mode opts)))))"

section \<open>Footprints\<close>

lemma release_service_commands [simp]: "commands_ok (release_service svc dir) = commands_ok svc"
  by (simp add: commands_ok_def release_service_def)

context event_class
begin

lemma emits_release_sha [emits_rules]: "emits A (release_sha H svc dir)"
  unfolding release_sha_def by (intro emits_rules)

lemma emits_current_release [emits_rules]: "emits A (current_release H svc)"
  unfolding current_release_def Let_def by (intro emits_rules) simp_all

lemma emits_list_releases [emits_rules]: "emits A (list_releases H svc)"
  unfolding list_releases_def Let_def by (intro emits_rules) simp_all

lemma emits_releases_in_use [emits_rules]: "emits A (releases_in_use H svc)"
  unfolding releases_in_use_def unit_release_def worker_releases_def by (intro emits_rules) simp_all

lemma emits_find_by_sha [emits_rules]: "emits A (find_by_sha H svc to rs)"
  by (induction rs) (auto intro!: emits_rules)

lemma emits_rollback_target [emits_rules]: "emits A (rollback_target c svc cur to)"
  unfolding rollback_target_def target_of_def Let_def by (intro emits_rules)

lemma emits_layout_target [emits_rules]: "emits A (layout_target c svc mode to fetch cur)"
  unfolding layout_target_def Let_def by (cases mode) (simp_all, (intro emits_rules; simp)+)

lemma emits_finish_layout_plan [emits_rules]: "emits A (finish_layout_plan c svc mode rest d i a t)"
  unfolding finish_layout_plan_def layout_drift_def layout_install_def layout_socket_def Let_def
  by (intro emits_rules; simp split: op_mode.split add: emits_rules)+

lemma emits_layout_compute_plan [emits_rules]: "emits A (layout_compute_plan c svc mode to fetch rest)"
  unfolding layout_compute_plan_def by (intro emits_rules) simp

lemma emits_switch_current [emits_rules]: "emits A (switch_current c svc dir)"
  unfolding switch_current_def Let_def by (intro emits_rules) simp_all

lemma emits_switch_to [emits_rules]: "emits A (switch_to c svc p dir)"
  unfolding switch_to_def by (intro emits_rules)

lemma emits_prune_releases [emits_rules]: "emits A (prune_releases c svc keepIds)"
  unfolding prune_releases_def remove_release_def Let_def by (intro emits_rules) simp_all

lemma emits_prepare_release [emits_rules]: "commands_ok svc \<Longrightarrow> emits A (prepare_release c svc p)"
  unfolding prepare_release_def make_release_def make_link_def fill_modules_def chown_release_def Let_def
  by (intro emits_rules) (simp_all, simp add: commands_ok_def release_service_def)

lemma emits_discard_prepared [emits_rules]: "emits A (discard_prepared c svc dir)"
  unfolding discard_prepared_def by (intro emits_rules)

lemma emits_prepare_failed [emits_rules]: "emits A (prepare_failed c svc dir e)"
  unfolding prepare_failed_def by (intro emits_rules)

lemma emits_finish_deploy [emits_rules]: "emits A (finish_deploy c svc mode p)"
  unfolding finish_deploy_def by (intro emits_rules)

lemma emits_switch_only [emits_rules]: "emits A (switch_only c svc mode p dir)"
  unfolding switch_only_def by (intro emits_rules) simp_all

lemma emits_guard_release [emits_rules]: "emits A (guard_release c svc opts p dir)"
  unfolding guard_release_def by (intro emits_rules)

end

context service_class
begin

lemma emits_install_release_units [emits_rules]:
  "units_named svc \<Longrightarrow> emits A (install_release_units c svc dir)"
  unfolding install_release_units_def copy_release_unit_def units_named_def Let_def
  by (intro emits_rules) (auto simp: given_def split: if_splits)

lemma emits_rebind_reason [emits_rules]: "emits A (rebind_reason c svc b)"
  unfolding rebind_reason_def by (intro emits_rules) (auto simp: given_def split: if_splits)

end

end
