(* ===== verification/Envfile.thy ===== *)
theory Envfile
  imports Json
begin

text \<open>
  Environment files and unit files, \<^verbatim>\<open>lib/envfile.js\<close>: the names they declare, never their
  values; the directives a drill needs; and unit text with its secrets redacted. A line holds no line
  feed; the dot of a pattern does not match a carriage return.
\<close>

section \<open>Assignments\<close>

definition is_identifier :: "str \<Rightarrow> bool" where
  "is_identifier n \<longleftrightarrow> n \<noteq> [] \<and> \<not> is_digit (hd n) \<and> list_all is_word n"

text \<open>\<^verbatim>\<open>([A-Za-z_][A-Za-z0-9_]*)\s*=(.*)$\<close>: the name and the value.\<close>

definition name_value :: "str \<Rightarrow> (str \<times> str) option" where
  "name_value l =
     (let n = takeWhile is_word l; r = trim_start (dropWhile is_word l) in
      if is_identifier n \<and> starts_with r ''='' \<and> CHR 0x0D \<notin> set (drop 1 r) then Some (n, drop 1 r) else None)"

definition after_export :: "str \<Rightarrow> str option" where
  "after_export l =
     (let r = drop 6 l in
      if starts_with l ''export'' \<and> r \<noteq> [] \<and> is_ws (hd r) then Some (trim_start r) else None)"

text \<open>\<^verbatim>\<open>LINE_RE\<close>: the export is optional, and may itself be the name.\<close>

definition line_assignment :: "str \<Rightarrow> (str \<times> str) option" where
  "line_assignment line =
     (let l = trim_start line in
      case after_export l of
        Some r \<Rightarrow> (case name_value r of Some nv \<Rightarrow> Some nv | None \<Rightarrow> name_value l)
      | None \<Rightarrow> name_value l)"

text \<open>\<^verbatim>\<open>v.replace(/(^|\s+)#.*$/, '')\<close>: cut where the first comment begins.\<close>

fun cut_comment :: "str \<Rightarrow> str" where
  "cut_comment [] = []"
| "cut_comment (c # s) =
     (if is_ws c \<and> starts_with (dropWhile is_ws s) ''#'' then [] else c # cut_comment s)"

definition strip_comment :: "str \<Rightarrow> str" where
  "strip_comment v = (if starts_with v ''#'' then [] else cut_comment v)"

definition is_quoted_by :: "char \<Rightarrow> str \<Rightarrow> bool" where
  "is_quoted_by q v \<longleftrightarrow> 2 \<le> length v \<and> hd v = q \<and> last v = q"

definition dquote :: char where "dquote = CHR 0x22"
definition squote :: char where "squote = CHR 0x27"

definition is_empty_value :: "str \<Rightarrow> bool" where
  "is_empty_value raw =
     (let v = trim raw;
          v1 = (if starts_with v [dquote] \<or> starts_with v [squote] then v else strip_comment v);
          v2 = (if is_quoted_by dquote v1 \<or> is_quoted_by squote v1 then butlast (tl v1) else v1)
      in trim v2 = [])"

text \<open>A name assigned twice keeps its first place and its last emptiness.\<close>

fun collect_names :: "(str \<times> bool) list \<Rightarrow> str list \<Rightarrow> (str \<times> bool) list" where
  "collect_names seen [] = seen"
| "collect_names seen (l # ls) =
     (case line_assignment l of
        None \<Rightarrow> collect_names seen ls
      | Some (n, v) \<Rightarrow> collect_names (obj_put n (is_empty_value v) seen) ls)"

definition parse_names :: "str \<Rightarrow> (str \<times> bool) list" where
  "parse_names text = collect_names [] (lines text)"

section \<open>Examples\<close>

definition is_upper_word :: "char \<Rightarrow> bool" where
  "is_upper_word c \<longleftrightarrow> is_upper c \<or> is_digit c \<or> c = CHR ''_''"

text \<open>\<^verbatim>\<open>/^\s*#\s*(?:export\s+)?([A-Z][A-Z0-9_]*)=/\<close>\<close>

definition commented_name :: "str \<Rightarrow> str option" where
  "commented_name line =
     (let l = trim_start line; r = trim_start (drop 1 l);
          r1 = (case after_export r of Some x \<Rightarrow> x | None \<Rightarrow> r); n = takeWhile is_upper_word r1 in
      if starts_with l ''#'' \<and> n \<noteq> [] \<and> is_upper (hd n) \<and> starts_with (dropWhile is_upper_word r1) ''=''
      then Some n else None)"

definition put_new :: "'a \<Rightarrow> 'a list \<Rightarrow> 'a list" where
  "put_new x xs = (if x \<in> set xs then xs else xs @ [x])"

fun scan_example :: "str list \<Rightarrow> str list \<Rightarrow> str list \<Rightarrow> str list \<times> str list" where
  "scan_example declared commented [] = (declared, filter (\<lambda>n. n \<notin> set declared) commented)"
| "scan_example declared commented (l # ls) =
     (case line_assignment l of
        Some (n, v) \<Rightarrow> scan_example (put_new n declared) commented ls
      | None \<Rightarrow>
          (case commented_name l of
             Some n \<Rightarrow> scan_example declared (put_new n commented) ls
           | None \<Rightarrow> scan_example declared commented ls))"

definition parse_example :: "str \<Rightarrow> str list \<times> str list" where
  "parse_example text = scan_example [] [] (lines text)"

section \<open>Unit files\<close>

text \<open>Words, where a quote of either kind holds a text together; a quote left open runs to the end.\<close>

fun split_words :: "str \<Rightarrow> char option \<Rightarrow> str \<Rightarrow> str list" where
  "split_words cur q [] = (if cur = [] then [] else [rev cur])"
| "split_words cur (Some q) (c # s) =
     (if c = q then split_words cur None s else split_words (c # cur) (Some q) s)"
| "split_words cur None (c # s) =
     (if c = dquote \<or> c = squote then split_words cur (Some c) s
      else if is_ws c then (if cur = [] then split_words [] None s else rev cur # split_words [] None s)
      else split_words (c # cur) None s)"

definition split_assignments :: "str \<Rightarrow> str list" where
  "split_assignments s = split_words [] None s"

text \<open>\<^verbatim>\<open>/^(\s*Environment=)(.*)$/\<close>: what stands before the assignments, and they.\<close>

definition directive :: "str \<Rightarrow> str \<Rightarrow> (str \<times> str) option" where
  "directive key line =
     (let ws = takeWhile is_ws line; l = dropWhile is_ws line; v = drop (Suc (length key)) l in
      if starts_with l (key @ ''='') \<and> CHR 0x0D \<notin> set v then Some (ws @ key @ ''='', v) else None)"

definition assigned_name :: "str \<Rightarrow> str option" where
  "assigned_name part =
     (let n = takeWhile is_word part in
      if is_identifier n \<and> starts_with (dropWhile is_word part) ''='' then Some n else None)"

definition unit_environment_names :: "str \<Rightarrow> str list" where
  "unit_environment_names text =
     foldl (\<lambda>names l.
        case directive ''Environment'' l of
          None \<Rightarrow> names
        | Some (pre, v) \<Rightarrow>
            foldl (\<lambda>ns p. case assigned_name p of Some n \<Rightarrow> put_new n ns | None \<Rightarrow> ns) names (split_assignments v))
       [] (lines text)"

record unit_directives =
  ud_exec :: "str list option"
  ud_raw_exec :: "str option"
  ud_workdir :: "str option"
  ud_user :: "str option"
  ud_env :: "(str \<times> str) list"

definition filled :: "str \<Rightarrow> str option" where
  "filled s = (if s = [] then None else Some s)"

text \<open>The last assignment of a name wins and takes the last place.\<close>

definition add_env :: "(str \<times> str) list \<Rightarrow> str \<Rightarrow> (str \<times> str) list" where
  "add_env env part =
     (case index_of (CHR ''='') part of
        Some i \<Rightarrow>
          (if 0 < i then filter (\<lambda>e. fst e \<noteq> take i part) env @ [(take i part, drop (Suc i) part)] else env)
      | None \<Rightarrow> env)"

definition exec_prefix :: "char \<Rightarrow> bool" where
  "exec_prefix c \<longleftrightarrow> c \<in> set ''-@:+!''"

definition add_directive :: "unit_directives \<Rightarrow> str \<Rightarrow> unit_directives" where
  "add_directive d line =
     (case directive ''ExecStart'' line of
        Some (pre, v0) \<Rightarrow>
          (let v = trim v0 in
           d\<lparr>ud_raw_exec := filled v,
             ud_exec := (if v = [] then None else Some (split_assignments (dropWhile exec_prefix v)))\<rparr>)
      | None \<Rightarrow>
          (case directive ''WorkingDirectory'' line of
             Some (pre, v0) \<Rightarrow>
               (let v = trim v0 in d\<lparr>ud_workdir := filled (if starts_with v ''-'' then drop 1 v else v)\<rparr>)
           | None \<Rightarrow>
               (case directive ''User'' line of
                  Some (pre, v0) \<Rightarrow> d\<lparr>ud_user := filled (trim v0)\<rparr>
                | None \<Rightarrow>
                    (case directive ''Environment'' line of
                       Some (pre, v0) \<Rightarrow> d\<lparr>ud_env := foldl add_env (ud_env d) (split_assignments (trim v0))\<rparr>
                     | None \<Rightarrow> d))))"

definition unit_directives_of :: "str list \<Rightarrow> unit_directives" where
  "unit_directives_of texts =
     foldl add_directive \<lparr>ud_exec = None, ud_raw_exec = None, ud_workdir = None, ud_user = None, ud_env = []\<rparr>
       (concat (map lines texts))"

section \<open>Redaction\<close>

definition secret_words :: "str list" where
  "secret_words =
     [''SECRET'', ''PASSWORD'', ''PASSWD'', ''TOKEN'', ''KEY'', ''CREDENTIAL'', ''PRIVATE'', ''COOKIE'', ''SALT'', ''DSN'']"

definition is_secret_name :: "str \<Rightarrow> bool" where
  "is_secret_name n \<longleftrightarrow>
     (let u = map upper_char n in list_ex (str_includes u) secret_words \<or> ends_with u ''PASS'')"

definition redact_assignment :: "str \<Rightarrow> str" where
  "redact_assignment a =
     (case index_of (CHR ''='') a of
        None \<Rightarrow> a
      | Some i \<Rightarrow> (if is_secret_name (take i a) then take i a @ ''=<redacted>'' else a))"

definition quote_part :: "str \<Rightarrow> str" where
  "quote_part p = (if list_ex is_ws p then [dquote] @ p @ [dquote] else p)"

definition redact_line :: "str \<Rightarrow> str" where
  "redact_line line =
     (case directive ''Environment'' line of
        None \<Rightarrow> line
      | Some (pre, v) \<Rightarrow> pre @ join '' '' (map (\<lambda>a. quote_part (redact_assignment a)) (split_assignments v)))"

definition redact_unit :: "str \<Rightarrow> str" where
  "redact_unit text = join [CHR 0x0A] (map redact_line (lines text))"

section \<open>Properties\<close>

lemma keys_obj_put: "map fst (obj_put k v kvs) = put_new k (map fst kvs)"
  by (induction kvs) (force simp: put_new_def)+

lemma distinct_put_new: "distinct xs \<Longrightarrow> distinct (put_new x xs)"
  by (simp add: put_new_def)

definition assigned_values :: "str \<Rightarrow> str \<Rightarrow> str list" where
  "assigned_values text n =
     map snd (filter (\<lambda>nv. fst nv = n) (List.map_filter line_assignment (lines text)))"

lemma collect_names_map:
  "map_of (collect_names seen ls) n =
     (case rev (map snd (filter (\<lambda>nv. fst nv = n) (List.map_filter line_assignment ls))) of
        [] \<Rightarrow> map_of seen n | v # vs \<Rightarrow> Some (is_empty_value v))"
proof (induction ls arbitrary: seen)
  case (Cons l ls)
  show ?case
  proof (cases "line_assignment l")
    case (Some nv)
    then show ?thesis
      by (cases nv, cases "rev (map snd (filter (\<lambda>nv. fst nv = n) (List.map_filter line_assignment ls)))")
        (auto simp: Cons.IH map_of_obj_put map_filter_simps)
  qed (simp add: Cons.IH map_filter_simps)
qed (simp add: map_filter_simps)

lemma line_assignment_identifier: "line_assignment l = Some (n, v) \<Longrightarrow> is_identifier n"
  unfolding line_assignment_def name_value_def by (auto simp: Let_def split: option.splits if_splits)

lemma put_new_keys: "fst ` set (obj_put n b seen) = insert n (fst ` set seen)"
  using arg_cong [OF keys_obj_put [of n b seen], of set] by (auto simp: put_new_def split: if_splits)

lemma collect_names_keys:
  "distinct (map fst seen) \<Longrightarrow> \<forall>n \<in> fst ` set seen. is_identifier n \<Longrightarrow>
   distinct (map fst (collect_names seen ls)) \<and> (\<forall>n \<in> fst ` set (collect_names seen ls). is_identifier n)"
proof (induction ls arbitrary: seen)
  case (Cons l ls)
  show ?case
  proof (cases "line_assignment l")
    case (Some nv)
    obtain n v where nv: "nv = (n, v)" by (cases nv)
    from Some nv have step: "collect_names seen (l # ls) = collect_names (obj_put n (is_empty_value v) seen) ls" by simp
    have "distinct (map fst (obj_put n (is_empty_value v) seen))"
      unfolding keys_obj_put by (rule distinct_put_new [OF Cons.prems(1)])
    moreover have "\<forall>m \<in> fst ` set (obj_put n (is_empty_value v) seen). is_identifier m"
      unfolding put_new_keys using Cons.prems(2) line_assignment_identifier [of l n v] Some nv by blast
    ultimately show ?thesis unfolding step by (rule Cons.IH)
  qed (use Cons in simp)
qed simp

text \<open>
  What \<^verbatim>\<open>parseNames\<close> says of an environment file: each name once, only
  identifiers, and a name counts as empty exactly when the last value assigned to it is empty.
\<close>

theorem parse_names_last_value:
  "distinct (map fst (parse_names text)) \<and> list_all (\<lambda>x. is_identifier (fst x)) (parse_names text) \<and>
   map_of (parse_names text) n =
     (case rev (assigned_values text n) of [] \<Rightarrow> None | v # vs \<Rightarrow> Some (is_empty_value v))"
  unfolding parse_names_def assigned_values_def collect_names_map map_of.simps
  using collect_names_keys [of "[]" "lines text"] by (simp add: list_all_iff)

text \<open>Words without quotes, each in quotes of its own when it has white space, split into themselves.\<close>

definition plain_word :: "str \<Rightarrow> bool" where
  "plain_word p \<longleftrightarrow> p \<noteq> [] \<and> dquote \<notin> set p \<and> squote \<notin> set p"

lemma split_quoted: "dquote \<notin> set p \<Longrightarrow> split_words cur (Some dquote) (p @ dquote # s) = split_words (rev p @ cur) None s"
  by (induction p arbitrary: cur) auto

lemma split_plain:
  "dquote \<notin> set p \<Longrightarrow> squote \<notin> set p \<Longrightarrow> \<not> list_ex is_ws p \<Longrightarrow>
   split_words cur None (p @ s) = split_words (rev p @ cur) None s"
  by (induction p arbitrary: cur) auto

lemma split_part: "plain_word p \<Longrightarrow> split_words [] None (quote_part p @ s) = split_words (rev p) None s"
  unfolding plain_word_def quote_part_def by (auto simp: split_quoted split_plain)

lemma space_ws: "is_ws (CHR 0x20)" "CHR 0x20 \<noteq> dquote" "CHR 0x20 \<noteq> squote"
  by (simp_all add: is_ws_def dquote_def squote_def)

lemma split_joined: "\<forall>p \<in> set ps. plain_word p \<Longrightarrow> split_words [] None (join '' '' (map quote_part ps)) = ps"
proof (induction ps rule: induct_list012)
  case (2 p)
  then show ?case using split_part [of p "[]"] by (simp add: plain_word_def)
next
  case (3 p q ps)
  then have p: "plain_word p" "rev p \<noteq> []" by (simp_all add: plain_word_def)
  have "split_words [] None (quote_part p @ CHR 0x20 # join '' '' (map quote_part (q # ps))) =
      split_words (rev p) None (CHR 0x20 # join '' '' (map quote_part (q # ps)))"
    by (rule split_part [OF p(1)])
  also have "\<dots> = p # split_words [] None (join '' '' (map quote_part (q # ps)))"
    using p(2) by (simp add: space_ws)
  finally show ?case using 3 by simp
qed simp

text \<open>
  Round trip of the assignments of a unit line: what \<^verbatim>\<open>redactUnit\<close> writes for words
  without quotes reads back as exactly these words, white space included.
\<close>

theorem assignments_round_trip:
  assumes "\<forall>p \<in> set ps. plain_word p"
  shows "split_assignments (join '' '' (map quote_part ps)) = ps"
  unfolding split_assignments_def by (rule split_joined [OF assms])

theorem assignments_round_trip_witness:
  "split_assignments (join '' '' (map quote_part [''A=1'', ''B=two words''])) = [''A=1'', ''B=two words'']"
  by (rule assignments_round_trip) (simp add: plain_word_def dquote_def squote_def)

lemma index_of_assignment: "CHR ''='' \<notin> set n \<Longrightarrow> index_of (CHR ''='') (n @ CHR ''='' # v) = Some (length n)"
  by (induction n) auto

lemma redacted_assignment:
  "CHR ''='' \<notin> set n \<Longrightarrow> is_secret_name n \<Longrightarrow> redact_assignment (n @ ''='' @ v) = n @ ''=<redacted>''"
  by (simp add: redact_assignment_def index_of_assignment)



end
