(* ===== verification/Inventory_Parts.thy ===== *)
theory Inventory_Parts
  imports Checked Service Release_Layout Envfile
begin

text \<open>
  The parts of an inventory entry, \<^verbatim>\<open>lib/inventory.js\<close>: the names and paths it accepts, the
  presets of the deploy strategies, and the checks of \<^verbatim>\<open>release\<close>,
  \<^verbatim>\<open>preflight\<close>, \<^verbatim>\<open>objects\<close> and \<^verbatim>\<open>auxiliaryUnits\<close>. A
  property the code does not check keeps its JSON value. The runtime's \<^verbatim>\<open>URL\<close> parser is a parameter
  (\<open>None\<close> is a thrown error). Messages keep their fixed words.
\<close>

section \<open>Names\<close>

definition in_class :: "str \<Rightarrow> char \<Rightarrow> bool" where
  "in_class extra c \<longleftrightarrow> is_alnum c \<or> c \<in> set extra"

definition all_in :: "str \<Rightarrow> str \<Rightarrow> bool" where
  "all_in extra s \<longleftrightarrow> s \<noteq> [] \<and> list_all (in_class extra) s"

definition lower_name :: "str \<Rightarrow> str \<Rightarrow> bool" where
  "lower_name extra s \<longleftrightarrow> list_all (\<lambda>c. is_lower c \<or> is_digit c \<or> c \<in> set extra) s"

definition is_inventory_id :: "str \<Rightarrow> bool" where
  "is_inventory_id s \<longleftrightarrow> s \<noteq> [] \<and> is_lower (hd s) \<and> length s \<le> 40 \<and> lower_name ''-'' (tl s)"

text \<open>One of the suffixes after at least one character of a unit's name.\<close>

definition unit_with :: "str list \<Rightarrow> str \<Rightarrow> bool" where
  "unit_with sufs s \<longleftrightarrow>
     all_in ''@._-'' s \<and> list_ex (\<lambda>x. ends_with s x \<and> length x < length s) sufs"

definition is_unit_name :: "str \<Rightarrow> bool" where
  "is_unit_name = unit_with [''.service'', ''.socket'']"

definition is_source_unit :: "str \<Rightarrow> bool" where
  "is_source_unit = unit_with [''.service'', ''.socket'', ''.slice'']"

definition is_service_unit :: "str \<Rightarrow> bool" where
  "is_service_unit = unit_with [''.service'']"

definition is_file_name :: "str \<Rightarrow> bool" where
  "is_file_name = all_in ''._-''"

text \<open>\<^verbatim>\<open>/^[A-Za-z0-9@._-]+\.(service|socket)\.d\/[A-Za-z0-9._-]+\.conf$/\<close>\<close>

definition is_drop_in :: "str \<Rightarrow> bool" where
  "is_drop_in s =
     (case split_on (CHR ''/'') s of
        [d, f] \<Rightarrow> ends_with d ''.d'' \<and> is_unit_name (drop_end 2 d) \<and> is_file_name f \<and> ends_with f ''.conf'' \<and> 5 < length f
      | _ \<Rightarrow> False)"

definition is_user_name :: "str \<Rightarrow> bool" where
  "is_user_name s \<longleftrightarrow> s \<noteq> [] \<and> (is_lower (hd s) \<or> hd s = CHR ''_'') \<and> lower_name ''_-'' (tl s)"

definition is_owner_spec :: "str \<Rightarrow> bool" where
  "is_owner_spec s =
     (case split_on (CHR '':'') s of [u] \<Rightarrow> is_user_name u | [u, g] \<Rightarrow> is_user_name u \<and> is_user_name g | _ \<Rightarrow> False)"

definition is_pg_database :: "str \<Rightarrow> bool" where
  "is_pg_database s \<longleftrightarrow> starts_with s ''ov_'' \<and> 3 < length s \<and> lower_name ''_'' (drop 3 s)"

definition is_unit_glob :: "str \<Rightarrow> bool" where
  "is_unit_glob s \<longleftrightarrow>
     all_in ''@._-*'' s \<and> ends_with s ''.service'' \<and> CHR ''*'' \<in> set (drop_end 8 s)"

definition is_release_glob :: "str \<Rightarrow> bool" where
  "is_release_glob s =
     (case split_on (CHR ''/'') s of [d, x, f] \<Rightarrow> is_file_name d \<and> x = ''*'' \<and> f = ''release.json'' | _ \<Rightarrow> False)"

text \<open>\<^verbatim>\<open>/^http:\/\/(127\.0\.0\.1|localhost|\[::1\])[:/]/\<close>\<close>

definition is_loopback_url :: "str \<Rightarrow> bool" where
  "is_loopback_url s \<longleftrightarrow>
     list_ex (\<lambda>h. starts_with s (''http://'' @ h @ '':'') \<or> starts_with s (''http://'' @ h @ ''/''))
       [''127.0.0.1'', ''localhost'', ''[::1]'']"

definition is_select :: "str \<Rightarrow> bool" where
  "is_select s =
     (let t = trim_start s in
      map lower_char (take 6 t) = ''select'' \<and> (drop 6 t = [] \<or> \<not> is_word (hd (drop 6 t))))"

definition is_route :: "str \<Rightarrow> bool" where
  "is_route s \<longleftrightarrow> starts_with s ''/'' \<and> 1 < length s \<and> s ! 1 \<noteq> CHR ''/''"

definition has_ws :: "str \<Rightarrow> bool" where
  "has_ws s \<longleftrightarrow> list_ex is_ws s"

section \<open>Paths and origins\<close>

definition abs_path :: "json option \<Rightarrow> str checked" where
  "abs_path v =
     (case v of
        Some (JStr s) \<Rightarrow>
          (if path_is_absolute s \<and> CHR 0x00 \<notin> set s then Inr (path_normalize s) else refuse ''must be an absolute path'')
      | _ \<Rightarrow> refuse ''must be an absolute path'')"

definition rel_path :: "json option \<Rightarrow> str checked" where
  "rel_path v =
     (case v of
        Some (JStr s) \<Rightarrow>
          (if s \<noteq> [] \<and> \<not> path_is_absolute s \<and> \<not> starts_with (path_normalize s) ''..'' then Inr (path_normalize s)
           else refuse ''must be a path inside the checkout'')
      | _ \<Rightarrow> refuse ''must be a path inside the checkout'')"

definition check_rel :: "json \<Rightarrow> unit checked" where
  "check_rel v = sbind (rel_path (Some v)) (\<lambda>_. Inr ())"

text \<open>A list of paths inside the checkout, each as it is written.\<close>

definition rel_paths :: "json list \<Rightarrow> str list checked" where
  "rel_paths vs = map_checked (\<lambda>v. sbind (rel_path (Some v)) (\<lambda>_. Inr (text_of (Some v)))) vs"

record url =
  u_protocol :: str
  u_username :: str
  u_password :: str
  u_hostname :: str
  u_origin :: str
  u_pathname :: str

type_synonym url_parser = "str \<Rightarrow> url option"

definition https_origin :: "url_parser \<Rightarrow> json option \<Rightarrow> str checked" where
  "https_origin parse v =
     (case parse (text_of v) of
        None \<Rightarrow> refuse ''must be an https:// origin''
      | Some u \<Rightarrow>
          (if u_protocol u \<noteq> ''https:'' \<or> u_username u \<noteq> [] \<or> u_password u \<noteq> [] \<or>
              u_origin u \<noteq> strip_slashes (text_of v)
           then refuse ''must be an https:// origin'' else Inr (u_origin u)))"

section \<open>Presets\<close>

definition strategies :: "str list" where
  "strategies = [''git-checkout'', ''multi-app'', ''static-build'', ''pnpm-build'', ''release-layout'']"

definition strs :: "str list \<Rightarrow> json" where
  "strs xs = JArr (map JStr xs)"

definition npm_ci :: json where
  "npm_ci = strs [''npm'', ''ci'', ''--omit=dev'', ''--no-audit'', ''--no-fund'']"

definition preset :: "str \<Rightarrow> (str \<times> json) list" where
  "preset strategy =
     (if strategy = ''multi-app'' then
        [(''packages'', strs [''apps/*'']), (''skipPackages'', strs [''apps/_*'']), (''removeUntrackedLockfiles'', JBool True)]
      else if strategy = ''static-build'' then
        [(''install'', JObj [(''command'', npm_ci), (''always'', JBool True)]),
         (''build'', JArr [strs [''node'', ''build.js'']]),
         (''generated'', strs [''dist/'']),
         (''nginx'', JObj [(''repoVhosts'', JStr ''deploy/nginx/*.conf''), (''installOnDeploy'', JBool True)]),
         (''announce'', JObj [(''releaseFiles'', JStr ''dist/*/release.json'')])]
      else if strategy = ''pnpm-build'' then
        [(''packages'', strs [''apps/*'', ''packages/*'']),
         (''install'', JObj [(''command'', strs [''pnpm'', ''install'', ''--frozen-lockfile'', ''--config.confirmModulesPurge=false'']),
            (''always'', JBool True), (''lockfile'', JStr ''pnpm-lock.yaml''), (''restoreLockfile'', JBool False),
            (''workspace'', JBool True)]),
         (''build'', JArr [strs [''pnpm'', ''build'']])]
      else if strategy = ''release-layout'' then [(''install'', JObj [(''command'', npm_ci)])]
      else [])"

definition nested_keys :: "str list" where
  "nested_keys = [''install'', ''nginx'', ''announce'', ''preflight'', ''release'']"

text \<open>The entry over its preset; a nested object of the entry is laid over the preset's own.\<close>

definition with_preset :: "(str \<times> json) list \<Rightarrow> str \<Rightarrow> (str \<times> json) list" where
  "with_preset s strategy =
     foldl (\<lambda>out k.
        case (map_of (preset strategy) k, object_of (map_of s k)) of
          (Some p, Some kvs) \<Rightarrow> obj_put k (merged p (JObj kvs)) out
        | _ \<Rightarrow> out)
       (put_all (preset strategy) s) nested_keys"

section \<open>Release layout\<close>

record release_entry =
  re_git :: str
  re_releases_dir :: str
  re_current :: str
  re_id :: str
  re_links :: "(str \<times> str) list"
  re_reuse_modules :: bool
  re_chown :: "json option"
  re_keep :: int
  re_settle_seconds :: rat
  re_socket_port :: "int option"

definition inside_root :: "str \<Rightarrow> json option \<Rightarrow> str \<Rightarrow> str checked" where
  "inside_root base v dflt =
     (if is_null v then Inr (path_normalize (path_join [base, dflt]))
      else if path_is_absolute (text_of v) then sbind (abs_path v) (\<lambda>p. Inr (path_normalize p))
      else sbind (abs_path (Some (JStr (path_join [base, text_of v])))) (\<lambda>p. Inr (path_normalize p)))"

definition below :: "str \<Rightarrow> str \<Rightarrow> bool" where
  "below base p \<longleftrightarrow> starts_with p (base @ ''/'')"

definition check_link :: "str \<Rightarrow> str \<Rightarrow> str \<times> json \<Rightarrow> (str \<times> str) checked" where
  "check_link base releases x =
     (let (name, target) = x in
      next_check (demand (is_file_name name) ''links: must be a plain name'')
        (case target of
           JStr t \<Rightarrow>
             (if t \<noteq> [] \<and> CHR 0x00 \<notin> set t \<and> below base (path_resolve (releases @ ''/x'') t) then Inr (name, t)
              else refuse ''links: must point inside'')
         | _ \<Rightarrow> refuse ''links: must point inside''))"

definition optional_port :: "json option \<Rightarrow> str \<Rightarrow> int option checked" where
  "optional_port v m =
     (if is_null v then Inr None else sbind (whole_in 1 65535 m (to_number v)) (\<lambda>p. Inr (Some p)))"

definition normalise_release :: "json option \<Rightarrow> str \<Rightarrow> release_entry checked" where
  "normalise_release raw base =
     (let r = or_else raw (JObj []); links = or_else (member_of ''links'' r) (JObj []);
          fid = (if is_null (member_of ''id'' r) then Some (JStr ''time-sha8'') else member_of ''id'' r);
          chown = (if is_null (member_of ''chown'' r) then None else member_of ''chown'' r) in
      sbind (inside_root base (member_of ''git'' r) ''repo'') (\<lambda>gitDir.
      sbind (inside_root base (member_of ''releases'' r) ''releases'') (\<lambda>releases.
      sbind (inside_root base (member_of ''current'' r) ''current'') (\<lambda>current.
      next_check (demand (fid = Some (JStr ''time-sha8'') \<or> fid = Some (JStr ''sha12'')) ''release.id must be one of'')
      (next_check (demand (below base releases \<and> below base current) ''release: releases and current must be inside'')
      (sbind (case object_of (Some links) of Some kvs \<Rightarrow> Inr kvs | None \<Rightarrow> refuse ''release.links must map'') (\<lambda>kvs.
      sbind (map_checked (check_link base releases) kvs) (\<lambda>ls.
      next_check (demand (chown = None \<or> matches is_owner_spec chown) ''release.chown must be user or user:group'')
      (sbind (whole_in 2 50 ''release.keep must be a whole number from 2 to 50'' (number_or 5 (member_of ''keep'' r))) (\<lambda>keepN.
      sbind (case number_or 3 (member_of ''settleSeconds'' r) of
               Some q \<Rightarrow> (if 0 \<le> q \<and> q \<le> 60 then Inr q else refuse ''release.settleSeconds must be 0 to 60'')
             | None \<Rightarrow> refuse ''release.settleSeconds must be 0 to 60'') (\<lambda>settle.
      sbind (optional_port (member_of ''socketPort'' r) ''release.socketPort must be a TCP port'') (\<lambda>sp.
      Inr \<lparr>re_git = gitDir, re_releases_dir = releases, re_current = current, re_id = text_of fid, re_links = ls,
           re_reuse_modules = (member_of ''reuseModules'' r \<noteq> Some (JBool False)), re_chown = chown,
           re_keep = keepN, re_settle_seconds = settle, re_socket_port = sp\<rparr>))))))))))))"

section \<open>Preflight\<close>

record preflight_check_entry =
  pc_label :: str
  pc_packages :: "str list option"
  pc_argv :: "str list"
  pc_timeout_seconds :: "rat option"

record preflight_entry =
  pe_syntax_check :: bool
  pe_dirs :: "str list"
  pe_checks :: "preflight_check_entry list"

definition strings_of :: "json list \<Rightarrow> str list option" where
  "strings_of vs = (if list_all (\<lambda>v. string_of (Some v) \<noteq> None) vs then Some (map (\<lambda>v. text_of (Some v)) vs) else None)"

text \<open>The packages a check runs in: \<open>None\<close> is \<^verbatim>\<open>"*"\<close>.\<close>

definition check_packages :: "json option \<Rightarrow> str list option checked" where
  "check_packages v =
     (if is_null v \<or> v = Some (JStr ''*'') then Inr None
      else case array_of v of
          Some (x # xs) \<Rightarrow>
            sbind (map_checked (\<lambda>d. if d = JStr ''.'' then Inr ''.'' else sbind (check_rel d) (\<lambda>_. Inr (text_of (Some d)))) (x # xs))
              (\<lambda>ps. Inr (Some ps))
        | _ \<Rightarrow> refuse ''packages must be * or a list of package directories'')"

definition read_check :: "json \<Rightarrow> preflight_check_entry checked" where
  "read_check c =
     (case array_of (soft ''argv'' (Some c)) of
        Some (a # as) \<Rightarrow>
          (case strings_of (a # as) of
             None \<Rightarrow> refuse ''argv must be an argv array''
           | Some argv \<Rightarrow>
               sbind (check_packages (member_of ''packages'' c)) (\<lambda>pk.
               Inr \<lparr>pc_label = take 80 (js_string (or_else (member_of ''label'' c) (JStr (join '' '' argv)))),
                    pc_packages = pk, pc_argv = argv,
                    pc_timeout_seconds = to_number (Some (or_else (member_of ''timeoutSeconds'' c) (JNum 120)))\<rparr>))
      | _ \<Rightarrow> refuse ''argv must be an argv array'')"

definition normalise_preflight :: "json option \<Rightarrow> preflight_entry checked" where
  "normalise_preflight raw =
     (let p = or_else raw (JObj []); dirs = or_else (member_of ''dirs'' p) (JArr []) in
      case array_of (Some dirs) of
        None \<Rightarrow> refuse ''preflight.dirs must be a list of directories''
      | Some ds \<Rightarrow>
          sbind (rel_paths ds) (\<lambda>paths.
          sbind (as_array (or_else (member_of ''checks'' p) (JArr []))) (\<lambda>cs.
          sbind (map_checked read_check cs) (\<lambda>es.
          Inr \<lparr>pe_syntax_check = (member_of ''syntaxCheck'' p = Some (JBool True)), pe_dirs = paths, pe_checks = es\<rparr>))))"

section \<open>Objects\<close>

record object_entry =
  oe_name :: json
  oe_path :: str
  oe_verify :: bool

definition read_object :: "object_entry list \<Rightarrow> json \<Rightarrow> object_entry checked" where
  "read_object seen v =
     (case object_of (Some v) of
        None \<Rightarrow> refuse ''must be an object''
      | Some kvs \<Rightarrow>
          (let name = or_else (map_of kvs ''name'') (JStr []); verify = map_of kvs ''verify'' in
           next_check (demand (is_file_name (js_string name)) ''name must be a plain name'')
           (next_check (demand (\<not> list_ex (\<lambda>o'. strict_eq (Some (oe_name o')) name) seen) ''name is listed twice'')
           (next_check (demand (is_null verify \<or> verify = Some (JBool True) \<or> verify = Some (JBool False)) ''verify must be true or false'')
           (sbind (abs_path (map_of kvs ''path'')) (\<lambda>p.
           Inr \<lparr>oe_name = name, oe_path = p, oe_verify = (verify \<noteq> Some (JBool False))\<rparr>))))))"

definition normalise_objects :: "json option \<Rightarrow> object_entry list checked" where
  "normalise_objects raw =
     (if is_null raw then Inr []
      else case array_of raw of
          None \<Rightarrow> refuse ''objects must be a list of directories''
        | Some xs \<Rightarrow> map_seen read_object [] xs)"

section \<open>Auxiliary units\<close>

definition path_list :: "str \<Rightarrow> json \<Rightarrow> str list checked" where
  "path_list m v = (case array_of (Some v) of None \<Rightarrow> refuse m | Some xs \<Rightarrow> rel_paths xs)"

definition read_auxiliary :: "aux_unit list \<Rightarrow> json \<Rightarrow> aux_unit checked" where
  "read_auxiliary seen a =
     (let plain = (string_of (Some a) \<noteq> None);
          opts = (\<lambda>k. if plain then JArr [] else or_else (member_of k a) (JArr []));
          hint = (if plain \<or> is_null (member_of ''applyHint'' a) then None
                  else Some (take 300 (text_of (member_of ''applyHint'' a)))) in
      case string_of (if plain then Some a else soft ''unit'' (Some a)) of
        None \<Rightarrow> refuse ''unit must be a .service unit''
      | Some u \<Rightarrow>
          next_check (demand (is_service_unit u) ''unit must be a .service unit'')
          (next_check (demand (u \<notin> a_unit ` set seen) ''unit is listed twice'')
          (sbind (path_list ''restartOn must be a list of paths'' (opts ''restartOn'')) (\<lambda>ros.
           sbind (path_list ''applyOn must be a list of paths'' (opts ''applyOn'')) (\<lambda>aos.
           Inr \<lparr>a_unit = u, a_restart_on = ros, a_apply_on = aos, a_apply_hint = hint\<rparr>)))))"

definition normalise_auxiliary_units :: "json option \<Rightarrow> aux_unit list checked" where
  "normalise_auxiliary_units raw =
     (if is_null raw then Inr []
      else case array_of raw of
          None \<Rightarrow> refuse ''auxiliaryUnits must be a list of units''
        | Some xs \<Rightarrow> map_seen read_auxiliary [] xs)"

end
