(* ===== verification/Inventory_Entry.thy ===== *)
theory Inventory_Entry
  imports Inventory_Parts
begin

text \<open>
  One entry of the inventory, \<^verbatim>\<open>normaliseService\<close> and \<^verbatim>\<open>normaliseDrill\<close> of
  \<^verbatim>\<open>lib/inventory.js\<close>: the checks in the order of the code, one definition per group of them,
  and the entry they give.
\<close>

section \<open>The entry\<close>

record database_entry =
  de_name :: json
  de_database :: json
  de_role :: "str option"

record compare_entry =
  ce_path :: str
  ce_ignore :: "str list"
  ce_headers :: json

record acceptance_entry =
  ae_path :: str
  ae_status :: int
  ae_keys :: "str list"
  ae_headers :: json

record drill_entry =
  dr_port :: int
  dr_databases :: "(str \<times> json \<times> json) list"
  dr_env :: "(str \<times> str) list"
  dr_dirs :: "str list"
  dr_command :: "str list option"
  dr_unit :: "str option"
  dr_production_port :: "int option"
  dr_bind :: "(str \<times> str) list"
  dr_requires :: "(str \<times> str) list"
  dr_ready :: json
  dr_ready_timeout :: "rat option"
  dr_compare :: "compare_entry list"
  dr_counts :: "(str \<times> json) list"
  dr_counts_tolerance :: int
  dr_acceptance :: "acceptance_entry list"
  dr_outbound :: bool
  dr_outbound_reason :: json
  dr_runtime_max :: "rat option"

datatype drill_config = Unsupported str | Supported drill_entry

record service_entry =
  se_id :: str
  se_manifest :: json
  se_description :: json
  se_repo :: str
  se_code_dir :: str
  se_owner :: str
  se_run_as :: json
  se_remote :: json
  se_branch :: json
  se_strategy :: str
  se_release :: "release_entry option"
  se_layout :: str
  se_managed :: bool
  se_policy :: str
  se_unmanaged_reason :: json
  se_skip_packages :: json
  se_remove_untracked_lockfiles :: bool
  se_generated :: json
  se_preflight :: preflight_entry
  se_install_units :: bool
  se_enable_units :: bool
  se_units_match :: "json option"
  se_release_files :: "json option"
  se_units :: "str list"
  se_worker_units :: "str list"
  se_auxiliary_units :: "aux_unit list"
  se_socket_unit :: "str option"
  se_unit_sources :: "(str \<times> str) list"
  se_env_file :: "str option"
  se_env_required :: json
  se_env_example :: json
  se_port :: "int option"
  se_ready :: "json option"
  se_health :: json
  se_packages :: json
  se_install_command :: "json list"
  se_install_always :: bool
  se_restore_lockfile :: bool
  se_lockfile :: json
  se_workspace :: bool
  se_build :: "json list list"
  se_no_restart_paths :: json
  se_protected :: "json option"
  se_drain :: "(str \<times> json) list"
  se_databases :: "database_entry list"
  se_objects :: "object_entry list"
  se_backup_on_change :: json
  se_nginx :: "json option"
  se_origin :: "str option"
  se_shots :: "str list"
  se_lifecycle :: "json option"
  se_drill :: "drill_config option"

section \<open>What building the entry checks\<close>

definition read_policy :: "json option \<Rightarrow> str checked" where
  "read_policy v =
     (let p = member_of ''policy'' (or_else v (JObj [])) in
      if is_null p then Inr ''manual''
      else case string_of p of
          Some s \<Rightarrow> (if s \<in> set [''auto'', ''gated'', ''manual''] then Inr s else refuse ''deploy.policy must be auto, gated or manual'')
        | None \<Rightarrow> refuse ''deploy.policy must be auto, gated or manual'')"

definition read_database :: "json \<Rightarrow> database_entry checked" where
  "read_database d =
     (let db = or_else (soft ''database'' (Some d)) (JStr []);
          name = or_else (soft ''name'' (Some d)) (JStr (drop 3 (js_string db)));
          role = soft ''role'' (Some d) in
      next_check (demand (soft ''engine'' (Some d) = Some (JStr ''postgresql'')) ''engine must be postgresql'')
      (next_check (demand (is_null (soft ''path'' (Some d))) ''a postgresql database has no path'')
      (next_check (demand (is_pg_database (js_string db)) ''database must match'')
      (next_check (demand (is_file_name (js_string name)) ''name must be a plain name'')
      (next_check (demand (is_null role \<or> matches is_user_name role) ''role must be a database role name'')
      (Inr \<lparr>de_name = name, de_database = db, de_role = (if is_null role then None else Some (text_of role))\<rparr>))))))"

definition is_page :: "json \<Rightarrow> bool" where
  "is_page p =
     (case string_of (Some p) of Some s \<Rightarrow> starts_with s ''/'' \<and> length s \<le> 200 \<and> \<not> has_ws s | None \<Rightarrow> False)"

definition read_shots :: "json option \<Rightarrow> str list checked" where
  "read_shots v =
     (let pages = member_of ''pages'' (or_else v (JObj [])) in
      case array_of (if is_null pages then Some (JArr []) else pages) of
        None \<Rightarrow> refuse ''shots.pages must be a list of paths''
      | Some ps \<Rightarrow>
          next_check (demand (list_all is_page ps) ''shots.pages must be paths'')
            (Inr (map js_string ps)))"

section \<open>Checks of the finished entry\<close>

definition read_unit :: "json \<Rightarrow> str checked" where
  "read_unit u =
     (if \<not> is_unit_name (js_string u) then refuse ''units: is not a unit name''
      else case u of
          JStr s \<Rightarrow> (if ends_with s ''.socket'' then refuse ''units: is a socket unit'' else Inr s)
        | _ \<Rightarrow> type_error)"

definition read_units :: "json \<Rightarrow> str list checked" where
  "read_units v =
     (case array_of (Some v) of None \<Rightarrow> refuse ''units must be an array'' | Some us \<Rightarrow> map_checked read_unit us)"

definition read_socket_unit :: "json option \<Rightarrow> str option checked" where
  "read_socket_unit v =
     (if \<not> truthy v then Inr None
      else if \<not> matches is_unit_name v then refuse ''socketUnit must be a .socket unit''
      else case string_of v of
          Some s \<Rightarrow> (if ends_with s ''.socket'' then Inr (Some s) else refuse ''socketUnit must be a .socket unit'')
        | None \<Rightarrow> type_error)"

text \<open>A worker unit is none of the units, nor a template one of them is an instance of.\<close>

definition worker_of :: "str \<Rightarrow> str \<Rightarrow> bool" where
  "worker_of w u \<longleftrightarrow> u = w \<or> ends_with w ''@.service'' \<and> starts_with u (drop_end 8 w)"

definition read_worker :: "str list \<Rightarrow> json \<Rightarrow> str checked" where
  "read_worker units v =
     (case string_of (Some v) of
        None \<Rightarrow> refuse ''workerUnits: is not a .service unit or template''
      | Some w \<Rightarrow>
          next_check (demand (is_service_unit w) ''workerUnits: is not a .service unit or template'')
          (next_check (demand (\<not> list_ex (worker_of w) units) ''units: is a worker unit'') (Inr w)))"

definition read_workers :: "str list \<Rightarrow> json \<Rightarrow> str list checked" where
  "read_workers units v =
     (case array_of (Some v) of
        None \<Rightarrow> refuse ''workerUnits must be an array'' | Some ws \<Rightarrow> map_checked (read_worker units) ws)"

definition check_auxiliary :: "str list \<Rightarrow> str list \<Rightarrow> str list \<Rightarrow> aux_unit \<Rightarrow> unit checked" where
  "check_auxiliary units workers sources a =
     checks [demand (a_unit a \<notin> set units) ''auxiliaryUnits: is already in units'',
             demand (a_unit a \<notin> set workers) ''auxiliaryUnits: is a worker unit'',
             demand (a_unit a \<in> set sources) ''auxiliaryUnits: needs a unitSources entry'']"

definition read_source :: "str \<times> json \<Rightarrow> (str \<times> str) checked" where
  "read_source x =
     (let (u, src) = x in
      next_check (demand (is_source_unit u \<or> is_drop_in u) ''unitSources: is not a unit, slice or drop-in name'')
      (next_check (check_rel src) (Inr (u, js_string src))))"

definition read_ready :: "json option \<Rightarrow> json option checked" where
  "read_ready v =
     (case when_set v of
        None \<Rightarrow> Inr None
      | Some r \<Rightarrow>
          next_check (demand (case string_of (member_of ''url'' r) of Some s \<Rightarrow> is_loopback_url s | None \<Rightarrow> False)
            ''ready.url must be a loopback http:// URL'')
          (Inr (Some (merged (JObj [(''timeoutSeconds'', JNum 90), (''headers'', JObj []), (''release'', JBool False),
             (''allUnits'', JBool False)]) r))))"

text \<open>A package pattern: \<^verbatim>\<open>p.replace(/\/\*$/, '')\<close> must be a path inside the checkout.\<close>

definition check_package :: "json \<Rightarrow> unit checked" where
  "check_package p =
     (case p of
        JStr s \<Rightarrow>
          (if s = ''.'' then Inr () else check_rel (JStr (if ends_with s ''/*'' then drop_end 2 s else s)))
      | _ \<Rightarrow> type_error)"

definition check_skip :: "json \<Rightarrow> unit checked" where
  "check_skip p =
     (case p of
        JStr s \<Rightarrow> demand (s \<noteq> [] \<and> \<not> path_is_absolute s \<and> \<not> str_includes s ''..'') ''skipPackages must be package directories''
      | _ \<Rightarrow> refuse ''skipPackages must be package directories'')"

definition check_list :: "(json \<Rightarrow> unit checked) \<Rightarrow> json \<Rightarrow> unit checked" where
  "check_list f v = sbind (iterated v) (check_each f)"

definition read_argv :: "json \<Rightarrow> json list checked" where
  "read_argv v =
     (case array_of (Some v) of Some (x # xs) \<Rightarrow> Inr (x # xs) | _ \<Rightarrow> refuse ''must be an argv array'')"

text \<open>The protected-session probe; a probe inside a sum is no sum itself.\<close>

definition check_probe_fields :: "json \<Rightarrow> unit checked" where
  "check_probe_fields p =
     (let fs = member_of ''addFields'' p; kind = member_of ''kind'' p in
      checks
       [demand (kind \<noteq> Some (JStr ''http-json-count'') \<or> is_loopback_url (js_string (or_else (member_of ''url'' p) (JStr []))))
          ''url must be a loopback http:// URL'',
        demand (is_null fs \<or> kind = Some (JStr ''http-json-count'') \<and> \<not> truthy (member_of ''array'' p))
          ''addFields is only for an http-json-count with a numeric field'',
        demand (is_null fs \<or>
            (case array_of fs of
               Some xs \<Rightarrow> list_all (\<lambda>f. string_of (Some f) \<noteq> None \<and> f \<noteq> JStr []) xs | None \<Rightarrow> False))
          ''addFields must be a list of dotted field names'',
        demand (kind \<noteq> Some (JStr ''postgresql-count'') \<or> is_pg_database (js_string (or_else (member_of ''database'' p) (JStr []))))
          ''database must match'',
        demand (kind \<noteq> Some (JStr ''postgresql-count'') \<or> is_select (js_string (or_else (member_of ''sql'' p) (JStr []))))
          ''sql must be a SELECT''])"

definition check_part_probe :: "json \<Rightarrow> unit checked" where
  "check_part_probe q =
     (let p = or_else (Some q) (JObj []) in
      next_check (demand (member_of ''kind'' p = Some (JStr ''http-json-count'') \<or> member_of ''kind'' p = Some (JStr ''postgresql-count''))
        ''kind must be one of'') (check_probe_fields p))"

definition check_probe :: "json \<Rightarrow> unit checked" where
  "check_probe p =
     (let kind = member_of ''kind'' p in
      next_check (demand (kind = Some (JStr ''http-json-count'') \<or> kind = Some (JStr ''postgresql-count'') \<or> kind = Some (JStr ''sum''))
        ''kind must be one of'')
      (next_check (check_probe_fields p)
      (wanted (kind = Some (JStr ''sum''))
        (case array_of (member_of ''probes'' p) of
           Some (q # qs) \<Rightarrow> check_each check_part_probe (q # qs)
         | _ \<Rightarrow> refuse ''probes must be a non-empty array''))))"

definition check_optional :: "(json \<Rightarrow> unit checked) \<Rightarrow> json option \<Rightarrow> unit checked" where
  "check_optional f v = (case when_set v of None \<Rightarrow> Inr () | Some x \<Rightarrow> f x)"

definition check_nginx :: "json \<Rightarrow> unit checked" where
  "check_nginx n =
     (let skip = member_of ''skipVhosts'' n in
      checks
       [check_optional (\<lambda>v. demand (is_file_name (js_string v)) ''nginx.vhost must be a file name'') (member_of ''vhost'' n),
        check_optional check_rel (member_of ''repoVhost'' n),
        check_optional (\<lambda>v. case v of
             JStr s \<Rightarrow> check_rel (JStr (if ends_with s ''*.conf'' then drop_end 6 s @ ''x.conf'' else s)) | _ \<Rightarrow> type_error)
          (member_of ''repoVhosts'' n),
        demand (is_null skip \<or> (case array_of skip of Some xs \<Rightarrow> list_all (\<lambda>v. is_file_name (js_string v)) xs | None \<Rightarrow> False))
          ''nginx.skipVhosts must list vhost file names'',
        check_optional (\<lambda>v. demand (v \<in> set [JStr ''http'', JStr ''sse'', JStr ''websocket'']) ''nginx.variant must be http, sse or websocket'')
          (member_of ''variant'' n),
        check_optional (\<lambda>v. demand (is_file_name (js_string v)) ''nginx.certName must be a name'') (member_of ''certName'' n),
        demand (\<not> truthy (member_of ''tenants'' n)) ''nginx.tenants is retired''])"

section \<open>The drill\<close>

text \<open>\<^verbatim>\<open>/\{db:[^}]+\}/\<close>\<close>

fun has_db_placeholder :: "str \<Rightarrow> bool" where
  "has_db_placeholder [] = False"
| "has_db_placeholder (c # s) =
     (let r = drop 4 (c # s); name = takeWhile (\<lambda>x. x \<noteq> CHR ''}'') r in
      starts_with (c # s) ''{db:'' \<and> name \<noteq> [] \<and> length name < length r \<or> has_db_placeholder s)"

definition is_tmp_path :: "str \<Rightarrow> bool" where
  "is_tmp_path s \<longleftrightarrow> starts_with s ''{tmp}/'' \<and> all_in ''._/-'' (drop 6 s) \<and> \<not> str_includes s ''..''"

text \<open>\<^verbatim>\<open>name in env\<close>: an own property, or one every object inherits.\<close>

definition inherited_names :: "str list" where
  "inherited_names =
     [''constructor'', ''hasOwnProperty'', ''isPrototypeOf'', ''propertyIsEnumerable'', ''toLocaleString'', ''toString'',
      ''valueOf'', ''__proto__'', ''__defineGetter__'', ''__defineSetter__'', ''__lookupGetter__'', ''__lookupSetter__'']"

definition has_property :: "str \<Rightarrow> json \<Rightarrow> bool checked" where
  "has_property k v =
     (case v of
        JObj kvs \<Rightarrow> Inr (k \<in> fst ` set kvs \<or> k \<in> set inherited_names)
      | JArr xs \<Rightarrow> Inr (k \<in> fst ` set (numbered xs) \<or> k = ''length'' \<or> k \<in> set inherited_names)
      | _ \<Rightarrow> type_error)"

definition read_drill_database :: "json list \<Rightarrow> str \<times> json \<Rightarrow> (str \<times> json \<times> json) checked" where
  "read_drill_database names x =
     (let (name, target) = x in
      next_check (demand (JStr name \<in> set names) ''drill.databases: is not one of the databases'')
        (case object_of (Some target) of
           None \<Rightarrow> refuse ''drill.databases must be { url, directUrl }''
         | Some kvs \<Rightarrow>
             (let u = or_else (map_of kvs ''url'') (JStr []); d = or_else (map_of kvs ''directUrl'') (JStr []) in
              next_check (demand (is_identifier (js_string u)) ''url must be an env var name'')
              (next_check (demand (is_identifier (js_string d)) ''directUrl must be an env var name'')
              (next_check (demand (\<not> strict_eq (Some u) d) ''url and directUrl must be different env vars'')
              (Inr (name, u, d)))))))"

definition read_drill_env :: "str \<times> json \<Rightarrow> (str \<times> str) checked" where
  "read_drill_env x =
     (let (k, v) = x in
      next_check (demand (is_identifier k) ''drill.env: is not an env var name'')
        (case v of
           JStr s \<Rightarrow>
             (if list_ex (\<lambda>c. c \<in> {CHR 0x0A, CHR 0x0D, CHR 0x00}) s then refuse ''drill.env must be a one-line string''
              else if has_db_placeholder s then refuse ''drill.env: database file placeholders are unsupported''
              else Inr (k, s))
         | _ \<Rightarrow> refuse ''drill.env must be a one-line string''))"

definition check_not_owned :: "json \<Rightarrow> json \<Rightarrow> unit checked" where
  "check_not_owned env name =
     sbind (has_property (js_string name) env) (\<lambda>b. demand (\<not> b) ''drill.env is already set by drill.databases'')"

definition names_port :: "json \<Rightarrow> bool" where
  "names_port v = str_includes (js_string v) ''{port}''"

definition check_port_placeholder :: "(str \<times> str) list \<Rightarrow> json option \<Rightarrow> unit checked" where
  "check_port_placeholder env command =
     (if list_ex (\<lambda>(k, v). str_includes v ''{port}'') env then Inr ()
      else sbind (as_array (or_else command (JArr []))) (\<lambda>as.
        demand (list_ex names_port as) ''drill.env must point the instance at its port''))"

definition read_tmp_path :: "json \<Rightarrow> str checked" where
  "read_tmp_path v =
     (case string_of (Some v) of
        Some s \<Rightarrow> (if is_tmp_path s then Inr s else refuse ''must be a path under {tmp}'')
      | None \<Rightarrow> refuse ''must be a path under {tmp}'')"

definition read_command :: "json option \<Rightarrow> str list option checked" where
  "read_command v =
     (if is_null v then Inr None
      else case array_of v of
          Some (x # xs) \<Rightarrow>
            (case strings_of (x # xs) of
               Some argv \<Rightarrow> (if path_is_absolute (hd argv) then Inr (Some argv) else refuse ''drill.command[0] must be an absolute path'')
             | None \<Rightarrow> refuse ''drill.command must be an argv array'')
        | _ \<Rightarrow> refuse ''drill.command must be an argv array'')"

definition read_bind :: "str \<Rightarrow> json \<Rightarrow> (str \<times> str) checked" where
  "read_bind repo b =
     (case string_of (soft ''from'' (Some b)) of
        None \<Rightarrow> refuse ''from must be a path under {tmp}''
      | Some from_path \<Rightarrow>
          next_check (demand (is_tmp_path from_path) ''from must be a path under {tmp}'')
            (case string_of (soft ''to'' (Some b)) of
               None \<Rightarrow> refuse ''to must be a plain absolute path''
             | Some t \<Rightarrow>
                 next_check (demand (path_is_absolute t \<and> \<not> str_includes t ''..'' \<and> all_in ''._/-'' (drop 1 t)) ''to must be a plain absolute path'')
                 (next_check (demand (t = repo \<or> below repo t) ''to must be inside the checkout'')
                 (Inr (from_path, t)))))"

definition read_require :: "json \<Rightarrow> (str \<times> str) checked" where
  "read_require r =
     (case string_of (soft ''file'' (Some r)) of
        None \<Rightarrow> refuse ''file must be a path inside the checkout''
      | Some f \<Rightarrow>
          next_check (demand (\<not> path_is_absolute f \<and> ''..'' \<notin> set (split_on (CHR ''/'') f) \<and> all_in ''._/-'' f)
            ''file must be a path inside the checkout'')
            (case string_of (member_of ''contains'' r) of
               None \<Rightarrow> refuse ''contains must be the text the file must contain''
             | Some t \<Rightarrow> (if trim t = [] then refuse ''contains must be the text the file must contain'' else Inr (f, t))))"

text \<open>Lists of key names, none empty.\<close>

definition read_keys :: "json option \<Rightarrow> str \<Rightarrow> str list checked" where
  "read_keys v m =
     (case array_of (Some (or_else v (JArr []))) of
        None \<Rightarrow> refuse m
      | Some ks \<Rightarrow> (if list_all (\<lambda>k. string_of (Some k) \<noteq> None \<and> k \<noteq> JStr []) ks then Inr (map js_string ks) else refuse m))"

definition as_request :: "json \<Rightarrow> json" where
  "as_request v = (case v of JStr s \<Rightarrow> JObj [(''path'', JStr s)] | _ \<Rightarrow> v)"

definition read_route :: "json \<Rightarrow> str \<Rightarrow> str checked" where
  "read_route v m =
     (case string_of (soft ''path'' (Some v)) of
        Some p \<Rightarrow> (if is_route p \<and> \<not> has_ws p then Inr p else refuse m)
      | None \<Rightarrow> refuse m)"

definition read_compare :: "json \<Rightarrow> compare_entry checked" where
  "read_compare x =
     (let c = as_request x in
      sbind (read_route c ''compare.path must be a path'') (\<lambda>p.
      sbind (read_keys (member_of ''ignore'' c) ''compare.ignore must be a list of key names'') (\<lambda>ks.
      Inr \<lparr>ce_path = p, ce_ignore = ks, ce_headers = or_else (member_of ''headers'' c) (JObj [])\<rparr>)))"

definition read_count :: "str list \<Rightarrow> json \<Rightarrow> (str \<times> json) checked" where
  "read_count dbs c =
     (case string_of (soft ''db'' (Some c)) of
        None \<Rightarrow> refuse ''counts.db must be a restored database''
      | Some d \<Rightarrow>
          (let t = or_else (member_of ''table'' c) (JStr []) in
           next_check (demand (d \<in> set dbs) ''counts.db must be a restored database'')
           (next_check (demand (is_identifier (js_string t)) ''counts.table must be a table name'')
           (Inr (d, t)))))"

definition read_acceptance :: "json \<Rightarrow> acceptance_entry checked" where
  "read_acceptance x =
     (let a = as_request x in
      sbind (read_route a ''acceptance.path must be a path'') (\<lambda>p.
      sbind (whole_in 100 599 ''acceptance.status must be an HTTP status'' (number_or 200 (member_of ''status'' a))) (\<lambda>st.
      sbind (read_keys (member_of ''keys'' a) ''acceptance.keys must be a list of key names'') (\<lambda>ks.
      Inr \<lparr>ae_path = p, ae_status = st, ae_keys = ks, ae_headers = or_else (member_of ''headers'' a) (JObj [])\<rparr>))))"

definition read_drill_unit :: "str list \<Rightarrow> json option \<Rightarrow> str option checked" where
  "read_drill_unit units v =
     (if is_null v then Inr None
      else case string_of v of
          Some u \<Rightarrow> (if u \<in> set units then Inr (Some u) else refuse ''drill.unit must be one of the units'')
        | None \<Rightarrow> refuse ''drill.unit must be one of the units'')"

definition read_production_port :: "int option \<Rightarrow> int \<Rightarrow> json option \<Rightarrow> int option checked" where
  "read_production_port svcPort port v =
     (if is_null v then Inr svcPort
      else sbind (whole_in 1 65535 ''drill.productionPort must be a TCP port'' (to_number v)) (\<lambda>p.
        next_check (demand (p \<noteq> port) ''drill.productionPort must differ from the drill port'') (Inr (Some p))))"

text \<open>The readiness path: its own, else that of the service's ready URL.\<close>

definition read_drill_ready :: "url_parser \<Rightarrow> json option \<Rightarrow> json option \<Rightarrow> json checked" where
  "read_drill_ready parse svcReady v =
     sbind (case when_set v of
              Some x \<Rightarrow> Inr (Some x)
            | None \<Rightarrow>
                (case svcReady of
                   None \<Rightarrow> Inr None
                 | Some r \<Rightarrow> (case parse (text_of (member_of ''url'' r)) of
                               Some u \<Rightarrow> Inr (Some (JStr (u_pathname u))) | None \<Rightarrow> type_error))) (\<lambda>ready.
     case ready of
       Some x \<Rightarrow> (if is_route (js_string x) then Inr x else refuse ''drill.ready must be a path'')
     | None \<Rightarrow> refuse ''drill.ready must be a path'')"

definition elements_or_none :: "json option \<Rightarrow> json list checked" where
  "elements_or_none v = as_array (or_else v (JArr []))"

definition finish_drill ::
  "url_parser \<Rightarrow> json option \<Rightarrow> service_entry \<Rightarrow> json \<Rightarrow> int \<Rightarrow> (str \<times> json \<times> json) list \<Rightarrow> (str \<times> str) list \<Rightarrow> drill_config checked" where
  "finish_drill parse svcReady svc raw port dbs env =
     (let get = (\<lambda>k. member_of k raw) in
      sbind (sbind (iterated (or_else (get ''dirs'') (JArr []))) (map_checked read_tmp_path)) (\<lambda>dirs.
      sbind (read_command (get ''command'')) (\<lambda>command.
      sbind (read_drill_unit (se_units svc) (get ''unit'')) (\<lambda>unit.
      sbind (read_production_port (se_port svc) port (get ''productionPort'')) (\<lambda>pport.
      sbind (sbind (elements_or_none (get ''bind'')) (map_checked (read_bind (se_repo svc)))) (\<lambda>binds.
      sbind (sbind (elements_or_none (get ''requires'')) (map_checked read_require)) (\<lambda>reqs.
      sbind (read_drill_ready parse svcReady (get ''ready'')) (\<lambda>ready.
      sbind (sbind (elements_or_none (get ''compare'')) (map_checked read_compare)) (\<lambda>cmps.
      sbind (sbind (elements_or_none (get ''counts'')) (map_checked (read_count (map fst dbs)))) (\<lambda>cnts.
      sbind (sbind (elements_or_none (get ''acceptance'')) (map_checked read_acceptance)) (\<lambda>accs.
      next_check (demand (cmps \<noteq> [] \<or> cnts \<noteq> [] \<or> accs \<noteq> []) ''drill needs at least one compare path, row count or acceptance check'')
      (sbind (case number_or 0 (get ''countsTolerance'') of
                Some q \<Rightarrow> (if is_whole q \<and> 0 \<le> q then Inr \<lfloor>q\<rfloor> else refuse ''drill.countsTolerance must be a whole number of rows'')
              | None \<Rightarrow> refuse ''drill.countsTolerance must be a whole number of rows'') (\<lambda>tol.
      Inr (Supported
        \<lparr>dr_port = port, dr_databases = dbs, dr_env = env, dr_dirs = dirs, dr_command = command, dr_unit = unit,
         dr_production_port = pport, dr_bind = binds, dr_requires = reqs, dr_ready = ready,
         dr_ready_timeout = to_number (Some (or_else (get ''readyTimeoutSeconds'')
           (or_else (case svcReady of Some r \<Rightarrow> member_of ''timeoutSeconds'' r | None \<Rightarrow> None) (JNum 90)))),
         dr_compare = cmps, dr_counts = cnts, dr_counts_tolerance = tol, dr_acceptance = accs,
         dr_outbound = (get ''outbound'' = Some (JBool True)), dr_outbound_reason = or_else (get ''outboundReason'') JNull,
         dr_runtime_max = to_number (Some (or_else (get ''runtimeMaxSeconds'') (JNum 1800)))\<rparr>))))))))))))))"

definition normalise_drill :: "url_parser \<Rightarrow> json \<Rightarrow> service_entry \<Rightarrow> drill_config checked" where
  "normalise_drill parse raw svc =
     (let get = (\<lambda>k. member_of k raw); env = or_else (get ''env'') (JObj []);
          dbs = or_else (get ''databases'') (JObj []) in
      if \<not> (case raw of JObj kvs \<Rightarrow> True | JArr xs \<Rightarrow> True | _ \<Rightarrow> False) then refuse ''drill must be an object''
      else if get ''supported'' = Some (JBool False) then
        (case string_of (get ''reason'') of
           Some r \<Rightarrow> (if trim r = [] then refuse ''drill.reason is required'' else Inr (Unsupported r))
         | None \<Rightarrow> refuse ''drill.reason is required'')
      else
        sbind (whole_in 1024 65535 ''drill.port must be a TCP port from 1024'' (to_number (get ''port''))) (\<lambda>port.
        next_check (demand (se_port svc \<noteq> Some port) ''drill.port must differ from the port of the service'')
        (next_check (demand (se_databases svc \<noteq> []) ''drill: a drill restores databases'')
        (next_check (demand (case object_of (Some dbs) of Some (x # xs) \<Rightarrow> True | _ \<Rightarrow> False) ''drill.databases must map at least one database'')
        (sbind (map_checked (read_drill_database (map de_name (se_databases svc))) (entries_of dbs)) (\<lambda>targets.
        sbind (map_checked read_drill_env (entries_of env)) (\<lambda>vars.
        next_check (check_port_placeholder vars (get ''command''))
        (next_check (check_each (\<lambda>(n, u, d). next_check (check_not_owned env u) (check_not_owned env d)) targets)
        (finish_drill parse (se_ready svc) svc raw port targets vars)))))))))"

section \<open>The whole entry\<close>

definition default_install :: json where
  "default_install = strs [''npm'', ''install'', ''--omit=dev'', ''--no-audit'', ''--no-fund'', ''--loglevel=error'']"

definition default_drain :: "(str \<times> json) list" where
  "default_drain =
     [(''policy'', JStr ''refuse''), (''waitMaxSeconds'', JNum 28800), (''pollSeconds'', JNum 60), (''quietChecks'', JNum 2)]"

text \<open>The entry as it is first built: what building it checks is in the arguments.\<close>

definition first_entry ::
  "str \<Rightarrow> (str \<times> json) list \<Rightarrow> str \<Rightarrow> str \<Rightarrow> release_entry option \<Rightarrow> bool \<Rightarrow> str \<Rightarrow> preflight_entry \<Rightarrow> aux_unit list \<Rightarrow>
   str option \<Rightarrow> database_entry list \<Rightarrow> object_entry list \<Rightarrow> str option \<Rightarrow> str list \<Rightarrow> service_entry" where
  "first_entry sid s repo strategy release layout policy pf aux envFile dbs objs origin shots =
     (let get = map_of s in
      \<lparr>se_id = sid, se_manifest = or_else (get ''manifest'') (JStr sid), se_description = or_else (get ''description'') JNull,
       se_repo = repo,
       se_code_dir = (if layout then (case release of Some r \<Rightarrow> re_current r | None \<Rightarrow> path_join [repo, ''current'']) else repo),
       se_owner = text_of (get ''owner''), se_run_as = or_else (get ''runAs'') (JStr (text_of (get ''owner''))),
       se_remote = or_else (get ''remote'') (JStr ''origin''), se_branch = or_else (get ''branch'') (JStr ''main''),
       se_strategy = strategy, se_release = release, se_layout = (if layout then ''release'' else ''git''),
       se_managed = (get ''managed'' \<noteq> Some (JBool False)), se_policy = policy,
       se_unmanaged_reason = or_else (get ''unmanagedReason'') JNull,
       se_skip_packages = or_else (get ''skipPackages'') (JArr []),
       se_remove_untracked_lockfiles = (get ''removeUntrackedLockfiles'' = Some (JBool True)),
       se_generated = or_else (get ''generated'') (JArr []), se_preflight = pf,
       se_install_units = (get ''installUnits'' = Some (JBool True)), se_enable_units = (get ''enableUnits'' = Some (JBool True)),
       se_units_match = when_set (get ''unitsMatch''), se_release_files = when_set (soft ''releaseFiles'' (get ''announce'')),
       se_units = [], se_worker_units = [], se_auxiliary_units = aux, se_socket_unit = None, se_unit_sources = [],
       se_env_file = envFile, se_env_required = or_else (soft ''required'' (get ''env'')) (JArr []),
       se_env_example = or_else (soft ''example'' (get ''env'')) (JStr ''.env.example''),
       se_port = None, se_ready = None, se_health = or_else (get ''health'') JNull,
       se_packages = or_else (get ''packages'') (strs [''.'']), se_install_command = [],
       se_install_always = truthy (soft ''always'' (get ''install'')),
       se_restore_lockfile = (soft ''restoreLockfile'' (get ''install'') \<noteq> Some (JBool False)),
       se_lockfile = or_else (soft ''lockfile'' (get ''install'')) (JStr ''package-lock.json''),
       se_workspace = truthy (soft ''workspace'' (get ''install'')), se_build = [],
       se_no_restart_paths = or_else (get ''noRestartPaths'') (JArr []), se_protected = when_set (get ''protected''),
       se_drain = put_all default_drain (entries_of (or_else (get ''drain'') (JObj []))),
       se_databases = dbs, se_objects = objs, se_backup_on_change = or_else (get ''backupOnChange'') (JArr []),
       se_nginx = when_set (get ''nginx''), se_origin = origin, se_shots = shots,
       se_lifecycle = (if is_null (get ''lifecycle'') then None else get ''lifecycle''), se_drill = None\<rparr>)"

text \<open>
  The checks after that, in their order, which give the properties they read their values. The second
  check of \<^verbatim>\<open>unitSources\<close> for a release layout repeats one already made.
\<close>

definition check_layout_paths :: "service_entry \<Rightarrow> unit checked" where
  "check_layout_paths e =
     wanted (se_strategy e = ''release-layout'')
       (demand (case se_generated e of
          JArr xs \<Rightarrow> xs = [] | JStr t \<Rightarrow> t = [] | _ \<Rightarrow> True) ''generated: a release-layout service builds each release in its own directory'')"

definition finish_entry :: "url_parser \<Rightarrow> (str \<times> json) list \<Rightarrow> service_entry \<Rightarrow> service_entry checked" where
  "finish_entry parse s e0 =
     (let get = map_of s in
      next_check (demand (case string_of (get ''owner'') of Some u \<Rightarrow> is_user_name u | None \<Rightarrow> False) ''owner must be a user name'')
      (next_check (demand (is_user_name (js_string (se_run_as e0))) ''runAs must be a user name'')
      (sbind (read_units (or_else (get ''units'') (JArr []))) (\<lambda>units.
      sbind (read_socket_unit (get ''socketUnit'')) (\<lambda>sock.
      sbind (read_workers units (or_else (get ''workerUnits'') (JArr []))) (\<lambda>workers.
      next_check (check_each (check_auxiliary units workers (map fst (entries_of (or_else (get ''unitSources'') (JObj [])))))
        (se_auxiliary_units e0))
      (sbind (map_checked read_source (entries_of (or_else (get ''unitSources'') (JObj [])))) (\<lambda>sources.
      sbind (optional_port (get ''port'') ''port must be a TCP port'') (\<lambda>port.
      sbind (read_ready (get ''ready'')) (\<lambda>ready.
      next_check (check_list check_package (se_packages e0))
      (next_check (check_list check_skip (se_skip_packages e0))
      (next_check (check_list check_rel (se_generated e0))
      (next_check (demand (is_file_name (js_string (se_lockfile e0))) ''install.lockfile must be a file name'')
      (next_check (demand (se_units_match e0 = None \<or> matches is_unit_glob (se_units_match e0)) ''unitsMatch must be a unit-file glob'')
      (next_check (demand (se_release_files e0 = None \<or> matches is_release_glob (se_release_files e0)) ''announce.releaseFiles must look like'')
      (next_check (check_layout_paths e0)
      (sbind (read_argv (or_else (soft ''command'' (get ''install'')) default_install)) (\<lambda>command.
      sbind (sbind (iterated (or_else (get ''build'') (JArr []))) (map_checked read_argv)) (\<lambda>builds.
      next_check (demand (map_of (se_drain e0) ''policy'' \<in> {Some (JStr ''refuse''), Some (JStr ''wait''), Some (JStr ''report'')})
        ''drain.policy must be one of'')
      (next_check (check_optional check_probe (se_protected e0))
      (next_check (check_optional check_nginx (se_nginx e0))
      (next_check (demand (se_lifecycle e0 = None \<or> object_of (se_lifecycle e0) \<noteq> None) ''lifecycle must be an object'')
      (next_check (check_list check_rel (se_backup_on_change e0))
      (let e = e0\<lparr>se_units := units, se_worker_units := workers, se_socket_unit := sock, se_unit_sources := sources,
                  se_port := port, se_ready := ready, se_install_command := command, se_build := builds\<rparr> in
       case when_set (get ''drill'') of
         None \<Rightarrow> Inr e
       | Some d \<Rightarrow> sbind (normalise_drill parse d e) (\<lambda>dr. Inr (e\<lparr>se_drill := Some dr\<rparr>))))))))))))))))))))))))))"

definition is_current_link :: "(str \<times> json) list \<Rightarrow> str \<Rightarrow> bool" where
  "is_current_link s repo \<longleftrightarrow> path_basename repo = ''current'' \<and> \<not> truthy (soft ''current'' (map_of s ''release''))"

definition normalise_service :: "url_parser \<Rightarrow> str \<Rightarrow> json \<Rightarrow> json \<Rightarrow> service_entry checked" where
  "normalise_service parse sid raw defaults =
     next_check (demand (is_inventory_id sid) ''service id must match'')
     (sbind (field_of ''strategy'' (Some raw)) (\<lambda>st.
      case string_of (if is_null st then Some (JStr ''git-checkout'') else st) of
        None \<Rightarrow> refuse ''strategy must be one of''
      | Some strategy \<Rightarrow>
          next_check (demand (strategy \<in> set strategies) ''strategy must be one of'')
          (next_check (demand (strategy = ''release-layout'' \<or> member_of ''layout'' raw \<noteq> Some (JStr ''release'')) ''layout release needs strategy release-layout'')
          (let s = with_preset (put_all (put_all [] (entries_of defaults)) (entries_of raw)) strategy; get = map_of s;
               layout = (strategy = ''release-layout'' \<or> get ''layout'' = Some (JStr ''release'')) in
           sbind (abs_path (get ''repo'')) (\<lambda>repo0.
           let repo = (if layout \<and> is_current_link s repo0 then path_dirname repo0 else repo0) in
           sbind (if strategy = ''release-layout'' then sbind (normalise_release (get ''release'') repo) (\<lambda>r. Inr (Some r)) else Inr None) (\<lambda>release.
           sbind (read_policy (get ''deploy'')) (\<lambda>policy.
           sbind (normalise_preflight (get ''preflight'')) (\<lambda>pf.
           sbind (normalise_auxiliary_units (get ''auxiliaryUnits'')) (\<lambda>aux.
           sbind (if truthy (get ''envFile'') then sbind (abs_path (get ''envFile'')) (\<lambda>p. Inr (Some p)) else Inr None) (\<lambda>envFile.
           sbind (sbind (elements_or_none (get ''databases'')) (map_checked read_database)) (\<lambda>dbs.
           sbind (normalise_objects (get ''objects'')) (\<lambda>objs.
           sbind (if is_null (get ''origin'') then Inr None else sbind (https_origin parse (get ''origin'')) (\<lambda>u. Inr (Some u))) (\<lambda>origin.
           sbind (read_shots (get ''shots'')) (\<lambda>shots.
           finish_entry parse s (first_entry sid s repo strategy release layout policy pf aux envFile dbs objs origin shots)))))))))))))))"

end
