(* ===== verification/Inventory.thy ===== *)
theory Inventory
  imports Inventory_Entry
begin

text \<open>
  The inventory, \<^verbatim>\<open>lib/inventory.js\<close>: \<^verbatim>\<open>normaliseNodes\<close>, \<^verbatim>\<open>normalise\<close>,
  \<^verbatim>\<open>load\<close> and \<^verbatim>\<open>service\<close>; what an accepted inventory guarantees; and the typed view
  of an accepted entry on which the deploy engines of this development run.
\<close>

section \<open>Nodes\<close>

definition read_node :: "url_parser \<Rightarrow> (str \<times> json) list list \<Rightarrow> json \<Rightarrow> (str \<times> json) list checked" where
  "read_node parse seen n =
     (case object_of (Some n) of
        None \<Rightarrow> refuse ''nodes.id must match''
      | Some kvs \<Rightarrow>
          (let nid = or_else (map_of kvs ''id'') (JStr []) in
           next_check (demand (is_inventory_id (js_string nid)) ''nodes.id must match'')
           (next_check (demand (\<not> list_ex (\<lambda>k. strict_eq (map_of k ''id'') nid) seen) ''nodes.id is listed twice'')
           (next_check (demand (map_of kvs ''address'' = None \<and> map_of kvs ''ip'' = None) ''nodes must not carry an address'')
           (next_check (demand (case parse (text_of (map_of kvs ''beacon'')) of Some u \<Rightarrow> u_protocol u = ''https:'' | None \<Rightarrow> False)
              ''nodes.beacon must be an https:// URL'')
           (Inr kvs))))))"

definition normalise_nodes :: "url_parser \<Rightarrow> json option \<Rightarrow> (str \<times> json) list list checked" where
  "normalise_nodes parse raw =
     (if is_null raw then Inr []
      else case array_of raw of
          None \<Rightarrow> refuse ''nodes must be an array''
        | Some xs \<Rightarrow> map_seen (read_node parse) [] xs)"

section \<open>The inventory\<close>

record inventory_entry =
  ie_host :: json
  ie_state_dir :: str
  ie_deploy_guard :: guard_cfg
  ie_backup_dir :: str
  ie_backup_staging_dir :: str
  ie_drill_dir :: str
  ie_sites_available :: str
  ie_sites_enabled :: str
  ie_nginx_bin :: json
  ie_events_env_file :: "str option"
  ie_dns_only :: "str list"
  ie_node_source :: json
  ie_nodes :: "(str \<times> json) list list"
  ie_services :: "(str \<times> service_entry) list"

definition default_guard :: "(str \<times> json) list" where
  "default_guard =
     [(''minAvailableMiB'', JNum 1536), (''memoryWaitSeconds'', JNum 300), (''memoryPollSeconds'', JNum 5),
      (''lockWaitSeconds'', JNum 1800)]"

definition is_guard_key :: "str \<Rightarrow> bool" where
  "is_guard_key k \<longleftrightarrow> k \<in> set [''minAvailableMiB'', ''memoryWaitSeconds'', ''memoryPollSeconds'', ''lockWaitSeconds'']"

text \<open>\<^verbatim>\<open>Number.isSafeInteger(v) && v > 0\<close>\<close>

definition safe_positive :: "json \<Rightarrow> bool" where
  "safe_positive v = (case v of JNum q \<Rightarrow> is_whole q \<and> 0 < q \<and> q < 9007199254740992 | _ \<Rightarrow> False)"

definition guard_number :: "(str \<times> json) list \<Rightarrow> str \<Rightarrow> int" where
  "guard_number kvs k = (case map_of kvs k of Some (JNum q) \<Rightarrow> \<lfloor>q\<rfloor> | _ \<Rightarrow> 0)"

definition read_guard :: "json option \<Rightarrow> guard_cfg checked" where
  "read_guard v =
     (let kvs = put_all default_guard (entries_of (or_else v (JObj []))) in
      next_check (check_each (\<lambda>(k, x). demand (is_guard_key k \<and> safe_positive x) ''deployGuard must be a positive integer'') kvs)
      (Inr \<lparr>g_min_available_mib = guard_number kvs ''minAvailableMiB'', g_memory_wait_seconds = guard_number kvs ''memoryWaitSeconds'',
            g_memory_poll_seconds = guard_number kvs ''memoryPollSeconds'', g_lock_wait_seconds = guard_number kvs ''lockWaitSeconds''\<rparr>))"

definition default_dns_only :: "str list" where
  "default_dns_only =
     [''ingest.openvibe.live'', ''relay.openvibe.live'', ''turn.openvibe.live'', ''cname.openvibe.host'', ''ingest.openre.stream'']"

definition dir_or :: "str \<Rightarrow> json option \<Rightarrow> str checked" where
  "dir_or d v = abs_path (Some (or_else v (JStr d)))"

definition read_services :: "url_parser \<Rightarrow> json \<Rightarrow> (str \<times> json) list \<Rightarrow> (str \<times> service_entry) list checked" where
  "read_services parse defaults kvs =
     map_checked (\<lambda>(sid, svc). sbind (normalise_service parse sid svc defaults) (\<lambda>e. Inr (sid, e)))
       (filter (\<lambda>(sid, svc). \<not> starts_with sid ''_'') kvs)"

text \<open>No drill port is the port of a service, nor that of an earlier drill.\<close>

definition drill_port :: "service_entry \<Rightarrow> int option" where
  "drill_port e = (case se_drill e of Some (Supported d) \<Rightarrow> Some (dr_port d) | _ \<Rightarrow> None)"

fun check_drill_ports :: "int list \<Rightarrow> int list \<Rightarrow> service_entry list \<Rightarrow> unit checked" where
  "check_drill_ports ports seen [] = Inr ()"
| "check_drill_ports ports seen (e # es) =
     (case drill_port e of
        None \<Rightarrow> check_drill_ports ports seen es
      | Some p \<Rightarrow>
          next_check (demand (p \<notin> set ports) ''drill.port is the port of a service'')
          (next_check (demand (p \<notin> set seen) ''drill.port is also the drill port of a service'')
          (check_drill_ports ports (seen @ [p]) es)))"

definition service_ports :: "service_entry list \<Rightarrow> int list" where
  "service_ports es = concat (map (\<lambda>e. case se_port e of Some p \<Rightarrow> [p] | None \<Rightarrow> []) es)"

definition normalise :: "url_parser \<Rightarrow> json \<Rightarrow> inventory_entry checked" where
  "normalise parse raw =
     (let get = (\<lambda>k. soft k (Some raw)); services = get ''services''; nginx = get ''nginx''; ev = soft ''envFile'' (get ''events'') in
      next_check (demand (case (raw, services) of (JObj _, Some (JObj _)) \<Rightarrow> True | (JObj _, Some (JArr _)) \<Rightarrow> True | _ \<Rightarrow> False)
        ''inventory needs a services object'')
      (sbind (read_guard (get ''deployGuard'')) (\<lambda>guard.
      sbind (dir_or ''/var/lib/openvibe-host'' (get ''stateDir'')) (\<lambda>stateDir.
      sbind (dir_or ''/var/backups/openvibe'' (get ''backupDir'')) (\<lambda>backupDir.
      sbind (dir_or (strip_slashes backupDir @ ''.staging'') (get ''backupStagingDir'')) (\<lambda>stagingDir.
      sbind (dir_or ''/var/lib/openvibe-drills'' (get ''drillDir'')) (\<lambda>drillDir.
      sbind (dir_or ''/etc/nginx/sites-available'' (soft ''sitesAvailable'' nginx)) (\<lambda>available.
      sbind (dir_or ''/etc/nginx/sites-enabled'' (soft ''sitesEnabled'' nginx)) (\<lambda>enabled.
      sbind (if truthy ev then sbind (abs_path ev) (\<lambda>p. Inr (Some p)) else Inr None) (\<lambda>envFile.
      sbind (normalise_nodes parse (get ''nodes'')) (\<lambda>nodes.
      sbind (read_services parse (or_else (get ''defaults'') (JObj [])) (entries_of (or_else services JNull))) (\<lambda>svcs.
      next_check (check_drill_ports (service_ports (map snd svcs)) [] (map snd svcs))
      (Inr \<lparr>ie_host = or_else (get ''host'') JNull, ie_state_dir = stateDir, ie_deploy_guard = guard, ie_backup_dir = backupDir,
            ie_backup_staging_dir = stagingDir, ie_drill_dir = drillDir, ie_sites_available = available,
            ie_sites_enabled = enabled, ie_nginx_bin = or_else (soft ''bin'' nginx) (JStr ''nginx''),
            ie_events_env_file = envFile,
            ie_dns_only = (case array_of (soft ''dnsOnly'' (get ''dns'')) of Some xs \<Rightarrow> map js_string xs | None \<Rightarrow> default_dns_only),
            ie_node_source = or_else (get ''nodeSource'') (JStr ''primary''), ie_nodes = nodes, ie_services = svcs\<rparr>)))))))))))))"

section \<open>Reading it\<close>

definition group_or_world_writable :: "int \<Rightarrow> bool" where
  "group_or_world_writable mode \<longleftrightarrow> and mode 18 \<noteq> 0"

definition fault_error :: "fault \<Rightarrow> exc" where
  "fault_error f = (case f of Refused m \<Rightarrow> InventoryError m | TypeFault \<Rightarrow> JsError ''TypeError'')"

definition of_checked :: "'a checked \<Rightarrow> ('l, 'a) prog" where
  "of_checked m = (case m of Inl f \<Rightarrow> throw (fault_error f) | Inr x \<Rightarrow> ret x)"

definition candidates :: "str option \<Rightarrow> str option \<Rightarrow> str list" where
  "candidates chosen env =
     (case (chosen, env) of
        (Some (c # f), _) \<Rightarrow> [c # f]
      | (_, Some (c # e)) \<Rightarrow> [c # e]
      | _ \<Rightarrow> [''/etc/openvibe/host.json''])"

text \<open>\<^verbatim>\<open>JSON.parse(null)\<close>, of a file that went away, is \<^verbatim>\<open>null\<close>.\<close>

definition read_inventory :: "url_parser \<Rightarrow> host \<Rightarrow> str \<Rightarrow> file_stat \<Rightarrow> ('l, str \<times> inventory_entry) prog" where
  "read_inventory parse H f st =
     (if h_is_root H \<and> st_uid st \<noteq> 0 then throw (InventoryError ''must be owned by root when ovhost runs as root'')
      else if h_is_root H \<and> group_or_world_writable (st_mode st)
        then throw (InventoryError ''must not be group- or world-writable when ovhost runs as root'')
      else
        bind (exec_read H f) (\<lambda>text.
        case json_parse (case text of Some t \<Rightarrow> t | None \<Rightarrow> ''null'') of
          None \<Rightarrow> throw (InventoryError ''is not valid JSON'')
        | Some raw \<Rightarrow> bind (of_checked (normalise parse raw)) (\<lambda>i. ret (f, i))))"

fun load_first :: "url_parser \<Rightarrow> host \<Rightarrow> str list \<Rightarrow> ('l, str \<times> inventory_entry) prog" where
  "load_first parse H [] = throw (InventoryError ''no inventory found'')"
| "load_first parse H (f # fs) =
     bind (exec_stat H f) (\<lambda>st.
     case st of None \<Rightarrow> load_first parse H fs | Some x \<Rightarrow> read_inventory parse H f x)"

definition load :: "url_parser \<Rightarrow> host \<Rightarrow> str option \<Rightarrow> str option \<Rightarrow> ('l, str \<times> inventory_entry) prog" where
  "load parse H chosen env = load_first parse H (candidates chosen env)"

end
