(* ===== verification/Layout_Safety.thy ===== *)
theory Layout_Safety
  imports Release_Layout Deploy_Safety
begin

text \<open>
  What the release-layout engine promises whatever the host answers: the one socket unit it may restart is
  the service's own, and only for a reason; a refused operation neither switches nor restarts anything;
  pruning never removes a release that is needed; and the exit code tells the outcome.
\<close>

section \<open>Sockets\<close>

definition socket_of :: "service \<Rightarrow> str" where
  "socket_of svc = (case s_socket_unit svc of Some u \<Rightarrow> u | None \<Rightarrow> [])"

text \<open>Besides what keeps every socket listening: a restart of one unit.\<close>

definition restarts_socket :: "str \<Rightarrow> event \<Rightarrow> bool" where
  "restarts_socket u e \<longleftrightarrow> socket_kept e \<or> (\<exists>opts. e = ERun ''systemctl'' [''restart'', u] opts)"

interpretation rebinds: service_class "restarts_socket u" for u
  by unfold_locales (auto simp: restarts_socket_def harmless_socket_kept kept.admits_start kept.admits_enable
      kept.admits_daemon_reload kept.admits_reload_nginx socket_safe_actions_def ends_with_def)

lemma service_no_socket: "ends_with u ''.service'' \<Longrightarrow> \<not> ends_with u ''.socket''"
  by (auto simp: ends_with_iff append_eq_append_conv2 Cons_eq_append_conv)

lemma stop_service_kept:
  "ends_with u ''.service'' \<Longrightarrow> socket_kept (ERun ''systemctl'' [''stop'', u] opts)"
  by (simp add: service_no_socket)

lemma emits_rebind_socket: "emits (restarts_socket sock) (rebind_socket H u sock why)"
  unfolding rebind_socket_def
  by (intro emits_rules) (auto simp: restarts_socket_def stop_service_kept socket_safe_actions_def service_no_socket)

lemma restart_allowed [emits_rules]: "emits (restarts_socket sock) (restart H u)"
  by (rule emits_mono [OF restart_socket_kept]) (simp add: restarts_socket_def)

lemma emits_restart_release [emits_rules]: "emits (restarts_socket (socket_of svc)) (restart_release c svc b sha t)"
  unfolding restart_release_def Let_def socket_of_def [symmetric]
  by (intro emits_rules emits_rebind_socket)

lemma emits_layout_body:
  assumes "commands_ok svc" "units_named svc"
  shows "emits (restarts_socket (socket_of svc)) (layout_body c svc mode opts)"
  unfolding layout_body_def layout_steps_def switch_and_restart_def switch_back_def Let_def
  using assms by (intro emits_rules)

lemma emits_apply_layout:
  assumes "commands_ok svc" "units_named svc"
  shows "emits (restarts_socket (socket_of svc)) (apply_layout c svc mode opts)"
  unfolding apply_layout_def using assms by (intro emits_rules emits_layout_body) 

text \<open>What systemd answers when it holds every listener it is asked about.\<close>

definition listeners_held :: "host \<Rightarrow> bool" where
  "listeners_held H \<longleftrightarrow>
     (\<forall>tr port. case h_listeners H tr port of Inl m \<Rightarrow> True | Inr hs \<Rightarrow> list_ex holds_listener hs)"

lemma socket_held_true: "listeners_held H \<Longrightarrow> returns (\<lambda>b. b) (socket_held H port)"
  unfolding listeners_held_def returns_def socket_held_def
  by (auto simp: prog_simps split: sum.splits prod.splits)

lemma no_rebind_reason:
  assumes "listeners_held (exec c)"
  shows "returns (\<lambda>w. w = None) (rebind_reason c svc False)"
proof -
  have h: "returns (\<lambda>b. b) (case listen_port svc of None \<Rightarrow> ret True | Some port \<Rightarrow> socket_held (exec c) port)"
    by (cases "listen_port svc") (simp_all add: returns_ret socket_held_true [OF assms])
  have w: "returns (\<lambda>w. w = None) (ret (if False then Some ''socket-changed'' else if \<not> b then Some ''socket-not-held'' else None))"
    if b for b using that by (simp add: returns_ret)
  show ?thesis
    unfolding rebind_reason_def
    by (cases "given (s_socket_unit svc)") (simp_all only: option.case returns_ret returns_andthen returns_bind [OF h w] )
qed

lemma emits_bind_returns:
  assumes m: "emits A m" and q: "returns Q m" and f: "\<And>x. Q x \<Longrightarrow> emits A (f x)"
  shows "emits A (bind m f)"
proof (rule emitsI)
  fix tr l
  obtain r tr1 l1 where run: "m (tr, l) = (r, tr1, l1)" by (cases "m (tr, l)") auto
  from m run obtain es where es: "tr1 = es @ tr" "\<forall>e \<in> set es. A e" by (rule emitsD)
  show "\<exists>es. fst (snd (bind m f (tr, l))) = es @ tr \<and> (\<forall>e \<in> set es. A e)"
  proof (cases r)
    case (Inl e)
    with run es show ?thesis by (auto simp: bind_def)
  next
    case (Inr x)
    with run have "Q x" using returnsD [OF q] by blast
    from f [OF this] obtain es2 where "fst (snd (f x (tr1, l1))) = es2 @ tr1" "\<forall>e \<in> set es2. A e"
      unfolding emits_def by blast
    with run Inr es show ?thesis by (intro exI [of _ "es2 @ es"]) (auto simp: bind_def)
  qed
qed

lemma restart_keeps_held_socket:
  assumes "listeners_held (exec c)"
  shows "emits socket_kept (restart_release c svc False sha t)"
  unfolding restart_release_def Let_def
proof (rule emits_bind_returns [OF _ no_rebind_reason [OF assms]])
  fix w :: "str option" assume "w = None"
  then show "emits socket_kept
    (bind (case w of Some w \<Rightarrow> bind (rebind_socket (exec c) (case s_units svc of [] \<Rightarrow> [] | u # _ \<Rightarrow> u) (case s_socket_unit svc of None \<Rightarrow> [] | Some u \<Rightarrow> u) w)
              (\<lambda>_. ret (drop 1 (s_units svc))) | None \<Rightarrow> ret (s_units svc)) (\<lambda>us.
     andthen (each (restart (exec c)) us)
       (bind (wait_ready c svc t sha (s_units svc)) (\<lambda>r.
        bind (case (given (s_socket_unit svc), listen_port svc) of
                (Some u, Some port) \<Rightarrow> (if rr_ok r then bind (socket_held (exec c) port) (\<lambda>b. ret (Some b)) else ret None)
              | _ \<Rightarrow> ret None) (\<lambda>h.
        ret \<lparr>rl_ready = r, rl_rebind = w, rl_socket_held = h\<rparr>)))))"
    by (simp only: option.case) (intro emits_rules)
qed (intro emits_rules)

section \<open>Refusals\<close>

lemma quiet_symlink: "raises no_op_error (exec_symlink H t p)"
  unfolding exec_symlink_def by (rule raises_ask_or) simp

lemma quiet_git_try: "raises E (git_try H g as)"
  unfolding git_try_def by (intro raises_rules)

lemma quiet_switch: "raises no_op_error (switch_current c svc dir)"
  unfolding switch_current_def Let_def by (intro raises_rules quiet_symlink) simp_all

lemma quiet_systemctl: "raises no_op_error (systemctl H a u)"
  unfolding systemctl_def by (intro raises_rules) simp_all

lemma quiet_release_sha: "raises no_op_error (release_sha H svc dir)"
  unfolding release_sha_def by (intro raises_rules) simp_all

lemma quiet_releases_in_use: "raises no_op_error (releases_in_use H svc)"
  unfolding releases_in_use_def unit_release_def worker_releases_def by (intro raises_rules) simp_all

lemma quiet_prune: "raises no_op_error (prune_releases c svc keepIds)"
  unfolding prune_releases_def list_releases_def current_release_def remove_release_def
    git_worktree_remove_def git_worktree_prune_def Let_def
  by (intro raises_rules quiet_release_sha quiet_releases_in_use quiet_git_try)

lemma quiet_finish_deploy: "raises no_op_error (finish_deploy c svc mode p)"
  unfolding finish_deploy_def by (intro raises_rules quiet_prune)

lemma quiet_probe: "raises E (ready_probe H svc)"
  unfolding ready_probe_def by (intro raises_rules)

lemma quiet_switch_only: "raises no_op_error (switch_only c svc mode p dir)"
  unfolding switch_only_def switch_to_def by (intro raises_rules quiet_switch quiet_probe quiet_finish_deploy)

lemma quiet_install_release_units: "raises no_op_error (install_release_units c svc dir)"
  unfolding install_release_units_def copy_release_unit_def daemon_reload_def enable_def Let_def
  by (intro raises_rules quiet_systemctl) simp_all

lemma quiet_restart_release: "raises no_op_error (restart_release c svc b sha t)"
  unfolding restart_release_def rebind_reason_def rebind_socket_def socket_held_def wait_ready_def Let_def
  by (intro raises_rules quiet_restart quiet_ensure_socket quiet_ready_loop) simp_all

lemma quiet_switch_and_restart: "raises no_op_error (switch_and_restart c svc mode opts p dir)"
  unfolding switch_and_restart_def switch_to_def switch_back_def
  by (intro raises_rules quiet_switch quiet_install_release_units quiet_restart_release quiet_finish_deploy) simp_all

lemma clean_layout_steps:
  "commands_ok svc \<Longrightarrow> clean (restarts_only []) (layout_steps c svc mode opts p)"
  unfolding layout_steps_def Let_def
  by (intro clean_andthen clean_if clean_raises [OF quiet_switch_and_restart] clean_emits emits_rules)

lemma clean_layout_body: "commands_ok svc \<Longrightarrow> clean (restarts_only []) (layout_body c svc mode opts)"
  unfolding layout_body_def
  by (intro clean_andthen clean_bind_any clean_if clean_layout_steps) (intro clean_emits emits_rules)+

lemma clean_apply_layout: "commands_ok svc \<Longrightarrow> clean (restarts_only []) (apply_layout c svc mode opts)"
  unfolding apply_layout_def run_operation_def
  by (intro clean_if clean_emits [OF emits_throw] clean_bind_any clean_andthen emits_rules)
    (auto intro!: clean_bind_any clean_andthen clean_try_finally clean_rethrow clean_layout_body quiet_close emits_rules)

section \<open>What the steps leave alone\<close>

lemma leaves_instances [leaves_rules]: "leaves f (instances H w)"
  unfolding instances_def by (intro leaves_rules)

lemma leaves_release_sha [leaves_rules]: "leaves f (release_sha H svc dir)"
  unfolding release_sha_def git_ops by (intro leaves_rules)

lemma leaves_current_release [leaves_rules]: "leaves f (current_release H svc)"
  unfolding current_release_def exec_ops by (intro leaves_rules)

lemma leaves_list_releases [leaves_rules]: "leaves f (list_releases H svc)"
  unfolding list_releases_def exec_ops by (intro leaves_rules)

lemma leaves_prune_releases [leaves_rules]: "leaves f (prune_releases c svc keepIds)"
  unfolding prune_releases_def releases_in_use_def unit_release_def worker_releases_def remove_release_def
    git_worktree_remove_def git_worktree_prune_def exec_ops
  by (intro leaves_rules)

lemma leaves_find_by_sha [leaves_rules]: "leaves f (find_by_sha H svc to rs)"
  by (induction rs) (auto intro!: leaves_rules)

lemma leaves_layout_compute_plan [leaves_rules]: "leaves f (layout_compute_plan c svc mode to fetch rest)"
  unfolding layout_compute_plan_def layout_target_def rollback_target_def target_of_def list_records_def
    finish_layout_plan_def layout_drift_def layout_install_def layout_socket_def needs_install_def
    git_ops exec_ops Let_def
  by (intro leaves_rules)

lemma leaves_switch_current [leaves_rules]: "leaves f (switch_current c svc dir)"
  unfolding switch_current_def exec_ops by (intro leaves_rules)

lemma leaves_install_release_units [leaves_rules]: "leaves f (install_release_units c svc dir)"
  unfolding install_release_units_def copy_release_unit_def exec_ops by (intro leaves_rules)

lemma leaves_restart_release [leaves_rules]: "leaves f (restart_release c svc b sha t)"
  unfolding restart_release_def rebind_reason_def rebind_socket_def exec_ops by (intro leaves_rules)

lemma leaves_discard [leaves_rules]:
  "(\<And>l. f (l\<lparr>ly_removed_prepared := True\<rparr>) = f l) \<Longrightarrow> leaves f (discard_prepared c svc dir)"
  unfolding discard_prepared_def git_worktree_remove_def by (intro leaves_rules) assumption

lemma leaves_guarded:
  assumes "\<And>b (s::engine_state). f (set_host_lock b s) = f s" "\<And>n (s::engine_state). f (s\<lparr>os_sessions := n\<rparr>) = f s"
    "\<And>b (s::engine_state). f (s\<lparr>os_forced := b\<rparr>) = f s"
  shows "leaves f (guarded c svc opts when)"
proof -
  have poll: "leaves f (poll_idle H svc start q n)" for H start q n
  proof (induction n arbitrary: q)
    case (Suc n)
    then show ?case unfolding poll_idle.simps note_waited_def exec_ops by (intro leaves_rules) (simp_all add: assms)
  qed (simp add: leaves_pure)
  show ?thesis
    unfolding guarded_def guard_sessions_def wait_outside_lock_def guard_acquire_def exec_ops
    by (intro leaves_rules poll) (simp_all add: assms)
qed

text \<open>The two marks that say what has happened to the running service.\<close>

abbreviation touched :: "engine_state \<Rightarrow> bool \<times> bool" where
  "touched s \<equiv> (os_restarted s, ly_switched s)"

lemma leaves_touched:
  "leaves touched (prepare_release c svc p)" "leaves touched (prepare_failed c svc dir e)"
  "leaves touched (guard_release c svc opts p dir)" "leaves touched (take_host_lock c svc)"
  unfolding prepare_release_def make_release_def make_link_def fill_modules_def chown_release_def
    checked_deps_def checked_preflight_def prepare_failed_def guard_release_def backup_before_restart_def
    take_host_lock_def guard_acquire_def git_worktree_add_def exec_ops Let_def
  by (intro leaves_rules leaves_guarded; simp add: note_installed_def set_host_lock_def)+

lemma leaves_restarted_switch: "leaves os_restarted (switch_to c svc p dir)"
  unfolding switch_to_def by (intro leaves_rules) simp

section \<open>Outcomes\<close>

text \<open>
  What an exit code means for a release layout. A switch without a restart that does not answer is taken
  back and exits 3 too, whether or not the release it went back to answers.
\<close>

definition layout_ok :: "op_mode \<Rightarrow> nat \<Rightarrow> engine_state \<Rightarrow> bool" where
  "layout_ok mode code s \<longleftrightarrow>
     (code = exit_ok \<and> (os_result s = Some (success_name mode) \<and> (os_restarted s \<longrightarrow> os_ready s = Some True) \<or>
        os_result s \<in> {Some ''unchanged'', Some ''prepared''} \<and> \<not> os_restarted s \<and> \<not> ly_switched s)) \<or>
     (code = exit_rolled_back \<and> os_result s = Some ''failed-rolled-back'' \<and> os_ready s = Some False \<and>
        (os_restarted s \<longrightarrow> os_rollback_ready s = Some True)) \<or>
     (code = exit_rollback_failed \<and> os_result s = Some ''rollback-failed'' \<and> os_restarted s \<and> os_ready s = Some False)"

abbreviation any_exc :: "exc \<Rightarrow> engine_state \<Rightarrow> bool" where
  "any_exc e s \<equiv> True"

lemma triple_quiet: "raises E m \<Longrightarrow> triple P m Q (\<lambda>e s. True) \<Longrightarrow> triple P m Q (\<lambda>e s. E e)"
  unfolding triple_def by (auto dest: raisesD split: sum.splits)

lemma triple_returns:
  "triple P m Q R \<Longrightarrow> returns V m \<Longrightarrow> triple P m (\<lambda>x l. Q x l \<and> V x) R"
  unfolding triple_def by (auto dest: returnsD split: sum.splits)

lemma finish_deploy_outcome:
  "triple (\<lambda>s. os_restarted s \<longrightarrow> os_ready s = Some True) (finish_deploy c svc mode p)
     (\<lambda>out. layout_ok mode (lo_exit out)) any_exc"
  unfolding finish_deploy_def
  by (intro triple_set_andthen, cases "mode = Deploy"; simp add: whenever_def)
    ((rule triple_andthen [OF triple_skip_bind [OF leaves_prune_releases _ triple_modl [where Q = "\<lambda>_ s. (os_restarted s \<longrightarrow> os_ready s = Some True) \<and> os_result s = Some (success_name mode)"]]]
      | rule triple_andthen [OF triple_ret [where Q = "\<lambda>_ s. (os_restarted s \<longrightarrow> os_ready s = Some True) \<and> os_result s = Some (success_name mode)"]]);
      auto simp: set_result_def layout_ok_def exit_defs intro!: triple_ret)+

lemma switch_back_outcome:
  "triple (\<lambda>s. os_restarted s \<and> os_ready s = Some False) (switch_back c svc opts p)
     (\<lambda>out. layout_ok mode (lo_exit out)) any_exc"
proof -
  let ?P = "\<lambda>s. os_restarted s \<and> os_ready s = Some False"
  have fin: "triple ?P
     (andthen (modl (\<lambda>s. s\<lparr>os_rollback_ready := Some (rr_ok (rl_ready b))\<rparr>))
        (if rr_ok (rl_ready b) then andthen (modl (set_result ''failed-rolled-back'')) (ret exit_rolled_back)
         else andthen (modl (set_result ''rollback-failed'')) (ret exit_rollback_failed)))
     (layout_ok mode) (\<lambda>e. ?P)" for b
    by (intro triple_set_andthen triple_if triple_ret) (auto simp: set_result_def layout_ok_def exit_defs)
  have body: "triple ?P
     (bind getl (\<lambda>s.
         andthen (whenever (ly_switched s) (switch_current c svc (lp_current_dir p)))
         (bind (install_release_units c svc (lp_current_dir p)) (\<lambda>(changed, sock).
          bind (restart_release c svc sock (Some (lp_from p)) (op_ready_timeout opts)) (\<lambda>b.
          andthen (modl (\<lambda>s. s\<lparr>os_rollback_ready := Some (rr_ok (rl_ready b))\<rparr>))
          (if rr_ok (rl_ready b)
           then andthen (modl (set_result ''failed-rolled-back'')) (ret exit_rolled_back)
           else andthen (modl (set_result ''rollback-failed'')) (ret exit_rollback_failed))))))) (layout_ok mode) (\<lambda>e. ?P)"
    by (intro triple_skip_bind triple_skip_andthen triple_prod leaves_rules fin)
  have handler: "triple ?P
     (andthen (modl (\<lambda>s. (set_result ''rollback-failed'' s)\<lparr>os_error := Some (exc_message e)\<rparr>))
        (ret exit_rollback_failed)) (layout_ok mode) any_exc" for e
    by (intro triple_set_andthen triple_ret) (auto simp: set_result_def layout_ok_def exit_defs)
  show ?thesis
    unfolding switch_back_def
    by (rule triple_andthen [OF triple_modl [where Q = "\<lambda>_. ?P"]], simp)
      (rule triple_bind [OF triple_try_catch [OF body handler]]; simp add: triple_ret)
qed

lemma switch_and_restart_outcome:
  "triple (\<lambda>s. True) (switch_and_restart c svc mode opts p dir) (\<lambda>out. layout_ok mode (lo_exit out)) any_exc"
proof -
  have any: "triple P (switch_to c svc p dir) (\<lambda>_ s. True) any_exc" for P
    by (rule tripleI) (auto split: sum.split)
  have good: "triple (\<lambda>l'. (\<exists>l. True \<and> l' = note_restart r l) \<and> rr_ok (rl_ready r)) (finish_deploy c svc mode p)
     (\<lambda>out. layout_ok mode (lo_exit out)) any_exc" for r
    by (rule triple_conseq [OF finish_deploy_outcome]) (auto simp: note_restart_def)
  have bad: "triple (\<lambda>l'. (\<exists>l. True \<and> l' = note_restart r l) \<and> \<not> rr_ok (rl_ready r)) (switch_back c svc opts p)
     (\<lambda>out. layout_ok mode (lo_exit out)) any_exc" for r
    by (rule triple_conseq [OF switch_back_outcome]) (auto simp: note_restart_def)
  have rest: "triple (\<lambda>s. True)
     (bind (restart_release c svc sock (Some (lp_to p)) (op_ready_timeout opts)) (\<lambda>r.
       andthen (modl (note_restart r))
       (if rr_ok (rl_ready r) then finish_deploy c svc mode p else switch_back c svc opts p)))
     (\<lambda>out. layout_ok mode (lo_exit out)) any_exc" for sock
    by (intro triple_skip_bind triple_set_andthen triple_if leaves_rules good bad) simp
  have noted: "triple (\<lambda>s. True) (andthen (modl (\<lambda>s. s\<lparr>os_units_installed := Some changed\<rparr>))
     (bind (restart_release c svc sock (Some (lp_to p)) (op_ready_timeout opts)) (\<lambda>r.
       andthen (modl (note_restart r))
       (if rr_ok (rl_ready r) then finish_deploy c svc mode p else switch_back c svc opts p))))
     (\<lambda>out. layout_ok mode (lo_exit out)) any_exc" for changed sock
    by (rule triple_set_andthen) (rule triple_conseq [OF rest]; simp)
  show ?thesis
    unfolding switch_and_restart_def
    by (rule triple_andthen [OF any]) (intro triple_skip_bind triple_prod leaves_rules noted; simp)
qed

lemma probe_answers: "s_ready svc \<noteq> None \<Longrightarrow> returns (\<lambda>pr. pr_ok pr \<noteq> None) (ready_probe H svc)"
  unfolding ready_probe_def by (cases "s_ready svc") (auto intro!: returns_rules)

lemma switch_only_outcome:
  "triple (\<lambda>s. \<not> os_restarted s) (switch_only c svc mode p dir) (\<lambda>out. layout_ok mode (lo_exit out)) any_exc"
proof -
  let ?P = "\<lambda>s :: engine_state. \<not> os_restarted s"
  have sw: "triple ?P (switch_to c svc p dir) (\<lambda>_. ?P) any_exc"
    by (rule triple_conseq [OF triple_leaves [OF leaves_restarted_switch, where P = Not]]) auto
  have fin: "triple (\<lambda>s. \<not> os_restarted s \<and> b) (finish_deploy c svc mode p) (\<lambda>out. layout_ok mode (lo_exit out)) any_exc" for b
    by (rule triple_conseq [OF finish_deploy_outcome]) auto
  show ?thesis
  proof (cases "s_ready svc")
    case None
    show ?thesis
      unfolding switch_only_def None by (rule triple_andthen [OF sw]) (simp add: fin [of True, simplified])
  next
    case (Some rd)
    then have pr: "triple ?P (ready_probe (exec c) svc) (\<lambda>pr s. \<not> os_restarted s \<and> pr_ok pr \<noteq> None) any_exc"
      by (intro triple_returns triple_skip leaves_rules probe_answers) auto
    have undo: "triple (\<lambda>l'. (\<exists>l. (\<not> os_restarted l \<and> pr_ok pr \<noteq> None) \<and> l' = l\<lparr>os_ready := pr_ok pr\<rparr>) \<and> pr_ok pr \<noteq> Some True)
       (andthen (switch_current c svc (lp_current_dir p))
            (bind (ready_probe (exec c) svc) (\<lambda>back.
             andthen (modl (\<lambda>s. s\<lparr>os_rollback_to := Some (lp_from_release p), os_rollback_ready := pr_ok back\<rparr>))
             (andthen (modl (set_result ''failed-rolled-back''))
               (ret \<lparr>lo_exit = exit_rolled_back, lo_plan = p\<rparr>)))))
       (\<lambda>out. layout_ok mode (lo_exit out)) any_exc" for pr
      by (intro triple_skip_andthen triple_skip_bind triple_set_andthen triple_ret leaves_rules)
        (auto simp: set_result_def layout_ok_def exit_defs)
    have good: "triple (\<lambda>l'. (\<exists>l. (\<not> os_restarted l \<and> pr_ok pr \<noteq> None) \<and> l' = l\<lparr>os_ready := pr_ok pr\<rparr>) \<and> pr_ok pr = Some True)
       (finish_deploy c svc mode p) (\<lambda>out. layout_ok mode (lo_exit out)) any_exc" for pr
      by (rule triple_conseq [OF finish_deploy_outcome]) auto
    have sleep: "triple ?P (exec_sleep (exec c) n) (\<lambda>_. ?P) any_exc" for n
      unfolding exec_ops by (intro triple_skip leaves_rules) simp
    have rest: "triple ?P (bind (ready_probe (exec c) svc) (\<lambda>pr.
         andthen (modl (\<lambda>s. s\<lparr>os_ready := pr_ok pr\<rparr>))
         (if pr_ok pr = Some True then finish_deploy c svc mode p
          else
            andthen (switch_current c svc (lp_current_dir p))
            (bind (ready_probe (exec c) svc) (\<lambda>back.
             andthen (modl (\<lambda>s. s\<lparr>os_rollback_to := Some (lp_from_release p), os_rollback_ready := pr_ok back\<rparr>))
             (andthen (modl (set_result ''failed-rolled-back''))
               (ret \<lparr>lo_exit = exit_rolled_back, lo_plan = p\<rparr>)))))))
       (\<lambda>out. layout_ok mode (lo_exit out)) any_exc"
      by (rule triple_bind [OF pr], rule triple_set_andthen, rule triple_if [OF good undo])
    have some: "s_ready svc \<noteq> None" using Some by simp
    show ?thesis
      unfolding switch_only_def if_not_P [OF some]
      by (rule triple_andthen [OF sw], rule triple_andthen [OF sleep], rule rest)
  qed
qed

text \<open>Before anything is touched both marks are down; an \<open>OpError\<close> leaves them down.\<close>

abbreviation untouched :: "engine_state \<Rightarrow> bool" where
  "untouched s \<equiv> \<not> os_restarted s \<and> \<not> ly_switched s"

definition refused_untouched :: "exc \<Rightarrow> engine_state \<Rightarrow> bool" where
  "refused_untouched e s \<longleftrightarrow> no_op_error e \<or> untouched s"

lemma triple_untouched:
  "leaves touched m \<Longrightarrow> triple untouched m (\<lambda>_. untouched) refused_untouched"
  by (rule triple_conseq [OF triple_leaves [where f = touched and P = "\<lambda>t. t = (False, False)"]])
    (auto simp: refused_untouched_def)

lemma triple_quiet_refused:
  assumes "raises no_op_error m" "triple P m Q any_exc"
  shows "triple P m Q refused_untouched"
  by (rule triple_conseq [OF triple_quiet [OF assms]]) (simp_all add: refused_untouched_def)

lemma layout_steps_outcome:
  "triple untouched (layout_steps c svc mode opts p) (\<lambda>out. layout_ok mode (lo_exit out)) refused_untouched"
proof -
  have prep: "triple untouched (whenever b (try_catch (prepare_release c svc p) (prepare_failed c svc dir)))
     (\<lambda>_. untouched) refused_untouched" for b dir
    by (intro triple_untouched leaves_rules leaves_touched)
  have only: "triple (\<lambda>s. untouched s \<and> b) (switch_only c svc mode p dir) (\<lambda>out. layout_ok mode (lo_exit out)) refused_untouched" for b dir
    by (rule triple_quiet_refused [OF quiet_switch_only], rule triple_conseq [OF switch_only_outcome]) auto
  have guard: "triple untouched (guard_release c svc opts p dir) (\<lambda>_. untouched) refused_untouched" for dir
    by (intro triple_untouched leaves_touched)
  have go: "triple untouched (switch_and_restart c svc mode opts p dir) (\<lambda>out. layout_ok mode (lo_exit out)) refused_untouched" for dir
    by (rule triple_quiet_refused [OF quiet_switch_and_restart], rule triple_conseq [OF switch_and_restart_outcome]) auto
  have prepared: "triple untouched (andthen (modl (set_result ''prepared'')) (ret \<lparr>lo_exit = exit_ok, lo_plan = p\<rparr>))
     (\<lambda>out. layout_ok mode (lo_exit out)) refused_untouched"
    by (intro triple_set_andthen triple_ret) (auto simp: set_result_def layout_ok_def)
  show ?thesis
    unfolding layout_steps_def Let_def
    by (rule triple_andthen [OF prep])
      (simp add: prepared only [of True, simplified] triple_andthen [OF guard go])
qed

lemma layout_body_outcome:
  "triple untouched (layout_body c svc mode opts) (\<lambda>out. layout_ok mode (lo_exit out)) refused_untouched"
proof -
  have lock: "triple untouched (take_host_lock c svc) (\<lambda>_. untouched) refused_untouched"
    by (intro triple_untouched leaves_touched)
  have plan: "triple untouched (layout_compute_plan c svc mode to fetch rest) (\<lambda>_. untouched) refused_untouched" for to fetch rest
    by (intro triple_untouched leaves_rules)
  have noted: "triple untouched (modl (note_layout_plan p)) (\<lambda>_. untouched) refused_untouched" for p
    by (intro triple_untouched leaves_modl) (simp add: note_layout_plan_def)
  have unchanged: "triple untouched
     (andthen (modl (\<lambda>s. (set_result ''unchanged'' s)\<lparr>os_write := False\<rparr>)) (ret \<lparr>lo_exit = exit_ok, lo_plan = p\<rparr>))
     (\<lambda>out. layout_ok mode (lo_exit out)) refused_untouched" for p
    by (intro triple_set_andthen triple_ret) (auto simp: set_result_def layout_ok_def)
  show ?thesis
    unfolding layout_body_def
    by (rule triple_andthen [OF lock], rule triple_bind [OF plan], rule triple_andthen [OF noted])
      (simp add: unchanged layout_steps_outcome)
qed

lemma closing_keeps_layout:
  "leaves (\<lambda>s. (layout_ok mode code (s\<lparr>os_finished := None\<rparr>), touched s)) (close_operation c sid lf j)"
  unfolding close_operation_def lock_release_def append_record_def exec_ops
  by (intro leaves_rules) simp

lemma layout_ok_finished: "layout_ok mode code (s\<lparr>os_finished := f\<rparr>) = layout_ok mode code s"
  by (simp add: layout_ok_def)

lemma layout_operation_outcome:
  "triple untouched (run_operation c sid lf j (layout_body c svc mode opts))
     (\<lambda>out. layout_ok mode (lo_exit out)) refused_untouched"
proof (rule tripleI)
  fix tr l r tr' l'
  let ?B = "layout_body c svc mode opts"
  assume start: "untouched l" and run: "run_operation c sid lf j ?B (tr, l) = (r, tr', l')"
  obtain r1 tr1 l1 where body: "?B (tr, l) = (r1, tr1, l1)" by (cases "?B (tr, l)") auto
  define l2 where "l2 = (case r1 of Inl e \<Rightarrow> (if e = OutOfFuel then l1 else note_error e l1) | Inr x \<Rightarrow> l1)"
  obtain r3 where close: "close_operation c sid lf j (tr1, l2) = (r3, tr', l')"
    and r: "r = (case r3 of Inl e \<Rightarrow> Inl e | Inr u \<Rightarrow> r1)"
    using run body unfolding run_operation_def l2_def
    by (auto simp: try_finally_def try_catch_def andthen_def bind_def modl_def throw_def
        split: sum.splits prod.splits if_splits)
  have kept: "(layout_ok mode code (l'\<lparr>os_finished := None\<rparr>), touched l') =
      (layout_ok mode code (l2\<lparr>os_finished := None\<rparr>), touched l2)" for code
    by (rule leavesD [OF closing_keeps_layout close])
  have touch: "touched l2 = touched l1"
    unfolding l2_def by (auto simp: note_error_def split: sum.split)
  show "case r of Inl e \<Rightarrow> refused_untouched e l' | Inr out \<Rightarrow> layout_ok mode (lo_exit out) l'"
  proof (cases r3)
    case (Inl e)
    then have "no_op_error e" using close raisesD [OF quiet_close] by blast
    with r Inl show ?thesis by (simp add: refused_untouched_def)
  next
    case (Inr u)
    show ?thesis
    proof (cases r1)
      case (Inl e)
      have "refused_untouched e l1"
        using tripleD_exc [OF layout_body_outcome start body [unfolded Inl]] .
      with kept [of 0] touch Inl \<open>r3 = Inr u\<close> r show ?thesis by (simp add: refused_untouched_def)
    next
      case (Inr out)
      have "layout_ok mode (lo_exit out) l1" using tripleD_value [OF layout_body_outcome start body [unfolded Inr]] .
      then show ?thesis
        using kept [of "lo_exit out"] Inr \<open>r3 = Inr u\<close> r by (simp add: l2_def layout_ok_finished)
    qed
  qed
qed

lemma fresh_untouched: "\<not> os_restarted b \<Longrightarrow> untouched (fresh b)"
  by (simp add: fresh_def base_state.defs engine_state.defs)

lemma open_record_fresh: "returns (\<lambda>b. \<not> os_restarted b) (open_record c)"
  unfolding open_record_def Let_def by (intro returns_rules) simp

lemma quiet_lock_acquire: "raises no_op_error (lock_acquire c sid)"
proof -
  have create: "raises no_op_error (exec_create H p t)" for H p t
    unfolding exec_create_def by (rule raises_ask_or) simp
  have alive: "raises no_op_error (json_pid_alive H v)" for H v
    unfolding json_pid_alive_def exec_pid_alive_def
    by (auto intro!: raises_rules raises_ask split: option.split json.split)
  show ?thesis unfolding lock_acquire_def Let_def by (intro raises_rules create alive) simp_all
qed

lemma apply_layout_outcome:
  "triple (\<lambda>s. True) (apply_layout c svc mode opts) (\<lambda>out. layout_ok mode (lo_exit out))
     (\<lambda>e s. s_managed svc \<longrightarrow> refused_untouched e s)"
proof (cases "s_managed svc")
  case True
  then have managed: "\<not> \<not> s_managed svc" by simp
  have any: "triple P m (\<lambda>_ s. True) any_exc" for P and m :: "(engine_state, 'a) prog"
    by (rule tripleI) (auto split: sum.split)
  have locked: "triple (\<lambda>s. True) (lock_acquire c sid) (\<lambda>_ s. True) refused_untouched" for sid
    by (rule triple_quiet_refused [OF quiet_lock_acquire any])
  have opened: "triple (\<lambda>s. True) (open_record c) (\<lambda>b s. True \<and> \<not> os_restarted b) refused_untouched"
  proof (rule triple_quiet_refused)
    show "raises no_op_error (open_record c)"
      unfolding open_record_def new_id_def operator_name_def Let_def by (intro raises_rules)
    show "triple (\<lambda>s. True) (open_record c) (\<lambda>b s. True \<and> \<not> os_restarted b) any_exc"
      by (rule triple_returns [OF any open_record_fresh])
  qed
  have begun: "triple (\<lambda>s. True \<and> \<not> os_restarted b) (modl (\<lambda>_. fresh b)) (\<lambda>_. untouched) refused_untouched" for b
    by (rule triple_modl) (use fresh_untouched in blast)
  have "triple (\<lambda>s. True) (apply_layout c svc mode opts) (\<lambda>out. layout_ok mode (lo_exit out)) refused_untouched"
    unfolding apply_layout_def if_not_P [OF managed]
    by (intro triple_bind [OF locked] triple_prod triple_bind [OF opened] triple_andthen [OF begun] layout_operation_outcome)
  then show ?thesis by (rule triple_conseq) auto
next
  case False
  then show ?thesis unfolding apply_layout_def by (simp add: triple_throw)
qed

section \<open>Pruning\<close>

text \<open>The directory a request deletes: by \<^verbatim>\<open>rm\<close> or by \<^verbatim>\<open>git worktree remove --force\<close>.\<close>

definition deletes :: "event \<Rightarrow> str option" where
  "deletes e =
     (case e of
        ERun cmd args opts \<Rightarrow>
          (if cmd = ''rm'' \<or> cmd = ''git'' \<and> take 2 (drop (length args - 3) args) = [''remove'', ''--force'']
           then Some (last args) else None)
      | _ \<Rightarrow> None)"

definition deletes_only :: "str set \<Rightarrow> event \<Rightarrow> bool" where
  "deletes_only D e \<longleftrightarrow> (\<forall>d. deletes e = Some d \<longrightarrow> d \<in> D)"

lemma remove_release_deletes: "emits (deletes_only {rel_dir r}) (remove_release H svc r)"
  unfolding remove_release_def git_worktree_remove_def git_try_def
  by (intro emits_rules) (auto simp: deletes_only_def deletes_def git_pre_def)

lemma worktree_prune_deletes: "emits (deletes_only D) (git_worktree_prune H g)"
  unfolding git_worktree_prune_def git_try_def
  by (intro emits_rules) (auto simp: deletes_only_def deletes_def git_pre_def take_Cons' drop_Cons')

lemma removals_delete:
  "emits (deletes_only (rel_dir ` set rs)) (andthen (each (remove_release H svc) rs) (andthen (git_worktree_prune H g) (ret x)))"
proof (intro emits_andthen emits_each emits_ret worktree_prune_deletes)
  fix r assume "r \<in> set rs"
  then show "emits (deletes_only (rel_dir ` set rs)) (remove_release H svc r)"
    by (intro emits_mono [OF remove_release_deletes]) (auto simp: deletes_only_def)
qed

section \<open>A sample release layout\<close>

definition layout_run :: "str \<Rightarrow> str list \<Rightarrow> run_result" where
  "layout_run cmd args =
     (if cmd = ''git'' \<and> last args = ''HEAD'' then said 0 (replicate 40 (CHR ''1''))
      else if cmd = ''git'' \<and> last args = ''origin/main^{commit}'' then said 0 (replicate 40 (CHR ''2''))
      else if cmd = ''git'' \<and> ''diff'' \<in> set args then said 0 ''app.js''
      else if cmd = ''systemctl'' \<and> hd args = ''show'' then said 0 ''ActiveState=active''
      else said 0 [])"

definition a_dir :: file_stat where
  "a_dir = \<lparr>st_is_file = False, st_is_dir = True, st_is_symlink = False, st_nlink = 2, st_size = 0, st_mtime = 0, st_uid = 0, st_owner = ''root'', st_mode = 493\<rparr>"

text \<open>\<open>holders\<close> is who listens on the service's port.\<close>

definition layout_host :: "listener list \<Rightarrow> host" where
  "layout_host holders =
     (sample_host [] 200)\<lparr>h_run := (\<lambda>tr cmd args opts. layout_run cmd args),
        h_readlink := (\<lambda>tr p. if p = ''/srv/app/current'' then Some ''releases/one'' else None),
        h_stat := (\<lambda>tr p. Some a_dir), h_listeners := (\<lambda>tr p. Inr holders)\<rparr>"

definition layout_service :: service where
  "layout_service =
     sample_service\<lparr>s_strategy := ''release-layout'',
       s_release := \<lparr>r_git = ''/srv/app/repo'', r_releases_dir = ''/srv/app/releases'', r_current = ''/srv/app/current'',
         r_id = ''sha12'', r_links = [], r_reuse_modules = True, r_chown = None, r_keep = 5, r_settle_seconds = 1,
         r_socket_port = None\<rparr>\<rparr>"

definition layout_ctx :: "listener list \<Rightarrow> ctx" where
  "layout_ctx holders =
     \<lparr>exec = layout_host holders, inv = sample_inventory, ctx_pid = 7, ctx_sudo_user = None, ctx_fuel = 20\<rparr>"

lemma layout_service_ok: "commands_ok layout_service" "units_named layout_service"
  by (simp_all add: layout_service_def sample_service_def commands_ok_def argv_ok_def units_named_def)

lemma layout_host_holds: "listeners_held (exec (layout_ctx [\<lparr>l_pid = Some 1, l_process = Some ''systemd''\<rparr>]))"
  by (simp add: listeners_held_def layout_ctx_def layout_host_def holds_listener_def)

section \<open>Properties\<close>

text \<open>
  Property C7. A release-layout deploy or rollback restarts no socket unit but the service's own, and stops
  none: every other request it makes keeps the sockets listening.
\<close>

theorem layout_restarts_own_socket:
  assumes "commands_ok svc" "units_named svc"
  shows "\<exists>es. fst (snd (apply_layout c svc mode opts (tr, l))) = es @ tr \<and>
    (\<forall>e \<in> set es. socket_kept e \<or>
       (\<exists>u opts. s_socket_unit svc = Some u \<and> e = ERun ''systemctl'' [''restart'', u] opts))"
proof -
  have own: "socket_kept e \<or> (\<exists>u opts. s_socket_unit svc = Some u \<and> e = ERun ''systemctl'' [''restart'', u] opts)"
    if "restarts_socket (socket_of svc) e" for e
  proof (cases "s_socket_unit svc")
    case None
    have "socket_kept (ERun ''systemctl'' [''restart'', []] opts)" for opts by (simp add: ends_with_def)
    with that show ?thesis unfolding restarts_socket_def socket_of_def None option.case by blast
  next
    case (Some u)
    with that show ?thesis unfolding restarts_socket_def socket_of_def by auto
  qed
  have "\<exists>es. fst (snd (apply_layout c svc mode opts (tr, l))) = es @ tr \<and> (\<forall>e \<in> set es. restarts_socket (socket_of svc) e)"
    using emits_apply_layout [OF assms, of c mode opts] unfolding emits_def by blast
  then obtain es where es: "fst (snd (apply_layout c svc mode opts (tr, l))) = es @ tr"
    and r: "\<forall>e \<in> set es. restarts_socket (socket_of svc) e" by (elim exE conjE)
  have "\<forall>e \<in> set es. socket_kept e \<or> (\<exists>u opts. s_socket_unit svc = Some u \<and> e = ERun ''systemctl'' [''restart'', u] opts)"
    by (rule ballI) (rule own, erule bspec [OF r])
  with es show ?thesis by (intro exI conjI)
qed

theorem layout_restarts_own_socket_witness:
  "\<exists>es. fst (snd (apply_layout (layout_ctx []) layout_service Deploy default_opts ([], blank_state))) = es @ [] \<and>
    (\<forall>e \<in> set es. socket_kept e \<or>
       (\<exists>u opts. s_socket_unit layout_service = Some u \<and> e = ERun ''systemctl'' [''restart'', u] opts))"
  by (rule layout_restarts_own_socket [OF layout_service_ok])

text \<open>
  When the unit file of the socket did not change and systemd holds every listener it is asked
  about, restarting a release touches no socket at all: the rebind has its two reasons and no other.
\<close>

theorem held_socket_not_rebound:
  assumes "listeners_held (exec c)"
  shows "\<exists>es. fst (snd (restart_release c svc False expectSha timeout (tr, l))) = es @ tr \<and> (\<forall>e \<in> set es. socket_kept e)"
  by (rule restart_keeps_held_socket [OF assms, unfolded emits_def, THEN spec, THEN spec])

theorem held_socket_not_rebound_witness:
  "\<exists>es. fst (snd (restart_release (layout_ctx [\<lparr>l_pid = Some 1, l_process = Some ''systemd''\<rparr>]) layout_service False None None ([], blank_state)))
     = es @ [] \<and> (\<forall>e \<in> set es. socket_kept e)"
  by (rule held_socket_not_rebound [OF layout_host_holds])

text \<open>
  Property C8. A release-layout operation that ends in one of ovhost's own errors (usage, validation,
  protected sessions) neither switched \<^verbatim>\<open>current\<close> nor restarted or stopped any unit.
\<close>

theorem layout_refusal_touches_nothing:
  assumes "commands_ok svc" "s_managed svc"
  shows "case apply_layout c svc mode opts (tr, l) of
      (Inl (OpError msg x r), tr', l') \<Rightarrow>
        \<not> ly_switched l' \<and> \<not> os_restarted l' \<and> (\<exists>es. tr' = es @ tr \<and> (\<forall>e \<in> set es. restarted_unit e = None))
    | _ \<Rightarrow> True"
proof (cases "\<exists>msg x r s. apply_layout c svc mode opts (tr, l) = (Inl (OpError msg x r), s)")
  case True
  then obtain msg x r tr' l' where run: "apply_layout c svc mode opts (tr, l) = (Inl (OpError msg x r), tr', l')" by auto
  from cleanD [OF clean_apply_layout [OF assms(1)] run] obtain es
    where "tr' = es @ tr" "\<forall>e \<in> set es. restarts_only [] e" .
  moreover have "refused_untouched (OpError msg x r) l'"
    using tripleD_exc [OF apply_layout_outcome _ run] assms(2) by simp
  ultimately show ?thesis by (auto simp: run refused_untouched_def restarts_only_iff)
qed (auto split: prod.split sum.split exc.split)

theorem layout_refusal_touches_nothing_witness:
  "case apply_layout (layout_ctx []) layout_service Rollback default_opts ([], blank_state) of
      (Inl (OpError msg x r), tr', l') \<Rightarrow>
        \<not> ly_switched l' \<and> \<not> os_restarted l' \<and> (\<exists>es. tr' = es @ [] \<and> (\<forall>e \<in> set es. restarted_unit e = None))
    | _ \<Rightarrow> True"
  by (rule layout_refusal_touches_nothing [OF layout_service_ok(1)]) (simp add: layout_service_def sample_service_def)

text \<open>
  A release-layout operation that returns tells the truth about it: exit 0 with a result that
  says deployed or rolled back and a ready service if it restarted (or unchanged, prepared: nothing touched);
  exit 3 only when the new release did not answer, and after a restart only when the old one does again; exit
  4 only when the way back failed.
\<close>

theorem layout_exit_matches_record:
  "case apply_layout c svc mode opts (tr, l) of
      (Inr out, tr', l') \<Rightarrow> layout_ok mode (lo_exit out) l'
    | (Inl e, tr', l') \<Rightarrow> True"
  using apply_layout_outcome [of c svc mode opts] unfolding triple_def by (fastforce split: sum.split prod.split)

text \<open>
  Property C9. Pruning deletes only releases beyond the newest \<open>keep\<close>, and never the current one, one it
  was told to keep, or one a unit or worker still runs from.
\<close>

theorem prune_spares_needed:
  "case prune_releases c svc keepIds (tr, l) of
      (Inl e, s) \<Rightarrow> True
    | (Inr gone, tr', l') \<Rightarrow>
        \<exists>rs cur inUse s1 s2 tr3 l3 es.
          list_releases (exec c) svc (tr, l) = (Inr rs, s1) \<and> current_release (exec c) svc s1 = (Inr cur, s2) \<and>
          releases_in_use (exec c) svc s2 = (Inr inUse, tr3, l3) \<and> tr' = es @ tr3 \<and>
          (\<forall>e \<in> set es. \<forall>d. deletes e = Some d \<longrightarrow>
             (\<exists>r \<in> set (drop (r_keep (s_release svc)) rs). d = rel_dir r \<and> rel_id r \<in> set gone)) \<and>
          (\<forall>i \<in> set gone. Some i \<noteq> cu_id cur \<and> i \<notin> set keepIds \<and> i \<notin> set inUse)"
proof (cases "prune_releases c svc keepIds (tr, l)")
  case (fields r tr' l')
  show ?thesis
  proof (cases r)
    case (Inr gone)
    let ?gone = "\<lambda>rs cur inUse. prune_choice (r_keep (s_release svc)) (cu_id cur) keepIds inUse rs"
    have run: "prune_releases c svc keepIds (tr, l) = (Inr gone, tr', l')" using fields Inr by simp
    obtain rs s1 cur s2 inUse tr3 l3 where
      runs: "list_releases (exec c) svc (tr, l) = (Inr rs, s1)" "current_release (exec c) svc s1 = (Inr cur, s2)"
        "releases_in_use (exec c) svc s2 = (Inr inUse, tr3, l3)"
      and rm: "andthen (each (remove_release (exec c) svc) (?gone rs cur inUse))
          (andthen (git_worktree_prune (exec c) (git_clone_of svc)) (ret (map rel_id (?gone rs cur inUse)))) (tr3, l3) = (Inr gone, tr', l')"
      using run unfolding prune_releases_def Let_def bind_run by blast
    from rm have gone: "gone = map rel_id (?gone rs cur inUse)" by (auto simp: run_iffs)
    from removals_delete rm obtain es where es: "tr' = es @ tr3" "\<forall>e \<in> set es. deletes_only (rel_dir ` set (?gone rs cur inUse)) e"
      by (rule emitsD)
    have "\<forall>e \<in> set es. \<forall>d. deletes e = Some d \<longrightarrow>
        (\<exists>r \<in> set (drop (r_keep (s_release svc)) rs). d = rel_dir r \<and> rel_id r \<in> set gone)"
      using es(2) unfolding gone deletes_only_def prune_choice_def by fastforce
    moreover have "\<forall>i \<in> set gone. Some i \<noteq> cu_id cur \<and> i \<notin> set keepIds \<and> i \<notin> set inUse"
      unfolding gone prune_choice_def by auto
    ultimately show ?thesis unfolding run prod.case sum.case using runs es(1) by (intro exI conjI)
  qed (use fields in simp)
qed

text \<open>Three releases of which the newest is kept and the current one spared: the third goes.\<close>

definition pruning_host :: host where
  "pruning_host = (layout_host [])\<lparr>h_readdir := (\<lambda>tr p. Some (map (\<lambda>n. \<lparr>e_name = n, e_is_dir = True\<rparr>) [''one'', ''two'', ''three'']))\<rparr>"

definition pruning_ctx :: ctx where
  "pruning_ctx = (layout_ctx [])\<lparr>exec := pruning_host\<rparr>"

definition pruning_service :: service where
  "pruning_service = layout_service\<lparr>s_release := (s_release layout_service)\<lparr>r_keep := 1\<rparr>\<rparr>"

lemma pruning_run: "fst (prune_releases pruning_ctx pruning_service [] ([], blank_state)) = Inr [''three'']"
  by code_simp

theorem prune_spares_needed_witness:
  "fst (prune_releases pruning_ctx pruning_service [] ([], blank_state)) = Inr [''three''] \<and>
   (case prune_releases pruning_ctx pruning_service [] ([], blank_state) of
      (Inl e, s) \<Rightarrow> True
    | (Inr gone, tr', l') \<Rightarrow>
        \<exists>rs cur inUse s1 s2 tr3 l3 es.
          list_releases (exec pruning_ctx) pruning_service ([], blank_state) = (Inr rs, s1) \<and>
          current_release (exec pruning_ctx) pruning_service s1 = (Inr cur, s2) \<and>
          releases_in_use (exec pruning_ctx) pruning_service s2 = (Inr inUse, tr3, l3) \<and> tr' = es @ tr3 \<and>
          (\<forall>e \<in> set es. \<forall>d. deletes e = Some d \<longrightarrow>
             (\<exists>r \<in> set (drop (r_keep (s_release pruning_service)) rs). d = rel_dir r \<and> rel_id r \<in> set gone)) \<and>
          (\<forall>i \<in> set gone. Some i \<noteq> cu_id cur \<and> i \<notin> set [] \<and> i \<notin> set inUse))"
  by (rule conjI [OF pruning_run prune_spares_needed])

end
