(* ===== verification/Typed_Entry.thy ===== *)
theory Typed_Entry
  imports Inventory Layout_Safety
begin

text \<open>
  The typed view of an accepted inventory entry: where every property the checks of
  \<^verbatim>\<open>lib/inventory.js\<close> leave open has the type the engines expect, the \<open>service\<close> record they run
  on. What the checks guarantee of an entry carries over to that record, and with it the hypotheses of the engines' theorems.
\<close>

section \<open>Reading typed values\<close>

definition whole_of :: "rat option \<Rightarrow> int option" where
  "whole_of v = (case v of Some q \<Rightarrow> (if is_whole q then Some \<lfloor>q\<rfloor> else None) | None \<Rightarrow> None)"

definition str_list_of :: "json \<Rightarrow> str list option" where
  "str_list_of v = Option.bind (array_of (Some v)) strings_of"

text \<open>An optional string: absent, or a string.\<close>

definition maybe_str :: "json option \<Rightarrow> str option option" where
  "maybe_str v = (case v of None \<Rightarrow> Some None | Some (JStr s) \<Rightarrow> Some (Some s) | _ \<Rightarrow> None)"

definition maybe_list :: "json option \<Rightarrow> str list option option" where
  "maybe_list v = (case v of None \<Rightarrow> Some None | Some x \<Rightarrow> map_option Some (str_list_of x))"

definition typed_required :: "json \<Rightarrow> required_names option" where
  "typed_required v = (if v = JStr ''from-example'' then Some From_Example else map_option Listed (str_list_of v))"

definition typed_release :: "release_entry option \<Rightarrow> release_cfg option" where
  "typed_release r =
     (case r of
        None \<Rightarrow> Some \<lparr>r_git = [], r_releases_dir = [], r_current = [], r_id = [], r_links = [], r_reuse_modules = True,
                    r_chown = None, r_keep = 5, r_settle_seconds = 3, r_socket_port = None\<rparr>
      | Some e \<Rightarrow>
          Option.bind (maybe_str (re_chown e)) (\<lambda>ch.
          Option.bind (whole_of (Some (re_settle_seconds e))) (\<lambda>settle.
          Some \<lparr>r_git = re_git e, r_releases_dir = re_releases_dir e, r_current = re_current e, r_id = re_id e,
                r_links = re_links e, r_reuse_modules = re_reuse_modules e, r_chown = ch, r_keep = nat (re_keep e),
                r_settle_seconds = settle, r_socket_port = re_socket_port e\<rparr>)))"

definition typed_preflight :: "preflight_entry \<Rightarrow> preflight_cfg" where
  "typed_preflight p =
     \<lparr>pf_syntax_check = pe_syntax_check p, pf_dirs = pe_dirs p,
      pf_checks = map (\<lambda>c. \<lparr>c_label = pc_label c, c_packages = pc_packages c, c_argv = pc_argv c\<rparr>) (pe_checks p)\<rparr>"

definition typed_ready :: "json option \<Rightarrow> ready_cfg option option" where
  "typed_ready v =
     (case v of
        None \<Rightarrow> Some None
      | Some r \<Rightarrow>
          Option.bind (string_of (member_of ''url'' r)) (\<lambda>u.
          Option.bind (whole_of (to_number (member_of ''timeoutSeconds'' r))) (\<lambda>t.
          Some (Some \<lparr>rd_url = u, rd_timeout_seconds = t, rd_release = truthy (member_of ''release'' r),
                      rd_all_units = truthy (member_of ''allUnits'' r)\<rparr>))))"

definition typed_part_probe :: "json \<Rightarrow> probe_cfg option" where
  "typed_part_probe p =
     (if member_of ''kind'' p = Some (JStr ''http-json-count'') then
        Option.bind (string_of (member_of ''url'' p)) (\<lambda>u.
        Option.bind (maybe_str (member_of ''array'' p)) (\<lambda>arr.
        Option.bind (str_list_of (or_else (member_of ''addFields'' p) (JArr []))) (\<lambda>adds.
        Some (HttpJsonCount u arr (entries_of (or_else (member_of ''where'' p) (JObj [])))
          (js_string (or_else (member_of ''field'' p) (JStr []))) adds))))
      else if member_of ''kind'' p = Some (JStr ''postgresql-count'') then
        Option.bind (string_of (member_of ''database'' p)) (\<lambda>d.
        Option.bind (string_of (member_of ''sql'' p)) (\<lambda>q. Some (PostgresqlCount d q)))
      else None)"

definition typed_probe :: "json \<Rightarrow> probe_cfg option" where
  "typed_probe p =
     (if member_of ''kind'' p = Some (JStr ''sum'') then
        Option.bind (array_of (member_of ''probes'' p)) (\<lambda>qs. map_option SumCount (all_some (map typed_part_probe qs)))
      else typed_part_probe p)"

definition typed_protected :: "json option \<Rightarrow> protected_cfg option option" where
  "typed_protected v =
     (case v of
        None \<Rightarrow> Some None
      | Some p \<Rightarrow>
          Option.bind (typed_probe p) (\<lambda>q.
          Option.bind (maybe_str (member_of ''label'' p)) (\<lambda>l. Some (Some \<lparr>p_label = l, p_probe = q\<rparr>))))"

definition typed_drain :: "(str \<times> json) list \<Rightarrow> drain_cfg option" where
  "typed_drain d =
     Option.bind (string_of (map_of d ''policy'')) (\<lambda>p.
     Option.bind (whole_of (to_number (map_of d ''waitMaxSeconds''))) (\<lambda>w.
     Option.bind (whole_of (to_number (map_of d ''pollSeconds''))) (\<lambda>s.
     Option.bind (whole_of (to_number (map_of d ''quietChecks''))) (\<lambda>q.
     Some \<lparr>d_policy = p, d_wait_max_seconds = w, d_poll_seconds = s, d_quiet_checks = q\<rparr>))))"

definition typed_database :: "database_entry \<Rightarrow> database option" where
  "typed_database d =
     Option.bind (string_of (Some (de_name d))) (\<lambda>n.
     Option.bind (string_of (Some (de_database d))) (\<lambda>b.
     Some \<lparr>db_name = n, db_database = b, db_engine = ''postgresql''\<rparr>))"

definition typed_object :: "object_entry \<Rightarrow> object_dir option" where
  "typed_object o' = map_option (\<lambda>n. \<lparr>ob_name = n, ob_path = oe_path o', ob_verify = oe_verify o'\<rparr>) (string_of (Some (oe_name o')))"

definition typed_nginx :: "json option \<Rightarrow> nginx_cfg option option" where
  "typed_nginx v =
     (case v of
        None \<Rightarrow> Some None
      | Some n \<Rightarrow>
          Option.bind (maybe_str (when_set (member_of ''vhost'' n))) (\<lambda>vh.
          Option.bind (maybe_str (when_set (member_of ''repoVhost'' n))) (\<lambda>rv.
          Option.bind (maybe_str (when_set (member_of ''repoVhosts'' n))) (\<lambda>rvs.
          Option.bind (str_list_of (or_else (member_of ''skipVhosts'' n) (JArr []))) (\<lambda>skip.
          Option.bind (maybe_list (when_set (member_of ''domains'' n))) (\<lambda>doms.
          Option.bind (maybe_str (when_set (member_of ''variant'' n))) (\<lambda>variant.
          Option.bind (maybe_list (when_set (member_of ''ssePaths'' n))) (\<lambda>sse.
          Option.bind (maybe_list (when_set (member_of ''wsPaths'' n))) (\<lambda>ws.
          Option.bind (maybe_str (when_set (member_of ''certName'' n))) (\<lambda>cert.
          Option.bind (maybe_str (when_set (member_of ''maxBody'' n))) (\<lambda>body.
          Some (Some \<lparr>n_vhost = vh, n_repo_vhost = rv, n_repo_vhosts = rvs, n_skip_vhosts = skip,
                      n_install_on_deploy = truthy (member_of ''installOnDeploy'' n), n_domains = doms, n_variant = variant,
                      n_sse_paths = sse, n_ws_paths = ws, n_cert_name = cert, n_max_body = body\<rparr>))))))))))))"

definition typed_install :: "service_entry \<Rightarrow> install_cfg option" where
  "typed_install e =
     Option.bind (strings_of (se_install_command e)) (\<lambda>cmd.
     Option.bind (string_of (Some (se_lockfile e))) (\<lambda>lf.
     Some \<lparr>i_command = cmd, i_always = se_install_always e, i_restore_lockfile = se_restore_lockfile e,
           i_lockfile = lf, i_workspace = se_workspace e\<rparr>))"

definition typed_target :: "str \<times> json \<times> json \<Rightarrow> (str \<times> str \<times> str) option" where
  "typed_target x =
     (case x of (n, u, d) \<Rightarrow>
        Option.bind (string_of (Some u)) (\<lambda>a. Option.bind (string_of (Some d)) (\<lambda>b. Some (n, a, b))))"

definition typed_count :: "str \<times> json \<Rightarrow> (str \<times> str) option" where
  "typed_count x = (case x of (d, t) \<Rightarrow> map_option (\<lambda>s. (d, s)) (string_of (Some t)))"

definition typed_drill :: "drill_config \<Rightarrow> drill_block option" where
  "typed_drill x =
     (case x of
        Unsupported r \<Rightarrow> Some Drill_Off
      | Supported d \<Rightarrow>
          Option.bind (all_some (map typed_target (dr_databases d))) (\<lambda>dbs.
          Option.bind (string_of (Some (dr_ready d))) (\<lambda>ready.
          Option.bind (whole_of (dr_ready_timeout d)) (\<lambda>wait.
          Option.bind (all_some (map typed_count (dr_counts d))) (\<lambda>counts.
          Option.bind (whole_of (dr_runtime_max d)) (\<lambda>most.
          Some (Drill_On
            \<lparr>dc_port = dr_port d, dc_databases = dbs, dc_env = dr_env d, dc_dirs = dr_dirs d, dc_command = dr_command d,
             dc_unit = dr_unit d, dc_production_port = dr_production_port d, dc_bind = dr_bind d, dc_requires = dr_requires d,
             dc_ready = ready, dc_ready_timeout = wait,
             dc_compare = map (\<lambda>c. \<lparr>cc_path = ce_path c, cc_ignore = ce_ignore c\<rparr>) (dr_compare d),
             dc_counts = counts, dc_counts_tolerance = dr_counts_tolerance d,
             dc_acceptance = map (\<lambda>a. \<lparr>ac_path = ae_path a, ac_status = ae_status a, ac_keys = ae_keys a\<rparr>) (dr_acceptance d),
             dc_outbound = dr_outbound d, dc_runtime_max = most\<rparr>)))))))"

definition typed_drill_block :: "drill_config option \<Rightarrow> drill_block option option" where
  "typed_drill_block v = (case v of None \<Rightarrow> Some None | Some x \<Rightarrow> map_option Some (typed_drill x))"

text \<open>What is copied as it is, beside the parts that have a type of their own.\<close>

definition plain_service :: "guard_cfg \<Rightarrow> service_entry \<Rightarrow> service" where
  "plain_service g e =
     \<lparr>s_id = se_id e, s_repo = se_repo e, s_manifest = js_string (se_manifest e),
      s_code_dir = se_code_dir e, s_layout = se_layout e, s_origin = se_origin e, s_owner = se_owner e, s_run_as = js_string (se_run_as e),
      s_remote = js_string (se_remote e), s_branch = js_string (se_branch e), s_strategy = se_strategy e,
      s_release = \<lparr>r_git = [], r_releases_dir = [], r_current = [], r_id = [], r_links = [], r_reuse_modules = True,
        r_chown = None, r_keep = 5, r_settle_seconds = 3, r_socket_port = None\<rparr>,
      s_managed = se_managed e, s_deploy_policy = se_policy e, s_skip_packages = [],
      s_remove_untracked_lockfiles = se_remove_untracked_lockfiles e, s_generated = [],
      s_preflight = typed_preflight (se_preflight e), s_install_units = se_install_units e,
      s_enable_units = se_enable_units e, s_units_match = map_option js_string (se_units_match e),
      s_release_files = map_option js_string (se_release_files e), s_units = se_units e,
      s_worker_units = se_worker_units e, s_auxiliary_units = se_auxiliary_units e, s_socket_unit = se_socket_unit e,
      s_unit_sources = se_unit_sources e, s_port = se_port e, s_ready = None, s_packages = [],
      s_install = \<lparr>i_command = [], i_always = False, i_restore_lockfile = True, i_lockfile = [], i_workspace = False\<rparr>,
      s_build = [], s_no_restart_paths = [], s_protected = None,
      s_drain = \<lparr>d_policy = [], d_wait_max_seconds = 0, d_poll_seconds = 0, d_quiet_checks = 0\<rparr>,
      s_databases = [], s_objects = [], s_backup_on_change = [], s_nginx = None, s_env_file = se_env_file e, s_env_required = Listed [],
      s_env_example = [], s_lifecycle = se_lifecycle e, s_drill = None, s_deploy_guard = g\<rparr>"

definition typed_service :: "guard_cfg \<Rightarrow> service_entry \<Rightarrow> service option" where
  "typed_service g e =
     Option.bind (typed_release (se_release e)) (\<lambda>rel.
     Option.bind (str_list_of (se_skip_packages e)) (\<lambda>skip.
     Option.bind (str_list_of (se_generated e)) (\<lambda>gen.
     Option.bind (typed_ready (se_ready e)) (\<lambda>ready.
     Option.bind (str_list_of (se_packages e)) (\<lambda>pkgs.
     Option.bind (typed_install e) (\<lambda>inst.
     Option.bind (all_some (map strings_of (se_build e))) (\<lambda>builds.
     Option.bind (str_list_of (se_no_restart_paths e)) (\<lambda>calm.
     Option.bind (typed_protected (se_protected e)) (\<lambda>prot.
     Option.bind (typed_drain (se_drain e)) (\<lambda>dr.
     Option.bind (all_some (map typed_database (se_databases e))) (\<lambda>dbs.
     Option.bind (all_some (map typed_object (se_objects e))) (\<lambda>objs.
     Option.bind (str_list_of (se_backup_on_change e)) (\<lambda>boc.
     Option.bind (typed_nginx (se_nginx e)) (\<lambda>ng.
     Option.bind (typed_drill_block (se_drill e)) (\<lambda>db.
     Option.bind (typed_required (se_env_required e)) (\<lambda>req.
     Option.bind (string_of (Some (se_env_example e))) (\<lambda>example.
     Some ((plain_service g e)\<lparr>s_release := rel, s_skip_packages := skip, s_generated := gen, s_ready := ready,
       s_packages := pkgs, s_install := inst, s_build := builds, s_no_restart_paths := calm, s_protected := prot,
       s_drain := dr, s_databases := dbs, s_objects := objs, s_backup_on_change := boc, s_nginx := ng, s_drill := db,
       s_env_required := req, s_env_example := example\<rparr>))))))))))))))))))"

lemma typed_service_units:
  assumes "typed_service g e = Some svc"
  shows "s_units svc = se_units e \<and> s_auxiliary_units svc = se_auxiliary_units e \<and> s_worker_units svc = se_worker_units e \<and>
    s_socket_unit svc = se_socket_unit e \<and> s_repo svc = se_repo e \<and> s_managed svc = se_managed e \<and> s_id svc = se_id e"
  using assms unfolding typed_service_def by (auto simp: bind_eq_Some_conv plain_service_def)

section \<open>What the checks guarantee\<close>

lemma unit_with_suffix: "unit_with sufs u \<Longrightarrow> u \<noteq> [] \<and> (\<exists>x \<in> set sufs. ends_with u x)"
  by (auto simp: unit_with_def all_in_def list_ex_iff)

lemma service_unit_ends: "is_service_unit u \<Longrightarrow> u \<noteq> [] \<and> ends_with u ''.service''"
  unfolding is_service_unit_def by (drule unit_with_suffix) simp

lemma read_unit_ok: "read_unit v = Inr u \<Longrightarrow> is_unit_name u \<and> ends_with u ''.service''"
  unfolding read_unit_def is_unit_name_def
  by (auto simp: refuse_def type_error_def split: if_splits json.splits dest!: unit_with_suffix)

lemma read_units_ok: "read_units v = Inr us \<Longrightarrow> \<forall>u \<in> set us. is_unit_name u \<and> ends_with u ''.service''"
  unfolding read_units_def
  by (auto simp: passed_iffs list_all2_conv_all_nth in_set_conv_nth split: option.splits dest!: read_unit_ok)

lemma read_auxiliary_ok: "read_auxiliary seen a = Inr x \<Longrightarrow> is_service_unit (a_unit x) \<and> a_unit x \<notin> a_unit ` set seen"
  unfolding read_auxiliary_def Let_def by (auto simp: passed_iffs split: option.splits)

lemma auxiliary_units_ok:
  assumes "normalise_auxiliary_units raw = Inr xs"
  shows "distinct (map a_unit xs) \<and> (\<forall>x \<in> set xs. is_service_unit (a_unit x))"
proof (cases "\<exists>as. array_of raw = Some as \<and> \<not> is_null raw")
  case True
  then obtain as where run: "map_seen read_auxiliary [] as = Inr xs"
    using assms by (auto simp: normalise_auxiliary_units_def)
  have "distinct (map a_unit xs)" by (rule map_seen_distinct [OF run]) (simp add: read_auxiliary_ok)
  moreover have "\<forall>x \<in> set xs. is_service_unit (a_unit x)"
    using map_seen_Inr [OF run] read_auxiliary_ok by (fastforce simp: in_set_conv_nth)
  ultimately show ?thesis ..
next
  case False
  with assms show ?thesis by (auto simp: normalise_auxiliary_units_def refuse_def split: if_splits option.splits)
qed

lemma read_workers_ok: "read_workers units v = Inr ws \<Longrightarrow> \<forall>w \<in> set ws. is_service_unit w \<and> \<not> list_ex (worker_of w) units"
  unfolding read_workers_def read_worker_def
  by (auto simp: passed_iffs list_all2_conv_all_nth in_set_conv_nth split: option.splits) metis+

lemma read_socket_unit_ok: "read_socket_unit v = Inr (Some u) \<Longrightarrow> is_unit_name u \<and> ends_with u ''.socket''"
  unfolding read_socket_unit_def matches_def
  by (auto simp: refuse_def type_error_def string_of_def text_of_def split: if_splits option.splits json.splits)

text \<open>The units, sources and auxiliary units of an accepted entry.\<close>

definition entry_units_ok :: "service_entry \<Rightarrow> bool" where
  "entry_units_ok e \<longleftrightarrow>
     (\<forall>u \<in> set (se_units e). is_unit_name u \<and> ends_with u ''.service'' \<and> (\<forall>w \<in> set (se_worker_units e). \<not> worker_of w u)) \<and>
     (\<forall>w \<in> set (se_worker_units e). is_service_unit w) \<and>
     distinct (map a_unit (se_auxiliary_units e)) \<and>
     (\<forall>a \<in> set (se_auxiliary_units e). is_service_unit (a_unit a) \<and> a_unit a \<notin> set (se_units e) \<union> set (se_worker_units e)) \<and>
     (\<forall>u. se_socket_unit e = Some u \<longrightarrow> is_unit_name u \<and> ends_with u ''.socket'')"

lemma finish_drill_keeps:
  "(case when_set d of None \<Rightarrow> Inr e | Some x \<Rightarrow> sbind (normalise_drill parse x e) (\<lambda>dr. Inr (e\<lparr>se_drill := Some dr\<rparr>))) = Inr e' \<Longrightarrow>
   \<exists>dr. e' = e\<lparr>se_drill := dr\<rparr>"
  by (cases e) (auto simp: passed_iffs split: option.splits)

lemma finish_entry_units:
  assumes run: "finish_entry parse s e0 = Inr e"
    and aux: "distinct (map a_unit (se_auxiliary_units e0))" "\<forall>a \<in> set (se_auxiliary_units e0). is_service_unit (a_unit a)"
  shows "entry_units_ok e"
proof -
  from run obtain units sock workers sources port ready command builds where
    u: "read_units (or_else (map_of s ''units'') (JArr [])) = Inr units"
    and sk: "read_socket_unit (map_of s ''socketUnit'') = Inr sock"
    and w: "read_workers units (or_else (map_of s ''workerUnits'') (JArr [])) = Inr workers"
    and a: "\<forall>x \<in> set (se_auxiliary_units e0). check_auxiliary units workers
        (map fst (entries_of (or_else (map_of s ''unitSources'') (JObj [])))) x = Inr ()"
    and e: "(case when_set (map_of s ''drill'') of
         None \<Rightarrow> Inr (e0\<lparr>se_units := units, se_worker_units := workers, se_socket_unit := sock, se_unit_sources := sources,
                  se_port := port, se_ready := ready, se_install_command := command, se_build := builds\<rparr>)
       | Some d \<Rightarrow> sbind (normalise_drill parse d (e0\<lparr>se_units := units, se_worker_units := workers, se_socket_unit := sock,
                  se_unit_sources := sources, se_port := port, se_ready := ready, se_install_command := command, se_build := builds\<rparr>))
             (\<lambda>dr. Inr (e0\<lparr>se_units := units, se_worker_units := workers, se_socket_unit := sock, se_unit_sources := sources,
                  se_port := port, se_ready := ready, se_install_command := command, se_build := builds, se_drill := Some dr\<rparr>))) = Inr e"
    unfolding finish_entry_def Let_def passed_iffs by auto
  from finish_drill_keeps [OF e [simplified]] have
    "se_units e = units" "se_worker_units e = workers" "se_socket_unit e = sock" "se_auxiliary_units e = se_auxiliary_units e0"
    by auto
  with aux read_units_ok [OF u] read_workers_ok [OF w] read_socket_unit_ok sk a show ?thesis
    unfolding entry_units_ok_def check_auxiliary_def by (auto simp: passed_iffs list_ex_iff)
qed

lemma accepted_finish:
  assumes "normalise_service parse sid raw defaults = Inr e"
  obtains s repo strategy release layout policy pf ax envFile dbs objs origin shots where
    "finish_entry parse s (first_entry sid s repo strategy release layout policy pf ax envFile dbs objs origin shots) = Inr e"
    "normalise_auxiliary_units (map_of s ''auxiliaryUnits'') = Inr ax"
  using assms unfolding normalise_service_def Let_def passed_iffs by (auto split: option.splits simp: passed_iffs)

lemma accepted_units: "normalise_service parse sid raw defaults = Inr e \<Longrightarrow> entry_units_ok e"
  by (erule accepted_finish, rule finish_entry_units) (auto simp: first_entry_def Let_def dest: auxiliary_units_ok)

end
