(* ===== verification/Accepted.thy ===== *)
theory Accepted
  imports Typed_Entry
begin

text \<open>
  What an accepted inventory guarantees: units, ports, paths, waiting times, the drill's
  confinement, and who may have written the file; and what follows for the deploy engine.
\<close>

section \<open>A sample entry\<close>

definition no_urls :: url_parser where
  "no_urls = (\<lambda>s. None)"

definition raw_entry :: "(str \<times> json) list \<Rightarrow> json" where
  "raw_entry more_fields =
     JObj ([(''repo'', JStr ''/srv/app''), (''owner'', JStr ''app''), (''units'', strs [''app.service'']),
       (''socketUnit'', JStr ''app.socket''), (''workerUnits'', strs [''app-worker@.service'']),
       (''auxiliaryUnits'', strs [''store.service'']),
       (''unitSources'', JObj [(''store.service'', JStr ''deploy/store.service'')]), (''port'', JNum 4000)] @ more_fields)"

definition sample_normalised :: "service_entry checked" where
  "sample_normalised = normalise_service no_urls ''app'' (raw_entry []) (JObj [])"

definition sample_typed :: "service option" where
  "sample_typed = (case sample_normalised of Inr e \<Rightarrow> typed_service sample_guard e | Inl f \<Rightarrow> None)"

lemma sample_is_accepted: "\<not> isl sample_normalised"
  by code_simp

lemma sample_is_typed: "map_option commands_ok sample_typed = Some True"
  by code_simp

lemma sample_entry:
  obtains e svc where "normalise_service no_urls ''app'' (raw_entry []) (JObj []) = Inr e"
    "typed_service sample_guard e = Some svc" "commands_ok svc"
proof -
  from sample_is_accepted obtain e where e: "sample_normalised = Inr e" by (metis sum.collapse(2))
  moreover have "map_option commands_ok (typed_service sample_guard e) = Some True"
    using sample_is_typed unfolding sample_typed_def e sum.case .
  then obtain svc where "typed_service sample_guard e = Some svc" "commands_ok svc" by auto
  ultimately show ?thesis using that unfolding sample_normalised_def by blast
qed

section \<open>Units\<close>

text \<open>
  Property C26. An accepted entry restarts nothing it must not: each of its units is a named
  \<^verbatim>\<open>.service\<close> unit, no socket, no worker unit and no instance of a worker template; its auxiliary
  units are distinct service units outside both lists; and its socket unit, when it has one, is a socket.
\<close>

theorem accepted_units_safe:
  assumes "normalise_service parse sid raw defaults = Inr e"
  shows "list_all (\<lambda>u. is_unit_name u \<and> ends_with u ''.service'' \<and> \<not> ends_with u ''.socket'' \<and>
        \<not> list_ex (\<lambda>w. worker_of w u) (se_worker_units e)) (se_units e) \<and>
      distinct (map a_unit (se_auxiliary_units e)) \<and>
      list_all (\<lambda>a. is_service_unit (a_unit a) \<and> a_unit a \<notin> set (se_units e @ se_worker_units e)) (se_auxiliary_units e) \<and>
      (case se_socket_unit e of Some u \<Rightarrow> is_unit_name u \<and> ends_with u ''.socket'' | None \<Rightarrow> True)"
  using accepted_units [OF assms] unfolding entry_units_ok_def
  by (auto simp: list_all_iff list_ex_iff service_no_socket split: option.split)

theorem accepted_units_safe_witness:
  "\<exists>e. normalise_service no_urls ''app'' (raw_entry []) (JObj []) = Inr e \<and>
     list_all (\<lambda>u. is_unit_name u \<and> ends_with u ''.service'' \<and> \<not> ends_with u ''.socket'' \<and>
        \<not> list_ex (\<lambda>w. worker_of w u) (se_worker_units e)) (se_units e) \<and>
      distinct (map a_unit (se_auxiliary_units e)) \<and>
      list_all (\<lambda>a. is_service_unit (a_unit a) \<and> a_unit a \<notin> set (se_units e @ se_worker_units e)) (se_auxiliary_units e) \<and>
      (case se_socket_unit e of Some u \<Rightarrow> is_unit_name u \<and> ends_with u ''.socket'' | None \<Rightarrow> True)"
proof -
  obtain e svc where "normalise_service no_urls ''app'' (raw_entry []) (JObj []) = Inr e" by (rule sample_entry)
  from this accepted_units_safe [OF this] show ?thesis by blast
qed

text \<open>
  Property C27. The engine run on an accepted entry keeps the sockets listening: what the inventory's checks
  let through as a service of this type is one whose deploys and rollbacks neither stop nor restart a socket
  unit, given only that its own commands are not \<^verbatim>\<open>systemctl\<close>.
\<close>

theorem accepted_deploy_keeps_sockets:
  assumes "normalise_service parse sid raw defaults = Inr e" and "typed_service g e = Some svc"
    and "commands_ok svc" and "nginx_ok c"
  shows "\<exists>es. fst (snd (apply_checkout c svc mode opts (tr, l))) = es @ tr \<and> (\<forall>e \<in> set es. socket_kept e)"
proof -
  from accepted_units [OF assms(1)] typed_service_units [OF assms(2)] have "units_named svc"
    unfolding entry_units_ok_def units_named_def by (auto simp: is_service_unit_def is_unit_name_def dest: unit_with_suffix)
  with assms(3,4) have "entry_ok c svc" by (simp add: entry_ok_def)
  from kept_apply_checkout [OF this, of mode opts] show ?thesis unfolding emits_def by blast
qed

theorem accepted_deploy_keeps_sockets_witness:
  "\<exists>e svc. normalise_service no_urls ''app'' (raw_entry []) (JObj []) = Inr e \<and> typed_service sample_guard e = Some svc \<and>
     (\<exists>es. fst (snd (apply_checkout (sample_ctx [] 200) svc Deploy default_opts ([], blank_state))) = es @ [] \<and>
       (\<forall>e \<in> set es. socket_kept e))"
proof -
  obtain e svc where run: "normalise_service no_urls ''app'' (raw_entry []) (JObj []) = Inr e"
    "typed_service sample_guard e = Some svc" "commands_ok svc" by (rule sample_entry)
  have "nginx_ok (sample_ctx [] 200)" by (simp add: nginx_ok_def sample_ctx_def sample_inventory_def)
  from run accepted_deploy_keeps_sockets [OF run this] show ?thesis by blast
qed

section \<open>Ports\<close>

definition drill_ports :: "service_entry list \<Rightarrow> int list" where
  "drill_ports es = concat (map (\<lambda>e. case drill_port e of Some p \<Rightarrow> [p] | None \<Rightarrow> []) es)"

lemma check_drill_ports_iff:
  "check_drill_ports ports seen es = Inr () \<longleftrightarrow>
     distinct (drill_ports es) \<and> set (drill_ports es) \<inter> (set ports \<union> set seen) = {}"
  by (induction ports seen es rule: check_drill_ports.induct) (auto simp: drill_ports_def passed_iffs split: option.split)

lemma accepted_drill_ports:
  "normalise parse raw = Inr i \<Longrightarrow>
   check_drill_ports (service_ports (map snd (ie_services i))) [] (map snd (ie_services i)) = Inr ()"
  unfolding normalise_def Let_def passed_iffs by auto

text \<open>
  In an accepted inventory no two restore drills share a port and none uses the port of a service,
  so a drill instance never takes the place of a production listener.
\<close>

theorem drill_ports_disjoint:
  "case normalise parse raw of
     Inl f \<Rightarrow> True
   | Inr i \<Rightarrow> (let es = map snd (ie_services i) in
        distinct (drill_ports es) \<and> set (drill_ports es) \<inter> set (service_ports es) = {})"
  using accepted_drill_ports [of parse raw] by (auto simp: check_drill_ports_iff Let_def split: sum.split)

section \<open>Waiting times\<close>

lemma guard_key_set:
  assumes "k \<in> fst ` set default_guard" "kvs = put_all default_guard es"
    "\<forall>(k, x) \<in> set kvs. is_guard_key k \<and> safe_positive x"
  shows "0 < guard_number kvs k"
proof -
  from assms(1,2) have "map_of kvs k \<noteq> None"
    by (auto simp: map_of_put_all map_add_None map_of_eq_None_iff)
  then obtain x where x: "map_of kvs k = Some x" by auto
  then have "(k, x) \<in> set kvs" by (rule map_of_SomeD)
  with assms(3) have "safe_positive x" by auto
  with x show ?thesis by (auto simp: guard_number_def safe_positive_def is_whole_def split: json.splits)
qed

lemma read_guard_positive:
  assumes "read_guard v = Inr g"
  shows "0 < g_memory_poll_seconds g \<and> 0 < g_memory_wait_seconds g \<and> 0 < g_min_available_mib g \<and> 0 < g_lock_wait_seconds g"
proof -
  let ?kvs = "put_all default_guard (entries_of (or_else v (JObj [])))"
  from assms have ok: "\<forall>(k, x) \<in> set ?kvs. is_guard_key k \<and> safe_positive x"
    and g: "g = \<lparr>g_min_available_mib = guard_number ?kvs ''minAvailableMiB'', g_memory_wait_seconds = guard_number ?kvs ''memoryWaitSeconds'',
            g_memory_poll_seconds = guard_number ?kvs ''memoryPollSeconds'', g_lock_wait_seconds = guard_number ?kvs ''lockWaitSeconds''\<rparr>"
    by (auto simp: read_guard_def Let_def passed_iffs)
  have "0 < guard_number ?kvs k" if "k \<in> fst ` set default_guard" for k
    by (rule guard_key_set [OF that refl ok])
  then show ?thesis unfolding g by (simp add: default_guard_def)
qed

text \<open>
  Property C28. Under an accepted \<^verbatim>\<open>deployGuard\<close> waiting for memory always ends: on a clock that
  never runs backwards, one round more than the seconds to wait is enough, whatever memory does.
\<close>

theorem accepted_memory_wait_ends:
  assumes "read_guard v = Inr g" and "clock_ok H"
  shows "fst (memory_wait H g (h_now H tr) (Suc (nat (g_memory_wait_seconds g))) (tr, l)) \<noteq> Inl OutOfFuel"
proof (rule memory_wait_ends [OF assms(2)])
  from read_guard_positive [OF assms(1)] have g: "1 \<le> g_memory_poll_seconds g" "0 < g_memory_wait_seconds g" by auto
  then show "0 < g_memory_poll_seconds g" by simp
  from g have "g_memory_wait_seconds g * 1 \<le> g_memory_wait_seconds g * g_memory_poll_seconds g"
    by (intro mult_left_mono) auto
  with g show "g_memory_wait_seconds g * 1000 - (h_now H tr - h_now H tr)
      \<le> int (nat (g_memory_wait_seconds g)) * (g_memory_poll_seconds g * 1000)" by simp
qed

lemma empty_guard: "map_sum id g_memory_wait_seconds (read_guard None) = Inr 300"
  by (simp add: read_guard_def or_else_def entries_of_def put_all_def default_guard_def safe_positive_def is_whole_def
      is_guard_key_def guard_number_def demand_def next_check_def sbind_def)

theorem accepted_memory_wait_ends_witness:
  "\<exists>g. read_guard None = Inr g \<and> g_memory_wait_seconds g = 300 \<and>
     fst (memory_wait (sample_host [] 200) g (h_now (sample_host [] 200) []) (Suc (nat (g_memory_wait_seconds g))) ([], ())) \<noteq> Inl OutOfFuel"
proof -
  from empty_guard obtain g where g: "read_guard None = Inr g" "g_memory_wait_seconds g = 300"
    by (cases "read_guard None") auto
  show ?thesis by (rule exI [of _ g], intro conjI g accepted_memory_wait_ends [OF g(1) sample_clock])
qed

section \<open>Who wrote the file\<close>

lemma load_first_checks:
  "load_first parse H fs s = (Inr (f, i), tr', l') \<Longrightarrow> h_is_root H \<Longrightarrow>
   \<exists>st tr0. tr' = ERead f # EStat f # tr0 \<and> h_stat H tr0 f = Some st \<and> st_uid st = 0 \<and> \<not> group_or_world_writable (st_mode st) \<and> f \<in> set fs"
proof (induction fs arbitrary: s)
  case (Cons x fs)
  obtain tr l where s: "s = (tr, l)" by (cases s)
  show ?case
  proof (cases "h_stat H tr x")
    case None
    with Cons.prems s have "load_first parse H fs (EStat x # tr, l) = (Inr (f, i), tr', l')"
      by (simp add: exec_stat_def ask_def bind_def)
    from Cons.IH [OF this Cons.prems(2)] show ?thesis by auto
  next
    case (Some st)
    with Cons.prems s have "read_inventory parse H x st (EStat x # tr, l) = (Inr (f, i), tr', l')"
      by (simp add: exec_stat_def ask_def bind_def)
    with Cons.prems(2) Some show ?thesis
      by (auto simp: read_inventory_def exec_read_def ask_or_def of_checked_def prog_simps split: if_splits option.splits sum.splits prod.splits)
  qed
qed (simp add: throw_def)

text \<open>The two permission bits the mode is tested for.\<close>

lemma writable_bits: "group_or_world_writable mode \<longleftrightarrow> bit mode 4 \<or> bit mode 1"
proof -
  have m: "bit (18 :: int) n \<longleftrightarrow> n = 4 \<or> n = 1" for n
  proof (cases "n < 5")
    case True
    then have "n \<in> {0, 1, 2, 3, 4}" by auto
    then show ?thesis by (auto simp: bit_iff_odd)
  next
    case False
    then have "(2 :: int) ^ 5 \<le> 2 ^ n" by (intro power_increasing) auto
    then have "(18 :: int) div 2 ^ n = 0" by (intro div_pos_pos_trivial) auto
    with False show ?thesis by (simp add: bit_iff_odd)
  qed
  have "and mode 18 = 0 \<longleftrightarrow> (\<forall>n. \<not> (bit mode n \<and> bit (18 :: int) n))"
    by (simp add: bit_eq_iff bit_and_iff)
  with m show ?thesis by (auto simp: group_or_world_writable_def)
qed

text \<open>
  As root, ovhost only trusts an inventory that root owns and that neither its group nor anyone else
  can write: the file it returns was examined immediately before it was read, and had neither write bit.
\<close>

theorem root_loads_trusted_file:
  assumes "h_is_root H" and "load parse H chosen env (tr, l) = (Inr (f, i), tr', l')"
  shows "\<exists>st tr0. tr' = ERead f # EStat f # tr0 \<and> h_stat H tr0 f = Some st \<and> st_uid st = 0 \<and>
    \<not> bit (st_mode st) 4 \<and> \<not> bit (st_mode st) 1 \<and> f \<in> set (candidates chosen env)"
  using load_first_checks [OF assms(2) [unfolded load_def] assms(1)] unfolding writable_bits by auto

definition trusted_stat :: file_stat where
  "trusted_stat =
     \<lparr>st_is_file = True, st_is_dir = False, st_is_symlink = False, st_nlink = 1, st_size = 2, st_mtime = 0, st_uid = 0, st_owner = ''root'', st_mode = 416\<rparr>"

definition inventory_host :: host where
  "inventory_host =
     (sample_host [] 200)\<lparr>h_stat := (\<lambda>tr p. Some trusted_stat), h_read := (\<lambda>tr p. Inr (Some (json_text (JObj [(''services'', JObj [])]))))\<rparr>"

definition loaded :: "(exc + str \<times> inventory_entry) \<times> unit state" where
  "loaded = load no_urls inventory_host None None ([], ())"

lemma loads: "map_sum id fst (fst loaded) = Inr ''/etc/openvibe/host.json''"
  by code_simp

theorem root_loads_trusted_file_witness:
  "\<exists>f i tr'. load no_urls inventory_host None None ([], ()) = (Inr (f, i), tr', ()) \<and>
     (\<exists>st tr0. tr' = ERead f # EStat f # tr0 \<and> h_stat inventory_host tr0 f = Some st \<and> st_uid st = 0 \<and>
        \<not> bit (st_mode st) 4 \<and> \<not> bit (st_mode st) 1 \<and> f \<in> set (candidates None None))"
proof -
  obtain r tr' where all: "loaded = (r, tr', ())" by (cases loaded) auto
  from loads have "map_sum id fst r = Inr ''/etc/openvibe/host.json''" unfolding all by simp
  then obtain f i where "r = Inr (f, i)" by (cases r) auto
  with all have run: "load no_urls inventory_host None None ([], ()) = (Inr (f, i), tr', ())"
    unfolding loaded_def by simp
  have "h_is_root inventory_host" by (simp add: inventory_host_def sample_host_def)
  from run root_loads_trusted_file [OF this run] show ?thesis by blast
qed

section \<open>The drill\<close>

lemma read_drill_env_keys:
  "map_checked read_drill_env es = Inr vars \<Longrightarrow> map fst vars = map fst es"
proof (induction es arbitrary: vars)
  case (Cons e es)
  then obtain v vs where "read_drill_env e = Inr v" "map_checked read_drill_env es = Inr vs" "vars = v # vs"
    by (auto simp: sbind_Inr)
  moreover from this(1) have "fst v = fst e"
    by (auto simp: read_drill_env_def passed_iffs split: prod.splits json.splits if_splits)
  ultimately show ?case using Cons.IH by simp
qed simp

lemma not_owned_keys: "check_not_owned env v = Inr () \<Longrightarrow> js_string v \<notin> fst ` set (entries_of env)"
  unfolding check_not_owned_def has_property_def entries_of_def
  by (auto simp: passed_iffs type_error_def split: json.splits)

lemma map_checked_all: "map_checked f xs = Inr ys \<Longrightarrow> (\<And>x y. f x = Inr y \<Longrightarrow> P y) \<Longrightarrow> list_all P ys"
  by (induction xs arbitrary: ys) (auto simp: sbind_Inr)

lemma list_all2_all: "list_all2 (\<lambda>x y. f x = Inr y) xs ys \<Longrightarrow> (\<And>x y. f x = Inr y \<Longrightarrow> P y) \<Longrightarrow> list_all P ys"
  by (induction rule: list_all2_induct) auto

lemma read_bind_ok: "read_bind repo b = Inr x \<Longrightarrow> is_tmp_path (fst x) \<and> (snd x = repo \<or> below repo (snd x)) \<and> \<not> str_includes (snd x) ''..''"
  unfolding read_bind_def by (auto simp: passed_iffs split: option.splits)

lemma read_tmp_path_ok: "read_tmp_path v = Inr p \<Longrightarrow> is_tmp_path p"
  unfolding read_tmp_path_def by (auto simp: refuse_def split: option.splits if_splits)

lemma read_drill_database_ok:
  "read_drill_database names x = Inr y \<Longrightarrow> JStr (fst y) \<in> set names"
  unfolding read_drill_database_def by (auto simp: passed_iffs Let_def split: prod.splits option.splits)

lemma production_port_ok:
  "read_production_port svcPort port v = Inr p \<Longrightarrow> svcPort \<noteq> Some port \<Longrightarrow> p \<noteq> Some port"
  unfolding read_production_port_def by (auto simp: passed_iffs split: if_splits)

lemma finish_drill_ok:
  assumes "finish_drill parse r svc raw port dbs env = Inr dc"
  shows "\<exists>d. dc = Supported d \<and> dr_port d = port \<and> dr_databases d = dbs \<and> dr_env d = env \<and>
    list_all is_tmp_path (dr_dirs d) \<and>
    list_all (\<lambda>x. is_tmp_path (fst x) \<and> (snd x = se_repo svc \<or> below (se_repo svc) (snd x)) \<and> \<not> str_includes (snd x) ''..'') (dr_bind d) \<and>
    (se_port svc = Some port \<or> dr_production_port d \<noteq> Some port)"
  using assms unfolding finish_drill_def Let_def passed_iffs
  by (auto dest: production_port_ok list_all2_all [OF _ read_tmp_path_ok] list_all2_all [OF _ read_bind_ok])

text \<open>
  An accepted drill stays beside production: its port is unprivileged and is neither the port of
  the service nor the one it compares with; it binds only over paths inside the checkout, from and to places
  without \<^verbatim>\<open>..\<close>; it restores only databases of the service; and it sets no variable twice, by
  \<^verbatim>\<open>env\<close> and by a database.
\<close>

theorem drill_confined:
  "case normalise_drill parse raw svc of
     Inr (Supported d) \<Rightarrow>
       1024 \<le> dr_port d \<and> dr_port d \<le> 65535 \<and> se_port svc \<noteq> Some (dr_port d) \<and> dr_production_port d \<noteq> Some (dr_port d) \<and>
       list_all is_tmp_path (dr_dirs d) \<and>
       list_all (\<lambda>x. is_tmp_path (fst x) \<and> (snd x = se_repo svc \<or> below (se_repo svc) (snd x)) \<and> \<not> str_includes (snd x) ''..'') (dr_bind d) \<and>
       list_all (\<lambda>(n, u, t). JStr n \<in> de_name ` set (se_databases svc) \<and>
         js_string u \<notin> fst ` set (dr_env d) \<and> js_string t \<notin> fst ` set (dr_env d)) (dr_databases d)
   | _ \<Rightarrow> True"
proof (cases "\<exists>d. normalise_drill parse raw svc = Inr (Supported d)")
  case True
  then obtain d where run: "normalise_drill parse raw svc = Inr (Supported d)" by blast
  let ?env = "or_else (member_of ''env'' raw) (JObj [])" and ?dbs = "or_else (member_of ''databases'' raw) (JObj [])"
  from run obtain port targets vars where
    port: "1024 \<le> port" "port \<le> 65535" "se_port svc \<noteq> Some port"
    and t: "map_checked (read_drill_database (map de_name (se_databases svc))) (entries_of ?dbs) = Inr targets"
    and v: "map_checked read_drill_env (entries_of ?env) = Inr vars"
    and own: "\<forall>(n, u, d) \<in> set targets. check_not_owned ?env u = Inr () \<and> check_not_owned ?env d = Inr ()"
    and fin: "finish_drill parse (se_ready svc) svc raw port targets vars = Inr (Supported d)"
    unfolding normalise_drill_def Let_def
    by (auto simp: passed_iffs case_prod_unfold split: if_splits option.splits)
  have keys: "fst ` set vars = fst ` set (entries_of ?env)"
    using read_drill_env_keys [OF v] by (metis list.set_map)
  have "list_all (\<lambda>y. JStr (fst y) \<in> set (map de_name (se_databases svc))) targets"
    by (rule map_checked_all [OF t]) (rule read_drill_database_ok)
  with own have "list_all (\<lambda>(n, u, t). JStr n \<in> de_name ` set (se_databases svc) \<and>
         js_string u \<notin> fst ` set vars \<and> js_string t \<notin> fst ` set vars) targets"
    unfolding keys list_all_iff case_prod_unfold by (simp add: not_owned_keys)
  with finish_drill_ok [OF fin] port show ?thesis unfolding run by auto
qed (auto split: sum.split drill_config.split)

section \<open>Presets\<close>

definition preset_value :: "(str \<times> json) list \<Rightarrow> str \<Rightarrow> str \<Rightarrow> json option" where
  "preset_value s strategy k =
     (case (map_of (preset strategy) k, map_of s k) of
        (p, None) \<Rightarrow> p
      | (Some p, Some (JObj kvs)) \<Rightarrow> (if k \<in> set nested_keys then Some (merged p (JObj kvs)) else Some (JObj kvs))
      | (_, Some v) \<Rightarrow> Some v)"

lemma map_of_nested:
  "map_of (foldl (\<lambda>out k.
        case (map_of p k, object_of (map_of s k)) of
          (Some q, Some kvs) \<Rightarrow> obj_put k (merged q (JObj kvs)) out
        | _ \<Rightarrow> out) out ks) x =
   (case (map_of p x, object_of (map_of s x)) of
      (Some q, Some kvs) \<Rightarrow> (if x \<in> set ks then Some (merged q (JObj kvs)) else map_of out x)
    | _ \<Rightarrow> map_of out x)"
  by (induction ks arbitrary: out) (auto split: option.split)

text \<open>
  An entry overrides its strategy's preset property by property: what the entry gives stands,
  except that an object it gives for a nested block is laid over the preset's object of that block; what it
  does not give is the preset's.
\<close>

theorem preset_overridden:
  assumes "distinct (map fst s)"
  shows "map_of (with_preset s strategy) k = preset_value s strategy k"
proof -
  have "map_of (rev s) = map_of s" using assms
    by (induction s) (auto simp: fun_eq_iff map_add_def rev_map [symmetric] split: option.split dest: map_of_SomeD intro: rev_image_eqI)
  then have "map_of (put_all (preset strategy) s) k = (case map_of s k of None \<Rightarrow> map_of (preset strategy) k | Some v \<Rightarrow> Some v)"
    by (simp add: map_of_put_all map_add_def)
  then show ?thesis unfolding with_preset_def map_of_nested preset_value_def
    by (auto simp: object_of_def split: option.split json.split)
qed

theorem preset_overridden_witness:
  "map_of (with_preset [(''build'', JArr []), (''install'', JObj [(''always'', JBool False)])] ''static-build'') ''install'' =
   preset_value [(''build'', JArr []), (''install'', JObj [(''always'', JBool False)])] ''static-build'' ''install''"
  by (rule preset_overridden) simp

section \<open>The release layout\<close>

lemma check_link_ok: "check_link base releases x = Inr y \<Longrightarrow> is_file_name (fst y) \<and> below base (path_resolve (releases @ ''/x'') (snd y))"
  unfolding check_link_def by (auto simp: passed_iffs split: prod.splits json.splits if_splits)

text \<open>
  In an accepted release layout the releases and the \<^verbatim>\<open>current\<close> link lie inside the
  service's root, every link a release gets resolves inside it too, at least two releases and at most fifty are kept, and
  the socket's port is a TCP port.
\<close>

theorem release_inside_root:
  "case normalise_release raw base of
     Inl f \<Rightarrow> True
   | Inr r \<Rightarrow> below base (re_releases_dir r) \<and> below base (re_current r) \<and>
       list_all (\<lambda>(name, target). is_file_name name \<and> below base (path_resolve (re_releases_dir r @ ''/x'') target)) (re_links r) \<and>
       2 \<le> re_keep r \<and> re_keep r \<le> 50 \<and> 0 \<le> re_settle_seconds r \<and> re_settle_seconds r \<le> 60 \<and>
       (case re_socket_port r of Some p \<Rightarrow> 0 < p \<and> p < 65536 | None \<Rightarrow> True)"
proof (cases "normalise_release raw base")
  case (Inr r)
  then obtain releases kvs where
    ls: "map_checked (check_link base releases) kvs = Inr (re_links r)" "re_releases_dir r = releases"
    and rest: "below base (re_releases_dir r) \<and> below base (re_current r) \<and> 2 \<le> re_keep r \<and> re_keep r \<le> 50 \<and>
      0 \<le> re_settle_seconds r \<and> re_settle_seconds r \<le> 60 \<and>
      (case re_socket_port r of Some p \<Rightarrow> 0 < p \<and> p < 65536 | None \<Rightarrow> True)"
    unfolding normalise_release_def Let_def
    by (auto simp: passed_iffs optional_port_def split: if_splits option.splits)
  from map_checked_all [OF ls(1) check_link_ok] ls(2) rest show ?thesis
    unfolding Inr by (auto simp: case_prod_unfold)
qed simp

end
