(* ===== verification/Dispatch.thy ===== *)
theory Dispatch
  imports Release_Layout Sample Outcome
begin

text \<open>
  The three operations the command line and the deploy controller call, \<open>deploy\<close>, \<open>rollback\<close> and
  \<open>plan\<close> of \<^verbatim>\<open>lib/release-ops.js\<close>: freezes hold deploys, a rollback finds its commit in the
  release log, and the strategy of the service chooses the engine.
\<close>

datatype op_outcome = InPlace outcome | Layout layout_outcome

definition exit_of :: "op_outcome \<Rightarrow> nat" where
  "exit_of r = (case r of InPlace x \<Rightarrow> oc_exit x | Layout x \<Rightarrow> lo_exit x)"

datatype op_plan = InPlacePlan deploy_plan | LayoutPlan layout_plan

definition plan_from :: "op_plan \<Rightarrow> str" where
  "plan_from p = (case p of InPlacePlan q \<Rightarrow> p_from q | LayoutPlan q \<Rightarrow> lp_from q)"

definition plan_to :: "op_plan \<Rightarrow> str" where
  "plan_to p = (case p of InPlacePlan q \<Rightarrow> p_to q | LayoutPlan q \<Rightarrow> lp_to q)"

definition plan_up_to_date :: "op_plan \<Rightarrow> bool" where
  "plan_up_to_date p = (case p of InPlacePlan q \<Rightarrow> up_to_date q | LayoutPlan q \<Rightarrow> lp_up_to_date q)"

definition plan_changed :: "op_plan \<Rightarrow> str list" where
  "plan_changed p = (case p of InPlacePlan q \<Rightarrow> p_changed q | LayoutPlan q \<Rightarrow> lp_changed q)"

definition is_layout :: "service \<Rightarrow> bool" where
  "is_layout svc \<longleftrightarrow> s_strategy svc = ''release-layout''"

definition apply_service :: "ctx \<Rightarrow> service \<Rightarrow> op_mode \<Rightarrow> op_opts \<Rightarrow> (engine_state, op_outcome) prog" where
  "apply_service c svc mode opts =
     (if is_layout svc then bind (apply_layout c svc mode opts) (\<lambda>r. ret (Layout r))
      else bind (apply_checkout c svc mode opts) (\<lambda>r. ret (InPlace r)))"

definition deploy :: "ctx \<Rightarrow> str \<Rightarrow> op_opts \<Rightarrow> (engine_state, op_outcome) prog" where
  "deploy c sid opts =
     bind (find_service (inv c) sid) (\<lambda>svc.
     bind (frozen c (s_id svc) False) (\<lambda>hold.
     if hold \<noteq> None \<and> \<not> op_force opts then throw (OpError ''the service is frozen'' exit_frozen None)
     else apply_service c svc Deploy opts))"

text \<open>
  The commit an in-place rollback without a target returns to: the one the log says the current commit
  replaced. Only a string can be sliced for the log line that follows.
\<close>

definition logged_target :: "ctx \<Rightarrow> service \<Rightarrow> str \<Rightarrow> ('l, str) prog" where
  "logged_target c svc sid =
     bind (git_head (exec c) (git_of svc)) (\<lambda>current.
     bind (list_records c sid) (\<lambda>records.
     bind (of_sum (previous_for records current)) (\<lambda>to.
     case to of
       Some (JStr t) \<Rightarrow> ret t
     | Some _ \<Rightarrow> throw (JsError ''TypeError'')
     | None \<Rightarrow> throw (OpError ''no deploy in the release log brought the service here'' exit_usage None))))"

definition rollback :: "ctx \<Rightarrow> str \<Rightarrow> op_opts \<Rightarrow> (engine_state, op_outcome) prog" where
  "rollback c sid opts =
     bind (find_service (inv c) sid) (\<lambda>svc.
     if s_managed svc \<and> is_layout svc then bind (apply_layout c svc Rollback opts) (\<lambda>r. ret (Layout r))
     else
       bind (case given (op_to opts) of Some t \<Rightarrow> ret t | None \<Rightarrow> logged_target c svc sid) (\<lambda>t.
       apply_service c svc Rollback (opts\<lparr>op_to := Some t\<rparr>)))"

definition plan :: "ctx \<Rightarrow> str \<Rightarrow> op_opts \<Rightarrow> ('l, op_plan) prog" where
  "plan c sid opts =
     bind (find_service (inv c) sid) (\<lambda>svc.
     if is_layout svc
     then bind (layout_compute_plan c svc Deploy (op_to opts) (op_fetch opts) (op_restart opts)) (\<lambda>p. ret (LayoutPlan p))
     else bind (compute_plan c svc Deploy (op_to opts) (op_fetch opts) (op_restart opts)) (\<lambda>p. ret (InPlacePlan p)))"

section \<open>Footprints\<close>

context event_class
begin

lemma emits_first_freeze [emits_rules]: "emits A (first_freeze c fs)"
  by (induction fs) (auto intro!: emits_rules)

lemma emits_frozen [emits_rules]: "emits A (frozen c sid b)"
  unfolding frozen_def by (intro emits_rules)

lemma emits_logged_target [emits_rules]: "emits A (logged_target c svc sid)"
  unfolding logged_target_def by (auto intro!: emits_rules split: option.split json.split)

lemma emits_plan [emits_rules]: "emits A (plan c sid opts)"
  unfolding plan_def by (intro emits_rules)

end

text \<open>Reading the freezes writes nothing and runs nothing.\<close>

definition is_read :: "event \<Rightarrow> bool" where
  "is_read e \<longleftrightarrow> (\<exists>p. e = ERead p)"

lemma frozen_reads: "emits is_read (frozen c sid b)"
proof -
  have "emits is_read (first_freeze c fs)" for fs
    by (induction fs) (auto intro!: emits_rules simp: is_read_def)
  then show ?thesis unfolding frozen_def .
qed

text \<open>
  A deploy of a frozen service without \<^verbatim>\<open>--force\<close> stops with exit 6, having only read
  the freeze files; the operation's own state is as it was.
\<close>

theorem frozen_deploy_refused:
  assumes svc: "map_of (inv_services (inv c)) sid = Some svc" and calm: "\<not> op_force opts"
    and hold: "frozen c (s_id svc) False (tr, l) = (Inr (Some h), tr', l')"
  shows "deploy c sid opts (tr, l) = (Inl (OpError ''the service is frozen'' 6 None), tr', l') \<and>
    (\<exists>es. tr' = es @ tr \<and> (\<forall>e \<in> set es. \<exists>p. e = ERead p))"
proof -
  from frozen_reads hold obtain es where "tr' = es @ tr" "\<forall>e \<in> set es. is_read e" by (rule emitsD)
  then have "\<exists>es. tr' = es @ tr \<and> (\<forall>e \<in> set es. \<exists>p. e = ERead p)"
    unfolding is_read_def by blast
  moreover have "deploy c sid opts (tr, l) = (Inl (OpError ''the service is frozen'' 6 None), tr', l')"
    using calm unfolding deploy_def find_service_def
    by (simp add: svc bind_def hold ret_def throw_def exit_frozen_def)
  ultimately show ?thesis by blast
qed

text \<open>A host on which every file reads as an empty object.\<close>

definition frozen_ctx :: ctx where
  "frozen_ctx = (sample_ctx [] 200)\<lparr>exec := (sample_host [] 200)\<lparr>h_read := (\<lambda>tr p. Inr (Some ''{}''))\<rparr>\<rparr>"

theorem frozen_deploy_refused_witness:
  "deploy frozen_ctx ''app'' default_opts ([], blank_state) =
     (Inl (OpError ''the service is frozen'' 6 None), [ERead ''/var/lib/openvibe-host/freeze/app.json''], blank_state) \<and>
   (\<exists>es. [ERead ''/var/lib/openvibe-host/freeze/app.json''] = es @ [] \<and> (\<forall>e \<in> set es. \<exists>p. e = ERead p))"
proof (rule frozen_deploy_refused [where svc = sample_service and h = "JObj []"])
  show "map_of (inv_services (inv frozen_ctx)) ''app'' = Some sample_service"
    by (simp add: frozen_ctx_def sample_ctx_def sample_inventory_def)
  show "\<not> op_force default_opts" by (simp add: default_opts_def)
  show "frozen frozen_ctx (s_id sample_service) False ([], blank_state) =
      (Inr (Some (JObj [])), [ERead ''/var/lib/openvibe-host/freeze/app.json''], blank_state)"
    by code_simp
qed

text \<open>
  An in-place rollback without a target goes to the commit that the newest matching record of
  the release log names: a successful deploy that brought the checkout from that commit to the current one,
  with no such record after it.
\<close>

theorem rollback_follows_log:
  "case logged_target c svc sid s of
      (Inl e, s') \<Rightarrow> True
    | (Inr t, s') \<Rightarrow>
        \<exists>current s1 records s2 older r newer.
          git_head (exec c) (git_of svc) s = (Inr current, s1) \<and> list_records c sid s1 = (Inr records, s2) \<and>
          records = older @ r # newer \<and> brought_to current r \<and> jget ''from'' r = Some (JStr t) \<and>
          \<not> list_ex (brought_to current) newer"
proof -
  obtain r s' where fields: "logged_target c svc sid s = (r, s')" by (cases "logged_target c svc sid s") blast
  show ?thesis
  proof (cases r)
    case (Inr t)
    have run: "logged_target c svc sid s = (Inr t, s')" using fields Inr by simp
    then obtain current tr1 l1 records tr2 l2 v s3 where
      runs: "git_head (exec c) (git_of svc) s = (Inr current, tr1, l1)" "list_records c sid (tr1, l1) = (Inr records, tr2, l2)"
      and v: "of_sum (previous_for records current) (tr2, l2) = (Inr v, s3)"
      and t: "(case v of None \<Rightarrow> throw (OpError ''no deploy in the release log brought the service here'' exit_usage None)
        | Some (JStr t) \<Rightarrow> ret t | Some _ \<Rightarrow> throw (JsError ''TypeError'')) s3 = (Inr t, s')"
      unfolding logged_target_def bind_run by blast
    from v have pf: "previous_for records current = Inr v"
      by (cases "previous_for records current") (simp_all add: of_sum_def ret_def throw_def)
    from t have "v = Some (JStr t)" by (auto simp: ret_def throw_def split: option.splits json.splits)
    with previous_for_cases [OF pf] obtain older r newer where
      "records = older @ r # newer" "brought_to current r" "jget ''from'' r = Some (JStr t)"
      "\<not> list_ex (brought_to current) newer" by (auto simp: list_ex_iff)
    then show ?thesis unfolding run prod.case sum.case using runs by (intro exI conjI)
  qed (use fields in simp)
qed

end
