(* ===== verification/Reconcile.thy ===== *)
theory Reconcile
  imports Dispatch
begin

text \<open>
  The deploy controller, \<^verbatim>\<open>lib/reconcile.js\<close>: one pass over the services, which deploys what
  is set to \<^verbatim>\<open>auto\<close> when the remote is ahead in files that run and every check of that commit
  passed. The announcement after a deploy is the argument \<^verbatim>\<open>lib.announce\<close> of the code.
\<close>

section \<open>Files and remotes\<close>

text \<open>
  \<^verbatim>\<open>DOCS_OR_TESTS\<close>: its first alternatives are anchored at the beginning only, so they match every
  path that begins like one of those files.
\<close>

definition docs_or_tests :: "str \<Rightarrow> bool" where
  "docs_or_tests f \<longleftrightarrow>
     list_ex (starts_with f) [''README.md'', ''STATUS.json'', ''CHANGELOG.md'', ''SECURITY.md'', ''test/'', ''tests/'', ''.github/''] \<or>
     starts_with f ''docs/'' \<and> str_includes (drop 5 f) ''.md'' \<or>
     list_ex (ends_with f) [''.test.js'', ''.test.ts'', ''.test.cjs'', ''.test.cts'', ''.test.mjs'', ''.test.mts'']"

definition is_slug_char :: "char \<Rightarrow> bool" where
  "is_slug_char ch \<longleftrightarrow> is_alnum ch \<or> ch \<in> set ''_.-''"

definition slug_after :: "str \<Rightarrow> str option" where
  "slug_after s =
     (let owner = takeWhile is_slug_char s; rest = dropWhile is_slug_char s;
          t = drop 1 rest; t1 = (if ends_with t ''/'' then butlast t else t);
          name = (if ends_with t1 ''.git'' \<and> 4 < length t1 then drop_end 4 t1 else t1)
      in if owner \<noteq> [] \<and> starts_with rest ''/'' \<and> t1 \<noteq> [] \<and> list_all is_slug_char t1
         then Some (owner @ ''/'' @ name) else None)"

fun github_slug :: "str \<Rightarrow> str option" where
  "github_slug [] = None"
| "github_slug (ch # s) =
     (if starts_with (ch # s) ''github.com:'' \<or> starts_with (ch # s) ''github.com/''
      then (case slug_after (drop 11 (ch # s)) of Some r \<Rightarrow> Some r | None \<Rightarrow> github_slug s)
      else github_slug s)"

section \<open>The checks of a commit\<close>

datatype verdict = Green | Pending | Red | NoRuns | Unknown

definition verdict_name :: "verdict \<Rightarrow> str" where
  "verdict_name v =
     (case v of Green \<Rightarrow> ''green'' | Pending \<Rightarrow> ''pending'' | Red \<Rightarrow> ''red'' | NoRuns \<Rightarrow> ''none'' | Unknown \<Rightarrow> ''unknown'')"

definition passed :: "json \<Rightarrow> bool" where
  "passed run \<longleftrightarrow> jget ''conclusion'' run \<in> {Some (JStr ''success''), Some (JStr ''skipped''), Some (JStr ''neutral'')}"

definition completed :: "json \<Rightarrow> bool" where
  "completed run \<longleftrightarrow> jget ''status'' run = Some (JStr ''completed'')"

text \<open>
  The answer's \<^verbatim>\<open>check_runs\<close>: what has no length counts as none, and what has one but is no array
  has no \<^verbatim>\<open>some\<close>.
\<close>

definition check_runs :: "json \<Rightarrow> exc + json list" where
  "check_runs body =
     (if body = JNull then Inl (JsError ''TypeError'')
      else if \<not> truthy (jget ''check_runs'' body) then Inr []
      else case jget ''check_runs'' body of
          Some (JArr xs) \<Rightarrow> Inr xs
        | Some (JStr s) \<Rightarrow> Inl (JsError ''TypeError'')
        | Some (JObj kvs) \<Rightarrow> (if truthy (map_of kvs ''length'') then Inl (JsError ''TypeError'') else Inr [])
        | _ \<Rightarrow> Inr [])"

definition judge_runs :: "json list \<Rightarrow> exc + verdict" where
  "judge_runs runs =
     (if runs = [] then Inr NoRuns
      else if JNull \<in> set runs then Inl (JsError ''TypeError'')
      else if list_ex (\<lambda>r. \<not> completed r) runs then Inr Pending
      else if list_ex (\<lambda>r. \<not> passed r) runs then Inr Red
      else Inr Green)"

definition checks_url :: "str \<Rightarrow> str \<Rightarrow> str" where
  "checks_url slug sha =
     ''https://api.github.com/repos/'' @ slug @ ''/commits/'' @ sha @ ''/check-runs?per_page=100''"

definition ci_verdict :: "http_result \<Rightarrow> exc + verdict" where
  "ci_verdict r =
     (if hs_status r \<noteq> 200 then Inr Unknown
      else case json_parse (hs_body r) of
          None \<Rightarrow> Inr Unknown
        | Some body \<Rightarrow> (case check_runs body of Inl e \<Rightarrow> Inl e | Inr runs \<Rightarrow> judge_runs runs))"

definition ci_status :: "host \<Rightarrow> str \<Rightarrow> str \<Rightarrow> ('l, verdict) prog" where
  "ci_status H slug sha = bind (exec_request H ''GET'' (checks_url slug sha) []) (\<lambda>r. of_sum (ci_verdict r))"

section \<open>One pass\<close>

record pass_entry =
  pe_id :: str
  pe_policy :: str
  pe_from :: "str option"
  pe_to :: "str option"
  pe_ci :: "verdict option"
  pe_action :: str
  pe_detail :: "str option"
  pe_result :: "str option"
  pe_exit :: "nat option"
  pe_announced :: "bool option"

definition new_entry :: "str \<Rightarrow> str \<Rightarrow> pass_entry" where
  "new_entry sid policy =
     \<lparr>pe_id = sid, pe_policy = policy, pe_from = None, pe_to = None, pe_ci = None, pe_action = [],
      pe_detail = None, pe_result = None, pe_exit = None, pe_announced = None\<rparr>"

definition acted :: "str \<Rightarrow> str \<Rightarrow> pass_entry \<Rightarrow> pass_entry" where
  "acted action detail e = e\<lparr>pe_action := action, pe_detail := (if detail = [] then None else Some detail)\<rparr>"

text \<open>\<open>ann\<close> is \<^verbatim>\<open>lib.announce\<close>: whether the release was published, or a thrown error.\<close>

type_synonym announcer = "ctx \<Rightarrow> str \<Rightarrow> str option \<Rightarrow> (engine_state, bool) prog"

definition wait_idle_opts :: op_opts where
  "wait_idle_opts = default_opts\<lparr>op_wait_idle := True\<rparr>"

definition deploy_entry :: "ctx \<Rightarrow> announcer option \<Rightarrow> str \<Rightarrow> pass_entry \<Rightarrow> (engine_state, pass_entry) prog" where
  "deploy_entry c ann sid e =
     bind (try_catch (bind (deploy c sid wait_idle_opts) (\<lambda>r. ret (Some r))) (\<lambda>x. ret None)) (\<lambda>r.
     case r of
       None \<Rightarrow> ret (acted ''error'' ''deploy threw'' e)
     | Some out \<Rightarrow>
         bind getl (\<lambda>s.
         let e1 = e\<lparr>pe_result := os_result s, pe_exit := Some (exit_of out)\<rparr> in
         if exit_of out \<noteq> 0 then ret (acted ''failed'' ''deploy exit'' e1)
         else (case ann of
             Some f \<Rightarrow>
               (if os_result s = Some ''deployed''
                then bind (try_catch (f c sid (os_to s)) (\<lambda>x. ret False)) (\<lambda>sent.
                  ret ((acted ''deployed'' [] e1)\<lparr>pe_announced := Some sent\<rparr>))
                else ret (acted ''deployed'' [] e1))
           | None \<Rightarrow> ret (acted ''deployed'' [] e1))))"

definition check_entry ::
  "ctx \<Rightarrow> announcer option \<Rightarrow> bool \<Rightarrow> service \<Rightarrow> str \<Rightarrow> str \<Rightarrow> pass_entry \<Rightarrow> (engine_state, pass_entry) prog" where
  "check_entry c ann dryRun svc sid to e =
     bind (try_catch (git_remote_url (exec c) (git_of svc)) (\<lambda>x. ret [])) (\<lambda>url.
     case github_slug url of
       None \<Rightarrow> ret (acted ''error'' ''the remote is not a GitHub repository: no CI to read'' e)
     | Some slug \<Rightarrow>
         bind (ci_status (exec c) slug to) (\<lambda>v.
         let e1 = e\<lparr>pe_ci := Some v\<rparr> in
         if v \<noteq> Green then ret (acted (if v = Red then ''blocked'' else ''waiting'') (''CI '' @ verdict_name v) e1)
         else if dryRun then ret (acted ''would-deploy'' ''CI green'' e1)
         else deploy_entry c ann sid e1))"

definition reconcile_service ::
  "ctx \<Rightarrow> announcer option \<Rightarrow> bool \<Rightarrow> str \<times> service \<Rightarrow> (engine_state, pass_entry) prog" where
  "reconcile_service c ann dryRun x =
     (let (sid, svc) = x; policy = (if s_deploy_policy svc = [] then ''manual'' else s_deploy_policy svc);
          e = new_entry sid policy in
      if \<not> s_managed svc \<or> s_repo svc = [] then ret (acted ''skip'' ''not managed by ovhost'' e)
      else
        bind (try_catch (bind (plan c sid default_opts) (\<lambda>p. ret (Some p))) (\<lambda>x. ret None)) (\<lambda>p.
        case p of
          None \<Rightarrow> ret (acted ''error'' ''plan failed'' e)
        | Some p \<Rightarrow>
            (let e1 = e\<lparr>pe_from := Some (plan_from p), pe_to := Some (plan_to p)\<rparr>;
                 runtime = filter (\<lambda>f. \<not> docs_or_tests f) (plan_changed p) in
             if plan_up_to_date p then ret (acted ''current'' [] e1)
             else if runtime = [] then ret (acted ''docs-only'' ''documentation and tests only'' e1)
             else if policy \<noteq> ''auto'' then ret (acted ''waiting'' ''wait for a person'' e1)
             else check_entry c ann dryRun svc sid (plan_to p) e1)))"

record pass =
  ps_at :: int
  ps_dry :: bool
  ps_services :: "pass_entry list"

section \<open>Recording the pass\<close>

text \<open>\<^verbatim>\<open>JSON.stringify(v, null, w)\<close> at depth \<open>n\<close>: every element on its own line, \<open>w\<close> spaces per level.\<close>

fun json_lines :: "nat \<Rightarrow> nat \<Rightarrow> json \<Rightarrow> str" where
  "json_lines w n (JArr vs) =
     (if vs = [] then ''[]''
      else ''['' @ [CHR 0x0A] @ join ('','' @ [CHR 0x0A]) (map (\<lambda>v. replicate (w * Suc n) (CHR 0x20) @ json_lines w (Suc n) v) vs)
        @ [CHR 0x0A] @ replicate (w * n) (CHR 0x20) @ '']'')"
| "json_lines w n (JObj kvs) =
     (if kvs = [] then ''{}''
      else ''{'' @ [CHR 0x0A] @ join ('','' @ [CHR 0x0A])
          (map (\<lambda>kv. replicate (w * Suc n) (CHR 0x20) @ quote_str (fst kv) @ '': '' @ json_lines w (Suc n) (snd kv)) kvs)
        @ [CHR 0x0A] @ replicate (w * n) (CHR 0x20) @ ''}'')"
| "json_lines w n v = json_text v"

definition entry_json :: "pass_entry \<Rightarrow> json" where
  "entry_json e =
     JObj ([(''id'', JStr (pe_id e)), (''policy'', JStr (pe_policy e))]
       @ field ''from'' (map_option JStr (pe_from e)) @ field ''to'' (map_option JStr (pe_to e))
       @ field ''ci'' (map_option (\<lambda>v. JStr (verdict_name v)) (pe_ci e)) @ [(''action'', JStr (pe_action e))]
       @ field ''result'' (map_option JStr (pe_result e)) @ field ''exitCode'' (map_option (\<lambda>n. JNum (of_nat n)) (pe_exit e))
       @ field ''detail'' (map_option JStr (pe_detail e)) @ field ''announced'' (map_option JBool (pe_announced e)))"

definition pass_json :: "pass \<Rightarrow> json" where
  "pass_json p =
     JObj [(''at'', JStr (iso_string (ps_at p))), (''dryRun'', JBool (ps_dry p)),
           (''services'', JArr (map entry_json (ps_services p)))]"

definition count_action :: "pass \<Rightarrow> str \<Rightarrow> nat" where
  "count_action p a = length (filter (\<lambda>e. pe_action e = a) (ps_services p))"

definition pass_metrics :: "pass \<Rightarrow> str" where
  "pass_metrics p =
     concat (map (\<lambda>l. l @ [CHR 0x0A])
       ([''# HELP openvibe_reconcile_last_run_timestamp_seconds When ovhost reconcile last ran.'',
         ''# TYPE openvibe_reconcile_last_run_timestamp_seconds gauge'',
         ''openvibe_reconcile_last_run_timestamp_seconds '' @ int_str (ps_at p div 1000),
         ''# HELP openvibe_reconcile_services Services by the last pass's action.'',
         ''# TYPE openvibe_reconcile_services gauge''] @
        map (\<lambda>a. ''openvibe_reconcile_services{action='' @ [CHR 0x22] @ a @ [CHR 0x22] @ ''} '' @ nat_str (count_action p a))
          [''current'', ''docs-only'', ''waiting'', ''blocked'', ''deployed'', ''failed'', ''error'', ''skip''] @
        [''# HELP openvibe_reconcile_failed_total_last Deploys the last pass started that failed or rolled back.'',
         ''# TYPE openvibe_reconcile_failed_total_last gauge'',
         ''openvibe_reconcile_failed_total_last '' @ nat_str (count_action p ''failed'' + count_action p ''error'')]))"

definition record_pass :: "host \<Rightarrow> str \<Rightarrow> str \<Rightarrow> pass \<Rightarrow> ('l, unit) prog" where
  "record_pass H stateDir textfileDir p =
     try_catch
       (andthen (exec_write H (path_join [textfileDir, ''openvibe_reconcile.prom'']) (pass_metrics p))
          (exec_write H (path_join [stateDir, ''reconcile.json'']) (json_lines 1 0 (pass_json p) @ [CHR 0x0A])))
       (\<lambda>e. ret ())"

definition reconcile ::
  "ctx \<Rightarrow> announcer option \<Rightarrow> str list option \<Rightarrow> bool \<Rightarrow> str \<Rightarrow> str \<Rightarrow> (engine_state, pass) prog" where
  "reconcile c ann only dryRun stateDir textfileDir =
     bind (exec_now (exec c)) (\<lambda>t.
     bind (mapp (reconcile_service c ann dryRun)
        (filter (\<lambda>(sid, svc). case only of None \<Rightarrow> True | Some ids \<Rightarrow> sid \<in> set ids) (inv_services (inv c)))) (\<lambda>es.
     let p = \<lparr>ps_at = t, ps_dry = dryRun, ps_services = es\<rparr> in
     andthen (whenever (\<not> dryRun) (record_pass (exec c) stateDir textfileDir p)) (ret p)))"

section \<open>What the controller deploys\<close>

text \<open>The checks of a commit are green only when there are some and every one completed and passed.\<close>

lemma judge_runs_green:
  "judge_runs runs = Inr Green \<longleftrightarrow> runs \<noteq> [] \<and> (\<forall>r \<in> set runs. r \<noteq> JNull \<and> completed r \<and> passed r)"
  unfolding judge_runs_def by (auto simp: list_ex_iff)

definition reported :: "(str \<times> service) list \<Rightarrow> pass_entry \<Rightarrow> bool" where
  "reported svcs e \<longleftrightarrow>
     (pe_exit e \<noteq> None \<or> pe_action e \<in> {''deployed'', ''failed''} \<longrightarrow>
        pe_ci e = Some Green \<and> pe_policy e = ''auto'' \<and>
        (\<exists>svc. (pe_id e, svc) \<in> set svcs \<and> s_managed svc \<and> s_deploy_policy svc = ''auto''))"

definition entry_kept :: "pass_entry \<Rightarrow> pass_entry \<Rightarrow> bool" where
  "entry_kept e f \<longleftrightarrow> pe_id f = pe_id e \<and> pe_policy f = pe_policy e \<and> pe_ci f = pe_ci e"

lemma deploy_entry_kept: "returns (entry_kept e) (deploy_entry c ann sid e)"
  unfolding deploy_entry_def Let_def
  by (intro returns_bind_any) (auto intro!: returns_rules split: option.split simp: entry_kept_def acted_def)

lemma returns_mono: "returns P m \<Longrightarrow> (\<And>x. P x \<Longrightarrow> Q x) \<Longrightarrow> returns Q m"
  unfolding returns_def by blast

lemma returns_option:
  "(x = None \<Longrightarrow> returns P m) \<Longrightarrow> (\<And>y. x = Some y \<Longrightarrow> returns P (f y)) \<Longrightarrow>
   returns P (case x of None \<Rightarrow> m | Some y \<Rightarrow> f y)"
  by (cases x) simp_all

lemma idle_reported: "pe_exit e = None \<Longrightarrow> a \<notin> {''deployed'', ''failed''} \<Longrightarrow> reported svcs (acted a d e)"
  by (simp add: reported_def acted_def)

lemma reconcile_service_reported:
  assumes mem: "x \<in> set svcs"
  shows "returns (reported svcs) (reconcile_service c ann dry x)"
proof -
  obtain sid svc where x: "x = (sid, svc)" by (cases x)
  have dep: "returns (reported svcs) (deploy_entry c ann sid (e\<lparr>pe_ci := Some Green\<rparr>))"
    if "pe_id e = sid" "pe_policy e = ''auto''" "s_managed svc" "s_deploy_policy svc = ''auto''" for e
    by (rule returns_mono [OF deploy_entry_kept]) (use that mem x in \<open>auto simp: reported_def entry_kept_def\<close>)
  have chk: "returns (reported svcs) (check_entry c ann dry svc sid to e)"
    if "pe_id e = sid" "pe_policy e = ''auto''" "pe_exit e = None" "s_managed svc" "s_deploy_policy svc = ''auto''" for to e
    unfolding check_entry_def Let_def
    by (intro returns_bind_any returns_option returns_if returns_ret idle_reported) (use dep that in auto)
  show ?thesis
    unfolding reconcile_service_def x prod.case Let_def
    by (intro returns_bind_any returns_option returns_if returns_ret idle_reported chk)
      (auto simp: new_entry_def split: if_splits)
qed

lemma returns_mapp:
  assumes "\<And>x. x \<in> set xs \<Longrightarrow> returns P (f x)"
  shows "returns (\<lambda>ys. \<forall>y \<in> set ys. P y) (mapp f xs)"
  unfolding mapp_def
proof (rule returns_foldp)
  fix acc x assume acc: "\<forall>y \<in> set acc. P y" and x: "x \<in> set xs"
  show "returns (\<lambda>ys. \<forall>y \<in> set ys. P y) (bind (f x) (\<lambda>y. ret (acc @ [y])))"
    by (rule returns_bind [OF assms [OF x]]) (use acc in \<open>simp add: returns_ret\<close>)
qed simp

lemma reconcile_reported:
  "returns (\<lambda>p. \<forall>e \<in> set (ps_services p). reported (inv_services (inv c)) e) (reconcile c ann only dry sd td)"
proof -
  have es: "returns (\<lambda>es. \<forall>e \<in> set es. reported (inv_services (inv c)) e)
     (mapp (reconcile_service c ann dry)
        (filter (\<lambda>(sid, svc). case only of None \<Rightarrow> True | Some ids \<Rightarrow> sid \<in> set ids) (inv_services (inv c))))"
    by (rule returns_mapp) (auto intro: reconcile_service_reported)
  show ?thesis
    unfolding reconcile_def Let_def
    by (rule returns_bind_any, rule returns_bind [OF es], rule returns_andthen, rule returns_ret) simp
qed


section \<open>A dry run\<close>

context event_class
begin

lemma emits_ci_status [emits_rules]: "emits A (ci_status H slug sha)"
  unfolding ci_status_def by (intro emits_rules) simp

lemma emits_dry_service: "emits A (reconcile_service c ann True x)"
  unfolding reconcile_service_def check_entry_def Let_def if_True
  by (cases x, simp only: prod.case) (intro emits_rules)

lemma emits_dry_run: "emits A (reconcile c ann only True sd td)"
  unfolding reconcile_def Let_def whenever_def not_True_eq_False if_False
  by (intro emits_rules emits_dry_service) simp

end

interpretation calm: event_class harmless
  by unfold_locales

text \<open>
  A dry run of the controller changes no unit: whatever it finds, every \<^verbatim>\<open>systemctl\<close>
  call it makes only reads.
\<close>

theorem dry_run_only_reads:
  "\<exists>es. fst (snd (reconcile c ann only True sd td (tr, l))) = es @ tr \<and> list_all harmless es"
  unfolding list_all_iff by (rule calm.emits_dry_run [unfolded emits_def, THEN spec, THEN spec])

end
