(* ===== verification/Announce.thy ===== *)
theory Announce
  imports Reconcile Inventory_Parts
begin

text \<open>
  Release notifications, \<^verbatim>\<open>lib/announce.js\<close>: the credentials, what to announce, the event and
  its publication. The installed \<^verbatim>\<open>openvibe-contracts\<close> package and the runtime's URL parser are
  parameters. \<^verbatim>\<open>summary\<close>, a line for the operator, is left out.
\<close>

record contracts =
  ct_public_origin :: "str \<Rightarrow> str option"
  ct_event_id :: "event list \<Rightarrow> int \<Rightarrow> str"
  ct_node_report_valid :: "json \<Rightarrow> bool"

section \<open>Credentials\<close>

definition wanted_names :: "str list" where
  "wanted_names = [''OV_OAUTH_CLIENT_ID'', ''OV_OAUTH_CLIENT_SECRET'', ''EVENTS_URL'', ''OV_NETWORK_INTERNAL_URL'']"

definition env_value :: "str \<Rightarrow> str" where
  "env_value raw =
     (let v = trim raw in
      if is_quoted_by dquote v \<or> is_quoted_by squote v then butlast (tl v) else cut_comment v)"

definition parse_env :: "str \<Rightarrow> (str \<times> str) list" where
  "parse_env text =
     foldl (\<lambda>out l. case line_assignment l of
         Some (n, v) \<Rightarrow> (if n \<in> set wanted_names then obj_put n (env_value v) out else out)
       | None \<Rightarrow> out) [] (lines text)"

definition is_loopback_host :: "str \<Rightarrow> bool" where
  "is_loopback_host h \<longleftrightarrow> h \<in> set [''127.0.0.1'', ''localhost'', ''[::1]'', ''::1'']"

definition base_url :: "url_parser \<Rightarrow> str \<Rightarrow> str + str" where
  "base_url parse raw =
     (case parse raw of
        None \<Rightarrow> Inl ''is not a URL''
      | Some u \<Rightarrow>
          (if u_protocol u \<notin> set [''http:'', ''https:''] \<or> u_username u \<noteq> [] \<or> u_password u \<noteq> []
           then Inl ''must be an http(s) URL without credentials''
           else if u_protocol u = ''http:'' \<and> \<not> is_loopback_host (u_hostname u)
           then Inl ''must be https:// (plain http only on loopback)''
           else Inr (u_origin u @ strip_slashes (u_pathname u))))"

record credentials =
  cd_file :: str
  cd_client_id :: str
  cd_secret :: str
  cd_events_url :: str
  cd_network_url :: str

definition env_or :: "(str \<times> str) list \<Rightarrow> str \<Rightarrow> str \<Rightarrow> str" where
  "env_or vs k d = (case map_of vs k of Some v \<Rightarrow> (if v = [] then d else v) | None \<Rightarrow> d)"

definition read_credentials :: "url_parser \<Rightarrow> str \<Rightarrow> str \<Rightarrow> str + credentials" where
  "read_credentials parse f text =
     (let vs = parse_env text; secret = env_or vs ''OV_OAUTH_CLIENT_SECRET'' []; ev = env_or vs ''EVENTS_URL'' [];
          client = env_or vs ''OV_OAUTH_CLIENT_ID'' ''host'' in
      if secret = [] \<or> ev = [] then Inl ''sets no secret or no URL''
      else case base_url parse ev of
          Inl m \<Rightarrow> Inl m
        | Inr eventsUrl \<Rightarrow>
            (case base_url parse (env_or vs ''OV_NETWORK_INTERNAL_URL'' ''http://127.0.0.1:4000'') of
               Inl m \<Rightarrow> Inl m
             | Inr networkUrl \<Rightarrow>
                 (if \<not> is_service_id client then Inl ''OV_OAUTH_CLIENT_ID is not a service principal id''
                  else Inr \<lparr>cd_file = f, cd_client_id = client, cd_secret = secret, cd_events_url = eventsUrl,
                            cd_network_url = networkUrl\<rparr>)))"

definition first_set :: "str option list \<Rightarrow> str \<Rightarrow> str" where
  "first_set vs d = (case List.find (\<lambda>v. v \<noteq> None \<and> v \<noteq> Some []) vs of Some (Some s) \<Rightarrow> s | _ \<Rightarrow> d)"

text \<open>\<open>env\<close> is \<^verbatim>\<open>$OVHOST_EVENTS_ENV\<close>.\<close>

definition load_credentials :: "url_parser \<Rightarrow> ctx \<Rightarrow> str option \<Rightarrow> str option \<Rightarrow> ('l, str + credentials) prog" where
  "load_credentials parse c envFile env =
     (let f = first_set [envFile, env, inv_events_env_file (inv c)] ''/etc/openvibe/host.env'' in
      if \<not> path_is_absolute f then ret (Inl ''the events env file must be an absolute path'')
      else
        bind (try_catch (bind (exec_read (exec c) f) (\<lambda>t. ret (Inr t))) (\<lambda>e. ret (Inl ''is not readable''))) (\<lambda>r.
        ret (case r of
            Inl m \<Rightarrow> Inl m
          | Inr None \<Rightarrow> Inl ''not found''
          | Inr (Some text) \<Rightarrow> read_credentials parse f text)))"

section \<open>What to announce\<close>

definition is_release_id :: "str \<Rightarrow> bool" where
  "is_release_id s \<longleftrightarrow> 7 \<le> length s \<and> length s \<le> 40 \<and> list_all is_hex s"

definition check_origin :: "url_parser \<Rightarrow> str \<Rightarrow> str option" where
  "check_origin parse raw =
     (case parse raw of
        None \<Rightarrow> None
      | Some u \<Rightarrow>
          (if (u_protocol u = ''https:'' \<or> u_protocol u = ''http:'' \<and> is_loopback_host (u_hostname u)) \<and>
              u_username u = [] \<and> u_password u = [] then Some (u_origin u) else None))"

definition manifest_origin :: "url_parser \<Rightarrow> contracts \<Rightarrow> str \<Rightarrow> str option" where
  "manifest_origin parse K sid = Option.bind (ct_public_origin K sid) (check_origin parse)"

definition is_component_version :: "str \<Rightarrow> bool" where
  "is_component_version s \<longleftrightarrow> all_in ''._+-'' s \<and> length s \<le> 64"

definition read_component :: "str \<times> json \<Rightarrow> (str \<times> json) option" where
  "read_component x =
     (let (name, c) = x; kind = soft ''kind'' (Some c); ver = js_string (or_else (soft ''version'' (Some c)) (JStr [])) in
      if is_inventory_id name \<and> kind \<in> Some ` JStr ` {''style'', ''content'', ''script'', ''server''} \<and> is_component_version ver
      then Some (name, JObj [(''kind'', or_else kind JNull), (''version'', JStr ver)]) else None)"

text \<open>Only what the event schema allows, or nothing.\<close>

definition components :: "json option \<Rightarrow> json option" where
  "components raw =
     (case object_of raw of
        None \<Rightarrow> None
      | Some kvs \<Rightarrow>
          (if kvs = [] \<or> 32 < length kvs then None
           else map_option JObj (all_some (map read_component kvs))))"

text \<open>\<^verbatim>\<open>new URL('/release.json', ready.url)\<close> is that path at the URL's origin.\<close>

definition served_of :: "service \<Rightarrow> http_result \<Rightarrow> str + (str \<times> json option)" where
  "served_of svc r =
     (if hs_status r \<noteq> 200 then Inl ''answered another status''
      else case json_parse (hs_body r) of
          None \<Rightarrow> Inl ''is not JSON''
        | Some m \<Rightarrow>
            (case string_of (soft ''release'' (Some m)) of
               None \<Rightarrow> Inl ''names no release''
             | Some rel \<Rightarrow>
                 (if \<not> is_release_id rel then Inl ''names no release''
                  else if member_of ''service'' m \<noteq> Some (JStr (s_id svc)) then Inl ''is another service''
                  else Inr (rel, components (member_of ''components'' m)))))"

definition served_manifest :: "url_parser \<Rightarrow> host \<Rightarrow> service \<Rightarrow> ('l, str + (str \<times> json option)) prog" where
  "served_manifest parse H svc =
     (case Option.bind (s_ready svc) (\<lambda>r. parse (rd_url r)) of
        None \<Rightarrow> ret (Inl ''no ready URL to find /release.json at'')
      | Some u \<Rightarrow> bind (exec_http H (u_origin u @ ''/release.json'')) (\<lambda>r. ret (served_of svc r)))"

record description =
  an_service :: str
  an_release :: str
  an_commit :: "str option"
  an_origin :: "str option"
  an_components :: "json option"
  an_from :: "str option"
  an_notes :: "str list"

record announce_opts =
  ao_release :: "str option"
  ao_commit :: "str option"
  ao_origin :: "str option"
  ao_head :: "str option"
  ao_rollback :: bool
  ao_force :: bool
  ao_dry_run :: bool
  ao_env_file :: "str option"
  ao_env :: "str option"

definition hex_option :: "str option \<Rightarrow> str \<Rightarrow> exc + str option" where
  "hex_option v m =
     (case v of
        None \<Rightarrow> Inr None
      | Some s \<Rightarrow> (let t = map lower_char s in if is_release_id t then Inr (Some t) else Inl (AnnounceError m 1)))"

text \<open>The release a service serves: its id, its components, and what is noted when it is unknown.\<close>

definition served_release ::
  "url_parser \<Rightarrow> host \<Rightarrow> service option \<Rightarrow> str option \<Rightarrow> ('l, (str option \<times> json option \<times> str option) \<times> str list) prog" where
  "served_release parse H svc rel =
     (case (rel, svc) of
        (Some r, _) \<Rightarrow> ret ((Some r, None, Some ''--release''), [])
      | (None, Some s) \<Rightarrow>
          (if s_ready s = None then ret ((None, None, None), [])
           else bind (served_manifest parse H s) (\<lambda>m.
             ret (case m of Inr (r, comps) \<Rightarrow> ((Some r, comps, Some ''/release.json''), []) | Inl note' \<Rightarrow> ((None, None, None), [note']))))
      | (None, None) \<Rightarrow> ret ((None, None, None), []))"

definition checkout_head :: "host \<Rightarrow> service \<Rightarrow> ('l, str option \<times> str list) prog" where
  "checkout_head H svc =
     (let dir = (if s_code_dir svc = [] then s_repo svc else s_code_dir svc) in
      try_catch
        (bind (git_head H (git_at svc dir (s_layout svc = ''release''))) (\<lambda>h. ret (if is_full_sha h then Some h else None, [])))
        (\<lambda>e. ret (None, [''the HEAD of the checkout is unknown''])))"

definition known_head ::
  "host \<Rightarrow> service option \<Rightarrow> str option \<Rightarrow> str option \<Rightarrow> str option \<Rightarrow> ('l, str option \<times> str list) prog" where
  "known_head H svc head rel cm =
     (case head of
        Some h \<Rightarrow> (if is_full_sha h then ret (Some h, [])
                  else case svc of Some s \<Rightarrow> (if rel = None \<or> cm = None then checkout_head H s else ret (None, [])) | None \<Rightarrow> ret (None, []))
      | None \<Rightarrow>
          (case svc of Some s \<Rightarrow> (if rel = None \<or> cm = None then checkout_head H s else ret (None, [])) | None \<Rightarrow> ret (None, [])))"

definition announced_origin :: "url_parser \<Rightarrow> contracts \<Rightarrow> str \<Rightarrow> service option \<Rightarrow> str option \<Rightarrow> exc + str option" where
  "announced_origin parse K sid svc origin =
     (case origin of
        Some o' \<Rightarrow> (case check_origin parse o' of Some u \<Rightarrow> Inr (Some u) | None \<Rightarrow> Inl (AnnounceError ''--origin must be an https:// origin'' 1))
      | None \<Rightarrow>
          (case svc of
             Some s \<Rightarrow> Inr (case s_origin s of Some u \<Rightarrow> Some u | None \<Rightarrow> manifest_origin parse K (s_manifest s))
           | None \<Rightarrow> Inr (manifest_origin parse K sid)))"

definition describe_release :: "url_parser \<Rightarrow> contracts \<Rightarrow> ctx \<Rightarrow> str \<Rightarrow> announce_opts \<Rightarrow> ('l, description) prog" where
  "describe_release parse K c sid opts =
     (let svc = map_of (inv_services (inv c)) sid in
      if \<not> is_service_id sid then throw (AnnounceError ''is not a service id'' 1)
      else
        bind (of_sum (hex_option (ao_release opts) ''--release must be 7 to 40 hex characters'')) (\<lambda>rel0.
        bind (of_sum (hex_option (ao_commit opts) ''--commit must be 7 to 40 hex characters'')) (\<lambda>cm0.
        bind (served_release parse (exec c) svc rel0) (\<lambda>x. let ((rel1, comps, from1), notes1) = x in
        bind (known_head (exec c) svc (ao_head opts) rel1 cm0) (\<lambda>y. let (sha, notes2) = y in
        case (rel1, sha) of
          (None, None) \<Rightarrow> throw (AnnounceError ''cannot tell the release'' 1)
        | _ \<Rightarrow>
            (let rel = (case (rel1, sha) of (Some r, _) \<Rightarrow> r | (None, Some h) \<Rightarrow> take 12 h | (None, None) \<Rightarrow> []);
                 from2 = (if rel1 = None then Some ''git HEAD'' else from1);
                 cm = (case (cm0, sha) of (Some x, _) \<Rightarrow> Some x | (None, Some h) \<Rightarrow> (if starts_with h rel then Some h else None) | _ \<Rightarrow> None) in
             bind (of_sum (announced_origin parse K sid svc (ao_origin opts))) (\<lambda>origin.
             ret \<lparr>an_service = sid, an_release = rel, an_commit = cm, an_origin = origin, an_components = comps,
                  an_from = from2, an_notes = notes1 @ notes2\<rparr>)))))))"

section \<open>The event\<close>

definition null_or :: "str option \<Rightarrow> json" where
  "null_or v = (case v of Some s \<Rightarrow> JStr s | None \<Rightarrow> JNull)"

definition envelope :: "description \<Rightarrow> int \<Rightarrow> bool \<Rightarrow> str \<Rightarrow> json" where
  "envelope d now rb eventId =
     (let at_time = JStr (iso_string now) in
      JObj
       [(''event_id'', JStr eventId), (''event_type'', JStr ''host.release.published''), (''version'', JNum 1),
        (''source'', JStr ''host''), (''actor'', JObj [(''type'', JStr ''service''), (''id'', JStr ''host'')]),
        (''timestamp'', at_time), (''priority'', JStr ''low''), (''visibility'', JStr ''public''),
        (''subject'', JObj [(''type'', JStr ''release''), (''id'', JStr (an_service d @ '':'' @ an_release d))]),
        (''payload'', JObj
          ([(''service'', JStr (an_service d)), (''release'', JStr (an_release d)), (''commit'', null_or (an_commit d)),
            (''origin'', null_or (an_origin d)), (''deployed_at'', at_time)] @
           (case an_components d of Some x \<Rightarrow> [(''components'', x)] | None \<Rightarrow> []) @
           (if rb then [(''rollback'', JBool True)] else [])))])"

section \<open>Publishing\<close>

text \<open>\<^verbatim>\<open>URLSearchParams.toString()\<close>: form encoding of names and values.\<close>

definition hex_upper :: "nat \<Rightarrow> char" where
  "hex_upper n = (if n < 10 then char_of (48 + n) else char_of (55 + n))"

definition form_char :: "char \<Rightarrow> str" where
  "form_char ch =
     (if is_alnum ch \<or> ch \<in> set ''*-._'' then [ch] else if ch = CHR 0x20 then ''+''
      else [CHR ''%'', hex_upper (of_char ch div 16), hex_upper (of_char ch mod 16)])"

definition form_text :: "(str \<times> str) list \<Rightarrow> str" where
  "form_text kvs = join ''&'' (map (\<lambda>(k, v). concat (map form_char k) @ ''='' @ concat (map form_char v)) kvs)"

definition token_form :: "credentials \<Rightarrow> str \<Rightarrow> str \<Rightarrow> str" where
  "token_form cd audience scope =
     form_text [(''grant_type'', ''client_credentials''), (''client_id'', cd_client_id cd), (''client_secret'', cd_secret cd),
                (''audience'', audience), (''scope'', scope)]"

definition is_code_char :: "char \<Rightarrow> bool" where
  "is_code_char ch \<longleftrightarrow> is_alnum ch \<or> ch \<in> set ''._-''"

definition failure_reason :: "http_result \<Rightarrow> str" where
  "failure_reason r =
     (if hs_status r = 0 then (case hs_error r of Some e \<Rightarrow> (if e = [] then ''unreachable'' else e) | None \<Rightarrow> ''unreachable'')
      else
        (let j = json_parse (hs_body r);
             code = (if truthy (soft ''code'' j) then soft ''code'' j else soft ''error'' j) in
         ''HTTP '' @ int_str (hs_status r) @
         (case string_of code of
            Some t \<Rightarrow> (if t \<noteq> [] \<and> length t \<le> 60 \<and> list_all is_code_char t then '' '' @ t else [])
          | None \<Rightarrow> [])))"

datatype publish_result = Published "int option" bool nat | Unpublished str str

definition access_token :: "http_result \<Rightarrow> str option" where
  "access_token r =
     (case string_of (soft ''access_token'' (json_parse (hs_body r))) of
        Some t \<Rightarrow> (if t = [] then None else Some t) | None \<Rightarrow> None)"

definition retryable :: "http_result \<Rightarrow> bool" where
  "retryable r \<longleftrightarrow> hs_status r = 0 \<or> hs_status r = 429 \<or> 500 \<le> hs_status r"

definition published :: "http_result \<Rightarrow> nat \<Rightarrow> publish_result" where
  "published r attempts =
     (let j = json_parse (hs_body r) in
      Published (case soft ''seq'' j of Some (JNum q) \<Rightarrow> (if is_whole q then Some \<lfloor>q\<rfloor> else None) | _ \<Rightarrow> None)
        (soft ''duplicate'' j = Some (JBool True) \<or> hs_status r = 200) attempts)"

text \<open>The budget of six seconds is read before every attempt (for its time limit) and before a retry.\<close>

fun publish_loop :: "host \<Rightarrow> str \<Rightarrow> str \<Rightarrow> int \<Rightarrow> nat \<Rightarrow> nat \<Rightarrow> http_result option \<Rightarrow> ('l, publish_result) prog" where
  "publish_loop H u body start attempts 0 last_answer =
     ret (Unpublished ''publish'' (case last_answer of Some r \<Rightarrow> failure_reason r | None \<Rightarrow> ''no answer''))"
| "publish_loop H u body start attempts (Suc n) last_answer =
     bind (exec_now H) (\<lambda>t0.
     bind (exec_request H ''POST'' u body) (\<lambda>r.
     if hs_status r = 200 \<or> hs_status r = 201 then ret (published r (Suc attempts))
     else if \<not> retryable r then ret (Unpublished ''publish'' (failure_reason r))
     else
       bind (exec_now H) (\<lambda>t.
       if 6000 - (t - start) < 1000 then ret (Unpublished ''publish'' (failure_reason r))
       else andthen (exec_sleep H 300) (publish_loop H u body start (Suc attempts) n (Some r)))))"

definition publish :: "host \<Rightarrow> credentials \<Rightarrow> json \<Rightarrow> ('l, publish_result) prog" where
  "publish H cd env =
     bind (exec_now H) (\<lambda>start.
     bind (exec_request H ''POST'' (cd_network_url cd @ ''/oauth/token'') (token_form cd ''openvibe.events'' ''events.event.publish'')) (\<lambda>t.
     if hs_status t \<noteq> 200 then ret (Unpublished ''token'' (failure_reason t))
     else case access_token t of
         None \<Rightarrow> ret (Unpublished ''token'' ''no access_token in the answer'')
       | Some token \<Rightarrow> publish_loop H (cd_events_url cd @ ''/api/v1/events'') (json_text env) start 0 2 None))"

section \<open>Announcing\<close>

definition announced_file :: "inventory \<Rightarrow> str \<Rightarrow> str" where
  "announced_file i sid = path_join [inv_state_dir i, ''announced'', sid @ ''.json'']"

definition read_announced :: "ctx \<Rightarrow> str \<Rightarrow> ('l, json option) prog" where
  "read_announced c sid =
     try_catch (bind (exec_read (exec c) (announced_file (inv c) sid)) (\<lambda>t.
        case t of
          None \<Rightarrow> ret None
        | Some s \<Rightarrow> (if s = [] then ret None
                    else case json_parse s of Some v \<Rightarrow> ret (Some v) | None \<Rightarrow> throw (JsError ''SyntaxError''))))
       (\<lambda>e. ret None)"

record announcement_result =
  ar_service :: str
  ar_release :: "str option"
  ar_commit :: "str option"
  ar_origin :: "str option"
  ar_from :: "str option"
  ar_event_id :: "json option"
  ar_published :: bool
  ar_skipped :: "str option"
  ar_error :: "str option"
  ar_not_configured :: bool
  ar_seq :: "int option"
  ar_duplicate :: bool
  ar_envelope :: "json option"

definition unannounced :: "str \<Rightarrow> str option \<Rightarrow> announcement_result" where
  "unannounced sid rel =
     \<lparr>ar_service = sid, ar_release = rel, ar_commit = None, ar_origin = None, ar_from = None, ar_event_id = None,
      ar_published = False, ar_skipped = None, ar_error = None, ar_not_configured = False, ar_seq = None,
      ar_duplicate = False, ar_envelope = None\<rparr>"

definition described :: "description \<Rightarrow> str \<Rightarrow> announcement_result" where
  "described d eventId =
     (unannounced (an_service d) (Some (an_release d)))
       \<lparr>ar_commit := an_commit d, ar_origin := an_origin d, ar_from := an_from d, ar_event_id := Some (JStr eventId)\<rparr>"

definition announced_record :: "description \<Rightarrow> str \<Rightarrow> int option \<Rightarrow> int \<Rightarrow> json" where
  "announced_record d eventId seq now =
     JObj [(''service'', JStr (an_service d)), (''release'', JStr (an_release d)), (''commit'', null_or (an_commit d)),
           (''event_id'', JStr eventId), (''seq'', case seq of Some n \<Rightarrow> JNum (of_int n) | None \<Rightarrow> JNull), (''at'', JStr (iso_string now))]"

text \<open>Recording the announcement never fails it.\<close>

definition record_announced :: "ctx \<Rightarrow> str \<Rightarrow> json \<Rightarrow> ('l, unit) prog" where
  "record_announced c sid v =
     try_catch
       (andthen (exec_mkdir (exec c) (path_dirname (announced_file (inv c) sid)) None)
          (exec_write (exec c) (announced_file (inv c) sid) (json_text v @ [CHR 0x0A])))
       (\<lambda>e. ret ())"

definition already_announced :: "json option \<Rightarrow> description \<Rightarrow> bool" where
  "already_announced prev d \<longleftrightarrow> soft ''release'' prev = Some (JStr (an_release d))"

definition send_announcement :: "ctx \<Rightarrow> credentials \<Rightarrow> description \<Rightarrow> json \<Rightarrow> str \<Rightarrow> int \<Rightarrow> ('l, announcement_result) prog" where
  "send_announcement c cd d env eventId now =
     bind (publish (exec c) cd env) (\<lambda>p.
     case p of
       Unpublished stage e \<Rightarrow> ret ((described d eventId)\<lparr>ar_error := Some (stage @ '': '' @ e)\<rparr>)
     | Published seq dup attempts \<Rightarrow>
         andthen (record_announced c (an_service d) (announced_record d eventId seq now))
           (ret ((described d eventId)\<lparr>ar_published := True, ar_seq := seq, ar_duplicate := dup\<rparr>)))"

definition announce_with ::
  "url_parser \<Rightarrow> contracts \<Rightarrow> ctx \<Rightarrow> str \<Rightarrow> announce_opts \<Rightarrow> credentials option \<Rightarrow> ('l, announcement_result) prog" where
  "announce_with parse K c sid opts cd =
     bind (describe_release parse K c sid opts) (\<lambda>d.
     bind (exec_now (exec c)) (\<lambda>now.
     bind (ask ERandom (\<lambda>tr. ct_event_id K tr now)) (\<lambda>eventId.
     let env = envelope d now (ao_rollback opts) eventId in
     case cd of
       None \<Rightarrow> ret ((described d eventId)\<lparr>ar_skipped := Some ''dry run'', ar_envelope := Some env\<rparr>)
     | Some k \<Rightarrow>
         bind (read_announced c (an_service d)) (\<lambda>prev.
         if \<not> ao_force opts \<and> already_announced prev d
         then ret ((described d eventId)\<lparr>ar_event_id := when_set (soft ''event_id'' prev), ar_skipped := Some ''already announced''\<rparr>)
         else send_announcement c k d env eventId now))))"

definition announce :: "url_parser \<Rightarrow> contracts \<Rightarrow> ctx \<Rightarrow> str \<Rightarrow> announce_opts \<Rightarrow> ('l, announcement_result) prog" where
  "announce parse K c sid opts =
     (if ao_dry_run opts then announce_with parse K c sid opts None
      else
        bind (load_credentials parse c (ao_env_file opts) (ao_env opts)) (\<lambda>r.
        case r of
          Inl m \<Rightarrow>
            (if \<not> is_service_id sid then throw (AnnounceError ''is not a service id'' 1)
             else ret ((unannounced sid (case ao_release opts of Some x \<Rightarrow> (if x = [] then None else Some x) | None \<Rightarrow> None))
                   \<lparr>ar_skipped := Some ''not configured'', ar_error := Some m, ar_not_configured := True\<rparr>))
        | Inr cd \<Rightarrow> announce_with parse K c sid opts (Some cd)))"

section \<open>At most two attempts\<close>

definition posts_to :: "str \<Rightarrow> event \<Rightarrow> bool" where
  "posts_to u e = (case e of ERequest m v b \<Rightarrow> m = ''POST'' \<and> v = u | _ \<Rightarrow> False)"

definition posted :: "str \<Rightarrow> event list \<Rightarrow> str list" where
  "posted u es = concat (map (\<lambda>e. case e of ERequest m v b \<Rightarrow> (if m = ''POST'' \<and> v = u then [b] else []) | _ \<Rightarrow> []) es)"

lemma posted_simps [simp]:
  "posted u [] = []" "posted u (ENow # es) = posted u es" "posted u (ESleep ms # es) = posted u es"
  "posted u (ERequest m v b # es) = (if m = ''POST'' \<and> v = u then b # posted u es else posted u es)"
  "posted u (es @ fs) = posted u es @ posted u fs"
  by (simp_all add: posted_def)

lemma publish_loop_posts:
  "\<exists>es. fst (snd (publish_loop H u body start k n last_answer (tr, l))) = es @ tr \<and>
     length (posted u es) \<le> n \<and> set (posted u es) \<subseteq> {body}"
proof (induction n arbitrary: k last_answer tr)
  case 0
  show ?case by (simp add: ret_def)
next
  case (Suc n)
  let ?tr1 = "ERequest ''POST'' u body # ENow # tr"
  let ?r = "h_request H (ENow # tr) ''POST'' u body"
  from Suc.IH [of "Suc k" "Some ?r" "ESleep 300 # ENow # ?tr1"] obtain es where
    es: "fst (snd (publish_loop H u body start (Suc k) n (Some ?r) (ESleep 300 # ENow # ?tr1, l))) = es @ ESleep 300 # ENow # ?tr1"
      "length (posted u es) \<le> n" "set (posted u es) \<subseteq> {body}" by blast
  show ?case
  proof (cases "hs_status ?r = 200 \<or> hs_status ?r = 201 \<or> \<not> retryable ?r \<or> 6000 - (h_now H ?tr1 - start) < 1000")
    case True
    then show ?thesis
      by (auto simp: prog_simps intro: exI [of _ "[ERequest ''POST'' u body, ENow]"] exI [of _ "[ENow, ERequest ''POST'' u body, ENow]"])
  next
    case False
    then have "publish_loop H u body start k (Suc n) last_answer (tr, l) =
        publish_loop H u body start (Suc k) n (Some ?r) (ESleep 300 # ENow # ?tr1, l)"
      by (simp add: prog_simps)
    with es show ?thesis
      by (intro exI [of _ "es @ [ESleep 300, ENow, ERequest ''POST'' u body, ENow]"]) simp
  qed
qed

lemma token_not_events: "a @ ''/oauth/token'' \<noteq> b @ ''/api/v1/events''"
proof
  assume "a @ ''/oauth/token'' = b @ ''/api/v1/events''"
  from arg_cong [OF this, of last] show False by simp
qed

text \<open>
  Publishing posts the event at most twice, and every time with the same body and so the same event
  id: a retry cannot announce a release a second time.
\<close>

theorem publish_posts_once_or_twice:
  "\<exists>es. fst (snd (publish H cd env (tr, l))) = es @ tr \<and>
     length (posted (cd_events_url cd @ ''/api/v1/events'') es) \<le> 2 \<and>
     set (posted (cd_events_url cd @ ''/api/v1/events'') es) \<subseteq> {json_text env}"
proof -
  let ?u = "cd_events_url cd @ ''/api/v1/events''" and ?v = "cd_network_url cd @ ''/oauth/token''"
  let ?req = "ERequest ''POST'' ?v (token_form cd ''openvibe.events'' ''events.event.publish'')"
  let ?start = "h_now H tr"
  show ?thesis
  proof (cases "fst (snd (publish H cd env (tr, l))) = [?req, ENow] @ tr")
    case True
    then show ?thesis by (intro exI [of _ "[?req, ENow]"]) (simp add: token_not_events)
  next
    case False
    then have "publish H cd env (tr, l) = publish_loop H ?u (json_text env) ?start 0 2 None (?req # ENow # tr, l)"
      by (auto simp: publish_def prog_simps split: option.splits if_splits)
    moreover from publish_loop_posts [of H ?u "json_text env" ?start 0 2 None "?req # ENow # tr" l] obtain es where
      "fst (snd (publish_loop H ?u (json_text env) ?start 0 2 None (?req # ENow # tr, l))) = es @ ?req # ENow # tr"
      "length (posted ?u es) \<le> 2" "set (posted ?u es) \<subseteq> {json_text env}" by blast
    ultimately show ?thesis by (intro exI [of _ "es @ [?req, ENow]"]) (simp add: token_not_events)
  qed
qed

lemma publish_loop_answer:
  "publish_loop H u body start k n last_answer (tr, l) = (Inr (Published seq dup m), tr', l') \<Longrightarrow>
   k < m \<and> m \<le> k + n \<and> (\<exists>tr0. tr' = ERequest ''POST'' u body # tr0 \<and> hs_status (h_request H tr0 ''POST'' u body) \<in> {200, 201})"
proof (induction n arbitrary: k last_answer tr)
  case 0
  then show ?case by (simp add: ret_def)
next
  case (Suc n)
  from Suc.prems Suc.IH show ?case
    by (fastforce simp: prog_simps published_def Let_def split: if_splits)
qed

text \<open>
  A release counts as published only when Events answered the post of it with 200 or 201, as the last
  thing that happened, on the first or the second attempt.
\<close>

theorem published_means_answered:
  "case publish H cd env (tr, l) of
     (Inr (Published seq dup attempts), tr', l') \<Rightarrow>
       1 \<le> attempts \<and> attempts \<le> 2 \<and>
       (\<exists>tr0. tr' = ERequest ''POST'' (cd_events_url cd @ ''/api/v1/events'') (json_text env) # tr0 \<and>
          hs_status (h_request H tr0 ''POST'' (cd_events_url cd @ ''/api/v1/events'') (json_text env)) \<in> {200, 201})
   | _ \<Rightarrow> True"
proof (cases "\<exists>seq dup m tr' l'. publish H cd env (tr, l) = (Inr (Published seq dup m), tr', l')")
  case True
  then obtain seq dup m tr' l' where run: "publish H cd env (tr, l) = (Inr (Published seq dup m), tr', l')" by blast
  then obtain start tr1 where
    "publish_loop H (cd_events_url cd @ ''/api/v1/events'') (json_text env) start 0 2 None (tr1, l) = (Inr (Published seq dup m), tr', l')"
    by (auto simp: publish_def prog_simps split: option.splits if_splits)
  from publish_loop_answer [OF this] show ?thesis unfolding run by auto
qed (auto split: prod.split sum.split publish_result.split)

section \<open>What a failed announcement does\<close>

lemma raises_caught:
  "raises (\<lambda>e. e \<noteq> OutOfFuel) m \<Longrightarrow> (\<And>e. raises E (h e)) \<Longrightarrow> raises E (try_catch m h)"
  unfolding raises_def try_catch_def by (auto split: prod.splits sum.splits if_splits) metis+

lemma raises_exec_more [raises_rules]:
  "raises E (exec_request H m u b)" "raises E (ask e f)"
  "(\<And>m. E (JsError m)) \<Longrightarrow> raises E (exec_mkdir H p ow)" "(\<And>m. E (JsError m)) \<Longrightarrow> raises E (exec_write H p t)"
  by (simp_all add: raises_ask raises_ask_or exec_request_def exec_mkdir_def exec_write_def)

definition bad_argument :: "exc \<Rightarrow> bool" where
  "bad_argument e \<longleftrightarrow> (\<exists>m. e = AnnounceError m 1)"

lemma raises_publish: "raises E (publish H cd env)"
proof -
  have "raises E (publish_loop H u b start k n a)" for u b start k n a
    by (induction n arbitrary: k a) (auto intro!: raises_rules)
  then show ?thesis unfolding publish_def by (auto intro!: raises_rules split: option.split)
qed

lemma raises_git_head: "raises (\<lambda>e. e \<noteq> OutOfFuel) (git_head H g)"
  unfolding git_head_def git_run_def git_try_def by (intro raises_rules) simp_all

lemmas raises_calm = raises_bind raises_andthen raises_if raises_pure raises_exec raises_exec_more

lemma raises_soft:
  "raises E (checkout_head H svc)" "raises E (record_announced c sid v)" "raises E (read_announced c sid)"
  "raises E (load_credentials parse c f w)"
  unfolding checkout_head_def record_announced_def read_announced_def load_credentials_def Let_def
  by (auto intro!: raises_caught raises_git_head raises_calm raises_exec_or raises_throw split: option.split)

lemma bad_arguments:
  "bad_argument (AnnounceError m (Suc 0))" "bad_argument (AnnounceError m 1)"
  "raises bad_argument (of_sum (hex_option v m))" "raises bad_argument (of_sum (announced_origin parse K sid svc w))"
  by (auto intro!: raises_of_sum simp: bad_argument_def hex_option_def announced_origin_def Let_def split: option.splits if_splits)

lemma raises_describe: "raises bad_argument (describe_release parse K c sid opts)"
proof -
  have "raises bad_argument (served_release parse H svc rel)" for H svc rel
    unfolding served_release_def served_manifest_def by (auto intro!: raises_rules split: option.split)
  moreover have "raises bad_argument (known_head H svc h rel cm)" for H svc h rel cm
    unfolding known_head_def by (auto intro!: raises_soft raises_calm split: option.split)
  ultimately show ?thesis
    unfolding describe_release_def Let_def
    by (auto intro!: bad_arguments raises_calm raises_prod raises_throw split: option.split prod.split)
qed

lemma raises_announce: "raises bad_argument (announce parse K c sid opts)"
proof -
  have send: "raises bad_argument (send_announcement c cd d env i now)" for cd d env i now
    unfolding send_announcement_def
    by (rule raises_bind [OF raises_publish]) (auto intro!: raises_soft raises_calm split: publish_result.split)
  have "raises bad_argument (announce_with parse K c sid opts cd)" for cd
    unfolding announce_with_def Let_def
    by (intro raises_bind raises_describe raises_exec_more raises_exec raises_option raises_pure raises_soft raises_if send)
  moreover have "raises bad_argument (throw (AnnounceError m 1))" for m
    by (intro raises_throw bad_arguments)
  ultimately show ?thesis unfolding announce_def by (auto intro!: raises_soft raises_calm split: sum.split)
qed

text \<open>
  Announcing never throws because of the network, the repository or the disk: the only errors that leave it say
  that its arguments are wrong, with exit code 1. Everything else is in the result.
\<close>

theorem announce_fails_softly:
  "case announce parse K c sid opts s of
     (Inl e, s') \<Rightarrow> (\<exists>m. e = AnnounceError m 1)
   | (Inr r, s') \<Rightarrow> True"
  using raises_announce [of parse K c sid opts]
  unfolding raises_def bad_argument_def by (cases s) (fastforce split: prod.split sum.split)

end
