(* ===== verification/Alerts.thy ===== *)
theory Alerts
  imports Announce
begin

text \<open>
  The alert relay, \<^verbatim>\<open>lib/alerts.js\<close>: the alerts firing in Prometheus, mapped and delivered to
  Network. SHA-256 is a parameter (the hexadecimal digest of a text); \<^verbatim>\<open>Date.now()\<close> is the machine's
  clock. The inventory reader never sets \<^verbatim>\<open>inv.prometheus\<close> or \<^verbatim>\<open>inv.textfileDir\<close>, so both are undefined here.
\<close>

section \<open>The report\<close>

definition fingerprint :: "(str \<Rightarrow> str) \<Rightarrow> json \<Rightarrow> str" where
  "fingerprint sha labels =
     (let ks = sort (map fst (entries_of labels)) in
      take 32 (sha (json_text (JArr (map (\<lambda>k. JArr [JStr k, JStr (text_of (member_of k labels))]) ks)))))"

text \<open>Runs of white space become one space; the ellipsis is three bytes of UTF-8.\<close>

definition clip :: "json option \<Rightarrow> nat \<Rightarrow> str" where
  "clip v n =
     (let t = join '' '' (ws_words (js_string (or_else v (JStr [])))) in
      if n < length t then take (n - 1) t @ [CHR 0xE2, CHR 0x80, CHR 0xA6] else t)"

text \<open>\<^verbatim>\<open>/^[A-Za-z][A-Za-z0-9_:]{0,99}$/\<close>\<close>

definition is_alert_name :: "str \<Rightarrow> bool" where
  "is_alert_name s \<longleftrightarrow>
     s \<noteq> [] \<and> (is_lower (hd s) \<or> is_upper (hd s)) \<and> length s \<le> 100 \<and> list_all (in_class ''_:'') (tl s)"

text \<open>
  \<^verbatim>\<open>SEVERITIES[labels.severity] || 'warning'\<close>: an object literal also answers to the names it
  inherits. Their values are functions, which no JSON text holds, or the prototype, an empty object.
\<close>

definition inherited_functions :: "str list" where
  "inherited_functions =
     [''constructor'', ''hasOwnProperty'', ''isPrototypeOf'', ''propertyIsEnumerable'', ''toLocaleString'', ''toString'', ''valueOf'',
      ''__defineGetter__'', ''__defineSetter__'', ''__lookupGetter__'', ''__lookupSetter__'']"

definition severity_of :: "json option \<Rightarrow> json option" where
  "severity_of v =
     (let k = text_of v in
      if k = ''critical'' \<or> k = ''page'' then Some (JStr ''critical'')
      else if k = ''warning'' \<or> k = ''ticket'' then Some (JStr ''warning'')
      else if k = ''info'' then Some (JStr ''info'')
      else if k = ''__proto__'' then Some (JObj [])
      else if k \<in> set inherited_functions then None
      else Some (JStr ''warning''))"

definition alert_fields :: "(str \<Rightarrow> str) \<Rightarrow> json \<Rightarrow> json \<Rightarrow> str \<Rightarrow> int \<Rightarrow> (str \<times> json) list" where
  "alert_fields sha a labels name started =
     (let ann = or_else (soft ''annotations'' (Some a)) (JObj []);
          summary = clip (Some (or_else (member_of ''summary'' ann) (JStr name))) 300;
          descr = clip (member_of ''description'' ann) 1000;
          svc = member_of ''service'' labels in
      [(''fingerprint'', JStr (fingerprint sha labels)), (''name'', JStr name)] @
      (case severity_of (member_of ''severity'' labels) of Some s \<Rightarrow> [(''severity'', s)] | None \<Rightarrow> []) @
      [(''summary'', JStr (if summary = [] then name else summary)), (''started_at'', JStr (iso_string started))] @
      (if descr = [] then [] else [(''description'', JStr descr)]) @
      (if is_service_id (js_string (or_else svc (JStr []))) then [(''service'', or_else svc JNull)] else []))"

definition report_item :: "host \<Rightarrow> (str \<Rightarrow> str) \<Rightarrow> json \<Rightarrow> ('l, (str \<times> json) option) prog" where
  "report_item H sha a =
     (let labels = or_else (soft ''labels'' (Some a)) (JObj []);
          name = js_string (or_else (member_of ''alertname'' labels) (JStr [])) in
      if soft ''state'' (Some a) \<noteq> Some (JStr ''firing'') \<or> \<not> is_alert_name name then ret None
      else
        bind (case h_date_parse H (text_of (soft ''activeAt'' (Some a))) of Some t \<Rightarrow> ret t | None \<Rightarrow> exec_now H) (\<lambda>started.
        ret (Some (fingerprint sha labels, JObj (alert_fields sha a labels name started)))))"

definition add_item :: "host \<Rightarrow> (str \<Rightarrow> str) \<Rightarrow> (str \<times> json) list \<Rightarrow> json \<Rightarrow> ('l, (str \<times> json) list) prog" where
  "add_item H sha out a =
     bind (report_item H sha a) (\<lambda>r. ret (case r of None \<Rightarrow> out | Some (fp, it) \<Rightarrow> obj_put fp it out))"

definition to_report :: "host \<Rightarrow> (str \<Rightarrow> str) \<Rightarrow> json list \<Rightarrow> ('l, json list) prog" where
  "to_report H sha xs = bind (foldp (add_item H sha) [] xs) (\<lambda>out. ret (take 200 (map snd out)))"

section \<open>Metrics\<close>

text \<open>The first match of \<^verbatim>\<open>/^<name> (\d+)$/m\<close>.\<close>

definition metric_value :: "str \<Rightarrow> str \<Rightarrow> nat option" where
  "metric_value name text =
     (let p = name @ '' '' in
      map_option (\<lambda>l. digits_val (drop (length p) l))
        (List.find (\<lambda>l. starts_with l p \<and> drop (length p) l \<noteq> [] \<and> list_all is_digit (drop (length p) l)) (lines text)))"

definition gauge :: "str \<Rightarrow> str \<Rightarrow> str \<Rightarrow> str list" where
  "gauge name help v = [''# HELP '' @ name @ '' '' @ help, ''# TYPE '' @ name @ '' gauge'', name @ '' '' @ v]"

definition unlines :: "str list \<Rightarrow> str" where
  "unlines ls = join [CHR 0x0A] ls @ [CHR 0x0A]"

definition relay_metrics :: "int \<Rightarrow> bool \<Rightarrow> nat option \<Rightarrow> int option \<Rightarrow> str" where
  "relay_metrics now ok firing lastOk =
     unlines
       (gauge ''openvibe_alert_relay_last_run_timestamp_seconds'' ''When ovhost alerts relay last ran.'' (int_str now) @
        gauge ''openvibe_alert_relay_last_run_ok'' ''1 when the last run delivered the firing set to Network.'' (if ok then ''1'' else ''0'') @
        gauge ''openvibe_alert_relay_firing'' ''Alerts firing at the last run that read Prometheus.''
          (case firing of None \<Rightarrow> ''NaN'' | Some n \<Rightarrow> nat_str n) @
        (case lastOk of
           Some t \<Rightarrow> (if t = 0 then [] else gauge ''openvibe_alert_relay_last_success_timestamp_seconds'' ''When a run last delivered.'' (int_str t))
         | None \<Rightarrow> []))"

definition last_success :: "host \<Rightarrow> str \<Rightarrow> str \<Rightarrow> ('l, int option) prog" where
  "last_success H f name =
     bind (exec_read H f) (\<lambda>t. ret (map_option int (metric_value name (case t of Some s \<Rightarrow> s | None \<Rightarrow> []))))"

definition write_relay_metrics :: "host \<Rightarrow> str \<Rightarrow> bool \<Rightarrow> nat option \<Rightarrow> ('l, bool) prog" where
  "write_relay_metrics H dir ok firing =
     (let f = path_join [dir, ''openvibe_alert_relay.prom''] in
      bind (exec_readdir H dir) (\<lambda>there.
      if there = None then ret False
      else
        bind (exec_now H) (\<lambda>ms. let now = ms div 1000 in
        bind (if ok \<and> now \<noteq> 0 then ret (Some now)
              else last_success H f ''openvibe_alert_relay_last_success_timestamp_seconds'') (\<lambda>lastOk.
        andthen (exec_write H f (relay_metrics now ok firing lastOk)) (ret True)))))"

section \<open>One run\<close>

record relay_opts =
  ry_prometheus :: "str option"
  ry_prometheus_env :: "str option"
  ry_env_file :: "str option"
  ry_env :: "str option"
  ry_dry_run :: bool
  ry_metrics :: bool

record relay_result =
  ry_ok :: bool
  ry_stage :: "str option"
  ry_firing :: "nat option"
  ry_alerts :: "json list"
  ry_error :: "str option"
  ry_answer :: "json option"

definition relay_failed :: "str \<Rightarrow> nat option \<Rightarrow> json list \<Rightarrow> str \<Rightarrow> relay_result" where
  "relay_failed stage firing alerts e =
     \<lparr>ry_ok = False, ry_stage = Some stage, ry_firing = firing, ry_alerts = alerts, ry_error = Some e, ry_answer = None\<rparr>"

definition relay_sent :: "json list \<Rightarrow> json option \<Rightarrow> relay_result" where
  "relay_sent alerts answer =
     \<lparr>ry_ok = True, ry_stage = None, ry_firing = Some (length alerts), ry_alerts = alerts, ry_error = None, ry_answer = answer\<rparr>"

definition textfile_default :: str where
  "textfile_default = ''/var/lib/prometheus/node-exporter''"

text \<open>\<^verbatim>\<open>done\<close>: metrics never fail a run.\<close>

definition relay_done :: "ctx \<Rightarrow> relay_opts \<Rightarrow> relay_result \<Rightarrow> ('l, relay_result) prog" where
  "relay_done c opts r =
     andthen (whenever (ry_metrics opts \<and> \<not> ry_dry_run opts)
       (try_catch (bind (write_relay_metrics (exec c) textfile_default (ry_ok r) (ry_firing r)) (\<lambda>_. ret ())) (\<lambda>_. ret ())))
     (ret r)"

definition prometheus_url :: "relay_opts \<Rightarrow> str" where
  "prometheus_url opts = strip_slashes (first_set [ry_prometheus opts, ry_prometheus_env opts] ''http://127.0.0.1:9090'')"

definition prometheus_alerts :: "http_result \<Rightarrow> json list option" where
  "prometheus_alerts p =
     (let d = (if hs_status p = 200 then json_parse (hs_body p) else None) in
      if soft ''status'' d = Some (JStr ''success'') then array_of (soft ''alerts'' (soft ''data'' d)) else None)"

definition operator_answer :: "http_result \<Rightarrow> bool" where
  "operator_answer r \<longleftrightarrow> hs_status r = 200 \<and> soft ''ok'' (json_parse (hs_body r)) = Some (JBool True)"

definition unreachable_or :: "http_result \<Rightarrow> str \<Rightarrow> str" where
  "unreachable_or r who = (if hs_status r \<noteq> 0 then who @ '' answered '' @ int_str (hs_status r) else who @ '' unreachable'')"

text \<open>A token for Network; \<open>Inl\<close> is the error.\<close>

definition network_token :: "host \<Rightarrow> credentials \<Rightarrow> str \<Rightarrow> ('l, str + str) prog" where
  "network_token H cd scope =
     bind (exec_request H ''POST'' (cd_network_url cd @ ''/oauth/token'') (token_form cd ''openvibe.network'' scope)) (\<lambda>t.
     ret (case (if hs_status t = 200 then access_token t else None) of
         Some k \<Rightarrow> Inr k
       | None \<Rightarrow> Inl (unreachable_or t ''the token endpoint'')))"

definition deliver_alerts :: "ctx \<Rightarrow> credentials \<Rightarrow> json list \<Rightarrow> json \<Rightarrow> ('l, relay_result) prog" where
  "deliver_alerts c cd alerts body =
     (let n = Some (length alerts) in
      bind (network_token (exec c) cd ''network.operator.alert'') (\<lambda>k.
      case k of
        Inl m \<Rightarrow> ret (relay_failed ''token'' n alerts m)
      | Inr token \<Rightarrow>
          bind (exec_request (exec c) ''POST'' (cd_network_url cd @ ''/internal/operator/alerts'') (json_text body)) (\<lambda>r.
          ret (if operator_answer r then relay_sent alerts (json_parse (hs_body r))
               else relay_failed ''deliver'' n alerts (unreachable_or r ''Network'')))))"

definition alerts_body :: "json list \<Rightarrow> int \<Rightarrow> json" where
  "alerts_body alerts now =
     JObj [(''source'', JStr ''prometheus''), (''sent_at'', JStr (iso_string now)), (''alerts'', JArr alerts)]"

definition relay_firing :: "url_parser \<Rightarrow> ctx \<Rightarrow> relay_opts \<Rightarrow> json list \<Rightarrow> ('l, relay_result) prog" where
  "relay_firing parse c opts alerts =
     bind (exec_now (exec c)) (\<lambda>now.
     if ry_dry_run opts then ret (relay_sent alerts None)
     else
       bind (load_credentials parse c (ry_env_file opts) (ry_env opts)) (\<lambda>k.
       case k of
         Inl m \<Rightarrow> relay_done c opts (relay_failed ''credentials'' (Some (length alerts)) alerts m)
       | Inr cd \<Rightarrow> bind (deliver_alerts c cd alerts (alerts_body alerts now)) (relay_done c opts)))"

definition relay_from :: "url_parser \<Rightarrow> (str \<Rightarrow> str) \<Rightarrow> ctx \<Rightarrow> relay_opts \<Rightarrow> http_result \<Rightarrow> ('l, relay_result) prog" where
  "relay_from parse sha c opts p =
     (case prometheus_alerts p of
        None \<Rightarrow> relay_done c opts (relay_failed ''prometheus'' None [] (unreachable_or p ''Prometheus''))
      | Some xs \<Rightarrow> bind (to_report (exec c) sha xs) (relay_firing parse c opts))"

definition relay :: "url_parser \<Rightarrow> (str \<Rightarrow> str) \<Rightarrow> ctx \<Rightarrow> relay_opts \<Rightarrow> ('l, relay_result) prog" where
  "relay parse sha c opts =
     bind (exec_request (exec c) ''GET'' (prometheus_url opts @ ''/api/v1/alerts'') []) (relay_from parse sha c opts)"

section \<open>What is reported\<close>

definition labels_of :: "json \<Rightarrow> json" where
  "labels_of a = or_else (soft ''labels'' (Some a)) (JObj [])"

definition fires :: "json \<Rightarrow> bool" where
  "fires a \<longleftrightarrow> soft ''state'' (Some a) = Some (JStr ''firing'')"

definition keyed_by_print :: "(str \<Rightarrow> str) \<Rightarrow> json list \<Rightarrow> (str \<times> json) list \<Rightarrow> bool" where
  "keyed_by_print sha xs out \<longleftrightarrow>
     distinct (map fst out) \<and>
     (\<forall>(k, v) \<in> set out. member_of ''fingerprint'' v = Some (JStr k) \<and> (\<exists>a \<in> set xs. fires a \<and> k = fingerprint sha (labels_of a)))"

lemma set_obj_put: "set (obj_put k v kvs) \<subseteq> insert (k, v) (set kvs)"
  by (induction kvs) (auto split: if_splits)

lemma distinct_obj_put: "distinct (map fst kvs) \<Longrightarrow> distinct (map fst (obj_put k v kvs))"
proof -
  have "set (map fst (obj_put k v kvs)) = insert k (set (map fst kvs))" for kvs :: "(str \<times> 'a) list"
    by (induction k v kvs rule: obj_put.induct) auto
  then show "distinct (map fst kvs) \<Longrightarrow> distinct (map fst (obj_put k v kvs))"
    by (induction kvs) auto
qed

lemma keyed_by_print_put:
  assumes "keyed_by_print sha xs out" "member_of ''fingerprint'' v = Some (JStr k)"
    "a \<in> set xs" "fires a" "k = fingerprint sha (labels_of a)"
  shows "keyed_by_print sha xs (obj_put k v out)"
  using assms set_obj_put [of k v out] unfolding keyed_by_print_def by (fastforce intro: distinct_obj_put)

lemma returns_add_item:
  assumes "keyed_by_print sha xs out" "a \<in> set xs"
  shows "returns (keyed_by_print sha xs) (add_item H sha out a)"
proof -
  have put: "keyed_by_print sha xs (obj_put (fingerprint sha (labels_of a)) (JObj (alert_fields sha a (labels_of a) name t)) out)"
    if "fires a" for name t
    by (rule keyed_by_print_put [OF assms(1) _ assms(2) that refl]) (simp add: alert_fields_def Let_def member_of_def)
  show ?thesis
    unfolding add_item_def report_item_def Let_def labels_of_def [symmetric] fires_def [symmetric]
    by (intro returns_bind [where Q = "\<lambda>r. case r of None \<Rightarrow> True | Some (fp, it) \<Rightarrow> keyed_by_print sha xs (obj_put fp it out)"])
      (auto intro!: returns_rules assms put split: option.split prod.split)
qed


section \<open>What is requested\<close>

definition requests :: "event list \<Rightarrow> (str \<times> str \<times> str) list" where
  "requests es = concat (map (\<lambda>e. case e of ERequest m u b \<Rightarrow> [(m, u, b)] | _ \<Rightarrow> []) es)"

lemma requests_append [simp]: "requests (es @ fs) = requests es @ requests fs"
  by (simp add: requests_def)

definition no_request :: "event \<Rightarrow> bool" where
  "no_request e \<longleftrightarrow> requests [e] = []"

lemma no_request_simps [simp]:
  "no_request (ERead p)" "no_request (EWrite p t)" "no_request (EReaddir p)" "no_request ENow" "no_request (EMkdir p ow)"
  "no_request ERandom" "no_request (EHttp u)" "no_request (ERun c as ro)"
  by (simp_all add: no_request_def requests_def)

lemma no_requests: "list_all no_request es \<Longrightarrow> requests es = []"
  by (induction es) (auto simp: no_request_def requests_def)

definition requests_at_most :: "nat \<Rightarrow> ('l, 'a) prog \<Rightarrow> bool" where
  "requests_at_most k m \<longleftrightarrow> (\<forall>tr l. \<exists>es. fst (snd (m (tr, l))) = es @ tr \<and> length (requests es) \<le> k)"

lemma requests_at_mostE:
  assumes "requests_at_most k m"
  obtains es where "fst (snd (m (tr, l))) = es @ tr" "length (requests es) \<le> k"
  using assms unfolding requests_at_most_def by blast

lemma quiet_at_most: "emits no_request m \<Longrightarrow> requests_at_most k m"
  unfolding emits_def requests_at_most_def by (metis no_requests le0 list.size(3) list_all_iff)

lemma request_at_most: "requests_at_most (Suc k) (exec_request H m u b)"
  unfolding requests_at_most_def exec_request_def ask_def by (auto intro!: exI [of _ "[ERequest m u b]"] simp: requests_def)

lemma bind_at_most:
  assumes m: "requests_at_most j m" and f: "\<And>x. requests_at_most k (f x)"
  shows "requests_at_most (j + k) (bind m f)"
  unfolding requests_at_most_def
proof (intro allI)
  fix tr l
  obtain r tr' l' where run: "m (tr, l) = (r, tr', l')" by (cases "m (tr, l)") auto
  with m obtain es where es: "tr' = es @ tr" "length (requests es) \<le> j"
    unfolding requests_at_most_def by (metis fst_conv snd_conv)
  show "\<exists>es. fst (snd (bind m f (tr, l))) = es @ tr \<and> length (requests es) \<le> j + k"
  proof (cases r)
    case (Inl e)
    with run es show ?thesis by (auto simp: bind_def)
  next
    case (Inr x)
    from f [of x] obtain fs where "fst (snd (f x (tr', l'))) = fs @ tr'" "length (requests fs) \<le> k"
      unfolding requests_at_most_def by blast
    with run Inr es show ?thesis by (intro exI [of _ "fs @ es"]) (auto simp: bind_def)
  qed
qed

lemma quiet_first: "emits no_request m \<Longrightarrow> (\<And>x. requests_at_most k (f x)) \<Longrightarrow> requests_at_most k (bind m f)"
  using bind_at_most [of 0 m k f] by (auto intro: quiet_at_most)

lemma quiet_credentials: "emits no_request (load_credentials parse c f v)"
  unfolding load_credentials_def Let_def by (auto intro!: emits_rules)

lemma quiet_relay_done: "emits no_request (relay_done c opts r)"
  unfolding relay_done_def write_relay_metrics_def last_success_def Let_def by (auto intro!: emits_rules)

lemma quiet_report: "emits no_request (to_report H sha xs)"
  unfolding to_report_def add_item_def report_item_def Let_def by (auto intro!: emits_rules split: option.split)

lemma request_then:
  "(\<And>x. requests_at_most k (f x)) \<Longrightarrow> requests_at_most (Suc k) (bind (exec_request H m u b) f)"
  using bind_at_most [OF request_at_most [of 0]] by fastforce

lemma length_choice: "length xs \<le> (if b then 0 else n) \<Longrightarrow> if b then xs = [] else length xs \<le> n"
  by (cases b) simp_all

lemma token_at_most: "requests_at_most (Suc 0) (network_token H cd scope)"
  unfolding network_token_def by (intro request_then quiet_at_most emits_ret)

lemma deliver_at_most: "requests_at_most 2 (deliver_alerts c cd alerts body)"
proof -
  have "requests_at_most (Suc 0 + Suc 0) (deliver_alerts c cd alerts body)"
    unfolding deliver_alerts_def Let_def
    by (rule bind_at_most [OF token_at_most]) (auto intro: request_then quiet_at_most emits_ret split: sum.split)
  then show ?thesis by (simp add: numeral_2_eq_2)
qed

lemma deliver_and_done: "requests_at_most 2 (bind (deliver_alerts c cd alerts body) (relay_done c opts))"
  using bind_at_most [OF deliver_at_most quiet_at_most [OF quiet_relay_done], of 0] by simp

lemma relay_at_most:
  "requests_at_most (if prometheus_alerts p = None \<or> ry_dry_run opts then 0 else 2) (relay_from parse sha c opts p)"
  unfolding relay_from_def relay_firing_def
  by (auto intro!: quiet_first [OF quiet_report] quiet_first [OF emits_exec(21)] quiet_first [OF quiet_credentials]
      quiet_at_most [OF quiet_relay_done] quiet_at_most [OF emits_ret] deliver_and_done split: option.split sum.split)

text \<open>
  When Prometheus gave no usable answer, and on a dry run, reading Prometheus is the only
  request of the run, so no open alert is resolved by mistake; otherwise at most two follow, the token and the
  delivery.
\<close>

theorem relay_silent_without_prometheus:
  "\<exists>ps es. fst (snd (relay parse sha c opts (tr, l))) = es @ tr \<and>
     requests es = ps @ [(''GET'', prometheus_url opts @ ''/api/v1/alerts'', [])] \<and>
     (if prometheus_alerts (h_request (exec c) tr ''GET'' (prometheus_url opts @ ''/api/v1/alerts'') []) = None \<or> ry_dry_run opts
      then ps = [] else length ps \<le> 2)"
proof -
  let ?u = "prometheus_url opts @ ''/api/v1/alerts''"
  let ?p = "h_request (exec c) tr ''GET'' ?u []"
  let ?get = "ERequest ''GET'' ?u []"
  have run: "relay parse sha c opts (tr, l) = relay_from parse sha c opts ?p (?get # tr, l)"
    by (simp add: relay_def bind_def exec_request_def ask_def)
  from relay_at_most [of ?p opts parse sha c] obtain es where
    "fst (snd (relay_from parse sha c opts ?p (?get # tr, l))) = es @ ?get # tr"
    "length (requests es) \<le> (if prometheus_alerts ?p = None \<or> ry_dry_run opts then 0 else 2)"
    by (rule requests_at_mostE)
  note es = this
  show ?thesis
  proof (intro exI conjI)
    show "fst (snd (relay parse sha c opts (tr, l))) = (es @ [?get]) @ tr" using es(1) unfolding run by simp
    show "requests (es @ [?get]) = requests es @ [(''GET'', ?u, [])]" unfolding requests_append by (simp add: requests_def)
    show "if prometheus_alerts ?p = None \<or> ry_dry_run opts then requests es = [] else length (requests es) \<le> 2"
      by (rule length_choice [OF es(2)])
  qed
qed

section \<open>What a run answers\<close>

lemma raises_relay: "raises (\<lambda>e. False) (relay parse sha c opts)"
proof -
  have metrics: "raises (\<lambda>e. e \<noteq> OutOfFuel) (write_relay_metrics H dir okay firing)" for H dir okay firing
    unfolding write_relay_metrics_def last_success_def Let_def by (auto intro!: raises_calm raises_exec_or)
  have done': "raises (\<lambda>e. False) (relay_done c opts r)" for r
    unfolding relay_done_def by (auto intro!: raises_calm raises_caught raises_whenever metrics)
  have report: "raises (\<lambda>e. False) (to_report H sha xs)" for H xs
    unfolding to_report_def add_item_def report_item_def Let_def
    by (auto intro!: raises_calm raises_foldp split: option.split)
  have deliver: "raises (\<lambda>e. False) (deliver_alerts c cd alerts body)" for cd alerts body
    unfolding deliver_alerts_def network_token_def Let_def by (auto intro!: raises_calm split: sum.split)
  show ?thesis
    unfolding relay_def relay_from_def relay_firing_def
    by (auto intro!: raises_calm raises_soft done' report deliver split: option.split sum.split)
qed

definition delivered :: "host \<Rightarrow> event list \<Rightarrow> bool" where
  "delivered H tr' \<longleftrightarrow>
     (\<exists>(cd :: credentials) body es tr0. tr' = es @ ERequest ''POST'' (cd_network_url cd @ ''/internal/operator/alerts'') body # tr0 \<and>
        operator_answer (h_request H tr0 ''POST'' (cd_network_url cd @ ''/internal/operator/alerts'') body))"

definition truthful :: "host \<Rightarrow> ('l, relay_result) prog \<Rightarrow> bool" where
  "truthful H m \<longleftrightarrow> (\<forall>s r tr' l'. m s = (Inr r, tr', l') \<longrightarrow> ry_ok r \<longrightarrow> delivered H tr')"

lemma truthfulD: "truthful H m \<Longrightarrow> m s = (Inr r, tr', l') \<Longrightarrow> ry_ok r \<Longrightarrow> delivered H tr'"
  unfolding truthful_def by blast

lemma truthful_bind: "(\<And>x. truthful H (f x)) \<Longrightarrow> truthful H (bind m f)"
  unfolding truthful_def bind_run by blast

lemma truthful_deliver: "truthful (exec c) (deliver_alerts c cd alerts body)"
  unfolding truthful_def delivered_def deliver_alerts_def network_token_def Let_def relay_failed_def relay_sent_def
  by (auto simp: prog_simps split: option.splits sum.splits if_splits) blast+

lemma truthful_done: "\<not> ry_ok r \<Longrightarrow> truthful H (relay_done c opts r)"
  unfolding truthful_def relay_done_def by (auto simp: run_iffs)

lemma truthful_then_done: "truthful H m \<Longrightarrow> truthful H (bind m (relay_done c opts))"
  unfolding truthful_def bind_run
proof (intro allI impI, elim exE conjE)
  fix s r tr' l' x s1
  assume m: "\<forall>s r tr' l'. m s = (Inr r, tr', l') \<longrightarrow> ry_ok r \<longrightarrow> delivered H tr'"
    and x: "m s = (Inr x, s1)" and r: "relay_done c opts x s1 = (Inr r, tr', l')" "ry_ok r"
  obtain tr1 l1 where s1: "s1 = (tr1, l1)" by (cases s1)
  from r have "r = x" unfolding relay_done_def by (auto simp: run_iffs)
  with m x s1 r have "delivered H tr1" by blast
  moreover from emitsD [OF quiet_relay_done r(1) [unfolded s1]] obtain es where "tr' = es @ tr1" by blast
  ultimately show "delivered H tr'" unfolding delivered_def by (metis append_assoc)
qed

lemma truthful_relay:
  assumes "\<not> ry_dry_run opts"
  shows "truthful (exec c) (relay parse sha c opts)"
  unfolding relay_def relay_from_def relay_firing_def using assms
  by (auto intro!: truthful_bind truthful_then_done truthful_deliver truthful_done simp: relay_failed_def split: option.split sum.split)

text \<open>
  A relay run never throws: it always ends with a result. A result that says delivered (and is no
  dry run) means that Network answered the post of the alerts with 200 and \<^verbatim>\<open>ok: true\<close>.
\<close>

theorem relay_tells_the_truth:
  "\<exists>r tr' l'. relay parse sha c opts (tr, l) = (Inr r, tr', l') \<and>
     (if ry_ok r \<and> \<not> ry_dry_run opts then delivered (exec c) tr' else True)"
proof -
  obtain x tr' l' where run: "relay parse sha c opts (tr, l) = (x, tr', l')"
    by (cases "relay parse sha c opts (tr, l)") auto
  with raises_relay [of parse sha c opts] obtain r where "x = Inr r"
    unfolding raises_def by (cases x) blast+
  have "delivered (exec c) tr'" if "ry_ok r" "\<not> ry_dry_run opts"
    by (rule truthfulD [OF truthful_relay [OF that(2)] run [unfolded \<open>x = Inr r\<close>] that(1)])
  with run \<open>x = Inr r\<close> show ?thesis by auto
qed

end
