(* ===== verification/Status_Page.thy ===== *)
theory Status_Page
  imports Alerts
begin

text \<open>
  Incidents and maintenance windows, the rest of \<^verbatim>\<open>lib/incidents.js\<close>: they are posted to Network's status page with
  Host's service token. Also what \<^verbatim>\<open>ovhost incident\<close>, \<^verbatim>\<open>maintenance\<close>, \<^verbatim>\<open>freeze\<close> and
  \<^verbatim>\<open>unfreeze\<close> make of it (\<^verbatim>\<open>lib/cli.js\<close>): a window scheduled with \<^verbatim>\<open>--freeze\<close>
  freezes its services until it is completed.
\<close>

section \<open>The calls\<close>

record page_access =
  pa_env_file :: "str option"
  pa_env :: "str option"

text \<open>An answer outside 200 to 299 is refused.\<close>

definition page_answer :: "http_result \<Rightarrow> ('l, json option) prog" where
  "page_answer r =
     (if hs_status r < 200 \<or> 300 \<le> hs_status r then throw (IncidentsError ''Network answered'' 2)
      else ret (json_parse (hs_body r)))"

definition page_call :: "url_parser \<Rightarrow> ctx \<Rightarrow> page_access \<Rightarrow> str \<Rightarrow> str \<Rightarrow> json option \<Rightarrow> ('l, json option) prog" where
  "page_call parse c pa verb route body =
     bind (load_credentials parse c (pa_env_file pa) (pa_env pa)) (\<lambda>k.
     case k of
       Inl m \<Rightarrow> throw (IncidentsError (''not configured: '' @ m) 2)
     | Inr cd \<Rightarrow>
         bind (if verb = ''GET'' then ret (Inr []) else network_token (exec c) cd ''network.status.incident'') (\<lambda>t.
         case t of
           Inl m \<Rightarrow> throw (IncidentsError m 2)
         | Inr token \<Rightarrow>
             bind (exec_request (exec c) verb (cd_network_url cd @ ''/api/v1/status/incidents'' @ route)
                    (case body of Some b \<Rightarrow> json_text b | None \<Rightarrow> [])) page_answer))"

text \<open>An option without its value is \<^verbatim>\<open>true\<close>, as a text \<^verbatim>\<open>"true"\<close>.\<close>

definition flag_text :: "flag_value option \<Rightarrow> str option" where
  "flag_text v = map_option (\<lambda>f. case f of Given s \<Rightarrow> s | Bare \<Rightarrow> ''true'') v"

definition severity_option :: "flag_value option \<Rightarrow> json" where
  "severity_option v =
     (case v of
        Some (Given s) \<Rightarrow> (if s = [] then JStr ''minor'' else JStr s)
      | Some Bare \<Rightarrow> JBool True
      | None \<Rightarrow> JStr ''minor'')"

record incident_opts =
  io_title :: "flag_value option"
  io_services :: "flag_value option"
  io_severity :: "flag_value option"
  io_message :: "flag_value option"
  io_state :: "flag_value option"
  io_from :: "flag_value option"
  io_until :: "flag_value option"

definition opts_services :: "incident_opts \<Rightarrow> ('l, json) prog" where
  "opts_services opts = bind (of_sum (parse_services (flag_text (io_services opts)))) (\<lambda>s. ret (JArr (map JStr s)))"

definition open_incident :: "url_parser \<Rightarrow> ctx \<Rightarrow> page_access \<Rightarrow> incident_opts \<Rightarrow> ('l, json option) prog" where
  "open_incident parse c pa opts =
     bind (of_sum (need_text (io_title opts))) (\<lambda>title.
     bind (opts_services opts) (\<lambda>services.
     bind (of_sum (need_text (io_message opts))) (\<lambda>message.
     page_call parse c pa ''POST'' []
       (Some (JObj [(''kind'', JStr ''incident''), (''title'', JStr title), (''severity'', severity_option (io_severity opts)),
                    (''services'', services), (''message'', JStr message)])))))"

text \<open>\<^verbatim>\<open>new Date(o.until).toISOString()\<close>, which throws on an invalid date; \<^verbatim>\<open>true\<close> is one millisecond.\<close>

definition until_field :: "host \<Rightarrow> flag_value option \<Rightarrow> ('l, (str \<times> json) list) prog" where
  "until_field H v =
     (case v of
        None \<Rightarrow> ret []
      | Some Bare \<Rightarrow> ret [(''ends_at'', JStr (iso_string 1))]
      | Some (Given s) \<Rightarrow>
          (if s = [] then ret []
           else case h_date_parse H s of
               Some ms \<Rightarrow> ret [(''ends_at'', JStr (iso_string ms))]
             | None \<Rightarrow> throw (JsError ''RangeError'')))"

definition update_incident :: "url_parser \<Rightarrow> ctx \<Rightarrow> page_access \<Rightarrow> str option \<Rightarrow> incident_opts \<Rightarrow> ('l, json option) prog" where
  "update_incident parse c pa iid opts =
     bind (of_sum (need_id iid)) (\<lambda>i.
     bind (of_sum (need_text (io_state opts))) (\<lambda>state.
     bind (of_sum (need_text (io_message opts))) (\<lambda>message.
     bind (until_field (exec c) (io_until opts)) (\<lambda>ends.
     page_call parse c pa ''POST'' (''/'' @ i @ ''/updates'')
       (Some (JObj ([(''state'', JStr state), (''message'', JStr message)] @ ends)))))))"

definition list_incidents :: "url_parser \<Rightarrow> ctx \<Rightarrow> page_access \<Rightarrow> ('l, json option) prog" where
  "list_incidents parse c pa = page_call parse c pa ''GET'' [] None"

definition flag_date :: "host \<Rightarrow> flag_value option \<Rightarrow> int option" where
  "flag_date H v = (case flag_text v of Some s \<Rightarrow> h_date_parse H s | None \<Rightarrow> None)"

definition schedule_window :: "url_parser \<Rightarrow> ctx \<Rightarrow> page_access \<Rightarrow> incident_opts \<Rightarrow> ('l, json option) prog" where
  "schedule_window parse c pa opts =
     (case (flag_date (exec c) (io_from opts), flag_date (exec c) (io_until opts)) of
        (Some starts, Some ends) \<Rightarrow>
          bind (of_sum (need_text (io_title opts))) (\<lambda>title.
          bind (opts_services opts) (\<lambda>services.
          bind (of_sum (need_text (io_message opts))) (\<lambda>message.
          page_call parse c pa ''POST'' []
            (Some (JObj [(''kind'', JStr ''maintenance''), (''title'', JStr title), (''services'', services), (''message'', JStr message),
                         (''starts_at'', JStr (iso_string starts)), (''ends_at'', JStr (iso_string ends))])))))
      | _ \<Rightarrow> throw (IncidentsError ''--from and --until are ISO 8601 times'' 1))"

section \<open>All freezes\<close>

text \<open>Each file that can be read and parsed, in the order of the directory.\<close>

fun read_freezes :: "ctx \<Rightarrow> dir_entry list \<Rightarrow> ('l, json list) prog" where
  "read_freezes c [] = ret []"
| "read_freezes c (e # es) =
     (if \<not> ends_with (e_name e) ''.json'' then read_freezes c es
      else
        bind (try_catch (bind (exec_read (exec c) (path_join [freeze_dir (inv c), e_name e])) (\<lambda>t. ret (freeze_of t))) (\<lambda>_. ret None)) (\<lambda>r.
        bind (read_freezes c es) (\<lambda>rest. ret (case r of Some v \<Rightarrow> v # rest | None \<Rightarrow> rest))))"

definition freeze_service :: "json \<Rightarrow> str option" where
  "freeze_service f = string_of (member_of ''service'' f)"

text \<open>\<^verbatim>\<open>a.service.localeCompare(b.service)\<close> throws on a record without a service.\<close>

definition sort_freezes :: "host \<Rightarrow> json list \<Rightarrow> ('l, json list) prog" where
  "sort_freezes H fs =
     (if 2 \<le> length fs \<and> list_ex (\<lambda>f. freeze_service f = None) fs then throw (JsError ''TypeError'')
      else ret (sort_by (\<lambda>a b. h_collate H (text_of (member_of ''service'' a)) (text_of (member_of ''service'' b))) fs))"

definition freezes :: "ctx \<Rightarrow> ('l, json list) prog" where
  "freezes c =
     bind (exec_readdir (exec c) (freeze_dir (inv c))) (\<lambda>es.
     bind (read_freezes c (case es of Some xs \<Rightarrow> xs | None \<Rightarrow> [])) (sort_freezes (exec c)))"

end
