(* ===== verification/Json_Text.thy ===== *)
theory Json_Text
  imports Json
begin

text \<open>
  What is written reads back: strings with any bytes, and objects of strings and nulls as
  \<^verbatim>\<open>JSON.stringify(x, null, 2)\<close> lays them out.
\<close>

section \<open>Strings\<close>

lemma hex_digit_char: "k < 16 \<Longrightarrow> hex_digit (hex_char k) = Some k"
  by (simp add: hex_digit_def hex_char_def is_digit_def less_eq_char_def Let_def)

lemma low_escape: "n < 32 \<Longrightarrow> hex4 (CHR ''0'') (CHR ''0'') (hex_char (n div 16)) (hex_char (n mod 16)) = Some n"
proof -
  assume n: "n < 32"
  have zero: "hex_digit (CHR ''0'') = Some 0" by code_simp
  have "n div 16 < 16" "n mod 16 < 16" using n by simp_all
  then show ?thesis by (simp add: hex4_def zero hex_digit_char)
qed

lemma read_escaped: "read_string (escape_char c @ r) = map_option (\<lambda>(t, r'). (c # t, r')) (read_string r)"
proof (cases "c \<in> {CHR 0x22, CHR 0x5C, CHR 0x08, CHR 0x0C, CHR 0x0A, CHR 0x0D, CHR 0x09}")
  case True
  then show ?thesis by (elim insertE) (simp_all add: escape_char_def simple_escape_def)
next
  case False
  show ?thesis
  proof (cases "c < CHR 0x20")
    case True
    then have n: "(of_char c :: nat) < 32" by (simp add: less_char_def)
    have "utf8 (of_char c) = [c]" using n by (simp add: utf8_def)
    then show ?thesis using False True low_escape [OF n] by (simp add: escape_char_def)
  next
    case not_low: False
    then show ?thesis using False by (simp add: escape_char_def)
  qed
qed

lemma read_quoted: "read_string (concat (map escape_char s) @ CHR 0x22 # r) = Some (s, r)"
  by (induction s) (simp_all add: read_escaped)

lemma quote_shape: "quote_str s @ r = CHR 0x22 # concat (map escape_char s) @ CHR 0x22 # r"
  by (simp add: quote_str_def)

section \<open>Flat objects\<close>

definition flat_value :: "json \<Rightarrow> bool" where
  "flat_value v \<longleftrightarrow> v = JNull \<or> (\<exists>s. v = JStr s)"

lemma skip_ws_simps [simp]:
  "skip_ws [] = []"
  "skip_ws (c # s) = (if c = CHR 0x20 \<or> c = CHR 0x09 \<or> c = CHR 0x0A \<or> c = CHR 0x0D then skip_ws s else c # s)"
  by (auto simp: skip_ws_def)

lemma read_flat:
  assumes "flat_value v"
  shows "read_value (Suc n) (CHR 0x20 # json_text v @ r) = Some (v, r)"
proof -
  consider "v = JNull" | s where "v = JStr s" using assms by (auto simp: flat_value_def)
  then show ?thesis
  proof cases
    case 1
    then show ?thesis by (simp add: Let_def starts_with_def)
  next
    case 2
    then show ?thesis by (simp add: Let_def starts_with_def quote_shape read_quoted)
  qed
qed

definition flat_line :: "str \<times> json \<Rightarrow> str" where
  "flat_line kv = (case kv of (k, v) \<Rightarrow> ''  '' @ quote_str k @ '': '' @ json_text v)"

lemma read_flat_line:
  assumes "flat_value v" "d = CHR ''}'' \<or> d = CHR '',''"
  shows "read_members (Suc (Suc n)) acc (CHR 0x0A # flat_line (k, v) @ ws @ d # r) =
    (if list_all (\<lambda>c. c = CHR 0x0A) ws
     then if d = CHR ''}'' then Some (obj_put k v acc, r) else read_members (Suc n) (obj_put k v acc) r
     else read_members (Suc (Suc n)) acc (CHR 0x0A # flat_line (k, v) @ ws @ d # r))"
proof (cases "list_all (\<lambda>c. c = CHR 0x0A) ws")
  case True
  then have ws: "skip_ws (ws @ d # r) = d # r" using assms(2) by (induction ws) auto
  have "read_value (Suc n) (CHR 0x20 # json_text v @ ws @ d # r) = Some (v, ws @ d # r)" by (rule read_flat [OF assms(1)])
  moreover have "flat_line (k, v) @ ws @ d # r =
      CHR 0x20 # CHR 0x20 # CHR 0x22 # concat (map escape_char k) @ CHR 0x22 # CHR '':'' # CHR 0x20 # json_text v @ ws @ d # r"
    by (simp add: flat_line_def quote_str_def)
  ultimately show ?thesis using True ws assms(2) by (auto simp: read_quoted simp del: read_value.simps)
qed simp

fun put_pairs :: "(str \<times> json) list \<Rightarrow> (str \<times> json) list \<Rightarrow> (str \<times> json) list" where
  "put_pairs [] acc = acc"
| "put_pairs ((k, v) # kvs) acc = put_pairs kvs (obj_put k v acc)"

lemma obj_put_fresh: "k \<notin> set (map fst acc) \<Longrightarrow> obj_put k v acc = acc @ [(k, v)]"
  by (induction acc) auto

lemma put_pairs_fresh: "distinct (map fst (acc @ kvs)) \<Longrightarrow> put_pairs kvs acc = acc @ kvs"
  by (induction kvs arbitrary: acc) (auto simp: obj_put_fresh)

lemma read_flat_lines:
  "kvs \<noteq> [] \<Longrightarrow> list_all (\<lambda>(k, v). flat_value v) kvs \<Longrightarrow> length kvs < n \<Longrightarrow>
   read_members n acc (CHR 0x0A # join [CHR '','', CHR 0x0A] (map flat_line kvs) @ [CHR 0x0A, CHR ''}''] @ r) = Some (put_pairs kvs acc, r)"
proof (induction kvs arbitrary: n acc)
  case (Cons kv kvs)
  obtain k v where kv: "kv = (k, v)" by (cases kv)
  with Cons.prems have v: "flat_value v" by simp
  obtain m where n: "n = Suc (Suc m)" using Cons.prems by (cases n; cases "n - 1") auto
  show ?case
  proof (cases kvs)
    case Nil
    then show ?thesis using read_flat_line [OF v, of "CHR ''}''" m acc k "[CHR 0x0A]" r] by (simp add: kv n del: read_members.simps)
  next
    case (Cons kv' kvs')
    then have "read_members (Suc m) (obj_put k v acc) (CHR 0x0A # join [CHR '','', CHR 0x0A] (map flat_line kvs) @ [CHR 0x0A, CHR ''}''] @ r)
        = Some (put_pairs kvs (obj_put k v acc), r)"
      using Cons.IH Cons.prems kv n by (intro Cons.IH) auto
    then show ?thesis
      using read_flat_line [OF v, of "CHR '',''" m acc k "[]" "CHR 0x0A # join [CHR '','', CHR 0x0A] (map flat_line kvs) @ [CHR 0x0A, CHR ''}''] @ r"]
      by (simp add: kv n Cons del: read_members.simps)
  qed
qed simp

text \<open>The text of a flat object with distinct keys, and a line end after it, parses as that object.\<close>

theorem flat_object_parses:
  assumes "kvs \<noteq> []" "list_all (\<lambda>(k, v). flat_value v) kvs" "distinct (map fst kvs)"
  shows "json_parse (''{'' @ [CHR 0x0A] @ join ('','' @ [CHR 0x0A]) (map flat_line kvs) @ [CHR 0x0A] @ ''}'' @ [CHR 0x0A]) = Some (JObj kvs)"
    (is "json_parse ?t = _")
proof -
  have "length kvs \<le> length (join [CHR '','', CHR 0x0A] (map flat_line kvs))" if "kvs \<noteq> []" for kvs
    using that
  proof (induction kvs)
    case (Cons kv kvs)
    have "2 \<le> length (flat_line kv)" by (cases kv) (simp add: flat_line_def)
    with Cons show ?case by (cases kvs) auto
  qed simp
  from this [OF assms(1)] have len: "length kvs < 2 * length ?t" by simp
  define ls where "ls = join [CHR '','', CHR 0x0A] (map flat_line kvs)"
  define n where "n = 2 * length ?t"
  have members: "read_members n [] (CHR 0x0A # ls @ [CHR 0x0A, CHR ''}''] @ [CHR 0x0A]) = Some (kvs, [CHR 0x0A])"
    using read_flat_lines [OF assms(1,2) len, of "[]" "[CHR 0x0A]"] put_pairs_fresh [of "[]" kvs] assms(3) by (simp add: ls_def n_def)
  have "\<exists>w. ls = CHR 0x20 # CHR 0x20 # CHR 0x22 # w"
    using assms(1) by (cases kvs; cases "tl kvs") (auto simp: ls_def flat_line_def quote_str_def)
  then obtain w where w: "ls = CHR 0x20 # CHR 0x20 # CHR 0x22 # w" by blast
  have t: "?t = CHR ''{'' # CHR 0x0A # ls @ [CHR 0x0A, CHR ''}''] @ [CHR 0x0A]" by (simp add: ls_def)
  have "read_value (Suc n) (CHR ''{'' # CHR 0x0A # ls @ [CHR 0x0A, CHR ''}''] @ [CHR 0x0A]) = Some (JObj kvs, [CHR 0x0A])"
    using members by (simp add: Let_def starts_with_def w del: read_members.simps)
  then show ?thesis unfolding json_parse_def t [symmetric] n_def by simp
qed

end
