(* ===== verification/Freeze_Control.thy ===== *)
theory Freeze_Control
  imports Status_Page Dispatch Json_Text
begin

text \<open>
  What \<^verbatim>\<open>ovhost freeze\<close>, \<^verbatim>\<open>unfreeze\<close>, \<^verbatim>\<open>incident\<close> and \<^verbatim>\<open>maintenance\<close> do (\<^verbatim>\<open>lib/cli.js\<close>),
  and that a freeze holds the deploys it is meant to hold.
\<close>

section \<open>The commands\<close>

text \<open>\<^verbatim>\<open>a === b\<close> of two values that come from two different texts.\<close>

definition same_value :: "json option \<Rightarrow> json option \<Rightarrow> bool" where
  "same_value a b = (case b of None \<Rightarrow> a = None | Some v \<Rightarrow> strict_eq a v)"

text \<open>\<^verbatim>\<open>for (const s of r.services)\<close>: the ids Network answers, as texts.\<close>

definition answered_services :: "json option \<Rightarrow> ('l, str list) prog" where
  "answered_services r =
     (case r of
        Some x \<Rightarrow>
          (case member_of ''services'' x of
             Some (JArr xs) \<Rightarrow> ret (map (\<lambda>v. text_of (Some v)) xs)
           | Some (JStr s) \<Rightarrow> ret (map (\<lambda>ch. [ch]) s)
           | _ \<Rightarrow> throw (JsError ''TypeError''))
      | None \<Rightarrow> throw (JsError ''TypeError''))"

definition window_reason :: "json option \<Rightarrow> flag_value option" where
  "window_reason r = Some (Given (''maintenance: '' @ text_of (case r of Some x \<Rightarrow> member_of ''title'' x | None \<Rightarrow> None)))"

definition answer_id :: "json option \<Rightarrow> json option" where
  "answer_id r = (case r of Some x \<Rightarrow> member_of ''id'' x | None \<Rightarrow> None)"

definition schedule_and_freeze ::
  "url_parser \<Rightarrow> ctx \<Rightarrow> page_access \<Rightarrow> incident_opts \<Rightarrow> bool \<Rightarrow> str option \<Rightarrow> str \<Rightarrow> ('l, json option) prog" where
  "schedule_and_freeze parse c pa opts withFreeze who now =
     bind (schedule_window parse c pa opts) (\<lambda>r.
     andthen (if withFreeze
              then bind (answered_services r) (each (\<lambda>sid.
                     bind (freeze c sid (window_reason r) (string_of (answer_id r)) who now) (\<lambda>_. ret ())))
              else ret ())
     (ret r))"

text \<open>The freezes of a window are those that name it as their incident.\<close>

definition lift_freezes :: "ctx \<Rightarrow> json option \<Rightarrow> ('l, unit) prog" where
  "lift_freezes c r =
     bind (freezes c) (\<lambda>fs.
     if fs \<noteq> [] \<and> is_null r then throw (JsError ''TypeError'')
     else each (\<lambda>f. whenever (same_value (member_of ''incident'' f) (answer_id r))
                      (bind (unfreeze c (text_of (member_of ''service'' f))) (\<lambda>_. ret ()))) fs)"

definition complete_window :: "url_parser \<Rightarrow> ctx \<Rightarrow> page_access \<Rightarrow> str option \<Rightarrow> flag_value option \<Rightarrow> ('l, json option) prog" where
  "complete_window parse c pa iid message =
     bind (update_incident parse c pa iid
       \<lparr>io_title = None, io_services = None, io_severity = None, io_message = message, io_state = Some (Given ''completed''),
        io_from = None, io_until = None\<rparr>) (\<lambda>r.
     andthen (lift_freezes c r) (ret r))"

definition start_window :: "url_parser \<Rightarrow> ctx \<Rightarrow> page_access \<Rightarrow> str option \<Rightarrow> flag_value option \<Rightarrow> ('l, json option) prog" where
  "start_window parse c pa iid message =
     update_incident parse c pa iid
       \<lparr>io_title = None, io_services = None, io_severity = None, io_message = message, io_state = Some (Given ''in_progress''),
        io_from = None, io_until = None\<rparr>"

definition incident_command :: "url_parser \<Rightarrow> ctx \<Rightarrow> page_access \<Rightarrow> str list \<Rightarrow> incident_opts \<Rightarrow> ('l, json option) prog" where
  "incident_command parse c pa pos opts =
     (case pos of
        sub # rest \<Rightarrow>
          (if sub = ''open'' then open_incident parse c pa opts
           else if sub = ''update'' then update_incident parse c pa (case rest of i # _ \<Rightarrow> Some i | [] \<Rightarrow> None) opts
           else if sub = ''list'' then list_incidents parse c pa
           else throw (UsageError ''usage: ovhost incident''))
      | [] \<Rightarrow> throw (UsageError ''usage: ovhost incident''))"

definition maintenance_command ::
  "url_parser \<Rightarrow> ctx \<Rightarrow> page_access \<Rightarrow> str list \<Rightarrow> incident_opts \<Rightarrow> bool \<Rightarrow> str option \<Rightarrow> str \<Rightarrow> ('l, json option) prog" where
  "maintenance_command parse c pa pos opts withFreeze who now =
     (case pos of
        sub # rest \<Rightarrow>
          (let iid = (case rest of i # _ \<Rightarrow> Some i | [] \<Rightarrow> None) in
           if sub = ''schedule'' then schedule_and_freeze parse c pa opts withFreeze who now
           else if sub = ''start'' then start_window parse c pa iid (io_message opts)
           else if sub = ''complete'' then complete_window parse c pa iid (io_message opts)
           else throw (UsageError ''usage: ovhost maintenance''))
      | [] \<Rightarrow> throw (UsageError ''usage: ovhost maintenance''))"

section \<open>A freeze holds\<close>

lemma flat_freeze: "json_parse (flat_text (freeze_fields sid why inc who now) @ [CHR 0x0A]) = Some (JObj (freeze_fields sid why inc who now))"
proof -
  let ?kvs = "freeze_fields sid why inc who now"
  have "flat_text ?kvs @ [CHR 0x0A] = ''{'' @ [CHR 0x0A] @ join ('','' @ [CHR 0x0A]) (map flat_line ?kvs) @ [CHR 0x0A] @ ''}'' @ [CHR 0x0A]"
    unfolding flat_text_def Let_def flat_line_def [abs_def] by simp
  moreover have "list_all (\<lambda>(k, v). flat_value v) ?kvs"
    by (simp add: freeze_fields_def flat_value_def text_or_null_def split: option.split)
  moreover have "?kvs \<noteq> []" "distinct (map fst ?kvs)" by (simp_all add: freeze_fields_def)
  ultimately show ?thesis by (metis flat_object_parses)
qed

lemma freeze_of_written: "freeze_of (Some (flat_text (freeze_fields sid why inc who now) @ [CHR 0x0A])) = Some (JObj (freeze_fields sid why inc who now))"
  by (simp add: freeze_of_def flat_freeze truthy_def)

text \<open>A successful freeze ends with writing its file.\<close>

lemma freeze_writes:
  assumes "freeze c sid reason inc who now (tr, l) = (Inr r, tr', l')"
  shows "\<exists>why tr1. r = JObj (freeze_fields sid why inc who now) \<and> l' = l
    \<and> tr' = EWrite (freeze_file (inv c) sid) (flat_text (freeze_fields sid why inc who now) @ [CHR 0x0A]) # tr1"
  using assms
  by (auto simp: freeze_def bind_def andthen_def of_sum_def exec_mkdir_def exec_write_def ask_or_def throw_def ret_def Let_def
      split: if_splits sum.splits)

text \<open>
  Property C10. A freeze holds: once \<^verbatim>\<open>ovhost freeze\<close> of a service has succeeded, on a disk that reads back what was
  written, a deploy of it without \<^verbatim>\<open>--force\<close> reads the freeze file and stops there with exit code 6, whatever the
  reason, the incident and the names in the file.
\<close>

theorem freeze_holds_deploys:
  assumes keeps: "\<And>tr p t. h_read (exec c) (EWrite p t # tr) p = Inr (Some t)"
    and svc: "map_of (inv_services (inv c)) sid = Some svc"
    and frozen: "freeze c (s_id svc) reason inc who now (tr, l) = (Inr r, tr', l')"
    and calm: "\<not> op_force opts"
  shows "deploy c sid opts (tr', m) = (Inl (OpError ''the service is frozen'' 6 None), ERead (freeze_file (inv c) (s_id svc)) # tr', m)"
proof -
  from freeze_writes [OF frozen] obtain why tr1 where
    tr': "tr' = EWrite (freeze_file (inv c) (s_id svc)) (flat_text (freeze_fields (s_id svc) why inc who now) @ [CHR 0x0A]) # tr1" by blast
  have hold: "frozen c (s_id svc) False (tr', m) =
      (Inr (Some (JObj (freeze_fields (s_id svc) why inc who now))), ERead (freeze_file (inv c) (s_id svc)) # tr', m)"
    by (simp add: frozen_def bind_def try_catch_def exec_read_def ask_or_def ret_def tr' keeps freeze_of_written)
  show ?thesis using calm by (simp add: deploy_def find_service_def svc bind_def hold ret_def throw_def exit_frozen_def)
qed

definition disk_host :: host where
  "disk_host = (sample_host [] 200)\<lparr>h_read := (\<lambda>tr p. case tr of EWrite q t # _ \<Rightarrow> Inr (if p = q then Some t else None) | _ \<Rightarrow> Inr None)\<rparr>"

theorem freeze_holds_deploys_witness:
  "\<exists>tr'. deploy (sample_ctx [] 200\<lparr>exec := disk_host\<rparr>) ''app'' default_opts (tr', blank_state) =
     (Inl (OpError ''the service is frozen'' 6 None), ERead ''/var/lib/openvibe-host/freeze/app.json'' # tr', blank_state)"
proof -
  let ?c = "sample_ctx [] 200\<lparr>exec := disk_host\<rparr>"
  obtain x tr' where run: "freeze ?c (s_id sample_service) (Some (Given ''incident'')) None None ''now'' ([], ()) = (x, tr', ())"
    by (cases "freeze ?c (s_id sample_service) (Some (Given ''incident'')) None None ''now'' ([], ())") auto
  have need: "need_text (Some (Given ''incident'')) = Inr ''incident''" "freeze_id (s_id sample_service)" by code_simp+
  have "\<exists>r. fst (freeze ?c (s_id sample_service) (Some (Given ''incident'')) None None ''now'' ([], ())) = Inr r"
    unfolding freeze_def by (simp add: need prog_simps sample_ctx_def disk_host_def sample_host_def Let_def)
  with run obtain r where ok: "x = Inr r" by auto
  have own: "freeze_file (inv ?c) (s_id sample_service) = ''/var/lib/openvibe-host/freeze/app.json''" by code_simp
  have "deploy ?c ''app'' default_opts (tr', blank_state) =
     (Inl (OpError ''the service is frozen'' 6 None), ERead (freeze_file (inv ?c) (s_id sample_service)) # tr', blank_state)"
  proof (rule freeze_holds_deploys)
    show "h_read (exec ?c) (EWrite p t # tr) p = Inr (Some t)" for tr p t by (simp add: disk_host_def)
    show "map_of (inv_services (inv ?c)) ''app'' = Some sample_service" by (simp add: sample_ctx_def sample_inventory_def)
    show "\<not> op_force default_opts" by (simp add: default_opts_def)
    show "freeze ?c (s_id sample_service) (Some (Given ''incident'')) None None ''now'' ([], ()) = (Inr r, tr', ())" using run ok by simp
  qed
  then show ?thesis unfolding own by blast
qed

end
