(* ===== verification/Nodes.thy ===== *)
theory Nodes
  imports Alerts
begin

text \<open>
  The node report, \<^verbatim>\<open>lib/nodes.js\<close>: the machines of the inventory with the health just measured, sent to
  Network's node registry. The validation of the request by the \<^verbatim>\<open>openvibe-contracts\<close> package is a
  parameter. A request that is not answered in time answers status 0, like one that fails.
\<close>

section \<open>Measuring\<close>

datatype health = Up | Degraded | Down

definition health_name :: "health \<Rightarrow> str" where
  "health_name h = (case h of Up \<Rightarrow> ''up'' | Degraded \<Rightarrow> ''degraded'' | Down \<Rightarrow> ''down'')"

definition judge_beacon :: "http_result \<Rightarrow> int \<Rightarrow> health \<times> str" where
  "judge_beacon r ms =
     (if \<not> (200 \<le> hs_status r \<and> hs_status r < 300)
      then (Down, if hs_status r \<noteq> 0 then ''beacon answered '' @ int_str (hs_status r) else ''beacon unreachable'')
      else (if 2000 < ms then Degraded else Up, int_str ms @ '' ms''))"

definition measure_node :: "host \<Rightarrow> str \<Rightarrow> ('l, health \<times> str) prog" where
  "measure_node H beacon =
     bind (exec_now H) (\<lambda>t0.
     bind (exec_request H ''GET'' beacon []) (\<lambda>r.
     bind (exec_now H) (\<lambda>t1. ret (judge_beacon r (t1 - t0)))))"

section \<open>The report\<close>

record node_probe =
  np_id :: json
  np_health :: health
  np_detail :: str

text \<open>\<^verbatim>\<open>{ ...n, health, updated_at }\<close>: the two replace fields of the same name in place.\<close>

definition node_row :: "(str \<times> json) list \<Rightarrow> health \<Rightarrow> str \<Rightarrow> json" where
  "node_row n h t =
     JObj (put_all n [(''health'', JObj [(''status'', JStr (health_name h)), (''checked_at'', JStr t)]), (''updated_at'', JStr t)])"

definition probe_node ::
  "host \<Rightarrow> str \<Rightarrow> (json \<times> node_probe) list \<Rightarrow> (str \<times> json) list \<Rightarrow> ('l, (json \<times> node_probe) list) prog" where
  "probe_node H t rows n =
     bind (measure_node H (text_of (map_of n ''beacon''))) (\<lambda>(h, d).
     ret (rows @ [(node_row n h t, \<lparr>np_id = (case map_of n ''id'' of Some v \<Rightarrow> v | None \<Rightarrow> JNull), np_health = h, np_detail = d\<rparr>)]))"

definition report_body :: "str \<Rightarrow> json list \<Rightarrow> json" where
  "report_body source nodes = JObj [(''source'', JStr source), (''nodes'', JArr nodes)]"

definition build_report :: "contracts \<Rightarrow> host \<Rightarrow> inventory \<Rightarrow> ('l, (str \<times> json) \<times> node_probe list) prog" where
  "build_report C H i =
     (let source = (if inv_node_source i = [] then ''primary'' else inv_node_source i) in
      if \<not> is_service_id source then throw (JsError ''nodeSource must match'')
      else
        bind (exec_now H) (\<lambda>now.
        bind (foldp (probe_node H (iso_string now)) [] (inv_nodes i)) (\<lambda>rows.
        let body = report_body source (map fst rows) in
        if \<not> ct_node_report_valid C body then throw (JsError ''the nodes do not match network.node-report-request@1'')
        else ret ((source, body), map snd rows))))"

section \<open>One run\<close>

record node_report =
  nr_ok :: bool
  nr_stage :: "str option"
  nr_source :: "str option"
  nr_probes :: "node_probe list"
  nr_error :: "str option"
  nr_registered :: nat
  nr_down :: "json list"
  nr_body :: "json option"

definition report_failed :: "str \<Rightarrow> str option \<Rightarrow> node_probe list \<Rightarrow> str \<Rightarrow> node_report" where
  "report_failed stage source probes e =
     \<lparr>nr_ok = False, nr_stage = Some stage, nr_source = source, nr_probes = probes, nr_error = Some e, nr_registered = 0,
      nr_down = [], nr_body = None\<rparr>"

definition count_health :: "health \<Rightarrow> node_probe list \<Rightarrow> nat" where
  "count_health h ps = length (filter (\<lambda>p. np_health p = h) ps)"

definition node_metrics :: "bool \<Rightarrow> node_probe list \<Rightarrow> int option \<Rightarrow> str" where
  "node_metrics ok ps lastOk =
     unlines
       (gauge ''openvibe_nodes_report_last_run_ok'' ''1 when the last ovhost nodes report reached Network.'' (if ok then ''1'' else ''0'') @
        [''# HELP openvibe_nodes Nodes of this inventory by the health the last run measured.'', ''# TYPE openvibe_nodes gauge''] @
        map (\<lambda>h. ''openvibe_nodes{status='' @ quote_str (health_name h) @ ''} '' @ nat_str (count_health h ps)) [Up, Degraded, Down] @
        (case lastOk of
           Some t \<Rightarrow> (if t = 0 then []
              else gauge ''openvibe_nodes_report_last_success_timestamp_seconds'' ''When a report last reached Network.'' (int_str t))
         | None \<Rightarrow> []))"

definition write_node_metrics :: "host \<Rightarrow> str \<Rightarrow> bool \<Rightarrow> node_probe list \<Rightarrow> ('l, unit) prog" where
  "write_node_metrics H dir ok ps =
     (let f = path_join [dir, ''openvibe_nodes_report.prom''] in
      bind (exec_now H) (\<lambda>ms.
      bind (if ok then ret (Some (ms div 1000)) else last_success H f ''openvibe_nodes_report_last_success_timestamp_seconds'') (\<lambda>lastOk.
      exec_write H f (node_metrics ok ps lastOk))))"

record node_opts =
  no_env_file :: "str option"
  no_env :: "str option"
  no_dry_run :: bool
  no_metrics :: bool

definition report_done :: "ctx \<Rightarrow> node_opts \<Rightarrow> node_report \<Rightarrow> ('l, node_report) prog" where
  "report_done c opts r =
     andthen (whenever (no_metrics opts \<and> \<not> no_dry_run opts)
       (try_catch (write_node_metrics (exec c) textfile_default (nr_ok r) (nr_probes r)) (\<lambda>_. ret ())))
     (ret r)"

definition registered_nodes :: "http_result \<Rightarrow> json list option" where
  "registered_nodes r = (if hs_status r = 200 then array_of (soft ''nodes'' (json_parse (hs_body r))) else None)"

text \<open>\<^verbatim>\<open>n.health\<close> of a \<^verbatim>\<open>null\<close> node throws: \<open>None\<close>.\<close>

definition down_id :: "json \<Rightarrow> json list" where
  "down_id n =
     (if soft ''status'' (member_of ''health'' n) = Some (JStr ''down'')
      then [case member_of ''id'' n of Some v \<Rightarrow> v | None \<Rightarrow> JNull] else [])"

definition registered :: "str \<Rightarrow> node_probe list \<Rightarrow> json list \<Rightarrow> exc + node_report" where
  "registered source probes nodes =
     (if JNull \<in> set nodes then Inl (JsError ''TypeError'')
      else Inr \<lparr>nr_ok = True, nr_stage = None, nr_source = Some source, nr_probes = probes, nr_error = None,
                nr_registered = length nodes, nr_down = concat (map down_id nodes), nr_body = None\<rparr>)"

definition deliver_report :: "ctx \<Rightarrow> credentials \<Rightarrow> str \<Rightarrow> json \<Rightarrow> node_probe list \<Rightarrow> ('l, node_report) prog" where
  "deliver_report c cd source body probes =
     bind (network_token (exec c) cd ''network.node.report'') (\<lambda>k.
     case k of
       Inl m \<Rightarrow> ret (report_failed ''token'' (Some source) probes m)
     | Inr token \<Rightarrow>
         bind (exec_request (exec c) ''POST'' (cd_network_url cd @ ''/internal/nodes/report'') (json_text body)) (\<lambda>r.
         case registered_nodes r of
           None \<Rightarrow> ret (report_failed ''deliver'' (Some source) probes (unreachable_or r ''Network''))
         | Some nodes \<Rightarrow> of_sum (registered source probes nodes)))"

definition report_built :: "url_parser \<Rightarrow> ctx \<Rightarrow> node_opts \<Rightarrow> (str \<times> json) \<times> node_probe list \<Rightarrow> ('l, node_report) prog" where
  "report_built parse c opts b =
     (case b of ((source, body), probes) \<Rightarrow>
        (if no_dry_run opts
         then ret \<lparr>nr_ok = True, nr_stage = None, nr_source = Some source, nr_probes = probes, nr_error = None, nr_registered = 0,
                   nr_down = [], nr_body = Some body\<rparr>
         else
           bind (load_credentials parse c (no_env_file opts) (no_env opts)) (\<lambda>k.
           case k of
             Inl m \<Rightarrow> report_done c opts (report_failed ''credentials'' (Some source) probes m)
           | Inr cd \<Rightarrow> bind (deliver_report c cd source body probes) (report_done c opts))))"

definition report :: "url_parser \<Rightarrow> contracts \<Rightarrow> ctx \<Rightarrow> node_opts \<Rightarrow> ('l, node_report) prog" where
  "report parse C c opts =
     bind (try_catch (bind (build_report C (exec c) (inv c)) (\<lambda>b. ret (Inr b))) (\<lambda>e. ret (Inl (exc_message e)))) (\<lambda>b.
     case b of
       Inl m \<Rightarrow> report_done c opts (report_failed ''inventory'' None [] m)
     | Inr built \<Rightarrow> report_built parse c opts built)"

section \<open>What is reported\<close>

definition measured :: "host \<Rightarrow> (str \<times> json) list \<Rightarrow> node_probe \<Rightarrow> bool" where
  "measured H n p \<longleftrightarrow>
     (\<exists>tr0 ms. (np_health p, np_detail p) = judge_beacon (h_request H tr0 ''GET'' (text_of (map_of n ''beacon'')) []) ms)"

lemma measure_node_run:
  "\<exists>tr0 ms s'. measure_node H u s = (Inr (judge_beacon (h_request H tr0 ''GET'' u []) ms), s')"
  by (cases s) (auto simp: measure_node_def prog_simps)

lemma probe_node_run:
  "\<exists>s' row p. probe_node H t rows n s = (Inr (rows @ [(row, p)]), s') \<and> measured H n p"
proof -
  from measure_node_run [of H "text_of (map_of n ''beacon'')" s] obtain tr0 ms s' where
    "measure_node H (text_of (map_of n ''beacon'')) s =
       (Inr (judge_beacon (h_request H tr0 ''GET'' (text_of (map_of n ''beacon'')) []) ms), s')" by blast
  then show ?thesis
    unfolding probe_node_def measured_def
    by (cases "judge_beacon (h_request H tr0 ''GET'' (text_of (map_of n ''beacon'')) []) ms") (auto simp: bind_def ret_def intro: sym)
qed

lemma probe_nodes_run:
  "\<exists>new s'. foldp (probe_node H t) rows ns s = (Inr (rows @ new), s') \<and> list_all2 (measured H) ns (map snd new)"
proof (induction ns arbitrary: rows s)
  case Nil
  show ?case by (auto simp: ret_def)
next
  case (Cons n ns)
  from probe_node_run [of H t rows n s] obtain s1 row p where
    one: "probe_node H t rows n s = (Inr (rows @ [(row, p)]), s1)" "measured H n p" by blast
  from Cons.IH [of "rows @ [(row, p)]" s1] obtain new s2 where
    "foldp (probe_node H t) (rows @ [(row, p)]) ns s1 = (Inr ((rows @ [(row, p)]) @ new), s2)" "list_all2 (measured H) ns (map snd new)"
    by blast
  with one show ?case by (intro exI [of _ "(row, p) # new"] exI [of _ s2]) (simp add: bind_def)
qed

text \<open>
  Health is measured, never assumed: the report has one probe for each node of the inventory, in order,
  and each probe is the judgement of an answer of that node's own beacon: up only for a 2xx in time.
\<close>

theorem health_is_measured:
  fixes s :: "'l state"
  shows "case build_report C H i s of
     (Inl e, s') \<Rightarrow> True
   | (Inr (b, probes), s') \<Rightarrow> list_all2 (measured H) (inv_nodes i) probes"
proof (cases "\<exists>b probes s'. build_report C H i s = (Inr (b, probes), s')")
  case True
  then obtain b probes s' where run: "build_report C H i s = (Inr (b, probes), s')" by blast
  then obtain t rows and s1 s2 :: "'l state" where "foldp (probe_node H t) [] (inv_nodes i) s1 = (Inr rows, s2)" "probes = map snd rows"
    unfolding build_report_def Let_def by (auto simp: run_iffs split: if_splits)
  with probe_nodes_run [of H t "[]" "inv_nodes i" s1] run show ?thesis by auto
qed (auto split: prod.split sum.split)

definition only_beacons :: "inventory \<Rightarrow> event \<Rightarrow> bool" where
  "only_beacons i e \<longleftrightarrow> set (requests [e]) \<subseteq> (\<lambda>n. (''GET'', text_of (map_of n ''beacon''), [])) ` set (inv_nodes i)"

lemma only_beacons_simps [simp]:
  "only_beacons i ENow"
  "n \<in> set (inv_nodes i) \<Longrightarrow> only_beacons i (ERequest ''GET'' (text_of (map_of n ''beacon'')) [])"
  by (auto simp: only_beacons_def requests_def)

lemma only_beacons_requests:
  "list_all (only_beacons i) es \<Longrightarrow> set (requests es) \<subseteq> (\<lambda>n. (''GET'', text_of (map_of n ''beacon''), [])) ` set (inv_nodes i)"
  by (induction es) (auto simp: only_beacons_def requests_def)

lemma build_beacons: "emits (only_beacons i) (build_report C H i)"
  unfolding build_report_def probe_node_def measure_node_def Let_def by (auto intro!: emits_rules)

lemma quiet_report_done: "emits no_request (report_done c opts r)"
  unfolding report_done_def write_node_metrics_def last_success_def Let_def by (auto intro!: emits_rules)

lemma no_request_beacon: "no_request e \<Longrightarrow> only_beacons i e"
  by (simp add: no_request_def only_beacons_def)

lemma emits_any: "emits (\<lambda>e. True) (report_built parse c opts b)"
  unfolding report_built_def deliver_report_def network_token_def report_done_def write_node_metrics_def last_success_def
    load_credentials_def Let_def
  by (auto intro!: emits_rules split: sum.split)

text \<open>
  A dry run of the node report asks nothing but the beacons of the inventory's own nodes, and a real run
  whose inventory is refused asks nobody else either: nothing reaches Network in both.
\<close>

theorem report_asks_only_beacons:
  "\<exists>es. fst (snd (report parse C c opts (tr, l))) = es @ tr \<and>
     (case build_report C (exec c) (inv c) (tr, l) of
        (Inl e, s') \<Rightarrow> set (requests es) \<subseteq> (\<lambda>n. (''GET'', text_of (map_of n ''beacon''), [])) ` set (inv_nodes (inv c))
      | (Inr b, s') \<Rightarrow>
          (if no_dry_run opts
           then set (requests es) \<subseteq> (\<lambda>n. (''GET'', text_of (map_of n ''beacon''), [])) ` set (inv_nodes (inv c)) else True))"
proof -
  obtain x tr1 l1 where built: "build_report C (exec c) (inv c) (tr, l) = (x, tr1, l1)"
    by (cases "build_report C (exec c) (inv c) (tr, l)") auto
  from build_beacons [of "inv c" C "exec c"] built obtain es1 where
    es1: "tr1 = es1 @ tr" "\<forall>e \<in> set es1. only_beacons (inv c) e" by (rule emitsD)
  have quiet: "\<exists>es2. fst (snd (report_done c opts r (tr1, l1))) = es2 @ tr1 \<and> list_all (only_beacons (inv c)) es2" for r
    using quiet_report_done [of c opts r] unfolding emits_def list_all_iff by (meson no_request_beacon)
  have all: "set (requests (es2 @ es1)) \<subseteq> (\<lambda>n. (''GET'', text_of (map_of n ''beacon''), [])) ` set (inv_nodes (inv c))"
    if "list_all (only_beacons (inv c)) es2" for es2
    by (rule only_beacons_requests) (use that es1(2) in \<open>auto simp: list_all_iff\<close>)
  show ?thesis
  proof (cases x)
    case (Inl e)
    obtain es2 where "fst (snd (report parse C c opts (tr, l))) = es2 @ tr1" "list_all (only_beacons (inv c)) es2"
      using quiet [of "report_failed ''inventory'' None [] (exc_message e)"] built Inl
      by (cases "e = OutOfFuel") (auto simp: report_def bind_def try_catch_def ret_def)
    with built Inl es1(1) all [of es2] show ?thesis by (intro exI [of _ "es2 @ es1"]) simp
  next
    case (Inr b)
    have step: "report parse C c opts (tr, l) = report_built parse c opts b (tr1, l1)"
      using built Inr by (simp add: report_def bind_def try_catch_def ret_def)
    show ?thesis
    proof (cases "no_dry_run opts")
      case True
      have "fst (snd (report parse C c opts (tr, l))) = [] @ tr1"
        unfolding step report_built_def by (simp add: True ret_def split: prod.split)
      with built Inr es1(1) all [of "[]"] show ?thesis by (intro exI [of _ es1]) simp
    next
      case False
      obtain y tr2 l2 where y: "report_built parse c opts b (tr1, l1) = (y, tr2, l2)"
        by (cases "report_built parse c opts b (tr1, l1)") auto
      obtain es2 where "tr2 = es2 @ tr1" using emitsD [OF emits_any y] by blast
      with y step have "fst (snd (report parse C c opts (tr, l))) = es2 @ tr1" by simp
      with False built Inr es1(1) show ?thesis by (intro exI [of _ "es2 @ es1"]) simp
    qed
  qed
qed

end
