(* ===== verification/Counting.thy ===== *)
theory Counting
  imports Host
begin

text \<open>How many requests of a kind a program makes at most, by composition.\<close>

definition at_most :: "(event \<Rightarrow> bool) \<Rightarrow> nat \<Rightarrow> ('l, 'a) prog \<Rightarrow> bool" where
  "at_most P k m \<longleftrightarrow> (\<forall>tr l. \<exists>es. fst (snd (m (tr, l))) = es @ tr \<and> length (filter P es) \<le> k)"

lemma at_mostE:
  assumes "at_most P k m"
  obtains es where "fst (snd (m (tr, l))) = es @ tr" "length (filter P es) \<le> k"
  using assms unfolding at_most_def by blast

lemma at_mostI:
  "(\<And>tr l. \<exists>es. fst (snd (m (tr, l))) = es @ tr \<and> length (filter P es) \<le> k) \<Longrightarrow> at_most P k m"
  by (simp add: at_most_def)

text \<open>A program whose requests are all of the other kind makes none of this one.\<close>

lemma at_most_none: "emits Q m \<Longrightarrow> (\<And>e. Q e \<Longrightarrow> \<not> P e) \<Longrightarrow> at_most P k m"
  unfolding emits_def at_most_def by (metis filter_False le0 list.size(3))

lemma at_most_mono: "at_most P j m \<Longrightarrow> j \<le> k \<Longrightarrow> at_most P k m"
  unfolding at_most_def by (meson order_trans)

lemma at_most_ask: "at_most P 1 (ask e f)"
  by (rule at_mostI) (auto simp: ask_def intro!: exI [of _ "[e]"])

lemma at_most_ask_or: "at_most P 1 (ask_or e f)"
  by (rule at_mostI) (auto simp: ask_or_def intro!: exI [of _ "[e]"])

lemma at_most_bind:
  assumes m: "at_most P j m" and f: "\<And>x. at_most P k (f x)"
  shows "at_most P (j + k) (bind m f)"
proof (rule at_mostI)
  fix tr l
  obtain r tr' l' where run: "m (tr, l) = (r, tr', l')" by (cases "m (tr, l)") auto
  from at_mostE [OF m, of tr l] run obtain es where es: "tr' = es @ tr" "length (filter P es) \<le> j" by auto
  show "\<exists>es. fst (snd (bind m f (tr, l))) = es @ tr \<and> length (filter P es) \<le> j + k"
  proof (cases r)
    case (Inl e)
    with run es show ?thesis by (auto simp: bind_def)
  next
    case (Inr x)
    obtain fs where fs: "fst (snd (f x (tr', l'))) = fs @ tr'" "length (filter P fs) \<le> k" by (rule at_mostE [OF f])
    with run Inr es show ?thesis by (intro exI [of _ "fs @ es"]) (auto simp: bind_def)
  qed
qed

text \<open>First a part that makes none, then the rest; and the other way round.\<close>

lemma none_then:
  "emits Q m \<Longrightarrow> (\<And>e. Q e \<Longrightarrow> \<not> P e) \<Longrightarrow> (\<And>x. at_most P k (f x)) \<Longrightarrow> at_most P k (bind m f)"
  using at_most_bind [where j = 0 and P = P and m = m and k = k and f = f] by (simp add: at_most_none [where Q = Q])

lemma then_none:
  "at_most P k m \<Longrightarrow> (\<And>x. emits Q (f x)) \<Longrightarrow> (\<And>e. Q e \<Longrightarrow> \<not> P e) \<Longrightarrow> at_most P k (bind m f)"
  using at_most_bind [where j = k and P = P and m = m and k = 0 and f = f] by (simp add: at_most_none [where Q = Q])

lemma at_most_if: "(b \<Longrightarrow> at_most P k m) \<Longrightarrow> (\<not> b \<Longrightarrow> at_most P k n) \<Longrightarrow> at_most P k (if b then m else n)"
  by simp

lemma at_most_prod: "(\<And>a b. at_most P k (f a b)) \<Longrightarrow> at_most P k (case z of (a, b) \<Rightarrow> f a b)"
  by (cases z) simp

lemma at_most_list: "at_most P k m \<Longrightarrow> (\<And>x xs. at_most P k (f x xs)) \<Longrightarrow> at_most P k (case zs of [] \<Rightarrow> m | x # xs \<Rightarrow> f x xs)"
  by (cases zs) simp_all

end
