(* ===== verification/Dns.thy ===== *)
theory Dns
  imports Checked Announce Counting Sample
begin

text \<open>
  The DNS adapter, \<^verbatim>\<open>lib/dns.js\<close>: Cloudflare's API behind \<^verbatim>\<open>ovhost dns list\<close>, \<^verbatim>\<open>ensure\<close> and \<^verbatim>\<open>delete\<close>. A record
  as Cloudflare answers it is JSON; the DNS-only names of the inventory are an argument.
\<close>

section \<open>Values of an answer\<close>

definition type_fault :: "('l, 'a) prog" where
  "type_fault = throw (JsError ''TypeError'')"

text \<open>\<^verbatim>\<open>v.k\<close>\<close>

definition prop_at :: "str \<Rightarrow> json option \<Rightarrow> ('l, json option) prog" where
  "prop_at k v = (if is_null v then type_fault else ret (case v of Some x \<Rightarrow> member_of k x | None \<Rightarrow> None))"

text \<open>What \<^verbatim>\<open>v.length\<close> and \<^verbatim>\<open>v[i]\<close> see; an object is taken to have neither.\<close>

definition elements_of :: "json option \<Rightarrow> ('l, json list) prog" where
  "elements_of v =
     (case v of
        None \<Rightarrow> type_fault
      | Some JNull \<Rightarrow> type_fault
      | Some (JArr xs) \<Rightarrow> ret xs
      | Some (JStr s) \<Rightarrow> ret (map (\<lambda>c. JStr [c]) s)
      | Some _ \<Rightarrow> ret [])"

text \<open>\<^verbatim>\<open>encodeURIComponent\<close> of UTF-8 bytes\<close>

definition uri_char :: "char \<Rightarrow> str" where
  "uri_char ch =
     (if is_alnum ch \<or> ch \<in> set ''-_.!~*()'' \<or> ch = CHR 0x27 then [ch]
      else [CHR ''%'', hex_upper (of_char ch div 16), hex_upper (of_char ch mod 16)])"

definition uri_text :: "str \<Rightarrow> str" where
  "uri_text s = concat (map uri_char s)"

section \<open>The token and the client\<close>

record dns_access =
  da_token_file :: "str option"
  da_env_file :: "str option"
  da_home :: "str option"
  da_env_token :: "str option"

definition nonempty :: "str option \<Rightarrow> str list" where
  "nonempty v = (case v of Some s \<Rightarrow> (if s = [] then [] else [s]) | None \<Rightarrow> [])"

fun first_token :: "host \<Rightarrow> str option \<Rightarrow> str list \<Rightarrow> ('l, str option) prog" where
  "first_token H tokenFile [] = ret None"
| "first_token H tokenFile (f # fs) =
     bind (try_catch (exec_read H f) (\<lambda>_. ret None)) (\<lambda>text.
     case text of
       Some t \<Rightarrow> (if trim t \<noteq> [] then ret (Some (trim t))
                 else if Some f = tokenFile then throw (DnsError ''--token-file is not readable'' 1) else first_token H tokenFile fs)
     | None \<Rightarrow> (if Some f = tokenFile then throw (DnsError ''--token-file is not readable'' 1) else first_token H tokenFile fs))"

definition load_token :: "host \<Rightarrow> dns_access \<Rightarrow> ('l, str) prog" where
  "load_token H a =
     bind (first_token H (da_token_file a)
       (nonempty (da_token_file a) @ nonempty (da_env_file a)
        @ map (\<lambda>h. path_join [h, ''.config'', ''cloudflare-token'']) (nonempty (da_home a)))) (\<lambda>t.
     case (t, nonempty (da_env_token a)) of
       (Some token, _) \<Rightarrow> ret token
     | (None, token # _) \<Rightarrow> ret (trim token)
     | (None, []) \<Rightarrow> throw (DnsError ''no Cloudflare token'' 1))"

definition cloudflare_api :: str where
  "cloudflare_api = ''https://api.cloudflare.com/client/v4''"

text \<open>The errors of an answer are read to be reported, and reading them can fail too.\<close>

definition refused_answer :: "json option \<Rightarrow> ('l, 'a) prog" where
  "refused_answer j =
     (case soft ''errors'' j of
        Some (JArr es) \<Rightarrow> (if JNull \<in> set es then type_fault else throw (DnsError ''Cloudflare refused'' 2))
      | _ \<Rightarrow> throw (DnsError ''Cloudflare refused'' 2))"

definition cf :: "host \<Rightarrow> str \<Rightarrow> str \<Rightarrow> json option \<Rightarrow> ('l, json option) prog" where
  "cf H verb route body =
     bind (exec_request H verb (cloudflare_api @ route) (case body of Some b \<Rightarrow> json_text b | None \<Rightarrow> [])) (\<lambda>r.
     let j = json_parse (hs_body r) in
     if soft ''success'' j = Some (JBool True) then ret (soft ''result'' j) else refused_answer j)"

text \<open>The longest suffix of the name that is a zone the token can see.\<close>

fun zone_suffixes :: "str list \<Rightarrow> str list" where
  "zone_suffixes (a # b # ls) = join ''.'' (a # b # ls) # zone_suffixes (b # ls)"
| "zone_suffixes _ = []"

fun first_zone :: "host \<Rightarrow> str list \<Rightarrow> ('l, json) prog" where
  "first_zone H [] = throw (DnsError ''no zone is visible to this token'' 1)"
| "first_zone H (z # zs) =
     bind (cf H ''GET'' (''/zones?name='' @ uri_text z @ ''&per_page=5'') None) (\<lambda>r.
     case r of
       Some (JArr (x # _)) \<Rightarrow> ret x
     | _ \<Rightarrow> first_zone H zs)"

definition zone_for :: "host \<Rightarrow> str \<Rightarrow> ('l, json) prog" where
  "zone_for H name =
     first_zone H (zone_suffixes (split_on (CHR ''.'') (if starts_with name ''*.'' then drop 2 name else name)))"

section \<open>Records\<close>

record dns_row =
  dr_name :: "json option"
  dr_type :: "json option"
  dr_content :: "json option"
  dr_proxied :: bool
  dr_ttl :: "json option"

definition show_row :: "json option \<Rightarrow> ('l, dns_row) prog" where
  "show_row v =
     (if is_null v then type_fault
      else let get = (\<lambda>k. case v of Some x \<Rightarrow> member_of k x | None \<Rightarrow> None) in
        ret \<lparr>dr_name = get ''name'', dr_type = get ''type'', dr_content = get ''content'',
             dr_proxied = truthy (get ''proxied''), dr_ttl = get ''ttl''\<rparr>)"

fun zone_pages :: "host \<Rightarrow> str \<Rightarrow> nat list \<Rightarrow> dns_row list \<Rightarrow> ('l, dns_row list) prog" where
  "zone_pages H zid [] out = ret out"
| "zone_pages H zid (p # ps) out =
     bind (cf H ''GET'' (''/zones/'' @ zid @ ''/dns_records?per_page=100&page='' @ nat_str p) None) (\<lambda>r.
     case r of
       Some (JArr xs) \<Rightarrow>
         bind (mapp (\<lambda>x. show_row (Some x)) xs) (\<lambda>rows.
         if length xs < 100 then ret (out @ rows) else zone_pages H zid ps (out @ rows))
     | _ \<Rightarrow> type_fault)"

text \<open>
  By name, then type. The rows Cloudflare lists have texts for both; of two rows or more, one without makes the
  comparison throw.
\<close>

definition row_le :: "host \<Rightarrow> dns_row \<Rightarrow> dns_row \<Rightarrow> bool" where
  "row_le H a b =
     (let le = (\<lambda>x y. h_collate H (text_of x) (text_of y)) in
      if le (dr_name a) (dr_name b) \<and> le (dr_name b) (dr_name a) then le (dr_type a) (dr_type b) else le (dr_name a) (dr_name b))"

definition sort_rows :: "host \<Rightarrow> dns_row list \<Rightarrow> ('l, dns_row list) prog" where
  "sort_rows H rows =
     (if 2 \<le> length rows \<and> list_ex (\<lambda>r. string_of (dr_name r) = None \<or> string_of (dr_type r) = None) rows then type_fault
      else ret (sort_by (row_le H) rows))"

definition dns_list :: "host \<Rightarrow> dns_access \<Rightarrow> str \<Rightarrow> ('l, json option \<times> dns_row list) prog" where
  "dns_list H a zoneName =
     bind (load_token H a) (\<lambda>_.
     bind (zone_for H zoneName) (\<lambda>zone.
     bind (prop_at ''id'' (Some zone)) (\<lambda>zid.
     bind (zone_pages H (text_of zid) [1..<21] []) (\<lambda>rows.
     bind (sort_rows H rows) (\<lambda>sorted.
     ret (member_of ''name'' zone, sorted))))))"

text \<open>
  \<^verbatim>\<open>/^(?=.{1,253}$)(\*\.)?([a-z0-9_](?:[a-z0-9_-]{0,61}[a-z0-9])?\.)+[a-z]{2,63}$/\<close>
\<close>

definition is_dns_label :: "str \<Rightarrow> bool" where
  "is_dns_label s \<longleftrightarrow>
     s \<noteq> [] \<and> length s \<le> 63 \<and> (is_lower (hd s) \<or> is_digit (hd s) \<or> hd s = CHR ''_'')
     \<and> list_all (\<lambda>c. is_lower c \<or> is_digit c \<or> c \<in> set ''_-'') s
     \<and> (length s = 1 \<or> is_lower (last s) \<or> is_digit (last s))"

definition is_dns_name :: "str \<Rightarrow> bool" where
  "is_dns_name s \<longleftrightarrow>
     (let ls = split_on (CHR ''.'') s; body = (if hd ls = ''*'' then tl ls else ls) in
      length s \<le> 253 \<and> 2 \<le> length body \<and> list_all is_dns_label (butlast body)
      \<and> list_all is_lower (last body) \<and> 2 \<le> length (last body) \<and> length (last body) \<le> 63)"

definition record_types :: "str list" where
  "record_types = [''A'', ''AAAA'', ''CNAME'', ''TXT'', ''MX'', ''CAA'']"

definition proxyable :: "str list" where
  "proxyable = [''A'', ''AAAA'', ''CNAME'']"

text \<open>What is wanted. The time to live is left out (\<open>None\<close>) or a number, NaN being \<open>Some None\<close>.\<close>

record dns_record =
  rd_name :: str
  rd_type :: str
  rd_content :: str
  rd_proxied :: "bool option"
  rd_ttl :: "rat option option"

definition is_service_label :: "str \<Rightarrow> bool" where
  "is_service_label name \<longleftrightarrow> list_ex (\<lambda>l. starts_with l ''_'') (split_on (CHR ''.'') name)"

definition ttl_ok :: "rat option option \<Rightarrow> bool" where
  "ttl_ok t =
     (case t of None \<Rightarrow> True | Some None \<Rightarrow> False | Some (Some q) \<Rightarrow> is_whole q \<and> (q = 1 \<or> 60 \<le> q \<and> q \<le> 86400))"

definition ttl_json :: "rat option option \<Rightarrow> json" where
  "ttl_json t = (case t of Some (Some q) \<Rightarrow> JNum q | _ \<Rightarrow> JNull)"

definition check_record :: "str list \<Rightarrow> dns_record \<Rightarrow> exc option" where
  "check_record dns_only r =
     (let fail = (\<lambda>m. Some (DnsError m 1)); proxied = rd_proxied r = Some True in
      if \<not> is_dns_name (map lower_char (rd_name r)) then fail ''not a DNS name''
      else if rd_type r \<notin> set record_types then fail ''type is one of''
      else if rd_content r = [] then fail ''content is required''
      else if rd_type r \<in> set proxyable \<and> rd_proxied r = None then fail ''records need --proxied or --dns-only''
      else if rd_type r \<notin> set proxyable \<and> proxied then fail ''records cannot be proxied''
      else if proxied \<and> map lower_char (rd_name r) \<in> set (map (map lower_char) dns_only) then fail ''is DNS-only by the inventory''
      else if proxied \<and> is_service_label (rd_name r) then fail ''is a service record''
      else if \<not> ttl_ok (rd_ttl r) then fail ''ttl is 1 (automatic) or 60-86400 seconds''
      else None)"

definition raise_if :: "exc option \<Rightarrow> ('l, unit) prog" where
  "raise_if e = (case e of Some x \<Rightarrow> throw x | None \<Rightarrow> ret ())"

definition record_body :: "dns_record \<Rightarrow> (str \<times> json) list" where
  "record_body r =
     [(''type'', JStr (rd_type r)), (''name'', JStr (rd_name r)), (''content'', JStr (rd_content r)),
      (''ttl'', ttl_json (rd_ttl r))]
     @ (if rd_type r \<in> set proxyable then [(''proxied'', JBool (rd_proxied r = Some True))] else [])"

text \<open>Whether Cloudflare's record is already the one wanted.\<close>

definition same_record :: "dns_record \<Rightarrow> json \<Rightarrow> bool" where
  "same_record r cur \<longleftrightarrow>
     member_of ''content'' cur = Some (JStr (rd_content r))
     \<and> (rd_type r \<notin> set proxyable \<or> truthy (member_of ''proxied'' cur) = (rd_proxied r = Some True))
     \<and> (member_of ''ttl'' cur = Some (ttl_json (rd_ttl r))
        \<or> rd_proxied r = Some True \<and> rd_type r \<in> set proxyable \<and> member_of ''ttl'' cur = Some (JNum 1))"

record dns_change =
  ch_action :: str
  ch_dry_run :: bool
  ch_zone :: "json option"
  ch_before :: "dns_row option"
  ch_after :: "dns_row option"

definition records_route :: "str \<Rightarrow> str \<Rightarrow> str \<Rightarrow> str" where
  "records_route zid type name = ''/zones/'' @ zid @ ''/dns_records?type='' @ type @ ''&name='' @ uri_text name"

text \<open>The zone of a name, its id, and the records of that name and type there.\<close>

definition existing_records :: "host \<Rightarrow> dns_access \<Rightarrow> str \<Rightarrow> str \<Rightarrow> ('l, json \<times> str \<times> json list) prog" where
  "existing_records H a type name =
     bind (load_token H a) (\<lambda>_.
     bind (zone_for H name) (\<lambda>zone.
     bind (prop_at ''id'' (Some zone)) (\<lambda>zid.
     bind (cf H ''GET'' (records_route (text_of zid) type name) None) (\<lambda>r.
     bind (elements_of r) (\<lambda>xs.
     if 1 < length xs then throw (DnsError ''several records of that name: resolve them by hand'' 2)
     else ret (zone, text_of zid, xs))))))"

definition show_before :: "json option \<Rightarrow> ('l, dns_row option) prog" where
  "show_before cur = (case cur of None \<Rightarrow> ret None | Some x \<Rightarrow> bind (show_row (Some x)) (\<lambda>r. ret (Some r)))"

text \<open>\<^verbatim>\<open>existing[0] || null\<close>\<close>

definition first_record :: "json list \<Rightarrow> json option" where
  "first_record xs = (case xs of x # _ \<Rightarrow> (if truthy (Some x) then Some x else None) | [] \<Rightarrow> None)"

definition wanted_record :: "dns_record \<Rightarrow> dns_record" where
  "wanted_record r =
     r\<lparr>rd_name := map lower_char (rd_name r), rd_type := map upper_char (rd_type r),
       rd_ttl := (case rd_ttl r of None \<Rightarrow> Some (Some 1) | t \<Rightarrow> t)\<rparr>"

definition wanted_row :: "dns_record \<Rightarrow> dns_row" where
  "wanted_row r =
     \<lparr>dr_name = Some (JStr (rd_name r)), dr_type = Some (JStr (rd_type r)), dr_content = Some (JStr (rd_content r)),
      dr_proxied = (rd_type r \<in> set proxyable \<and> rd_proxied r = Some True), dr_ttl = Some (ttl_json (rd_ttl r))\<rparr>"

definition change_record :: "host \<Rightarrow> str \<Rightarrow> dns_record \<Rightarrow> json option \<Rightarrow> ('l, json option) prog" where
  "change_record H zid r cur =
     (let body = Some (JObj (record_body r)) in
      case cur of
        Some x \<Rightarrow> cf H ''PUT'' (''/zones/'' @ zid @ ''/dns_records/'' @ text_of (member_of ''id'' x)) body
      | None \<Rightarrow> cf H ''POST'' (''/zones/'' @ zid @ ''/dns_records'') body)"

definition dns_ensure :: "host \<Rightarrow> str list \<Rightarrow> dns_access \<Rightarrow> dns_record \<Rightarrow> bool \<Rightarrow> ('l, dns_change) prog" where
  "dns_ensure H dns_only a rec apply =
     (let r = wanted_record rec in
      andthen (raise_if (check_record dns_only r))
      (bind (existing_records H a (rd_type r) (rd_name r)) (\<lambda>(zone, zid, xs).
       let cur = first_record xs; action = (if cur = None then ''create'' else ''update''); zname = member_of ''name'' zone in
       if (case cur of Some x \<Rightarrow> same_record r x | None \<Rightarrow> False)
       then bind (show_row cur) (\<lambda>row. ret \<lparr>ch_action = ''unchanged'', ch_dry_run = False, ch_zone = zname, ch_before = None, ch_after = Some row\<rparr>)
       else if \<not> apply
       then bind (show_before cur) (\<lambda>before.
            ret \<lparr>ch_action = action, ch_dry_run = True, ch_zone = zname, ch_before = before, ch_after = Some (wanted_row r)\<rparr>)
       else bind (change_record H zid r cur) (\<lambda>done.
            bind (show_before cur) (\<lambda>before.
            bind (show_row done) (\<lambda>after.
            ret \<lparr>ch_action = action, ch_dry_run = False, ch_zone = zname, ch_before = before, ch_after = Some after\<rparr>))))))"

definition dns_remove :: "host \<Rightarrow> dns_access \<Rightarrow> str \<Rightarrow> str \<Rightarrow> bool \<Rightarrow> ('l, dns_change) prog" where
  "dns_remove H a name type apply =
     (let n = map lower_char name; t = map upper_char type in
      if \<not> is_dns_name n then throw (DnsError ''not a DNS name'' 1)
      else if t \<notin> set record_types then throw (DnsError ''type is one of'' 1)
      else
        bind (existing_records H a t n) (\<lambda>(zone, zid, xs).
        let zname = member_of ''name'' zone in
        case xs of
          [] \<Rightarrow> ret \<lparr>ch_action = ''absent'', ch_dry_run = False, ch_zone = zname, ch_before = None, ch_after = None\<rparr>
        | x # _ \<Rightarrow>
            (if \<not> apply
             then bind (show_row (Some x)) (\<lambda>row.
                  ret \<lparr>ch_action = ''delete'', ch_dry_run = True, ch_zone = zname, ch_before = Some row, ch_after = None\<rparr>)
             else bind (prop_at ''id'' (Some x)) (\<lambda>rid.
                  bind (cf H ''DELETE'' (''/zones/'' @ zid @ ''/dns_records/'' @ text_of rid) None) (\<lambda>_.
                  bind (show_row (Some x)) (\<lambda>row.
                  ret \<lparr>ch_action = ''delete'', ch_dry_run = False, ch_zone = zname, ch_before = Some row, ch_after = None\<rparr>))))))"

section \<open>What is changed\<close>

definition only_reads :: "event \<Rightarrow> bool" where
  "only_reads e \<longleftrightarrow> (case e of ERequest m u b \<Rightarrow> m = ''GET'' | _ \<Rightarrow> True)"

lemma only_reads_simps [simp]: "only_reads (ERead p)" "only_reads (ERequest m u b) \<longleftrightarrow> m = ''GET''"
  by (simp_all add: only_reads_def)

lemma reads_faults [emits_rules]:
  "emits A type_fault" "emits A (prop_at k v)" "emits A (elements_of v)" "emits A (refused_answer v)" "emits A (raise_if e)" "emits A (show_row v)"
  "emits A (show_before v)" "emits A (sort_rows H rows)"
  unfolding type_fault_def prop_at_def elements_of_def refused_answer_def raise_if_def show_row_def show_before_def sort_rows_def Let_def
  by (auto intro!: emits_rules split: option.split json.split)

lemma reads_first_token: "emits only_reads (first_token H f fs)"
  by (induction H f fs rule: first_token.induct) (auto intro!: emits_rules split: option.split)

lemma reads_token [emits_rules]: "emits only_reads (load_token H a)"
  unfolding load_token_def by (intro emits_rules reads_first_token)

lemma emits_cf [emits_rules]: "(\<And>u b. A (ERequest m u b)) \<Longrightarrow> emits A (cf H m route body)"
  unfolding cf_def Let_def by (intro emits_rules)

lemma reads_first_zone: "emits only_reads (first_zone H zs)"
  by (induction H zs rule: first_zone.induct) (auto intro!: emits_rules split: option.split json.split list.split)

lemma reads_existing [emits_rules]: "emits only_reads (existing_records H a t n)"
  unfolding existing_records_def zone_for_def by (intro emits_rules reads_first_zone) simp


abbreviation changes :: "event \<Rightarrow> bool" where
  "changes e \<equiv> \<not> only_reads e"

lemma changes_cf: "at_most changes 1 (cf H m route body)"
proof -
  have "at_most changes 1 (exec_request H m u b)" for u b unfolding exec_request_def by (rule at_most_ask)
  then show ?thesis unfolding cf_def Let_def by (intro then_none [where Q = only_reads] emits_rules) auto
qed

lemma changes_record: "at_most changes 1 (change_record H zid r cur)"
  unfolding change_record_def Let_def by (cases cur) (simp_all only: option.case changes_cf)

lemma one_change_if_applied:
  "emits only_reads a \<Longrightarrow> at_most changes 1 b \<Longrightarrow> at_most changes (if apply then 1 else 0) (if \<not> apply then a else b)"
  using at_most_none [where Q = only_reads and P = changes and m = a and k = 0] by (cases "apply") simp_all

lemma no_change: "emits only_reads a \<Longrightarrow> at_most changes k a"
  by (erule at_most_none) simp

lemma changes_ensure: "at_most changes (if apply then 1 else 0) (dns_ensure H dns_only a rec apply)"
  unfolding dns_ensure_def andthen_def Let_def
  apply (rule none_then [where Q = only_reads, OF reads_faults(5)], simp)
  apply (rule none_then [where Q = only_reads, OF reads_existing], simp)
  apply (rule at_most_prod)+
  apply (rule at_most_if)
   apply (intro no_change emits_rules)
  apply (rule one_change_if_applied)
   apply (intro emits_rules)
  apply (rule then_none [where Q = only_reads, OF changes_record])
   apply (intro emits_rules)
  apply simp
  done

lemma changes_remove: "at_most changes (if apply then 1 else 0) (dns_remove H a name type apply)"
  unfolding dns_remove_def Let_def
  apply (intro at_most_if)
    apply (intro no_change emits_rules)
   apply (intro no_change emits_rules)
  apply (rule none_then [where Q = only_reads, OF reads_existing], simp)
  apply (rule at_most_prod)+
  apply (rule at_most_list)
   apply (intro no_change emits_rules)
  apply (rule one_change_if_applied)
   apply (intro emits_rules)
  apply (rule none_then [where Q = only_reads, OF reads_faults(2)], simp)
  apply (rule then_none [where Q = only_reads, OF changes_cf])
   apply (intro emits_rules)
  apply simp
  done

definition changed :: "event list \<Rightarrow> (str \<times> str \<times> str) list" where
  "changed es = concat (map (\<lambda>e. case e of ERequest m u b \<Rightarrow> (if m = ''GET'' then [] else [(m, u, b)]) | _ \<Rightarrow> []) es)"

lemma length_changed: "length (changed es) = length (filter changes es)"
  by (induction es) (auto simp: changed_def only_reads_def split: event.splits)

text \<open>
  Property C30. A change of DNS is a dry run unless it is applied: without \<^verbatim>\<open>--apply\<close> \<^verbatim>\<open>ensure\<close> and \<^verbatim>\<open>delete\<close> send
  nothing but GET requests, and with it at most one other request each, whatever Cloudflare and the machine answer.
\<close>

theorem dns_changes_once:
  "\<exists>es fs. fst (snd (dns_ensure H dns_only a rec apply (tr, l))) = es @ tr
     \<and> fst (snd (dns_remove H a name type apply (tr, l))) = fs @ tr
     \<and> (if apply then length (changed es) \<le> 1 \<and> length (changed fs) \<le> 1 else changed es = [] \<and> changed fs = [])"
proof -
  obtain es where es: "fst (snd (dns_ensure H dns_only a rec apply (tr, l))) = es @ tr" "length (filter changes es) \<le> (if apply then 1 else 0)"
    by (rule at_mostE [OF changes_ensure])
  obtain fs where fs: "fst (snd (dns_remove H a name type apply (tr, l))) = fs @ tr" "length (filter changes fs) \<le> (if apply then 1 else 0)"
    by (rule at_mostE [OF changes_remove])
  have "if apply then length (changed es) \<le> 1 \<and> length (changed fs) \<le> 1 else changed es = [] \<and> changed fs = []"
    using es(2) fs(2) by (cases "apply") (simp_all flip: length_changed)
  with es(1) fs(1) show ?thesis by blast
qed

lemma lower_char_idem: "lower_char (lower_char c) = lower_char c"
proof (cases "is_upper c")
  case True
  then have "65 \<le> (of_char c :: nat)" "(of_char c :: nat) \<le> 90" by (simp_all add: is_upper_def less_eq_char_def)
  then have "\<not> is_upper (lower_char c)" using True by (simp add: is_upper_def less_eq_char_def lower_char_def)
  then show ?thesis by (simp add: lower_char_def)
qed (simp add: lower_char_def)

lemma dns_only_refused:
  assumes "map lower_char (rd_name r) \<in> set (map (map lower_char) dns_only)" "rd_proxied r = Some True"
  shows "\<exists>m. check_record dns_only (wanted_record r) = Some (DnsError m 1)"
proof -
  have low: "lower_char \<circ> lower_char = lower_char" by (simp add: fun_eq_iff lower_char_idem)
  show ?thesis using assms by (auto simp: check_record_def Let_def wanted_record_def low)
qed

text \<open>
  A name the inventory lists as DNS-only is never proxied: asked to proxy it, \<^verbatim>\<open>ensure\<close> fails with
  exit code 1 before it reads the token or sends a request.
\<close>

theorem dns_only_never_proxied:
  assumes "map lower_char (rd_name r) \<in> set (map (map lower_char) dns_only)" "rd_proxied r = Some True"
  shows "\<exists>m. dns_ensure H dns_only a r apply s = (Inl (DnsError m 1), s)"
  using dns_only_refused [OF assms] by (auto simp: dns_ensure_def andthen_def bind_def raise_if_def throw_def Let_def)

definition relay_record :: dns_record where
  "relay_record = \<lparr>rd_name = ''Relay.OpenVibe.live'', rd_type = ''a'', rd_content = ''192.0.2.7'', rd_proxied = Some True, rd_ttl = None\<rparr>"

theorem dns_only_never_proxied_witness:
  "\<exists>m. dns_ensure (sample_host [] 200) [''relay.openvibe.live'']
      \<lparr>da_token_file = None, da_env_file = None, da_home = None, da_env_token = Some ''t''\<rparr> relay_record True ([], ()) =
     (Inl (DnsError m 1), [], ())"
  by (rule dns_only_never_proxied) code_simp+

end
