(* ===== verification/Backup_Run.thy ===== *)
theory Backup_Run
  imports Backup Alerts Dns
begin

text \<open>
  \<^verbatim>\<open>backupAll\<close> of \<^verbatim>\<open>lib/commands/backup.js\<close>: every service with data is backed up and pruned, one failure never
  stops the others; the summary, the copy off the host, and the metrics of the last run.
\<close>

section \<open>One service of a run\<close>

record service_run =
  er_service :: str
  er_status :: str
  er_dir :: json
  er_files :: "json option"
  er_error :: "str option"
  er_pruned :: "str list"
  er_verified :: "json option"

text \<open>\<^verbatim>\<open>v || null\<close>\<close>

definition or_jnull :: "json option \<Rightarrow> json" where
  "or_jnull v = or_else v JNull"

definition backed_up :: "str \<Rightarrow> backup_record \<Rightarrow> service_run" where
  "backed_up sid r =
     \<lparr>er_service = sid, er_status = (if bk_engine r = Some ''postgresql'' \<and> bk_dir r = None then ''verified'' else ''ok''),
      er_dir = or_null (bk_dir r), er_files = Some (JArr (map file_json (bk_files r))), er_error = None, er_pruned = [],
      er_verified = map_option verified_json (bk_verified r)\<rparr>"

text \<open>A failed backup keeps what its record says.\<close>

definition backup_failed :: "str \<Rightarrow> exc \<Rightarrow> service_run" where
  "backup_failed sid e =
     (case e of
        BackupError m r \<Rightarrow>
          \<lparr>er_service = sid, er_status = ''failed'', er_dir = or_jnull (jget ''dir'' r), er_files = jget ''files'' r,
           er_error = Some m, er_pruned = [], er_verified = when_set (jget ''verified'' r)\<rparr>
      | _ \<Rightarrow>
          \<lparr>er_service = sid, er_status = ''failed'', er_dir = JNull, er_files = Some (JArr []), er_error = Some (exc_message e),
           er_pruned = [], er_verified = None\<rparr>)"

definition prune_failed :: "service_run \<Rightarrow> exc \<Rightarrow> service_run" where
  "prune_failed r e =
     r\<lparr>er_status := ''failed'',
       er_error := Some (join ''; '' (filter (\<lambda>m. m \<noteq> []) [(case er_error r of Some m \<Rightarrow> m | None \<Rightarrow> []), ''prune: '' @ exc_message e]))\<rparr>"

definition run_service :: "ctx \<Rightarrow> str \<Rightarrow> bool \<Rightarrow> bool \<Rightarrow> nat \<Rightarrow> nat \<Rightarrow> service \<Rightarrow> ('l, service_run) prog" where
  "run_service c run logical doPrune daily weekly svc =
     bind (try_catch (bind (backup c (s_id svc) (''scheduled '' @ run) logical) (\<lambda>r. ret (backed_up (s_id svc) r)))
            (\<lambda>e. ret (backup_failed (s_id svc) e))) (\<lambda>r.
     if doPrune
     then try_catch (bind (prune_backups c (s_id svc) daily weekly) (\<lambda>p. ret (r\<lparr>er_pruned := pp_removed p\<rparr>))) (\<lambda>e. ret (prune_failed r e))
     else ret r)"

section \<open>The summary\<close>

text \<open>What the copy off the host answers is an object; a failed copy is one with its error.\<close>

record run_summary =
  rs_run :: str
  rs_host :: json
  rs_started :: int
  rs_finished :: "int option"
  rs_ok :: bool
  rs_daily :: nat
  rs_weekly :: nat
  rs_services :: "service_run list"
  rs_offsite :: "(str \<times> json) list option"

definition service_run_json :: "service_run \<Rightarrow> json" where
  "service_run_json r =
     JObj ([(''service'', JStr (er_service r)), (''status'', JStr (er_status r)), (''dir'', er_dir r)]
       @ field ''files'' (er_files r)
       @ [(''error'', or_null (er_error r)), (''pruned'', JArr (map JStr (er_pruned r)))]
       @ field ''verified'' (er_verified r))"

definition summary_json :: "run_summary \<Rightarrow> json" where
  "summary_json s =
     JObj [(''run'', JStr (rs_run s)), (''host'', rs_host s), (''startedAt'', JStr (iso_string (rs_started s))),
           (''finishedAt'', case rs_finished s of Some t \<Rightarrow> JStr (iso_string t) | None \<Rightarrow> JNull), (''ok'', JBool (rs_ok s)),
           (''retention'', JObj [(''daily'', JNum (of_nat (rs_daily s))), (''weekly'', JNum (of_nat (rs_weekly s)))]),
           (''services'', JArr (map service_run_json (rs_services s))),
           (''offsite'', case rs_offsite s of Some ps \<Rightarrow> JObj ps | None \<Rightarrow> JNull)]"

definition runs_dir :: "inventory \<Rightarrow> str" where
  "runs_dir i = path_join [inv_state_dir i, ''backup-runs'']"

definition run_file :: "inventory \<Rightarrow> str \<Rightarrow> str" where
  "run_file i run = path_join [inv_state_dir i, ''backup-runs'', run @ ''.json'']"

section \<open>Metrics\<close>

text \<open>The receiver of \<^verbatim>\<open>filter\<close>, and what \<^verbatim>\<open>for ... of\<close> runs over.\<close>

definition array_at :: "json option \<Rightarrow> ('l, json list) prog" where
  "array_at v = (case v of Some (JArr xs) \<Rightarrow> ret xs | _ \<Rightarrow> type_fault)"

definition iterate :: "json option \<Rightarrow> ('l, json list) prog" where
  "iterate v = (case v of Some (JArr xs) \<Rightarrow> ret xs | Some (JStr s) \<Rightarrow> ret (map (\<lambda>c. JStr [c]) s) | _ \<Rightarrow> type_fault)"

text \<open>\<^verbatim>\<open>Math.floor(Date.parse(iso) / 1000)\<close>, as it is written.\<close>

definition seconds_text :: "host \<Rightarrow> json option \<Rightarrow> str" where
  "seconds_text H v = (case h_date_parse H (text_of v) of Some t \<Rightarrow> int_str (t div 1000) | None \<Rightarrow> ''NaN'')"

text \<open>The newest recorded run that succeeded; what cannot be read is skipped.\<close>

fun last_good_run :: "host \<Rightarrow> str \<Rightarrow> str list \<Rightarrow> ('l, json option) prog" where
  "last_good_run H dir [] = ret None"
| "last_good_run H dir (n # ns) =
     bind (try_catch (bind (exec_read H (path_join [dir, n])) (\<lambda>t. ret (json_parse (case t of Some x \<Rightarrow> (if x = [] then ''null'' else x) | None \<Rightarrow> ''null'')))) (\<lambda>_. ret None)) (\<lambda>r.
     if truthy r \<and> truthy (soft ''ok'' r) \<and> truthy (soft ''finishedAt'' r) then ret (soft ''finishedAt'' r)
     else last_good_run H dir ns)"

definition status_count :: "str \<Rightarrow> json list \<Rightarrow> nat" where
  "status_count st xs = length (filter (\<lambda>x. member_of ''status'' x = Some (JStr st)) xs)"

definition verified_lines :: "json list \<Rightarrow> str list" where
  "verified_lines vs =
     [''# HELP openvibe_backup_pg_verified 1 when a service's PostgreSQL backup verification passed in the last run.'',
      ''# TYPE openvibe_backup_pg_verified gauge''] @
     map (\<lambda>x. ''openvibe_backup_pg_verified{service='' @ [CHR 0x22] @ text_of (member_of ''service'' x) @ [CHR 0x22] @ ''} ''
            @ (if truthy (soft ''ok'' (member_of ''verified'' x)) then ''1'' else ''0'')) vs"

definition stops_of :: "host \<Rightarrow> json list \<Rightarrow> int list" where
  "stops_of H vs =
     List.map_filter (\<lambda>x. h_date_parse H (text_of (soft ''stop'' (member_of ''verified'' x))))
       (filter (\<lambda>x. truthy (soft ''stop'' (member_of ''verified'' x))) vs)"

definition age_lines :: "host \<Rightarrow> json list \<Rightarrow> ('l, str list) prog" where
  "age_lines H vs =
     (let stops = stops_of H vs in
      if stops = [] then ret []
      else bind (exec_now H) (\<lambda>now.
        ret (gauge ''openvibe_pgbackrest_last_backup_age_seconds'' ''Age of the newest pgBackRest backup at the last run.''
               (int_str (max 0 ((now - Max (set stops)) div 1000))))))"

definition last_ok_of :: "host \<Rightarrow> inventory \<Rightarrow> json \<Rightarrow> ('l, json option) prog" where
  "last_ok_of H i summary =
     (if truthy (member_of ''ok'' summary) \<and> truthy (member_of ''finishedAt'' summary) then ret (member_of ''finishedAt'' summary)
      else bind (exec_readdir H (runs_dir i)) (\<lambda>es.
        last_good_run H (runs_dir i)
          (rev (sort (filter (\<lambda>n. ends_with n ''.json'') (map e_name (case es of Some xs \<Rightarrow> xs | None \<Rightarrow> [])))))))"

definition write_metrics :: "ctx \<Rightarrow> json \<Rightarrow> ('l, bool) prog" where
  "write_metrics c summary =
     (let H = exec c in
      bind (exec_readdir H textfile_default) (\<lambda>there.
      if there = None then ret False
      else
        bind (last_ok_of H (inv c) summary) (\<lambda>lastOk.
        bind (array_at (member_of ''services'' summary)) (\<lambda>xs.
        if JNull \<in> set xs then type_fault
        else
          (let vs = filter (\<lambda>x. truthy (member_of ''verified'' x)) xs in
           bind (if vs = [] then ret [] else bind (age_lines H vs) (\<lambda>age. ret (verified_lines vs @ age))) (\<lambda>pg.
           andthen (exec_write H (path_join [textfile_default, ''openvibe_backup.prom''])
             (unlines
               (gauge ''openvibe_backup_last_run_timestamp_seconds'' ''When the last ovhost backup --all run finished.''
                  (seconds_text H (member_of ''finishedAt'' summary)) @
                gauge ''openvibe_backup_last_run_ok'' ''1 when every service and the off-site copy succeeded in the last run.''
                  (if truthy (member_of ''ok'' summary) then ''1'' else ''0'') @
                [''# HELP openvibe_backup_services Services by outcome in the last run.'', ''# TYPE openvibe_backup_services gauge''] @
                map (\<lambda>st. ''openvibe_backup_services{status='' @ [CHR 0x22] @ st @ [CHR 0x22] @ ''} '' @ nat_str (status_count st xs))
                  [''ok'', ''failed'', ''verified''] @
                pg @
                (if truthy lastOk
                 then gauge ''openvibe_backup_last_success_timestamp_seconds'' ''When the last fully successful run finished.'' (seconds_text H lastOk)
                 else []) @
                (if truthy (member_of ''offsite'' summary)
                 then gauge ''openvibe_backup_offsite_ok'' ''1 when the last run's off-site copy succeeded.''
                        (if truthy (soft ''ok'' (member_of ''offsite'' summary)) then ''1'' else ''0'')
                 else []))))
           (ret True)))))))"

section \<open>The run\<close>

text \<open>The summary is written, the lock released and the metrics written whatever happened to the services.\<close>

definition finish_run :: "ctx \<Rightarrow> str \<Rightarrow> run_summary \<Rightarrow> ('l, run_summary) prog" where
  "finish_run c held sm =
     (let H = exec c in
      bind (exec_now H) (\<lambda>t.
      let sm' = sm\<lparr>rs_finished := Some t\<rparr> in
      andthen (exec_mkdir H (runs_dir (inv c)) None)
      (andthen (exec_write H (run_file (inv c) (rs_run sm')) (json_lines 2 0 (summary_json sm') @ [CHR 0x0A]))
      (andthen (lock_release c held)
      (andthen (try_catch (bind (write_metrics c (summary_json sm')) (\<lambda>_. ret ())) (\<lambda>_. ret ()))
      (ret sm'))))))"

definition has_data :: "service \<Rightarrow> bool" where
  "has_data svc \<longleftrightarrow> s_databases svc \<noteq> [] \<or> s_objects svc \<noteq> []"

definition offsite_copy :: "(json \<Rightarrow> ('l, (str \<times> json) list) prog) option \<Rightarrow> run_summary \<Rightarrow> ('l, run_summary) prog" where
  "offsite_copy push sm =
     (case push of
        None \<Rightarrow> ret sm
      | Some f \<Rightarrow>
          bind (try_catch (f (summary_json sm)) (\<lambda>e. ret [(''ok'', JBool False), (''error'', JStr (exc_message e))])) (\<lambda>r.
          ret (sm\<lparr>rs_offsite := Some r, rs_ok := rs_ok sm \<and> truthy (map_of r ''ok'')\<rparr>)))"

definition backup_all ::
  "ctx \<Rightarrow> nat \<Rightarrow> nat \<Rightarrow> bool \<Rightarrow> (json \<Rightarrow> ('l, (str \<times> json) list) prog) option \<Rightarrow> bool \<Rightarrow> ('l, run_summary) prog" where
  "backup_all c daily weekly doPrune push logical =
     (let H = exec c in
      bind (lock_acquire c ''_backup-all'') (\<lambda>(held, stale).
      bind (exec_now H) (\<lambda>t.
      let run = backup_stamp t in
      bind (mapp (run_service c run logical doPrune daily weekly) (filter has_data (map snd (inv_services (inv c))))) (\<lambda>rs.
      bind (offsite_copy push
              \<lparr>rs_run = run, rs_host = inv_host (inv c), rs_started = t, rs_finished = None,
               rs_ok = list_all (\<lambda>r. er_status r \<noteq> ''failed'') rs, rs_daily = daily, rs_weekly = weekly, rs_services = rs, rs_offsite = None\<rparr>) (\<lambda>sm.
      finish_run c held sm)))))"

section \<open>Recorded runs\<close>

definition cut_json :: "str \<Rightarrow> str" where
  "cut_json n = (if ends_with n ''.json'' then take (length n - 5) n else n)"

text \<open>
  A recorded run with its file, the latest when none is named. \<^verbatim>\<open>summary.file = f\<close> throws unless the parsed value is
  an object.
\<close>

definition read_run :: "host \<Rightarrow> inventory \<Rightarrow> str option \<Rightarrow> ('l, (str \<times> json) option) prog" where
  "read_run H i run =
     bind (case run of
         Some n \<Rightarrow> ret (Some n)
       | None \<Rightarrow>
           bind (exec_readdir H (runs_dir i)) (\<lambda>es.
           let ns = sort (filter (\<lambda>n. ends_with n ''.json'' \<and> is_stamp (cut_json n)) (map e_name (case es of Some xs \<Rightarrow> xs | None \<Rightarrow> []))) in
           ret (if ns = [] then None else Some (cut_json (last ns))))) (\<lambda>name.
     case name of
       None \<Rightarrow> ret None
     | Some n \<Rightarrow>
         (if \<not> is_stamp n then throw (JsError ''--run must be a run id such as 20260923-033000'')
          else bind (exec_read H (run_file i n)) (\<lambda>text.
            case text of
              None \<Rightarrow> ret None
            | Some t \<Rightarrow>
                (case json_parse t of
                   Some (JObj kvs) \<Rightarrow> ret (Some (run_file i n, JObj kvs))
                 | Some (JArr xs) \<Rightarrow> ret (Some (run_file i n, JArr xs))
                 | Some v \<Rightarrow> type_fault
                 | None \<Rightarrow> throw (JsError ''SyntaxError'')))))"

definition write_run :: "host \<Rightarrow> str \<Rightarrow> (str \<times> json) list \<Rightarrow> ('l, unit) prog" where
  "write_run H f kvs = exec_write H f (json_lines 2 0 (JObj (filter (\<lambda>kv. fst kv \<noteq> ''file'') kvs)) @ [CHR 0x0A])"

section \<open>What a run covers\<close>

lemma service_of_run:
  "returns (\<lambda>r. er_service r = s_id svc) (run_service c run logical doPrune daily weekly svc)"
  unfolding run_service_def
  by (auto simp: returns_def bind_def try_catch_def ret_def backed_up_def backup_failed_def prune_failed_def
      split: prod.splits sum.splits if_splits exc.splits)

lemma returns_finish:
  "returns (\<lambda>r. rs_services r = rs_services sm \<and> rs_ok r = rs_ok sm \<and> rs_offsite r = rs_offsite sm) (finish_run c held sm)"
  unfolding finish_run_def Let_def
  by (auto simp: returns_def bind_def andthen_def ret_def split: prod.splits sum.splits)

lemma returns_offsite_copy:
  "returns (\<lambda>r. rs_services r = rs_services sm \<and>
      (rs_ok r \<longleftrightarrow> rs_ok sm \<and> (case push of None \<Rightarrow> True | Some f \<Rightarrow> (case rs_offsite r of Some ps \<Rightarrow> truthy (map_of ps ''ok'') | None \<Rightarrow> False))))
     (offsite_copy push sm)"
  unfolding offsite_copy_def
  by (auto simp: returns_def bind_def ret_def split: prod.splits sum.splits option.splits)


end
