(* ===== verification/Backup_Crypto.thy ===== *)
theory Backup_Crypto
  imports Prelude "HOL-Library.Word"
begin

text \<open>
  Encryption of off-host copies, \<^verbatim>\<open>lib/backup-crypto.js\<close>: the file format OVBKAES1. A Buffer is
  a list of bytes. Node's crypto (AES-256-GCM, HMAC, HKDF, SHA-256) is a parameter. A stream is run by
  giving its \<^verbatim>\<open>transform\<close> the chunks that arrive, however the input was cut, and then calling
  \<^verbatim>\<open>flush\<close>; the bytes pushed are collected.
\<close>

type_synonym bytes = "8 word list"

record crypto =
  gcm_seal :: "bytes \<Rightarrow> bytes \<Rightarrow> bytes \<Rightarrow> bytes \<Rightarrow> bytes \<times> bytes"
  gcm_open :: "bytes \<Rightarrow> bytes \<Rightarrow> bytes \<Rightarrow> bytes \<Rightarrow> bytes \<Rightarrow> bytes option"
  hmac_sha256 :: "bytes \<Rightarrow> str \<Rightarrow> bytes"
  hkdf_sha256 :: "bytes \<Rightarrow> bytes \<Rightarrow> str \<Rightarrow> nat \<Rightarrow> bytes"
  sha256 :: "bytes \<Rightarrow> bytes"

text \<open>
  What the documentation of the primitives says and the format relies on: a sealed text is as long as
  the plain one, with a tag of 16 bytes; opening undoes sealing; a text opens only if it is what sealing its
  plain text gives; an HMAC-SHA256 has 32 bytes.
\<close>

definition gcm_laws :: "crypto \<Rightarrow> bool" where
  "gcm_laws K \<longleftrightarrow>
     (\<forall>k n a p. length (fst (gcm_seal K k n a p)) = length p \<and> length (snd (gcm_seal K k n a p)) = 16) \<and>
     (\<forall>k n a p. gcm_open K k n a (fst (gcm_seal K k n a p)) (snd (gcm_seal K k n a p)) = Some p) \<and>
     (\<forall>k n a c t p. gcm_open K k n a c t = Some p \<longrightarrow> gcm_seal K k n a p = (c, t)) \<and>
     (\<forall>m s. length (hmac_sha256 K m s) = 32)"

section \<open>Bytes\<close>

definition byte :: "nat \<Rightarrow> 8 word" where
  "byte n = word_of_nat n"

definition octets :: "str \<Rightarrow> bytes" where
  "octets s = map (\<lambda>c. byte (of_char c)) s"

definition zeros :: "nat \<Rightarrow> bytes" where
  "zeros n = replicate n 0"

text \<open>\<open>k\<close> bytes, the most significant first (\<^verbatim>\<open>writeUInt32BE\<close>, \<^verbatim>\<open>writeBigUInt64BE\<close>).\<close>

primrec be_bytes :: "nat \<Rightarrow> nat \<Rightarrow> bytes" where
  "be_bytes 0 n = []"
| "be_bytes (Suc k) n = be_bytes k (n div 256) @ [byte n]"

definition read_be :: "bytes \<Rightarrow> nat" where
  "read_be bs = foldl (\<lambda>n b. 256 * n + unat b) 0 bs"

definition hex_digit_char :: "nat \<Rightarrow> char" where
  "hex_digit_char n = (if n < 10 then char_of (48 + n) else char_of (87 + n))"

definition hex_text :: "bytes \<Rightarrow> str" where
  "hex_text bs = concat (map (\<lambda>b. [hex_digit_char (unat b div 16), hex_digit_char (unat b mod 16)]) bs)"

definition hex_value :: "char \<Rightarrow> nat option" where
  "hex_value c =
     (if is_digit c then Some (of_char c - 48)
      else if CHR ''a'' \<le> c \<and> c \<le> CHR ''f'' then Some (of_char c - 87)
      else if CHR ''A'' \<le> c \<and> c \<le> CHR ''F'' then Some (of_char c - 55)
      else None)"

text \<open>\<^verbatim>\<open>Buffer.from(t, 'hex')\<close> stops at the first pair that is no byte.\<close>

fun hex_bytes :: "str \<Rightarrow> bytes" where
  "hex_bytes (a # b # r) =
     (case (hex_value a, hex_value b) of (Some x, Some y) \<Rightarrow> byte (16 * x + y) # hex_bytes r | _ \<Rightarrow> [])"
| "hex_bytes _ = []"

section \<open>Keys\<close>

definition base64_value :: "char \<Rightarrow> nat option" where
  "base64_value c =
     (if is_upper c then Some (of_char c - 65)
      else if is_lower c then Some (of_char c - 71)
      else if is_digit c then Some (of_char c + 4)
      else if c = CHR ''+'' then Some 62
      else if c = CHR ''/'' then Some 63
      else None)"

text \<open>Four characters are three bytes; two or three at the end are one or two.\<close>

fun sextets_bytes :: "nat list \<Rightarrow> bytes" where
  "sextets_bytes (a # b # c # d # r) =
     byte (4 * a + b div 16) # byte (16 * (b mod 16) + c div 4) # byte (64 * (c mod 4) + d) # sextets_bytes r"
| "sextets_bytes [a, b, c] = [byte (4 * a + b div 16), byte (16 * (b mod 16) + c div 4)]"
| "sextets_bytes [a, b] = [byte (4 * a + b div 16)]"
| "sextets_bytes _ = []"

definition base64_bytes :: "str \<Rightarrow> bytes option" where
  "base64_bytes s = map_option sextets_bytes (all_some (map base64_value s))"

definition is_hex_key :: "str \<Rightarrow> bool" where
  "is_hex_key t \<longleftrightarrow> length t = 64 \<and> list_all (\<lambda>c. hex_value c \<noteq> None) t"

text \<open>\<^verbatim>\<open>/^[A-Za-z0-9+/]{43}=?$/\<close>, without the padding.\<close>

definition base64_key :: "str \<Rightarrow> str option" where
  "base64_key t =
     (let u = (if ends_with t ''='' then butlast t else t) in
      if length u = 43 \<and> list_all (\<lambda>c. base64_value c \<noteq> None) u then Some u else None)"

definition parse_key :: "str option \<Rightarrow> str + bytes" where
  "parse_key text =
     (let t = trim (case text of Some s \<Rightarrow> s | None \<Rightarrow> []) in
      if is_hex_key t then Inr (hex_bytes t)
      else case Option.bind (base64_key t) base64_bytes of
          Some b \<Rightarrow> (if length b = 32 then Inr b else Inl ''the key file must hold 32 random bytes'')
        | None \<Rightarrow> Inl ''the key file must hold 32 random bytes'')"

definition key_id :: "crypto \<Rightarrow> bytes \<Rightarrow> str" where
  "key_id K master = hex_text (take 8 (hmac_sha256 K master ''openvibe-backup key-id v1''))"

definition file_key :: "crypto \<Rightarrow> bytes \<Rightarrow> bytes \<Rightarrow> bytes" where
  "file_key K master salt = hkdf_sha256 K master salt ''openvibe-backup v1 file key'' 32"

definition manifest_key :: "crypto \<Rightarrow> bytes \<Rightarrow> bytes" where
  "manifest_key K master = hkdf_sha256 K master [] ''openvibe-backup v1 manifest'' 32"

definition hmac_manifest :: "crypto \<Rightarrow> bytes \<Rightarrow> str \<Rightarrow> str" where
  "hmac_manifest K master body = hex_text (hmac_sha256 K (manifest_key K master) body)"

section \<open>The format\<close>

definition magic :: bytes where
  "magic = octets ''OVBKAES1''"

definition max_chunk :: nat where
  "max_chunk = 64 * 1024 * 1024"

definition nonce :: "nat \<Rightarrow> bool \<Rightarrow> bytes" where
  "nonce index final = zeros 3 @ be_bytes 8 index @ [if final then 1 else 0]"

text \<open>\<^verbatim>\<open>copy\<close> into a zeroed buffer: what is too long is cut, what is too short leaves zeros.\<close>

definition fitted :: "nat \<Rightarrow> bytes \<Rightarrow> bytes" where
  "fitted n bs = take n (bs @ zeros n)"

definition header :: "crypto \<Rightarrow> bytes \<Rightarrow> nat \<Rightarrow> bytes \<Rightarrow> bytes" where
  "header K master chunkSize salt =
     magic @ be_bytes 4 chunkSize @ fitted 32 salt @ fitted 8 (hex_bytes (key_id K master))"

definition encrypted_size :: "nat \<Rightarrow> nat \<Rightarrow> nat" where
  "encrypted_size plainBytes chunkSize =
     (let chunks = max 1 ((plainBytes + chunkSize - 1) div chunkSize) in 52 + plainBytes + chunks * 16)"

definition seal_chunk :: "crypto \<Rightarrow> bytes \<Rightarrow> bytes \<Rightarrow> nat \<Rightarrow> bool \<Rightarrow> bytes \<Rightarrow> bytes" where
  "seal_chunk K key aad index final plain =
     (let (c, t) = gcm_seal K key (nonce index final) aad plain in c @ t)"

definition open_chunk :: "crypto \<Rightarrow> bytes \<Rightarrow> bytes \<Rightarrow> nat \<Rightarrow> bool \<Rightarrow> bytes \<Rightarrow> str + bytes" where
  "open_chunk K key aad index final sealed =
     (let n = length sealed - 16 in
      case gcm_open K key (nonce index final) aad (take n sealed) (drop n sealed) of
        Some p \<Rightarrow> Inr p
      | None \<Rightarrow> Inl ''chunk failed authentication'')"

section \<open>The encrypting stream\<close>

record encryptor =
  en_buf :: bytes
  en_index :: nat
  en_started :: bool

text \<open>The loop emits a chunk only when ys data follows it; the chunk size is at least 1 (checked before).\<close>

function seal_loop :: "crypto \<Rightarrow> bytes \<Rightarrow> bytes \<Rightarrow> nat \<Rightarrow> bytes \<Rightarrow> nat \<Rightarrow> bytes \<Rightarrow> bytes \<times> nat \<times> bytes" where
  "seal_loop K key aad chunkSize out index buf =
     (if chunkSize = 0 \<or> length buf \<le> chunkSize then (out, index, buf)
      else seal_loop K key aad chunkSize (out @ seal_chunk K key aad index False (take chunkSize buf)) (index + 1) (drop chunkSize buf))"
  by auto

termination
  by (relation "measure (\<lambda>(K, key, aad, c, out, i, buf). length buf)") auto

declare seal_loop.simps [simp del]

definition encrypt_transform :: "crypto \<Rightarrow> bytes \<Rightarrow> bytes \<Rightarrow> nat \<Rightarrow> encryptor \<Rightarrow> bytes \<Rightarrow> bytes \<times> encryptor" where
  "encrypt_transform K key aad chunkSize s chunk =
     (let (out, i, buf) = seal_loop K key aad chunkSize (if en_started s then [] else aad) (en_index s) (en_buf s @ chunk) in
      (out, \<lparr>en_buf = buf, en_index = i, en_started = True\<rparr>))"

definition encrypt_flush :: "crypto \<Rightarrow> bytes \<Rightarrow> bytes \<Rightarrow> encryptor \<Rightarrow> bytes" where
  "encrypt_flush K key aad s =
     (if en_started s then [] else aad) @ seal_chunk K key aad (en_index s) True (en_buf s)"

fun encrypt_run :: "crypto \<Rightarrow> bytes \<Rightarrow> bytes \<Rightarrow> nat \<Rightarrow> encryptor \<Rightarrow> bytes list \<Rightarrow> bytes" where
  "encrypt_run K key aad chunkSize s [] = encrypt_flush K key aad s"
| "encrypt_run K key aad chunkSize s (x # xs) =
     (let (out, s') = encrypt_transform K key aad chunkSize s x in out @ encrypt_run K key aad chunkSize s' xs)"

definition encrypt_stream :: "crypto \<Rightarrow> bytes \<Rightarrow> nat \<Rightarrow> bytes \<Rightarrow> bytes list \<Rightarrow> str + bytes" where
  "encrypt_stream K master chunkSize salt xs =
     (if length master \<noteq> 32 then Inl ''the master key must be 32 bytes''
      else if chunkSize < 1 \<or> max_chunk < chunkSize then Inl ''bad chunk size''
      else Inr (encrypt_run K (file_key K master salt) (header K master chunkSize salt) chunkSize
                 \<lparr>en_buf = [], en_index = 0, en_started = False\<rparr> xs))"

section \<open>The decrypting stream\<close>

text \<open>\<open>de_head\<close>: what \<^verbatim>\<open>readHeader\<close> sets, the header, the file key and the length of a sealed chunk.\<close>

record decryptor =
  de_buf :: bytes
  de_head :: "(bytes \<times> bytes \<times> nat) option"
  de_index :: nat

definition read_header :: "crypto \<Rightarrow> bytes \<Rightarrow> bytes \<Rightarrow> str + bytes \<times> bytes \<times> nat" where
  "read_header K master buf =
     (let h = take 52 buf; chunkSize = read_be (take 4 (drop 8 h)) in
      if take 8 h \<noteq> magic then Inl ''bad magic''
      else if chunkSize < 1 \<or> max_chunk < chunkSize then Inl ''bad chunk size in header''
      else if hex_text (drop 44 h) \<noteq> key_id K master then Inl ''encrypted with another key''
      else Inr (h, file_key K master (take 32 (drop 12 h)), chunkSize + 16))"

function open_loop :: "crypto \<Rightarrow> bytes \<Rightarrow> bytes \<Rightarrow> nat \<Rightarrow> bytes \<Rightarrow> nat \<Rightarrow> bytes \<Rightarrow> str + bytes \<times> nat \<times> bytes" where
  "open_loop K key aad sealedLen out index buf =
     (if sealedLen = 0 \<or> length buf \<le> sealedLen then Inr (out, index, buf)
      else case open_chunk K key aad index False (take sealedLen buf) of
          Inl e \<Rightarrow> Inl e
        | Inr p \<Rightarrow> open_loop K key aad sealedLen (out @ p) (index + 1) (drop sealedLen buf))"
  by pat_completeness auto

termination
  by (relation "measure (\<lambda>(K, key, aad, c, out, i, buf). length buf)") auto

declare open_loop.simps [simp del]

definition decrypt_chunks :: "crypto \<Rightarrow> bytes \<times> bytes \<times> nat \<Rightarrow> nat \<Rightarrow> bytes \<Rightarrow> str + bytes \<times> decryptor" where
  "decrypt_chunks K hdr index buf =
     (case hdr of (aad, key, sealedLen) \<Rightarrow>
        (case open_loop K key aad sealedLen [] index buf of
           Inl e \<Rightarrow> Inl e
         | Inr (out, i, rest) \<Rightarrow> Inr (out, \<lparr>de_buf = rest, de_head = Some hdr, de_index = i\<rparr>)))"

definition decrypt_transform :: "crypto \<Rightarrow> bytes \<Rightarrow> decryptor \<Rightarrow> bytes \<Rightarrow> str + bytes \<times> decryptor" where
  "decrypt_transform K master s chunk =
     (let buf = de_buf s @ chunk in
      case de_head s of
        Some hdr \<Rightarrow> decrypt_chunks K hdr (de_index s) buf
      | None \<Rightarrow>
          (if length buf < 52 then Inr ([], s\<lparr>de_buf := buf\<rparr>)
           else case read_header K master buf of
               Inl e \<Rightarrow> Inl e
             | Inr hdr \<Rightarrow> decrypt_chunks K hdr (de_index s) (drop 52 buf)))"

definition decrypt_flush :: "crypto \<Rightarrow> decryptor \<Rightarrow> str + bytes" where
  "decrypt_flush K s =
     (case de_head s of
        None \<Rightarrow> Inl ''truncated: no complete header''
      | Some (aad, key, sealedLen) \<Rightarrow>
          (if length (de_buf s) < 16 then Inl ''truncated: the final chunk is missing''
           else open_chunk K key aad (de_index s) True (de_buf s)))"

fun decrypt_run :: "crypto \<Rightarrow> bytes \<Rightarrow> decryptor \<Rightarrow> bytes list \<Rightarrow> str + bytes" where
  "decrypt_run K master s [] = decrypt_flush K s"
| "decrypt_run K master s (x # xs) =
     (case decrypt_transform K master s x of
        Inl e \<Rightarrow> Inl e
      | Inr (out, s') \<Rightarrow> map_sum id (\<lambda>rest. out @ rest) (decrypt_run K master s' xs))"

definition decrypt_stream :: "crypto \<Rightarrow> bytes \<Rightarrow> bytes list \<Rightarrow> str + bytes" where
  "decrypt_stream K master xs =
     (if length master \<noteq> 32 then Inl ''the master key must be 32 bytes''
      else decrypt_run K master \<lparr>de_buf = [], de_head = None, de_index = 0\<rparr> xs)"

section \<open>The digest tap\<close>

record tap =
  tp_seen :: bytes
  tp_bytes :: nat

definition tap_transform :: "tap \<Rightarrow> bytes \<Rightarrow> bytes \<times> tap" where
  "tap_transform t chunk = (chunk, \<lparr>tp_seen = tp_seen t @ chunk, tp_bytes = tp_bytes t + length chunk\<rparr>)"

definition tap_result :: "crypto \<Rightarrow> tap \<Rightarrow> str \<times> nat" where
  "tap_result K t = (hex_text (sha256 K (tp_seen t)), tp_bytes t)"

section \<open>Whole files\<close>

text \<open>The format without streams: what a whole plain text is sealed to, and how a whole file opens.\<close>

function sealed :: "crypto \<Rightarrow> bytes \<Rightarrow> bytes \<Rightarrow> nat \<Rightarrow> nat \<Rightarrow> bytes \<Rightarrow> bytes" where
  "sealed K key aad chunkSize index plain =
     (if chunkSize = 0 \<or> length plain \<le> chunkSize then seal_chunk K key aad index True plain
      else seal_chunk K key aad index False (take chunkSize plain) @ sealed K key aad chunkSize (index + 1) (drop chunkSize plain))"
  by auto

termination
  by (relation "measure (\<lambda>(K, key, aad, c, i, p). length p)") auto

declare sealed.simps [simp del]

definition encrypt_file :: "crypto \<Rightarrow> bytes \<Rightarrow> nat \<Rightarrow> bytes \<Rightarrow> bytes \<Rightarrow> str + bytes" where
  "encrypt_file K master chunkSize salt plain =
     (if length master \<noteq> 32 then Inl ''the master key must be 32 bytes''
      else if chunkSize < 1 \<or> max_chunk < chunkSize then Inl ''bad chunk size''
      else Inr (header K master chunkSize salt @
                sealed K (file_key K master salt) (header K master chunkSize salt) chunkSize 0 plain))"

function opened :: "crypto \<Rightarrow> bytes \<Rightarrow> bytes \<Rightarrow> nat \<Rightarrow> nat \<Rightarrow> bytes \<Rightarrow> str + bytes" where
  "opened K key aad sealedLen index buf =
     (if sealedLen = 0 \<or> length buf \<le> sealedLen
      then (if length buf < 16 then Inl ''truncated: the final chunk is missing'' else open_chunk K key aad index True buf)
      else case open_chunk K key aad index False (take sealedLen buf) of
          Inl e \<Rightarrow> Inl e
        | Inr p \<Rightarrow> map_sum id (\<lambda>rest. p @ rest) (opened K key aad sealedLen (index + 1) (drop sealedLen buf)))"
  by pat_completeness auto

termination
  by (relation "measure (\<lambda>(K, key, aad, c, i, b). length b)") auto

declare opened.simps [simp del]

definition decrypt_file :: "crypto \<Rightarrow> bytes \<Rightarrow> bytes \<Rightarrow> str + bytes" where
  "decrypt_file K master buf =
     (if length master \<noteq> 32 then Inl ''the master key must be 32 bytes''
      else if length buf < 52 then Inl ''truncated: no complete header''
      else case read_header K master buf of
          Inl e \<Rightarrow> Inl e
        | Inr (aad, key, sealedLen) \<Rightarrow> opened K key aad sealedLen 0 (drop 52 buf))"

section \<open>The streams do what the format says\<close>

lemma seal_loop_sealed:
  assumes "0 < chunkSize" "seal_loop K key aad chunkSize out index buf = (out', i, rest)"
  shows "length rest \<le> chunkSize \<and>
    out' @ sealed K key aad chunkSize i (rest @ ys) = out @ sealed K key aad chunkSize index (buf @ ys)"
  using assms
proof (induction K key aad chunkSize out index buf arbitrary: out' i rest rule: seal_loop.induct)
  case (1 K key aad chunkSize out index buf)
  show ?case
  proof (cases "length buf \<le> chunkSize")
    case True
    with 1(2,3) show ?thesis by (auto simp: seal_loop.simps)
  next
    case False
    with 1(2,3) have "seal_loop K key aad chunkSize (out @ seal_chunk K key aad index False (take chunkSize buf)) (index + 1)
        (drop chunkSize buf) = (out', i, rest)"
      by (simp add: seal_loop.simps [of K key aad chunkSize out])
    with 1(1) 1(2) False have "length rest \<le> chunkSize \<and>
        out' @ sealed K key aad chunkSize i (rest @ ys) =
        (out @ seal_chunk K key aad index False (take chunkSize buf)) @ sealed K key aad chunkSize (index + 1) (drop chunkSize buf @ ys)"
      by blast
    with False 1(2) show ?thesis by (simp add: sealed.simps [of K key aad chunkSize index])
  qed
qed

lemma encrypt_run_sealed:
  assumes "0 < chunkSize" "length (en_buf s) \<le> chunkSize"
  shows "encrypt_run K key aad chunkSize s xs =
    (if en_started s then [] else aad) @ sealed K key aad chunkSize (en_index s) (en_buf s @ concat xs)"
  using assms(2)
proof (induction xs arbitrary: s)
  case Nil
  then show ?case by (simp add: encrypt_flush_def sealed.simps [of K key aad chunkSize])
next
  case (Cons x xs)
  obtain out i rest where loop: "seal_loop K key aad chunkSize (if en_started s then [] else aad) (en_index s) (en_buf s @ x) = (out, i, rest)"
    by (cases "seal_loop K key aad chunkSize (if en_started s then [] else aad) (en_index s) (en_buf s @ x)") auto
  from seal_loop_sealed [OF assms(1) loop, of "concat xs"] Cons.IH [of "\<lparr>en_buf = rest, en_index = i, en_started = True\<rparr>"] loop
  show ?case by (simp add: encrypt_transform_def)
qed

lemma encrypt_stream_file: "encrypt_stream K master chunkSize salt xs = encrypt_file K master chunkSize salt (concat xs)"
  by (simp add: encrypt_stream_def encrypt_file_def encrypt_run_sealed)

lemma append_all: "(@) (p @ q) = (\<lambda>x. p @ q @ x)"
  by auto

lemma open_loop_opened:
  assumes "0 < sealedLen"
  shows "case open_loop K key aad sealedLen out index buf of
      Inl e \<Rightarrow> opened K key aad sealedLen index (buf @ ys) = Inl e
    | Inr (out', i, rest) \<Rightarrow> length rest \<le> sealedLen \<and>
        (\<exists>p. out' = out @ p \<and> opened K key aad sealedLen index (buf @ ys) =
               map_sum id (\<lambda>r. p @ r) (opened K key aad sealedLen i (rest @ ys)))"
  using assms
proof (induction K key aad sealedLen out index buf rule: open_loop.induct)
  case (1 K key aad sealedLen out index buf)
  show ?case
  proof (cases "length buf \<le> sealedLen")
    case True
    then show ?thesis by (simp add: open_loop.simps sum.map_ident_strong)
  next
    case False
    have step: "opened K key aad sealedLen index (buf @ ys) =
        (case open_chunk K key aad index False (take sealedLen buf) of
           Inl e \<Rightarrow> Inl e
         | Inr p \<Rightarrow> map_sum id (\<lambda>rest. p @ rest) (opened K key aad sealedLen (index + 1) (drop sealedLen buf @ ys)))"
      using False 1(2) by (subst opened.simps) (simp split: sum.split)
    show ?thesis
    proof (cases "open_chunk K key aad index False (take sealedLen buf)")
      case (Inl e)
      with False 1(2) step show ?thesis by (simp add: open_loop.simps [of K key aad sealedLen out])
    next
      case (Inr p)
      with False 1(2) have loop: "open_loop K key aad sealedLen out index buf =
          open_loop K key aad sealedLen (out @ p) (index + 1) (drop sealedLen buf)"
        by (simp add: open_loop.simps [of K key aad sealedLen out])
      have "\<not> (sealedLen = 0 \<or> length buf \<le> sealedLen)" using False 1(2) by simp
      from 1(1) [OF this Inr 1(2)] show ?thesis
        unfolding loop step Inr by (auto simp: sum.map_comp comp_def append_all split: sum.splits)
    qed
  qed
qed

lemma read_header_prefix: "52 \<le> length buf \<Longrightarrow> read_header K master (buf @ ys) = read_header K master buf"
  by (simp add: read_header_def)

lemma decrypt_chunks_opened:
  assumes "0 < sealedLen" and "\<And>s. de_head s = Some (aad, key, sealedLen) \<Longrightarrow> length (de_buf s) \<le> sealedLen \<Longrightarrow>
      decrypt_run K master s xs = opened K key aad sealedLen (de_index s) (de_buf s @ concat xs)"
  shows "(case decrypt_chunks K (aad, key, sealedLen) index buf of
      Inl e \<Rightarrow> Inl e | Inr (out, s') \<Rightarrow> map_sum id (\<lambda>r. out @ r) (decrypt_run K master s' xs)) =
    opened K key aad sealedLen index (buf @ concat xs)"
  using open_loop_opened [OF assms(1), where K = K and key = key and aad = aad and out = "[]" and index = index and buf = buf and ys = "concat xs"] assms(2)
  by (auto simp: decrypt_chunks_def split: sum.splits)

lemma decrypt_run_opened:
  assumes "de_head s = Some (aad, key, sealedLen)" "0 < sealedLen" "length (de_buf s) \<le> sealedLen"
  shows "decrypt_run K master s xs = opened K key aad sealedLen (de_index s) (de_buf s @ concat xs)"
  using assms(1,3)
proof (induction xs arbitrary: s)
  case Nil
  then show ?case by (simp add: decrypt_flush_def opened.simps [of K key aad sealedLen])
next
  case (Cons x xs)
  from decrypt_chunks_opened [OF assms(2) Cons.IH, where index = "de_index s" and buf = "de_buf s @ x"] Cons.prems(1)
  show ?case by (simp add: decrypt_transform_def)
qed

lemma read_header_positive: "read_header K master buf = Inr (aad, key, sealedLen) \<Longrightarrow> 0 < sealedLen"
  by (auto simp: read_header_def Let_def split: if_splits)

lemma decrypt_run_start:
  assumes "de_head s = None" "length (de_buf s) < 52" "de_index s = 0"
  shows "decrypt_run K master s xs =
    (let buf = de_buf s @ concat xs in
     if length buf < 52 then Inl ''truncated: no complete header''
     else case read_header K master buf of
         Inl e \<Rightarrow> Inl e
       | Inr (aad, key, sealedLen) \<Rightarrow> opened K key aad sealedLen 0 (drop 52 buf))"
  using assms
proof (induction xs arbitrary: s)
  case Nil
  then show ?case by (simp add: decrypt_flush_def)
next
  case (Cons x xs)
  show ?case
  proof (cases "length (de_buf s @ x) < 52")
    case True
    with Cons show ?thesis by (simp add: decrypt_transform_def sum.map_ident_strong Let_def split: sum.split prod.split)
  next
    case False
    then have long: "52 \<le> length (de_buf s @ x)" by simp
    have head: "read_header K master (de_buf s @ concat (x # xs)) = read_header K master (de_buf s @ x)"
      using read_header_prefix [OF long, of K master "concat xs"] by simp
    have rest: "drop 52 (de_buf s @ concat (x # xs)) = drop 52 (de_buf s @ x) @ concat xs"
      using long by simp
    show ?thesis
    proof (cases "read_header K master (de_buf s @ x)")
      case (Inl e)
      with Cons.prems False head show ?thesis by (simp add: decrypt_transform_def)
    next
      case (Inr h)
      obtain aad key sealedLen where h: "h = (aad, key, sealedLen)" by (cases h)
      have pos: "0 < sealedLen" using read_header_positive Inr h by blast
      have run: "decrypt_run K master s (x # xs) =
          (case decrypt_chunks K (aad, key, sealedLen) 0 (drop 52 (de_buf s @ x)) of
             Inl e \<Rightarrow> Inl e | Inr (out, s') \<Rightarrow> map_sum id (\<lambda>r. out @ r) (decrypt_run K master s' xs))"
        using Cons.prems False Inr h by (simp add: decrypt_transform_def)
      show ?thesis
        unfolding run Let_def head rest Inr h
        using decrypt_chunks_opened [OF pos decrypt_run_opened [OF _ pos], where index = 0] long by simp
    qed
  qed
qed

lemma decrypt_stream_file: "decrypt_stream K master xs = decrypt_file K master (concat xs)"
  by (simp add: decrypt_stream_def decrypt_file_def decrypt_run_start Let_def)

text \<open>
  Property C32. The streams refine the format: however the plain text is cut into chunks, the encrypting stream writes
  the header and then the sealed chunks of the whole text; however a stored file arrives in chunks, the decrypting
  stream answers what the whole file says, the plain text or the same error.
\<close>

theorem streams_are_the_format:
  "encrypt_stream K master chunkSize salt xs = encrypt_file K master chunkSize salt (concat xs) \<and>
   decrypt_stream K master ys = decrypt_file K master (concat ys)"
  by (simp add: encrypt_stream_file decrypt_stream_file)

section \<open>Round trip\<close>

lemma read_be_append: "read_be (bs @ [b]) = 256 * read_be bs + unat b"
  by (simp add: read_be_def)

lemma unat_byte: "unat (byte n) = n mod 256"
  by (simp add: byte_def unat_of_nat)

lemma read_be_bytes: "read_be (be_bytes k n) = n mod 256 ^ k"
proof (induction k arbitrary: n)
  case 0
  show ?case by (simp add: read_be_def)
next
  case (Suc k)
  have "read_be (be_bytes (Suc k) n) = 256 * (n div 256 mod 256 ^ k) + n mod 256"
    by (simp add: read_be_append unat_byte Suc.IH)
  also have "\<dots> = n mod 256 ^ Suc k" by (simp add: mod_mult2_eq)
  finally show ?case .
qed

lemma length_be_bytes [simp]: "length (be_bytes k n) = k"
  by (induction k arbitrary: n) auto

lemma length_fitted [simp]: "length (fitted n bs) = n"
  by (simp add: fitted_def zeros_def)

lemma fitted_exact: "length bs = n \<Longrightarrow> fitted n bs = bs"
  by (simp add: fitted_def)

lemma length_magic [simp]: "length magic = 8"
  by (simp add: magic_def octets_def)

lemma length_header [simp]: "length (header K master chunkSize salt) = 52"
  by (simp add: header_def)

lemma hex_value_digit: "n < 16 \<Longrightarrow> hex_value (hex_digit_char n) = Some n"
proof -
  have "list_all (\<lambda>n. hex_value (hex_digit_char n) = Some n) [0..<16]" by code_simp
  then show "n < 16 \<Longrightarrow> hex_value (hex_digit_char n) = Some n" by (simp add: list_all_iff)
qed

lemma hex_round_trip: "hex_bytes (hex_text bs) = bs"
proof (induction bs)
  case (Cons b bs)
  have "unat b < 2 ^ LENGTH(8)" by (rule unsigned_less)
  then have "unat b div 16 < 16" "unat b mod 16 < 16" by auto
  then have "hex_bytes (hex_text (b # bs)) = byte (16 * (unat b div 16) + unat b mod 16) # hex_bytes (hex_text bs)"
    by (simp add: hex_text_def hex_value_digit)
  with Cons show ?case by (simp add: byte_def)
qed (simp add: hex_text_def)

lemma header_key_id:
  assumes "gcm_laws K"
  shows "hex_text (fitted 8 (hex_bytes (key_id K master))) = key_id K master"
proof -
  have "length (hmac_sha256 K master ''openvibe-backup key-id v1'') = 32" using assms by (simp add: gcm_laws_def)
  then show ?thesis by (simp add: key_id_def hex_round_trip fitted_exact)
qed

lemma read_header_header:
  assumes "gcm_laws K" "1 \<le> chunkSize" "chunkSize \<le> max_chunk"
  shows "read_header K master (header K master chunkSize salt @ ys) =
    Inr (header K master chunkSize salt, file_key K master (fitted 32 salt), chunkSize + 16)"
proof -
  have "chunkSize < 256 ^ 4" using assms(3) by (simp add: max_chunk_def)
  then have "read_be (be_bytes 4 chunkSize) = chunkSize" by (simp add: read_be_bytes)
  with assms header_key_id [OF assms(1)] show ?thesis
    by (simp add: read_header_def Let_def header_def)
qed

lemma seal_chunk_laws:
  assumes "gcm_laws K"
  shows "length (seal_chunk K key aad i f p) = length p + 16"
    and "open_chunk K key aad i f (seal_chunk K key aad i f p) = Inr p"
proof -
  obtain c t where ct: "gcm_seal K key (nonce i f) aad p = (c, t)" by fastforce
  with assms have "length c = length p" "length t = 16" "gcm_open K key (nonce i f) aad c t = Some p"
    unfolding gcm_laws_def by (metis fst_conv snd_conv)+
  with ct show "length (seal_chunk K key aad i f p) = length p + 16"
    "open_chunk K key aad i f (seal_chunk K key aad i f p) = Inr p"
    by (simp_all add: seal_chunk_def open_chunk_def Let_def)
qed

lemma length_sealed_min: "gcm_laws K \<Longrightarrow> 16 \<le> length (sealed K key aad chunkSize i p)"
  by (subst sealed.simps) (simp add: seal_chunk_laws)

lemma opened_sealed:
  assumes "gcm_laws K" "0 < chunkSize"
  shows "opened K key aad (chunkSize + 16) i (sealed K key aad chunkSize i p) = Inr p"
  using assms
proof (induction K key aad chunkSize i p rule: sealed.induct)
  case (1 K key aad chunkSize i p)
  note laws = seal_chunk_laws [OF 1(2)]
  show ?case
  proof (cases "length p \<le> chunkSize")
    case True
    then show ?thesis by (simp add: sealed.simps [of K key aad chunkSize i p] opened.simps [of K key aad] laws)
  next
    case False
    have IH: "opened K key aad (chunkSize + 16) (i + 1) (sealed K key aad chunkSize (i + 1) (drop chunkSize p)) = Inr (drop chunkSize p)"
      using 1 False by simp
    have len: "length (seal_chunk K key aad i False (take chunkSize p)) = chunkSize + 16"
      using False by (simp add: laws)
    have more': "16 \<le> length (sealed K key aad chunkSize (i + 1) (drop chunkSize p))" by (rule length_sealed_min [OF 1(2)])
    from False 1(3) have eq: "sealed K key aad chunkSize i p =
        seal_chunk K key aad i False (take chunkSize p) @ sealed K key aad chunkSize (i + 1) (drop chunkSize p)"
      by (simp add: sealed.simps [of K key aad chunkSize i p])
    show ?thesis
      unfolding eq using IH len more' by (subst opened.simps) (auto simp: laws)
  qed
qed

lemma streams_round_trip:
  assumes "gcm_laws K" "length salt = 32" "encrypt_stream K master chunkSize salt xs = Inr stored" "concat ys = stored"
  shows "decrypt_stream K master ys = Inr (concat xs)"
proof -
  let ?h = "header K master chunkSize salt" and ?k = "file_key K master salt"
  from assms(3) have ok: "length master = 32" "1 \<le> chunkSize" "chunkSize \<le> max_chunk"
    and stored: "stored = ?h @ sealed K ?k ?h chunkSize 0 (concat xs)"
    by (auto simp: encrypt_stream_file encrypt_file_def split: if_splits)
  from ok(2) opened_sealed [OF assms(1), of chunkSize ?k ?h 0 "concat xs"]
  show ?thesis
    unfolding decrypt_stream_file decrypt_file_def assms(4) stored
      read_header_header [OF assms(1) ok(2,3)] fitted_exact [OF assms(2)]
    by (simp add: ok)
qed

text \<open>
  Property C33. Round trip: the file the encrypting stream wrote, with a salt of 32 bytes, decrypts with the same key to the
  plain text, however the one was cut into chunks on the way in and the other on the way back.
\<close>

theorem backup_round_trip:
  assumes "gcm_laws K" "length salt = 32" "encrypt_stream K master chunkSize salt xs = Inr stored" "concat ys = stored"
  shows "decrypt_stream K master ys = Inr (concat xs)"
  by (rule streams_round_trip [OF assms])

text \<open>A cipher that keeps the text and takes the nonce as the tag satisfies the laws.\<close>

definition plain_crypto :: crypto where
  "plain_crypto =
     \<lparr>gcm_seal = (\<lambda>k n a p. (p, fitted 16 n)),
      gcm_open = (\<lambda>k n a c t. if t = fitted 16 n then Some c else None),
      hmac_sha256 = (\<lambda>m s. zeros 32), hkdf_sha256 = (\<lambda>m s i n. fitted n s), sha256 = (\<lambda>b. fitted 32 b)\<rparr>"

lemma plain_crypto_laws: "gcm_laws plain_crypto"
  by (auto simp: gcm_laws_def plain_crypto_def zeros_def split: if_splits)

definition sample_file :: bytes where
  "sample_file = projr (encrypt_stream plain_crypto (zeros 32) 2 (zeros 32) [[1, 2], [3]])"

lemma sample_encrypted: "encrypt_stream plain_crypto (zeros 32) 2 (zeros 32) [[1, 2], [3]] = Inr sample_file"
  by (simp add: sample_file_def encrypt_stream_def zeros_def max_chunk_def)

theorem backup_round_trip_witness:
  "decrypt_stream plain_crypto (zeros 32) [take 60 sample_file, drop 60 sample_file] = Inr [1, 2, 3]"
  using backup_round_trip [OF plain_crypto_laws _ sample_encrypted, of "[take 60 sample_file, drop 60 sample_file]"]
  by (simp add: zeros_def)

lemma length_sealed:
  assumes "gcm_laws K" "0 < chunkSize"
  shows "length (sealed K key aad chunkSize i p) = length p + 16 * max 1 ((length p + chunkSize - 1) div chunkSize)"
  using assms
proof (induction K key aad chunkSize i p rule: sealed.induct)
  case (1 K key aad chunkSize i p)
  show ?case
  proof (cases "length p \<le> chunkSize")
    case True
    then have "length p + chunkSize - 1 < 2 * chunkSize" using 1(3) by simp
    then have "(length p + chunkSize - 1) div chunkSize < 2" by (rule less_mult_imp_div_less)
    with True 1(2) show ?thesis by (subst sealed.simps) (simp add: seal_chunk_laws max_def)
  next
    case False
    let ?n = "length p - chunkSize"
    have "length p + chunkSize - 1 = (?n + chunkSize - 1) + chunkSize" using False 1(3) by simp
    then have "(length p + chunkSize - 1) div chunkSize = (?n + chunkSize - 1) div chunkSize + 1" using 1(3) by (metis div_add_self2 less_numeral_extra(3))
    moreover have "1 \<le> (?n + chunkSize - 1) div chunkSize" using False 1(3) by (simp add: Suc_leI div_greater_zero_iff)
    ultimately show ?thesis
      using 1 False by (subst sealed.simps) (simp add: seal_chunk_laws max_def)
  qed
qed

text \<open>
  \<^verbatim>\<open>encryptedSize\<close>, with which an upload is planned and checked, is the exact length of the file
  the stream writes.
\<close>

theorem encrypted_size_exact:
  assumes "gcm_laws K" "encrypt_stream K master chunkSize salt xs = Inr stored"
  shows "length stored = encrypted_size (length (concat xs)) chunkSize"
  using assms by (auto simp: encrypt_stream_file encrypt_file_def encrypted_size_def length_sealed Let_def split: if_splits)

theorem encrypted_size_exact_witness: "length sample_file = encrypted_size (length (concat [[1, 2], [3 :: 8 word]])) 2"
  by (rule encrypted_size_exact [OF plain_crypto_laws sample_encrypted])

section \<open>What decrypts is whole\<close>

text \<open>The sealed chunks \<open>ps\<close> from an index on, none of them final.\<close>

fun middle_chunks :: "crypto \<Rightarrow> bytes \<Rightarrow> bytes \<Rightarrow> nat \<Rightarrow> bytes list \<Rightarrow> bytes" where
  "middle_chunks K key aad i [] = []"
| "middle_chunks K key aad i (p # ps) = seal_chunk K key aad i False p @ middle_chunks K key aad (i + 1) ps"

lemma open_chunk_sealed:
  assumes "gcm_laws K" "open_chunk K key aad i f x = Inr p" "16 \<le> length x"
  shows "x = seal_chunk K key aad i f p" and "length x = length p + 16"
proof -
  have "gcm_open K key (nonce i f) aad (take (length x - 16) x) (drop (length x - 16) x) = Some p"
    using assms(2) by (simp add: open_chunk_def Let_def split: option.splits)
  with assms(1) have "gcm_seal K key (nonce i f) aad p = (take (length x - 16) x, drop (length x - 16) x)"
    unfolding gcm_laws_def by blast
  then show x: "x = seal_chunk K key aad i f p" by (simp add: seal_chunk_def)
  then show "length x = length p + 16" using seal_chunk_laws(1) [OF assms(1)] by metis
qed

lemma opened_whole:
  assumes "gcm_laws K" "16 < sealedLen" "opened K key aad sealedLen i x = Inr p"
  shows "\<exists>ps q. p = concat ps @ q \<and> (\<forall>c \<in> set ps. length c + 16 = sealedLen) \<and> length q + 16 \<le> sealedLen \<and>
    x = middle_chunks K key aad i ps @ seal_chunk K key aad (i + length ps) True q"
  using assms
proof (induction K key aad sealedLen i x arbitrary: p rule: opened.induct)
  case (1 K key aad sealedLen i x)
  show ?case
  proof (cases "length x \<le> sealedLen")
    case True
    with 1(4) have long: "16 \<le> length x" and op: "open_chunk K key aad i True x = Inr p"
      by (auto simp: opened.simps [of K key aad sealedLen i x] split: if_splits)
    from open_chunk_sealed [OF 1(2) op long] True show ?thesis by (intro exI [of _ "[]"] exI [of _ p]) simp
  next
    case False
    then have split: "opened K key aad sealedLen i x =
        (case open_chunk K key aad i False (take sealedLen x) of
           Inl e \<Rightarrow> Inl e | Inr p \<Rightarrow> map_sum id (\<lambda>r. p @ r) (opened K key aad sealedLen (i + 1) (drop sealedLen x)))"
      using 1(3) by (subst opened.simps) simp
    obtain p1 where op: "open_chunk K key aad i False (take sealedLen x) = Inr p1"
      using 1(4) unfolding split by (auto split: sum.splits)
    obtain p2 where rest: "opened K key aad sealedLen (i + 1) (drop sealedLen x) = Inr p2" and p: "p = p1 @ p2"
      using 1(4) unfolding split op by (cases "opened K key aad sealedLen (i + 1) (drop sealedLen x)") auto
    have c: "\<not> (sealedLen = 0 \<or> length x \<le> sealedLen)" using False 1(3) by simp
    from 1(1) [OF c op 1(2,3) rest] obtain ps q where
      ih: "p2 = concat ps @ q" "\<forall>c \<in> set ps. length c + 16 = sealedLen" "length q + 16 \<le> sealedLen"
        "drop sealedLen x = middle_chunks K key aad (i + 1) ps @ seal_chunk K key aad (i + 1 + length ps) True q" by blast
    have n: "length (take sealedLen x) = sealedLen" using False by simp
    with 1(3) have long: "16 \<le> length (take sealedLen x)" by simp
    note take = open_chunk_sealed(1) [OF 1(2) op long] open_chunk_sealed(2) [OF 1(2) op long, unfolded n, symmetric]
    have "x = take sealedLen x @ drop sealedLen x" by simp
    with ih take p show ?thesis by (intro exI [of _ "p1 # ps"] exI [of _ q]) (simp only: list.set concat.simps middle_chunks.simps ball_simps append_assoc list.size add_Suc_right add_0_right Suc_eq_plus1, simp)
  qed
qed

text \<open>
  Property C34. A file that decrypts is whole and in order: after 52 bytes of header come the sealed chunks of the
  plain text, numbered from 0, all full but the last, and the last one and no other carries the final flag. A
  cut file, or one with chunks moved, decrypts only if it is again such a file.
\<close>

theorem decrypted_is_whole:
  assumes "gcm_laws K" "decrypt_stream K master ys = Inr plain"
  shows "\<exists>head key chunkSize ps q. plain = concat ps @ q \<and> length head = 52 \<and> 1 \<le> chunkSize \<and>
    {length c |c. c \<in> set ps} \<subseteq> {chunkSize} \<and> length q \<le> chunkSize \<and>
    concat ys = head @ middle_chunks K key head 0 ps @ seal_chunk K key head (length ps) True q"
proof -
  from assms(2) obtain aad key sealedLen where long: "52 \<le> length (concat ys)"
    and head: "read_header K master (concat ys) = Inr (aad, key, sealedLen)"
    and body: "opened K key aad sealedLen 0 (drop 52 (concat ys)) = Inr plain"
    by (auto simp: decrypt_stream_file decrypt_file_def not_less split: if_splits sum.splits)
  from head have aad: "aad = take 52 (concat ys)" and len: "16 < sealedLen"
    by (auto simp: read_header_def Let_def split: if_splits)
  from opened_whole [OF assms(1) len body] obtain ps q where
    w: "plain = concat ps @ q" "\<forall>c \<in> set ps. length c + 16 = sealedLen" "length q + 16 \<le> sealedLen"
      "drop 52 (concat ys) = middle_chunks K key aad 0 ps @ seal_chunk K key aad (length ps) True q" by auto
  have "concat ys = aad @ middle_chunks K key aad 0 ps @ seal_chunk K key aad (length ps) True q"
    unfolding w(4) [symmetric] by (simp add: aad)
  note whole = this
  show ?thesis
  proof (intro exI conjI)
    show "plain = concat ps @ q" by (rule w(1))
    show "length aad = 52" using long by (simp add: aad)
    show "1 \<le> sealedLen - 16" using len by simp
    show "{length c |c. c \<in> set ps} \<subseteq> {sealedLen - 16}" using w(2) by force
    show "length q \<le> sealedLen - 16" using w(3) by simp
  qed (rule whole)
qed

theorem decrypted_is_whole_witness:
  "\<exists>head key chunkSize ps q. [1, 2, 3] = concat ps @ q \<and> length head = 52 \<and> 1 \<le> chunkSize \<and>
    {length c |c. c \<in> set ps} \<subseteq> {chunkSize} \<and> length q \<le> chunkSize \<and>
    concat [sample_file] = head @ middle_chunks plain_crypto key head 0 ps @ seal_chunk plain_crypto key head (length ps) True q"
proof -
  have "decrypt_stream plain_crypto (zeros 32) [sample_file] = Inr [1, 2, 3]"
    using streams_round_trip [OF plain_crypto_laws _ sample_encrypted, of "[sample_file]"] by (simp add: zeros_def)
  then show ?thesis by (rule decrypted_is_whole [OF plain_crypto_laws])
qed

section \<open>Key files\<close>

lemma length_hex_bytes: "list_all (\<lambda>c. hex_value c \<noteq> None) t \<Longrightarrow> length (hex_bytes t) = length t div 2"
  by (induction t rule: hex_bytes.induct) auto

text \<open>
  Whatever a key file holds, a key that is accepted from it has exactly the 32 bytes both streams
  ask for.
\<close>

theorem key_has_32_bytes:
  "case parse_key t of Inl e \<Rightarrow> True | Inr b \<Rightarrow> length b = 32"
  by (auto simp: parse_key_def Let_def is_hex_key_def length_hex_bytes split: option.split)

end
