(* ===== verification/Offsite.thy ===== *)
theory Offsite
  imports Backup_Run Backup_Crypto
begin

text \<open>
  Copies of backups off the host, \<^verbatim>\<open>lib/offsite.js\<close>: the configuration and the key, uploads to an object store, the
  runs stored there, their manifest, pruning, and downloads into a new directory. The client of the object
  store, the cryptographic primitives and the URL parser are parameters.
\<close>

section \<open>The object store\<close>

record stored_object =
  so_key :: str
  so_size :: int

text \<open>An answer of the client. A body is what it yields and the error it may end with.\<close>

record store_answer =
  sa_etag :: "str option"
  sa_upload_id :: "str option"
  sa_contents :: "stored_object list"
  sa_truncated :: bool
  sa_next :: "str option"
  sa_body :: "(str list \<times> str option) option"

type_synonym store = "event list \<Rightarrow> store_cmd \<Rightarrow> str + store_answer"

definition send :: "store \<Rightarrow> store_cmd \<Rightarrow> ('l, store_answer) prog" where
  "send S cmd = ask_or (EStore cmd) (\<lambda>tr. S tr cmd)"

definition chars :: "bytes \<Rightarrow> str" where
  "chars bs = map (\<lambda>b. char_of (unat b)) bs"

section \<open>Configuration\<close>

record offsite_cfg =
  oc_env_file :: str
  oc_endpoint :: str
  oc_region :: str
  oc_bucket :: str
  oc_prefix :: str
  oc_path_style :: bool
  oc_key_file :: str
  oc_retention_days :: int
  oc_prune :: bool
  oc_key_id :: str
  oc_secret :: str

definition parse_values :: "str \<Rightarrow> (str \<times> str) list" where
  "parse_values text =
     foldl (\<lambda>out l. case line_assignment l of
         Some (n, v) \<Rightarrow> (if starts_with n ''BACKUP_'' then obj_put n (env_value v) out else out)
       | None \<Rightarrow> out) [] (lines text)"

definition check_private_file :: "host \<Rightarrow> str \<Rightarrow> ('l, unit) prog" where
  "check_private_file H f =
     bind (exec_stat H f) (\<lambda>st.
     case st of
       None \<Rightarrow> throw (OffsiteError ''not found'' 1)
     | Some s \<Rightarrow>
         (if \<not> st_is_file s then throw (OffsiteError ''not found'' 1)
          else if h_is_root H \<and> st_uid s \<noteq> 0 then throw (OffsiteError ''must be owned by root'' 1)
          else if h_is_root H \<and> and (st_mode s) 63 \<noteq> 0
          then throw (OffsiteError ''must not be readable or writable by group or others (chmod 0600)'' 1)
          else ret ()))"

text \<open>\<^verbatim>\<open>/^[A-Za-z0-9._-]+(\/[A-Za-z0-9._-]+)*$/\<close>, \<^verbatim>\<open>/^[a-z0-9][a-z0-9.-]{1,61}[a-z0-9]$/\<close>, and the region of a B2 host.\<close>

definition is_key_prefix :: "str \<Rightarrow> bool" where
  "is_key_prefix s = list_all is_file_name (split_on (CHR ''/'') s)"

definition is_low_digit :: "char \<Rightarrow> bool" where
  "is_low_digit c \<longleftrightarrow> is_lower c \<or> is_digit c"

definition is_bucket_name :: "str \<Rightarrow> bool" where
  "is_bucket_name s \<longleftrightarrow>
     3 \<le> length s \<and> length s \<le> 63 \<and> is_low_digit (hd s) \<and> is_low_digit (last s) \<and>
     list_all (\<lambda>c. is_low_digit c \<or> c \<in> set ''.-'') s"

definition b2_region :: "str \<Rightarrow> str option" where
  "b2_region h =
     (let tail = ''.backblazeb2.com''; m = drop 3 (take (length h - length tail) h) in
      if starts_with h ''s3.'' \<and> ends_with h tail \<and> length tail + 3 < length h \<and> list_all (\<lambda>c. is_low_digit c \<or> c = CHR ''-'') m
      then Some m else None)"

definition trim_slashes :: "str \<Rightarrow> str" where
  "trim_slashes s = strip_slashes (dropWhile (\<lambda>c. c = CHR ''/'') s)"

definition is_off :: "str \<Rightarrow> bool" where
  "is_off v \<longleftrightarrow> map lower_char v \<in> set [''0'', ''false'', ''no'']"

definition offsite_fail :: "str \<Rightarrow> exc + 'a" where
  "offsite_fail m = Inl (OffsiteError m 1)"

definition retention_days :: "str \<Rightarrow> int option" where
  "retention_days v =
     (if v = [] then Some 30
      else case str_number v of Some q \<Rightarrow> (if is_whole q \<and> 1 \<le> q then Some \<lfloor>q\<rfloor> else None) | None \<Rightarrow> None)"

definition required_names :: "str list" where
  "required_names = [''BACKUP_S3_ENDPOINT'', ''BACKUP_S3_BUCKET'', ''BACKUP_S3_KEY_ID'', ''BACKUP_S3_SECRET'', ''BACKUP_ENCRYPTION_KEY_FILE'']"

text \<open>The checks of the values, in their order.\<close>

definition read_config :: "url_parser \<Rightarrow> str \<Rightarrow> (str \<times> str) list \<Rightarrow> exc + offsite_cfg" where
  "read_config parse f vs =
     (let val = (\<lambda>n. env_or vs n []) in
      if list_ex (\<lambda>n. val n = []) required_names then offsite_fail ''is missing or has empty''
      else case parse (val ''BACKUP_S3_ENDPOINT'') of
          None \<Rightarrow> offsite_fail ''BACKUP_S3_ENDPOINT is not a URL''
        | Some u \<Rightarrow>
            (let prefix = trim_slashes (env_or vs ''BACKUP_S3_PREFIX'' ''openvibe-backups'');
                 keyFile = val ''BACKUP_ENCRYPTION_KEY_FILE'' in
             if u_protocol u \<noteq> ''https:'' \<and> \<not> (u_protocol u = ''http:'' \<and> u_hostname u \<in> set [''127.0.0.1'', ''localhost'', ''[::1]''])
             then offsite_fail ''BACKUP_S3_ENDPOINT must be https:// (plain http only on loopback)''
             else if u_username u \<noteq> [] \<or> u_password u \<noteq> [] then offsite_fail ''BACKUP_S3_ENDPOINT must not carry credentials''
             else if \<not> is_key_prefix prefix then offsite_fail ''BACKUP_S3_PREFIX may only use letters, digits, . _ - and /''
             else if \<not> is_bucket_name (val ''BACKUP_S3_BUCKET'') then offsite_fail ''BACKUP_S3_BUCKET is not a bucket name''
             else if \<not> path_is_absolute keyFile then offsite_fail ''BACKUP_ENCRYPTION_KEY_FILE must be an absolute path''
             else case retention_days (val ''BACKUP_OFFSITE_RETENTION_DAYS'') of
                 None \<Rightarrow> offsite_fail ''BACKUP_OFFSITE_RETENTION_DAYS must be a whole number of days''
               | Some days \<Rightarrow>
                   Inr \<lparr>oc_env_file = f, oc_endpoint = u_origin u,
                        oc_region = env_or vs ''BACKUP_S3_REGION'' (case b2_region (u_hostname u) of Some r \<Rightarrow> r | None \<Rightarrow> ''us-east-1''),
                        oc_bucket = val ''BACKUP_S3_BUCKET'', oc_prefix = prefix,
                        oc_path_style = (\<not> is_off (env_or vs ''BACKUP_S3_FORCE_PATH_STYLE'' ''1'')), oc_key_file = keyFile,
                        oc_retention_days = days, oc_prune = (\<not> is_off (env_or vs ''BACKUP_OFFSITE_PRUNE'' ''1'')),
                        oc_key_id = val ''BACKUP_S3_KEY_ID'', oc_secret = val ''BACKUP_S3_SECRET''\<rparr>))"

text \<open>\<open>chosen\<close> is \<^verbatim>\<open>--backup-env\<close> and \<open>env\<close> is \<^verbatim>\<open>$OVHOST_BACKUP_ENV\<close>.\<close>

definition load_config :: "url_parser \<Rightarrow> host \<Rightarrow> str option \<Rightarrow> str option \<Rightarrow> ('l, offsite_cfg) prog" where
  "load_config parse H chosen env =
     (let f = first_set [chosen, env] ''/etc/openvibe/backup.env'' in
      if \<not> h_is_root H then throw (OffsiteError ''off-host backups run as root'' 1)
      else if \<not> path_is_absolute f then throw (OffsiteError ''the backup env file must be an absolute path'' 1)
      else andthen (check_private_file H f)
        (bind (exec_read H f) (\<lambda>t.
         of_sum (read_config parse f (parse_values (case t of Some x \<Rightarrow> x | None \<Rightarrow> []))))))"

definition load_key :: "host \<Rightarrow> offsite_cfg \<Rightarrow> ('l, bytes) prog" where
  "load_key H cfg =
     andthen (check_private_file H (oc_key_file cfg))
       (try_catch
         (bind (exec_read H (oc_key_file cfg)) (\<lambda>t.
          case parse_key t of Inl m \<Rightarrow> throw (JsError m) | Inr k \<Rightarrow> ret k))
         (\<lambda>e. throw (OffsiteError (exc_message e) 1)))"

definition run_prefix :: "offsite_cfg \<Rightarrow> str \<Rightarrow> str \<Rightarrow> str" where
  "run_prefix cfg host run = oc_prefix cfg @ ''/'' @ host @ ''/'' @ run @ ''/''"

text \<open>The host's name in object keys, the first that is set.\<close>

definition host_name :: "host \<Rightarrow> inventory \<Rightarrow> json option \<Rightarrow> ('l, json) prog" where
  "host_name H i override =
     bind (if truthy override then ret (or_jnull override)
           else if truthy (Some (inv_host i)) then ret (inv_host i)
           else bind (exec_hostname H) (\<lambda>h. ret (JStr h))) (\<lambda>h.
     if is_file_name (js_string h) then ret h else throw (OffsiteError ''cannot be used in an object key'' 1))"

section \<open>Uploads\<close>

text \<open>Chunks are collected until they make a part, or all of them.\<close>

fun gather :: "nat \<Rightarrow> str \<Rightarrow> str list \<Rightarrow> str \<times> str list" where
  "gather n pend [] = (pend, [])"
| "gather n pend (x # xs) = (let p = pend @ x in if n \<le> length p then (p, xs) else gather n p xs)"

definition send_part :: "store \<Rightarrow> str \<Rightarrow> str \<Rightarrow> str \<Rightarrow> (str option \<times> nat) list \<Rightarrow> str \<Rightarrow> ('l, (str option \<times> nat) list) prog" where
  "send_part S b k uid parts body =
     bind (send S (Upload_Part b k uid (length parts + 1) body)) (\<lambda>r. ret (parts @ [(sa_etag r, length parts + 1)]))"

text \<open>Every part but the last has exactly the part size.\<close>

function send_parts ::
  "store \<Rightarrow> str \<Rightarrow> str \<Rightarrow> str \<Rightarrow> nat \<Rightarrow> (str option \<times> nat) list \<Rightarrow> str \<Rightarrow> ('l, (str option \<times> nat) list \<times> str) prog" where
  "send_parts S b k uid n parts pend =
     (if n = 0 then throw OutOfFuel
      else if length pend < n then ret (parts, pend)
      else bind (send_part S b k uid parts (take n pend)) (\<lambda>ps. send_parts S b k uid n ps (drop n pend)))"
  by pat_completeness auto
termination by (relation "measure (\<lambda>(S, b, k, uid, n, parts, pend). length pend)") auto

declare send_parts.simps [simp del]

fun feed_parts ::
  "store \<Rightarrow> str \<Rightarrow> str \<Rightarrow> str \<Rightarrow> nat \<Rightarrow> (str option \<times> nat) list \<Rightarrow> str \<Rightarrow> str list \<Rightarrow> ('l, (str option \<times> nat) list \<times> str) prog" where
  "feed_parts S b k uid n parts pend [] = send_parts S b k uid n parts pend"
| "feed_parts S b k uid n parts pend (x # xs) =
     bind (send_parts S b k uid n parts pend) (\<lambda>(ps, rest). feed_parts S b k uid n ps (rest @ x) xs)"

definition fault_of :: "str option \<Rightarrow> ('l, unit) prog" where
  "fault_of e = (case e of None \<Rightarrow> ret () | Some m \<Rightarrow> throw (JsError m))"

definition multipart ::
  "store \<Rightarrow> str \<Rightarrow> str \<Rightarrow> nat \<Rightarrow> str \<Rightarrow> str \<Rightarrow> str list \<Rightarrow> str option \<Rightarrow> ('l, nat) prog" where
  "multipart S b k n uid pend xs fault =
     try_catch
       (bind (feed_parts S b k uid n [] pend xs) (\<lambda>(ps, rest).
        andthen (fault_of fault)
        (bind (if rest = [] then ret ps else send_part S b k uid ps rest) (\<lambda>ps'.
         andthen (send S (Complete_Upload b k uid ps')) (ret (length ps'))))))
       (\<lambda>e. andthen (try_catch (bind (send S (Abort_Upload b k uid)) (\<lambda>_. ret ())) (\<lambda>_. ret ())) (throw e))"

text \<open>\<^verbatim>\<open>uploadIterable\<close>: how many parts were sent.\<close>

definition upload :: "store \<Rightarrow> str \<Rightarrow> str \<Rightarrow> str \<Rightarrow> nat \<Rightarrow> str list \<Rightarrow> str option \<Rightarrow> ('l, nat) prog" where
  "upload S b k type n xs fault =
     (let (pend, rest) = gather n [] xs in
      if length pend < n
      then andthen (fault_of fault) (andthen (send S (Put_Object b k pend type)) (ret 1))
      else bind (send S (Create_Upload b k type)) (\<lambda>r.
        case sa_upload_id r of
          None \<Rightarrow> throw (JsError ''CreateMultipartUpload returned no UploadId'')
        | Some uid \<Rightarrow>
            (if uid = [] then throw (JsError ''CreateMultipartUpload returned no UploadId'')
             else multipart S b k n uid pend rest fault)))"

definition part_size :: nat where
  "part_size = 64 * 1024 * 1024"

definition octet_stream :: str where
  "octet_stream = ''application/octet-stream''"

section \<open>Stored runs\<close>

text \<open>A listing comes in pages; \<open>fuel\<close> bounds how many.\<close>

fun list_pages :: "store \<Rightarrow> nat \<Rightarrow> str \<Rightarrow> str \<Rightarrow> str option \<Rightarrow> stored_object list \<Rightarrow> ('l, stored_object list) prog" where
  "list_pages S 0 b prefix token out = throw OutOfFuel"
| "list_pages S (Suc fuel) b prefix token out =
     bind (send S (List_Objects b prefix token None)) (\<lambda>r.
     let out' = out @ sa_contents r; t = (if sa_truncated r then sa_next r else None) in
     if t = None \<or> t = Some [] then ret out' else list_pages S fuel b prefix t out')"

definition list_objects :: "store \<Rightarrow> nat \<Rightarrow> str \<Rightarrow> str \<Rightarrow> ('l, stored_object list) prog" where
  "list_objects S fuel b prefix = list_pages S fuel b prefix None []"

record remote_run =
  mr_run :: str
  mr_objects :: nat
  mr_bytes :: int
  mr_manifest :: bool
  mr_services :: "str list"
  mr_keys :: "str list"

definition new_run :: "str \<Rightarrow> remote_run" where
  "new_run run = \<lparr>mr_run = run, mr_objects = 0, mr_bytes = 0, mr_manifest = False, mr_services = [], mr_keys = []\<rparr>"

definition add_object :: "nat \<Rightarrow> (str \<times> remote_run) list \<Rightarrow> stored_object \<Rightarrow> (str \<times> remote_run) list" where
  "add_object n runs ob =
     (let rest = split_on (CHR ''/'') (drop n (so_key ob)); run = hd rest in
      if \<not> is_stamp run then runs
      else
        (let r = (case map_of runs run of Some r \<Rightarrow> r | None \<Rightarrow> new_run run) in
         obj_put run
           (r\<lparr>mr_objects := mr_objects r + 1, mr_bytes := mr_bytes r + so_size ob, mr_keys := mr_keys r @ [so_key ob],
              mr_manifest := mr_manifest r \<or> length rest = 2 \<and> rest ! 1 = ''manifest.json'',
              mr_services := (if length rest = 3 \<and> rest ! 1 \<notin> set (mr_services r) then mr_services r @ [rest ! 1] else mr_services r)\<rparr>) runs))"

text \<open>Newest first.\<close>

definition runs_of :: "nat \<Rightarrow> stored_object list \<Rightarrow> remote_run list" where
  "runs_of n obs =
     map (\<lambda>r. r\<lparr>mr_services := sort (mr_services r)\<rparr>)
       (sort_by (\<lambda>a b. mr_run b \<le> mr_run a) (map snd (foldl (add_object n) [] obs)))"

definition host_prefix :: "offsite_cfg \<Rightarrow> str \<Rightarrow> str" where
  "host_prefix cfg host = oc_prefix cfg @ ''/'' @ host @ ''/''"

definition list_runs :: "store \<Rightarrow> nat \<Rightarrow> offsite_cfg \<Rightarrow> str \<Rightarrow> ('l, remote_run list) prog" where
  "list_runs S fuel cfg host =
     bind (list_objects S fuel (oc_bucket cfg) (host_prefix cfg host)) (\<lambda>obs.
     ret (runs_of (length (host_prefix cfg host)) obs))"

section \<open>Pruning\<close>

definition min_keep_runs :: nat where
  "min_keep_runs = 7"

text \<open>The runs to remove: older than the cutoff, and neither the current one nor among the newest with a manifest.\<close>

definition protected_runs :: "str \<Rightarrow> remote_run list \<Rightarrow> str list" where
  "protected_runs current rs = map mr_run (take min_keep_runs (filter mr_manifest rs)) @ [current]"

definition expired_runs :: "int \<Rightarrow> str \<Rightarrow> remote_run list \<Rightarrow> remote_run list" where
  "expired_runs cutoff current rs =
     filter (\<lambda>r. mr_run r \<notin> set (protected_runs current rs) \<and>
                 (case parse_stamp (mr_run r) of Some t \<Rightarrow> t < cutoff | None \<Rightarrow> False)) rs"

definition delete_runs :: "store \<Rightarrow> offsite_cfg \<Rightarrow> str \<Rightarrow> remote_run list \<Rightarrow> ('l, unit) prog" where
  "delete_runs S cfg host old =
     each (\<lambda>r. each (\<lambda>k. whenever (starts_with k (run_prefix cfg host (mr_run r)))
                        (bind (send S (Delete_Object (oc_bucket cfg) k)) (\<lambda>_. ret ()))) (mr_keys r)) old"

definition prune_remote :: "host \<Rightarrow> store \<Rightarrow> nat \<Rightarrow> offsite_cfg \<Rightarrow> str \<Rightarrow> str \<Rightarrow> ('l, str list) prog" where
  "prune_remote H S fuel cfg host current =
     bind (exec_now H) (\<lambda>now.
     bind (list_runs S fuel cfg host) (\<lambda>rs.
     let old = expired_runs (now - oc_retention_days cfg * 86400000) current rs in
     andthen (delete_runs S cfg host old) (ret (map mr_run old))))"

end
