(* ===== verification/Offsite_Copy.thy ===== *)
theory Offsite_Copy
  imports Offsite
begin

text \<open>
  \<^verbatim>\<open>push\<close> and \<^verbatim>\<open>restoreDownload\<close> of \<^verbatim>\<open>lib/offsite.js\<close>: a run of backups is encrypted, uploaded and described by an
  authenticated manifest; a service's files come back into a new directory, checked against it. A text is
  its UTF-8 bytes; that a chunk of a manifest may end inside a character is not modelled.
\<close>

section \<open>Pushing a run\<close>

definition digest_of :: "crypto \<Rightarrow> bytes \<Rightarrow> str \<times> nat" where
  "digest_of K bs = tap_result K (snd (tap_transform \<lparr>tp_seen = [], tp_bytes = 0\<rparr> bs))"

record push_opts =
  po_part_size :: nat
  po_chunk_size :: nat

definition upload_failure :: "json option \<Rightarrow> str \<Rightarrow> str \<Rightarrow> json" where
  "upload_failure sid name e = JObj (field ''service'' sid @ [(''file'', JStr name), (''error'', JStr e)])"

text \<open>The random salt comes as hex text; the file is read, encrypted and uploaded as one pipeline.\<close>

definition pipe_up ::
  "crypto \<Rightarrow> host \<Rightarrow> store \<Rightarrow> push_opts \<Rightarrow> bytes \<Rightarrow> str \<Rightarrow> str \<Rightarrow> str \<Rightarrow> ('l, bytes \<times> bytes \<times> nat) prog" where
  "pipe_up K H S po master b key src =
     bind (exec_read_stream H src) (\<lambda>(xs, fault).
     bind (random_hex H) (\<lambda>salt.
     case encrypt_stream K master (po_chunk_size po) (hex_bytes salt) (map octets xs) of
       Inl m \<Rightarrow> throw (JsError m)
     | Inr c \<Rightarrow>
         bind (upload S b key octet_stream (po_part_size po) [chars c] fault) (\<lambda>parts.
         ret (concat (map octets xs), c, parts))))"

text \<open>One file of the summary: what the manifest says of it, or what failed.\<close>

definition entry_of ::
  "crypto \<Rightarrow> json option \<Rightarrow> json \<Rightarrow> str \<Rightarrow> str \<Rightarrow> bytes \<Rightarrow> bytes \<Rightarrow> nat \<Rightarrow> int \<Rightarrow> json" where
  "entry_of K sid f name key plain c parts secs =
     (let (ps, pn) = digest_of K plain; (cs, cn) = digest_of K c in
      JObj (field ''service'' sid @ field ''name'' (member_of ''name'' f)
        @ [(''kind'', or_else (member_of ''kind'' f) (JStr ''database'')), (''file'', JStr name), (''object'', JStr key),
           (''source'', or_jnull (member_of ''source'' f)), (''plainBytes'', JNum (of_nat pn)), (''plainSha256'', JStr ps),
           (''cipherBytes'', JNum (of_nat cn)), (''cipherSha256'', JStr cs), (''parts'', JNum (of_nat parts)),
           (''seconds'', JNum (of_int secs))]))"

definition push_file ::
  "crypto \<Rightarrow> host \<Rightarrow> store \<Rightarrow> push_opts \<Rightarrow> offsite_cfg \<Rightarrow> bytes \<Rightarrow> str \<Rightarrow> json option \<Rightarrow> json \<Rightarrow> str \<Rightarrow> ('l, json + json) prog" where
  "push_file K H S po cfg master base sid f dest =
     (let name = path_basename dest; key = base @ text_of sid @ ''/'' @ name @ ''.ovbk'' in
      if \<not> is_file_name (text_of sid) \<or> \<not> is_file_name name then ret (Inl (upload_failure sid name ''unsafe name''))
      else
        bind (exec_now H) (\<lambda>t0.
        try_catch
          (bind (pipe_up K H S po master (oc_bucket cfg) key dest) (\<lambda>(plain, c, parts).
           bind (exec_now H) (\<lambda>t. ret (Inr (entry_of K sid f name key plain c parts (rounded_seconds t0 t))))))
          (\<lambda>e. ret (Inl (upload_failure sid name (exc_message e))))))"

record push_state =
  pu_uploaded :: "json list"
  pu_failures :: "json list"
  pu_services :: "(str \<times> json list) list"

definition note_push :: "push_state \<Rightarrow> str \<Rightarrow> json + json \<Rightarrow> push_state" where
  "note_push s sid r =
     (case r of
        Inl e \<Rightarrow> s\<lparr>pu_failures := pu_failures s @ [e]\<rparr>
      | Inr x \<Rightarrow>
          s\<lparr>pu_uploaded := pu_uploaded s @ [x],
            pu_services := obj_put sid ((case map_of (pu_services s) sid of Some xs \<Rightarrow> xs | None \<Rightarrow> []) @ [x]) (pu_services s)\<rparr>)"

definition push_entry ::
  "crypto \<Rightarrow> host \<Rightarrow> store \<Rightarrow> push_opts \<Rightarrow> offsite_cfg \<Rightarrow> bytes \<Rightarrow> str \<Rightarrow> json \<Rightarrow> push_state \<Rightarrow> json \<Rightarrow> ('l, push_state) prog" where
  "push_entry K H S po cfg master base svc s f =
     bind (prop_at ''dest'' (Some f)) (\<lambda>dest.
     if \<not> truthy dest \<or> truthy (member_of ''error'' f) then ret s
     else
       (case dest of
          Some (JStr d) \<Rightarrow>
            bind (push_file K H S po cfg master base (member_of ''service'' svc) f d) (\<lambda>r.
            ret (note_push s (text_of (member_of ''service'' svc)) r))
        | _ \<Rightarrow> type_fault))"

definition push_service ::
  "crypto \<Rightarrow> host \<Rightarrow> store \<Rightarrow> push_opts \<Rightarrow> offsite_cfg \<Rightarrow> bytes \<Rightarrow> str \<Rightarrow> push_state \<Rightarrow> json \<Rightarrow> ('l, push_state) prog" where
  "push_service K H S po cfg master base s svc =
     bind (prop_at ''files'' (Some svc)) (\<lambda>fs.
     bind (iterate (Some (or_else fs (JArr [])))) (foldp (push_entry K H S po cfg master base svc) s))"

definition manifest_fields :: "json \<Rightarrow> json option \<Rightarrow> str \<Rightarrow> int \<Rightarrow> push_state \<Rightarrow> (str \<times> json) list" where
  "manifest_fields host run kid now s =
     [(''format'', JStr ''openvibe-backup-manifest/1''), (''encryption'', JStr ''OVBKAES1''), (''host'', host)] @ field ''run'' run @
     [(''createdAt'', JStr (iso_string now)), (''keyId'', JStr kid),
      (''services'', JObj (map (\<lambda>(k, xs). (k, JObj [(''files'', JArr xs)])) (pu_services s))), (''failures'', JArr (pu_failures s))]"

record push_result =
  pr_ok :: bool
  pr_run :: "json option"
  pr_host :: json
  pr_location :: str
  pr_key_id :: str
  pr_uploaded :: "json list"
  pr_failures :: "json list"
  pr_pruned :: "str list"
  pr_manifest :: "str option"

definition describe_cfg :: "offsite_cfg \<Rightarrow> (str \<times> json) list" where
  "describe_cfg cfg =
     [(''endpoint'', JStr (oc_endpoint cfg)), (''bucket'', JStr (oc_bucket cfg)), (''prefix'', JStr (oc_prefix cfg)),
      (''retentionDays'', JNum (of_int (oc_retention_days cfg))), (''prune'', JBool (oc_prune cfg))]"

definition push_json :: "offsite_cfg \<Rightarrow> push_result \<Rightarrow> (str \<times> json) list" where
  "push_json cfg r =
     [(''ok'', JBool (pr_ok r))] @ describe_cfg cfg @ field ''run'' (pr_run r) @
     [(''host'', pr_host r), (''location'', JStr (pr_location r)), (''keyId'', JStr (pr_key_id r)), (''uploaded'', JArr (pr_uploaded r)),
      (''failures'', JArr (pr_failures r)), (''pruned'', JArr (map JStr (pr_pruned r))), (''manifest'', or_null (pr_manifest r))]"

definition file_failure :: "str \<Rightarrow> exc \<Rightarrow> json" where
  "file_failure name e = JObj [(''file'', JStr name), (''error'', JStr (exc_message e))]"

definition upload_manifest :: "crypto \<Rightarrow> store \<Rightarrow> offsite_cfg \<Rightarrow> bytes \<Rightarrow> str \<Rightarrow> (str \<times> json) list \<Rightarrow> ('l, json option) prog" where
  "upload_manifest K S cfg master key kvs =
     (let m = JObj (kvs @ [(''hmac'', JStr (hmac_manifest K master (json_text (JObj kvs))))]) in
      try_catch
        (bind (upload S (oc_bucket cfg) key ''application/json'' part_size [json_lines 2 0 m @ [CHR 0x0A]] None) (\<lambda>_. ret None))
        (\<lambda>e. ret (Some (file_failure ''manifest.json'' e))))"

text \<open>Old runs are pruned only after a run that uploaded everything.\<close>

definition push_prune :: "host \<Rightarrow> store \<Rightarrow> nat \<Rightarrow> offsite_cfg \<Rightarrow> str \<Rightarrow> push_result \<Rightarrow> ('l, push_result) prog" where
  "push_prune H S fuel cfg current r =
     (if pr_failures r = [] \<and> oc_prune cfg
      then try_catch
             (bind (prune_remote H S fuel cfg (js_string (pr_host r)) current) (\<lambda>ps. ret (r\<lparr>pr_pruned := ps\<rparr>)))
             (\<lambda>e. ret (r\<lparr>pr_ok := False, pr_failures := [file_failure ''(prune)'' e]\<rparr>))
      else ret r)"

definition push_files ::
  "crypto \<Rightarrow> host \<Rightarrow> store \<Rightarrow> push_opts \<Rightarrow> offsite_cfg \<Rightarrow> bytes \<Rightarrow> str \<Rightarrow> json \<Rightarrow> ('l, push_state) prog" where
  "push_files K H S po cfg master base summary =
     bind (iterate (Some (or_else (member_of ''services'' summary) (JArr []))))
       (foldp (push_service K H S po cfg master base) \<lparr>pu_uploaded = [], pu_failures = [], pu_services = []\<rparr>)"

definition push :: "crypto \<Rightarrow> ctx \<Rightarrow> store \<Rightarrow> push_opts \<Rightarrow> offsite_cfg \<Rightarrow> json \<Rightarrow> ('l, push_result) prog" where
  "push K c S po cfg summary =
     (let H = exec c; run = member_of ''run'' summary in
      bind (load_key H cfg) (\<lambda>master.
      bind (host_name H (inv c) (member_of ''host'' summary)) (\<lambda>host.
      let base = run_prefix cfg (js_string host) (text_of run); kid = key_id K master; mkey = base @ ''manifest.json'' in
      bind (exec_now H) (\<lambda>now.
      bind (push_files K H S po cfg master base summary) (\<lambda>s.
      bind (upload_manifest K S cfg master mkey (manifest_fields host run kid now s)) (\<lambda>e.
      let fs = pu_failures s @ (case e of Some x \<Rightarrow> [x] | None \<Rightarrow> []) in
      push_prune H S (ctx_fuel c) cfg (text_of run)
        \<lparr>pr_ok = (fs = []), pr_run = run, pr_host = host, pr_location = base, pr_key_id = kid, pr_uploaded = pu_uploaded s,
         pr_failures = fs, pr_pruned = [], pr_manifest = (if e = None then Some mkey else None)\<rparr>))))))"

section \<open>Downloading a service\<close>

definition get_object :: "store \<Rightarrow> str \<Rightarrow> str \<Rightarrow> ('l, str list \<times> str option) prog" where
  "get_object S b k =
     bind (send S (Get_Object b k)) (\<lambda>r. case sa_body r of None \<Rightarrow> throw (JsError ''empty response'') | Some x \<Rightarrow> ret x)"

definition manifest_body :: "(str \<times> json) list \<Rightarrow> str" where
  "manifest_body kvs = json_text (JObj (filter (\<lambda>kv. fst kv \<noteq> ''hmac'') kvs))"

definition read_manifest :: "crypto \<Rightarrow> store \<Rightarrow> offsite_cfg \<Rightarrow> bytes \<Rightarrow> json \<Rightarrow> str \<Rightarrow> ('l, (str \<times> json) list) prog" where
  "read_manifest K S cfg master host run =
     bind (get_object S (oc_bucket cfg) (run_prefix cfg (js_string host) run @ ''manifest.json'')) (\<lambda>(xs, fault).
     andthen (fault_of fault)
     (case json_parse (concat xs) of
        None \<Rightarrow> throw (OffsiteError ''is not JSON'' 2)
      | Some (JObj m) \<Rightarrow>
          (if map_of m ''hmac'' \<noteq> Some (JStr (hmac_manifest K master (manifest_body m))) then throw (OffsiteError ''failed its HMAC check'' 2)
           else if map_of m ''run'' \<noteq> Some (JStr run) \<or> \<not> strict_eq (map_of m ''host'') host
           then throw (OffsiteError ''describes another run'' 2)
           else ret m)
      | Some _ \<Rightarrow> throw (OffsiteError ''failed its HMAC check'' 2)))"

text \<open>One lies inside the other.\<close>

definition lies_in :: "str \<Rightarrow> str \<Rightarrow> bool" where
  "lies_in a b \<longleftrightarrow> starts_with a (b @ ''/'')"

definition overlap :: "str \<Rightarrow> str \<Rightarrow> bool" where
  "overlap a b \<longleftrightarrow> a = b \<or> lies_in a b \<or> lies_in b a"

definition unsafe_out :: "inventory \<Rightarrow> str \<Rightarrow> bool" where
  "unsafe_out i out \<longleftrightarrow>
     list_ex (\<lambda>svc. list_ex (\<lambda>ob. overlap out (ob_path ob)) (s_objects svc) \<or> overlap out (s_repo svc)) (map snd (inv_services i)) \<or>
     overlap out (inv_backup_dir i) \<or> overlap out (inv_state_dir i)"

text \<open>What the decrypting stream has put out before its source ends or an error stops it.\<close>

fun decrypt_sofar :: "crypto \<Rightarrow> bytes \<Rightarrow> decryptor \<Rightarrow> bytes list \<Rightarrow> bytes" where
  "decrypt_sofar K master s [] = []"
| "decrypt_sofar K master s (x # xs) =
     (case decrypt_transform K master s x of Inl e \<Rightarrow> [] | Inr (out, s') \<Rightarrow> out @ decrypt_sofar K master s' xs)"

definition pipe_down :: "crypto \<Rightarrow> host \<Rightarrow> store \<Rightarrow> bytes \<Rightarrow> str \<Rightarrow> str \<Rightarrow> str \<Rightarrow> ('l, bytes \<times> bytes) prog" where
  "pipe_down K H S master b key dest =
     bind (get_object S b key) (\<lambda>(xs, fault).
     let bs = map octets xs in
     case (fault, decrypt_stream K master bs) of
       (None, Inr plain) \<Rightarrow> andthen (exec_write_stream H dest (chars plain)) (ret (concat bs, plain))
     | (Some m, _) \<Rightarrow>
         andthen (exec_write_stream H dest (chars (decrypt_sofar K master \<lparr>de_buf = [], de_head = None, de_index = 0\<rparr> bs)))
           (throw (JsError m))
     | (None, Inl m) \<Rightarrow>
         andthen (exec_write_stream H dest (chars (decrypt_sofar K master \<lparr>de_buf = [], de_head = None, de_index = 0\<rparr> bs)))
           (throw (JsError m)))"

record restored_file =
  rf_name :: "json option"
  rf_kind :: str
  rf_file :: str
  rf_source :: "json option"
  rf_bytes :: nat
  rf_sha256 :: str
  rf_check :: "str option"

definition download_file ::
  "crypto \<Rightarrow> host \<Rightarrow> store \<Rightarrow> offsite_cfg \<Rightarrow> bytes \<Rightarrow> str \<Rightarrow> str \<Rightarrow> json \<Rightarrow> ('l, restored_file) prog" where
  "download_file K H S cfg master base dir f =
     bind (prop_at ''file'' (Some f)) (\<lambda>v.
     let name = js_string (or_else v (JStr [])); dest = path_join [dir, name] in
     if \<not> is_file_name name \<or> member_of ''object'' f \<noteq> Some (JStr (base @ text_of v @ ''.ovbk''))
     then throw (OffsiteError ''has an unexpected name or object key'' 2)
     else
       (case v of
          Some (JStr s) \<Rightarrow>
            bind (try_catch (pipe_down K H S master (oc_bucket cfg) (base @ s @ ''.ovbk'') dest)
                    (\<lambda>e. andthen (exec_remove H dest) (throw (OffsiteError (exc_message e) 2)))) (\<lambda>(c, plain).
            let (cs, cn) = digest_of K c; (ps, pn) = digest_of K plain;
                objects = (member_of ''kind'' f = Some (JStr ''objects'') \<or> ends_with s ''.tar.gz'') in
            if member_of ''cipherSha256'' f \<noteq> Some (JStr cs) \<or> member_of ''plainSha256'' f \<noteq> Some (JStr ps)
               \<or> member_of ''plainBytes'' f \<noteq> Some (JNum (of_nat pn))
            then andthen (exec_remove H dest) (throw (OffsiteError ''the download does not match the manifest's hashes'' 2))
            else
              bind (if objects then ret None
                    else try_catch (bind (verify_dump H dest None) (\<lambda>_. ret (Some ''pg_restore --list ok'')))
                           (\<lambda>e. throw (OffsiteError (''error: '' @ exc_message e) 2))) (\<lambda>check.
              ret \<lparr>rf_name = member_of ''name'' f, rf_kind = (if objects then ''objects'' else ''database''), rf_file = dest,
                   rf_source = member_of ''source'' f, rf_bytes = pn, rf_sha256 = ps, rf_check = check\<rparr>))
        | _ \<Rightarrow> type_fault))"

record restored =
  rt_service :: str
  rt_host :: json
  rt_run :: str
  rt_dir :: str
  rt_key_id :: "json option"
  rt_files :: "restored_file list"

definition choose_run :: "store \<Rightarrow> nat \<Rightarrow> offsite_cfg \<Rightarrow> str \<Rightarrow> str \<Rightarrow> str \<Rightarrow> ('l, str) prog" where
  "choose_run S fuel cfg host sid arg =
     bind (if arg \<noteq> [] \<and> arg \<noteq> ''latest'' then ret arg
           else bind (list_runs S fuel cfg host) (\<lambda>rs.
             case filter (\<lambda>r. mr_manifest r \<and> sid \<in> set (mr_services r)) rs of
               [] \<Rightarrow> throw (OffsiteError ''no off-host run'' 1)
             | r # _ \<Rightarrow> ret (mr_run r))) (\<lambda>run.
     if is_stamp run then ret run else throw (OffsiteError ''<run> must be a run id such as 20260923-033000, or latest'' 1))"

definition manifest_files :: "str \<Rightarrow> (str \<times> json) list \<Rightarrow> ('l, json list) prog" where
  "manifest_files sid m =
     bind (prop_at sid (map_of m ''services'')) (\<lambda>svc.
     bind (elements_of (Some (or_else (member_of ''files'' (or_else svc (JObj []))) (JArr [])))) (\<lambda>xs.
     if xs = [] then throw (OffsiteError ''has no files'' 1)
     else iterate (Some (or_else (member_of ''files'' (or_else svc (JObj []))) (JArr [])))))"

definition restore_root :: str where
  "restore_root = ''/var/lib/openvibe-restore''"

text \<open>The directory must not exist yet, or be empty.\<close>

definition fresh_directory :: "host \<Rightarrow> inventory \<Rightarrow> str \<Rightarrow> ('l, unit) prog" where
  "fresh_directory H i dir =
     (if \<not> path_is_absolute dir then throw (OffsiteError ''--out must be an absolute path'' 1)
      else if unsafe_out i dir then throw (OffsiteError ''refusing --out'' 1)
      else bind (exec_readdir H dir) (\<lambda>es.
        case es of
          Some (x # xs) \<Rightarrow> throw (OffsiteError ''already exists and is not empty; restore-download never overwrites'' 1)
        | Some [] \<Rightarrow> ret ()
        | None \<Rightarrow>
            bind (exec_stat H dir) (\<lambda>st.
            if st \<noteq> None then throw (OffsiteError ''exists and is not a directory'' 1) else ret ())))"

definition restore_download ::
  "crypto \<Rightarrow> ctx \<Rightarrow> store \<Rightarrow> offsite_cfg \<Rightarrow> str \<Rightarrow> str \<Rightarrow> str option \<Rightarrow> str option \<Rightarrow> ('l, restored) prog" where
  "restore_download K c S cfg sid arg out fromHost =
     (let H = exec c; own = (out = None \<or> out = Some []) in
      if \<not> is_file_name sid then throw (OffsiteError ''bad service name'' 1)
      else
        bind (load_key H cfg) (\<lambda>master.
        bind (host_name H (inv c) (map_option JStr fromHost)) (\<lambda>host.
        bind (choose_run S (ctx_fuel c) cfg (js_string host) sid arg) (\<lambda>run.
        bind (read_manifest K S cfg master host run) (\<lambda>m.
        bind (manifest_files sid m) (\<lambda>fs.
        let dir = path_normalize (if own then path_join [restore_root, sid @ ''-'' @ run] else the out) in
        andthen (fresh_directory H (inv c) dir)
        (andthen (whenever own (andthen (exec_mkdir H restore_root (Some ''root'')) (lock_down H restore_root ''0700'')))
        (andthen (exec_mkdir H dir (Some ''root''))
        (andthen (lock_down H dir ''0700'')
        (bind (mapp (download_file K H S cfg master (run_prefix cfg (js_string host) run @ sid @ ''/'') dir) fs) (\<lambda>files.
         ret \<lparr>rt_service = sid, rt_host = host, rt_run = run, rt_dir = dir, rt_key_id = map_of m ''keyId'', rt_files = files\<rparr>)))))))))))"

section \<open>Checking the configuration\<close>

definition check_offsite :: "crypto \<Rightarrow> ctx \<Rightarrow> store \<Rightarrow> offsite_cfg \<Rightarrow> ('l, (str \<times> json) list) prog" where
  "check_offsite K c S cfg =
     bind (load_key (exec c) cfg) (\<lambda>master.
     bind (host_name (exec c) (inv c) None) (\<lambda>host.
     andthen (send S (List_Objects (oc_bucket cfg) (host_prefix cfg (js_string host)) None (Some 1)))
     (ret ([(''ok'', JBool True)] @ describe_cfg cfg @
        [(''region'', JStr (oc_region cfg)), (''host'', host), (''keyId'', JStr (key_id K master))]))))"

end
