(* ===== verification/Archive.thy ===== *)
theory Archive
  imports Offsite_Copy
begin

text \<open>
  \<^verbatim>\<open>lib/archive.js\<close>: retired files are encrypted and copied off the host before their owner deletes them, listed
  from their manifests, and brought back one at a time.
\<close>

section \<open>What may be archived\<close>

definition allowed_roots :: "str list" where
  "allowed_roots = [''/opt/'', ''/var/lib/'', ''/root/'', ''/srv/'', ''/home/'']"

definition archive_prefix :: "offsite_cfg \<Rightarrow> str \<Rightarrow> str" where
  "archive_prefix cfg host = oc_prefix cfg @ ''-archive/'' @ host @ ''/''"

definition object_name :: "str \<Rightarrow> str" where
  "object_name f = join ''__'' (split_on (CHR ''/'') (dropWhile (\<lambda>c. c = CHR ''/'') f))"

text \<open>An underscore is a character of a name, so \<^verbatim>\<open>NAME_RE\<close> is a name of such characters.\<close>

definition name_refusal :: "str \<Rightarrow> str option" where
  "name_refusal f =
     (if \<not> path_is_absolute f \<or> path_normalize f \<noteq> f then Some ''not a normalised absolute path''
      else if \<not> list_ex (starts_with f) allowed_roots then Some ''outside the allowed roots''
      else if \<not> is_file_name (object_name f) then Some ''the path has characters an object name cannot carry''
      else None)"

definition refusal :: "host \<Rightarrow> str \<Rightarrow> ('l, str option) prog" where
  "refusal H f =
     (case name_refusal f of
        Some m \<Rightarrow> ret (Some m)
      | None \<Rightarrow>
          bind (exec_stat H f) (\<lambda>st.
          case st of
            None \<Rightarrow> ret (Some ''no such file'')
          | Some s \<Rightarrow>
              (if st_is_symlink s \<or> \<not> st_is_file s then ret (Some ''not a regular file'')
               else bind (exec_run H ''fuser'' [''-s'', f] as_root) (\<lambda>r.
                 ret (if rc r = 0 then Some ''open by a running process''
                      else if rc r \<noteq> 1 then Some ''could not tell whether it is open'' else None)))))"

section \<open>Pushing\<close>

record archived_file =
  af_path :: str
  af_object :: str
  af_mtime :: int
  af_plain :: "str \<times> nat"
  af_cipher :: "str \<times> nat"

definition archived_json :: "archived_file \<Rightarrow> json" where
  "archived_json a =
     JObj [(''path'', JStr (af_path a)), (''object'', JStr (af_object a)),
           (''mtime'', if af_mtime a = 0 then JNull else JStr (iso_string (af_mtime a))),
           (''plainBytes'', JNum (of_nat (snd (af_plain a)))), (''plainSha256'', JStr (fst (af_plain a))),
           (''cipherBytes'', JNum (of_nat (snd (af_cipher a)))), (''cipherSha256'', JStr (fst (af_cipher a)))]"

definition default_chunk :: nat where
  "default_chunk = 1024 * 1024"

definition default_push :: push_opts where
  "default_push = \<lparr>po_part_size = part_size, po_chunk_size = default_chunk\<rparr>"

text \<open>The stored object is looked up and its size compared.\<close>

definition archive_file :: "crypto \<Rightarrow> ctx \<Rightarrow> store \<Rightarrow> offsite_cfg \<Rightarrow> bytes \<Rightarrow> str \<Rightarrow> str \<Rightarrow> ('l, json + archived_file) prog" where
  "archive_file K c S cfg master base f =
     (let H = exec c; key = base @ object_name f @ ''.ovbk'' in
      try_catch
        (bind (exec_stat H f) (\<lambda>st.
         bind (pipe_up K H S default_push master (oc_bucket cfg) key f) (\<lambda>(plain, enc, parts).
         bind (list_objects S (ctx_fuel c) (oc_bucket cfg) key) (\<lambda>obs.
         case List.find (\<lambda>ob. so_key ob = key) obs of
           None \<Rightarrow> throw (JsError ''the stored object is missing'')
         | Some ob \<Rightarrow>
             (if so_size ob \<noteq> int (snd (digest_of K enc)) then throw (JsError ''the stored object has another size'')
              else case st of
                  None \<Rightarrow> type_fault
                | Some s \<Rightarrow>
                    ret (Inr \<lparr>af_path = f, af_object = key, af_mtime = st_mtime s, af_plain = digest_of K plain, af_cipher = digest_of K enc\<rparr>))))))
        (\<lambda>e. ret (Inl (JObj [(''path'', JStr f), (''error'', JStr (exc_message e))]))))"

record archive_record =
  ar_stamp :: str
  ar_host :: json
  ar_location :: str
  ar_note :: str
  ar_files :: "archived_file list"
  ar_failures :: "json list"

definition archive_manifest :: "archive_record \<Rightarrow> int \<Rightarrow> str \<Rightarrow> (str \<times> json) list" where
  "archive_manifest r now kid =
     [(''format'', JStr ''openvibe-archive-manifest/1''), (''encryption'', JStr ''OVBKAES1''), (''host'', ar_host r), (''stamp'', JStr (ar_stamp r)),
      (''createdAt'', JStr (iso_string now)), (''keyId'', JStr kid), (''note'', JStr (ar_note r)),
      (''files'', JArr (map archived_json (ar_files r))), (''failures'', JArr (ar_failures r))]"

definition record_json :: "archive_record \<Rightarrow> json" where
  "record_json r =
     JObj [(''stamp'', JStr (ar_stamp r)), (''host'', ar_host r), (''location'', JStr (ar_location r)), (''note'', JStr (ar_note r)),
           (''files'', JArr (map (\<lambda>a. JObj [(''path'', JStr (af_path a)), (''plainBytes'', JNum (of_nat (snd (af_plain a)))),
               (''plainSha256'', JStr (fst (af_plain a)))]) (ar_files r))),
           (''failures'', JArr (ar_failures r))]"

definition lefts :: "('a + 'b) list \<Rightarrow> 'a list" where
  "lefts xs = List.map_filter (\<lambda>x. case x of Inl a \<Rightarrow> Some a | Inr b \<Rightarrow> None) xs"

definition rights :: "('a + 'b) list \<Rightarrow> 'b list" where
  "rights xs = List.map_filter (\<lambda>x. case x of Inl a \<Rightarrow> None | Inr b \<Rightarrow> Some b) xs"

definition archive_push :: "crypto \<Rightarrow> ctx \<Rightarrow> store \<Rightarrow> offsite_cfg \<Rightarrow> str list \<Rightarrow> str \<Rightarrow> ('l, archive_record) prog" where
  "archive_push K c S cfg files note =
     (let H = exec c in
      if files = [] then throw (ArchiveError ''name at least one file'' 1)
      else
        bind (mapp (refusal H) (uniq files)) (\<lambda>whys.
        if list_ex (\<lambda>w. w \<noteq> None) whys then throw (ArchiveError ''refusing (nothing uploaded)'' 1)
        else
          bind (load_key H cfg) (\<lambda>master.
          bind (host_name H (inv c) None) (\<lambda>host.
          bind (exec_now H) (\<lambda>t.
          bind (exec_now H) (\<lambda>created.
          let st = backup_stamp t; base = archive_prefix cfg (js_string host) @ st @ ''/'' in
          bind (mapp (archive_file K c S cfg master base) (uniq files)) (\<lambda>rs.
          let r = \<lparr>ar_stamp = st, ar_host = host, ar_location = ''s3://'' @ oc_bucket cfg @ ''/'' @ base, ar_note = take 300 note,
                   ar_files = rights rs, ar_failures = lefts rs\<rparr>;
              m = archive_manifest r created (key_id K master) in
          andthen
            (upload S (oc_bucket cfg) (base @ ''manifest.json'') ''application/json'' part_size
               [json_lines 2 0 (JObj (m @ [(''hmac'', JStr (hmac_manifest K master (json_text (JObj m))))])) @ [CHR 0x0A]] None)
          (andthen (exec_mkdir H (path_join [inv_state_dir (inv c), ''archives'']) (Some ''root''))
          (andthen (exec_write H (path_join [path_join [inv_state_dir (inv c), ''archives''], st @ ''.json''])
              (json_lines 2 0 (record_json r) @ [CHR 0x0A]))
          (ret r))))))))))"

section \<open>Reading back\<close>

definition read_archive :: "crypto \<Rightarrow> store \<Rightarrow> offsite_cfg \<Rightarrow> bytes \<Rightarrow> str \<Rightarrow> str \<Rightarrow> ('l, (str \<times> json) list) prog" where
  "read_archive K S cfg master host st =
     bind (get_object S (oc_bucket cfg) (archive_prefix cfg host @ st @ ''/manifest.json'')) (\<lambda>(xs, fault).
     andthen (fault_of fault)
     (case json_parse (concat xs) of
        None \<Rightarrow> throw (JsError ''SyntaxError'')
      | Some JNull \<Rightarrow> type_fault
      | Some (JObj m) \<Rightarrow>
          (if map_of m ''hmac'' \<noteq> Some (JStr (hmac_manifest K master (manifest_body m)))
           then throw (ArchiveError ''the manifest's HMAC does not match this host's backup key'' 2) else ret m)
      | Some _ \<Rightarrow> throw (ArchiveError ''the manifest's HMAC does not match this host's backup key'' 2)))"

definition find_file :: "str \<Rightarrow> (str \<times> json) list \<Rightarrow> ('l, json option) prog" where
  "find_file f m =
     bind (array_at (map_of m ''files'')) (\<lambda>xs.
     if JNull \<in> set (takeWhile (\<lambda>x. member_of ''path'' x \<noteq> Some (JStr f)) xs) then type_fault
     else ret (List.find (\<lambda>x. member_of ''path'' x = Some (JStr f)) xs))"

record archive_restored =
  ax_file :: str
  ax_bytes :: nat
  ax_sha256 :: str

definition archive_restore ::
  "crypto \<Rightarrow> ctx \<Rightarrow> store \<Rightarrow> offsite_cfg \<Rightarrow> str \<Rightarrow> str \<Rightarrow> str option \<Rightarrow> ('l, archive_restored) prog" where
  "archive_restore K c S cfg st f out =
     (let H = exec c in
      if \<not> is_stamp st then throw (ArchiveError ''<stamp> looks like 20260926-101500'' 1)
      else case out of
          None \<Rightarrow> throw (ArchiveError ''--out must be an absolute path'' 1)
        | Some dir \<Rightarrow>
            (if \<not> path_is_absolute dir then throw (ArchiveError ''--out must be an absolute path'' 1)
             else
               bind (load_key H cfg) (\<lambda>master.
               bind (host_name H (inv c) None) (\<lambda>host.
               bind (read_archive K S cfg master (js_string host) st) (\<lambda>m.
               bind (find_file f m) (\<lambda>found.
               let key = archive_prefix cfg (js_string host) @ st @ ''/'' @ object_name f @ ''.ovbk'';
                   dest = path_join [dir, path_basename f] in
               case found of
                 None \<Rightarrow> throw (ArchiveError ''has no such file'' 1)
               | Some e \<Rightarrow>
                   (if member_of ''object'' e \<noteq> Some (JStr key) then throw (ArchiveError ''the manifest names an unexpected object'' 2)
                    else
                      bind (exec_stat H dir) (\<lambda>there.
                      if there \<noteq> None then throw (ArchiveError ''already exists; restore never overwrites'' 1)
                      else
                        andthen (exec_mkdir H dir (Some ''root''))
                        (bind (pipe_down K H S master (oc_bucket cfg) key dest) (\<lambda>(enc, plain).
                         let (cs, cn) = digest_of K enc; (ps, pn) = digest_of K plain in
                         if member_of ''plainSha256'' e \<noteq> Some (JStr ps) \<or> member_of ''cipherSha256'' e \<noteq> Some (JStr cs)
                            \<or> member_of ''plainBytes'' e \<noteq> Some (JNum (of_nat pn))
                         then andthen (exec_remove H dest) (throw (ArchiveError ''the download does not match the manifest'' 2))
                         else ret \<lparr>ax_file = dest, ax_bytes = pn, ax_sha256 = ps\<rparr>))))))))))"

section \<open>Listing\<close>

record archive_row =
  al_stamp :: str
  al_error :: "str option"
  al_files :: nat
  al_bytes :: json
  al_failures :: nat
  al_note :: json

definition archive_stamps :: "nat \<Rightarrow> stored_object list \<Rightarrow> str list" where
  "archive_stamps n obs =
     rev (sort (uniq (filter is_stamp (map (\<lambda>ob. hd (split_on (CHR ''/'') (drop n (so_key ob)))) obs))))"

text \<open>The sum of the sizes of a manifest this module wrote; a size that is no number is refused.\<close>

definition size_sum :: "json list \<Rightarrow> ('l, json) prog" where
  "size_sum xs =
     bind (mapp (\<lambda>x. bind (prop_at ''plainBytes'' (Some x)) (\<lambda>v. case v of Some (JNum q) \<Rightarrow> ret q | _ \<Rightarrow> type_fault)) xs) (\<lambda>qs.
     ret (JNum (sum_list qs)))"

definition archive_row_of :: "crypto \<Rightarrow> store \<Rightarrow> offsite_cfg \<Rightarrow> bytes \<Rightarrow> str \<Rightarrow> str \<Rightarrow> ('l, archive_row) prog" where
  "archive_row_of K S cfg master host st =
     try_catch
       (bind (read_archive K S cfg master host st) (\<lambda>m.
        bind (array_at (map_of m ''files'')) (\<lambda>xs.
        bind (size_sum xs) (\<lambda>n.
        bind (elements_of (Some (or_else (map_of m ''failures'') (JArr [])))) (\<lambda>fs.
        ret \<lparr>al_stamp = st, al_error = None, al_files = length xs, al_bytes = n, al_failures = length fs,
             al_note = or_else (map_of m ''note'') (JStr [])\<rparr>)))))
       (\<lambda>e. ret \<lparr>al_stamp = st, al_error = Some (exc_message e), al_files = 0, al_bytes = JNull, al_failures = 0, al_note = JNull\<rparr>)"

definition archive_list :: "crypto \<Rightarrow> ctx \<Rightarrow> store \<Rightarrow> offsite_cfg \<Rightarrow> ('l, archive_row list) prog" where
  "archive_list K c S cfg =
     bind (load_key (exec c) cfg) (\<lambda>master.
     bind (host_name (exec c) (inv c) None) (\<lambda>host.
     let base = archive_prefix cfg (js_string host) in
     bind (list_objects S (ctx_fuel c) (oc_bucket cfg) base) (\<lambda>obs.
     mapp (archive_row_of K S cfg master (js_string host)) (archive_stamps (length base) obs))))"

section \<open>Names of archived files\<close>

text \<open>
  Two files may share an object: both are accepted, and the second upload of a push replaces the first,
  which its manifest still lists.
\<close>

theorem archive_names_collide:
  "name_refusal ''/opt/app/data'' = None \<and> name_refusal ''/opt/app__data'' = None \<and>
   object_name ''/opt/app/data'' = object_name ''/opt/app__data''"
  by code_simp

end
