(* ===== verification/Drill_Parts.thy ===== *)
theory Drill_Parts
  imports Backup_Run Envfile
begin

text \<open>
  The parts of a restore drill, \<^verbatim>\<open>lib/commands/drill.js\<close>: the lines of the overriding environment file, the
  comparison of two answers, the checks of a restored object directory and of an archive before root extracts
  it, and the inputs of a drill. The roles and counts of \<^verbatim>\<open>lib/dbengine.js\<close> that only drills use are here too.
\<close>

section \<open>Values for the instance\<close>

text \<open>\<^verbatim>\<open>value.replace(/\{(tmp|port)\}/g, ...)\<close>\<close>

function expand_vars :: "str \<Rightarrow> int \<Rightarrow> str \<Rightarrow> str" where
  "expand_vars tmp port s =
     (case s of
        [] \<Rightarrow> []
      | c # r \<Rightarrow>
          (if starts_with s ''{tmp}'' then tmp @ expand_vars tmp port (drop 5 s)
           else if starts_with s ''{port}'' then int_str port @ expand_vars tmp port (drop 6 s)
           else c # expand_vars tmp port r))"
  by pat_completeness auto
termination by (relation "measure (\<lambda>(t, p, s). length s)") (auto simp: starts_with_def)

declare expand_vars.simps [simp del]

definition escaped :: "char set \<Rightarrow> str \<Rightarrow> str" where
  "escaped cs s = concat (map (\<lambda>c. if c \<in> cs then [CHR 0x5C, c] else [c]) s)"

definition plain_env_char :: "char \<Rightarrow> bool" where
  "plain_env_char c \<longleftrightarrow> is_alnum c \<or> c \<in> set ''_./:,@%+=-''"

definition env_line :: "str \<Rightarrow> str \<Rightarrow> str" where
  "env_line name v =
     (if v = [] then name @ ''=''
      else if list_all plain_env_char v then name @ ''='' @ v
      else name @ ''='' @ [dquote] @ escaped {dquote, CHR 0x5C, CHR ''$'', CHR 0x60} v @ [dquote])"

definition environment_property :: "str \<Rightarrow> str \<Rightarrow> str" where
  "environment_property name v =
     (let a = name @ ''='' @ v in
      if list_ex (\<lambda>c. is_ws c \<or> c = dquote \<or> c = squote \<or> c = CHR 0x5C) a
      then ''Environment='' @ [dquote] @ escaped {dquote, CHR 0x5C} a @ [dquote]
      else ''Environment='' @ a)"

section \<open>Comparing answers\<close>

fun strip_keys :: "str list \<Rightarrow> json \<Rightarrow> json" where
  "strip_keys ks (JArr vs) = JArr (map (strip_keys ks) vs)"
| "strip_keys ks (JObj kvs) = JObj (filter (\<lambda>kv. fst kv \<notin> set ks) (map (\<lambda>(k, v). (k, strip_keys ks v)) kvs))"
| "strip_keys ks v = v"

text \<open>
  Where two values differ, in the order of the walk; the first is production's. Values of different kinds, and
  values that are no objects, differ when their texts do. The walk stops at five places.
\<close>

fun differences :: "json \<Rightarrow> json \<Rightarrow> str \<Rightarrow> str list"
and element_differences :: "json list \<Rightarrow> json list \<Rightarrow> str \<Rightarrow> nat \<Rightarrow> str list"
and member_differences :: "(str \<times> json) list \<Rightarrow> (str \<times> json) list \<Rightarrow> str \<Rightarrow> str list" where
  "differences (JArr xs) b p =
     (case b of
        JArr ys \<Rightarrow> (if length xs \<noteq> length ys then [p @ ''.length''] else element_differences xs ys p 0)
      | _ \<Rightarrow> [p])"
| "differences (JObj as) b p =
     (case b of
        JObj bs \<Rightarrow>
          member_differences as bs p @
          map (\<lambda>k. p @ ''.'' @ k @ '' only in the drill instance'') (filter (\<lambda>k. k \<notin> fst ` set as) (map fst bs))
      | _ \<Rightarrow> [p])"
| "differences a b p = (if json_text a = json_text b then [] else [p])"
| "element_differences [] ys p i = []"
| "element_differences (x # xs) ys p i =
     (case ys of
        [] \<Rightarrow> []
      | y # ys' \<Rightarrow> differences x y (p @ ''['' @ nat_str i @ '']'') @ element_differences xs ys' p (Suc i))"
| "member_differences [] bs p = []"
| "member_differences (kv # kvs) bs p =
     (case map_of bs (fst kv) of
        None \<Rightarrow> [p @ ''.'' @ fst kv @ '' missing in the drill instance'']
      | Some w \<Rightarrow> differences (snd kv) w (p @ ''.'' @ fst kv)) @ member_differences kvs bs p"

definition diff_paths :: "json \<Rightarrow> json \<Rightarrow> str list" where
  "diff_paths a b = take 5 (differences a b ''$'')"

record compared =
  cp_path :: str
  cp_production :: int
  cp_drill :: int
  cp_match :: bool
  cp_mode :: "str option"
  cp_detail :: "str option"

definition differs :: "str \<Rightarrow> int \<Rightarrow> int \<Rightarrow> str \<Rightarrow> compared" where
  "differs p a b m = \<lparr>cp_path = p, cp_production = a, cp_drill = b, cp_match = False, cp_mode = None, cp_detail = Some m\<rparr>"

definition same_answer :: "str \<Rightarrow> int \<Rightarrow> int \<Rightarrow> str \<Rightarrow> compared" where
  "same_answer p a b m = \<lparr>cp_path = p, cp_production = a, cp_drill = b, cp_match = True, cp_mode = Some m, cp_detail = None\<rparr>"

definition compare_bodies :: "compare_cfg \<Rightarrow> http_result \<Rightarrow> http_result \<Rightarrow> compared" where
  "compare_bodies e a b =
     (let no = differs (cc_path e) (hs_status a) (hs_status b); yes = same_answer (cc_path e) (hs_status a) (hs_status b) in
      if \<not> ok_status (hs_status a) then no ''production did not answer''
      else if hs_status a \<noteq> hs_status b then no ''the status differs''
      else if cc_ignore e = [] then (if hs_body a = hs_body b then yes ''bytes'' else no ''bodies differ'')
      else case json_parse (hs_body a) of
          None \<Rightarrow> no ''a body is not JSON''
        | Some x \<Rightarrow>
            (case json_parse (hs_body b) of
               None \<Rightarrow> no ''a body is not JSON''
             | Some y \<Rightarrow>
                 (let diffs = diff_paths (strip_keys (cc_ignore e) x) (strip_keys (cc_ignore e) y);
                      mode = ''json without '' @ join '', '' (cc_ignore e) in
                  if diffs = [] then yes mode
                  else (no (''JSON differs at '' @ join ''; '' diffs))\<lparr>cp_mode := Some mode\<rparr>)))"

section \<open>Archives of object directories\<close>

definition field_then :: "str \<Rightarrow> (str \<times> str) option" where
  "field_then s =
     (let w = takeWhile (\<lambda>c. \<not> is_ws c) s; r = dropWhile (\<lambda>c. \<not> is_ws c) s in
      if w = [] \<or> r = [] then None else Some (w, dropWhile is_ws r))"

fun cut_arrow :: "str \<Rightarrow> str" where
  "cut_arrow [] = []"
| "cut_arrow (c # s) = (if starts_with (c # s) '' -> '' then [] else c # cut_arrow s)"

text \<open>
  \<^verbatim>\<open>/^(\S+)\s+\S+\s+\d+\s+\S+\s+\S+\s+(.*)$/\<close>: permissions, owner, size, date, time and name. The result is the type and
  the name without the target of a link.
\<close>

definition tar_listing_line :: "str \<Rightarrow> (char \<times> str) option" where
  "tar_listing_line l =
     (case field_then l of
        None \<Rightarrow> None
      | Some (perms, r1) \<Rightarrow>
     (case field_then r1 of
        None \<Rightarrow> None
      | Some (owner, r2) \<Rightarrow>
     (case field_then r2 of
        None \<Rightarrow> None
      | Some (bytes, r3) \<Rightarrow>
     (case field_then r3 of
        None \<Rightarrow> None
      | Some (date, r4) \<Rightarrow>
     (case field_then r4 of
        None \<Rightarrow> None
      | Some (clock, name) \<Rightarrow>
          (if list_all is_digit bytes \<and> CHR 0x0D \<notin> set name then Some (hd perms, trim (cut_arrow name)) else None))))))"

definition safe_member :: "str \<Rightarrow> bool" where
  "safe_member name \<longleftrightarrow> \<not> starts_with name ''/'' \<and> ''..'' \<notin> set (split_on (CHR ''/'') name)"

definition member_problem :: "str \<Rightarrow> str option" where
  "member_problem l =
     (case tar_listing_line l of
        None \<Rightarrow> Some ''unparsable tar listing line''
      | Some (type, name) \<Rightarrow>
          (if type \<noteq> CHR ''-'' \<and> type \<noteq> CHR ''d'' then Some ''is not a regular file or directory''
           else if \<not> safe_member name then Some ''is not a safe relative path''
           else None))"

fun first_problem :: "str list \<Rightarrow> str option" where
  "first_problem [] = None"
| "first_problem (l # ls) =
     (if trim l = [] then first_problem ls else case member_problem l of Some m \<Rightarrow> Some m | None \<Rightarrow> first_problem ls)"

definition tar_member_problem :: "str \<Rightarrow> str option" where
  "tar_member_problem listing = first_problem (lines listing)"

text \<open>\<^verbatim>\<open>/Removing leading|Member name contains '\.\.'/\<close>\<close>

definition tar_warned :: "str \<Rightarrow> bool" where
  "tar_warned t \<longleftrightarrow> str_includes t ''Removing leading'' \<or> str_includes t (''Member name contains '' @ [squote] @ ''..'' @ [squote])"

section \<open>Restored directories\<close>

text \<open>Every entry below a directory that is no directory itself; the fuel bounds the depth. A link is never followed.\<close>

fun walk_files :: "host \<Rightarrow> nat \<Rightarrow> str \<Rightarrow> ('l, str list) prog" where
  "walk_files H 0 dir = throw OutOfFuel"
| "walk_files H (Suc n) dir =
     bind (exec_readdir H dir) (\<lambda>es.
     foldp (\<lambda>out e.
        let p = path_join [dir, e_name e] in
        bind (exec_stat H p) (\<lambda>st.
        case st of
          None \<Rightarrow> ret out
        | Some s \<Rightarrow>
            (if st_is_dir s \<and> \<not> st_is_symlink s then bind (walk_files H n p) (\<lambda>xs. ret (out @ xs)) else ret (out @ [p]))))
       [] (case es of Some xs \<Rightarrow> xs | None \<Rightarrow> []))"

definition sha256_stream :: "(str \<Rightarrow> str) \<Rightarrow> host \<Rightarrow> str \<Rightarrow> ('l, str) prog" where
  "sha256_stream digest H p =
     bind (exec_read_stream H p) (\<lambda>(xs, fault).
     case fault of Some m \<Rightarrow> throw (JsError m) | None \<Rightarrow> ret (digest (concat xs)))"

definition is_blob_name :: "str \<Rightarrow> bool" where
  "is_blob_name n \<longleftrightarrow> length n = 64 \<and> list_all (\<lambda>c. is_digit c \<or> c \<in> set ''abcdef'') n"

section \<open>Roles and counts\<close>

text \<open>\<^verbatim>\<open>psql\<close> reads the statement from its standard input, so no password is in an argument.\<close>

definition psql_script :: "host \<Rightarrow> str \<Rightarrow> str \<Rightarrow> ('l, unit) prog" where
  "psql_script H sql m =
     bind (exec_run H ''psql'' [''-X'', ''-q'', ''-v'', ''ON_ERROR_STOP=1'', ''-d'', ''postgres'', ''-f'', ''-'']
             ((as_owner pg_user)\<lparr>o_input := Some sql\<rparr>)) (\<lambda>r.
     if rc r \<noteq> 0 then throw (JsError m) else ret ())"

definition create_role :: "host \<Rightarrow> str \<Rightarrow> ('l, str) prog" where
  "create_role H role =
     bind (random_hex H) (\<lambda>pw.
     andthen (psql_script H (''CREATE ROLE '' @ sql_ident role @ '' LOGIN PASSWORD '' @ sql_literal pw @ '';'' @ [CHR 0x0A]) ''creating role failed'')
       (ret pw))"

definition drop_role_sql :: "str \<Rightarrow> str" where
  "drop_role_sql role = ''DROP ROLE IF EXISTS '' @ sql_ident role @ '';'' @ [CHR 0x0A]"

definition drop_role :: "host \<Rightarrow> str \<Rightarrow> ('l, unit) prog" where
  "drop_role H role = psql_script H (drop_role_sql role) ''dropping role failed''"

definition count_sql :: "str \<Rightarrow> str" where
  "count_sql table = ''SELECT count(*) AS n FROM '' @ [CHR 0x22] @ table @ [CHR 0x22]"

definition count_rows :: "host \<Rightarrow> str \<Rightarrow> str \<Rightarrow> ('l, rat) prog" where
  "count_rows H database sql =
     bind (exec_psql H database sql) (\<lambda>rows.
     case to_number (first_value rows) of None \<Rightarrow> throw (JsError ''returned no number'') | Some n \<Rightarrow> ret n)"

text \<open>The cluster directly, never PgBouncer.\<close>

definition database_url :: "str \<Rightarrow> str \<Rightarrow> str \<Rightarrow> str" where
  "database_url database role password =
     ''postgresql://'' @ uri_text role @ '':'' @ uri_text password @ ''@127.0.0.1:5432/'' @ uri_text database"

end
