(* ===== verification/Drill_Inputs.thy ===== *)
theory Drill_Inputs
  imports Drill_Parts
begin

text \<open>
  What a drill needs before it creates anything, \<^verbatim>\<open>lib/commands/drill.js\<close>: the backup to restore, how
  production starts the service, and the refusals that keep the instance away from production's data.
\<close>

section \<open>The backup\<close>

text \<open>\<^verbatim>\<open>(r.files || []).find(...)\<close>: what is no array has no \<^verbatim>\<open>find\<close>; a null element has no property.\<close>

fun file_entry :: "str \<Rightarrow> json list \<Rightarrow> exc + json option" where
  "file_entry name [] = Inr None"
| "file_entry name (f # fs) =
     (if f = JNull then Inl (JsError ''TypeError'')
      else if member_of ''file'' f = Some (JStr name) then Inr (Some f)
      else file_entry name fs)"

definition recorded_file :: "str \<Rightarrow> json \<Rightarrow> exc + json option" where
  "recorded_file name r =
     (if \<not> truthy (member_of ''files'' r) then Inr None
      else case member_of ''files'' r of Some (JArr fs) \<Rightarrow> file_entry name fs | _ \<Rightarrow> Inl (JsError ''TypeError''))"

fun holds_files :: "str list \<Rightarrow> json \<Rightarrow> exc + bool" where
  "holds_files [] r = Inr True"
| "holds_files (n # ns) r =
     (case recorded_file n r of
        Inl e \<Rightarrow> Inl e
      | Inr None \<Rightarrow> Inr False
      | Inr (Some f) \<Rightarrow> holds_files ns r)"

text \<open>The records of a log that hold every file, oldest first.\<close>

fun usable_records :: "str list \<Rightarrow> json list \<Rightarrow> exc + json list" where
  "usable_records ns [] = Inr []"
| "usable_records ns (r # rs) =
     (case holds_files ns r of
        Inl e \<Rightarrow> Inl e
      | Inr b \<Rightarrow>
          (case usable_records ns rs of Inl e \<Rightarrow> Inl e | Inr us \<Rightarrow> Inr (if b then r # us else us)))"

definition good_records :: "str \<Rightarrow> json list" where
  "good_records text =
     filter (\<lambda>r. truthy (Some r) \<and> truthy (member_of ''dir'' r) \<and> member_of ''ok'' r \<noteq> Some (JBool False))
       (List.map_filter json_parse (nonempty_lines text))"

definition find_database :: "service \<Rightarrow> str \<Rightarrow> database option" where
  "find_database svc name = List.find (\<lambda>d. db_name d = name) (s_databases svc)"

text \<open>The artifacts the drill restores; a name without a database is \<^verbatim>\<open>undefined\<close>, which has no file name.\<close>

definition dump_names :: "service \<Rightarrow> drill_cfg \<Rightarrow> exc + str list" where
  "dump_names svc d =
     (case all_some (map (\<lambda>(n, u, x). map_option dump_file_name (find_database svc n)) (dc_databases d)) of
        None \<Rightarrow> Inl (JsError ''TypeError'')
      | Some ns \<Rightarrow> Inr ns)"

record drill_file =
  df_name :: str
  df_file :: str
  df_database :: str
  df_url :: str
  df_direct_url :: str

record drill_object =
  do_name :: str
  do_file :: str
  do_bytes :: rat
  do_verify :: bool

record drill_backup =
  kb_dir :: str
  kb_taken_at :: json
  kb_files :: "drill_file list"
  kb_objects :: "drill_object list"

definition drill_fail :: "str \<Rightarrow> ('l, 'a) prog" where
  "drill_fail m = throw (DrillError m 1)"

definition latest_backup :: "host \<Rightarrow> inventory \<Rightarrow> service \<Rightarrow> drill_cfg \<Rightarrow> ('l, str \<times> json \<times> json option) prog" where
  "latest_backup H i svc d =
     bind (exec_read H (backup_log i (s_id svc))) (\<lambda>text.
     let rs = good_records (case text of Some t \<Rightarrow> t | None \<Rightarrow> []) in
     bind (of_sum (if rs = [] then Inr [] else case dump_names svc d of Inl e \<Rightarrow> Inl e | Inr ns \<Rightarrow> usable_records ns rs)) (\<lambda>us.
     if us = [] then drill_fail ''no good ovhost backup recorded''
     else
       (case member_of ''dir'' (last us) of
          Some (JStr dir) \<Rightarrow> ret (dir, or_jnull (member_of ''at'' (last us)), Some (last us))
        | _ \<Rightarrow> type_fault)))"

definition require_file :: "host \<Rightarrow> str \<Rightarrow> str \<Rightarrow> ('l, file_stat) prog" where
  "require_file H p m =
     bind (exec_stat H p) (\<lambda>st.
     case st of
       None \<Rightarrow> drill_fail m
     | Some s \<Rightarrow> (if st_is_file s then ret s else drill_fail m))"

definition drill_file_of :: "host \<Rightarrow> service \<Rightarrow> str \<Rightarrow> str \<times> str \<times> str \<Rightarrow> ('l, drill_file) prog" where
  "drill_file_of H svc dir x =
     (case x of (name, u, direct) \<Rightarrow>
        (case find_database svc name of
           None \<Rightarrow> type_fault
         | Some db \<Rightarrow>
             (let p = path_join [dir, dump_file_name db] in
              bind (require_file H p ''the backup has no copy of the database'') (\<lambda>_.
              ret \<lparr>df_name = name, df_file = p, df_database = db_database db, df_url = u, df_direct_url = direct\<rparr>))))"

text \<open>The size recorded when the backup was made; else that of the archive.\<close>

definition source_bytes :: "json option \<Rightarrow> file_stat \<Rightarrow> rat" where
  "source_bytes f st =
     (case f of
        None \<Rightarrow> of_int (st_size st)
      | Some v \<Rightarrow> (case member_of ''sourceBytes'' v of Some (JNum q) \<Rightarrow> q | _ \<Rightarrow> of_int (st_size st)))"

definition drill_object_of :: "host \<Rightarrow> str \<Rightarrow> json option \<Rightarrow> object_dir \<Rightarrow> ('l, drill_object) prog" where
  "drill_object_of H dir record ob =
     (let name = ob_name ob @ ''.tar.gz''; p = path_join [dir, name] in
      bind (require_file H p ''the backup has no copy of the object directory'') (\<lambda>st.
      bind (of_sum (case record of None \<Rightarrow> Inr None | Some r \<Rightarrow> recorded_file name r)) (\<lambda>f.
      ret \<lparr>do_name = ob_name ob, do_file = p, do_bytes = source_bytes f st, do_verify = ob_verify ob\<rparr>)))"

definition resolve_backup :: "host \<Rightarrow> inventory \<Rightarrow> service \<Rightarrow> drill_cfg \<Rightarrow> str option \<Rightarrow> ('l, drill_backup) prog" where
  "resolve_backup H i svc d chosen =
     bind (case filled (case chosen of Some x \<Rightarrow> x | None \<Rightarrow> []) of
             Some x \<Rightarrow>
               (if path_is_absolute x then ret (path_normalize x, JNull, None)
                else drill_fail ''--backup must be an absolute path'')
           | None \<Rightarrow> latest_backup H i svc d) (\<lambda>(dir, at_json, record).
     bind (exec_stat H dir) (\<lambda>st.
     if (case st of Some s \<Rightarrow> \<not> st_is_dir s | None \<Rightarrow> True) then drill_fail ''backup directory not found''
     else
       bind (mapp (drill_file_of H svc dir) (dc_databases d)) (\<lambda>fs.
       bind (mapp (drill_object_of H dir record) (s_objects svc)) (\<lambda>obs.
       ret \<lparr>kb_dir = dir, kb_taken_at = at_json, kb_files = fs, kb_objects = obs\<rparr>))))"

section \<open>How production starts\<close>

record start_spec =
  sp_unit :: "str option"
  sp_argv :: "str list"
  sp_cwd :: str
  sp_user :: "str option"
  sp_env :: "(str \<times> str) list"

definition unit_texts :: "host \<Rightarrow> unit_state \<Rightarrow> ('l, str list) prog" where
  "unit_texts H st =
     foldp (\<lambda>ts f. bind (exec_read H f) (\<lambda>t. ret (case t of Some x \<Rightarrow> ts @ [x] | None \<Rightarrow> ts))) []
       (filter (\<lambda>f. f \<noteq> []) (u_fragment_path st # u_drop_ins st))"

definition no_directives :: unit_directives where
  "no_directives = \<lparr>ud_exec = None, ud_raw_exec = None, ud_workdir = None, ud_user = None, ud_env = []\<rparr>"

text \<open>\<^verbatim>\<open>/[$%]/\<close>, and \<^verbatim>\<open>/^[^-:+!]*@/\<close> on the first word.\<close>

definition has_substitution :: "str \<Rightarrow> bool" where
  "has_substitution raw \<longleftrightarrow>
     CHR ''$'' \<in> set raw \<or> CHR ''%'' \<in> set raw \<or>
     CHR ''@'' \<in> set (takeWhile (\<lambda>c. c \<notin> set ''-:+!'') (takeWhile (\<lambda>c. \<not> is_ws c) raw))"

definition start_command :: "drill_cfg \<Rightarrow> unit_directives \<Rightarrow> exc + str list" where
  "start_command d ud =
     (case dc_command d of
        Some argv \<Rightarrow> Inr argv
      | None \<Rightarrow>
          (case ud_exec ud of
             None \<Rightarrow> Inl (DrillError ''no ExecStart found; set drill.command'' 1)
           | Some argv \<Rightarrow>
               (if argv = [] then Inl (DrillError ''no ExecStart found; set drill.command'' 1)
                else if has_substitution (case ud_raw_exec ud of Some r \<Rightarrow> r | None \<Rightarrow> [])
                then Inl (DrillError ''ExecStart uses substitutions or specifiers; set drill.command'' 1)
                else Inr argv)))"

definition start_spec_of :: "host \<Rightarrow> service \<Rightarrow> drill_cfg \<Rightarrow> ('l, start_spec) prog" where
  "start_spec_of H svc d =
     (if s_units svc = [] \<and> dc_command d = None then drill_fail ''no unit to copy ExecStart from; set drill.command''
      else if 1 < length (s_units svc) \<and> dc_command d = None \<and> dc_unit d = None
      then drill_fail ''a drill starts one process, so set drill.unit''
      else
        (let u = (case dc_unit d of Some x \<Rightarrow> Some x | None \<Rightarrow> (case s_units svc of [] \<Rightarrow> None | x # xs \<Rightarrow> Some x)) in
         bind (case u of
                 None \<Rightarrow> ret no_directives
               | Some x \<Rightarrow> bind (show_unit H x) (\<lambda>st. bind (unit_texts H st) (\<lambda>ts. ret (unit_directives_of ts)))) (\<lambda>ud.
         bind (of_sum (start_command d ud)) (\<lambda>argv.
         if \<not> path_is_absolute (case argv of [] \<Rightarrow> [] | x # xs \<Rightarrow> x)
         then drill_fail ''the drill command must start with an absolute path''
         else ret \<lparr>sp_unit = u, sp_argv = argv, sp_cwd = (case ud_workdir ud of Some w \<Rightarrow> w | None \<Rightarrow> s_code_dir svc),
                   sp_user = ud_user ud, sp_env = filter (\<lambda>e. \<not> is_secret_name (fst e)) (ud_env ud)\<rparr>))))"

section \<open>What the checkout and the inventory must have\<close>

definition lacks_requirement :: "host \<Rightarrow> service \<Rightarrow> str \<times> str \<Rightarrow> ('l, bool) prog" where
  "lacks_requirement H svc r =
     bind (exec_read H (path_join [s_code_dir svc, fst r])) (\<lambda>t.
     ret (case t of None \<Rightarrow> True | Some x \<Rightarrow> \<not> str_includes x (snd r)))"

definition missing_requirements :: "host \<Rightarrow> service \<Rightarrow> drill_cfg \<Rightarrow> ('l, (str \<times> str) list) prog" where
  "missing_requirements H svc d = filterp (lacks_requirement H svc) (dc_requires d)"

definition is_postgres :: "database \<Rightarrow> bool" where
  "is_postgres db \<longleftrightarrow> db_engine db = ''postgresql''"

definition unmapped_databases :: "service \<Rightarrow> drill_cfg \<Rightarrow> database list" where
  "unmapped_databases svc d = filter (\<lambda>db. is_postgres db \<and> db_name db \<notin> fst ` set (dc_databases d)) (s_databases svc)"

definition mapped_databases :: "service \<Rightarrow> drill_cfg \<Rightarrow> database list" where
  "mapped_databases svc d = filter (\<lambda>db. is_postgres db \<and> db_name db \<in> fst ` set (dc_databases d)) (s_databases svc)"

text \<open>Both URLs of every restored database, and Valkey's, must be overridden.\<close>

definition lacks_url :: "drill_cfg \<Rightarrow> database \<Rightarrow> bool" where
  "lacks_url d db = (case map_of (dc_databases d) (db_name db) of Some (u, x) \<Rightarrow> u = [] \<or> x = [] | None \<Rightarrow> False)"

definition lacks_override :: "service \<Rightarrow> drill_cfg \<Rightarrow> bool" where
  "lacks_override svc d \<longleftrightarrow>
     mapped_databases svc d \<noteq> [] \<and>
     (list_ex (lacks_url d) (mapped_databases svc d) \<or> (case map_of (dc_env d) ''VALKEY_URL'' of Some v \<Rightarrow> v = [] | None \<Rightarrow> True))"

definition check_isolated :: "service \<Rightarrow> drill_cfg \<Rightarrow> ('l, unit) prog" where
  "check_isolated svc d =
     (if dc_compare d \<noteq> [] \<and> (case dc_production_port d of Some p \<Rightarrow> p = 0 | None \<Rightarrow> True)
      then drill_fail ''declares compare paths but no production port''
      else if unmapped_databases svc d \<noteq> [] then drill_fail ''drill.databases must map every PostgreSQL database''
      else if lacks_override svc d then drill_fail ''drill.env must set the URLs of the databases and VALKEY_URL''
      else ret ())"

definition check_ready_to_drill :: "host \<Rightarrow> service \<Rightarrow> drill_cfg \<Rightarrow> ('l, unit) prog" where
  "check_ready_to_drill H svc d =
     andthen (check_isolated svc d)
     (bind (missing_requirements H svc d) (\<lambda>missing.
      if missing \<noteq> [] then drill_fail ''the deployed checkout does not have what the overrides rely on''
      else
        bind (case filled (case s_env_file svc of Some f \<Rightarrow> f | None \<Rightarrow> []) of
                None \<Rightarrow> ret True
              | Some f \<Rightarrow> bind (exec_stat H f) (\<lambda>st. ret (st \<noteq> None))) (\<lambda>there.
        if \<not> there then drill_fail ''the env file is not found''
        else
          bind (exec_listeners H (dc_port d)) (\<lambda>busy.
          if busy \<noteq> [] then drill_fail ''the drill port is already in use'' else ret ()))))"

end
