(* ===== verification/Drill.thy ===== *)
theory Drill
  imports Drill_Inputs Inventory_Entry
begin

text \<open>
  The run of a restore drill, \<^verbatim>\<open>drill\<close> and \<^verbatim>\<open>stopInstance\<close> of \<^verbatim>\<open>lib/commands/drill.js\<close>: copies are restored into
  scratch databases and directories, a second instance is started on them, compared with production and
  stopped, and everything that was created is removed. Only the first failure is recorded: the abort that
  follows it and any other error of the body are caught alike. Main process ids are whole numbers.
\<close>

section \<open>The record of a run\<close>

record database_check =
  dk_name :: str
  dk_source :: str
  dk_copy :: str
  dk_bytes :: "int option"
  dk_integrity :: "str option"

record object_check =
  og_name :: str
  og_source :: str
  og_copy :: str
  og_blobs :: nat
  og_skipped :: nat
  og_bytes :: int
  og_mismatches :: nat
  og_integrity :: "str option"

record ready_check =
  rk_url :: str
  rk_ok :: bool
  rk_status :: "int option"
  rk_seconds :: "int option"

record count_check =
  ck_db :: str
  ck_table :: str
  ck_production :: "rat option"
  ck_restored :: rat
  ck_match :: bool
  ck_tolerance :: int
  ck_error :: "str option"

record acceptance_check =
  ak_path :: str
  ak_detail :: "str option"

record scratch =
  sc_name :: str
  sc_database :: str
  sc_password :: str
  sc_dropped :: "bool option"
  sc_error :: "str option"

record stop_check =
  sk_ok :: bool
  sk_pid :: "int option"
  sk_signal :: "str option"
  sk_detail :: "str option"

record drill_state =
  dl_failure :: "(str \<times> str) option"
  dl_pid :: "int option"
  dl_databases :: "database_check list"
  dl_objects :: "object_check list"
  dl_ready :: "ready_check option"
  dl_compare :: "compared list"
  dl_counts :: "count_check list"
  dl_acceptance :: "acceptance_check list"
  dl_stop :: "stop_check option"
  dl_scratches :: "scratch list"
  dl_production :: "int list"
  dl_created :: bool
  dl_kept :: bool

definition fresh_drill :: drill_state where
  "fresh_drill =
     \<lparr>dl_failure = None, dl_pid = None, dl_databases = [], dl_objects = [], dl_ready = None, dl_compare = [], dl_counts = [],
      dl_acceptance = [], dl_stop = None, dl_scratches = [], dl_production = [], dl_created = False, dl_kept = False\<rparr>"

text \<open>The names of a run.\<close>

record drill_names =
  dn_tmp :: str
  dn_unit :: str
  dn_stamp :: str

definition drill_names_of :: "inventory \<Rightarrow> str \<Rightarrow> str \<Rightarrow> drill_names" where
  "drill_names_of i sid st =
     \<lparr>dn_tmp = path_join [inv_drill_dir i, sid @ ''-'' @ st], dn_unit = ''ovhost-drill-'' @ sid @ ''-'' @ st @ ''.service'', dn_stamp = st\<rparr>"

definition note_failure :: "str \<Rightarrow> str \<Rightarrow> drill_state \<Rightarrow> drill_state" where
  "note_failure stage m l = (if dl_failure l = None then l\<lparr>dl_failure := Some (stage, m)\<rparr> else l)"

definition abort :: "str \<Rightarrow> str \<Rightarrow> (drill_state, 'a) prog" where
  "abort stage m = andthen (modl (note_failure stage m)) (throw (JsError m))"

fun on_last :: "('a \<Rightarrow> 'a) \<Rightarrow> 'a list \<Rightarrow> 'a list" where
  "on_last f [] = []"
| "on_last f [x] = [f x]"
| "on_last f (x # y # ys) = x # on_last f (y # ys)"

definition note_database :: "(database_check \<Rightarrow> database_check) \<Rightarrow> (drill_state, unit) prog" where
  "note_database f = modl (\<lambda>l. l\<lparr>dl_databases := on_last f (dl_databases l)\<rparr>)"

definition note_object :: "(object_check \<Rightarrow> object_check) \<Rightarrow> (drill_state, unit) prog" where
  "note_object f = modl (\<lambda>l. l\<lparr>dl_objects := on_last f (dl_objects l)\<rparr>)"

section \<open>Room\<close>

text \<open>\<^verbatim>\<open>id.replace(/[^a-z0-9_]/g, '_')\<close>\<close>

definition scratch_id :: "str \<Rightarrow> str" where
  "scratch_id sid = map (\<lambda>c. if is_lower c \<or> is_digit c \<or> c = CHR ''_'' then c else CHR ''_'') sid"

definition dump_bytes :: "host \<Rightarrow> drill_file list \<Rightarrow> ('l, int) prog" where
  "dump_bytes H fs =
     foldp (\<lambda>n f. bind (exec_stat H (df_file f)) (\<lambda>st. ret (case st of Some s \<Rightarrow> n + st_size s | None \<Rightarrow> n))) 0 fs"

definition drop_leftovers :: "host \<Rightarrow> str \<Rightarrow> ('l, unit) prog" where
  "drop_leftovers H sid =
     bind (scratch_leftovers H (''ov_'' @ scratch_id sid @ ''_drill_'')) (\<lambda>(dbs, roles).
     andthen (each (drop_database H) dbs) (each (drop_role H) roles))"

definition database_room :: "ctx \<Rightarrow> str \<Rightarrow> drill_file list \<Rightarrow> (drill_state, unit) prog" where
  "database_room c sid fs =
     (let H = exec c; dir = inv_drill_dir (inv c) in
      whenever (fs \<noteq> [])
        (bind (dump_bytes H fs) (\<lambda>n.
         andthen (exec_mkdir H dir None)
         (bind (exec_statfs H dir) (\<lambda>free.
          if free < 2 * n + 1024 ^ 3 then abort ''space'' ''not enough free space'' else drop_leftovers H sid)))))"

definition object_room :: "ctx \<Rightarrow> drill_object list \<Rightarrow> (drill_state, unit) prog" where
  "object_room c obs =
     (let H = exec c; dir = inv_drill_dir (inv c); n = sum_list (map do_bytes obs) in
      whenever (n \<noteq> 0)
        (andthen (exec_mkdir H dir None)
         (bind (exec_statfs H dir) (\<lambda>free.
          if of_int free < n then abort ''space'' ''not enough free space'' else ret ()))))"

definition make_missing :: "host \<Rightarrow> str \<Rightarrow> str \<Rightarrow> ('l, unit) prog" where
  "make_missing H owner p = bind (exec_stat H p) (\<lambda>st. whenever (st = None) (exec_mkdir H p (Some owner)))"

definition make_drill_dirs :: "ctx \<Rightarrow> service \<Rightarrow> drill_cfg \<Rightarrow> drill_names \<Rightarrow> bool \<Rightarrow> (drill_state, unit) prog" where
  "make_drill_dirs c svc d ns databases =
     (let H = exec c; tmp = dn_tmp ns; at_tmp = expand_vars tmp (dc_port d) in
      bind (exec_stat H tmp) (\<lambda>st.
      if st \<noteq> None then abort ''prepare'' ''already exists''
      else
        andthen (exec_mkdir H (inv_drill_dir (inv c)) None)
        (andthen (exec_mkdir H tmp (Some (s_run_as svc)))
        (andthen (modl (\<lambda>l. l\<lparr>dl_created := True\<rparr>))
        (andthen (whenever databases (exec_mkdir H (path_join [tmp, ''pg'']) (Some pg_user)))
        (andthen (each (\<lambda>p. exec_mkdir H (at_tmp p) (Some (s_run_as svc))) (dc_dirs d))
          (each (\<lambda>b. make_missing H (s_run_as svc) (at_tmp (fst b))) (dc_bind d))))))))"

section \<open>Databases\<close>

definition scratch_name :: "str \<Rightarrow> str \<Rightarrow> nat \<Rightarrow> nat \<Rightarrow> str" where
  "scratch_name sid st n i = ''ov_'' @ scratch_id sid @ ''_drill_'' @ st @ (if 1 < n then ''_'' @ nat_str i else [])"

text \<open>A copy for the \<^verbatim>\<open>postgres\<close> user, checked, then restored into a database and a role of their own.\<close>

definition restore_database :: "host \<Rightarrow> str \<Rightarrow> drill_names \<Rightarrow> nat \<Rightarrow> nat \<times> drill_file \<Rightarrow> (drill_state, unit) prog" where
  "restore_database H sid ns n x =
     (case x of (i, f) \<Rightarrow>
        (let copy = path_join [dn_tmp ns, ''pg'', df_name f @ ''.dump'']; name = scratch_name sid (dn_stamp ns) n i in
         bind (exec_run H ''install'' [''-o'', pg_user, ''-m'', ''0600'', ''-T'', ''--'', df_file f, copy] as_root) (\<lambda>r.
         if rc r \<noteq> 0 then abort ''restore'' ''copying failed''
         else
           bind (exec_stat H copy) (\<lambda>st.
           andthen (modl (\<lambda>l. l\<lparr>dl_databases := dl_databases l @
             [\<lparr>dk_name = df_name f, dk_source = df_file f, dk_copy = copy, dk_bytes = map_option st_size st, dk_integrity = None\<rparr>]\<rparr>))
           (andthen (try_catch (bind (verify_dump H copy (Some pg_user)) (\<lambda>_. ret ()))
              (\<lambda>e. andthen (note_database (\<lambda>k. k\<lparr>dk_integrity := Some (''error: '' @ exc_message e)\<rparr>))
                      (abort ''integrity'' (exc_message e))))
           (andthen (note_database (\<lambda>k. k\<lparr>dk_integrity := Some ''pg_restore --list ok''\<rparr>))
           (bind (create_role H name) (\<lambda>pw.
            andthen (modl (\<lambda>l. l\<lparr>dl_scratches := dl_scratches l @
              [\<lparr>sc_name = df_name f, sc_database = name, sc_password = pw, sc_dropped = None, sc_error = None\<rparr>]\<rparr>))
            (andthen (bind (create_database H name (Some name)) (\<lambda>_. ret ()))
              (bind (pg_restore H copy name (Some name)) (\<lambda>_. ret ())))))))))))"

section \<open>Object directories\<close>

text \<open>\<open>digest\<close> is SHA-256 in hexadecimal. A file that is not named like a hash is counted, not verified.\<close>

definition check_blob :: "(str \<Rightarrow> str) \<Rightarrow> host \<Rightarrow> str list \<Rightarrow> str \<Rightarrow> (drill_state, str list) prog" where
  "check_blob digest H bad p =
     bind (exec_stat H p) (\<lambda>st.
     case st of
       None \<Rightarrow> ret bad
     | Some s \<Rightarrow>
         (if st_is_symlink s \<or> \<not> st_is_file s then ret (bad @ [p])
          else if \<not> is_blob_name (path_basename p)
          then andthen (note_object (\<lambda>k. k\<lparr>og_skipped := og_skipped k + 1, og_bytes := og_bytes k + st_size s\<rparr>)) (ret bad)
          else if st_nlink s \<noteq> 1 then ret (bad @ [p])
          else
            andthen (note_object (\<lambda>k. k\<lparr>og_bytes := og_bytes k + st_size s\<rparr>))
            (bind (sha256_stream digest H p) (\<lambda>h.
             if h \<noteq> path_basename p then ret (bad @ [p])
             else andthen (note_object (\<lambda>k. k\<lparr>og_blobs := og_blobs k + 1\<rparr>)) (ret bad)))))"

definition verify_object_blobs :: "(str \<Rightarrow> str) \<Rightarrow> host \<Rightarrow> nat \<Rightarrow> str \<Rightarrow> (drill_state, unit) prog" where
  "verify_object_blobs digest H fuel dir =
     bind (walk_files H fuel dir) (\<lambda>ps.
     bind (foldp (check_blob digest H) [] ps) (\<lambda>bad.
     andthen (note_object (\<lambda>k. k\<lparr>og_mismatches := length bad\<rparr>))
       (if bad \<noteq> [] then throw (JsError ''blob(s) do not match their name'') else ret ())))"

text \<open>The listing is checked before root extracts anything.\<close>

definition extract_archive :: "host \<Rightarrow> str \<Rightarrow> str \<Rightarrow> (drill_state, unit) prog" where
  "extract_archive H archive dest =
     bind (exec_run H ''tar'' [''-tvzf'', archive] as_root) (\<lambda>ls.
     if rc ls \<noteq> 0 then abort ''objects'' ''listing failed''
     else if tar_warned (rerr ls) then abort ''objects'' ''the archive holds an absolute or parent member''
     else case tar_member_problem (rout ls) of
         Some m \<Rightarrow> abort ''objects'' m
       | None \<Rightarrow>
           bind (exec_run H ''tar'' [''-xzf'', archive, ''-C'', dest, ''--no-same-owner'', ''--no-same-permissions''] as_root) (\<lambda>x.
           if rc x \<noteq> 0 then abort ''objects'' ''extracting failed'' else ret ()))"

definition restore_object :: "(str \<Rightarrow> str) \<Rightarrow> host \<Rightarrow> nat \<Rightarrow> service \<Rightarrow> drill_names \<Rightarrow> drill_object \<Rightarrow> (drill_state, unit) prog" where
  "restore_object digest H fuel svc ns ob =
     (let dest = path_join [dn_tmp ns, do_name ob] in
      andthen (exec_mkdir H dest (Some (s_run_as svc)))
      (andthen (extract_archive H (do_file ob) dest)
      (andthen (modl (\<lambda>l. l\<lparr>dl_objects := dl_objects l @
        [\<lparr>og_name = do_name ob, og_source = do_file ob, og_copy = dest, og_blobs = 0, og_skipped = 0, og_bytes = 0,
          og_mismatches = 0, og_integrity = None\<rparr>]\<rparr>))
      (if \<not> do_verify ob
       then note_object (\<lambda>k. k\<lparr>og_integrity := Some ''archive only (blobs are not content-addressed on disk)''\<rparr>)
       else
         andthen (try_catch (verify_object_blobs digest H fuel dest)
           (\<lambda>e. andthen (note_object (\<lambda>k. k\<lparr>og_integrity := Some (''error: '' @ exc_message e)\<rparr>))
                   (abort ''objects'' (exc_message e))))
         (note_object (\<lambda>k. k\<lparr>og_integrity := Some ''sha256 ok''\<rparr>))))))"

section \<open>The instance\<close>

definition scratch_for :: "str \<Rightarrow> scratch list \<Rightarrow> scratch option" where
  "scratch_for name ss = List.find (\<lambda>s. sc_name s = name) ss"

definition restored_count :: "host \<Rightarrow> str \<times> str \<Rightarrow> (drill_state, rat) prog" where
  "restored_count H x =
     bind getl (\<lambda>l.
     case scratch_for (fst x) (dl_scratches l) of
       None \<Rightarrow> type_fault
     | Some s \<Rightarrow> count_rows H (sc_database s) (count_sql (snd x)))"

text \<open>The variables that hold a database URL, each with the URL of the scratch database.\<close>

fun database_env :: "scratch list \<Rightarrow> (str \<times> str) list \<Rightarrow> drill_file list \<Rightarrow> (str \<times> str) list option" where
  "database_env ss env [] = Some env"
| "database_env ss env (f # fs) =
     (case scratch_for (df_name f) ss of
        None \<Rightarrow> None
      | Some s \<Rightarrow>
          (let u = database_url (sc_database s) (sc_database s) (sc_password s) in
           database_env ss (obj_put (df_direct_url f) u (obj_put (df_url f) u env)) fs))"

definition env_text :: "drill_cfg \<Rightarrow> str \<Rightarrow> (str \<times> str) list \<Rightarrow> str" where
  "env_text d tmp dbEnv =
     join [CHR 0x0A]
       ([''# written by ovhost drill; no secret values: the production env file is loaded separately''] @
        map (\<lambda>(k, v). env_line k (expand_vars tmp (dc_port d) v)) (dc_env d) @ map (\<lambda>(k, v). env_line k v) dbEnv) @ [CHR 0x0A]"

definition passed_on :: "drill_cfg \<Rightarrow> (str \<times> str) list \<Rightarrow> (str \<times> str) list \<Rightarrow> (str \<times> str) list" where
  "passed_on d dbEnv env = filter (\<lambda>e. fst e \<notin> fst ` set (dc_env d) \<and> fst e \<notin> fst ` set dbEnv) env"

definition unit_properties :: "service \<Rightarrow> drill_cfg \<Rightarrow> start_spec \<Rightarrow> drill_names \<Rightarrow> (str \<times> str) list \<Rightarrow> str list" where
  "unit_properties svc d sp ns dbEnv =
     (let tmp = dn_tmp ns; logFile = path_join [tmp, ''drill.log''] in
      [''Type=exec''] @ map (\<lambda>(k, v). environment_property k v) (passed_on d dbEnv (sp_env sp)) @
      (case filled (case s_env_file svc of Some f \<Rightarrow> f | None \<Rightarrow> []) of Some f \<Rightarrow> [''EnvironmentFile='' @ f] | None \<Rightarrow> []) @
      [''EnvironmentFile='' @ path_join [tmp, ''drill.env''], ''StandardOutput=append:'' @ logFile, ''StandardError=append:'' @ logFile,
       ''ProtectSystem=strict'', ''ReadWritePaths='' @ tmp, ''PrivateTmp=yes'', ''ProtectHome=read-only'', ''NoNewPrivileges=yes''] @
      map (\<lambda>(src, t). ''BindPaths='' @ expand_vars tmp (dc_port d) src @ '':'' @ t) (dc_bind d) @
      [''SocketBindAllow=tcp:'' @ int_str (dc_port d), ''SocketBindDeny=any'', ''RuntimeMaxSec='' @ int_str (dc_runtime_max d),
       ''TimeoutStopSec=15''] @
      (if dc_outbound d then [] else [''IPAddressDeny=any'', ''IPAddressAllow=localhost'']))"

definition run_arguments :: "service \<Rightarrow> drill_cfg \<Rightarrow> start_spec \<Rightarrow> drill_names \<Rightarrow> (str \<times> str) list \<Rightarrow> str list" where
  "run_arguments svc d sp ns dbEnv =
     [''--unit'', dn_unit ns, ''--description'', ''ovhost restore drill of '' @ s_id svc, ''--collect'', ''--quiet'',
      ''--uid='' @ s_run_as svc, ''--working-directory='' @ sp_cwd sp] @
     concat (map (\<lambda>p. [''-p'', p]) (unit_properties svc d sp ns dbEnv)) @
     [''--''] @ map (expand_vars (dn_tmp ns) (dc_port d)) (sp_argv sp)"

definition main_pid :: "unit_state \<Rightarrow> int option" where
  "main_pid st = (case u_main_pid st of Some q \<Rightarrow> (if q = 0 then None else Some \<lfloor>q\<rfloor>) | None \<Rightarrow> None)"

definition note_production :: "host \<Rightarrow> str \<Rightarrow> (drill_state, unit) prog" where
  "note_production H u =
     bind (show_unit H u) (\<lambda>st.
     case main_pid st of None \<Rightarrow> ret () | Some p \<Rightarrow> modl (\<lambda>l. l\<lparr>dl_production := dl_production l @ [p]\<rparr>))"

text \<open>The process is ovhost's to stop only when it is not one of production's.\<close>

definition adopt_instance :: "host \<Rightarrow> drill_names \<Rightarrow> (drill_state, unit) prog" where
  "adopt_instance H ns =
     bind (show_unit H (dn_unit ns)) (\<lambda>st.
     case main_pid st of
       None \<Rightarrow> abort ''start'' ''the drill instance exited right away''
     | Some p \<Rightarrow>
         bind getl (\<lambda>l.
         if p \<in> set (dl_production l) then abort ''start'' ''the pid is production's; not touching it''
         else modl (\<lambda>l. l\<lparr>dl_pid := Some p\<rparr>)))"

definition start_instance :: "host \<Rightarrow> service \<Rightarrow> drill_cfg \<Rightarrow> start_spec \<Rightarrow> drill_names \<Rightarrow> drill_file list \<Rightarrow> (drill_state, unit) prog" where
  "start_instance H svc d sp ns fs =
     bind getl (\<lambda>l.
     case database_env (dl_scratches l) [] fs of
       None \<Rightarrow> type_fault
     | Some dbEnv \<Rightarrow>
         andthen (exec_write H (path_join [dn_tmp ns, ''drill.env'']) (env_text d (dn_tmp ns) dbEnv))
         (andthen (each (note_production H) (s_units svc))
         (bind (exec_run H ''systemd-run'' (run_arguments svc d sp ns dbEnv) as_root) (\<lambda>r.
          if rc r \<noteq> 0 then abort ''start'' ''systemd-run failed'' else adopt_instance H ns))))"

section \<open>Readiness and comparison\<close>

definition drill_url :: "int \<Rightarrow> str \<Rightarrow> str" where
  "drill_url port route = ''http://127.0.0.1:'' @ int_str port @ route"

definition pid_gone :: "host \<Rightarrow> (drill_state, bool) prog" where
  "pid_gone H =
     bind getl (\<lambda>l. case dl_pid l of None \<Rightarrow> ret True | Some p \<Rightarrow> bind (exec_pid_alive H p) (\<lambda>b. ret (\<not> b)))"

fun await_ready :: "host \<Rightarrow> nat \<Rightarrow> drill_cfg \<Rightarrow> int \<Rightarrow> http_result option \<Rightarrow> (drill_state, http_result option) prog" where
  "await_ready H 0 d t0 lst = throw OutOfFuel"
| "await_ready H (Suc fuel) d t0 lst =
     bind (exec_now H) (\<lambda>now.
     if \<not> now - t0 < dc_ready_timeout d * 1000 then ret lst
     else
       bind (exec_http H (drill_url (dc_port d) (dc_ready d))) (\<lambda>r.
       if ok_status (hs_status r) then ret (Some r)
       else
         bind (pid_gone H) (\<lambda>gone.
         if gone then
           bind (exec_now H) (\<lambda>t.
           andthen (modl (\<lambda>l. l\<lparr>dl_ready := Some \<lparr>rk_url = drill_url (dc_port d) (dc_ready d), rk_ok = False,
             rk_status = Some (hs_status r), rk_seconds = Some (rounded_seconds t0 t)\<rparr>, dl_pid := None\<rparr>))
           (abort ''ready'' ''the drill instance exited before it was ready''))
         else andthen (exec_sleep H 1000) (await_ready H fuel d t0 (Some r)))))"

definition check_ready :: "host \<Rightarrow> nat \<Rightarrow> drill_cfg \<Rightarrow> (drill_state, unit) prog" where
  "check_ready H fuel d =
     (let url = drill_url (dc_port d) (dc_ready d) in
      bind (exec_now H) (\<lambda>t0.
      andthen (modl (\<lambda>l. l\<lparr>dl_ready := Some \<lparr>rk_url = url, rk_ok = False, rk_status = None, rk_seconds = None\<rparr>\<rparr>))
      (bind (await_ready H fuel d t0 None) (\<lambda>lst.
       bind (exec_now H) (\<lambda>t.
       let good = (case lst of Some r \<Rightarrow> ok_status (hs_status r) | None \<Rightarrow> False) in
       andthen (modl (\<lambda>l. l\<lparr>dl_ready := Some \<lparr>rk_url = url, rk_ok = good,
         rk_status = Some (case lst of Some r \<Rightarrow> hs_status r | None \<Rightarrow> 0), rk_seconds = Some (rounded_seconds t0 t)\<rparr>\<rparr>))
       (if good then ret () else abort ''ready'' ''not ready''))))))"

definition compare_one :: "host \<Rightarrow> drill_cfg \<Rightarrow> compare_cfg \<Rightarrow> (drill_state, unit) prog" where
  "compare_one H d e =
     bind (exec_http H (drill_url (case dc_production_port d of Some p \<Rightarrow> p | None \<Rightarrow> 0) (cc_path e))) (\<lambda>a.
     bind (exec_http H (drill_url (dc_port d) (cc_path e))) (\<lambda>b.
     modl (\<lambda>l. l\<lparr>dl_compare := dl_compare l @ [compare_bodies e a b]\<rparr>)))"

definition production_count :: "host \<Rightarrow> service \<Rightarrow> str \<times> str \<Rightarrow> ('l, str + rat) prog" where
  "production_count H svc x =
     try_catch
       (case find_database svc (fst x) of
          None \<Rightarrow> type_fault
        | Some db \<Rightarrow> bind (count_rows H (db_database db) (count_sql (snd x))) (\<lambda>n. ret (Inr n)))
       (\<lambda>e. ret (Inl (exc_message e)))"

definition compare_count :: "host \<Rightarrow> service \<Rightarrow> drill_cfg \<Rightarrow> (str \<times> str) \<times> rat \<Rightarrow> (drill_state, unit) prog" where
  "compare_count H svc d y =
     (case y of (x, restored) \<Rightarrow>
        bind (production_count H svc x) (\<lambda>r.
        modl (\<lambda>l. l\<lparr>dl_counts := dl_counts l @
          [\<lparr>ck_db = fst x, ck_table = snd x, ck_production = (case r of Inr n \<Rightarrow> Some n | Inl m \<Rightarrow> None), ck_restored = restored,
            ck_match = (case r of Inr n \<Rightarrow> \<bar>n - restored\<bar> \<le> of_int (dc_counts_tolerance d) | Inl m \<Rightarrow> False),
            ck_tolerance = dc_counts_tolerance d, ck_error = (case r of Inr n \<Rightarrow> None | Inl m \<Rightarrow> filled m)\<rparr>]\<rparr>)))"

definition check_same :: "(drill_state, unit) prog" where
  "check_same =
     bind getl (\<lambda>l.
     if list_all cp_match (dl_compare l) \<and> list_all ck_match (dl_counts l) then ret ()
     else abort ''compare'' ''differs from production'')"

definition missing_keys :: "str list \<Rightarrow> str \<Rightarrow> str list" where
  "missing_keys ks body =
     (case json_parse body of
        Some v \<Rightarrow> filter (\<lambda>k. has_property k v \<noteq> Inr True) ks
      | None \<Rightarrow> ks)"

definition accept_one :: "host \<Rightarrow> drill_cfg \<Rightarrow> acceptance_cfg \<Rightarrow> (drill_state, unit) prog" where
  "accept_one H d a =
     bind (exec_http H (drill_url (dc_port d) (ac_path a))) (\<lambda>r.
     let detail =
       (if hs_status r \<noteq> ac_status a then Some ''unexpected status''
        else if ac_keys a = [] then None
        else if missing_keys (ac_keys a) (hs_body r) = [] then None
        else Some (''missing '' @ join '', '' (missing_keys (ac_keys a) (hs_body r)))) in
     modl (\<lambda>l. l\<lparr>dl_acceptance := dl_acceptance l @ [\<lparr>ak_path = ac_path a, ak_detail = detail\<rparr>]\<rparr>))"

definition check_accepted :: "(drill_state, unit) prog" where
  "check_accepted =
     bind getl (\<lambda>l.
     if list_all (\<lambda>a. ak_detail a = None) (dl_acceptance l) then ret () else abort ''acceptance'' ''an acceptance check failed'')"

section \<open>Stopping\<close>

definition stop_grace_ms :: int where
  "stop_grace_ms = 20000"

text \<open>The signal the process ended on, or none when it survived both.\<close>

fun await_exit :: "host \<Rightarrow> nat \<Rightarrow> int \<Rightarrow> int \<Rightarrow> bool \<Rightarrow> ('l, str option) prog" where
  "await_exit H 0 p t0 killed = throw OutOfFuel"
| "await_exit H (Suc fuel) p t0 killed =
     bind (exec_pid_alive H p) (\<lambda>alive.
     if \<not> alive then ret (Some (if killed then ''SIGKILL'' else ''SIGTERM''))
     else
       bind (exec_now H) (\<lambda>now.
       if stop_grace_ms \<le> now - t0 then
         (if killed then ret None
          else andthen (bind (exec_kill H p ''SIGKILL'') (\<lambda>_. ret ()))
                 (andthen (exec_sleep H 500) (await_exit H fuel p t0 True)))
       else andthen (exec_sleep H 500) (await_exit H fuel p t0 killed)))"

definition stop_instance :: "host \<Rightarrow> nat \<Rightarrow> int option \<Rightarrow> int \<Rightarrow> int list \<Rightarrow> ('l, stop_check option) prog" where
  "stop_instance H fuel pid port production =
     (case pid of
        None \<Rightarrow> ret None
      | Some p \<Rightarrow>
          (if p \<in> set production
           then ret (Some \<lparr>sk_ok = False, sk_pid = None, sk_signal = None, sk_detail = Some ''refusing to signal production pid''\<rparr>)
           else
             andthen (bind (exec_kill H p ''SIGTERM'') (\<lambda>_. ret ()))
             (bind (exec_now H) (\<lambda>t0.
              bind (await_exit H fuel p t0 False) (\<lambda>sig.
              case sig of
                None \<Rightarrow> ret (Some \<lparr>sk_ok = False, sk_pid = Some p, sk_signal = Some ''SIGKILL'', sk_detail = Some ''survived SIGKILL''\<rparr>)
              | Some g \<Rightarrow>
                  bind (exec_listeners H port) (\<lambda>left.
                  if left \<noteq> []
                  then ret (Some \<lparr>sk_ok = False, sk_pid = Some p, sk_signal = Some g, sk_detail = Some ''port is still in use''\<rparr>)
                  else ret (Some \<lparr>sk_ok = True, sk_pid = Some p, sk_signal = Some g, sk_detail = None\<rparr>)))))))"

definition stop_recorded :: "host \<Rightarrow> nat \<Rightarrow> drill_cfg \<Rightarrow> (drill_state, unit) prog" where
  "stop_recorded H fuel d =
     bind getl (\<lambda>l.
     bind (try_catch (stop_instance H fuel (dl_pid l) (dc_port d) (dl_production l))
             (\<lambda>e. ret (Some \<lparr>sk_ok = False, sk_pid = None, sk_signal = None, sk_detail = Some (''stop failed: '' @ exc_message e)\<rparr>))) (\<lambda>r.
     modl (\<lambda>l. l\<lparr>dl_stop := r\<rparr>)))"

definition add_error :: "str \<Rightarrow> scratch \<Rightarrow> scratch" where
  "add_error m s =
     s\<lparr>sc_dropped := Some False,
       sc_error := Some (join ''; '' (filter (\<lambda>x. x \<noteq> []) [(case sc_error s of Some e \<Rightarrow> e | None \<Rightarrow> []), m]))\<rparr>"

definition drop_scratch :: "host \<Rightarrow> scratch \<Rightarrow> ('l, scratch) prog" where
  "drop_scratch H s =
     bind (try_catch (andthen (drop_database H (sc_database s)) (ret s)) (\<lambda>e. ret (add_error (''dropdb: '' @ exc_message e) s))) (\<lambda>s1.
     bind (try_catch (andthen (drop_role H (sc_database s)) (ret s1)) (\<lambda>e. ret (add_error (''droprole: '' @ exc_message e) s1))) (\<lambda>s2.
     ret (if sc_dropped s2 = None then s2\<lparr>sc_dropped := Some True\<rparr> else s2)))"

definition drop_scratches :: "host \<Rightarrow> (drill_state, unit) prog" where
  "drop_scratches H =
     bind getl (\<lambda>l. bind (mapp (drop_scratch H) (dl_scratches l)) (\<lambda>ss. modl (\<lambda>l. l\<lparr>dl_scratches := ss\<rparr>)))"

definition clean_up :: "host \<Rightarrow> nat \<Rightarrow> drill_cfg \<Rightarrow> (drill_state, unit) prog" where
  "clean_up H fuel d = andthen (stop_recorded H fuel d) (drop_scratches H)"

section \<open>The drill\<close>

definition indexed :: "'a list \<Rightarrow> (nat \<times> 'a) list" where
  "indexed xs = zip [0..<length xs] xs"

definition restore_all :: "(str \<Rightarrow> str) \<Rightarrow> ctx \<Rightarrow> service \<Rightarrow> drill_cfg \<Rightarrow> drill_names \<Rightarrow> drill_backup \<Rightarrow> (drill_state, unit) prog" where
  "restore_all digest c svc d ns bk =
     (let H = exec c; fs = kb_files bk in
      andthen (database_room c (s_id svc) fs)
      (andthen (object_room c (kb_objects bk))
      (andthen (make_drill_dirs c svc d ns (fs \<noteq> []))
      (andthen (each (restore_database H (s_id svc) ns (length fs)) (indexed fs))
        (each (restore_object digest H (ctx_fuel c) svc ns) (kb_objects bk))))))"

definition check_copy_runs :: "ctx \<Rightarrow> service \<Rightarrow> drill_cfg \<Rightarrow> rat list \<Rightarrow> (drill_state, unit) prog" where
  "check_copy_runs c svc d counts =
     (let H = exec c in
      andthen (check_ready H (ctx_fuel c) d)
      (andthen (each (compare_one H d) (dc_compare d))
      (andthen (each (compare_count H svc d) (zip (dc_counts d) counts))
      (andthen check_same
      (andthen (each (accept_one H d) (dc_acceptance d)) check_accepted)))))"

definition drill_body ::
  "(str \<Rightarrow> str) \<Rightarrow> ctx \<Rightarrow> service \<Rightarrow> drill_cfg \<Rightarrow> drill_names \<Rightarrow> drill_backup \<Rightarrow> start_spec \<Rightarrow> (drill_state, unit) prog" where
  "drill_body digest c svc d ns bk sp =
     andthen (restore_all digest c svc d ns bk)
     (bind (mapp (restored_count (exec c)) (dc_counts d)) (\<lambda>counts.
      andthen (start_instance (exec c) svc d sp ns (kb_files bk))
        (check_copy_runs c svc d counts)))"

text \<open>\<^verbatim>\<open>/^[a-z][a-z0-9-]*-\d{8}-\d{6}$/\<close>\<close>

definition is_drill_dir :: "str \<Rightarrow> str \<Rightarrow> bool" where
  "is_drill_dir base tmp \<longleftrightarrow>
     (let b = path_basename tmp; n = length b - 16 in
      starts_with tmp (base @ ''/'') \<and> 16 < length b \<and> is_stamp (drop (n + 1) b) \<and> b ! n = CHR ''-'' \<and>
      is_lower (hd b) \<and> list_all (\<lambda>ch. is_lower ch \<or> is_digit ch \<or> ch = CHR ''-'') (take n b))"

definition remove_drill_dir :: "ctx \<Rightarrow> drill_names \<Rightarrow> bool \<Rightarrow> (drill_state, unit) prog" where
  "remove_drill_dir c ns keepDir =
     bind getl (\<lambda>l.
     let stuck = (case dl_stop l of Some k \<Rightarrow> \<not> sk_ok k | None \<Rightarrow> False); kept = modl (\<lambda>l. l\<lparr>dl_kept := True\<rparr>) in
     if \<not> dl_created l then ret ()
     else if keepDir \<or> stuck then kept
     else if is_drill_dir (inv_drill_dir (inv c)) (dn_tmp ns)
     then bind (exec_run (exec c) ''rm'' [''-rf'', ''--one-file-system'', ''--'', dn_tmp ns] as_root) (\<lambda>r. whenever (rc r \<noteq> 0) kept)
     else ret ())"

definition note_stuck :: "drill_state \<Rightarrow> drill_state" where
  "note_stuck l =
     (case dl_stop l of
        Some k \<Rightarrow> (if sk_ok k then l else note_failure ''stop'' (case sk_detail k of Some m \<Rightarrow> m | None \<Rightarrow> []) l)
      | None \<Rightarrow> l)"

text \<open>Everything between the checks and the record. The clean-up runs whatever the body did.\<close>

definition drill_run ::
  "(str \<Rightarrow> str) \<Rightarrow> ctx \<Rightarrow> service \<Rightarrow> drill_cfg \<Rightarrow> drill_names \<Rightarrow> drill_backup \<Rightarrow> start_spec \<Rightarrow> bool \<Rightarrow> (drill_state, unit) prog" where
  "drill_run digest c svc d ns bk sp keepDir =
     andthen
       (try_finally
         (try_catch (drill_body digest c svc d ns bk sp) (\<lambda>e. modl (note_failure ''error'' (exc_message e))))
         (clean_up (exec c) (ctx_fuel c) d))
     (andthen (modl note_stuck) (remove_drill_dir c ns keepDir))"

section \<open>The record\<close>

definition int_or_null :: "int option \<Rightarrow> json" where
  "int_or_null v = (case v of Some n \<Rightarrow> JNum (of_int n) | None \<Rightarrow> JNull)"

definition int_field :: "str \<Rightarrow> int option \<Rightarrow> (str \<times> json) list" where
  "int_field k v = field k (map_option (\<lambda>n. JNum (of_int n)) v)"

definition str_field :: "str \<Rightarrow> str option \<Rightarrow> (str \<times> json) list" where
  "str_field k v = field k (map_option JStr v)"

definition database_check_json :: "database_check \<Rightarrow> json" where
  "database_check_json k =
     JObj [(''name'', JStr (dk_name k)), (''source'', JStr (dk_source k)), (''copy'', JStr (dk_copy k)), (''bytes'', int_or_null (dk_bytes k)),
           (''integrity'', or_null (dk_integrity k)), (''engine'', JStr ''postgresql'')]"

definition object_check_json :: "object_check \<Rightarrow> json" where
  "object_check_json k =
     JObj [(''name'', JStr (og_name k)), (''source'', JStr (og_source k)), (''copy'', JStr (og_copy k)),
           (''blobs'', JNum (of_nat (og_blobs k))), (''skipped'', JNum (of_nat (og_skipped k))), (''bytes'', JNum (of_int (og_bytes k))),
           (''mismatches'', JNum (of_nat (og_mismatches k))), (''integrity'', or_null (og_integrity k))]"

definition ready_check_json :: "ready_check \<Rightarrow> json" where
  "ready_check_json k =
     JObj ([(''url'', JStr (rk_url k)), (''ok'', JBool (rk_ok k))] @ int_field ''status'' (rk_status k) @ int_field ''seconds'' (rk_seconds k))"

definition compared_json :: "compared \<Rightarrow> json" where
  "compared_json k =
     JObj ([(''path'', JStr (cp_path k)), (''productionStatus'', JNum (of_int (cp_production k))), (''drillStatus'', JNum (of_int (cp_drill k))),
            (''match'', JBool (cp_match k))] @ str_field ''mode'' (cp_mode k) @ str_field ''detail'' (cp_detail k))"

definition count_check_json :: "count_check \<Rightarrow> json" where
  "count_check_json k =
     JObj ([(''db'', JStr (ck_db k)), (''table'', JStr (ck_table k)),
            (''production'', case ck_production k of Some n \<Rightarrow> JNum n | None \<Rightarrow> JNull), (''restored'', JNum (ck_restored k)),
            (''match'', JBool (ck_match k))] @
           (if ck_tolerance k = 0 then [] else [(''tolerance'', JNum (of_int (ck_tolerance k)))]) @ str_field ''error'' (ck_error k))"

definition acceptance_check_json :: "acceptance_check \<Rightarrow> json" where
  "acceptance_check_json k = JObj ([(''path'', JStr (ak_path k)), (''ok'', JBool (ak_detail k = None))] @ str_field ''detail'' (ak_detail k))"

definition stop_check_json :: "stop_check \<Rightarrow> json" where
  "stop_check_json k =
     JObj ([(''ok'', JBool (sk_ok k))] @ int_field ''pid'' (sk_pid k) @ str_field ''signal'' (sk_signal k) @ str_field ''detail'' (sk_detail k))"

definition scratch_json :: "scratch list \<Rightarrow> json" where
  "scratch_json ss =
     (case ss of
        [] \<Rightarrow> JNull
      | s # _ \<Rightarrow>
          (let errors = List.map_filter sc_error ss in
           JObj ([(''database'', JStr (sc_database s)), (''role'', JStr (sc_database s)),
                  (''dropped'', JBool (list_all (\<lambda>x. sc_dropped x = Some True) ss))] @
                 (if errors = [] then [] else [(''error'', JStr (join ''; '' errors))]))))"

definition failure_json :: "(str \<times> str) option \<Rightarrow> json" where
  "failure_json f = (case f of None \<Rightarrow> JNull | Some (stage, m) \<Rightarrow> JObj [(''stage'', JStr stage), (''message'', JStr m)])"

definition passed_text :: "drill_state \<Rightarrow> str" where
  "passed_text l = (if dl_failure l = None then ''passed'' else ''failed'')"

record drill_head =
  dh_service :: str
  dh_started :: int
  dh_operator :: str

text \<open>The row for the documentation, a display text that \<^verbatim>\<open>markdownRow\<close> makes of the record, is the argument \<open>row\<close>.\<close>

definition drill_fields :: "inventory \<Rightarrow> drill_cfg \<Rightarrow> drill_names \<Rightarrow> drill_backup \<Rightarrow> drill_head \<Rightarrow> drill_state \<Rightarrow> int \<Rightarrow> (str \<times> json) list" where
  "drill_fields i d ns bk h l finished =
     [(''service'', JStr (dh_service h)), (''startedAt'', JStr (iso_string (dh_started h))), (''operator'', JStr (dh_operator h)),
      (''host'', inv_host i), (''backup'', JStr (kb_dir bk)), (''backupTakenAt'', kb_taken_at bk), (''port'', JNum (of_int (dc_port d))),
      (''dir'', JStr (dn_tmp ns)), (''unit'', JStr (dn_unit ns)), (''pid'', int_or_null (dl_pid l)),
      (''databases'', JArr (map database_check_json (dl_databases l))), (''objects'', JArr (map object_check_json (dl_objects l))),
      (''ready'', case dl_ready l of Some k \<Rightarrow> ready_check_json k | None \<Rightarrow> JNull),
      (''compare'', JArr (map compared_json (dl_compare l))), (''counts'', JArr (map count_check_json (dl_counts l))),
      (''acceptance'', JArr (map acceptance_check_json (dl_acceptance l))),
      (''stop'', case dl_stop l of Some k \<Rightarrow> stop_check_json k | None \<Rightarrow> JNull), (''scratch'', scratch_json (dl_scratches l)),
      (''kept'', JBool (dl_kept l)), (''result'', JStr (passed_text l)), (''failure'', failure_json (dl_failure l)),
      (''finishedAt'', JStr (iso_string finished))]"

definition drill_json ::
  "(json \<Rightarrow> str) \<Rightarrow> inventory \<Rightarrow> drill_cfg \<Rightarrow> drill_names \<Rightarrow> drill_backup \<Rightarrow> drill_head \<Rightarrow> drill_state \<Rightarrow> int \<Rightarrow> json" where
  "drill_json row i d ns bk h l finished =
     (let fields = drill_fields i d ns bk h l finished in JObj (fields @ [(''markdown'', JStr (row (JObj fields)))]))"

definition record_drill ::
  "(json \<Rightarrow> str) \<Rightarrow> ctx \<Rightarrow> drill_cfg \<Rightarrow> drill_names \<Rightarrow> drill_backup \<Rightarrow> drill_head \<Rightarrow> str \<Rightarrow> drill_state \<Rightarrow> ('l, nat \<times> drill_state) prog" where
  "record_drill row c d ns bk h held l =
     bind (exec_now (exec c)) (\<lambda>t.
     andthen
       (try_finally
         (exec_append (exec c) (path_join [inv_state_dir (inv c), ''drills'', dh_service h @ ''.jsonl''])
           (json_text (drill_json row (inv c) d ns bk h l t) @ [CHR 0x0A]))
         (lock_release c held))
       (ret (if dl_failure l = None then 0 else 2, l)))"

definition drill_of :: "service \<Rightarrow> ('l, drill_cfg) prog" where
  "drill_of svc =
     (case s_drill svc of
        None \<Rightarrow> drill_fail ''has no drill block in the inventory''
      | Some Drill_Off \<Rightarrow> drill_fail ''does not support restore drills''
      | Some (Drill_On d) \<Rightarrow> ret d)"

definition drill ::
  "(str \<Rightarrow> str) \<Rightarrow> (json \<Rightarrow> str) \<Rightarrow> ctx \<Rightarrow> str \<Rightarrow> str option \<Rightarrow> bool \<Rightarrow> ('l, nat \<times> drill_state) prog" where
  "drill digest row c sid chosen keepDir =
     (let H = exec c in
      bind (find_service (inv c) sid) (\<lambda>svc.
      if \<not> h_is_root H then drill_fail ''ovhost drill must run as root''
      else
        bind (drill_of svc) (\<lambda>d.
        andthen (check_ready_to_drill H svc d)
        (bind (resolve_backup H (inv c) svc d chosen) (\<lambda>bk.
         bind (start_spec_of H svc d) (\<lambda>sp.
         bind (lock_acquire c (sid @ ''-drill'')) (\<lambda>(held, stale).
         bind (exec_now H) (\<lambda>t.
         let ns = drill_names_of (inv c) sid (backup_stamp t) in
         bind (exec_now H) (\<lambda>started.
         bind (operator_name c) (\<lambda>op.
         bind (with_state fresh_drill (drill_run digest c svc d ns bk sp keepDir)) (\<lambda>l.
         record_drill row c d ns bk \<lparr>dh_service = sid, dh_started = started, dh_operator = op\<rparr> held l)))))))))))"

end
