(* ===== verification/Lifecycle.thy ===== *)
theory Lifecycle
  imports Json "HOL-Library.Product_Lexorder"
begin

text \<open>
  Lifecycle declarations, \<^verbatim>\<open>lib/lifecycle.js\<close>: the check of a manifest's
  \<^verbatim>\<open>lifecycle\<close> block, systemd time spans, signals and version ranges. Seconds and version
  numbers are exact here.
\<close>

section \<open>Values\<close>

text \<open>A property that is neither missing nor null.\<close>

definition present :: "str \<Rightarrow> json \<Rightarrow> json option" where
  "present k v = (case jget k v of Some JNull \<Rightarrow> None | x \<Rightarrow> x)"

definition is_obj :: "json option \<Rightarrow> bool" where
  "is_obj v = (case v of Some (JObj kvs) \<Rightarrow> True | _ \<Rightarrow> False)"

definition is_text :: "json option \<Rightarrow> bool" where
  "is_text v = (case v of Some (JStr s) \<Rightarrow> trim s \<noteq> [] | _ \<Rightarrow> False)"

definition is_none_part :: "json option \<Rightarrow> bool" where
  "is_none_part v =
     (case v of Some (JObj [(k, JStr s)]) \<Rightarrow> k = ''none'' | _ \<Rightarrow> False)"

definition elements :: "json option \<Rightarrow> json list" where
  "elements v = (case v of Some (JArr xs) \<Rightarrow> xs | _ \<Rightarrow> [])"

definition lists_some :: "json option \<Rightarrow> bool" where
  "lists_some v \<longleftrightarrow> elements v \<noteq> []"

definition is_seconds :: "json option \<Rightarrow> bool" where
  "is_seconds v = (case v of Some (JNum n) \<Rightarrow> 0 \<le> n | _ \<Rightarrow> False)"

definition is_one_of :: "str list \<Rightarrow> json option \<Rightarrow> bool" where
  "is_one_of xs v = (case v of Some (JStr s) \<Rightarrow> s \<in> set xs | _ \<Rightarrow> False)"

section \<open>Versions and ranges\<close>

type_synonym version = "nat \<times> nat \<times> nat"

datatype range_op = Caret | AtLeast | AtMost | Above | Below | Exactly

definition digits_only :: "str \<Rightarrow> bool" where
  "digits_only s \<longleftrightarrow> s \<noteq> [] \<and> list_all is_digit s"

definition parse_version :: "str \<Rightarrow> version option" where
  "parse_version s =
     (case split_on (CHR ''.'') s of
        [a, b, c] \<Rightarrow> (if digits_only a \<and> digits_only b \<and> digits_only c
                     then Some (digits_val a, digits_val b, digits_val c) else None)
      | _ \<Rightarrow> None)"

definition range_op_of :: "str \<Rightarrow> range_op \<times> str" where
  "range_op_of p =
     (if starts_with p ''^'' then (Caret, drop 1 p)
      else if starts_with p ''>='' then (AtLeast, drop 2 p)
      else if starts_with p ''<='' then (AtMost, drop 2 p)
      else if starts_with p ''>'' then (Above, drop 1 p)
      else if starts_with p ''<'' then (Below, drop 1 p)
      else if starts_with p ''='' then (Exactly, drop 1 p)
      else (Exactly, p))"

definition parse_part :: "str \<Rightarrow> (range_op \<times> version) option" where
  "parse_part p = (let (oper, v) = range_op_of p in map_option (Pair oper) (parse_version v))"

text \<open>\<^verbatim>\<open>s.split('||')\<close>\<close>

fun split_alts :: "str \<Rightarrow> str \<Rightarrow> str list" where
  "split_alts acc [] = [rev acc]"
| "split_alts acc [c] = [rev (c # acc)]"
| "split_alts acc (c # d # s) =
     (if c = CHR ''|'' \<and> d = CHR ''|'' then rev acc # split_alts [] s else split_alts (c # acc) (d # s))"

text \<open>An empty alternative splits into one empty part, which is no version.\<close>

definition parse_alt :: "str \<Rightarrow> (range_op \<times> version) list option" where
  "parse_alt alt =
     (let parts = ws_words alt in if parts = [] then None else all_some (map parse_part parts))"

definition parse_range :: "str \<Rightarrow> (range_op \<times> version) list list option" where
  "parse_range r = all_some (map parse_alt (split_alts [] r))"

definition version_cmp :: "version \<Rightarrow> version \<Rightarrow> int" where
  "version_cmp v w =
     (let (a, b, c) = v; (x, y, z) = w in
      if a \<noteq> x then (if a < x then - 1 else 1)
      else if b \<noteq> y then (if b < y then - 1 else 1)
      else if c \<noteq> z then (if c < z then - 1 else 1) else 0)"

definition in_range :: "version \<Rightarrow> range_op \<times> version \<Rightarrow> bool" where
  "in_range v p =
     (let (oper, w) = p; k = version_cmp v w in
      case oper of
        Caret \<Rightarrow>
          0 \<le> k \<and> (if 0 < fst w then fst v = fst w
                  else if 0 < fst (snd w) then fst v = 0 \<and> fst (snd v) = fst (snd w)
                  else k = 0)
      | AtLeast \<Rightarrow> 0 \<le> k | Above \<Rightarrow> 0 < k | AtMost \<Rightarrow> k \<le> 0 | Below \<Rightarrow> k < 0 | Exactly \<Rightarrow> k = 0)"

definition satisfies :: "str \<Rightarrow> str \<Rightarrow> bool" where
  "satisfies version rng =
     (case (parse_version (if starts_with version ''v'' then drop 1 version else version), parse_range rng) of
        (Some v, Some alts) \<Rightarrow> list_ex (list_all (in_range v)) alts
      | _ \<Rightarrow> False)"

section \<open>The check of a declaration\<close>

definition stop_signals :: "str list" where
  "stop_signals = [''SIGTERM'', ''SIGINT'', ''SIGQUIT'', ''SIGHUP'']"

definition recovery_kinds :: "str list" where
  "recovery_kinds = [''outbox'', ''jobs'', ''sessions'', ''consumer'', ''schedule'', ''state'']"

type_synonym problem = "str \<times> str"

definition miss :: "str \<Rightarrow> str \<Rightarrow> problem" where
  "miss f p = (''lifecycle.'' @ f, p)"

definition unless :: "bool \<Rightarrow> problem \<Rightarrow> problem list" where
  "unless b p = (if b then [] else [p])"

definition quoted :: "str \<Rightarrow> str" where
  "quoted s = [CHR 0x22] @ s @ [CHR 0x22]"

definition check_liveness :: "json \<Rightarrow> problem list" where
  "check_liveness v =
     (let ep = jget ''endpoint'' v in
      (if \<not> is_text ep then [miss ''liveness.endpoint'' ''is missing'']
       else unless (case ep of Some (JStr s) \<Rightarrow> starts_with s ''/'' | _ \<Rightarrow> False) (miss ''liveness.endpoint'' ''must be a path''))
      @ unless (is_text (jget ''means'' v)) (miss ''liveness.means'' ''is missing''))"

definition seconds_problem :: "str \<Rightarrow> json \<Rightarrow> problem list" where
  "seconds_problem f v =
     (if present ''deadlineSeconds'' v = None then [miss f ''is missing'']
      else unless (is_seconds (jget ''deadlineSeconds'' v)) (miss f (''must be a number of seconds '' @ [CHR 0xE2, CHR 0x89, CHR 0xA5] @ '' 0'')))"

definition check_shutdown :: "json \<Rightarrow> problem list" where
  "check_shutdown v =
     (if present ''signal'' v = None then [miss ''shutdown.signal'' ''is missing'']
      else unless (is_one_of stop_signals (jget ''signal'' v))
        (miss ''shutdown.signal'' (''must be one of '' @ join '', '' stop_signals)))
     @ seconds_problem ''shutdown.deadlineSeconds'' v
     @ unless (lists_some (jget ''drains'' v))
         (miss ''shutdown.drains'' (if present ''drains'' v = None then ''is missing'' else ''must list what it drains''))
     @ (case present ''workers'' v of
          None \<Rightarrow> []
        | Some w \<Rightarrow>
            (if \<not> is_obj (Some w) then [miss ''shutdown.workers'' ''must be an object'']
             else seconds_problem ''shutdown.workers.deadlineSeconds'' w
               @ unless (lists_some (jget ''drains'' w)) (miss ''shutdown.workers.drains'' ''is missing'')))"

definition at_index :: "str \<Rightarrow> nat \<Rightarrow> str \<Rightarrow> str" where
  "at_index f i k = f @ ''['' @ nat_str i @ ''].'' @ k"

definition check_recovery :: "json \<Rightarrow> problem list" where
  "check_recovery v =
     (if \<not> lists_some (jget ''resumes'' v) then [miss ''startupRecovery.resumes'' ''is missing'']
      else concat (map (\<lambda>(i, r).
          unless (is_obj (Some r) \<and> is_one_of recovery_kinds (jget ''kind'' r))
            (miss (at_index ''startupRecovery.resumes'' i ''kind'') (''must be one of '' @ join '', '' recovery_kinds))
          @ unless (is_obj (Some r) \<and> is_text (jget ''what'' r)) (miss (at_index ''startupRecovery.resumes'' i ''what'') ''is missing''))
        (enumerate 0 (elements (jget ''resumes'' v)))))"

definition check_rollback :: "json \<Rightarrow> problem list" where
  "check_rollback v =
     unless (lists_some (jget ''conditions'' v)) (miss ''rollback.conditions'' ''is missing'')
     @ unless (is_text (jget ''window'' v)) (miss ''rollback.window'' ''is missing'')
     @ (let b = jget ''blockers'' v in
        if present ''blockers'' v = None then [miss ''rollback.blockers'' ''is missing'']
        else unless (is_none_part b \<or> lists_some b \<and> list_all (\<lambda>x. is_text (Some x)) (elements b))
          (miss ''rollback.blockers'' ''must list blockers or be { none: reason }''))"

definition check_contracts :: "json \<Rightarrow> problem list" where
  "check_contracts v =
     (case jget ''range'' v of
        Some (JStr r) \<Rightarrow>
          (if trim r = [] then [miss ''contracts.range'' ''is missing'']
           else unless (parse_range r \<noteq> None) (miss ''contracts.range'' (quoted r @ '' is not a version range'')))
      | _ \<Rightarrow> [miss ''contracts.range'' ''is missing''])"

definition check_leases :: "json \<Rightarrow> problem list" where
  "check_leases v =
     (if \<not> lists_some (jget ''claims'' v) then [miss ''leases.claims'' ''is missing'']
      else concat (map (\<lambda>(i, c).
          concat (map (\<lambda>k. unless (is_obj (Some c) \<and> is_text (jget k c)) (miss (at_index ''leases.claims'' i k) ''is missing''))
            [''what'', ''holder'', ''expires'', ''fencing'']))
        (enumerate 0 (elements (jget ''claims'' v)))))"

definition parts :: "(str \<times> (json \<Rightarrow> problem list)) list" where
  "parts =
     [(''liveness'', check_liveness), (''shutdown'', check_shutdown), (''startupRecovery'', check_recovery),
      (''rollback'', check_rollback), (''contracts'', check_contracts), (''leases'', check_leases)]"

text \<open>A service with units runs processes: its liveness and shutdown are never none.\<close>

definition check_part :: "json \<Rightarrow> bool \<Rightarrow> str \<times> (json \<Rightarrow> problem list) \<Rightarrow> problem list" where
  "check_part lc runs e =
     (let (part, f) = e in
      case present part lc of
        None \<Rightarrow> [miss part ''is missing'']
      | Some v \<Rightarrow>
          (if \<not> is_obj (Some v) then [miss part ''must be an object'']
           else case jget ''none'' v of
               None \<Rightarrow> f v
             | Some why \<Rightarrow>
                 (if \<not> is_none_part (Some v) \<or> \<not> is_text (Some why)
                  then [miss (part @ ''.none'') ''must be the only key, with a reason'']
                  else if runs \<and> (part = ''liveness'' \<or> part = ''shutdown'')
                  then [miss part (''is none ('' @ quoted (js_string why) @ ''), but the service runs units'')]
                  else [])))"

definition check_lifecycle :: "json option \<Rightarrow> bool \<Rightarrow> problem list" where
  "check_lifecycle lc runs =
     (case lc of
        Some (JObj kvs) \<Rightarrow> concat (map (check_part (JObj kvs) runs) parts)
      | _ \<Rightarrow> [(''lifecycle'', ''is missing'')])"

section \<open>Time spans and signals\<close>

text \<open>
  \<open>NaN\<close>: the code looks a unit up with \<^verbatim>\<open>in\<close>, which also finds the
  \<^verbatim>\<open>constructor\<close> every object inherits.
\<close>

datatype span = Finite rat | Infinite | NaN

definition span_unit :: "str \<Rightarrow> rat option" where
  "span_unit u =
     map_of
       [(''us'', 1 / 1000000), (''usec'', 1 / 1000000), (''ms'', 1 / 1000), (''msec'', 1 / 1000),
        (''s'', 1), (''sec'', 1), (''second'', 1), (''seconds'', 1),
        (''m'', 60), (''min'', 60), (''minute'', 60), (''minutes'', 60),
        (''h'', 3600), (''hr'', 3600), (''hour'', 3600), (''hours'', 3600),
        (''d'', 86400), (''day'', 86400), (''days'', 86400)] u"

definition span_value :: "str \<Rightarrow> span option" where
  "span_value u =
     (case span_unit u of Some q \<Rightarrow> Some (Finite q) | None \<Rightarrow> (if u = ''constructor'' then Some NaN else None))"

definition add_span :: "span \<Rightarrow> rat \<Rightarrow> span \<Rightarrow> span" where
  "add_span sofar n u = (case (sofar, u) of (Finite t, Finite q) \<Rightarrow> Finite (t + n * q) | _ \<Rightarrow> NaN)"

text \<open>\<^verbatim>\<open>\d+(\.\d+)?\<close> at the start of a text: its value and what follows.\<close>

definition read_decimal :: "str \<Rightarrow> (rat \<times> str) option" where
  "read_decimal s =
     (let ip = takeWhile is_digit s; r = dropWhile is_digit s; fp = takeWhile is_digit (drop 1 r) in
      if ip = [] then None
      else if starts_with r ''.'' \<and> fp \<noteq> [] then Some (num_value False ip fp 0, dropWhile is_digit (drop 1 r))
      else Some (of_nat (digits_val ip), r))"

lemma read_decimal_shorter: "read_decimal s = Some (n, r) \<Longrightarrow> length r < length s"
proof -
  assume run: "read_decimal s = Some (n, r)"
  let ?ip = "takeWhile is_digit s" and ?r = "dropWhile is_digit s"
  have s: "length s = length ?ip + length ?r" by (metis length_append takeWhile_dropWhile_id)
  from run have ip: "0 < length ?ip" and r: "length r \<le> length ?r"
    unfolding read_decimal_def Let_def
    by (auto split: if_splits intro: order_trans [OF length_dropWhile_le])
  from s ip r show ?thesis by linarith
qed

text \<open>\<^verbatim>\<open>Math.round(total * 1e6) / 1e6\<close>\<close>

definition round_micro :: "rat \<Rightarrow> rat" where
  "round_micro q = of_int \<lfloor>q * 1000000 + 1 / 2\<rfloor> / 1000000"

function span_loop :: "span \<Rightarrow> str \<Rightarrow> span option" where
  "span_loop sofar s =
     (if trim s = [] then Some (case sofar of Finite q \<Rightarrow> Finite (round_micro q) | x \<Rightarrow> x)
      else case read_decimal (trim_start s) of
          None \<Rightarrow> None
        | Some (n, r) \<Rightarrow>
            (let u = takeWhile is_lower (trim_start r) in
             case (if u = [] then None else span_value u) of
               None \<Rightarrow> None
             | Some q \<Rightarrow> span_loop (add_span sofar n q) (dropWhile is_lower (trim_start r))))"
  by pat_completeness auto

termination
proof (relation "measure (\<lambda>(t, s). length s)")
  fix sofar s x n r u q
  assume "read_decimal (trim_start s) = Some x" "(n, r) = x"
  then have "length r < length (trim_start s)" by (auto dest: read_decimal_shorter)
  moreover have "length (trim_start s) \<le> length s" by (simp add: trim_start_def length_dropWhile_le)
  moreover have "length (dropWhile is_lower (trim_start r)) \<le> length r"
    by (rule order_trans [OF length_dropWhile_le]) (simp add: trim_start_def length_dropWhile_le)
  ultimately show "((add_span sofar n q, dropWhile is_lower (trim_start r)), sofar, s) \<in> measure (\<lambda>(t, s). length s)"
    by simp
qed simp

declare span_loop.simps [simp del]

definition parse_seconds :: "str \<Rightarrow> span option" where
  "parse_seconds value =
     (let s = trim value in
      if s = [] then None
      else if s = ''infinity'' then Some Infinite
      else case read_decimal s of
          Some (n, []) \<Rightarrow> Some (Finite n)
        | _ \<Rightarrow> span_loop (Finite 0) s)"

text \<open>The text after \<^verbatim>\<open>TimeoutStopSec=\<close> of a line, if it is one.\<close>

definition stop_line :: "str \<Rightarrow> str option" where
  "stop_line line =
     (let l = trim_start line; key = ''TimeoutStopSec''; r = trim_start (drop (length key) l); v = trim (drop 1 r) in
      if starts_with l key \<and> starts_with r ''='' \<and> CHR 0x0D \<notin> set v then Some v else None)"

definition unit_file_timeout :: "str \<Rightarrow> span option" where
  "unit_file_timeout text =
     (case rev (List.map_filter stop_line (lines text)) of [] \<Rightarrow> None | v # _ \<Rightarrow> parse_seconds v)"

definition signal_number :: "nat \<Rightarrow> str option" where
  "signal_number n =
     map_of [(1, ''SIGHUP''), (2, ''SIGINT''), (3, ''SIGQUIT''), (9, ''SIGKILL''), (10, ''SIGUSR1''),
       (12, ''SIGUSR2''), (15, ''SIGTERM'')] n"

definition signal_name :: "str \<Rightarrow> str option" where
  "signal_name v =
     (if v = [] then None
      else if digits_only v
      then Some (case signal_number (digits_val v) of Some s \<Rightarrow> s | None \<Rightarrow> ''signal '' @ v)
      else (let s = map upper_char v in Some (if starts_with s ''SIG'' then s else ''SIG'' @ s)))"

section \<open>Properties\<close>

lemma version_cmp_order:
  "version_cmp v w < 0 \<longleftrightarrow> v < w" "version_cmp v w = 0 \<longleftrightarrow> v = w" "0 < version_cmp v w \<longleftrightarrow> w < v"
  "0 \<le> version_cmp v w \<longleftrightarrow> w \<le> v" "version_cmp v w \<le> 0 \<longleftrightarrow> v \<le> w"
  by (cases v; cases w; simp add: version_cmp_def; linarith?; auto simp: less_eq_prod_def less_prod_def)+

text \<open>
  A caret range is the half-open interval of semantic versioning: from the version itself up
  to the next version that may break what its first non-zero number promises.
\<close>

theorem caret_is_interval:
  "in_range v (Caret, w) \<longleftrightarrow>
     w \<le> v \<and> v < (if 0 < fst w then (fst w + 1, 0, 0)
                    else if 0 < fst (snd w) then (0, fst (snd w) + 1, 0) else (0, 0, snd (snd w) + 1))"
  unfolding in_range_def Let_def prod.case range_op.case version_cmp_order
  by (cases v; cases w) (auto simp: less_eq_prod_def less_prod_def)

lemma unless_Nil [simp]: "unless b p = [] \<longleftrightarrow> b"
  by (simp add: unless_def)

lemma is_text_iff: "is_text v \<longleftrightarrow> (\<exists>s. v = Some (JStr s) \<and> trim s \<noteq> [])"
  by (auto simp: is_text_def split: option.splits json.splits)

lemma is_one_of_iff: "is_one_of xs v \<longleftrightarrow> (\<exists>s. v = Some (JStr s) \<and> s \<in> set xs)"
  by (auto simp: is_one_of_def split: option.splits json.splits)

lemma is_seconds_iff: "is_seconds v \<longleftrightarrow> (\<exists>n. v = Some (JNum n) \<and> 0 \<le> n)"
  by (auto simp: is_seconds_def split: option.splits json.splits)

lemma present_Some: "present k v = Some x \<Longrightarrow> jget k v = Some x"
  by (auto simp: present_def split: option.splits json.splits)

lemma declared_part:
  assumes ok: "check_part lc True (part, f) = []" and part: "part \<in> {''liveness'', ''shutdown''}"
  shows "\<exists>v. jget part lc = Some v \<and> f v = []"
proof (cases "present part lc")
  case None
  with ok show ?thesis by (simp add: check_part_def)
next
  case (Some v)
  from present_Some [OF Some] have "jget part lc = Some v" .
  moreover from ok part have "f v = []"
    using Some unfolding check_part_def by (auto split: if_splits option.splits)
  ultimately show ?thesis by blast
qed

lemma check_liveness_ok:
  "check_liveness v = [] \<Longrightarrow> \<exists>ep. jget ''endpoint'' v = Some (JStr ep) \<and> starts_with ep ''/''"
  unfolding check_liveness_def Let_def is_text_iff by (auto split: if_splits)

lemma check_shutdown_ok:
  assumes "check_shutdown v = []"
  shows "\<exists>sig n. jget ''signal'' v = Some (JStr sig) \<and> sig \<in> set stop_signals \<and>
       jget ''deadlineSeconds'' v = Some (JNum n) \<and> 0 \<le> n \<and> elements (jget ''drains'' v) \<noteq> []"
proof -
  from assms have "is_one_of stop_signals (jget ''signal'' v)" "is_seconds (jget ''deadlineSeconds'' v)"
    "lists_some (jget ''drains'' v)"
    unfolding check_shutdown_def seconds_problem_def append_is_Nil_conv by (simp_all split: if_splits)
  then show ?thesis unfolding is_one_of_iff is_seconds_iff lists_some_def by blast
qed

text \<open>
  Property C23. A declaration with no problems, for a service that runs units, names a liveness path, a
  signal that stops the process, a deadline in seconds and what the shutdown drains.
\<close>

theorem accepted_lifecycle_stops:
  "case check_lifecycle (Some lc) True of
      [] \<Rightarrow>
        \<exists>live ep stop sig n.
          jget ''liveness'' lc = Some live \<and> jget ''endpoint'' live = Some (JStr ep) \<and> starts_with ep ''/'' \<and>
          jget ''shutdown'' lc = Some stop \<and> jget ''signal'' stop = Some (JStr sig) \<and> sig \<in> set stop_signals \<and>
          jget ''deadlineSeconds'' stop = Some (JNum n) \<and> 0 \<le> n \<and> elements (jget ''drains'' stop) \<noteq> []
    | _ \<Rightarrow> True"
proof (cases "check_lifecycle (Some lc) True")
  case Nil
  then have "check_part lc True (''liveness'', check_liveness) = []" "check_part lc True (''shutdown'', check_shutdown) = []"
    unfolding check_lifecycle_def parts_def by (auto split: json.splits)
  from declared_part [OF this(1)] declared_part [OF this(2)] obtain live stop where
    "jget ''liveness'' lc = Some live" "check_liveness live = []"
    "jget ''shutdown'' lc = Some stop" "check_shutdown stop = []" by auto
  with check_liveness_ok check_shutdown_ok Nil show ?thesis unfolding Nil list.case by metis
qed simp

end
