(* ===== verification/Manifests.thy ===== *)
theory Manifests
  imports Nginx Lifecycle Checked
begin

text \<open>
  Service manifests: where the one of a service comes from, in \<^verbatim>\<open>lib/nginx.js\<close> (\<^verbatim>\<open>loadManifest\<close>) and in
  \<^verbatim>\<open>lib/lifecycle.js\<close> (\<^verbatim>\<open>resolve\<close>). The installed \<^verbatim>\<open>openvibe-contracts\<close> package is a parameter,
  \<open>None\<close> when it is not installed; the argument with which tests replace it is left out.
\<close>

record package =
  pk_version :: str
  pk_service :: "str \<Rightarrow> json option"

text \<open>\<^verbatim>\<open>fs.readFileSync(file, 'utf8')\<close>: a file that is not there throws.\<close>

definition read_here :: "host \<Rightarrow> str \<Rightarrow> ('l, str) prog" where
  "read_here H f =
     bind (exec_read H f) (\<lambda>t. case t of None \<Rightarrow> throw (JsError ''ENOENT: no such file or directory'') | Some x \<Rightarrow> ret x)"

definition parse_here :: "host \<Rightarrow> str \<Rightarrow> ('l, json) prog" where
  "parse_here H f =
     bind (read_here H f) (\<lambda>t. case json_parse t of None \<Rightarrow> throw (JsError ''is not valid JSON'') | Some j \<Rightarrow> ret j)"

text \<open>\<open>(manifest, contractsVersion)\<close>\<close>

definition load_manifest :: "host \<Rightarrow> package option \<Rightarrow> str \<Rightarrow> str option \<Rightarrow> ('l, json option \<times> str) prog" where
  "load_manifest H pkg sid manifestFile =
     (case manifestFile of
        Some (c # f) \<Rightarrow> bind (parse_here H (c # f)) (\<lambda>m. ret (Some m, ''file '' @ path_basename (c # f)))
      | _ \<Rightarrow>
          (case pkg of
             None \<Rightarrow> throw (JsError ''Cannot find module openvibe-contracts'')
           | Some k \<Rightarrow> ret (when_set (pk_service k sid), ''v'' @ pk_version k)))"

text \<open>\<open>(lifecycle, source)\<close>: the lifecycle is \<open>None\<close> when nothing declares one.\<close>

definition lifecycle_of :: "json \<Rightarrow> ('l, json option) prog" where
  "lifecycle_of m = (if m = JNull then throw (JsError ''TypeError'') else ret (when_set (jget ''lifecycle'' m)))"

definition resolve_lifecycle :: "host \<Rightarrow> package option \<Rightarrow> service \<Rightarrow> str option \<Rightarrow> ('l, json option \<times> str) prog" where
  "resolve_lifecycle H pkg svc manifestFile =
     (if truthy (s_lifecycle svc) then ret (s_lifecycle svc, ''the inventory (services.'' @ s_id svc @ ''.lifecycle)'')
      else case manifestFile of
          Some (c # f) \<Rightarrow>
            bind (try_catch (bind (parse_here H (c # f)) (\<lambda>m. ret (Inr m))) (\<lambda>e. ret (Inl (exc_message e)))) (\<lambda>m.
            case m of
              Inl why \<Rightarrow> ret (None, (c # f) @ '' (unreadable: '' @ why @ '')'')
            | Inr j \<Rightarrow> bind (lifecycle_of j) (\<lambda>lc. ret (lc, ''manifest file '' @ path_basename (c # f))))
        | _ \<Rightarrow>
            (case pkg of
               None \<Rightarrow> ret (None, ''openvibe-contracts (not installed)'')
             | Some k \<Rightarrow>
                 (if \<not> truthy (pk_service k (s_manifest svc))
                  then ret (None, ''openvibe-contracts v'' @ pk_version k @ '' (no '' @ quoted (s_manifest svc) @ '' manifest)'')
                  else bind (lifecycle_of (the (pk_service k (s_manifest svc)))) (\<lambda>lc.
                    ret (lc, ''the '' @ quoted (s_manifest svc) @ '' manifest in openvibe-contracts v'' @ pk_version k)))))"

section \<open>Footprints\<close>

context event_class
begin

lemma emits_parse_here [emits_rules]: "emits A (parse_here H f)"
  unfolding parse_here_def read_here_def by (intro emits_rules) simp_all

lemma emits_lifecycle_of [emits_rules]: "emits A (lifecycle_of m)"
  unfolding lifecycle_of_def by (intro emits_rules)

lemma emits_manifests [emits_rules]:
  "emits A (load_manifest H pkg sid f)" "emits A (resolve_lifecycle H pkg svc f)"
  unfolding load_manifest_def resolve_lifecycle_def
  by (auto split: option.split list.split sum.split intro!: emits_rules)

end

end
