(* ===== verification/Upholds.thy ===== *)
theory Upholds
  imports Host
begin

text \<open>
  Invariants of the history and the local state. \<open>upholds I m\<close>: however \<open>m\<close> ends, \<open>I\<close> holds again;
  \<open>leads P m Q\<close>: when \<open>m\<close> starts in \<open>P\<close> and returns, its value and the state satisfy \<open>Q\<close>.
\<close>

definition upholds :: "('l state \<Rightarrow> bool) \<Rightarrow> ('l, 'a) prog \<Rightarrow> bool" where
  "upholds I m \<longleftrightarrow> (\<forall>s. I s \<longrightarrow> I (snd (m s)))"

definition leads :: "('l state \<Rightarrow> bool) \<Rightarrow> ('l, 'a) prog \<Rightarrow> ('a \<Rightarrow> 'l state \<Rightarrow> bool) \<Rightarrow> bool" where
  "leads P m Q \<longleftrightarrow> (\<forall>s x s'. P s \<longrightarrow> m s = (Inr x, s') \<longrightarrow> Q x s')"

named_theorems upholds_rules \<open>invariants of the program constructors and operations\<close>

lemma upholdsD: "upholds I m \<Longrightarrow> I s \<Longrightarrow> m s = (r, s') \<Longrightarrow> I s'"
  unfolding upholds_def by (metis snd_conv)

lemma upholds_pure [upholds_rules]: "upholds I (ret x)" "upholds I (throw e)" "upholds I (of_sum r)"
  by (auto simp: upholds_def ret_def throw_def of_sum_def split: sum.split)

lemma upholds_getl: "upholds I getl"
  by (auto simp: upholds_def getl_def)

lemma upholds_modl [upholds_rules]: "(\<And>tr l. I (tr, l) \<Longrightarrow> I (tr, f l)) \<Longrightarrow> upholds I (modl f)"
  by (auto simp: upholds_def modl_def)

lemma upholds_bind [upholds_rules]:
  assumes "upholds I m" "\<And>x. upholds I (f x)"
  shows "upholds I (bind m f)"
  using assms by (auto simp: upholds_def bind_def split: prod.split sum.split) (metis snd_conv)+

lemma upholds_andthen [upholds_rules]: "upholds I m \<Longrightarrow> upholds I k \<Longrightarrow> upholds I (andthen m k)"
  unfolding andthen_def by (rule upholds_bind)

text \<open>After reading the local state, the rest may rely on what the invariant says of it.\<close>

lemma upholds_bind_getl:
  assumes "\<And>tr l. I (tr, l) \<Longrightarrow> I (snd (f l (tr, l)))"
  shows "upholds I (bind getl f)"
  using assms by (auto simp: upholds_def bind_def getl_def)

lemma upholds_try_catch [upholds_rules]:
  assumes "upholds I m" "\<And>e. upholds I (h e)"
  shows "upholds I (try_catch m h)"
  using assms by (auto simp: upholds_def try_catch_def split: prod.split sum.split) (metis snd_conv)+

lemma upholds_try_finally [upholds_rules]:
  assumes "upholds I m" "upholds I f"
  shows "upholds I (try_finally m f)"
  using assms by (auto simp: upholds_def try_finally_def split: prod.split sum.split) (metis snd_conv)+

lemma upholds_cases [upholds_rules]:
  "(b \<Longrightarrow> upholds I m) \<Longrightarrow> (\<not> b \<Longrightarrow> upholds I n) \<Longrightarrow> upholds I (if b then m else n)"
  "(b \<Longrightarrow> upholds I k) \<Longrightarrow> upholds I (whenever b k)"
  "(x = None \<Longrightarrow> upholds I p) \<Longrightarrow> (\<And>y. x = Some y \<Longrightarrow> upholds I (g y)) \<Longrightarrow> upholds I (case x of None \<Rightarrow> p | Some y \<Rightarrow> g y)"
  "(\<And>a c. z = (a, c) \<Longrightarrow> upholds I (h a c)) \<Longrightarrow> upholds I (case z of (a, c) \<Rightarrow> h a c)"
  "(\<And>v. v = w \<Longrightarrow> upholds I (j v)) \<Longrightarrow> upholds I (let v = w in j v)"
  by (auto simp: whenever_def upholds_pure split: option.split prod.split)

lemma upholds_foldp [upholds_rules]: "(\<And>b x. x \<in> set xs \<Longrightarrow> upholds I (f b x)) \<Longrightarrow> upholds I (foldp f b xs)"
  by (induction xs arbitrary: b) (auto intro!: upholds_pure upholds_bind)

lemma upholds_loops [upholds_rules]:
  "(\<And>x. x \<in> set xs \<Longrightarrow> upholds I (f x)) \<Longrightarrow> upholds I (each f xs)"
  "(\<And>x. x \<in> set xs \<Longrightarrow> upholds I (g x)) \<Longrightarrow> upholds I (mapp g xs)"
  "(\<And>x. x \<in> set xs \<Longrightarrow> upholds I (p x)) \<Longrightarrow> upholds I (filterp p xs)"
  subgoal by (induction xs) (auto intro!: upholds_pure upholds_andthen)
  subgoal unfolding mapp_def by (intro upholds_foldp upholds_bind upholds_pure)
  subgoal unfolding filterp_def by (intro upholds_foldp upholds_bind upholds_pure)
  done

text \<open>Requests of a class that never breaks the invariant.\<close>

locale stable_under =
  fixes A :: "event \<Rightarrow> bool" and I :: "'l state \<Rightarrow> bool"
  assumes grow: "A e \<Longrightarrow> I (tr, l) \<Longrightarrow> I (e # tr, l)"
begin

lemma upholds_ask: "A e \<Longrightarrow> upholds I (ask e f)" "A e \<Longrightarrow> upholds I (ask_or e g)"
  using grow by (auto simp: upholds_def ask_def ask_or_def)

lemma upholds_exec [upholds_rules]:
  "A (ERun c as opts) \<Longrightarrow> upholds I (exec_run H c as opts)"
  "A (ERead p) \<Longrightarrow> upholds I (exec_read H p)"
  "A (EWrite p t) \<Longrightarrow> upholds I (exec_write H p t)"
  "A (EAppend p t) \<Longrightarrow> upholds I (exec_append H p t)"
  "A (ERemove p) \<Longrightarrow> upholds I (exec_remove H p)"
  "A (EStat p) \<Longrightarrow> upholds I (exec_stat H p)"
  "A (EReadlink p) \<Longrightarrow> upholds I (exec_readlink H p)"
  "A (EStatfs p) \<Longrightarrow> upholds I (exec_statfs H p)"
  "A (EReaddir p) \<Longrightarrow> upholds I (exec_readdir H p)"
  "A (EMkdir p ow) \<Longrightarrow> upholds I (exec_mkdir H p ow)"
  "A (EPidAlive pid) \<Longrightarrow> upholds I (exec_pid_alive H pid)"
  "A (EHttp u) \<Longrightarrow> upholds I (exec_http H u)"
  "A (EPsql db q) \<Longrightarrow> upholds I (exec_psql H db q)"
  "A (EListeners port) \<Longrightarrow> upholds I (exec_listeners H port)"
  "A ENow \<Longrightarrow> upholds I (exec_now H)"
  "A (ESleep ms) \<Longrightarrow> upholds I (exec_sleep H ms)"
  "A ERandom \<Longrightarrow> upholds I (random_hex H)"
  "A (EReadStream p) \<Longrightarrow> upholds I (exec_read_stream H p)"
  "A (EKill pid sig) \<Longrightarrow> upholds I (exec_kill H pid sig)"
  by (simp_all add: upholds_ask exec_run_def exec_read_def exec_write_def exec_append_def exec_remove_def exec_stat_def exec_readlink_def
      exec_statfs_def exec_readdir_def exec_mkdir_def exec_pid_alive_def exec_http_def exec_psql_def exec_listeners_def
      exec_now_def exec_sleep_def random_hex_def exec_read_stream_def exec_kill_def)

end

section \<open>Ends of a run\<close>

lemma leadsD: "leads P m Q \<Longrightarrow> P s \<Longrightarrow> m s = (Inr x, s') \<Longrightarrow> Q x s'"
  unfolding leads_def by blast

lemma leads_throw: "leads P (throw e) Q"
  by (simp add: leads_def throw_def)

lemma leads_modl: "(\<And>tr l. P (tr, l) \<Longrightarrow> Q () (tr, f l)) \<Longrightarrow> leads P (modl f) Q"
  by (auto simp: leads_def modl_def)

lemma leads_upholds: "upholds P m \<Longrightarrow> leads P m (\<lambda>_. P)"
  unfolding leads_def by (auto dest: upholdsD)

lemma leads_mono: "leads P m Q \<Longrightarrow> (\<And>s. P' s \<Longrightarrow> P s) \<Longrightarrow> (\<And>x s. Q x s \<Longrightarrow> Q' x s) \<Longrightarrow> leads P' m Q'"
  unfolding leads_def by blast

lemma leads_bind:
  assumes "leads P m Q" "\<And>x. leads (Q x) (f x) R"
  shows "leads P (bind m f) R"
  using assms by (fastforce simp: leads_def bind_def split: prod.splits sum.splits)

lemma leads_andthen: "leads P m (\<lambda>_. Q) \<Longrightarrow> leads Q k R \<Longrightarrow> leads P (andthen m k) R"
  unfolding andthen_def by (rule leads_bind)

lemma leads_bind_getl: "(\<And>l0. leads (\<lambda>(tr, l). P (tr, l) \<and> l = l0) (f l0) R) \<Longrightarrow> leads P (bind getl f) R"
  by (force simp: leads_def bind_def getl_def)

lemma leads_conj: "leads P m Q \<Longrightarrow> leads P m Q' \<Longrightarrow> leads P m (\<lambda>x s. Q x s \<and> Q' x s)"
  unfolding leads_def by blast

lemma leads_keep: "upholds P m \<Longrightarrow> (\<And>x. leads P (f x) R) \<Longrightarrow> leads P (bind m f) R"
  by (rule leads_bind [OF leads_upholds])

lemma leads_keep_then: "upholds P m \<Longrightarrow> leads P k R \<Longrightarrow> leads P (andthen m k) R"
  by (rule leads_andthen [OF leads_upholds])

lemma leads_then_keep: "leads P m (\<lambda>_. Q) \<Longrightarrow> upholds Q k \<Longrightarrow> leads P (andthen m k) (\<lambda>_. Q)"
  by (rule leads_andthen [OF _ leads_upholds])

lemma leads_cases:
  "(b \<Longrightarrow> leads P m R) \<Longrightarrow> (\<not> b \<Longrightarrow> leads P n R) \<Longrightarrow> leads P (if b then m else n) R"
  "(x = None \<Longrightarrow> leads P p R) \<Longrightarrow> (\<And>y. x = Some y \<Longrightarrow> leads P (g y) R) \<Longrightarrow> leads P (case x of None \<Rightarrow> p | Some y \<Rightarrow> g y) R"
  "(\<And>a c. z = (a, c) \<Longrightarrow> leads P (h a c) R) \<Longrightarrow> leads P (case z of (a, c) \<Rightarrow> h a c) R"
  by (auto split: option.split prod.split)

lemma leads_modl_then: "(\<And>tr l. P (tr, l) \<Longrightarrow> Q (tr, f l)) \<Longrightarrow> leads Q k R \<Longrightarrow> leads P (andthen (modl f) k) R"
  by (rule leads_andthen [OF leads_modl])

lemma leads_ret: "(\<And>s. P s \<Longrightarrow> Q x s) \<Longrightarrow> leads P (ret x) Q"
  by (simp add: leads_def ret_def)

text \<open>A handler that does not return.\<close>

lemma leads_caught: "leads P m Q \<Longrightarrow> (\<And>e. leads (\<lambda>_. True) (h e) Q) \<Longrightarrow> leads P (try_catch m h) Q"
  by (auto simp: leads_def try_catch_def split: prod.splits sum.splits if_splits)

text \<open>A second part that keeps an invariant only in the states the first part ends in.\<close>

lemma upholds_then:
  assumes m: "upholds I m" and j: "leads I m (\<lambda>_. J)" and k: "\<And>s. I s \<Longrightarrow> J s \<Longrightarrow> I (snd (k s))"
  shows "upholds I (andthen m k)"
  unfolding upholds_def
proof (intro allI impI)
  fix s assume "I s"
  obtain r s' where run: "m s = (r, s')" by (cases "m s")
  have "I s'" by (rule upholdsD [OF m \<open>I s\<close> run])
  then show "I (snd (andthen m k s))"
    using run k leadsD [OF j \<open>I s\<close>] by (cases r) (auto simp: andthen_def bind_def)
qed

text \<open>A loop that appends to what it has done.\<close>

lemma leads_each:
  assumes "\<And>ys x. leads (P ys) (f x) (\<lambda>_. P (ys @ [x]))"
  shows "leads (P ys) (each f xs) (\<lambda>_. P (ys @ xs))"
proof (induction xs arbitrary: ys)
  case Nil
  then show ?case by (simp add: leads_def ret_def)
next
  case (Cons x xs)
  then show ?case using leads_andthen [OF assms] by (metis (no_types) append_Cons append_Nil append_assoc each.simps(2))
qed

end
