(* ===== verification/Validate_Parts.thy ===== *)
theory Validate_Parts
  imports Manifests Envfile Release_Layout Upholds
begin

text \<open>
  \<^verbatim>\<open>ovhost validate\<close>, \<^verbatim>\<open>lib/commands/validate.js\<close>: what each check concludes from what it has read. A check
  is a function from the answers of the machine to its findings.
\<close>

section \<open>Findings\<close>

datatype level = Bad | Doubt | Good | Note

record finding =
  fi_level :: level
  fi_area :: str
  fi_message :: str

definition found :: "level \<Rightarrow> str \<Rightarrow> str \<Rightarrow> finding" where
  "found l a m = \<lparr>fi_level = l, fi_area = a, fi_message = m\<rparr>"

definition is_error :: "finding \<Rightarrow> bool" where
  "is_error f \<longleftrightarrow> fi_level f = Bad"

text \<open>\<^verbatim>\<open>add(cond ? 'ok' : level, area, message)\<close>\<close>

definition judge :: "bool \<Rightarrow> level \<Rightarrow> str \<Rightarrow> str \<Rightarrow> str \<Rightarrow> finding" where
  "judge b bad a good wrong = (if b then found Good a good else found bad a wrong)"

definition only_if :: "bool \<Rightarrow> finding \<Rightarrow> finding list" where
  "only_if b f = (if b then [f] else [])"

definition shown_or :: "str \<Rightarrow> str option \<Rightarrow> str" where
  "shown_or d v = (case v of None \<Rightarrow> d | Some s \<Rightarrow> s)"

definition commas :: "str list \<Rightarrow> str" where
  "commas xs = join '', '' xs"

definition dash :: str where
  "dash = '' '' @ [CHR 0xE2, CHR 0x80, CHR 0x94] @ '' ''"

fun octal :: "nat \<Rightarrow> str" where
  "octal n = (if n < 8 then [digit_char n] else octal (n div 8) @ [digit_char (n mod 8)])"

declare octal.simps [simp del]

definition mode_text :: "file_stat \<Rightarrow> str" where
  "mode_text st = octal (nat (and (st_mode st) 511))"

section \<open>The checkout\<close>

text \<open>\<^verbatim>\<open>svc.release\<close> is set for the release-layout strategy only.\<close>

definition has_release :: "service \<Rightarrow> bool" where
  "has_release svc \<longleftrightarrow> s_strategy svc = ''release-layout''"

definition releases_dir_of :: "service \<Rightarrow> str" where
  "releases_dir_of svc = (if has_release svc then r_releases_dir (s_release svc) else s_repo svc @ ''/releases'')"

definition chown_user :: "service \<Rightarrow> str option" where
  "chown_user svc =
     (case (if has_release svc then r_chown (s_release svc) else None) of
        Some (c # w) \<Rightarrow> Some (hd (split_on (CHR '':'') (c # w)))
      | _ \<Rightarrow> None)"

definition judge_current :: "service \<Rightarrow> str option \<Rightarrow> file_stat option \<Rightarrow> finding" where
  "judge_current svc target st =
     (let cur = s_code_dir svc; wrong = found Bad ''checkout'' in
      case (target, st) of
        (Some (c # t), Some x) \<Rightarrow>
          (if \<not> st_is_dir x then wrong (cur @ '' is not a symlink to a release directory'')
           else if \<not> starts_with (path_resolve (path_dirname cur) (c # t)) (releases_dir_of svc @ ''/'')
           then wrong (cur @ '' points outside '' @ releases_dir_of svc @ '' ('' @ (c # t) @ '')'')
           else if Some (st_owner x) \<notin> {Some ''root'', Some (s_owner svc), chown_user svc}
           then wrong (''the current release is owned by '' @ st_owner x @ '', expected root or '' @ s_owner svc @
             (case chown_user svc of Some u \<Rightarrow> '' or '' @ u @ '' (release.chown)'' | None \<Rightarrow> []))
           else found Good ''checkout'' (''release layout: current -> '' @ (c # t)))
      | _ \<Rightarrow> wrong (cur @ '' is not a symlink to a release directory''))"

definition judge_release_git :: "service \<Rightarrow> file_stat option \<Rightarrow> finding" where
  "judge_release_git svc st =
     judge (case st of Some x \<Rightarrow> st_is_dir x | None \<Rightarrow> False) Bad ''checkout''
       (''strategy release-layout: releases are made from '' @ r_git (s_release svc))
       (r_git (s_release svc) @ '' (release.git) does not exist; ovhost deploy '' @ s_id svc @ '' needs it'')"

definition judge_owner :: "service \<Rightarrow> file_stat \<Rightarrow> finding" where
  "judge_owner svc st =
     judge (st_owner st = s_owner svc) Bad ''checkout'' (s_repo svc @ '' owned by '' @ s_owner svc)
       (s_repo svc @ '' is owned by '' @ st_owner st @ '', expected '' @ s_owner svc)"

text \<open>A checkout reached through a release link is detached by design: its branch is not checked.\<close>

definition is_release_link :: "service \<Rightarrow> str option \<Rightarrow> bool" where
  "is_release_link svc link =
     (case link of
        Some (c # t) \<Rightarrow> starts_with (path_resolve (path_dirname (s_repo svc)) (c # t)) (path_dirname (s_repo svc) @ ''/releases/'')
      | _ \<Rightarrow> False)"

definition judge_head :: "service \<Rightarrow> str \<Rightarrow> str \<Rightarrow> str list \<Rightarrow> str option \<Rightarrow> finding list" where
  "judge_head svc branch head dirty link =
     (let own = filter (\<lambda>f. \<not> matches_path f (s_generated svc)) dirty in
      (if is_release_link svc link then [found Good ''checkout'' (''release '' @ shown_or [] link @ '' (detached)'')]
       else only_if (branch \<noteq> s_branch svc)
         (found Bad ''checkout'' (''on branch '' @ quoted branch @ '', expected '' @ quoted (s_branch svc))))
      @ only_if (length own < length dirty)
          (found Note ''checkout'' (nat_str (length dirty - length own) @ '' tracked build output file(s) differ from git ('' @
             commas (s_generated svc) @ ''); a deploy restores them first''))
      @ [judge (own = []) Bad ''checkout'' (''clean at '' @ take 12 head) (''tracked local changes: '' @ commas (take 8 own))])"

section \<open>The environment file\<close>

definition judge_env_mode :: "str \<Rightarrow> file_stat \<Rightarrow> finding list" where
  "judge_env_mode file st =
     (if and (st_mode st) 4 \<noteq> 0 then [found Bad ''env'' (file @ '' is world-readable (mode '' @ mode_text st @ ''); chmod 600'')]
      else if and (st_mode st) 32 \<noteq> 0 then [found Doubt ''env'' (file @ '' is group-readable (mode '' @ mode_text st @ '')'')]
      else [found Good ''env'' (file @ '' mode '' @ mode_text st)])
     @ only_if (and (st_mode st) 2 \<noteq> 0) (found Bad ''env'' (file @ '' is world-writable''))"

text \<open>The names of the env file and, where it has none, those its units set; the flag says that the value is empty.\<close>

definition with_unit_names :: "str list \<Rightarrow> (str \<times> bool) list \<Rightarrow> (str \<times> bool) list" where
  "with_unit_names ns known = foldl (\<lambda>p n. if n \<in> fst ` set p then p else p @ [(n, False)]) known ns"

definition example_names :: "str option \<Rightarrow> str list" where
  "example_names example = (case example of Some (c # t) \<Rightarrow> fst (parse_example (c # t)) | _ \<Rightarrow> [])"

definition required_of :: "service \<Rightarrow> str option \<Rightarrow> str list" where
  "required_of svc example = (case s_env_required svc of Listed ns \<Rightarrow> ns | From_Example \<Rightarrow> example_names example)"

definition judge_env_names :: "service \<Rightarrow> (str \<times> bool) list \<Rightarrow> str option \<Rightarrow> finding list" where
  "judge_env_names svc known example =
     (let required = required_of svc example;
          missing = filter (\<lambda>n. n \<notin> fst ` set known) required;
          blank = filter (\<lambda>n. map_of known n = Some True) required;
          notSet = filter (\<lambda>n. n \<notin> fst ` set known \<and> n \<notin> set required) (example_names example) in
      only_if (s_env_required svc = From_Example \<and> (example = None \<or> example = Some []))
        (found Doubt ''env'' (s_env_example svc @ '' not found in the checkout; no required names''))
      @ only_if (required = []) (found Note ''env'' ''no required names declared (env.required)'')
      @ only_if (missing \<noteq> []) (found Bad ''env'' (''missing: '' @ commas missing))
      @ only_if (blank \<noteq> []) (found Bad ''env'' (''empty: '' @ commas blank))
      @ only_if (required \<noteq> [] \<and> missing = [] \<and> blank = [])
          (found Good ''env'' (nat_str (length required) @ '' required name(s) present and non-empty''))
      @ only_if (notSet \<noteq> [])
          (found Note ''env'' (''in '' @ s_env_example svc @ '' but not set (optional unless declared required): '' @ commas notSet)))"

section \<open>Units\<close>

definition is_loaded :: "unit_state \<Rightarrow> bool" where
  "is_loaded st \<longleftrightarrow> u_load st = ''loaded'' \<and> u_fragment_path st \<noteq> []"

definition judge_unit :: "str \<Rightarrow> unit_state \<Rightarrow> finding" where
  "judge_unit u st =
     (if \<not> is_loaded st then found Bad ''units'' (u @ '' is not loaded ('' @ u_load st @ '')'')
      else found (if u_active st = ''active'' then Good else Doubt) ''units''
        (u @ '' '' @ u_active st @ ''/'' @ u_sub st @ '' from '' @ u_fragment_path st))"

definition judge_workers :: "str \<Rightarrow> instance_row list \<Rightarrow> finding list" where
  "judge_workers w rows =
     only_if (filter (\<lambda>i. ir_active i = Some ''active'') rows = []) (found Doubt ''units'' (''no running instance of worker unit '' @ w))
     @ map (\<lambda>i. found Note ''units'' (''worker '' @ ir_unit i @ '' '' @ shown_or ''undefined'' (ir_active i) @ ''/'' @
          shown_or ''undefined'' (ir_sub i) @ '' (ovhost never starts, stops or restarts it)'')) rows"

definition judge_auxiliary :: "service \<Rightarrow> aux_unit \<Rightarrow> unit_state \<Rightarrow> finding" where
  "judge_auxiliary svc a st =
     (if \<not> is_loaded st then found Bad ''units'' (''auxiliary '' @ a_unit a @ '' is not loaded ('' @ u_load st @ '')'')
      else found (if u_active st = ''active'' then Good else Doubt) ''units''
        (''auxiliary '' @ a_unit a @ '' '' @ u_active st @ ''/'' @ u_sub st @ '' (restarted with '' @ s_id svc @ '' only when '' @
          (if a_restart_on a = [] then ''a declared path'' else commas (a_restart_on a)) @ '' changes)''))"

definition judge_socket :: "service \<Rightarrow> str \<Rightarrow> unit_state \<Rightarrow> finding list" where
  "judge_socket svc u st =
     [if u_load st \<noteq> ''loaded'' then found Bad ''units'' (u @ '' is not loaded ('' @ u_load st @ '')'')
      else judge (u_active st = ''active'') Bad ''units'' (u @ '' '' @ u_active st @ ''/'' @ u_sub st)
        (u @ '' '' @ u_active st @ ''/'' @ u_sub st @ dash @ ''without it a restart refuses connections'')]
     @ only_if (list_ex (\<lambda>x. x \<in> set (s_units svc)) (u_part_of st))
         (found Doubt ''units'' (u @ '' has PartOf='' @ join '' '' (u_part_of st) @
            '': systemd propagates a restart of that service to the socket (ovhost itself never stops or restarts it)''))"

definition judge_no_socket :: "service \<Rightarrow> finding list" where
  "judge_no_socket svc =
     (case (s_port svc, s_socket_unit svc) of
        (Some p, None) \<Rightarrow>
          [found Doubt ''units'' ((case s_units svc of u # us \<Rightarrow> u | [] \<Rightarrow> s_id svc) @ '' has no socket unit: a restart refuses connections on :'' @
             int_str p @ '' (nginx answers 502, the visitor sees the restart page). Switch it over with scripts/ov-socketize.sh '' @ s_id svc @
             '' once its server listens on fd 3'')]
      | _ \<Rightarrow> [])"

definition judge_source :: "service \<Rightarrow> str \<Rightarrow> str \<Rightarrow> str \<Rightarrow> str option \<Rightarrow> finding list" where
  "judge_source svc unit src want have' =
     only_if (have' \<noteq> Some want)
       (found Doubt ''units'' (unit @ '' differs from '' @ src @ '' ('' @
          (if s_strategy svc = ''release-layout'' \<or> s_install_units svc then ''the next deploy that restarts installs it''
           else ''deploy --install-units installs it'') @ '')''))"

section \<open>The port\<close>

text \<open>A listener that is neither a process of the service nor systemd holding its socket.\<close>

definition is_foreign :: "service \<Rightarrow> rat list \<Rightarrow> listener \<Rightarrow> bool" where
  "is_foreign svc pids h \<longleftrightarrow>
     \<not> (case l_pid h of Some p \<Rightarrow> p \<noteq> 0 \<and> of_int p \<in> set pids | None \<Rightarrow> False) \<and>
     \<not> (s_socket_unit svc \<noteq> None \<and> l_pid h = Some 1)"

definition foreign_text :: "listener \<Rightarrow> str" where
  "foreign_text h =
     (case l_process h of Some (c # p) \<Rightarrow> c # p | _ \<Rightarrow> ''?'') @ ''('' @
     (case l_pid h of Some p \<Rightarrow> (if p = 0 then ''?'' else int_str p) | None \<Rightarrow> ''?'') @ '')''"

definition holder_text :: "service \<Rightarrow> listener \<Rightarrow> str" where
  "holder_text svc h =
     (if l_pid h = Some 1 then ''systemd ('' @ shown_or ''null'' (s_socket_unit svc) @ '')''
      else shown_or ''null'' (l_process h) @ ''('' @ (case l_pid h of Some p \<Rightarrow> int_str p | None \<Rightarrow> ''null'') @ '')'')"

definition judge_port :: "service \<Rightarrow> int \<Rightarrow> rat list \<Rightarrow> listener list \<Rightarrow> finding" where
  "judge_port svc port pids holders =
     (if holders = [] then
        judge (pids = []) Bad ''port'' (int_str port @ '' is free'')
          (int_str port @ '' has no listener although '' @ commas (s_units svc) @ '' is running'')
      else
        (let foreign = filter (is_foreign svc pids) holders in
         judge (foreign = []) Bad ''port'' (int_str port @ '' held by '' @ commas (map (holder_text svc) holders))
           (int_str port @ '' is held by '' @ commas (map foreign_text foreign) @ '', not by '' @
            (if s_units svc = [] then s_id svc else commas (s_units svc)))))"

section \<open>nginx\<close>

definition judge_vhost :: "str \<Rightarrow> str \<Rightarrow> bool \<Rightarrow> bool \<Rightarrow> finding list" where
  "judge_vhost available linked a e =
     [judge a Bad ''nginx'' (available @ '' present'') (available @ '' missing''),
      judge e Bad ''nginx'' (linked @ '' enabled'') (linked @ '' missing (not enabled)'')]"

definition last_three :: "'a list \<Rightarrow> 'a list" where
  "last_three xs = drop (length xs - 3) xs"

definition judge_nginx :: "bool \<times> str \<Rightarrow> finding" where
  "judge_nginx r =
     judge (fst r) Bad ''nginx'' ''nginx -t clean'' (''nginx -t failed: '' @ join '' / '' (last_three (lines (snd r))))"

section \<open>Dependencies\<close>

definition judge_deps :: "str list \<Rightarrow> dep_problem list \<Rightarrow> finding list" where
  "judge_deps pkgs ps =
     (if ps = []
      then [found Good ''deps'' (''every dependency resolves ('' @ (if pkgs = [] then ''no packages'' else commas pkgs) @ '')'')]
      else map (\<lambda>p. found Bad ''deps'' (dp_pkg p @ '': '' @ shown_or ''null'' (dp_dep p) @ dash @ dp_reason p)) ps)"

section \<open>The lifecycle\<close>

definition span_text :: "span \<Rightarrow> str" where
  "span_text t = (case t of Infinite \<Rightarrow> ''infinity'' | Finite q \<Rightarrow> num_text q @ '' s'' | NaN \<Rightarrow> ''NaN s'')"

text \<open>\<^verbatim>\<open>n > timeout\<close>\<close>

definition exceeds :: "rat \<Rightarrow> span \<Rightarrow> bool" where
  "exceeds n t = (case t of Finite q \<Rightarrow> q < n | _ \<Rightarrow> False)"

definition judge_declared :: "service \<Rightarrow> str \<Rightarrow> problem list \<Rightarrow> finding list" where
  "judge_declared svc source ps =
     map (\<lambda>p. found Bad ''lifecycle'' (s_id svc @ '': '' @ fst p @ '' '' @ snd p @ '' (from '' @ source @ '')'')) ps
     @ only_if (ps = [])
         (found Good ''lifecycle'' (s_id svc @ '': liveness, shutdown, startupRecovery, rollback, contracts and leases declared by '' @ source))"

definition judge_deadline :: "service \<Rightarrow> str \<Rightarrow> rat \<Rightarrow> (span \<times> str) option \<Rightarrow> finding" where
  "judge_deadline svc u deadline timeout =
     (case timeout of
        None \<Rightarrow> found Note ''lifecycle'' (u @ '': stop timeout unknown (unit not loaded, no TimeoutStopSec in a unit source); deadlineSeconds '' @
                num_text deadline @ '' not compared'')
      | Some (t, source) \<Rightarrow>
          judge (\<not> exceeds deadline t) Bad ''lifecycle''
            (u @ '': shutdown deadline '' @ num_text deadline @ '' s within its stop timeout of '' @ span_text t)
            (s_id svc @ '': lifecycle.shutdown.deadlineSeconds '' @ num_text deadline @ '' exceeds the '' @ u @ '' stop timeout of '' @
             span_text t @ '' ('' @ source @ ''); systemd would kill it mid-drain''))"

definition judge_signal :: "service \<Rightarrow> str \<Rightarrow> json option \<Rightarrow> str option \<Rightarrow> finding list" where
  "judge_signal svc u declared sig =
     (case sig of
        Some (c # s) \<Rightarrow>
          only_if (truthy declared \<and> declared \<noteq> Some (JStr (c # s)))
            (found Bad ''lifecycle'' (s_id svc @ '': '' @ u @ '' stops with '' @ (c # s) @ '' (KillSignal) but lifecycle.shutdown.signal is '' @
               (case declared of Some v \<Rightarrow> js_string v | None \<Rightarrow> [])))
      | _ \<Rightarrow> [])"

definition judge_worker_drain :: "str \<Rightarrow> rat \<Rightarrow> span option \<Rightarrow> finding list" where
  "judge_worker_drain u deadline timeout =
     (case timeout of
        Some t \<Rightarrow>
          only_if (exceeds deadline t)
            (found Doubt ''lifecycle'' (u @ '': workers drain for up to '' @ num_text deadline @ '' s (lifecycle.shutdown.workers) but the unit stops them after '' @
               span_text t @ ''; an explicit stop or a host shutdown kills a worker that is still draining (ovhost never stops worker units)''))
      | None \<Rightarrow> [])"

definition place_text :: "str \<Rightarrow> str" where
  "place_text d = (if d = ''.'' then ''the checkout'' else d)"

text \<open>\<open>None\<close>: the text does not parse. \<^verbatim>\<open>JSON.parse(text).version\<close> of \<^verbatim>\<open>null\<close> throws too.\<close>

definition judge_contracts :: "service \<Rightarrow> str \<Rightarrow> str \<Rightarrow> json option \<Rightarrow> finding" where
  "judge_contracts svc rng d pkg =
     (let version = Option.bind pkg (jget ''version'') in
      if \<not> truthy version
      then found Bad ''lifecycle'' (d @ '': node_modules/openvibe-contracts/package.json has no version'')
      else (let v = js_string (the version) in
        judge (satisfies v rng) Bad ''lifecycle'' (place_text d @ '': openvibe-contracts '' @ v @ '' within '' @ rng)
          (s_id svc @ '': '' @ place_text d @ '' has openvibe-contracts '' @ v @ '', outside lifecycle.contracts.range '' @ rng)))"

end
