(* ===== verification/Validate.thy ===== *)
theory Validate
  imports Validate_Parts
begin

text \<open>
  \<^verbatim>\<open>ovhost validate\<close> over the executor: the checks in the order of the code. The local state is the list of
  findings. The names of environment variables are read, their values never reach a finding.
\<close>

definition tell :: "finding list \<Rightarrow> (finding list, unit) prog" where
  "tell xs = modl (\<lambda>fs. fs @ xs)"

section \<open>The checkout\<close>

definition check_release :: "ctx \<Rightarrow> service \<Rightarrow> (finding list, unit) prog" where
  "check_release c svc =
     (let H = exec c in
      bind (exec_readlink H (s_code_dir svc)) (\<lambda>target.
      bind (if target = None \<or> target = Some [] then ret None else exec_stat H (s_code_dir svc)) (\<lambda>st.
      andthen (tell [judge_current svc target st])
      (whenever (has_release svc)
        (bind (exec_stat H (r_git (s_release svc))) (\<lambda>gs. tell [judge_release_git svc gs]))))))"

definition check_git :: "ctx \<Rightarrow> service \<Rightarrow> (finding list, unit) prog" where
  "check_git c svc =
     (let H = exec c; g = git_of svc in
      try_catch
        (bind (git_branch H g) (\<lambda>branch.
         bind (git_head H g) (\<lambda>head.
         bind (git_dirty H g) (\<lambda>dirty.
         bind (if branch = ''HEAD'' \<and> ends_with (s_repo svc) ''/current'' then exec_readlink H (s_repo svc) else ret None) (\<lambda>link.
         tell (judge_head svc branch head dirty link))))))
        (\<lambda>e. tell [found Bad ''checkout'' (exc_message e)]))"

definition check_checkout :: "ctx \<Rightarrow> service \<Rightarrow> file_stat option \<Rightarrow> (finding list, unit) prog" where
  "check_checkout c svc repoStat =
     (case repoStat of
        None \<Rightarrow> tell [found Bad ''checkout'' (s_repo svc @ '' does not exist'')]
      | Some st \<Rightarrow>
          (if \<not> st_is_dir st then tell [found Bad ''checkout'' (s_repo svc @ '' does not exist'')]
           else if s_layout svc = ''release'' then check_release c svc
           else andthen (tell [judge_owner svc st]) (check_git c svc)))"

section \<open>The environment file\<close>

text \<open>Names the units of the service set with \<^verbatim>\<open>Environment=\<close>, in unit files and drop-ins.\<close>

definition names_of_file :: "host \<Rightarrow> str \<Rightarrow> ('l, str list) prog" where
  "names_of_file H f = bind (exec_read H f) (\<lambda>t. ret (unit_environment_names (shown_or [] t)))"

definition unit_names :: "host \<Rightarrow> service \<Rightarrow> ('l, str list) prog" where
  "unit_names H svc =
     foldp (\<lambda>names u.
        bind (show_unit H u) (\<lambda>st.
        foldp (\<lambda>ns f. bind (names_of_file H f) (\<lambda>xs. ret (ns @ xs))) names
          ((if u_fragment_path st = [] then [] else [u_fragment_path st]) @ u_drop_ins st)))
       [] (s_units svc)"

definition check_env :: "ctx \<Rightarrow> service \<Rightarrow> (finding list, unit) prog" where
  "check_env c svc =
     (let H = exec c in
      bind (unit_names H svc) (\<lambda>unitNames.
      case s_env_file svc of
        None \<Rightarrow> tell [found Note ''env'' ''no env file declared'']
      | Some file' \<Rightarrow>
          bind (exec_stat H file') (\<lambda>st.
          case st of
            None \<Rightarrow> tell [found Bad ''env'' (file' @ '' does not exist'')]
          | Some x \<Rightarrow>
              andthen (tell (judge_env_mode file' x))
              (bind (exec_read H file') (\<lambda>t.
               bind (exec_read H (path_join [s_code_dir svc, s_env_example svc])) (\<lambda>example.
               tell (judge_env_names svc (with_unit_names unitNames (parse_names (shown_or [] t))) example)))))))"

section \<open>Units\<close>

text \<open>Each answers with the main process it saw.\<close>

definition check_unit :: "host \<Rightarrow> str \<Rightarrow> (finding list, rat list) prog" where
  "check_unit H u =
     bind (show_unit H u) (\<lambda>st.
     andthen (tell [judge_unit u st])
     (ret (case u_main_pid st of Some q \<Rightarrow> (if q = 0 then [] else [q]) | None \<Rightarrow> [])))"

definition check_worker :: "host \<Rightarrow> str \<Rightarrow> (finding list, unit) prog" where
  "check_worker H w =
     bind (try_catch (bind (instances H w) (\<lambda>rows. ret (Inr rows))) (\<lambda>e. ret (Inl (exc_message e)))) (\<lambda>r.
     case r of
       Inl why \<Rightarrow> tell [found Doubt ''units'' (''could not list '' @ w @ '': '' @ why)]
     | Inr rows \<Rightarrow> tell (judge_workers w rows))"

definition check_aux_unit :: "host \<Rightarrow> service \<Rightarrow> aux_unit \<Rightarrow> (finding list, unit) prog" where
  "check_aux_unit H svc a = bind (show_unit H (a_unit a)) (\<lambda>st. tell [judge_auxiliary svc a st])"

definition check_socket :: "host \<Rightarrow> service \<Rightarrow> (finding list, unit) prog" where
  "check_socket H svc =
     (case s_socket_unit svc of
        None \<Rightarrow> tell (judge_no_socket svc)
      | Some u \<Rightarrow> bind (show_unit H u) (\<lambda>st. tell (judge_socket svc u st)))"

definition check_source :: "host \<Rightarrow> service \<Rightarrow> str \<times> str \<Rightarrow> (finding list, unit) prog" where
  "check_source H svc us =
     bind (exec_read H (path_join [s_code_dir svc, snd us])) (\<lambda>want.
     case want of
       None \<Rightarrow> tell [found Doubt ''units'' (''unit source '' @ snd us @ '' not in the checkout'')]
     | Some w \<Rightarrow>
         bind (exec_read H (path_join [''/etc/systemd/system'', fst us])) (\<lambda>have'. tell (judge_source svc (fst us) (snd us) w have')))"

definition check_units :: "host \<Rightarrow> service \<Rightarrow> (finding list, rat list) prog" where
  "check_units H svc =
     bind (mapp (check_unit H) (s_units svc)) (\<lambda>pids.
     andthen (each (check_worker H) (s_worker_units svc))
     (andthen (each (check_aux_unit H svc) (s_auxiliary_units svc))
     (andthen (check_socket H svc)
     (andthen (each (check_source H svc) (s_unit_sources svc))
     (ret (concat pids))))))"

section \<open>The lifecycle\<close>

text \<open>The stop timeout of a unit and where it is from: what systemd says, or the unit source.\<close>

definition stop_timeout :: "host \<Rightarrow> service \<Rightarrow> str \<Rightarrow> unit_state \<Rightarrow> ('l, (span \<times> str) option) prog" where
  "stop_timeout H svc u st =
     (case (if u_load st = ''loaded'' \<and> u_timeout_stop st \<noteq> [] then parse_seconds (u_timeout_stop st) else None) of
        Some t \<Rightarrow> ret (Some (t, ''systemd TimeoutStopUSec='' @ u_timeout_stop st))
      | None \<Rightarrow>
          (case map_of (s_unit_sources svc) u of
             Some src \<Rightarrow>
               bind (exec_read H (path_join [s_code_dir svc, src])) (\<lambda>t.
               ret (map_option (\<lambda>x. (x, ''TimeoutStopSec in '' @ src)) (unit_file_timeout (shown_or [] t))))
           | None \<Rightarrow> ret None))"

definition check_deadline :: "host \<Rightarrow> service \<Rightarrow> json \<Rightarrow> rat \<Rightarrow> str \<Rightarrow> (finding list, unit) prog" where
  "check_deadline H svc sd deadline u =
     bind (show_unit H u) (\<lambda>st.
     bind (stop_timeout H svc u st) (\<lambda>timeout.
     tell (judge_deadline svc u deadline timeout #
       judge_signal svc u (jget ''signal'' sd) (if u_load st = ''loaded'' then signal_name (u_kill_signal st) else None))))"

definition check_worker_drain :: "host \<Rightarrow> rat \<Rightarrow> str \<Rightarrow> (finding list, unit) prog" where
  "check_worker_drain H deadline w =
     bind (try_catch (instances H w) (\<lambda>e. ret [])) (\<lambda>rows.
     each (\<lambda>i. bind (show_unit H (ir_unit i)) (\<lambda>st. tell (judge_worker_drain (ir_unit i) deadline (parse_seconds (u_timeout_stop st))))) rows)"

definition number_in :: "str \<Rightarrow> json option \<Rightarrow> rat option" where
  "number_in k v = (case Option.bind v (jget k) of Some (JNum q) \<Rightarrow> Some q | _ \<Rightarrow> None)"

definition check_shutdown_times :: "host \<Rightarrow> service \<Rightarrow> json \<Rightarrow> (finding list, unit) prog" where
  "check_shutdown_times H svc sd =
     (case number_in ''deadlineSeconds'' (Some sd) of
        None \<Rightarrow> ret ()
      | Some deadline \<Rightarrow>
          andthen (each (check_deadline H svc sd deadline) (s_units svc))
          (case number_in ''deadlineSeconds'' (jget ''workers'' sd) of
             None \<Rightarrow> ret ()
           | Some d \<Rightarrow> each (check_worker_drain H d) (s_worker_units svc)))"

definition at_code :: "service \<Rightarrow> service" where
  "at_code svc = svc\<lparr>s_repo := s_code_dir svc\<rparr>"

text \<open>Whether the package has the contracts installed.\<close>

definition check_installed :: "host \<Rightarrow> service \<Rightarrow> str \<Rightarrow> str \<Rightarrow> (finding list, bool) prog" where
  "check_installed H svc rng d =
     bind (exec_read H (path_join [s_code_dir svc, d, ''node_modules'', ''openvibe-contracts'', ''package.json''])) (\<lambda>t.
     case t of
       None \<Rightarrow> ret False
     | Some x \<Rightarrow> andthen (tell [judge_contracts svc rng d (json_parse x)]) (ret True))"

definition check_contract_range :: "host \<Rightarrow> service \<Rightarrow> str \<Rightarrow> (finding list, unit) prog" where
  "check_contract_range H svc rng =
     bind (expand_packages H (at_code svc)) (\<lambda>pkgDirs.
     bind (mapp (check_installed H svc rng) pkgDirs) (\<lambda>there.
     tell (only_if (True \<notin> set there)
       (found Note ''lifecycle'' (''openvibe-contracts is not installed in the checkout; contracts.range '' @ rng @ '' not compared'')))))"

definition is_there :: "file_stat option \<Rightarrow> bool" where
  "is_there st = (case st of Some x \<Rightarrow> st_is_dir x | None \<Rightarrow> False)"

definition check_declaration :: "ctx \<Rightarrow> package option \<Rightarrow> service \<Rightarrow> file_stat option \<Rightarrow> str option \<Rightarrow> (finding list, unit) prog" where
  "check_declaration c pkg svc repoStat manifestFile =
     (let H = exec c in
      bind (resolve_lifecycle H pkg svc manifestFile) (\<lambda>(lc, source).
      case lc of
        None \<Rightarrow>
          tell [found Bad ''lifecycle'' (s_id svc @ '': no lifecycle declared (looked at '' @ source @
            ''); the manifest needs its lifecycle block (openvibe-contracts '' @ [CHR 0xE2, CHR 0x89, CHR 0xA5] @
            '' 0.55.0), or set services.'' @ s_id svc @ ''.lifecycle'')]
      | Some v \<Rightarrow>
          andthen (tell (judge_declared svc source (check_lifecycle (Some v) (s_units svc \<noteq> []))))
          (andthen
            (case jget ''shutdown'' v of
               Some sd \<Rightarrow> (if is_none_part (Some sd) then ret () else check_shutdown_times H svc sd)
             | None \<Rightarrow> ret ())
            (case jget ''contracts'' v of
               Some ct \<Rightarrow>
                 (case jget ''range'' ct of
                    Some (JStr rng) \<Rightarrow>
                      (if \<not> is_none_part (Some ct) \<and> is_there repoStat then check_contract_range H svc rng else ret ())
                  | _ \<Rightarrow> ret ())
             | None \<Rightarrow> ret ()))))"

section \<open>Port, nginx, dependencies\<close>

definition check_port :: "host \<Rightarrow> service \<Rightarrow> rat list \<Rightarrow> (finding list, unit) prog" where
  "check_port H svc pids =
     (case s_port svc of
        None \<Rightarrow> ret ()
      | Some port \<Rightarrow>
          try_catch (bind (exec_listeners H port) (\<lambda>holders. tell [judge_port svc port pids holders]))
            (\<lambda>e. tell [found Doubt ''port'' (''could not list listeners: '' @ exc_message e)]))"

definition check_vhost :: "ctx \<Rightarrow> service \<Rightarrow> nginx_cfg \<Rightarrow> str \<Rightarrow> (finding list, unit) prog" where
  "check_vhost c svc n v =
     (let H = exec c; available = avail c v; linked = enabled c v in
      bind (exec_stat H available) (\<lambda>a.
      bind (exec_stat H linked) (\<lambda>e.
      andthen (tell (judge_vhost available linked (a \<noteq> None) (e \<noteq> None)))
      (case n_repo_vhost n of
         Some src \<Rightarrow>
           whenever (a \<noteq> None)
             (bind (exec_read H (path_join [s_code_dir svc, src])) (\<lambda>repoText.
              bind (exec_read H available) (\<lambda>live.
              tell (only_if (repoText \<noteq> None \<and> repoText \<noteq> live)
                (found Doubt ''nginx'' (v @ '' differs from '' @ src @ '' in the checkout''))))))
       | None \<Rightarrow> ret ()))))"

definition check_nginx_setup :: "ctx \<Rightarrow> service \<Rightarrow> (finding list, unit) prog" where
  "check_nginx_setup c svc =
     (case s_nginx svc of
        None \<Rightarrow> ret ()
      | Some n \<Rightarrow>
          andthen (case n_vhost n of Some v \<Rightarrow> check_vhost c svc n v | None \<Rightarrow> ret ())
          (bind (nginx_test c) (\<lambda>r. tell [judge_nginx r])))"

definition check_deps :: "host \<Rightarrow> service \<Rightarrow> file_stat option \<Rightarrow> (finding list, unit) prog" where
  "check_deps H svc repoStat =
     whenever (is_there repoStat \<and> s_managed svc)
       (bind (expand_packages H (at_code svc)) (\<lambda>pkgDirs.
        bind (verify H (at_code svc) pkgDirs) (\<lambda>ps. tell (judge_deps pkgDirs ps))))"

section \<open>The command\<close>

definition check_all :: "ctx \<Rightarrow> package option \<Rightarrow> service \<Rightarrow> str option \<Rightarrow> (finding list, unit) prog" where
  "check_all c pkg svc manifestFile =
     (let H = exec c in
      bind (exec_stat H (s_repo svc)) (\<lambda>repoStat.
      andthen (check_checkout c svc repoStat)
      (andthen (check_env c svc)
      (bind (check_units H svc) (\<lambda>pids.
       andthen (check_declaration c pkg svc repoStat manifestFile)
       (andthen (check_port H svc pids)
       (andthen (check_nginx_setup c svc)
       (check_deps H svc repoStat))))))))"

record validation =
  va_service :: str
  va_ok :: bool
  va_errors :: nat
  va_warnings :: nat
  va_findings :: "finding list"

definition at_level :: "level \<Rightarrow> finding list \<Rightarrow> finding list" where
  "at_level l fs = filter (\<lambda>f. fi_level f = l) fs"

definition validate :: "ctx \<Rightarrow> package option \<Rightarrow> str \<Rightarrow> str option \<Rightarrow> ('l, validation) prog" where
  "validate c pkg sid manifestFile =
     bind (find_service (inv c) sid) (\<lambda>svc.
     bind (with_state [] (check_all c pkg svc manifestFile)) (\<lambda>fs.
     let errors = length (at_level Bad fs) in
     ret \<lparr>va_service = sid, va_ok = (errors = 0), va_errors = errors, va_warnings = length (at_level Doubt fs), va_findings = fs\<rparr>))"

text \<open>
  \<^verbatim>\<open>ovhost env-names\<close>: the names the running service gets, and the ones its env file leaves empty; or those of
  the example.
\<close>

record env_set_result =
  es_file :: "str option"
  es_found :: bool
  es_set :: "str list"
  es_empty :: "str list"
  es_from_units :: "str list"

definition env_set :: "ctx \<Rightarrow> str \<Rightarrow> ('l, env_set_result) prog" where
  "env_set c sid =
     (let H = exec c in
      bind (find_service (inv c) sid) (\<lambda>svc.
      bind (case s_env_file svc of Some f \<Rightarrow> exec_read H f | None \<Rightarrow> ret None) (\<lambda>t.
      let entries = parse_names (shown_or [] t) in
      bind (unit_names H svc) (\<lambda>ns.
      let units = uniq ns;
          set' = sort (uniq (map fst (filter (\<lambda>e. \<not> snd e) entries) @ units));
          blank = sort (map fst (filter (\<lambda>e. snd e \<and> fst e \<notin> set set') entries)) in
      ret \<lparr>es_file = s_env_file svc, es_found = (t \<noteq> None), es_set = set', es_empty = blank, es_from_units = sort units\<rparr>))))"

text \<open>\<open>(found, declared, commented)\<close>\<close>

definition env_names :: "ctx \<Rightarrow> str \<Rightarrow> ('l, bool \<times> str list \<times> str list) prog" where
  "env_names c sid =
     bind (find_service (inv c) sid) (\<lambda>svc.
     bind (exec_read (exec c) (path_join [s_code_dir svc, s_env_example svc])) (\<lambda>t.
     ret (case t of None \<Rightarrow> (False, [], []) | Some x \<Rightarrow> (True, parse_example x))))"

end
