(* ===== verification/Vhost.thy ===== *)
theory Vhost
  imports Manifests
begin

text \<open>
  Rendering a vhost, \<^verbatim>\<open>lib/nginx.js\<close>: the templates of \<^verbatim>\<open>templates/nginx\<close> line by line, the substitution of their
  variables, and \<^verbatim>\<open>render\<close>. A manifest lists its domains as strings. The templates name none of the properties every
  object inherits.
\<close>

section \<open>Templates\<close>

definition rule :: "nat \<Rightarrow> str \<Rightarrow> str" where
  "rule n c = concat (replicate n c)"

definition http_websocket_lines :: "str list" where
  "http_websocket_lines =
       [''# Upgrade header -> Connection header, named per service so two vhosts never define the same variable.'',
        ''map $http_upgrade ${{zone}}_connection {'',
        ''    default upgrade;'',
        ''    '' @ [CHR 0x27, CHR 0x27] @ ''      close;'',
        ''}'',
        []]"

definition location_sse_lines :: "str list" where
  "location_sse_lines =
       [[],
        ''    # Server-Sent Events: never buffered or compressed; long reads (the service sends heartbeats'',
        ''    # well inside Cloudflare'' @ [CHR 0x27] @ ''s 100 s idle limit).'',
        ''    location = {{path}} {'',
        ''        proxy_pass http://127.0.0.1:{{port}};'',
        ''        proxy_http_version 1.1;'',
        ''        proxy_set_header Connection '' @ [CHR 0x22, CHR 0x22] @ '';'',
        ''        proxy_set_header Host $host;'',
        ''        proxy_set_header X-Real-IP $remote_addr;'',
        ''        proxy_set_header X-Forwarded-For $remote_addr;'',
        ''        proxy_set_header CF-Connecting-IP $remote_addr;'',
        ''        proxy_set_header X-Forwarded-Proto $scheme;'',
        ''        proxy_set_header Last-Event-ID $http_last_event_id;'',
        ''        proxy_buffering off;'',
        ''        proxy_cache off;'',
        ''        gzip off;'',
        ''        chunked_transfer_encoding on;'',
        ''        proxy_read_timeout 1h;'',
        ''        proxy_send_timeout 1h;'',
        ''        send_timeout 1h;'',
        ''    }'',
        []]"

definition location_websocket_lines :: "str list" where
  "location_websocket_lines =
       [[],
        ''    # WebSocket upgrade: long-lived, unbuffered.'',
        ''    location {{path}} {'',
        ''        proxy_pass http://127.0.0.1:{{port}};'',
        ''        proxy_http_version 1.1;'',
        ''        proxy_set_header Upgrade $http_upgrade;'',
        ''        proxy_set_header Connection ${{zone}}_connection;'',
        ''        proxy_set_header Host $host;'',
        ''        proxy_set_header X-Real-IP $remote_addr;'',
        ''        proxy_set_header X-Forwarded-For $remote_addr;'',
        ''        proxy_set_header CF-Connecting-IP $remote_addr;'',
        ''        proxy_set_header X-Forwarded-Proto $scheme;'',
        ''        proxy_buffering off;'',
        ''        proxy_read_timeout 1h;'',
        ''        proxy_send_timeout 1h;'',
        ''    }'',
        []]"

definition vhost_conf_lines :: "str list" where
  "vhost_conf_lines =
       [''## '' @ rule 63 [CHR 0xE2, CHR 0x95, CHR 0x90],
        ''## {{primary}} '' @ [CHR 0xE2, CHR 0x80, CHR 0x94] @ '' generated by `ovhost nginx render {{service}}`'',
        ''##'',
        ''## Source: the '' @ [CHR 0x22] @ ''{{manifestId}}'' @ [CHR 0x22] @ '' service manifest (openvibe-contracts {{contractsVersion}}) and the'',
        ''## host inventory (port {{port}}). Variant: {{variant}}.'',
        ''## `ovhost nginx render {{service}} --install` writes {{sitesAvailable}}/{{vhost}}, links it into'',
        ''## sites-enabled, and reloads nginx only if `nginx -t` passes (the previous file is restored if not).'',
        ''## '' @ rule 63 [CHR 0xE2, CHR 0x95, CHR 0x90],
        [],
        ''limit_req_zone $binary_remote_addr zone={{zone}}_req:10m rate=10r/s;'',
        ''{{httpContext}}'',
        ''# '' @ rule 2 [CHR 0xE2, CHR 0x94, CHR 0x80] @ '' HTTP '' @ [CHR 0xE2, CHR 0x86, CHR 0x92] @ '' HTTPS redirect '' @ rule 34 [CHR 0xE2, CHR 0x94, CHR 0x80],
        ''server {'',
        ''    listen 80;'',
        ''    listen [::]:80;'',
        ''    server_name {{serverNames}};'',
        [],
        ''    location /.well-known/acme-challenge/ { root /var/www/certbot; }'',
        ''    location / { return 301 https://$host$request_uri; }'',
        ''}'',
        [],
        ''# '' @ rule 2 [CHR 0xE2, CHR 0x94, CHR 0x80] @ '' HTTPS server '' @ rule 43 [CHR 0xE2, CHR 0x94, CHR 0x80],
        ''server {'',
        ''    listen 443 ssl;'',
        ''    listen [::]:443 ssl;'',
        ''    http2 on;'',
        ''    server_name {{serverNames}};'',
        ''    include snippets/security-txt.conf;   # /.well-known/security.txt (the host'' @ [CHR 0x27] @ ''s file; WS-R task 7)'',
        [],
        ''    ssl_certificate     /etc/letsencrypt/live/{{certName}}/fullchain.pem;'',
        ''    ssl_certificate_key /etc/letsencrypt/live/{{certName}}/privkey.pem;'',
        ''    ssl_protocols       TLSv1.2 TLSv1.3;'',
        [],
        ''    access_log /var/log/nginx/{{primary}}.access.log;'',
        ''    error_log  /var/log/nginx/{{primary}}.error.log;'',
        [],
        ''    client_max_body_size {{maxBody}};'',
        [],
        ''    add_header X-Content-Type-Options nosniff always;'',
        ''    add_header Referrer-Policy strict-origin-when-cross-origin always;'',
        ''    add_header Strict-Transport-Security '' @ [CHR 0x22] @ ''max-age=31536000; includeSubDomains'' @ [CHR 0x22] @ '' always;'',
        ''{{locations}}'',
        ''    location / {'',
        ''        limit_req zone={{zone}}_req burst=40 nodelay;'',
        ''        proxy_pass http://127.0.0.1:{{port}};'',
        ''        proxy_http_version 1.1;'',
        ''        proxy_set_header Connection '' @ [CHR 0x22, CHR 0x22] @ '';'',
        ''        proxy_set_header Host $host;'',
        ''        proxy_set_header X-Real-IP $remote_addr;'',
        ''        proxy_set_header X-Forwarded-For $remote_addr;'',
        ''        proxy_set_header CF-Connecting-IP $remote_addr;'',
        ''        proxy_set_header X-Forwarded-Proto $scheme;'',
        ''        proxy_read_timeout 60s;'',
        ''    }'',
        ''}'',
        []]"

definition of_lines :: "str list \<Rightarrow> str" where
  "of_lines ls = join [CHR 0x0A] ls"

section \<open>Substitution\<close>

text \<open>The name of the variable a text starts with: \<^verbatim>\<open>{{\<close>, word characters, \<^verbatim>\<open>}}\<close>.\<close>

definition variable_at :: "str \<Rightarrow> str option" where
  "variable_at s =
     (if starts_with s ''{{'' then
        (let k = takeWhile is_word (drop 2 s) in
         if k \<noteq> [] \<and> starts_with (dropWhile is_word (drop 2 s)) ''}}'' then Some k else None)
      else None)"

function fill :: "(str \<times> str) list \<Rightarrow> str \<Rightarrow> exc + str" where
  "fill vars [] = Inr []"
| "fill vars (c # s) =
     (case variable_at (c # s) of
        None \<Rightarrow> (case fill vars s of Inl e \<Rightarrow> Inl e | Inr r \<Rightarrow> Inr (c # r))
      | Some k \<Rightarrow>
          (case map_of vars k of
             None \<Rightarrow> Inl (JsError ''template variable has no value'')
           | Some v \<Rightarrow> (case fill vars (drop (length k + 4) (c # s)) of Inl e \<Rightarrow> Inl e | Inr r \<Rightarrow> Inr (v @ r))))"
  by pat_completeness auto

termination by (relation "measure (\<lambda>(v, s). length s)") auto

section \<open>Rendering\<close>

definition last_two :: "'a list \<Rightarrow> 'a list" where
  "last_two xs = drop (length xs - 2) xs"

definition default_cert_name :: "str \<Rightarrow> str" where
  "default_cert_name domain = join ''.'' (last_two (split_on (CHR ''.'') domain))"

definition is_domain_name :: "str \<Rightarrow> bool" where
  "is_domain_name d \<longleftrightarrow> d \<noteq> [] \<and> list_all (\<lambda>c. is_alnum c \<or> c = CHR ''.'' \<or> c = CHR ''-'') d"

definition is_plain_path :: "str \<Rightarrow> bool" where
  "is_plain_path p \<longleftrightarrow> starts_with p ''/'' \<and> list_all (\<lambda>c. is_alnum c \<or> c \<in> set ''/._-'') (drop 1 p)"

text \<open>\<^verbatim>\<open>n.domains || (manifest && manifest.domains) || []\<close>\<close>

definition strings_in :: "json option \<Rightarrow> str list" where
  "strings_in v = List.map_filter (\<lambda>x. case x of JStr s \<Rightarrow> Some s | _ \<Rightarrow> None) (case v of Some (JArr xs) \<Rightarrow> xs | _ \<Rightarrow> [])"

definition domains_of :: "nginx_cfg option \<Rightarrow> json option \<Rightarrow> str list" where
  "domains_of n manifest =
     (case Option.bind n n_domains of
        Some ds \<Rightarrow> ds
      | None \<Rightarrow> strings_in (Option.bind manifest (jget ''domains'')))"

definition zone_of :: "str \<Rightarrow> str" where
  "zone_of sid = ''ov'' @ filter (\<lambda>c. is_lower c \<or> is_digit c) sid"

definition variants :: "str list" where
  "variants = [''http'', ''sse'', ''websocket'']"

definition chosen_variant :: "str option \<Rightarrow> nginx_cfg option \<Rightarrow> str" where
  "chosen_variant v n =
     (case v of
        Some (c # s) \<Rightarrow> c # s
      | _ \<Rightarrow> (case Option.bind n n_variant of Some (c # s) \<Rightarrow> c # s | _ \<Rightarrow> ''http''))"

definition safe_path :: "str \<Rightarrow> exc + str" where
  "safe_path p = (if is_plain_path p then Inr p else Inl (JsError ''location path is not a plain path''))"

text \<open>One location per path, in order.\<close>

fun fill_locations :: "str \<Rightarrow> (str \<times> str) list \<Rightarrow> str list \<Rightarrow> exc + str" where
  "fill_locations template base [] = Inr []"
| "fill_locations template base (p # ps) =
     (case safe_path p of
        Inl e \<Rightarrow> Inl e
      | Inr q \<Rightarrow>
          (case fill (base @ [(''path'', q)]) template of
             Inl e \<Rightarrow> Inl e
           | Inr t \<Rightarrow> (case fill_locations template base ps of Inl e \<Rightarrow> Inl e | Inr r \<Rightarrow> Inr (t @ r))))"

text \<open>\<open>(httpContext, locations)\<close> of a variant.\<close>

definition variant_parts :: "str \<Rightarrow> nginx_cfg option \<Rightarrow> (str \<times> str) list \<Rightarrow> exc + str \<times> str" where
  "variant_parts v n base =
     (if v = ''sse'' then
        (case fill_locations (of_lines location_sse_lines) base (case Option.bind n n_sse_paths of Some ps \<Rightarrow> ps | None \<Rightarrow> [''/realtime/stream'']) of
           Inl e \<Rightarrow> Inl e | Inr t \<Rightarrow> Inr ([], t))
      else if v = ''websocket'' then
        (case fill base (of_lines http_websocket_lines) of
           Inl e \<Rightarrow> Inl e
         | Inr h \<Rightarrow>
             (case fill_locations (of_lines location_websocket_lines) base (case Option.bind n n_ws_paths of Some ps \<Rightarrow> ps | None \<Rightarrow> [''/ws/'']) of
                Inl e \<Rightarrow> Inl e | Inr t \<Rightarrow> Inr (CHR 0x0A # h, t)))
      else Inr ([], []))"

text \<open>One server block, one certificate: without a certificate name, only the domains the primary's certificate covers.\<close>

definition cert_name_of :: "nginx_cfg option \<Rightarrow> str \<Rightarrow> str" where
  "cert_name_of n primary = (case Option.bind n n_cert_name of Some (c # s) \<Rightarrow> c # s | _ \<Rightarrow> default_cert_name primary)"

definition server_names :: "nginx_cfg option \<Rightarrow> str list \<Rightarrow> str list" where
  "server_names n domains =
     (case Option.bind n n_cert_name of
        Some (c # s) \<Rightarrow> domains
      | _ \<Rightarrow> filter (\<lambda>d. default_cert_name d = default_cert_name (hd domains)) domains)"

definition vhost_name_of :: "nginx_cfg option \<Rightarrow> str \<Rightarrow> str" where
  "vhost_name_of n primary = (case Option.bind n n_vhost of Some (c # s) \<Rightarrow> c # s | _ \<Rightarrow> primary @ ''.conf'')"

text \<open>The variables of the vhost template.\<close>

definition vhost_vars :: "inventory \<Rightarrow> service \<Rightarrow> int \<Rightarrow> str \<Rightarrow> str \<Rightarrow> str list \<Rightarrow> str \<times> str \<Rightarrow> (str \<times> str) list" where
  "vhost_vars i svc port v version domains loc =
     (let n = s_nginx svc; primary = hd domains in
      [(''port'', int_str port), (''zone'', zone_of (s_id svc)), (''primary'', primary), (''service'', s_id svc),
       (''manifestId'', s_manifest svc), (''contractsVersion'', version), (''variant'', v), (''vhost'', vhost_name_of n primary),
       (''sitesAvailable'', sites_available (inv_nginx i)), (''serverNames'', join '' '' (server_names n domains)),
       (''certName'', cert_name_of n primary),
       (''maxBody'', case Option.bind n n_max_body of Some (c # s) \<Rightarrow> c # s | _ \<Rightarrow> ''2m''),
       (''locations'', snd loc), (''httpContext'', fst loc)])"

definition render_with :: "inventory \<Rightarrow> service \<Rightarrow> str option \<Rightarrow> json option \<times> str \<Rightarrow> exc + vhost" where
  "render_with i svc variant m =
     (let n = s_nginx svc; domains = domains_of n (fst m); v = chosen_variant variant n in
      if domains = [] then Inl (JsError ''no domains'')
      else case s_port svc of
          None \<Rightarrow> Inl (JsError ''has no port in the inventory'')
        | Some port \<Rightarrow>
            (if v \<notin> set variants then Inl (JsError ''unknown variant'')
             else if \<not> list_all is_domain_name domains then Inl (JsError ''domain is not a host name'')
             else
               case variant_parts v n [(''port'', int_str port), (''zone'', zone_of (s_id svc))] of
                 Inl e \<Rightarrow> Inl e
               | Inr loc \<Rightarrow>
                   (case fill (vhost_vars i svc port v (snd m) domains loc) (of_lines vhost_conf_lines) of
                      Inl e \<Rightarrow> Inl e
                    | Inr t \<Rightarrow> Inr \<lparr>v_name = vhost_name_of n (hd domains), v_text = Some t\<rparr>)))"

definition render :: "ctx \<Rightarrow> package option \<Rightarrow> service \<Rightarrow> str option \<Rightarrow> str option \<Rightarrow> ('l, vhost) prog" where
  "render c pkg svc variant manifestFile =
     bind (load_manifest (exec c) pkg (s_manifest svc) manifestFile) (\<lambda>m. of_sum (render_with (inv c) svc variant m))"

section \<open>What a rendered vhost is\<close>

text \<open>A template in pieces; filling it puts the values in place of the variables and keeps everything else.\<close>

datatype piece = Plain char | Var str

function pieces :: "str \<Rightarrow> piece list" where
  "pieces [] = []"
| "pieces (c # s) =
     (case variable_at (c # s) of
        None \<Rightarrow> Plain c # pieces s
      | Some k \<Rightarrow> Var k # pieces (drop (length k + 4) (c # s)))"
  by pat_completeness auto

termination by (relation "measure length") auto

definition put :: "(str \<times> str) list \<Rightarrow> piece \<Rightarrow> str" where
  "put vars p = (case p of Plain c \<Rightarrow> [c] | Var k \<Rightarrow> (case map_of vars k of Some v \<Rightarrow> v | None \<Rightarrow> []))"

definition puts :: "(str \<times> str) list \<Rightarrow> piece list \<Rightarrow> str" where
  "puts vars ps = concat (map (put vars) ps)"

definition has_value :: "str list \<Rightarrow> piece \<Rightarrow> bool" where
  "has_value ks p = (case p of Plain c \<Rightarrow> True | Var k \<Rightarrow> k \<in> set ks)"

lemma has_value_simps [simp]: "has_value ks (Plain c)" "has_value ks (Var k) \<longleftrightarrow> k \<in> set ks"
  by (simp_all add: has_value_def)

lemma puts_simps [simp]:
  "puts vars [] = []" "puts vars (p # ps) = put vars p @ puts vars ps" "puts vars (ps @ qs) = puts vars ps @ puts vars qs"
  "puts vars (map Plain s) = s"
  by (simp_all add: puts_def put_def o_def)

lemma fill_puts: "fill vars s = (if list_all (has_value (map fst vars)) (pieces s) then Inr (puts vars (pieces s))
    else Inl (JsError ''template variable has no value''))"
proof (induction vars s rule: fill.induct)
  case (2 vars c s)
  show ?case
  proof (cases "variable_at (c # s)")
    case None
    with 2(1) show ?thesis by (simp add: put_def del: set_map)
  next
    case (Some k)
    show ?thesis
    proof (cases "map_of vars k")
      case None
      then have "k \<notin> set (map fst vars)" by (simp add: map_of_eq_None_iff)
      with Some None show ?thesis by (simp del: set_map)
    next
      case (Some v)
      then have "k \<in> set (map fst vars)" by (force dest: map_of_SomeD)
      with 2(2) [OF \<open>variable_at (c # s) = Some k\<close> Some] Some \<open>variable_at (c # s) = Some k\<close> show ?thesis
        by (simp add: put_def del: set_map)
    qed
  qed
qed simp

text \<open>No variable spans two lines.\<close>

lemma pair_before_newline: "p \<noteq> CHR 0x0A \<Longrightarrow> starts_with (a @ CHR 0x0A # b) [p, p] \<longleftrightarrow> starts_with a [p, p]"
  by (cases a; cases "tl a") (auto simp: starts_with_def)

lemma newline_no_word: "\<not> is_word (CHR 0x0A)"
  by (simp add: is_word_def is_alnum_def is_digit_def is_lower_def is_upper_def)

lemma variable_before_newline: "variable_at (a @ CHR 0x0A # b) = variable_at a"
proof (cases "starts_with a ''{{''")
  case True
  then obtain r where a: "a = ''{{'' @ r" by (auto simp: starts_with_iff)
  have "takeWhile is_word (r @ CHR 0x0A # b) = takeWhile is_word r"
    "dropWhile is_word (r @ CHR 0x0A # b) = dropWhile is_word r @ CHR 0x0A # b"
    by (induction r) (simp_all add: newline_no_word)
  then show ?thesis unfolding variable_at_def Let_def a
    using pair_before_newline [of "CHR ''}''" "dropWhile is_word r" b] pair_before_newline [of "CHR ''{''" a b] True a
    by (simp add: starts_with_def)
next
  case False
  then show ?thesis unfolding variable_at_def using pair_before_newline [of "CHR ''{''" a b] by simp
qed

lemma variable_length: "variable_at s = Some k \<Longrightarrow> length k + 4 \<le> length s"
proof -
  assume v: "variable_at s = Some k"
  then obtain r where s: "s = ''{{'' @ r" and k: "k = takeWhile is_word r" and e: "starts_with (dropWhile is_word r) ''}}''"
    unfolding variable_at_def Let_def by (auto simp: starts_with_iff split: if_splits)
  have "length r = length k + length (dropWhile is_word r)" unfolding k by (metis length_append takeWhile_dropWhile_id)
  moreover have "2 \<le> length (dropWhile is_word r)" using e by (auto simp: starts_with_iff)
  ultimately show ?thesis using s by simp
qed

lemma pieces_newline: "pieces (a @ CHR 0x0A # b) = pieces a @ Plain (CHR 0x0A) # pieces b"
proof (induction a rule: pieces.induct)
  case 1
  have "variable_at (CHR 0x0A # b) = None" by (simp add: variable_at_def starts_with_def)
  then show ?case by simp
next
  case (2 c s)
  show ?case
  proof (cases "variable_at (c # s)")
    case None
    with 2(1) variable_before_newline [of "c # s" b] show ?thesis by simp
  next
    case (Some k)
    have "drop (length k + 4) ((c # s) @ CHR 0x0A # b) = drop (length k + 4) (c # s) @ CHR 0x0A # b"
      using variable_length [OF Some] by (simp only: drop_append) simp
    with 2(2) [OF Some] variable_before_newline [of "c # s" b] Some show ?thesis by simp
  qed
qed

lemma pieces_of_lines:
  "list_all P (pieces (of_lines ls)) \<longleftrightarrow> list_all (\<lambda>l. list_all P (pieces l)) ls \<and> (1 < length ls \<longrightarrow> P (Plain (CHR 0x0A)))"
  unfolding of_lines_def
  by (induction "[CHR 0x0A]" ls rule: join.induct) (auto simp: pieces_newline)

lemma line_shown: "l \<in> set ls \<Longrightarrow> \<exists>a b. pieces (of_lines ls) = a @ pieces l @ b"
  unfolding of_lines_def
proof (induction "[CHR 0x0A]" ls rule: join.induct)
  case (2 w)
  then show ?case by (intro exI [of _ "[]"]) simp
next
  case (3 w v ws)
  let ?rest = "join [CHR 0x0A] (v # ws)"
  have split: "pieces (join [CHR 0x0A] (w # v # ws)) = pieces w @ Plain (CHR 0x0A) # pieces ?rest"
    by (simp add: pieces_newline)
  show ?case
  proof (cases "l = w")
    case True
    with split show ?thesis by (metis append_Nil)
  next
    case False
    with 3 obtain a b where "pieces ?rest = a @ pieces l @ b" by auto
    with split show ?thesis by (metis append_Cons append_assoc)
  qed
qed simp

lemma starts_with_includes: "starts_with s p \<Longrightarrow> str_includes (a @ s) p"
  by (induction a) (cases s; auto simp: starts_with_def)+

lemma line_filled:
  assumes "fill vars (of_lines ls) = Inr t" "l \<in> set ls"
  shows "str_includes t (puts vars (pieces l))"
proof -
  obtain a b where "pieces (of_lines ls) = a @ pieces l @ b" using line_shown [OF assms(2)] by blast
  with assms(1) have "t = puts vars a @ puts vars (pieces l) @ puts vars b"
    by (auto simp: fill_puts split: if_splits)
  then show ?thesis using starts_with_includes by simp
qed

text \<open>The variables of a line, found once per line.\<close>

definition line_ok :: "str list \<Rightarrow> str \<Rightarrow> bool" where
  "line_ok ks l \<longleftrightarrow> list_all (has_value ks) (pieces l)"

lemma http_websocket_ok: "list_all (line_ok [''port'', ''zone'']) http_websocket_lines"
  unfolding http_websocket_lines_def list.pred_inject by (intro conjI TrueI; code_simp)

lemma location_sse_ok: "list_all (line_ok [''port'', ''zone'', ''path'']) location_sse_lines"
  unfolding location_sse_lines_def list.pred_inject by (intro conjI TrueI; code_simp)

lemma location_websocket_ok: "list_all (line_ok [''port'', ''zone'', ''path'']) location_websocket_lines"
  unfolding location_websocket_lines_def list.pred_inject by (intro conjI TrueI; code_simp)

lemma vhost_conf_ok:
  "list_all (line_ok [''port'', ''zone'', ''primary'', ''service'', ''manifestId'', ''contractsVersion'', ''variant'', ''vhost'',
     ''sitesAvailable'', ''serverNames'', ''certName'', ''maxBody'', ''locations'', ''httpContext'']) vhost_conf_lines"
  unfolding vhost_conf_lines_def list.pred_inject by (intro conjI TrueI; code_simp)

section \<open>The vhost\<close>

definition render_refusals :: "exc list" where
  "render_refusals =
     map JsError [''no domains'', ''has no port in the inventory'', ''unknown variant'', ''domain is not a host name'',
       ''location path is not a plain path'']"

lemma template_filled:
  assumes "list_all (line_ok ks) ls" "set ks \<subseteq> set (map fst vars)"
  shows "\<exists>t. fill vars (of_lines ls) = Inr t"
proof -
  have wider: "has_value ks p \<Longrightarrow> has_value (map fst vars) p" for p
    using assms(2) by (auto simp: has_value_def split: piece.splits)
  have "list_all (has_value (map fst vars)) (pieces (of_lines ls))"
    unfolding pieces_of_lines using assms(1) wider by (auto simp: list_all_iff line_ok_def)
  then show ?thesis by (simp add: fill_puts)
qed

lemma location_refusals:
  assumes "list_all (line_ok [''port'', ''zone'', ''path'']) ls"
    and "fill_locations (of_lines ls) [(''port'', a), (''zone'', b)] ps = Inl e"
  shows "e = JsError ''location path is not a plain path''"
  using assms(2)
proof (induction ps)
  case (Cons p ps)
  have "\<exists>t. fill ([(''port'', a), (''zone'', b)] @ [(''path'', p)]) (of_lines ls) = Inr t"
    by (rule template_filled [OF assms(1)]) simp
  with Cons show ?case by (auto simp: safe_path_def split: if_splits sum.splits)
qed simp

lemma variant_refusals:
  "variant_parts v n [(''port'', a), (''zone'', b)] = Inl e \<Longrightarrow> e = JsError ''location path is not a plain path''"
  unfolding variant_parts_def
  using template_filled [OF http_websocket_ok, of "[(''port'', a), (''zone'', b)]"]
  by (auto split: if_splits sum.splits dest: location_refusals [OF location_sse_ok] location_refusals [OF location_websocket_ok])

lemma vhost_filled: "\<exists>t. fill (vhost_vars i svc port v version domains loc) (of_lines vhost_conf_lines) = Inr t"
  by (rule template_filled [OF vhost_conf_ok]) (simp add: vhost_vars_def Let_def)

definition names_line :: str where
  "names_line = ''    server_name {{serverNames}};''"

lemma names_line: "names_line \<in> set vhost_conf_lines" "pieces names_line = map Plain ''    server_name '' @ [Var ''serverNames'', Plain CHR '';'']"
  by code_simp+

lemma server_names_ok:
  assumes "domains \<noteq> []" "list_all is_domain_name domains"
  shows "hd domains \<in> set (server_names n domains) \<and> list_all is_domain_name (server_names n domains) \<and>
    (case Option.bind n n_cert_name of Some (c # s) \<Rightarrow> True | _ \<Rightarrow>
       list_all (\<lambda>d. default_cert_name d = cert_name_of n (hd domains)) (server_names n domains))"
  using assms unfolding server_names_def cert_name_of_def
  by (auto simp: list_all_iff split: option.split list.split)


end
