(* ===== verification/Cli.thy ===== *)
theory Cli
  imports Freeze_Control Reconcile Nodes Alerts Archive Dns Drill Inventory Validate Vhost
begin

text \<open>
  The command line, \<^verbatim>\<open>lib/cli.js\<close>: the arguments, the commands that run a modelled operation, and the exit code that
  each outcome becomes. What is printed is left out.
\<close>

section \<open>Arguments\<close>

definition flags_with_value :: "str list" where
  "flags_with_value =
     [''prometheus'', ''sites'', ''pages'', ''token-file'', ''ttl'', ''title'', ''services'', ''severity'', ''message'', ''state'', ''from'',
      ''until'', ''reason'', ''incident'', ''inventory'', ''to'', ''limit'', ''warn-days'', ''variant'', ''manifest'', ''out'', ''ready-timeout'',
      ''backup'', ''run'', ''keep-daily'', ''keep-weekly'', ''from-host'', ''backup-env'', ''release'', ''commit'', ''origin'', ''events-env'',
      ''note'', ''tail'']"

type_synonym cli_opts = "(str \<times> flag_value) list"

text \<open>Setting \<^verbatim>\<open>opts.__proto__\<close> to \<^verbatim>\<open>true\<close> does nothing.\<close>

definition set_flag :: "str \<Rightarrow> flag_value \<Rightarrow> cli_opts \<Rightarrow> cli_opts" where
  "set_flag k v opts = (if k = ''__proto__'' then opts else obj_put k v opts)"

text \<open>The name of a long option and the value after its first \<^verbatim>\<open>=\<close>.\<close>

definition split_flag :: "str \<Rightarrow> str \<times> str option" where
  "split_flag a =
     (let n = takeWhile (\<lambda>c. c \<noteq> CHR ''='') a in
      if length n < length a then (drop 2 n, Some (drop (length n + 1) a)) else (drop 2 a, None))"

fun parse_args :: "str list \<Rightarrow> str list \<Rightarrow> cli_opts \<Rightarrow> exc + str list \<times> cli_opts" where
  "parse_args [] pos opts = Inr (pos, opts)"
| "parse_args (a # as) pos opts =
     (if a = ''-h'' \<or> a = ''--help'' then parse_args as pos (set_flag ''help'' Bare opts)
      else if starts_with a ''--'' then
        (let (name, v) = split_flag a in
         if name \<in> set flags_with_value then
           (case v of
              Some x \<Rightarrow> parse_args as pos (set_flag name (Given x) opts)
            | None \<Rightarrow>
                (case as of
                   x # rest \<Rightarrow> parse_args rest pos (set_flag name (Given x) opts)
                 | [] \<Rightarrow> Inl (UsageError (''--'' @ name @ '' needs a value''))))
         else parse_args as pos (set_flag name Bare opts))
      else parse_args as (pos @ [a]) opts)"

text \<open>\<^verbatim>\<open>!!opts.name\<close> and \<^verbatim>\<open>opts.name\<close> of an option that takes a value.\<close>

definition flag_on :: "cli_opts \<Rightarrow> str \<Rightarrow> bool" where
  "flag_on opts k = (case map_of opts k of Some (Given s) \<Rightarrow> s \<noteq> [] | Some Bare \<Rightarrow> True | None \<Rightarrow> False)"

definition flag_of :: "cli_opts \<Rightarrow> str \<Rightarrow> str option" where
  "flag_of opts k = flag_text (map_of opts k)"

text \<open>A whole number from 1 to 366, or the default.\<close>

definition count_flag :: "cli_opts \<Rightarrow> str \<Rightarrow> int \<Rightarrow> exc + int" where
  "count_flag opts k dflt =
     (case flag_of opts k of
        None \<Rightarrow> Inr dflt
      | Some s \<Rightarrow>
          (case str_number s of
             Some q \<Rightarrow> (if is_whole q \<and> 1 \<le> q \<and> q \<le> 366 then Inr \<lfloor>q\<rfloor> else Inl (UsageError ''must be a whole number from 1''))
           | None \<Rightarrow> Inl (UsageError ''must be a whole number from 1'')))"

section \<open>Exit codes\<close>

text \<open>The handler at the end of \<^verbatim>\<open>main\<close>.\<close>

definition exit_of_error :: "exc \<Rightarrow> nat" where
  "exit_of_error e =
     (case e of
        UsageError m \<Rightarrow> 1
      | InventoryError m \<Rightarrow> 1
      | LockedError m \<Rightarrow> 1
      | SocketGuardError m \<Rightarrow> 1
      | DrillError m x \<Rightarrow> x
      | OffsiteError m x \<Rightarrow> x
      | OpError m x r \<Rightarrow> x
      | AnnounceError m x \<Rightarrow> x
      | _ \<Rightarrow> 2)"

definition exits :: "('l, nat) prog \<Rightarrow> ('l, nat) prog" where
  "exits m = try_catch m (\<lambda>e. ret (exit_of_error e))"

section \<open>Deploy and rollback\<close>

text \<open>\<^verbatim>\<open>Number(opts['ready-timeout'])\<close>: no number waits the default time; seconds are taken whole.\<close>

definition ready_timeout :: "cli_opts \<Rightarrow> int option" where
  "ready_timeout opts =
     (if flag_on opts ''ready-timeout''
      then (case flag_of opts ''ready-timeout'' of Some s \<Rightarrow> map_option floor (str_number s) | None \<Rightarrow> None) else None)"

definition operation_opts :: "bool \<Rightarrow> cli_opts \<Rightarrow> op_opts" where
  "operation_opts deploys opts =
     \<lparr>op_to = flag_of opts ''to'', op_fetch = True, op_restart = flag_on opts ''restart'', op_force = flag_on opts ''force'',
      op_wait_idle = flag_on opts ''wait-idle'', op_install_units = flag_on opts ''install-units'',
      op_ready_timeout = ready_timeout opts, op_prepare_only = deploys \<and> flag_on opts ''prepare-only''\<rparr>"

definition cli_announce_opts :: "bool \<Rightarrow> cli_opts \<Rightarrow> str option \<Rightarrow> announce_opts" where
  "cli_announce_opts rolls opts env =
     \<lparr>ao_release = None, ao_commit = None, ao_origin = None, ao_head = None, ao_rollback = rolls, ao_force = False,
      ao_dry_run = False, ao_env_file = flag_of opts ''events-env'', ao_env = env\<rparr>"

text \<open>
  One notification per site, stopping at the first that fails or is not configured; or one for the service. An error is
  caught and logged.
\<close>

fun announce_each ::
  "url_parser \<Rightarrow> contracts \<Rightarrow> ctx \<Rightarrow> announce_opts \<Rightarrow> announcement list \<Rightarrow> ('l, announcement_result list) prog" where
  "announce_each parse K c ao [] = ret []"
| "announce_each parse K c ao (a # as) =
     (let sid = js_text (announcement.an_service a) in
      bind (try_catch
             (announce parse K c sid (ao\<lparr>ao_release := Some (js_text (announcement.an_release a)), ao_origin := Some (announcement.an_origin a)\<rparr>))
             (\<lambda>e. ret ((unannounced sid None)\<lparr>ar_error := Some (exc_message e)\<rparr>))) (\<lambda>x.
      if ar_error x \<noteq> None \<or> ar_not_configured x then ret [x]
      else bind (announce_each parse K c ao as) (\<lambda>xs. ret (x # xs))))"

definition announcements_of :: "op_outcome \<Rightarrow> announcement list option" where
  "announcements_of r = (case r of InPlace x \<Rightarrow> oc_announcements x | Layout x \<Rightarrow> None)"

definition announce_outcome ::
  "url_parser \<Rightarrow> contracts \<Rightarrow> ctx \<Rightarrow> announce_opts \<Rightarrow> str \<Rightarrow> str option \<Rightarrow> op_outcome \<Rightarrow> ('l, announcement_result list) prog" where
  "announce_outcome parse K c ao sid head out =
     (case announcements_of out of
        Some as \<Rightarrow> announce_each parse K c ao as
      | None \<Rightarrow>
          bind (try_catch (announce parse K c sid (ao\<lparr>ao_head := head\<rparr>))
                 (\<lambda>e. ret ((unannounced sid None)\<lparr>ar_error := Some (exc_message e)\<rparr>))) (\<lambda>x.
          ret [x]))"

definition went_live :: "op_outcome \<Rightarrow> str option \<Rightarrow> bool" where
  "went_live out result \<longleftrightarrow> exit_of out = 0 \<and> (result = Some ''deployed'' \<or> result = Some ''rolled-back'')"

definition need_service :: "str list \<Rightarrow> ('l, str) prog" where
  "need_service pos = (case pos of sid # _ \<Rightarrow> (if sid = [] then throw (UsageError ''needs a <service>'') else ret sid)
     | [] \<Rightarrow> throw (UsageError ''needs a <service>''))"

definition operation_command ::
  "url_parser \<Rightarrow> contracts \<Rightarrow> ctx \<Rightarrow> bool \<Rightarrow> str list \<Rightarrow> cli_opts \<Rightarrow> str option \<Rightarrow> (engine_state, nat) prog" where
  "operation_command parse K c deploys pos opts env =
     bind (need_service pos) (\<lambda>sid.
     bind ((if deploys then deploy else rollback) c sid (operation_opts deploys opts)) (\<lambda>out.
     bind getl (\<lambda>s.
     andthen (if went_live out (os_result s) \<and> \<not> flag_on opts ''no-announce''
              then bind (announce_outcome parse K c (cli_announce_opts (\<not> deploys) opts env) sid (os_to s) out) (\<lambda>_. ret ())
              else ret ())
     (ret (exit_of out)))))"

section \<open>Other commands\<close>

definition announce_command :: "url_parser \<Rightarrow> contracts \<Rightarrow> ctx \<Rightarrow> str list \<Rightarrow> cli_opts \<Rightarrow> str option \<Rightarrow> ('l, nat) prog" where
  "announce_command parse K c pos opts env =
     bind (need_service pos) (\<lambda>sid.
     bind (announce parse K c sid
       \<lparr>ao_release = flag_of opts ''release'', ao_commit = flag_of opts ''commit'', ao_origin = flag_of opts ''origin'', ao_head = None,
        ao_rollback = False, ao_force = flag_on opts ''force'', ao_dry_run = flag_on opts ''dry-run'',
        ao_env_file = flag_of opts ''events-env'', ao_env = env\<rparr>) (\<lambda>a.
     ret (if ar_published a \<or> (ar_skipped a \<noteq> None \<and> \<not> ar_not_configured a) then 0
          else if ar_not_configured a then 1 else 2)))"

definition logs_command :: "ctx \<Rightarrow> str list \<Rightarrow> cli_opts \<Rightarrow> ('l, nat) prog" where
  "logs_command c pos opts =
     bind (need_service pos) (\<lambda>sid.
     bind (find_service (inv c) sid) (\<lambda>svc.
     let tail = (case flag_of opts ''tail'' of None \<Rightarrow> Some 200 | Some s \<Rightarrow> str_number s) in
     case tail of
       Some q \<Rightarrow>
         (if \<not> (is_whole q \<and> 1 \<le> q \<and> q \<le> 2000) then throw (UsageError ''--tail must be a whole number from 1 to 2000'')
          else if s_units svc = [] then throw (UsageError ''declares no units'')
          else bind (exec_run (exec c) ''journalctl''
                      (concat (map (\<lambda>u. [''-u'', u]) (s_units svc)) @ [''-n'', int_str \<lfloor>q\<rfloor>, ''--no-pager'', ''-o'', ''short-iso'']) as_root) (\<lambda>r.
               ret (if rc r = 0 then 0 else 1)))
     | None \<Rightarrow> throw (UsageError ''--tail must be a whole number from 1 to 2000'')))"

definition pass_exit :: "pass \<Rightarrow> nat" where
  "pass_exit p = (if list_ex (\<lambda>x. pe_action x = ''failed'' \<or> pe_action x = ''error'') (ps_services p) then 1 else 0)"

definition reconcile_command :: "ctx \<Rightarrow> announcer option \<Rightarrow> str list \<Rightarrow> cli_opts \<Rightarrow> str \<Rightarrow> str \<Rightarrow> (engine_state, nat) prog" where
  "reconcile_command c ann pos opts stateDir textfileDir =
     bind (reconcile c ann (if pos = [] then None else Some pos) (flag_on opts ''dry-run'') stateDir textfileDir) (\<lambda>p. ret (pass_exit p))"

definition backup_command :: "ctx \<Rightarrow> str list \<Rightarrow> cli_opts \<Rightarrow> ('l, nat) prog" where
  "backup_command c pos opts =
     bind (need_service pos) (\<lambda>sid. bind (backup c sid ''manual'' (flag_on opts ''logical'')) (\<lambda>_. ret 0))"

text \<open>An incident command turns its own errors into their exit codes.\<close>

definition page_exits :: "('l, 'a) prog \<Rightarrow> ('l, nat) prog" where
  "page_exits m =
     try_catch (bind m (\<lambda>_. ret 0)) (\<lambda>e. case e of IncidentsError t x \<Rightarrow> ret x | _ \<Rightarrow> throw e)"

definition cli_incident_opts :: "cli_opts \<Rightarrow> incident_opts" where
  "cli_incident_opts opts =
     \<lparr>io_title = map_of opts ''title'', io_services = map_of opts ''services'', io_severity = map_of opts ''severity'',
      io_message = map_of opts ''message'', io_state = map_of opts ''state'', io_from = map_of opts ''from'', io_until = map_of opts ''until''\<rparr>"

definition freeze_command :: "ctx \<Rightarrow> str list \<Rightarrow> cli_opts \<Rightarrow> str option \<Rightarrow> str \<Rightarrow> ('l, nat) prog" where
  "freeze_command c pos opts who now =
     page_exits (case pos of
         sid # _ \<Rightarrow>
           (if sid = [] then bind (freezes c) (\<lambda>_. ret ())
            else bind (freeze c sid (map_of opts ''reason'') (flag_of opts ''incident'') who now) (\<lambda>_. ret ()))
       | [] \<Rightarrow> bind (freezes c) (\<lambda>_. ret ()))"

definition unfreeze_command :: "ctx \<Rightarrow> str list \<Rightarrow> ('l, nat) prog" where
  "unfreeze_command c pos =
     page_exits (bind (case pos of sid # _ \<Rightarrow> (if sid = [] then throw (UsageError ''usage: ovhost unfreeze'') else ret sid)
         | [] \<Rightarrow> throw (UsageError ''usage: ovhost unfreeze'')) (unfreeze c))"

text \<open>\<^verbatim>\<open>ovhost dns\<close>: its own errors become their exit codes too.\<close>

definition dns_exits :: "('l, nat) prog \<Rightarrow> ('l, nat) prog" where
  "dns_exits m = try_catch m (\<lambda>e. case e of DnsError t x \<Rightarrow> ret x | _ \<Rightarrow> throw e)"

definition dns_mode :: "cli_opts \<Rightarrow> bool option" where
  "dns_mode opts = (if flag_on opts ''proxied'' then Some True else if flag_on opts ''dns-only'' then Some False else None)"

definition nth_arg :: "nat \<Rightarrow> str list \<Rightarrow> str" where
  "nth_arg i xs = (if i < length xs then xs ! i else [])"

definition dns_command :: "host \<Rightarrow> str list \<Rightarrow> dns_access \<Rightarrow> str list \<Rightarrow> cli_opts \<Rightarrow> ('l, nat) prog" where
  "dns_command H dns_only a pos opts =
     (let sub = nth_arg 0 pos; x = nth_arg 1 pos; y = nth_arg 2 pos; z = nth_arg 3 pos; applied = flag_on opts ''apply'' in
      dns_exits
       (if sub = ''list'' then
          (if x = [] then throw (UsageError ''usage: ovhost dns list'') else bind (dns_list H a x) (\<lambda>_. ret 0))
        else if sub = ''ensure'' then
          (if x = [] \<or> y = [] \<or> z = [] then throw (UsageError ''usage: ovhost dns ensure'')
           else if flag_on opts ''proxied'' \<and> flag_on opts ''dns-only'' then throw (UsageError ''--proxied or --dns-only, not both'')
           else bind (dns_ensure H dns_only a
                  \<lparr>rd_name = x, rd_type = y, rd_content = z, rd_proxied = dns_mode opts,
                   rd_ttl = map_option str_number (flag_of opts ''ttl'')\<rparr> applied) (\<lambda>_. ret 0))
        else if sub = ''delete'' then
          (if x = [] \<or> y = [] then throw (UsageError ''usage: ovhost dns delete'')
           else if flag_on opts ''proxied'' \<and> flag_on opts ''dns-only'' then throw (UsageError ''--proxied or --dns-only, not both'')
           else bind (dns_remove H a x y applied) (\<lambda>_. ret 0))
        else throw (UsageError ''usage: ovhost dns'')))"

text \<open>The two reports, which are shown whether or not they succeed.\<close>

definition alerts_command ::
  "url_parser \<Rightarrow> (str \<Rightarrow> str) \<Rightarrow> ctx \<Rightarrow> str list \<Rightarrow> cli_opts \<Rightarrow> str option \<Rightarrow> str option \<Rightarrow> ('l, nat) prog" where
  "alerts_command parse sha c pos opts env promEnv =
     (if nth_arg 0 pos \<noteq> ''relay'' then throw (UsageError ''usage: ovhost alerts relay'')
      else bind (relay parse sha c
             \<lparr>ry_prometheus = flag_of opts ''prometheus'', ry_prometheus_env = promEnv, ry_env_file = flag_of opts ''events-env'', ry_env = env,
              ry_dry_run = flag_on opts ''dry-run'', ry_metrics = True\<rparr>) (\<lambda>r. ret (if ry_ok r then 0 else 2)))"

definition nodes_command :: "url_parser \<Rightarrow> contracts \<Rightarrow> ctx \<Rightarrow> str list \<Rightarrow> cli_opts \<Rightarrow> str option \<Rightarrow> ('l, nat) prog" where
  "nodes_command parse K c pos opts env =
     (if nth_arg 0 pos \<noteq> ''report'' then throw (UsageError ''usage: ovhost nodes report'')
      else bind (report parse K c
             \<lparr>no_env_file = flag_of opts ''events-env'', no_env = env, no_dry_run = flag_on opts ''dry-run'', no_metrics = True\<rparr>) (\<lambda>r.
           ret (if nr_ok r then 0 else 2)))"

section \<open>Backups and copies off the host\<close>

text \<open>
  The configuration of the copies, the client made from it, and the cryptographic primitives. \<open>sc_backup_env\<close> is
  \<^verbatim>\<open>$OVHOST_BACKUP_ENV\<close>.
\<close>

record store_access =
  sc_parse :: url_parser
  sc_crypto :: crypto
  sc_client :: "offsite_cfg \<Rightarrow> store"
  sc_backup_env :: "str option"

definition config_of :: "store_access \<Rightarrow> host \<Rightarrow> cli_opts \<Rightarrow> ('l, offsite_cfg) prog" where
  "config_of A H opts = load_config (sc_parse A) H (flag_of opts ''backup-env'') (sc_backup_env A)"

definition backup_all_command :: "store_access \<Rightarrow> ctx \<Rightarrow> str list \<Rightarrow> cli_opts \<Rightarrow> ('l, nat) prog" where
  "backup_all_command A c pos opts =
     (if nth_arg 0 pos \<noteq> [] then throw (UsageError ''backup --all takes no <service>'')
      else
        bind (of_sum (count_flag opts ''keep-daily'' 7)) (\<lambda>daily.
        bind (of_sum (count_flag opts ''keep-weekly'' 4)) (\<lambda>weekly.
        bind (backup_all c (nat daily) (nat weekly) (\<not> flag_on opts ''no-prune'')
                (if flag_on opts ''offsite''
                 then Some (\<lambda>summary. bind (config_of A (exec c) opts) (\<lambda>cfg.
                        bind (push (sc_crypto A) c (sc_client A cfg) default_push cfg summary) (\<lambda>r. ret (push_json cfg r))))
                 else None)
                (flag_on opts ''logical'')) (\<lambda>r.
        ret (if rs_ok r then 0 else 2)))))"

definition run_flag :: "cli_opts \<Rightarrow> str option" where
  "run_flag opts = (if flag_on opts ''run'' then flag_of opts ''run'' else None)"

definition backup_metrics_command :: "ctx \<Rightarrow> cli_opts \<Rightarrow> ('l, nat) prog" where
  "backup_metrics_command c opts =
     bind (read_run (exec c) (inv c) (run_flag opts)) (\<lambda>r.
     case r of
       None \<Rightarrow> throw (UsageError ''no backup --all run recorded'')
     | Some (f, summary) \<Rightarrow> bind (write_metrics c summary) (\<lambda>_. ret 0))"

text \<open>A recorded run is an object; its summary keeps what the push answers.\<close>

definition offsite_push_command :: "store_access \<Rightarrow> ctx \<Rightarrow> offsite_cfg \<Rightarrow> cli_opts \<Rightarrow> ('l, nat) prog" where
  "offsite_push_command A c cfg opts =
     bind (read_run (exec c) (inv c) (run_flag opts)) (\<lambda>r.
     case r of
       None \<Rightarrow> throw (UsageError ''no backup --all run'')
     | Some (f, JObj kvs) \<Rightarrow>
         bind (push (sc_crypto A) c (sc_client A cfg) default_push cfg (JObj kvs)) (\<lambda>p.
         let kvs1 = obj_put ''offsite'' (JObj (push_json cfg p)) kvs;
             kvs2 = (if push_result.pr_ok p then kvs1 else obj_put ''ok'' (JBool False) kvs1) in
         andthen (write_run (exec c) f kvs2)
         (andthen (try_catch (bind (write_metrics c (JObj kvs2)) (\<lambda>_. ret ())) (\<lambda>_. ret ()))
         (ret (if push_result.pr_ok p then 0 else 2))))
     | Some _ \<Rightarrow> type_fault)"

definition offsite_command :: "store_access \<Rightarrow> ctx \<Rightarrow> str list \<Rightarrow> cli_opts \<Rightarrow> ('l, nat) prog" where
  "offsite_command A c pos opts =
     (let sub = nth_arg 0 pos in
      if sub \<notin> set [''push'', ''list'', ''check''] then throw (UsageError ''usage: ovhost offsite'')
      else
        bind (config_of A (exec c) opts) (\<lambda>cfg.
        if sub = ''check'' then bind (check_offsite (sc_crypto A) c (sc_client A cfg) cfg) (\<lambda>_. ret 0)
        else if sub = ''list''
        then bind (host_name (exec c) (inv c) (map_option JStr (flag_of opts ''from-host''))) (\<lambda>h.
             bind (list_runs (sc_client A cfg) (ctx_fuel c) cfg (js_string h)) (\<lambda>_. ret 0))
        else offsite_push_command A c cfg opts))"

definition restore_command :: "store_access \<Rightarrow> ctx \<Rightarrow> str list \<Rightarrow> cli_opts \<Rightarrow> ('l, nat) prog" where
  "restore_command A c pos opts =
     bind (need_service pos) (\<lambda>sid.
     if nth_arg 1 pos = [] then throw (UsageError ''restore-download needs a <run>'')
     else
       bind (config_of A (exec c) opts) (\<lambda>cfg.
       bind (restore_download (sc_crypto A) c (sc_client A cfg) cfg sid (nth_arg 1 pos) (flag_of opts ''out'') (flag_of opts ''from-host'')) (\<lambda>_.
       ret 0)))"

text \<open>The errors of an archive command become their exit codes.\<close>

definition archive_exits :: "('l, nat) prog \<Rightarrow> ('l, nat) prog" where
  "archive_exits m = try_catch m (\<lambda>e. case e of ArchiveError t x \<Rightarrow> ret x | _ \<Rightarrow> throw e)"

definition archive_command :: "store_access \<Rightarrow> ctx \<Rightarrow> str list \<Rightarrow> cli_opts \<Rightarrow> ('l, nat) prog" where
  "archive_command A c pos opts =
     (let sub = nth_arg 0 pos; K = sc_crypto A in
      if sub \<notin> set [''push'', ''list'', ''restore''] then throw (UsageError ''usage: ovhost archive'')
      else
        bind (config_of A (exec c) opts) (\<lambda>cfg.
        archive_exits
          (if sub = ''list'' then bind (archive_list K c (sc_client A cfg) cfg) (\<lambda>_. ret 0)
           else if sub = ''restore''
           then (if nth_arg 1 pos = [] \<or> nth_arg 2 pos = [] then throw (UsageError ''archive restore needs <stamp> <path> --out <dir>'')
                 else bind (archive_restore K c (sc_client A cfg) cfg (nth_arg 1 pos) (nth_arg 2 pos) (flag_of opts ''out'')) (\<lambda>_. ret 0))
           else bind (archive_push K c (sc_client A cfg) cfg (drop 1 pos) (case flag_of opts ''note'' of Some n \<Rightarrow> n | None \<Rightarrow> [])) (\<lambda>r.
                ret (if ar_failures r = [] then 0 else 2)))))"

section \<open>Restore drills\<close>

definition drill_command :: "(str \<Rightarrow> str) \<Rightarrow> (json \<Rightarrow> str) \<Rightarrow> ctx \<Rightarrow> str list \<Rightarrow> cli_opts \<Rightarrow> ('l, nat) prog" where
  "drill_command digest row c pos opts =
     bind (need_service pos) (\<lambda>sid.
     bind (drill digest row c sid (flag_of opts ''backup'') (flag_on opts ''keep'')) (\<lambda>(code, l). ret code))"

section \<open>Validation and vhosts\<close>

definition validate_command :: "ctx \<Rightarrow> package option \<Rightarrow> str list \<Rightarrow> cli_opts \<Rightarrow> ('l, nat) prog" where
  "validate_command c pkg pos opts =
     bind (need_service pos) (\<lambda>sid. bind (validate c pkg sid (flag_of opts ''manifest'')) (\<lambda>r. ret (if va_ok r then 0 else 2)))"

definition env_names_command :: "ctx \<Rightarrow> str list \<Rightarrow> cli_opts \<Rightarrow> ('l, nat) prog" where
  "env_names_command c pos opts =
     bind (need_service pos) (\<lambda>sid.
     if flag_on opts ''set''
     then bind (env_set c sid) (\<lambda>r. ret (if es_file r = None \<or> es_found r then 0 else 1))
     else bind (env_names c sid) (\<lambda>r. ret (if fst r then 0 else 1)))"

definition nginx_command :: "ctx \<Rightarrow> package option \<Rightarrow> str list \<Rightarrow> cli_opts \<Rightarrow> ('l, nat) prog" where
  "nginx_command c pkg pos opts =
     (if nth_arg 0 pos \<noteq> ''render'' then throw (UsageError ''usage: ovhost nginx render'')
      else if nth_arg 1 pos = [] then throw (UsageError ''nginx render needs a <service>'')
      else
        bind (find_service (inv c) (nth_arg 1 pos)) (\<lambda>svc.
        bind (render c pkg svc (flag_of opts ''variant'') (flag_of opts ''manifest'')) (\<lambda>v.
        if \<not> flag_on opts ''install'' then ret 0 else bind (nginx_install c [v] []) (\<lambda>_. ret 0))))"

section \<open>The program\<close>

text \<open>
  The environment of a run: its variables as the commands read them, the time, the directories of the deploy
  controller, its announcer, the SHA-256 digest, the text a restore drill is documented with, and the installed contracts package.
\<close>

record cli_env =
  ce_parse :: url_parser
  ce_contracts :: contracts
  ce_digest :: "str \<Rightarrow> str"
  ce_events_env :: "str option"
  ce_prometheus :: "str option"
  ce_who :: "str option"
  ce_now :: str
  ce_dns :: dns_access
  ce_announcer :: "announcer option"
  ce_state_dir :: str
  ce_textfile_dir :: str
  ce_store :: store_access
  ce_row :: "json \<Rightarrow> str"
  ce_package :: "package option"

definition page_of :: "cli_env \<Rightarrow> cli_opts \<Rightarrow> page_access" where
  "page_of E opts = \<lparr>pa_env_file = flag_of opts ''events-env'', pa_env = ce_events_env E\<rparr>"

text \<open>The commands that need the inventory. The ones left out of this development are the argument \<open>others\<close>.\<close>

definition dispatch_command ::
  "(str \<Rightarrow> (engine_state, nat) prog) \<Rightarrow> cli_env \<Rightarrow> ctx \<Rightarrow> str \<Rightarrow> str list \<Rightarrow> cli_opts \<Rightarrow> (engine_state, nat) prog" where
  "dispatch_command others E c cmd pos opts =
     (if cmd = ''deploy'' then operation_command (ce_parse E) (ce_contracts E) c True pos opts (ce_events_env E)
      else if cmd = ''rollback'' then operation_command (ce_parse E) (ce_contracts E) c False pos opts (ce_events_env E)
      else if cmd = ''announce'' then announce_command (ce_parse E) (ce_contracts E) c pos opts (ce_events_env E)
      else if cmd = ''logs'' then logs_command c pos opts
      else if cmd = ''reconcile'' then reconcile_command c (ce_announcer E) pos opts (ce_state_dir E) (ce_textfile_dir E)
      else if cmd = ''backup''
      then (if flag_on opts ''all'' then backup_all_command (ce_store E) c pos opts else backup_command c pos opts)
      else if cmd = ''backup-metrics'' then backup_metrics_command c opts
      else if cmd = ''offsite'' then offsite_command (ce_store E) c pos opts
      else if cmd = ''restore-download'' then restore_command (ce_store E) c pos opts
      else if cmd = ''drill'' then drill_command (ce_digest E) (ce_row E) c pos opts
      else if cmd = ''validate'' then validate_command c (ce_package E) pos opts
      else if cmd = ''env-names'' then env_names_command c pos opts
      else if cmd = ''nginx'' then nginx_command c (ce_package E) pos opts
      else if cmd = ''archive'' then archive_command (ce_store E) c pos opts
      else if cmd = ''incident'' then page_exits (incident_command (ce_parse E) c (page_of E opts) pos (cli_incident_opts opts))
      else if cmd = ''maintenance''
      then page_exits (maintenance_command (ce_parse E) c (page_of E opts) pos (cli_incident_opts opts) (flag_on opts ''freeze'') (ce_who E) (ce_now E))
      else if cmd = ''freeze'' then freeze_command c pos opts (ce_who E) (ce_now E)
      else if cmd = ''unfreeze'' then unfreeze_command c pos
      else if cmd = ''alerts'' then alerts_command (ce_parse E) (ce_digest E) c pos opts (ce_events_env E) (ce_prometheus E)
      else if cmd = ''nodes'' then nodes_command (ce_parse E) (ce_contracts E) c pos opts (ce_events_env E)
      else others cmd)"

text \<open>
  The inventory is read first; only the commands that can run without one go on when it is not there, and
  not when the file was named. \<open>loaded\<close> is the context with the names that are DNS-only.
\<close>

definition works_without :: "str \<Rightarrow> str list \<Rightarrow> bool" where
  "works_without cmd pos \<longleftrightarrow> cmd = ''dns'' \<or> cmd = ''self-update'' \<or> cmd = ''capabilities'' \<and> nth_arg 0 pos = []"

definition dns_access_of :: "cli_env \<Rightarrow> cli_opts \<Rightarrow> dns_access" where
  "dns_access_of E opts = (ce_dns E)\<lparr>da_token_file := flag_of opts ''token-file''\<rparr>"

definition run_command ::
  "(str \<Rightarrow> (engine_state, nat) prog) \<Rightarrow> cli_env \<Rightarrow> host \<Rightarrow> exc + ctx \<times> str list \<Rightarrow> str \<Rightarrow> str list \<Rightarrow> cli_opts \<Rightarrow> (engine_state, nat) prog" where
  "run_command others E H loaded cmd pos opts =
     (case loaded of
        Inr (c, dnsOnly) \<Rightarrow>
          (if cmd = ''dns'' then dns_command H dnsOnly (dns_access_of E opts) pos opts
           else dispatch_command others E c cmd pos opts)
      | Inl (InventoryError m) \<Rightarrow>
          (if \<not> works_without cmd pos \<or> flag_on opts ''inventory'' then throw (InventoryError m)
           else if cmd = ''dns'' then dns_command H default_dns_only (dns_access_of E opts) pos opts
           else others cmd)
      | Inl e \<Rightarrow> throw e)"

definition main ::
  "(str \<Rightarrow> (engine_state, nat) prog) \<Rightarrow> cli_env \<Rightarrow> host \<Rightarrow> exc + ctx \<times> str list \<Rightarrow> str list \<Rightarrow> (engine_state, nat) prog" where
  "main others E H loaded argv =
     (case parse_args argv [] [] of
        Inl e \<Rightarrow> ret 1
      | Inr (args, opts) \<Rightarrow>
          (let cmd = nth_arg 0 args in
           if flag_on opts ''version'' \<or> cmd = ''version'' then ret 0
           else if cmd = [] \<or> flag_on opts ''help'' then ret (if cmd \<noteq> [] \<or> flag_on opts ''help'' then 0 else 1)
           else exits (run_command others E H loaded cmd (drop 1 args) opts)))"

section \<open>Exit codes of the commands\<close>

lemma announce_caught:
  assumes "\<And>e. raises E (g e)"
  shows "raises E (try_catch (announce parse K c sid ao) g)"
  using raises_announce [of parse K c sid ao] assms
  unfolding raises_def try_catch_def bad_argument_def
  by (fastforce split: prod.splits sum.splits if_splits)

lemma raises_announce_each: "raises E (announce_each parse K c ao as)"
  by (induction as) (auto simp: Let_def intro!: raises_rules announce_caught)

lemma raises_announce_outcome: "raises E (announce_outcome parse K c ao sid head out)"
  unfolding announce_outcome_def by (auto intro!: raises_rules announce_caught raises_announce_each split: option.split)

lemma calm_then:
  assumes "raises (\<lambda>_. False) m"
  shows "fst (andthen (if b then bind m (\<lambda>_. ret ()) else ret ()) (ret y) s) = Inr y"
proof -
  have "m s \<noteq> (Inl e, s')" for e s' using assms unfolding raises_def by blast
  then obtain x s' where "m s = (Inr x, s')" by (metis prod.exhaust sum.exhaust)
  then show ?thesis by (simp add: andthen_def bind_def ret_def)
qed

lemma ends_with:
  assumes "\<And>x out t. fst (k x out t) = Inr (f out)"
  shows "fst (bind m (\<lambda>x. bind (g x) (k x)) s) = (case fst (bind m g s) of Inl e \<Rightarrow> Inl e | Inr out \<Rightarrow> Inr (f out))"
  using assms by (simp add: bind_def split: prod.split sum.split)

text \<open>
  Property C11. Announcing never changes how an operation ends: the exit code of \<^verbatim>\<open>ovhost deploy\<close> and of
  \<^verbatim>\<open>ovhost rollback\<close>, or the error that leaves them, is that of the operation itself, whether the release is
  announced or not, whether Events accepts it, and also when announcing fails or its arguments are wrong.
\<close>

theorem announcing_keeps_exit:
  "fst (operation_command parse K c deploys pos opts env s) =
   (case fst (bind (need_service pos) (\<lambda>sid. (if deploys then deploy else rollback) c sid (operation_opts deploys opts)) s) of
      Inl e \<Rightarrow> Inl e
    | Inr out \<Rightarrow> Inr (exit_of out))"
proof -
  have end': "fst ((bind getl (\<lambda>l. andthen (if P l then bind (announce_outcome parse K c ao sid (os_to l) out) (\<lambda>_. ret ()) else ret ())
      (ret y))) t) = Inr y" for P ao sid out and y :: nat and t :: "engine_state state"
  proof -
    have "bind getl f t = f (snd t) t" for f :: "engine_state \<Rightarrow> (engine_state, nat) prog"
      by (cases t) (simp add: bind_def getl_def)
    then show ?thesis by (simp add: calm_then [OF raises_announce_outcome])
  qed
  show ?thesis
    unfolding operation_command_def by (rule ends_with) (rule end')
qed

text \<open>
  No error of a command leaves the program: whatever the arguments, the inventory and the command,
  \<^verbatim>\<open>ovhost\<close> ends with an exit code, that of the error when there was one (running out of the model's fuel is not
  an error of the program).
\<close>

theorem main_exits:
  "case main others E H loaded argv s of
     (Inl e, s') \<Rightarrow> e = OutOfFuel
   | (Inr n, s') \<Rightarrow> True"
  by (simp add: main_def exits_def try_catch_def ret_def Let_def split: sum.split prod.split)

end
