(* ===== verification/Executor.thy ===== *)
theory Executor
  imports Checked Host Json_Text
begin

text \<open>
  The system executor, \<^verbatim>\<open>lib/executor.js\<close>: what stands between a request of ovhost and the machine. Which command line a
  request becomes, how the files of \<^verbatim>\<open>/etc\<close> and the output of \<^verbatim>\<open>ss\<close> and \<^verbatim>\<open>psql --csv\<close> are read,
  and which errors are answers. Child processes and system calls are the argument \<open>os\<close>.
\<close>

section \<open>Users\<close>

record passwd_entry =
  pe_name :: str
  pe_uid :: "rat option"
  pe_gid :: "rat option"
  pe_home :: "str option"

definition field_at :: "nat \<Rightarrow> str list \<Rightarrow> str option" where
  "field_at i fs = (if i < length fs then Some (fs ! i) else None)"

definition number_at :: "nat \<Rightarrow> str list \<Rightarrow> rat option" where
  "number_at i fs = (case field_at i fs of Some s \<Rightarrow> str_number s | None \<Rightarrow> None)"

text \<open>The text of \<^verbatim>\<open>/etc/passwd\<close>, \<open>None\<close> where it cannot be read.\<close>

definition passwd_fields :: "str option \<Rightarrow> str list list" where
  "passwd_fields text = (case text of Some t \<Rightarrow> map (split_on (CHR '':'')) (lines t) | None \<Rightarrow> [])"

definition passwd_of :: "str option \<Rightarrow> str \<Rightarrow> passwd_entry option" where
  "passwd_of text user =
     map_option (\<lambda>f. \<lparr>pe_name = hd f, pe_uid = number_at 2 f, pe_gid = number_at 3 f, pe_home = field_at 5 f\<rparr>)
       (List.find (\<lambda>f. hd f = user) (passwd_fields text))"

definition user_by_id :: "str option \<Rightarrow> int \<Rightarrow> str" where
  "user_by_id text uid =
     (case List.find (\<lambda>f. number_at 2 f = Some (of_int uid)) (passwd_fields text) of
        Some f \<Rightarrow> hd f
      | None \<Rightarrow> int_str uid)"

section \<open>Command lines\<close>

record os =
  os_is_root :: bool
  os_me :: str
  os_path :: "str option"
  os_setpriv :: "str option"
  os_runuser :: str
  os_passwd :: "str option"

definition default_path :: str where
  "default_path = ''/usr/local/bin:/usr/bin:/bin''"

text \<open>The number of a template literal.\<close>

definition number_str :: "rat option \<Rightarrow> str" where
  "number_str v = (case v of Some q \<Rightarrow> js_string (JNum q) | None \<Rightarrow> ''NaN'')"

definition or_undefined :: "str option \<Rightarrow> str" where
  "or_undefined v = (case v of Some s \<Rightarrow> s | None \<Rightarrow> ''undefined'')"

definition as_user_argv :: "str \<Rightarrow> passwd_entry option \<Rightarrow> str \<Rightarrow> str list \<Rightarrow> str \<Rightarrow> str option \<Rightarrow> str \<Rightarrow> str \<times> str list" where
  "as_user_argv user pw cmd args path setpriv runuser =
     (let home = (case pw of Some p \<Rightarrow> or_undefined (pe_home p) | None \<Rightarrow> ''/home/'' @ user) in
      case (setpriv, pw) of
        (Some sp, Some p) \<Rightarrow>
          (sp, [''--reuid='' @ number_str (pe_uid p), ''--regid='' @ number_str (pe_gid p), ''--init-groups'', ''--'', ''env'',
                ''HOME='' @ home, ''USER='' @ user, ''LOGNAME='' @ user, ''PATH='' @ path, cmd] @ args)
      | _ \<Rightarrow> (runuser, [''-u'', user, ''--'', ''env'', ''HOME='' @ home, ''PATH='' @ path, cmd] @ args))"

definition nonblank :: "str option \<Rightarrow> str option" where
  "nonblank v = (case v of Some s \<Rightarrow> (if s = [] then None else Some s) | None \<Rightarrow> None)"

definition wrap :: "os \<Rightarrow> str \<Rightarrow> str list \<Rightarrow> run_opts \<Rightarrow> str \<times> str list" where
  "wrap os cmd args opts =
     (let other = (case nonblank (o_as opts) of Some u \<Rightarrow> (if u = os_me os then None else Some u) | None \<Rightarrow> None) in
      case other of
        Some u \<Rightarrow>
          (if os_is_root os
           then as_user_argv u (passwd_of (os_passwd os) u) cmd args
                  (case nonblank (os_path os) of Some p \<Rightarrow> p | None \<Rightarrow> default_path) (os_setpriv os) (os_runuser os)
           else (''sudo'', [''-n'', ''-H'', ''-u'', u, ''--'', cmd] @ args))
      | None \<Rightarrow> (if o_priv opts \<and> \<not> os_is_root os then (''sudo'', [''-n'', ''--'', cmd] @ args) else (cmd, args)))"

text \<open>How a child process ends: never started, or closed with its code (none when a signal killed it).\<close>

datatype child = Not_Started str | Closed "int option" str str

definition child_result :: "child \<Rightarrow> run_result" where
  "child_result ch =
     (case ch of
        Not_Started m \<Rightarrow> \<lparr>rc = 127, rout = [], rerr = m\<rparr>
      | Closed c out err \<Rightarrow> \<lparr>rc = (case c of Some n \<Rightarrow> n | None \<Rightarrow> 124), rout = out, rerr = err\<rparr>)"

text \<open>The directory a child starts in: another user's process must not start in root's.\<close>

definition child_cwd :: "run_opts \<Rightarrow> str option" where
  "child_cwd opts =
     (case nonblank (o_cwd opts) of Some d \<Rightarrow> Some d | None \<Rightarrow> (if nonblank (o_as opts) = None then None else Some ''/''))"

definition run :: "os \<Rightarrow> (str \<Rightarrow> str list \<Rightarrow> str option \<Rightarrow> str option \<Rightarrow> child) \<Rightarrow> str \<Rightarrow> str list \<Rightarrow> run_opts \<Rightarrow> run_result" where
  "run os spawn cmd args opts = (case wrap os cmd args opts of (c, a) \<Rightarrow> child_result (spawn c a (child_cwd opts) (o_input opts)))"

section \<open>Files\<close>

datatype sys_error = Sys_Error str str

text \<open>
  A read either answers the text, \<^verbatim>\<open>null\<close> for a file that is not there, or throws; root's
  files are read with \<^verbatim>\<open>cat\<close>.
\<close>

definition read_file :: "os \<Rightarrow> (str \<Rightarrow> str list \<Rightarrow> str option \<Rightarrow> str option \<Rightarrow> child) \<Rightarrow> (str \<Rightarrow> sys_error + str) \<Rightarrow> str \<Rightarrow> bool \<Rightarrow> str + str option" where
  "read_file os spawn sys_read p privileged =
     (case sys_read p of
        Inr t \<Rightarrow> Inr (Some t)
      | Inl (Sys_Error code m) \<Rightarrow>
          (if code = ''ENOENT'' then Inr None
           else if code = ''EACCES'' \<and> privileged \<and> \<not> os_is_root os then
             (let r = run os spawn ''cat'' [''--'', p] as_root in Inr (if rc r = 0 then Some (rout r) else None))
           else Inl m))"

text \<open>What a privileged write, link or removal runs when ovhost is not root; \<open>None\<close> is a system call.\<close>

definition write_command :: "os \<Rightarrow> bool \<Rightarrow> str \<Rightarrow> str \<Rightarrow> (str \<times> str list) option" where
  "write_command os privileged mode p =
     (if \<not> privileged \<or> os_is_root os then None else Some (''install'', [''-m'', mode, ''/dev/stdin'', p]))"

definition remove_command :: "os \<Rightarrow> bool \<Rightarrow> str \<Rightarrow> (str \<times> str list) option" where
  "remove_command os privileged p = (if \<not> privileged \<or> os_is_root os then None else Some (''rm'', [''-f'', ''--'', p]))"

definition link_command :: "os \<Rightarrow> bool \<Rightarrow> str \<Rightarrow> str \<Rightarrow> (str \<times> str list) option" where
  "link_command os privileged target p = (if \<not> privileged \<or> os_is_root os then None else Some (''ln'', [''-s'', target, p]))"

text \<open>A write or a link throws when its command fails; the code of a removal is not looked at.\<close>

definition helper_outcome :: "str \<Rightarrow> run_result \<Rightarrow> str + unit" where
  "helper_outcome what r = (if rc r = 0 then Inr () else Inl (what @ '': '' @ trim (rerr r)))"

section \<open>CSV\<close>

fun csv_scan :: "str list list \<Rightarrow> str list \<Rightarrow> str \<Rightarrow> bool \<Rightarrow> str \<Rightarrow> str list list" where
  "csv_scan rows row fld quoted [] = (if fld \<noteq> [] \<or> row \<noteq> [] then rows @ [row @ [fld]] else rows)"
| "csv_scan rows row fld True (c # s) =
     (if c = CHR 0x22 then
        (case s of
           d # s' \<Rightarrow> (if d = CHR 0x22 then csv_scan rows row (fld @ [CHR 0x22]) True s' else csv_scan rows row fld False s)
         | [] \<Rightarrow> csv_scan rows row fld False [])
      else csv_scan rows row (fld @ [c]) True s)"
| "csv_scan rows row fld False (c # s) =
     (if c = CHR 0x22 then csv_scan rows row fld True s
      else if c = CHR '','' then csv_scan rows (row @ [fld]) [] False s
      else if c = CHR 0x0A then csv_scan (rows @ [row @ [fld]]) [] [] False s
      else if c \<noteq> CHR 0x0D then csv_scan rows row (fld @ [c]) False s
      else csv_scan rows row fld False s)"

definition csv_row :: "str list \<Rightarrow> str list \<Rightarrow> (str \<times> str option) list" where
  "csv_row header r = foldl (\<lambda>acc (i, h). obj_put h (field_at i r) acc) [] (zip [0..<length header] header)"

definition parse_csv :: "str \<Rightarrow> (str \<times> str option) list list" where
  "parse_csv text =
     (case csv_scan [] [] [] False text of
        [] \<Rightarrow> []
      | header # rows \<Rightarrow> map (csv_row header) (filter (\<lambda>r. 1 < length r \<or> r \<noteq> [[]]) rows))"

definition psql_args :: "str \<Rightarrow> str \<Rightarrow> str list" where
  "psql_args db sql = [''-X'', ''-q'', ''-v'', ''ON_ERROR_STOP=1'', ''--csv'', ''-d'', db, ''-c'', sql]"

definition psql :: "os \<Rightarrow> (str \<Rightarrow> str list \<Rightarrow> str option \<Rightarrow> str option \<Rightarrow> child) \<Rightarrow> str \<Rightarrow> str \<Rightarrow> str + (str \<times> str option) list list" where
  "psql os spawn db sql =
     (let r = run os spawn ''psql'' (psql_args db sql) (as_owner ''postgres'') in
      if rc r \<noteq> 0
      then Inl (''psql '' @ db @ '' failed: '' @ take 300 (trim (if rerr r = [] then rout r else rerr r)))
      else Inr (parse_csv (rout r)))"

section \<open>Listeners, memory, signals\<close>

text \<open>\<^verbatim>\<open>/"([^"]+)",pid=(\d+)/g\<close>: the scan goes on after each match.\<close>

definition pid_after :: "str \<Rightarrow> (str \<times> int \<times> str) option" where
  "pid_after s =
     (case s of
        q # r \<Rightarrow>
          (let name = takeWhile (\<lambda>c. c \<noteq> CHR 0x22) r; tail = drop (length name + 1) r; p = CHR '','' # ''pid='';
               ds = takeWhile is_digit (drop (length p) tail) in
           if q = CHR 0x22 \<and> name \<noteq> [] \<and> length name < length r \<and> starts_with tail p \<and> ds \<noteq> []
           then Some (name, int (digits_val ds), drop (length p + length ds) tail) else None)
      | [] \<Rightarrow> None)"

lemma pid_after_shorter: "pid_after s = Some (n, p, r) \<Longrightarrow> length r < length s"
  by (cases s) (auto simp: pid_after_def Let_def split: if_splits)

function find_pids :: "str \<Rightarrow> (str \<times> int) list" where
  "find_pids s =
     (case pid_after s of
        Some (n, p, r) \<Rightarrow> (n, p) # find_pids r
      | None \<Rightarrow> (case s of [] \<Rightarrow> [] | _ # t \<Rightarrow> find_pids t))"
  by pat_completeness auto

termination
  by (relation "measure length") (auto dest: pid_after_shorter)

declare find_pids.simps [simp del]

text \<open>\<^verbatim>\<open>/users:\(\((.*)\)\)/\<close>: from the first \<^verbatim>\<open>users:((\<close> that a \<^verbatim>\<open>))\<close> follows, up to the last one.\<close>

fun upto_last :: "str \<Rightarrow> str option" where
  "upto_last [] = None"
| "upto_last (c # s) =
     (case upto_last s of
        Some t \<Rightarrow> Some (c # t)
      | None \<Rightarrow> (if starts_with (c # s) ''))'' then Some [] else None))"

fun users_part :: "str \<Rightarrow> str option" where
  "users_part [] = None"
| "users_part (c # s) =
     (if starts_with (c # s) ''users:(('' \<and> upto_last (drop 8 (c # s)) \<noteq> None then upto_last (drop 8 (c # s)) else users_part s)"

definition listeners_of_line :: "str \<Rightarrow> listener list" where
  "listeners_of_line line =
     (let ps = (case users_part line of Some u \<Rightarrow> find_pids u | None \<Rightarrow> []) in
      if ps = [] then [\<lparr>l_pid = None, l_process = None\<rparr>]
      else map (\<lambda>(n, p). \<lparr>l_pid = Some p, l_process = Some n\<rparr>) ps)"

definition listeners :: "os \<Rightarrow> (str \<Rightarrow> str list \<Rightarrow> str option \<Rightarrow> str option \<Rightarrow> child) \<Rightarrow> int \<Rightarrow> str + listener list" where
  "listeners os spawn port =
     (let r = run os spawn ''ss'' [''-H'', ''-ltnp'', ''sport = :'' @ int_str port] as_root in
      if rc r \<noteq> 0 then Inl (''ss failed: '' @ trim (rerr r))
      else Inr (concat (map listeners_of_line (filter (\<lambda>l. trim l \<noteq> []) (lines (rout r))))))"

text \<open>\<^verbatim>\<open>/^MemAvailable:\s+(\d+)\s+kB$/m\<close>, for the blanks that do not end a line.\<close>

definition mem_of_line :: "str \<Rightarrow> nat option" where
  "mem_of_line l =
     (let p = ''MemAvailable:''; r = drop (length p) l; r1 = dropWhile is_ws r; ds = takeWhile is_digit r1;
          r2 = dropWhile is_digit r1; r3 = dropWhile is_ws r2 in
      if starts_with l p \<and> r1 \<noteq> r \<and> ds \<noteq> [] \<and> r3 \<noteq> r2 \<and> r3 = ''kB'' then Some (digits_val ds) else None)"

fun first_some :: "('a \<Rightarrow> 'b option) \<Rightarrow> 'a list \<Rightarrow> 'b option" where
  "first_some f [] = None"
| "first_some f (x # xs) = (case f x of Some y \<Rightarrow> Some y | None \<Rightarrow> first_some f xs)"

definition mem_available :: "str \<Rightarrow> int option" where
  "mem_available meminfo = map_option (\<lambda>n. int n * 1024) (first_some mem_of_line (lines meminfo))"

text \<open>A signal to one process: never to a group, to every process or to init.\<close>

definition kill :: "(int \<Rightarrow> str \<Rightarrow> sys_error + unit) \<Rightarrow> rat \<Rightarrow> str \<Rightarrow> str + bool" where
  "kill sys_kill pid sig =
     (if \<not> is_whole pid \<or> pid \<le> 1 then Inl ''refusing to signal pid''
      else case sys_kill \<lfloor>pid\<rfloor> sig of
          Inr _ \<Rightarrow> Inr True
        | Inl (Sys_Error code m) \<Rightarrow> (if code = ''ESRCH'' then Inr False else Inl m))"

definition pid_alive :: "(int \<Rightarrow> str \<Rightarrow> sys_error + unit) \<Rightarrow> int \<Rightarrow> bool" where
  "pid_alive sys_kill pid = (case sys_kill pid ''0'' of Inr _ \<Rightarrow> True | Inl (Sys_Error code m) \<Rightarrow> code = ''EPERM'')"

section \<open>HTTP\<close>

text \<open>The body of an answer, from its chunks: a chunk is added while the text is below the limit.\<close>

definition body_of :: "nat \<Rightarrow> str list \<Rightarrow> str" where
  "body_of limit chunks = foldl (\<lambda>t c. if length t < limit then t @ c else t) [] chunks"

datatype net_answer = Answered int "str list" | Net_Error str

text \<open>\<^verbatim>\<open>request\<close>: the protocol of the URL, \<open>None\<close> where it does not parse.\<close>

definition request :: "(str \<Rightarrow> str option) \<Rightarrow> (str \<Rightarrow> net_answer) \<Rightarrow> str \<Rightarrow> http_result" where
  "request protocol send url =
     (case protocol url of
        None \<Rightarrow> \<lparr>hs_status = 0, hs_body = [], hs_error = Some ''bad URL''\<rparr>
      | Some pr \<Rightarrow>
          (if pr \<noteq> ''https:'' \<and> pr \<noteq> ''http:'' then \<lparr>hs_status = 0, hs_body = [], hs_error = Some ''unsupported protocol''\<rparr>
           else case send url of
               Answered code chunks \<Rightarrow> \<lparr>hs_status = code, hs_body = body_of (1024 * 1024) chunks, hs_error = None\<rparr>
             | Net_Error m \<Rightarrow> \<lparr>hs_status = 0, hs_body = [], hs_error = Some m\<rparr>))"

section \<open>What runs\<close>

text \<open>
  The command line of a request keeps its command and arguments as they are, at the end, so nothing in
  them is read by a shell; before them stands nothing, \<^verbatim>\<open>sudo\<close>, or, for another user, a change to that user: ovhost
  never runs another user's command as itself, and asks \<^verbatim>\<open>sudo\<close> for root only where the request is privileged.
\<close>

theorem command_untouched:
  "\<exists>before. (case wrap os cmd args opts of (c, a) \<Rightarrow> c # a) = before @ cmd # args \<and>
     (case nonblank (o_as opts) of
        Some u \<Rightarrow>
          (if u = os_me os then before = (if o_priv opts \<and> \<not> os_is_root os then [''sudo'', ''-n'', ''--''] else [])
           else if \<not> os_is_root os then before = [''sudo'', ''-n'', ''-H'', ''-u'', u, ''--'']
           else case (os_setpriv os, passwd_of (os_passwd os) u) of
               (Some sp, Some p) \<Rightarrow> take 2 before = [sp, ''--reuid='' @ number_str (pe_uid p)] \<and> pe_name p = u
             | _ \<Rightarrow> take 3 before = [os_runuser os, ''-u'', u])
      | None \<Rightarrow> before = (if o_priv opts \<and> \<not> os_is_root os then [''sudo'', ''-n'', ''--''] else []))"
proof -
  have named: "pe_name p = u" if "passwd_of t u = Some p" for t u p
    using that by (auto simp: passwd_of_def find_Some_iff)
  have split: "c # a @ [cmd] @ args = (c # a) @ cmd # args" for c and a :: "str list" by simp
  show ?thesis
    by (cases "nonblank (o_as opts)"; cases "os_setpriv os"; cases "passwd_of (os_passwd os) (the (nonblank (o_as opts)))")
       (auto simp: wrap_def as_user_argv_def Let_def named)
qed

section \<open>CSV round trip\<close>

definition csv_special :: "str \<Rightarrow> bool" where
  "csv_special f \<longleftrightarrow> list_ex (\<lambda>c. c = CHR 0x22 \<or> c = CHR '','' \<or> c = CHR 0x0A \<or> c = CHR 0x0D) f"

text \<open>A cell is quoted where it has to be, and where the printer likes to (\<open>quotes\<close>).\<close>

definition csv_cell :: "(str \<Rightarrow> bool) \<Rightarrow> str \<Rightarrow> str" where
  "csv_cell quotes f =
     (if quotes f \<or> csv_special f then CHR 0x22 # concat (map (\<lambda>c. if c = CHR 0x22 then [c, c] else [c]) f) @ [CHR 0x22] else f)"

definition csv_line :: "(str \<Rightarrow> bool) \<Rightarrow> str list \<Rightarrow> str" where
  "csv_line quotes fs = join '','' (map (csv_cell quotes) fs) @ [CHR 0x0A]"

definition csv_text :: "(str \<Rightarrow> bool) \<Rightarrow> str list list \<Rightarrow> str" where
  "csv_text quotes rows = concat (map (csv_line quotes) rows)"

lemma scan_quoted:
  "d \<noteq> CHR 0x22 \<Longrightarrow>
   csv_scan rows row fld True (concat (map (\<lambda>c. if c = CHR 0x22 then [c, c] else [c]) f) @ CHR 0x22 # d # r)
     = csv_scan rows row (fld @ f) False (d # r)"
  by (induction f arbitrary: fld) (simp_all del: csv_scan.simps(3))

lemma scan_plain: "\<not> csv_special f \<Longrightarrow> csv_scan rows row fld False (f @ r) = csv_scan rows row (fld @ f) False r"
  by (induction f arbitrary: fld) (auto simp: csv_special_def)

lemma scan_cell: "d \<noteq> CHR 0x22 \<Longrightarrow> csv_scan rows row [] False (csv_cell quotes f @ d # r) = csv_scan rows row f False (d # r)"
  using scan_quoted [of d rows row "[]" f r] scan_plain [of f rows row "[]" "d # r"] by (auto simp: csv_cell_def)

lemma scan_line: "fs \<noteq> [] \<Longrightarrow> csv_scan rows row [] False (csv_line quotes fs @ r) = csv_scan (rows @ [row @ fs]) [] [] False r"
proof (induction fs arbitrary: row)
  case (Cons f fs)
  then show ?case by (cases fs) (simp_all add: csv_line_def scan_cell)
qed simp

lemma scan_text: "list_all (\<lambda>r. r \<noteq> []) rs \<Longrightarrow> csv_scan rows [] [] False (csv_text quotes rs) = rows @ rs"
proof (induction rs arbitrary: rows)
  case (Cons r rs)
  then show ?case by (simp add: csv_text_def scan_line)
qed (simp add: csv_text_def)

lemma csv_row_zip:
  assumes "distinct header" "length r = length header"
  shows "csv_row header r = zip header (map Some r)"
proof -
  have "foldl (\<lambda>acc (i, h). obj_put h (field_at i r) acc) (zip (take k header) (map Some (take k r))) (drop k (zip [0..<length header] header))
      = zip header (map Some r)" if "k \<le> length header" for k
    using that
  proof (induction "length header - k" arbitrary: k)
    case 0
    then show ?case using assms by simp
  next
    case (Suc n)
    then have k: "k < length header" "k < length r" using assms by simp_all
    have "drop k (zip [0..<length header] header) = (k, header ! k) # drop (Suc k) (zip [0..<length header] header)"
      using k by (subst Cons_nth_drop_Suc [symmetric]) simp_all
    moreover have "header ! k \<notin> set (take k header)"
      using assms(1) k by (auto simp: in_set_conv_nth distinct_conv_nth)
    then have "obj_put (header ! k) (field_at k r) (zip (take k header) (map Some (take k r)))
        = zip (take (Suc k) header) (map Some (take (Suc k) r))"
      using k by (subst obj_put_fresh) (auto simp: field_at_def take_Suc_conv_app_nth dest: set_zip_leftD)
    ultimately show ?case using Suc.hyps(1) [of "Suc k"] Suc.hyps(2) k by simp
  qed
  from this [of 0] show ?thesis by (simp add: csv_row_def)
qed

text \<open>
  Property C31. The rows that PostgreSQL prints as CSV are the rows the executor reads: every cell comes back under its
  column, with its commas, quotes and line ends, however the printer chooses to quote; of one column, a row
  that is only an empty cell is the exception, since it prints as an empty line.
\<close>

theorem csv_round_trip:
  assumes "distinct header" "header \<noteq> []" "list_all (\<lambda>r. length r = length header \<and> r \<noteq> [[]]) rows"
  shows "parse_csv (csv_text quotes (header # rows)) = map (\<lambda>r. zip header (map Some r)) rows"
proof -
  have "csv_scan [] [] [] False (csv_text quotes (header # rows)) = header # rows"
  proof -
    have "list_all (\<lambda>r. r \<noteq> []) (header # rows)" using assms(2,3) by (auto simp: list_all_iff)
    then show ?thesis using scan_text [of "header # rows" "[]" quotes] by simp
  qed
  moreover have "filter (\<lambda>r. 1 < length r \<or> r \<noteq> [[]]) rows = rows" using assms(3) by (auto simp: list_all_iff filter_id_conv)
  moreover have "map (csv_row header) rows = map (\<lambda>r. zip header (map Some r)) rows"
    using assms csv_row_zip by (auto simp: list_all_iff)
  ultimately show ?thesis by (simp add: parse_csv_def)
qed

theorem csv_round_trip_witness:
  "parse_csv (csv_text (\<lambda>f. f = []) [[''name'', ''note''], [''a,b'', [CHR 0x22]], [[], ''x'' @ [CHR 0x0A] @ ''y'']]) =
     [[(''name'', Some ''a,b''), (''note'', Some [CHR 0x22])], [(''name'', Some []), (''note'', Some (''x'' @ [CHR 0x0A] @ ''y''))]]"
  using csv_round_trip [of "[''name'', ''note'']" "[[''a,b'', [CHR 0x22]], [[], ''x'' @ [CHR 0x0A] @ ''y'']]" "\<lambda>f. f = []"] by simp

end
