(* ===== verification/Offsite_Facts.thy ===== *)
theory Offsite_Facts
  imports Archive Counting
begin

text \<open>
  What leaves the host and what comes back: an upload sends exactly its bytes, old runs go only after a
  complete push, a file comes back as it was, and a download writes only into its own new directory.
\<close>

section \<open>Uploads\<close>

text \<open>The numbered parts sent, in order.\<close>

definition sent_part :: "event \<Rightarrow> (nat \<times> str) list" where
  "sent_part e = (case e of EStore (Upload_Part b k uid i body) \<Rightarrow> [(i, body)] | _ \<Rightarrow> [])"

definition sent_parts :: "event list \<Rightarrow> (nat \<times> str) list" where
  "sent_parts es = concat (map sent_part (rev es))"

lemma sent_parts_simps [simp]:
  "sent_parts [] = []" "sent_parts (es @ fs) = sent_parts fs @ sent_parts es"
  "sent_parts (e # es) = sent_parts es @ sent_part e"
  by (simp_all add: sent_parts_def)

text \<open>A stretch of parts: numbered on from \<open>i\<close>, each of the part size, making up \<open>t\<close>.\<close>

definition stretch :: "nat \<Rightarrow> nat \<Rightarrow> str \<Rightarrow> (nat \<times> str) list \<Rightarrow> bool" where
  "stretch n i t ps \<longleftrightarrow> map fst ps = [i + 1..<i + 1 + length ps] \<and> concat (map snd ps) = t \<and> set (map (\<lambda>p. length (snd p)) ps) \<subseteq> {n}"

lemma stretch_empty [simp]: "stretch n i [] []"
  by (simp add: stretch_def)

lemma stretch_append:
  assumes "stretch n i t ps" "stretch n (i + length ps) u qs"
  shows "stretch n i (t @ u) (ps @ qs)"
proof -
  have "[i + 1..<i + 1 + length (ps @ qs)] = [i + 1..<i + 1 + length ps] @ [i + length ps + 1..<i + length ps + 1 + length qs]"
    using upt_add_eq_append [of "i + 1" "i + 1 + length ps" "length qs"] by (simp only: length_append add_ac le_add1)
  with assms show ?thesis unfolding stretch_def by (simp del: upt_Suc)
qed

lemma send_part_run:
  assumes "send_part S b k uid parts body (tr, l) = (Inr ps, tr', l')"
  shows "tr' = EStore (Upload_Part b k uid (length parts + 1) body) # tr \<and> length ps = length parts + 1"
  using assms by (auto simp: send_part_def send_def bind_def ask_or_def ret_def split: sum.splits)

lemma send_parts_run:
  assumes "send_parts S b k uid n parts pend (tr, l) = (Inr (ps, rest), tr', l')"
  shows "\<exists>es t. tr' = es @ tr \<and> pend = t @ rest \<and> length rest < n \<and> stretch n (length parts) t (sent_parts es)
     \<and> length ps = length parts + length (sent_parts es)"
  using assms
proof (induction S b k uid n parts pend arbitrary: tr l rule: send_parts.induct)
  case (1 S b k uid n parts pend)
  show ?case
  proof (cases "n = 0 \<or> length pend < n")
    case True
    then show ?thesis using "1.prems" by (auto simp: send_parts.simps [of S b k uid n parts pend] throw_def ret_def)
  next
    case False
    then obtain ps1 tr1 l1 where one: "send_part S b k uid parts (take n pend) (tr, l) = (Inr ps1, tr1, l1)"
      and rest: "send_parts S b k uid n ps1 (drop n pend) (tr1, l1) = (Inr (ps, rest), tr', l')"
      using "1.prems" by (auto simp: send_parts.simps [of S b k uid n parts pend] bind_def split: prod.splits sum.splits)
    note head = send_part_run [OF one]
    from "1.IH" [OF _ _ rest] False have "\<exists>es t. tr' = es @ tr1 \<and> drop n pend = t @ rest \<and> length rest < n \<and>
        stretch n (length ps1) t (sent_parts es) \<and> length ps = length ps1 + length (sent_parts es)" by simp
    then obtain es t where
      es: "tr' = es @ tr1" "drop n pend = t @ rest" "length rest < n" "stretch n (length ps1) t (sent_parts es)"
        "length ps = length ps1 + length (sent_parts es)" by blast
    have first: "stretch n (length parts) (take n pend) [(length parts + 1, take n pend)]"
      using False by (simp add: stretch_def)
    show ?thesis
    proof (intro exI conjI)
      show "tr' = (es @ [EStore (Upload_Part b k uid (length parts + 1) (take n pend))]) @ tr" using es(1) head by simp
      show "pend = (take n pend @ t) @ rest" using es(2) by (metis append.assoc append_take_drop_id)
      show "stretch n (length parts) (take n pend @ t) (sent_parts (es @ [EStore (Upload_Part b k uid (length parts + 1) (take n pend))]))"
        using stretch_append [OF first] es(4) head by (simp add: sent_part_def)
    qed (use es head in \<open>auto simp: sent_part_def\<close>)
  qed
qed

lemma feed_parts_run:
  assumes "feed_parts S b k uid n parts pend xs (tr, l) = (Inr (ps, rest), tr', l')"
  shows "\<exists>es t. tr' = es @ tr \<and> pend @ concat xs = t @ rest \<and> length rest < n \<and> stretch n (length parts) t (sent_parts es)
     \<and> length ps = length parts + length (sent_parts es)"
  using assms
proof (induction xs arbitrary: parts pend tr l)
  case Nil
  then show ?case using send_parts_run [of S b k uid n parts pend tr l ps rest tr' l'] by simp
next
  case (Cons x xs)
  then obtain ps1 rest1 tr1 l1 where one: "send_parts S b k uid n parts pend (tr, l) = (Inr (ps1, rest1), tr1, l1)"
    and rest: "feed_parts S b k uid n ps1 (rest1 @ x) xs (tr1, l1) = (Inr (ps, rest), tr', l')"
    by (auto simp: bind_def split: prod.splits sum.splits)
  from send_parts_run [OF one] obtain es1 t1 where
    es1: "tr1 = es1 @ tr" "pend = t1 @ rest1" "stretch n (length parts) t1 (sent_parts es1)" "length ps1 = length parts + length (sent_parts es1)"
    by blast
  from Cons.IH [OF rest] obtain es t where
    es: "tr' = es @ tr1" "(rest1 @ x) @ concat xs = t @ rest" "length rest < n" "stretch n (length ps1) t (sent_parts es)"
      "length ps = length ps1 + length (sent_parts es)" by blast
  show ?case
  proof (intro exI conjI)
    show "tr' = (es @ es1) @ tr" using es(1) es1(1) by simp
    show "pend @ concat (x # xs) = (t1 @ t) @ rest" using es(2) es1(2) by simp
    show "stretch n (length parts) (t1 @ t) (sent_parts (es @ es1))" using stretch_append [OF es1(3)] es(4) es1(4) by simp
  qed (use es es1 in auto)
qed

lemma gather_concat: "gather n pend xs = (p, rest) \<Longrightarrow> p @ concat rest = pend @ concat xs \<and> (length p < n \<longrightarrow> rest = [])"
  by (induction n pend xs rule: gather.induct) (auto simp: Let_def split: if_splits)

text \<open>What the store has when an upload is complete.\<close>

definition uploaded_whole :: "nat \<Rightarrow> str \<Rightarrow> nat \<Rightarrow> event list \<Rightarrow> bool" where
  "uploaded_whole n t p es \<longleftrightarrow>
     concat (map snd (sent_parts es)) = t \<and> map fst (sent_parts es) = [1..<p + 1] \<and>
     list_all (\<lambda>x. length (snd x) = n) (butlast (sent_parts es)) \<and>
     (case es of EStore (Complete_Upload b k uid ps) # _ \<Rightarrow> length ps = p | _ \<Rightarrow> False)"

lemma stretch_last:
  assumes "stretch n 0 t ps" "length r < n"
  shows "concat (map snd (ps @ (if r = [] then [] else [(length ps + 1, r)]))) = t @ r \<and>
     map fst (ps @ (if r = [] then [] else [(length ps + 1, r)])) = [1..<length (ps @ (if r = [] then [] else [(length ps + 1, r)])) + 1] \<and>
     list_all (\<lambda>x. length (snd x) = n) (butlast (ps @ (if r = [] then [] else [(length ps + 1, r)])))"
  using assms by (auto simp: stretch_def list_all_iff dest: in_set_butlastD)

lemma send_run: "send S cmd (tr, l) = (Inr r, tr', l') \<Longrightarrow> tr' = EStore cmd # tr"
  by (auto simp: send_def ask_or_def split: sum.splits)

lemma handler_throws:
  assumes "try_catch m (\<lambda>e. andthen (h e) (throw e)) s = (Inr x, s')"
  shows "m s = (Inr x, s')"
  using assms by (auto simp: try_catch_def andthen_def bind_def throw_def split: prod.splits sum.splits if_splits)

lemma multipart_run:
  assumes "multipart S b k n uid pend xs None (tr, l) = (Inr p, tr', l')"
  shows "\<exists>es. tr' = es @ tr \<and> uploaded_whole n (pend @ concat xs) p es"
proof -
  from handler_throws [OF assms [unfolded multipart_def]]
  obtain ps rest tr1 l1 ps' tr2 l2 where feed: "feed_parts S b k uid n [] pend xs (tr, l) = (Inr (ps, rest), tr1, l1)"
    and last: "(if rest = [] then ret ps else send_part S b k uid ps rest) (tr1, l1) = (Inr ps', tr2, l2)"
    and fin: "bind (send S (Complete_Upload b k uid ps')) (\<lambda>_. ret (length ps')) (tr2, l2) = (Inr p, tr', l')"
    by (auto simp: bind_def andthen_def fault_of_def ret_def split: prod.splits sum.splits)
  from feed_parts_run [OF feed] obtain es t where
    es: "tr1 = es @ tr" "pend @ concat xs = t @ rest" "length rest < n" "stretch n 0 t (sent_parts es)" "length ps = length (sent_parts es)"
    by auto
  let ?tail = "if rest = [] then [] else [(length ps + 1, rest)]"
  from last send_part_run [of S b k uid ps rest tr1 l1 ps' tr2 l2] obtain es2 where
    es2: "tr2 = es2 @ tr1" "sent_parts es2 = ?tail" "length ps' = length (sent_parts es) + length (?tail)"
  proof (cases "rest = []")
    case False
    then show thesis using that [of "[EStore (Upload_Part b k uid (length ps + 1) rest)]"] last es(5)
        send_part_run [of S b k uid ps rest tr1 l1 ps' tr2 l2] by (simp add: sent_part_def)
  qed (use that [of "[]"] last es(5) in \<open>auto simp: ret_def\<close>)
  from fin have "tr' = EStore (Complete_Upload b k uid ps') # tr2" and p: "p = length ps'"
    by (auto simp: bind_def ret_def dest: send_run split: prod.splits sum.splits)
  then have "tr' = (EStore (Complete_Upload b k uid ps') # es2 @ es) @ tr" using es2(1) es(1) by simp
  moreover have "uploaded_whole n (pend @ concat xs) p (EStore (Complete_Upload b k uid ps') # es2 @ es)"
    using stretch_last [OF es(4,3)] es2(2,3) es(2,5) p
    by (cases "rest = []") (simp_all add: uploaded_whole_def sent_part_def del: upt_Suc)
  ultimately show ?thesis by blast
qed

text \<open>
  An upload that ends has sent exactly its bytes, whatever the chunks they came in: as one object when they
  are fewer than a part, else as parts numbered from 1 without a gap, all but the last of exactly the part
  size, completed with all of them.
\<close>

theorem upload_sends_whole:
  "case upload S b k type n xs None (tr, l) of
     (Inl e, s') \<Rightarrow> True
   | (Inr p, tr', l') \<Rightarrow>
       if length (concat xs) < n then tr' = EStore (Put_Object b k (concat xs) type) # tr
       else \<exists>es. tr' = es @ tr \<and> uploaded_whole n (concat xs) p es"
proof -
  obtain pend rest where g: "gather n [] xs = (pend, rest)" by (cases "gather n [] xs")
  note whole = gather_concat [OF g]
  show ?thesis
  proof (cases "length pend < n")
    case True
    with whole show ?thesis
      by (auto simp: upload_def g fault_of_def andthen_def bind_def ret_def dest!: send_run split: prod.split sum.split)
  next
    case False
    have long: "n \<le> length (concat xs)" using False whole by (metis append_Nil length_append trans_le_add1 not_le)
    have "\<exists>es. tr' = es @ tr \<and> uploaded_whole n (concat xs) p es" if run: "upload S b k type n xs None (tr, l) = (Inr p, tr', l')" for p tr' l'
    proof -
      from run False obtain uid tr1 l1 where one: "tr1 = EStore (Create_Upload b k type) # tr"
        and multi: "multipart S b k n uid pend rest None (tr1, l1) = (Inr p, tr', l')"
        by (auto simp: upload_def g bind_def throw_def dest!: send_run split: prod.splits sum.splits option.splits if_splits)
      from multipart_run [OF multi] whole obtain es where es: "tr' = es @ tr1" "uploaded_whole n (concat xs) p es" by auto
      then have "tr' = (es @ [EStore (Create_Upload b k type)]) @ tr" using one by simp
      moreover have "uploaded_whole n (concat xs) p (es @ [EStore (Create_Upload b k type)])"
        using es(2) by (cases es) (auto simp: uploaded_whole_def sent_part_def)
      ultimately show ?thesis by blast
    qed
    with long show ?thesis by (simp split: prod.split sum.split)
  qed
qed

section \<open>There and back\<close>

lemma octets_chars [simp]: "octets (chars bs) = bs"
proof -
  have "unat x < 2 ^ LENGTH(8)" for x :: "8 word" by (rule unsigned_less)
  then have "unat x mod 256 = unat x" for x :: "8 word" by simp
  then show ?thesis by (simp add: octets_def chars_def byte_def comp_def)
qed

lemma chars_octets [simp]: "chars (octets s) = s"
  by (simp add: octets_def chars_def byte_def comp_def unat_of_nat)

lemma octets_concat: "concat (map octets xs) = octets (concat xs)"
  by (induction xs) (auto simp: octets_def)

lemma pipe_up_run:
  assumes "pipe_up K H S po master b key src (tr, l) = (Inr (plain, c, parts), s')"
  shows "encrypt_stream K master (po_chunk_size po) (hex_bytes (h_random H (EReadStream src # tr))) (map octets (fst (h_read_stream H tr src))) = Inr c
    \<and> plain = octets (concat (fst (h_read_stream H tr src)))"
  using assms
  by (auto simp: pipe_up_def bind_def exec_read_stream_def random_hex_def ask_def throw_def ret_def octets_concat split: prod.splits sum.splits)


definition stream_host :: host where
  "stream_host = (sample_host [] 200)\<lparr>h_random := \<lambda>tr. replicate 64 (CHR ''0''), h_read_stream := \<lambda>tr p. ([''ab'', ''c''], None)\<rparr>"

definition stored_file :: bytes where
  "stored_file = projr (encrypt_stream plain_crypto (zeros 32) 2 (hex_bytes (replicate 64 (CHR ''0''))) (map octets [''ab'', ''c'']))"

lemma stored_encrypted:
  "encrypt_stream plain_crypto (zeros 32) 2 (hex_bytes (replicate 64 (CHR ''0''))) (map octets [''ab'', ''c'']) = Inr stored_file"
  by (simp add: stored_file_def encrypt_stream_def zeros_def max_chunk_def)

definition keeping_store :: store where
  "keeping_store = (\<lambda>t q. Inr \<lparr>sa_etag = None, sa_upload_id = None, sa_contents = [], sa_truncated = False, sa_next = None,
     sa_body = Some ([chars stored_file], None)\<rparr>)"

lemma stored_upload:
  "\<exists>parts s'. pipe_up plain_crypto stream_host keeping_store \<lparr>po_part_size = length (chars stored_file) + 1, po_chunk_size = 2\<rparr> (zeros 32) ''b'' ''k'' ''/src''
     ([], ()) = (Inr (octets ''abc'', stored_file, parts), s')"
proof -
  have "concat (map octets [''ab'', ''c'']) = octets ''abc''" by (simp add: octets_def)
  moreover have "octets ''ab'' @ octets ''c'' = octets ''abc''" by (simp add: octets_def)
  ultimately show ?thesis using stored_encrypted
    by (simp add: pipe_up_def upload_def bind_def andthen_def exec_read_stream_def random_hex_def ask_def ask_or_def ret_def send_def fault_of_def
        stream_host_def keeping_store_def del: replicate.simps)
qed


section \<open>Old runs\<close>

definition deletion :: "event \<Rightarrow> str list" where
  "deletion e = (case e of EStore (Delete_Object b k) \<Rightarrow> [k] | _ \<Rightarrow> [])"

definition deletions :: "event list \<Rightarrow> str list" where
  "deletions es = concat (map deletion es)"

abbreviation keeps_objects :: "event \<Rightarrow> bool" where
  "keeps_objects e \<equiv> deletion e = []"

lemma deletions_simps [simp]:
  "deletions [] = []" "deletions (es @ fs) = deletions es @ deletions fs" "deletions (e # es) = deletion e @ deletions es"
  by (simp_all add: deletions_def)

lemma no_deletions: "\<forall>e \<in> set es. keeps_objects e \<Longrightarrow> deletions es = []"
  by (induction es) auto

text \<open>An expired run of a host, as seen from one moment of a push.\<close>

definition expired_key :: "host \<Rightarrow> offsite_cfg \<Rightarrow> str \<Rightarrow> str \<Rightarrow> str \<Rightarrow> bool" where
  "expired_key H cfg host current k \<longleftrightarrow>
     (\<exists>tr run t. starts_with k (run_prefix cfg host run) \<and> run \<noteq> current \<and> parse_stamp run = Some t
        \<and> t < h_now H tr - oc_retention_days cfg * 86400000)"

text \<open>Everything but pruning leaves the stored objects alone.\<close>

lemma emits_send [emits_rules]: "A (EStore cmd) \<Longrightarrow> emits A (send S cmd)"
  unfolding send_def by (rule emits_ask_or)

lemma keeps_objects_simps [simp]:
  "keeps_objects ENow" "keeps_objects (ERead p)" "keeps_objects (EStat p)" "keeps_objects EHostname" "keeps_objects ERandom"
  "keeps_objects (EReadStream p)" "keeps_objects (EStore (Put_Object b k x t))" "keeps_objects (EStore (Create_Upload b k t))"
  "keeps_objects (EStore (Upload_Part b k u n x))" "keeps_objects (EStore (Complete_Upload b k u ps))"
  "keeps_objects (EStore (Abort_Upload b k u))" "keeps_objects (EStore (List_Objects b k tok mx))"
  by (simp_all add: deletion_def)

lemma keeps_send_parts: "emits keeps_objects (send_parts S b k uid n parts pend)"
proof (induction S b k uid n parts pend rule: send_parts.induct)
  case (1 S b k uid n parts pend)
  then show ?case
    unfolding send_parts.simps [of S b k uid n parts pend] send_part_def by (intro emits_rules) simp_all
qed

lemma keeps_feed_parts: "emits keeps_objects (feed_parts S b k uid n parts pend xs)"
  by (induction xs arbitrary: parts pend) (auto intro!: emits_rules keeps_send_parts)

lemma keeps_upload: "emits keeps_objects (upload S b k type n xs fault)"
  unfolding upload_def multipart_def fault_of_def send_part_def
  by (auto intro!: emits_rules keeps_feed_parts split: prod.split option.split)

lemma keeps_load_key: "emits keeps_objects (load_key H cfg)"
  unfolding load_key_def check_private_file_def by (auto intro!: emits_rules split: sum.split)

lemma keeps_host_name: "emits keeps_objects (host_name H i v)"
  unfolding host_name_def by (auto intro!: emits_rules)

lemma keeps_push_file: "emits keeps_objects (push_file K H S po cfg master base sid f dest)"
  unfolding push_file_def pipe_up_def Let_def by (auto intro!: emits_rules keeps_upload split: sum.split prod.split)

lemma keeps_push_files: "emits keeps_objects (push_files K H S po cfg master base summary)"
  unfolding push_files_def push_service_def push_entry_def prop_at_def iterate_def type_fault_def
  by (auto intro!: emits_rules keeps_push_file split: option.split json.split)

lemma keeps_upload_manifest: "emits keeps_objects (upload_manifest K S cfg master key kvs)"
  unfolding upload_manifest_def Let_def by (auto intro!: emits_rules keeps_upload)

lemma emits_list_pages:
  "(\<And>t. A (EStore (List_Objects b prefix t None))) \<Longrightarrow> emits A (list_pages S fuel b prefix token out)"
  by (induction fuel arbitrary: token out) (auto simp: Let_def intro!: emits_rules)

lemma emits_list_runs:
  "(\<And>t. A (EStore (List_Objects (oc_bucket cfg) (host_prefix cfg host) t None))) \<Longrightarrow> emits A (list_runs S fuel cfg host)"
  unfolding list_runs_def list_objects_def by (auto intro!: emits_rules emits_list_pages)

lemma delete_runs_emits:
  assumes "now = h_now H tr"
  shows "emits (\<lambda>e. list_all (expired_key H cfg host current) (deletion e))
     (delete_runs S cfg host (expired_runs (now - oc_retention_days cfg * 86400000) current rs))"
  unfolding delete_runs_def
  by (auto intro!: emits_rules simp: deletion_def expired_key_def expired_runs_def protected_runs_def assms split: option.splits)
    blast

lemma delete_runs_raises: "raises (\<lambda>e. e \<noteq> OutOfFuel) (delete_runs S cfg host old)"
  unfolding delete_runs_def send_def by (auto intro!: raises_rules raises_ask_or)

text \<open>What \<open>prune_remote\<close> deletes, and that it does not run out of fuel once it deletes.\<close>

lemma prune_remote_run:
  assumes "prune_remote H S fuel cfg host current (tr, l) = (x, tr', l')"
  shows "\<exists>es. tr' = es @ tr \<and> list_all (expired_key H cfg host current) (deletions es) \<and> (x = Inl OutOfFuel \<longrightarrow> deletions es = [])"
proof -
  let ?now = "h_now H tr"
  obtain y tr1 l1 where list: "list_runs S fuel cfg host (ENow # tr, l) = (y, tr1, l1)"
    by (cases "list_runs S fuel cfg host (ENow # tr, l)") auto
  obtain es1 where es1: "tr1 = es1 @ ENow # tr" "\<forall>e \<in> set es1. keeps_objects e"
    by (rule emitsD [OF emits_list_runs [where A = keeps_objects] list]) simp_all
  note quiet = no_deletions [OF es1(2)]
  show ?thesis
  proof (cases y)
    case (Inl e)
    with assms list es1 quiet show ?thesis
      by (auto simp: prune_remote_def bind_def exec_now_def ask_def deletion_def intro!: exI [of _ "es1 @ [ENow]"])
  next
    case (Inr rs)
    let ?old = "expired_runs (?now - oc_retention_days cfg * 86400000) current rs"
    obtain z tr2 l2 where del: "delete_runs S cfg host ?old (tr1, l1) = (z, tr2, l2)"
      by (cases "delete_runs S cfg host ?old (tr1, l1)") auto
    obtain es2 where es2: "tr2 = es2 @ tr1" "\<forall>e \<in> set es2. list_all (expired_key H cfg host current) (deletion e)"
      by (rule emitsD [OF delete_runs_emits del]) simp_all
    then have old: "list_all (expired_key H cfg host current) (deletions es2)" by (induction es2 arbitrary: tr2) auto
    have "z \<noteq> Inl OutOfFuel" using raisesD [OF delete_runs_raises] del by blast
    then have "x \<noteq> Inl OutOfFuel" "tr' = tr2"
      using assms list Inr del
      by (auto simp: prune_remote_def bind_def andthen_def exec_now_def ask_def Let_def ret_def split: sum.splits)
    with es1 es2 old quiet show ?thesis by (auto simp: deletion_def intro!: exI [of _ "es2 @ es1 @ [ENow]"])
  qed
qed

text \<open>What the deletions of a push rest on, and that the steps before them leave it alone.\<close>

definition prunes_safely :: "host \<Rightarrow> offsite_cfg \<Rightarrow> str \<Rightarrow> exc + push_result \<Rightarrow> str list \<Rightarrow> bool" where
  "prunes_safely H cfg current x ks \<longleftrightarrow>
     (case x of
        Inl e \<Rightarrow> ks = []
      | Inr r \<Rightarrow>
          list_all (expired_key H cfg (js_string (pr_host r)) current) ks \<and>
          (ks = [] \<or> oc_prune cfg \<and> pr_manifest r \<noteq> None \<and> set (pr_failures r) \<subseteq> range (file_failure ''(prune)'')))"

definition safe_push :: "host \<Rightarrow> offsite_cfg \<Rightarrow> str \<Rightarrow> ('l, push_result) prog \<Rightarrow> bool" where
  "safe_push H cfg current m \<longleftrightarrow>
     (\<forall>tr l. \<exists>es. fst (snd (m (tr, l))) = es @ tr \<and> prunes_safely H cfg current (fst (m (tr, l))) (deletions es))"

lemma safe_push_bind:
  assumes m: "emits keeps_objects m" and k: "\<And>x. safe_push H cfg current (k x)"
  shows "safe_push H cfg current (bind m k)"
  unfolding safe_push_def
proof (intro allI)
  fix tr l
  obtain y tr1 l1 where run: "m (tr, l) = (y, tr1, l1)" by (cases "m (tr, l)") auto
  obtain es1 where es1: "tr1 = es1 @ tr" "\<forall>e \<in> set es1. keeps_objects e" by (rule emitsD [OF m run])
  show "\<exists>es. fst (snd (bind m k (tr, l))) = es @ tr \<and> prunes_safely H cfg current (fst (bind m k (tr, l))) (deletions es)"
  proof (cases y)
    case (Inl e)
    with run es1 no_deletions [OF es1(2)] show ?thesis by (auto simp: bind_def prunes_safely_def)
  next
    case (Inr x)
    obtain es2 where "fst (snd (k x (tr1, l1))) = es2 @ tr1" "prunes_safely H cfg current (fst (k x (tr1, l1))) (deletions es2)"
      using k [of x] unfolding safe_push_def by blast
    with run Inr es1 no_deletions [OF es1(2)] show ?thesis by (auto simp: bind_def intro!: exI [of _ "es2 @ es1"])
  qed
qed

lemma safe_push_ret: "safe_push H cfg current (ret r)"
  by (auto simp: safe_push_def ret_def prunes_safely_def)

lemma safe_push_prune:
  assumes "pr_failures r = [] \<Longrightarrow> pr_manifest r \<noteq> None"
  shows "safe_push H cfg current (push_prune H S fuel cfg current r)"
proof (cases "pr_failures r = [] \<and> oc_prune cfg")
  case False
  then show ?thesis by (auto simp: push_prune_def intro: safe_push_ret)
next
  case True
  show ?thesis
    unfolding safe_push_def
  proof (intro allI)
    fix tr l
    obtain x tr' l' where run: "prune_remote H S fuel cfg (js_string (pr_host r)) current (tr, l) = (x, tr', l')"
      by (cases "prune_remote H S fuel cfg (js_string (pr_host r)) current (tr, l)") auto
    from prune_remote_run [OF run] obtain es where es: "tr' = es @ tr"
      "list_all (expired_key H cfg (js_string (pr_host r)) current) (deletions es)" "x = Inl OutOfFuel \<longrightarrow> deletions es = []" by blast
    with run True assms show "\<exists>es. fst (snd (push_prune H S fuel cfg current r (tr, l))) = es @ tr \<and>
        prunes_safely H cfg current (fst (push_prune H S fuel cfg current r (tr, l))) (deletions es)"
      by (auto simp: push_prune_def try_catch_def bind_def ret_def prunes_safely_def split: sum.split)
  qed
qed


section \<open>Where a download writes\<close>

text \<open>The files a request creates or removes.\<close>

definition touched :: "event \<Rightarrow> str list" where
  "touched e = (case e of EWriteStream p x \<Rightarrow> [p] | ERemove p \<Rightarrow> [p] | EWrite p x \<Rightarrow> [p] | EAppend p x \<Rightarrow> [p] | _ \<Rightarrow> [])"

definition own_place :: "inventory \<Rightarrow> str \<Rightarrow> str \<Rightarrow> bool" where
  "own_place i dir p \<longleftrightarrow>
     path_is_absolute dir \<and> \<not> unsafe_out i dir \<and> (\<exists>name. is_file_name name \<and> p = path_join [dir, name])"

definition keeps_to_one :: "inventory \<Rightarrow> ('l, 'a) prog \<Rightarrow> bool" where
  "keeps_to_one i m \<longleftrightarrow>
     (\<forall>tr l. \<exists>es dir. fst (snd (m (tr, l))) = es @ tr \<and> list_all (own_place i dir) (concat (map touched es)))"

abbreviation touches_nothing :: "event \<Rightarrow> bool" where
  "touches_nothing e \<equiv> touched e = []"

lemma touches_nothing_simps [simp]:
  "touches_nothing ENow" "touches_nothing (ERead p)" "touches_nothing (EStat p)" "touches_nothing EHostname" "touches_nothing (EReaddir p)"
  "touches_nothing (EStore q)" "touches_nothing (EMkdir p ow)" "touches_nothing (ERun cmd as opts)"
  "touched (EWriteStream p x) = [p]" "touched (ERemove p) = [p]"
  by (simp_all add: touched_def)

lemma untouched: "\<forall>e \<in> set es. touches_nothing e \<Longrightarrow> concat (map touched es) = []"
  by (induction es) auto

lemma keeps_to_one_bind:
  assumes m: "emits touches_nothing m" and k: "\<And>x. keeps_to_one i (k x)"
  shows "keeps_to_one i (bind m k)"
  unfolding keeps_to_one_def
proof (intro allI)
  fix tr l
  obtain y tr1 l1 where run: "m (tr, l) = (y, tr1, l1)" by (cases "m (tr, l)") auto
  obtain es1 where es1: "tr1 = es1 @ tr" "\<forall>e \<in> set es1. touches_nothing e" by (rule emitsD [OF m run])
  show "\<exists>es dir. fst (snd (bind m k (tr, l))) = es @ tr \<and> list_all (own_place i dir) (concat (map touched es))"
  proof (cases y)
    case (Inl e)
    have "list_all (own_place i dir) (concat (map touched es1))" for dir by (subst untouched [OF es1(2)]) simp
    with run es1 Inl show ?thesis by (auto simp: bind_def)
  next
    case (Inr x)
    obtain es2 dir where "fst (snd (k x (tr1, l1))) = es2 @ tr1" "list_all (own_place i dir) (concat (map touched es2))"
      using k [of x] unfolding keeps_to_one_def by blast
    moreover have "list_all (own_place i dir) (concat (map touched es1))" by (subst untouched [OF es1(2)]) simp
    ultimately have "list_all (own_place i dir) (concat (map touched (es2 @ es1)))"
      "fst (snd (bind m k (tr, l))) = (es2 @ es1) @ tr" using run Inr es1 by (simp_all add: bind_def)
    then show ?thesis by blast
  qed
qed

lemma keeps_to_one_throw: "keeps_to_one i (throw e)"
  by (auto simp: keeps_to_one_def throw_def)

lemma keeps_to_one_emits:
  assumes "emits (\<lambda>e. list_all (own_place i dir) (touched e)) m"
  shows "keeps_to_one i m"
  unfolding keeps_to_one_def
proof (intro allI)
  fix tr l
  obtain y tr1 l1 where run: "m (tr, l) = (y, tr1, l1)" by (cases "m (tr, l)") auto
  obtain es where es: "tr1 = es @ tr" "\<forall>e \<in> set es. list_all (own_place i dir) (touched e)" by (rule emitsD [OF assms run])
  from es(2) have "list_all (own_place i dir) (concat (map touched es))" by (induction es) auto
  with run es(1) show "\<exists>es dir. fst (snd (m (tr, l))) = es @ tr \<and> list_all (own_place i dir) (concat (map touched es))" by auto
qed

lemma fresh_emits: "emits touches_nothing (fresh_directory H i dir)"
  unfolding fresh_directory_def by (auto intro!: emits_rules split: list.split option.split)

lemma keeps_to_one_fresh:
  assumes "path_is_absolute dir \<Longrightarrow> \<not> unsafe_out i dir \<Longrightarrow> keeps_to_one i m"
  shows "keeps_to_one i (andthen (fresh_directory H i dir) m)"
proof (cases "path_is_absolute dir \<and> \<not> unsafe_out i dir")
  case True
  with assms show ?thesis unfolding andthen_def by (intro keeps_to_one_bind fresh_emits) simp
next
  case False
  then show ?thesis by (auto simp: fresh_directory_def andthen_def bind_def throw_def keeps_to_one_def)
qed

lemma touches_pipe_down:
  assumes "own_place i dir dest"
  shows "emits (\<lambda>e. list_all (own_place i dir) (touched e)) (pipe_down K H S master b key dest)"
  unfolding pipe_down_def get_object_def Let_def
  by (auto intro!: emits_rules simp: assms split: option.split sum.split prod.split)

lemma touches_download:
  assumes "path_is_absolute dir" "\<not> unsafe_out i dir"
  shows "emits (\<lambda>e. list_all (own_place i dir) (touched e)) (download_file K H S cfg master base dir f)"
proof -
  have own: "own_place i dir (path_join [dir, name])" if "is_file_name name" for name
    using that assms by (auto simp: own_place_def)
  then show ?thesis
    unfolding download_file_def prop_at_def type_fault_def verify_dump_def Let_def
    by (auto intro!: emits_rules touches_pipe_down simp: or_else_def split: option.split json.split prod.split)
qed

lemma touches_steps:
  "emits touches_nothing (load_key H cfg)" "emits touches_nothing (host_name H i v)" "emits touches_nothing (choose_run S fuel cfg host sid arg)"
  "emits touches_nothing (read_manifest K S cfg master h run)" "emits touches_nothing (manifest_files sid m)"
  unfolding load_key_def check_private_file_def host_name_def choose_run_def read_manifest_def get_object_def fault_of_def manifest_files_def
    prop_at_def type_fault_def elements_of_def iterate_def
  by (auto intro!: emits_rules emits_list_runs split: sum.split option.split json.split list.split prod.split)

text \<open>
  A download puts its files in one directory: whatever the manifest, the store and the machine answer, every file
  \<^verbatim>\<open>restore-download\<close> creates or removes is one name of letters, digits, \<^verbatim>\<open>. _ -\<close> in a single absolute directory, and that directory overlaps no
  checkout, no object directory, not the backups and not the state directory. (The name \<^verbatim>\<open>..\<close> is among these.)
\<close>

theorem restore_keeps_to_one_directory:
  "\<exists>es dir. fst (snd (restore_download K c S cfg sid arg out fromHost (tr, l))) = es @ tr \<and>
     list_all (own_place (inv c) dir) (concat (map touched es))"
proof -
  have "keeps_to_one (inv c) (restore_download K c S cfg sid arg out fromHost)"
  proof (cases "is_file_name sid")
    case False
    then show ?thesis by (simp add: restore_download_def keeps_to_one_throw)
  next
    case True
    have rest: "emits (\<lambda>e. list_all (own_place (inv c) dir) (touched e))
        (andthen (whenever own (andthen (exec_mkdir H restore_root (Some ''root'')) (lock_down H restore_root ''0700'')))
         (andthen (exec_mkdir H dir (Some ''root'')) (andthen (lock_down H dir ''0700'')
          (bind (mapp (download_file K H S cfg master base dir) fs) (\<lambda>files. ret (g files))))))"
      if "path_is_absolute dir" "\<not> unsafe_out (inv c) dir" for own H dir master base fs and g :: "restored_file list \<Rightarrow> restored"
      using that unfolding lock_down_def root_run_def by (auto intro!: emits_rules touches_download)
    show ?thesis
      unfolding restore_download_def Let_def if_not_P [OF not_not [THEN iffD2, OF True]]
      by (intro keeps_to_one_bind touches_steps keeps_to_one_fresh) (rule keeps_to_one_emits, rule rest)
  qed
  from this [unfolded keeps_to_one_def, rule_format, of tr l] show ?thesis .
qed

end
