(* ===== verification/Drill_Safety.thy ===== *)
theory Drill_Safety
  imports Drill Upholds
begin

text \<open>
  What a restore drill leaves behind and whom it signals: every scratch database is dropped again whatever
  happened, only the instance's own process is killed, and a drill that passes has passed every check.
\<close>

section \<open>The parts that create and signal nothing\<close>

text \<open>A database that a request creates, and one it signals.\<close>

definition made_database :: "event \<Rightarrow> str option" where
  "made_database e =
     (case e of ERun cmd args opts \<Rightarrow> (if cmd = ''createdb'' then Some (last args) else None) | _ \<Rightarrow> None)"

definition killed_pid :: "event \<Rightarrow> int option" where
  "killed_pid e = (case e of EKill p sig \<Rightarrow> Some p | _ \<Rightarrow> None)"

definition harmless_request :: "event \<Rightarrow> bool" where
  "harmless_request e \<longleftrightarrow> made_database e = None \<and> killed_pid e = None"

lemma harmless_requests [simp]:
  "harmless_request (ERead p)" "harmless_request (EWrite p t)" "harmless_request (EAppend p t)" "harmless_request (ERemove p)"
  "harmless_request (EStat p)" "harmless_request (EStatfs p)" "harmless_request (EReaddir p)" "harmless_request (EMkdir p ow)"
  "harmless_request (EPidAlive pid)" "harmless_request (EHttp u)" "harmless_request (EPsql db q)" "harmless_request (EListeners port)"
  "harmless_request ENow" "harmless_request (ESleep ms)" "harmless_request ERandom" "harmless_request (EReadStream p)"
  "harmless_request (ECreate p t)" "harmless_request EUserName"
  "c \<noteq> ''createdb'' \<Longrightarrow> harmless_request (ERun c as opts)"
  by (simp_all add: harmless_request_def made_database_def killed_pid_def)

text \<open>
  An invariant that requests which create no database and signal no process keep, and so do a note of a failure
  and of what became of the drill's directory.
\<close>

locale quiet_invariant = stable_under harmless_request I for I :: "drill_state state \<Rightarrow> bool" +
  assumes quiet:
    "I (tr, l) \<Longrightarrow> I (tr, l\<lparr>dl_failure := v1\<rparr>)" "I (tr, l) \<Longrightarrow> I (tr, l\<lparr>dl_created := v2\<rparr>)"
    "I (tr, l) \<Longrightarrow> I (tr, l\<lparr>dl_kept := v3\<rparr>)"
begin

lemma upholds_abort [upholds_rules]: "upholds I (abort stage m)"
  unfolding abort_def note_failure_def by (auto intro!: upholds_rules quiet)

lemma upholds_engine [upholds_rules]:
  "c \<noteq> ''createdb'' \<Longrightarrow> upholds I (run_pg H c args)" "upholds I (show_unit H u)" "upholds I (psql_script H sql m)"
  unfolding run_pg_def show_unit_def systemctl_def psql_script_def
  by (auto intro!: upholds_rules)

lemma upholds_database [upholds_rules]:
  "upholds I (verify_dump H f rd)" "upholds I (drop_database H n)" "upholds I (pg_restore H f n ro)"
  "upholds I (scratch_leftovers H p)" "upholds I (create_role H n)" "upholds I (drop_role H n)" "upholds I (count_rows H n sql)"
  unfolding verify_dump_def drop_database_def pg_restore_def scratch_leftovers_def create_role_def drop_role_def count_rows_def Let_def
  by (auto intro!: upholds_rules)

lemma upholds_room [upholds_rules]:
  "upholds I (database_room c sid fs)" "upholds I (object_room c obs)" "upholds I (make_drill_dirs c svc d ns b)"
  unfolding database_room_def object_room_def make_drill_dirs_def make_missing_def drop_leftovers_def dump_bytes_def Let_def
  by (auto intro!: upholds_rules quiet)

lemma upholds_walk [upholds_rules]: "upholds I (walk_files H n dir)"
  by (induction n arbitrary: dir) (auto intro!: upholds_rules)

lemma upholds_archive [upholds_rules]: "upholds I (extract_archive H archive dest)"
  unfolding extract_archive_def by (auto intro!: upholds_rules)

lemma upholds_counts [upholds_rules]: "upholds I (restored_count H x)" "upholds I (production_count H svc y)"
  unfolding restored_count_def production_count_def type_fault_def by (auto intro!: upholds_rules upholds_getl)

lemma upholds_verdicts [upholds_rules]: "upholds I check_same" "upholds I check_accepted"
  unfolding check_same_def check_accepted_def by (auto intro!: upholds_rules upholds_getl)

lemma upholds_end [upholds_rules]: "upholds I (modl note_stuck)" "upholds I (remove_drill_dir c ns b)"
  unfolding remove_drill_dir_def note_stuck_def note_failure_def Let_def
  by (auto intro!: upholds_rules upholds_getl quiet split: option.split)

end

text \<open>An invariant that does not look at what is only reported either.\<close>

locale drill_invariant = quiet_invariant +
  assumes noted:
    "I (tr, l) \<Longrightarrow> I (tr, l\<lparr>dl_databases := v1\<rparr>)" "I (tr, l) \<Longrightarrow> I (tr, l\<lparr>dl_objects := v2\<rparr>)"
    "I (tr, l) \<Longrightarrow> I (tr, l\<lparr>dl_ready := v3\<rparr>)" "I (tr, l) \<Longrightarrow> I (tr, l\<lparr>dl_compare := v4\<rparr>)"
    "I (tr, l) \<Longrightarrow> I (tr, l\<lparr>dl_counts := v5\<rparr>)" "I (tr, l) \<Longrightarrow> I (tr, l\<lparr>dl_acceptance := v6\<rparr>)"
    "I (tr, l) \<Longrightarrow> I (tr, l\<lparr>dl_pid := None\<rparr>)" "I (tr, l) \<Longrightarrow> I (tr, l\<lparr>dl_stop := v7\<rparr>)"
begin

lemma upholds_notes [upholds_rules]: "upholds I (note_database f)" "upholds I (note_object g)"
  unfolding note_database_def note_object_def by (auto intro!: upholds_rules noted)

lemma upholds_objects [upholds_rules]: "upholds I (restore_object digest H fuel svc ns ob)"
  unfolding restore_object_def verify_object_blobs_def check_blob_def sha256_stream_def Let_def
  by (auto intro!: upholds_rules noted)

lemma upholds_await [upholds_rules]: "upholds I (await_ready H n d t0 lst)"
  unfolding pid_gone_def
  by (induction n arbitrary: lst) (auto intro!: upholds_rules upholds_getl noted simp: pid_gone_def)

lemma upholds_checks [upholds_rules]: "upholds I (check_copy_runs c svc d counts)"
  unfolding check_copy_runs_def check_ready_def compare_one_def compare_count_def accept_one_def Let_def
  by (auto intro!: upholds_rules noted)

end

section \<open>Whom a drill signals\<close>

text \<open>
  What a trace says of main processes: at some point since \<open>base\<close> the host answered that the unit's main process is
  \<open>p\<close> (none is an answer too). The newest request comes first.
\<close>

definition shown_pid :: "host \<Rightarrow> event list \<Rightarrow> str \<Rightarrow> int option" where
  "shown_pid H tr u = main_pid (unit_state_of u (rout (h_run H tr ''systemctl'' (systemctl_args ''show'' (Some u)) as_self)))"

fun was_shown :: "host \<Rightarrow> event list \<Rightarrow> str \<Rightarrow> int option \<Rightarrow> event list \<Rightarrow> bool" where
  "was_shown H base u p [] = False"
| "was_shown H base u p (e # es) \<longleftrightarrow>
     e = ERun ''systemctl'' (systemctl_args ''show'' (Some u)) as_self \<and> shown_pid H (es @ base) u = p \<or> was_shown H base u p es"

text \<open>A process of the drill's own unit, and none that a unit of the service was seen to run.\<close>

definition own_process :: "host \<Rightarrow> event list \<Rightarrow> str list \<Rightarrow> str \<Rightarrow> int \<Rightarrow> event list \<Rightarrow> bool" where
  "own_process H base us unit p es \<longleftrightarrow>
     was_shown H base unit (Some p) es \<and> list_all (\<lambda>u. \<exists>q. q \<noteq> Some p \<and> was_shown H base u q es) us"

fun kills_own :: "host \<Rightarrow> event list \<Rightarrow> str list \<Rightarrow> str \<Rightarrow> event list \<Rightarrow> bool" where
  "kills_own H base us unit [] = True"
| "kills_own H base us unit (e # es) \<longleftrightarrow>
     (case killed_pid e of Some p \<Rightarrow> own_process H base us unit p es | None \<Rightarrow> True) \<and> kills_own H base us unit es"

lemma shown_later: "was_shown H base u p es \<Longrightarrow> was_shown H base u p (fs @ es)"
  by (induction fs) auto

lemma own_process_later: "own_process H base us unit p es \<Longrightarrow> own_process H base us unit p (fs @ es)"
  unfolding own_process_def list_all_iff by (blast intro: shown_later)

text \<open>The units of the service that were asked for, each with an answer the run has noted.\<close>

definition noted_units :: "host \<Rightarrow> event list \<Rightarrow> str list \<Rightarrow> event list \<Rightarrow> int list \<Rightarrow> bool" where
  "noted_units H base us es ps \<longleftrightarrow>
     list_all (\<lambda>u. \<exists>q. was_shown H base u q es \<and> (case q of None \<Rightarrow> True | Some x \<Rightarrow> x \<in> set ps)) us"

lemma noted_units_later:
  "noted_units H base us es ps \<Longrightarrow> set ps \<subseteq> set qs \<Longrightarrow> noted_units H base us (fs @ es) qs"
  unfolding noted_units_def list_all_iff
proof
  fix u assume *: "\<forall>u \<in> set us. \<exists>q. was_shown H base u q es \<and> (case q of None \<Rightarrow> True | Some x \<Rightarrow> x \<in> set ps)"
    "set ps \<subseteq> set qs" "u \<in> set us"
  then obtain q where "was_shown H base u q es" "case q of None \<Rightarrow> True | Some x \<Rightarrow> x \<in> set ps" by blast
  with *(2) show "\<exists>q. was_shown H base u q (fs @ es) \<and> (case q of None \<Rightarrow> True | Some x \<Rightarrow> x \<in> set qs)"
    by (intro exI [of _ q]) (auto intro: shown_later split: option.splits)
qed

definition signals_ok :: "host \<Rightarrow> event list \<Rightarrow> str list \<Rightarrow> str \<Rightarrow> drill_state state \<Rightarrow> bool" where
  "signals_ok H base us unit s \<longleftrightarrow>
     (\<exists>es. fst s = es @ base \<and> kills_own H base us unit es \<and>
       (case dl_pid (snd s) of None \<Rightarrow> True | Some p \<Rightarrow> own_process H base us unit p es))"

lemma signals_ok_grow:
  assumes "killed_pid e = None" "signals_ok H base us unit (tr, l)"
  shows "signals_ok H base us unit (e # tr, l)"
proof -
  from assms(2) obtain es where "tr = es @ base" "kills_own H base us unit es"
    "case dl_pid l of None \<Rightarrow> True | Some p \<Rightarrow> own_process H base us unit p es" by (auto simp: signals_ok_def)
  with assms(1) own_process_later [where fs = "[e]" and es = es] show ?thesis
    unfolding signals_ok_def by (intro exI [of _ "e # es"]) (auto split: option.splits)
qed

interpretation ownsig: drill_invariant "signals_ok H base us unit" for H base us unit
proof unfold_locales
  show "signals_ok H base us unit (e # tr, l)" if "harmless_request e" "signals_ok H base us unit (tr, l)" for e tr l
    using that signals_ok_grow by (simp add: harmless_request_def)
qed (auto simp: signals_ok_def)

lemma not_killed [simp]: "killed_pid (ERun c as opts) = None" "killed_pid ERandom = None" "killed_pid (EStat p) = None"
  by (simp_all add: killed_pid_def)

lemma signals_restore_database: "upholds (signals_ok H base us unit) (restore_database H' sid ns n x)"
proof -
  have run: "upholds (signals_ok H base us unit) (exec_run H' c as opts)" for c as opts
    by (simp add: upholds_def exec_run_def ask_def signals_ok_grow split: prod.split)
  have create: "upholds (signals_ok H base us unit) (create_database H' a b)" for a b
    unfolding create_database_def run_pg_def by (intro upholds_rules run)
  have noted: "signals_ok H base us unit (tr, l) \<Longrightarrow> signals_ok H base us unit (tr, l\<lparr>dl_scratches := v\<rparr>)" for tr l v
    by (simp add: signals_ok_def)
  show ?thesis
    unfolding restore_database_def Let_def
    by (auto intro!: upholds_rules create noted ownsig.noted)
qed

text \<open>Every unit of the service was shown, and its main process noted.\<close>

definition units_shown :: "host \<Rightarrow> event list \<Rightarrow> str list \<Rightarrow> drill_state state \<Rightarrow> bool" where
  "units_shown H base us s \<longleftrightarrow> (\<exists>es. fst s = es @ base \<and> noted_units H base us es (dl_production (snd s)))"

lemma units_shown_grow: "units_shown H base us (tr, l) \<Longrightarrow> units_shown H base us (e # tr, l)"
  unfolding units_shown_def by (metis append_Cons fst_conv noted_units_later order_refl snd_conv append_Nil)

lemma show_unit_run:
  "show_unit H u (tr, l) =
     (if names_socket (Some u) \<and> ''show'' \<notin> set socket_safe_actions
      then (Inl (SocketGuardError ''socket units are never stopped or restarted''), tr, l)
      else (Inr (unit_state_of u (rout (h_run H tr ''systemctl'' (systemctl_args ''show'' (Some u)) as_self))),
            ERun ''systemctl'' (systemctl_args ''show'' (Some u)) as_self # tr, l))"
  by (simp add: show_unit_def systemctl_def bind_def exec_run_def ask_def ret_def allowed_actions_def run_opts_for_def
      read_only_actions_def throw_def)

lemma show_is_safe [simp]: "''show'' \<in> set socket_safe_actions"
  by (simp add: socket_safe_actions_def)

lemma note_production_shows:
  "leads (units_shown H base ys) (note_production H u) (\<lambda>_. units_shown H base (ys @ [u]))"
  unfolding leads_def
proof (intro allI impI)
  fix s x s' assume I: "units_shown H base ys s" and run: "note_production H u s = (Inr x, s')"
  obtain tr l where s: "s = (tr, l)" by (cases s)
  from I s obtain es where es: "tr = es @ base" "noted_units H base ys es (dl_production l)" by (auto simp: units_shown_def)
  let ?e = "ERun ''systemctl'' (systemctl_args ''show'' (Some u)) as_self"
  have s': "fst s' = (?e # es) @ base"
      "dl_production (snd s') = dl_production l @ (case shown_pid H tr u of None \<Rightarrow> [] | Some p \<Rightarrow> [p])"
    using run unfolding s note_production_def shown_pid_def
    by (auto simp: es(1) bind_def show_unit_run ret_def modl_def split: option.splits)
  have "noted_units H base ys ([?e] @ es) (dl_production (snd s'))"
    by (rule noted_units_later [OF es(2)]) (use s'(2) in auto)
  moreover have "was_shown H base u (shown_pid H tr u) (?e # es)" using es(1) by simp
  moreover have "case shown_pid H tr u of None \<Rightarrow> True | Some x \<Rightarrow> x \<in> set (dl_production (snd s'))"
    using s'(2) by (auto split: option.splits)
  ultimately have "noted_units H base (ys @ [u]) (?e # es) (dl_production (snd s'))"
    unfolding noted_units_def by auto
  with s'(1) show "units_shown H base (ys @ [u]) s'" unfolding units_shown_def by blast
qed

lemma adopt_own:
  assumes sig: "signals_ok H base us (dn_unit ns) s" and shown: "units_shown H base us s"
  shows "signals_ok H base us (dn_unit ns) (snd (adopt_instance H ns s))"
proof -
  obtain tr l where s: "s = (tr, l)" by (cases s)
  let ?e = "ERun ''systemctl'' (systemctl_args ''show'' (Some (dn_unit ns))) as_self"
  have sig': "signals_ok H base us (dn_unit ns) (?e # tr, l)" using signals_ok_grow sig s by simp
  show ?thesis
  proof (cases "shown_pid H tr (dn_unit ns)")
    case None
    then show ?thesis
      using sig' by (simp add: adopt_instance_def bind_def show_unit_run s shown_pid_def abort_def andthen_def modl_def throw_def
          signals_ok_def note_failure_def)
  next
    case (Some p)
    show ?thesis
    proof (cases "p \<in> set (dl_production l)")
      case True
      with Some show ?thesis
        using sig' by (simp add: adopt_instance_def bind_def show_unit_run s shown_pid_def abort_def andthen_def modl_def throw_def
            signals_ok_def note_failure_def getl_def)
    next
      case False
      from shown s obtain es where es: "tr = es @ base" "noted_units H base us es (dl_production l)" by (auto simp: units_shown_def)
      have "own_process H base us (dn_unit ns) p (?e # es)"
        unfolding own_process_def list_all_iff
      proof (intro conjI ballI)
        show "was_shown H base (dn_unit ns) (Some p) (?e # es)" using Some es(1) by simp
        fix u assume "u \<in> set us"
        with es(2) obtain q where q: "was_shown H base u q es" "case q of None \<Rightarrow> True | Some x \<Rightarrow> x \<in> set (dl_production l)"
          unfolding noted_units_def list_all_iff by blast
        with False have "q \<noteq> Some p" by (auto split: option.splits)
        with q(1) shown_later [of H base u q es "[?e]"] show "\<exists>q. q \<noteq> Some p \<and> was_shown H base u q (?e # es)" by auto
      qed
      moreover have "snd (adopt_instance H ns s) = (?e # tr, l\<lparr>dl_pid := Some p\<rparr>)"
        using Some False by (simp add: adopt_instance_def bind_def show_unit_run s shown_pid_def getl_def modl_def)
      moreover have "kills_own H base us (dn_unit ns) (?e # es)"
        using sig' es(1) by (auto simp: signals_ok_def)
      ultimately show ?thesis using es(1) by (auto simp: signals_ok_def intro!: exI [of _ "?e # es"])
    qed
  qed
qed

lemma signals_start: "upholds (signals_ok H base (s_units svc) (dn_unit ns)) (start_instance H svc d sp ns fs)"
proof -
  let ?I = "signals_ok H base (s_units svc) (dn_unit ns)" and ?J = "units_shown H base (s_units svc)"
  have production: "upholds ?I (note_production H u)" for u
    unfolding note_production_def by (auto intro!: upholds_rules simp: signals_ok_def)
  have shown: "leads ?I (each (note_production H) (s_units svc)) (\<lambda>_. ?J)"
    by (rule leads_mono [OF leads_each [where P = "units_shown H base" and ys = "[]", OF note_production_shows]])
      (auto simp: units_shown_def signals_ok_def noted_units_def)
  have start: "?I (snd (bind (exec_run H ''systemd-run'' args as_root)
      (\<lambda>r. if rc r \<noteq> 0 then abort ''start'' ''systemd-run failed'' else adopt_instance H ns) s))"
    if sig: "?I s" and there: "?J s" for args s
  proof -
    obtain tr l where s: "s = (tr, l)" by (cases s)
    let ?s = "(ERun ''systemd-run'' args as_root # tr, l)"
    have sig': "?I ?s" and there': "?J ?s" using sig there units_shown_grow signals_ok_grow s by simp_all
    have "?I (snd ((abort ''start'' ''systemd-run failed'' :: (drill_state, unit) prog) ?s))"
      by (rule ownsig.upholds_abort [unfolded upholds_def, rule_format, OF sig'])
    with adopt_own [OF sig' there'] show ?thesis
      by (simp add: s bind_def exec_run_def ask_def)
  qed
  have tail: "upholds ?I (andthen (each (note_production H) (s_units svc))
      (bind (exec_run H ''systemd-run'' args as_root) (\<lambda>r. if rc r \<noteq> 0 then abort ''start'' ''systemd-run failed'' else adopt_instance H ns)))" for args
    by (rule upholds_then [OF _ shown start]) (intro upholds_rules production)
  show ?thesis
    unfolding start_instance_def type_fault_def
    by (intro upholds_rules upholds_getl tail) simp_all
qed

text \<open>The clean-up kills the process the record names.\<close>

definition stopping_ok :: "host \<Rightarrow> event list \<Rightarrow> str list \<Rightarrow> str \<Rightarrow> int \<Rightarrow> drill_state state \<Rightarrow> bool" where
  "stopping_ok H base us unit p s \<longleftrightarrow>
     signals_ok H base us unit s \<and> (\<exists>es. fst s = es @ base \<and> own_process H base us unit p es)"

lemma stopping_ok_grow:
  assumes "killed_pid e \<in> {None, Some p}" "stopping_ok H base us unit p (tr, l)"
  shows "stopping_ok H base us unit p (e # tr, l)"
proof -
  from assms(2) obtain es where es: "tr = es @ base" "kills_own H base us unit es" "own_process H base us unit p es"
    "case dl_pid l of None \<Rightarrow> True | Some q \<Rightarrow> own_process H base us unit q es"
    by (auto simp: stopping_ok_def signals_ok_def)
  have later: "own_process H base us unit q es \<Longrightarrow> own_process H base us unit q (e # es)" for q
    using own_process_later [where fs = "[e]" and es = es] by simp
  show ?thesis
    unfolding stopping_ok_def signals_ok_def using es later assms(1)
    by (auto intro!: exI [of _ "e # es"] split: option.splits)
qed

interpretation stopping: stable_under "\<lambda>e. killed_pid e \<in> {None, Some p}" "stopping_ok H base us unit p" for H base us unit p
  by unfold_locales (rule stopping_ok_grow)

lemma kill_events [simp]:
  "killed_pid (EPidAlive q) = None" "killed_pid ENow = None" "killed_pid (ESleep ms) = None" "killed_pid (EListeners port) = None"
  "killed_pid (EKill q sig) = Some q"
  by (simp_all add: killed_pid_def)

lemma stopping_await [upholds_rules]: "upholds (stopping_ok H base us unit p) (await_exit H' n p t0 killed)"
  by (induction n arbitrary: killed) (auto intro!: upholds_rules)

lemma stopping_stop: "upholds (stopping_ok H base us unit p) (stop_instance H' n (Some p) port ps)"
  unfolding stop_instance_def option.case by (auto intro!: upholds_rules)

lemma signals_stop: "upholds (signals_ok H base us unit) (stop_recorded H' n d)"
  unfolding stop_recorded_def
proof (rule upholds_bind_getl)
  fix tr l assume I: "signals_ok H base us unit (tr, l)"
  let ?m = "\<lambda>pid. bind (try_catch (stop_instance H' n pid (dc_port d) (dl_production l))
      (\<lambda>e. ret (Some \<lparr>sk_ok = False, sk_pid = None, sk_signal = None, sk_detail = Some (''stop failed: '' @ exc_message e)\<rparr>)))
      (\<lambda>r. modl (\<lambda>l. l\<lparr>dl_stop := r\<rparr>))"
  show "signals_ok H base us unit (snd (?m (dl_pid l) (tr, l)))"
  proof (cases "dl_pid l")
    case None
    then show ?thesis using I by (simp add: stop_instance_def try_catch_def ret_def bind_def modl_def signals_ok_def)
  next
    case (Some p)
    have "upholds (stopping_ok H base us unit p) (?m (Some p))"
      by (intro upholds_rules stopping_stop) (simp add: stopping_ok_def signals_ok_def)
    moreover have "stopping_ok H base us unit p (tr, l)" using I Some by (auto simp: stopping_ok_def signals_ok_def)
    ultimately show ?thesis using Some by (auto simp: upholds_def stopping_ok_def)
  qed
qed

lemma signals_drop: "upholds (signals_ok H base us unit) (drop_scratches H')"
  unfolding drop_scratches_def drop_scratch_def
  by (auto intro!: upholds_rules upholds_getl simp: signals_ok_def)

lemma signals_run:
  "upholds (signals_ok H base (s_units svc) (dn_unit ns)) (drill_run digest c svc d ns bk sp b)" if "exec c = H"
  unfolding drill_run_def drill_body_def restore_all_def clean_up_def Let_def that
  by (intro upholds_rules signals_restore_database signals_start signals_stop signals_drop)
    (auto simp: note_failure_def ownsig.quiet)

section \<open>From the run to the command\<close>

text \<open>
  \<open>trace_ok F P m\<close>: the requests \<open>m\<close> makes satisfy \<open>P\<close> after the history it starts in; where \<open>F\<close> holds, a run
  out of fuel is spared.
\<close>

definition trace_ok :: "bool \<Rightarrow> (event list \<Rightarrow> event list \<Rightarrow> bool) \<Rightarrow> ('l, 'a) prog \<Rightarrow> bool" where
  "trace_ok F P m \<longleftrightarrow>
     (\<forall>tr l. F \<and> fst (m (tr, l)) = Inl OutOfFuel \<or> (\<exists>es. fst (snd (m (tr, l))) = es @ tr \<and> P tr es))"

lemma harmless_rest:
  "emits harmless_request (find_service i sid)" "emits harmless_request (drill_of svc)"
  "emits harmless_request (check_ready_to_drill H svc d)" "emits harmless_request (resolve_backup H i svc d chosen)"
  "emits harmless_request (start_spec_of H svc d)" "emits harmless_request (lock_acquire c lock)"
  "emits harmless_request (operator_name c)" "emits harmless_request (record_drill row c d ns bk h held l)"
  unfolding find_service_def drill_of_def check_ready_to_drill_def check_isolated_def missing_requirements_def lacks_requirement_def
    drill_fail_def resolve_backup_def latest_backup_def drill_file_of_def drill_object_of_def require_file_def type_fault_def
    start_spec_of_def unit_texts_def show_unit_def systemctl_def lock_acquire_def operator_name_def record_drill_def lock_release_def
    json_pid_alive_def Let_def
  by (auto intro!: emits_rules split: option.split drill_block.split json.split)

locale drill_trace =
  fixes P :: "event list \<Rightarrow> event list \<Rightarrow> bool"
  assumes calm_ok: "list_all harmless_request es \<Longrightarrow> P tr es"
    and before: "list_all harmless_request fs \<Longrightarrow> P (fs @ tr) es \<Longrightarrow> P tr (es @ fs)"
    and after: "list_all harmless_request fs \<Longrightarrow> P tr es \<Longrightarrow> P tr (fs @ es)"
begin

lemma bind_ret: "bind (ret x) k = k x"
  by (simp add: bind_def ret_def fun_eq_iff)

lemma trace_harmless:
  assumes "emits harmless_request m"
  shows "trace_ok F P m"
  unfolding trace_ok_def
proof (intro allI)
  fix tr l
  from assms obtain es where "fst (snd (m (tr, l))) = es @ tr" "list_all harmless_request es"
    unfolding emits_def list_all_iff by blast
  then show "F \<and> fst (m (tr, l)) = Inl OutOfFuel \<or> (\<exists>es. fst (snd (m (tr, l))) = es @ tr \<and> P tr es)"
    by (intro disjI2 exI [of _ es] conjI calm_ok)
qed

lemma trace_throws:
  assumes "\<And>s. \<exists>e. m s = (Inl e, s)"
  shows "trace_ok F P (bind m k)"
  unfolding trace_ok_def
proof (intro allI)
  fix tr l
  obtain e where "m (tr, l) = (Inl e, tr, l)" using assms by blast
  then have "bind m k (tr, l) = (Inl e, [] @ tr, l)" by (simp add: bind_def)
  then show "F \<and> fst (bind m k (tr, l)) = Inl OutOfFuel \<or> (\<exists>es. fst (snd (bind m k (tr, l))) = es @ tr \<and> P tr es)"
    by (intro disjI2 exI [of _ "[]"] conjI calm_ok) simp_all
qed

lemma trace_before:
  assumes m: "emits harmless_request m" and k: "\<And>x. trace_ok F P (k x)"
  shows "trace_ok F P (bind m k)"
  unfolding trace_ok_def
proof (intro allI)
  fix tr l
  obtain r tr1 l1 where run: "m (tr, l) = (r, tr1, l1)" by (cases "m (tr, l)") auto
  obtain fs where fs: "tr1 = fs @ tr" "list_all harmless_request fs"
    unfolding list_all_iff by (rule emitsD [OF m run])
  show "F \<and> fst (bind m k (tr, l)) = Inl OutOfFuel \<or> (\<exists>es. fst (snd (bind m k (tr, l))) = es @ tr \<and> P tr es)"
  proof (cases r)
    case (Inl e)
    with run have "fst (snd (bind m k (tr, l))) = fs @ tr" using fs(1) by (simp add: bind_def)
    then show ?thesis by (intro disjI2 exI [of _ fs] conjI calm_ok fs(2))
  next
    case (Inr x)
    then have goes: "bind m k (tr, l) = k x (tr1, l1)" using run by (simp add: bind_def)
    from k [of x, unfolded trace_ok_def, rule_format, of tr1 l1] show ?thesis
    proof
      assume "\<exists>es. fst (snd (k x (tr1, l1))) = es @ tr1 \<and> P tr1 es"
      then obtain es where es: "fst (snd (k x (tr1, l1))) = es @ tr1" "P tr1 es" by blast
      have "P tr (es @ fs)" by (rule before [OF fs(2)]) (use es(2) fs(1) in simp)
      then show ?thesis unfolding goes using es(1) fs(1) by (intro disjI2 exI [of _ "es @ fs"] conjI) simp_all
    qed (simp add: goes)
  qed
qed

lemma trace_then:
  assumes m: "trace_ok F P m" and k: "\<And>x. emits harmless_request (k x)"
  shows "trace_ok F P (bind m k)"
  unfolding trace_ok_def
proof (intro allI)
  fix tr l
  obtain r tr1 l1 where run: "m (tr, l) = (r, tr1, l1)" by (cases "m (tr, l)") auto
  from m [unfolded trace_ok_def, rule_format, of tr l]
  show "F \<and> fst (bind m k (tr, l)) = Inl OutOfFuel \<or> (\<exists>es. fst (snd (bind m k (tr, l))) = es @ tr \<and> P tr es)"
  proof
    assume "\<exists>es. fst (snd (m (tr, l))) = es @ tr \<and> P tr es"
    then obtain es where es: "tr1 = es @ tr" "P tr es" using run by auto
    show ?thesis
    proof (cases r)
      case (Inl e)
      with run es show ?thesis by (auto simp: bind_def)
    next
      case (Inr x)
      obtain r2 tr2 l2 where run2: "k x (tr1, l1) = (r2, tr2, l2)" by (cases "k x (tr1, l1)") auto
      obtain fs where fs: "tr2 = fs @ tr1" "list_all harmless_request fs"
        unfolding list_all_iff by (rule emitsD [OF k run2])
      have "bind m k (tr, l) = (r2, tr2, l2)" using run run2 Inr by (simp add: bind_def)
      with fs(1) es(1) show ?thesis
        by (intro disjI2 exI [of _ "fs @ es"] conjI after fs(2) es(2)) simp
    qed
  qed (use run in \<open>auto simp: bind_def\<close>)
qed

text \<open>Only the run itself matters.\<close>

lemma trace_drill:
  assumes "\<And>svc d ns bk sp. map_of (inv_services (inv c)) sid = Some svc \<Longrightarrow> (\<exists>st. ns = drill_names_of (inv c) sid st) \<Longrightarrow>
      s_drill svc = Some (Drill_On d) \<Longrightarrow> trace_ok F P (with_state fresh_drill (drill_run digest c svc d ns bk sp b) :: ('l, drill_state) prog)"
  shows "trace_ok F P (drill digest row c sid chosen b :: ('l, nat \<times> drill_state) prog)"
proof (cases "map_of (inv_services (inv c)) sid")
  case None
  then show ?thesis
    unfolding drill_def Let_def by (intro trace_throws) (simp add: find_service_def throw_def)
next
  case (Some svc)
  then have found: "(find_service (inv c) sid :: ('l, service) prog) = ret svc" by (simp add: find_service_def)
  have root: "trace_ok F P (if \<not> h_is_root H then drill_fail m else (k :: ('l, nat \<times> drill_state) prog))"
    if "trace_ok F P k" for H m k
    using that by (auto simp: drill_fail_def intro!: trace_harmless emits_throw)
  show ?thesis
  proof (cases "\<exists>d. s_drill svc = Some (Drill_On d)")
    case False
    then have "\<exists>e. (drill_of svc :: ('l, drill_cfg) prog) s = (Inl e, s)" for s
      by (auto simp: drill_of_def drill_fail_def throw_def split: option.split drill_block.split)
    then show ?thesis
      unfolding drill_def found Let_def bind_ret by (intro root trace_throws)
  next
    case True
    then obtain d where d: "s_drill svc = Some (Drill_On d)" by blast
    have chosen: "(drill_of svc :: ('l, drill_cfg) prog) = ret d" by (simp add: drill_of_def d)
    show ?thesis
      unfolding drill_def found Let_def bind_ret
      unfolding chosen bind_ret andthen_def [of "check_ready_to_drill H svc d" for H]
    proof (intro root trace_before harmless_rest)
      fix u bk sp x
      show "trace_ok F P ((case x of (held, stale) \<Rightarrow> bind (exec_now (exec c)) (\<lambda>t.
          bind (exec_now (exec c)) (\<lambda>started. bind (operator_name c) (\<lambda>op.
          bind (with_state fresh_drill (drill_run digest c svc d (drill_names_of (inv c) sid (backup_stamp t)) bk sp b)) (\<lambda>l.
          record_drill row c d (drill_names_of (inv c) sid (backup_stamp t)) bk
            \<lparr>dh_service = sid, dh_started = started, dh_operator = op\<rparr> held l))))) :: ('l, nat \<times> drill_state) prog)"
        unfolding split_beta
        by (intro trace_before trace_then harmless_rest emits_rules assms Some d exI refl) simp_all
    qed
  qed
qed

end

lemma shown_before: "was_shown H (fs @ base) u p es \<Longrightarrow> was_shown H base u p (es @ fs)"
  by (induction es) (auto simp: shown_pid_def)

lemma own_process_before: "own_process H (fs @ base) us unit p es \<Longrightarrow> own_process H base us unit p (es @ fs)"
  unfolding own_process_def list_all_iff by (blast intro: shown_before)

lemma kills_none: "list_all harmless_request fs \<Longrightarrow> kills_own H base us unit fs"
  by (induction fs) (auto simp: harmless_request_def)

lemma kills_before:
  "list_all harmless_request fs \<Longrightarrow> kills_own H (fs @ base) us unit es \<Longrightarrow> kills_own H base us unit (es @ fs)"
  by (induction es) (auto simp: kills_none own_process_before split: option.split)

lemma kills_after:
  "list_all harmless_request fs \<Longrightarrow> kills_own H base us unit es \<Longrightarrow> kills_own H base us unit (fs @ es)"
  by (induction fs) (auto simp: harmless_request_def)

interpretation owntrace: drill_trace "\<lambda>tr es. \<exists>st. kills_own H tr us (unit st) es" for H us and unit :: "str \<Rightarrow> str"
  by unfold_locales (blast intro: kills_none kills_before kills_after)+

lemma with_state_trace: "fst (snd (with_state m0 p (tr, l))) = fst (snd (p (tr, m0)))"
  by (simp add: with_state_def split: prod.split sum.split)

text \<open>
  Property C12. Whatever the host answers, every signal that a drill sends goes to a process that systemd named as
  the main process of the drill's own unit, in the same run and before the signal, after each unit of the service in
  production had been asked for its main process and had named another one or none. So a drill never stops a
  production service, and never signals a process it was not told to be its own.
\<close>

theorem drill_signals_its_own_instance:
  "case map_of (inv_services (inv c)) sid of
     None \<Rightarrow> True
   | Some svc \<Rightarrow>
       \<exists>es st. fst (snd ((drill digest row c sid chosen b :: ('l, nat \<times> drill_state) prog) (tr, l))) = es @ tr \<and>
         kills_own (exec c) tr (s_units svc) (dn_unit (drill_names_of (inv c) sid st)) es"
proof (cases "map_of (inv_services (inv c)) sid")
  case (Some svc)
  let ?P = "\<lambda>tr es. \<exists>st. kills_own (exec c) tr (s_units svc) (dn_unit (drill_names_of (inv c) sid st)) es"
  have "trace_ok False ?P (drill digest row c sid chosen b :: ('l, nat \<times> drill_state) prog)"
  proof (rule owntrace.trace_drill)
    fix svc' d ns bk sp
    assume svc': "map_of (inv_services (inv c)) sid = Some svc'" and ns: "\<exists>st. ns = drill_names_of (inv c) sid st"
    show "trace_ok False ?P (with_state fresh_drill (drill_run digest c svc' d ns bk sp b))"
      unfolding trace_ok_def with_state_trace
    proof (intro allI disjI2)
      fix tr l
      have "signals_ok (exec c) tr (s_units svc') (dn_unit ns) (tr, fresh_drill)"
        by (simp add: signals_ok_def fresh_drill_def)
      then have "signals_ok (exec c) tr (s_units svc') (dn_unit ns) (snd (drill_run digest c svc' d ns bk sp b (tr, fresh_drill)))"
        using signals_run [OF refl] unfolding upholds_def by blast
      with svc' Some ns show "\<exists>es. fst (snd (drill_run digest c svc' d ns bk sp b (tr, fresh_drill))) = es @ tr \<and> ?P tr es"
        by (auto simp: signals_ok_def)
    qed
  qed
  with Some show ?thesis by (auto simp: trace_ok_def)
qed simp

end
