(* ===== verification/Drill_Drops.thy ===== *)
theory Drill_Drops
  imports Drill_Safety Guard Sample
begin

text \<open>
  A restore drill leaves no scratch database and no scratch role behind: whatever happens in its body, the
  clean-up asks for each of them to be dropped, and the wait for the instance's exit is bounded.
\<close>

section \<open>The wait for the exit ends\<close>

lemma await_exit_ends:
  assumes clock: "clock_ok H"
  shows "stop_grace_ms - (h_now H tr - t0) \<le> int n * 500 \<Longrightarrow>
    fst (await_exit H (Suc (Suc n)) p t0 killed (tr, l)) \<noteq> Inl OutOfFuel"
proof (induction n arbitrary: killed tr l)
  case 0
  have "stop_grace_ms \<le> h_now H (EPidAlive p # tr) - t0" "stop_grace_ms \<le> h_now H (EPidAlive p # ESleep 500 # EKill p s # ENow # EPidAlive p # tr) - t0" for s
    using 0 clock_mono [OF clock, of tr "[EPidAlive p]"] clock_mono [OF clock, of tr "[EPidAlive p, ESleep 500, EKill p s, ENow, EPidAlive p]"]
    by auto
  then show ?case
    by (simp add: bind_def andthen_def exec_pid_alive_def exec_now_def exec_kill_def exec_sleep_def ask_def ask_or_def ret_def
        split: sum.split)
next
  case (Suc n)
  let ?a = "EPidAlive p # tr"
  have "h_now H tr + 500 \<le> h_now H (ESleep 500 # es @ tr)" for es
    using clock_sleep [OF clock, of "es @ tr" 500] clock_mono [OF clock, of tr es] by simp
  note later = this [of "[ENow, EPidAlive p]"] this [of "[EKill p ''SIGKILL'', ENow, EPidAlive p]"]
  have IH: "fst (await_exit H (Suc (Suc n)) p t0 k (tr1, l)) \<noteq> Inl OutOfFuel" if "h_now H tr + 500 \<le> h_now H tr1" for k tr1
    using Suc.IH [of tr1 k l] Suc.prems that by simp
  show ?case
    unfolding await_exit.simps(2) [of H "Suc (Suc n)"]
    using later [simplified] IH
    by (simp add: bind_def andthen_def exec_pid_alive_def exec_now_def exec_kill_def exec_sleep_def ask_def ask_or_def ret_def
        del: await_exit.simps split: sum.split)
qed

lemma stop_instance_ends:
  assumes clock: "clock_ok H"
  shows "fst (stop_instance H (42 + n) pid port ps (tr, l)) \<noteq> Inl OutOfFuel"
proof -
  have exit: "fst (await_exit H (42 + n) p (h_now H tr1) False (ENow # tr1, l)) \<noteq> Inl OutOfFuel" for p tr1
    using await_exit_ends [OF clock, of "ENow # tr1" "h_now H tr1" "40 + n" p False l] clock_step [OF clock, of tr1 ENow]
    by (simp add: stop_grace_ms_def)
  have "fst (bind (exec_kill H p ''SIGTERM'') (\<lambda>_. ret ()) (tr, l)) \<noteq> Inl OutOfFuel" for p
    by (simp add: bind_def exec_kill_def ask_or_def ret_def split: sum.split)
  show ?thesis
  proof (cases pid)
    case (Some p)
    let ?tr = "EKill p ''SIGTERM'' # tr"
    obtain r tr2 l2 where run: "await_exit H (42 + n) p (h_now H ?tr) False (ENow # ?tr, l) = (r, tr2, l2)"
      by (cases "await_exit H (42 + n) p (h_now H ?tr) False (ENow # ?tr, l)") auto
    with exit [of p ?tr] have "r \<noteq> Inl OutOfFuel" by simp
    with run Some show ?thesis
      by (auto simp: stop_instance_def bind_def andthen_def exec_kill_def exec_now_def exec_listeners_def ask_def ask_or_def ret_def
          split: sum.split option.split)
  qed (simp add: stop_instance_def ret_def)
qed

section \<open>What is created is recorded\<close>

text \<open>Requests that drop a database and a role of that name.\<close>

definition drops_database :: "str \<Rightarrow> event \<Rightarrow> bool" where
  "drops_database n e =
     (case e of ERun cmd args opts \<Rightarrow> cmd = ''dropdb'' \<and> args = [''-w'', ''--if-exists'', ''--force'', n] | _ \<Rightarrow> False)"

definition drops_role :: "str \<Rightarrow> event \<Rightarrow> bool" where
  "drops_role n e = (case e of ERun cmd args opts \<Rightarrow> cmd = ''psql'' \<and> o_input opts = Some (drop_role_sql n) | _ \<Rightarrow> False)"

text \<open>Every database created among the requests (the newest first) is dropped after it, and its role too.\<close>

fun left_clean :: "event list \<Rightarrow> event list \<Rightarrow> bool" where
  "left_clean later [] = True"
| "left_clean later (e # es) \<longleftrightarrow>
     (case made_database e of None \<Rightarrow> True | Some n \<Rightarrow> list_ex (drops_database n) later \<and> list_ex (drops_role n) later) \<and>
     left_clean (e # later) es"

definition made_known :: "str list \<Rightarrow> event list \<Rightarrow> bool" where
  "made_known ns es \<longleftrightarrow> list_all (\<lambda>e. case made_database e of None \<Rightarrow> True | Some n \<Rightarrow> n \<in> set ns) es"

lemma made_known_mono: "made_known ns es \<Longrightarrow> set ns \<subseteq> set ms \<Longrightarrow> made_known ms es"
  unfolding made_known_def by (induction es) (auto split: option.splits)

lemma made_known_more: "made_known ns es \<Longrightarrow> made_known (ns @ ms) es"
  by (rule made_known_mono) auto

definition all_dropped :: "str list \<Rightarrow> event list \<Rightarrow> bool" where
  "all_dropped ns es \<longleftrightarrow> list_all (\<lambda>n. list_ex (drops_database n) es \<and> list_ex (drops_role n) es) ns"

lemma left_clean_mono: "left_clean later es \<Longrightarrow> set later \<subseteq> set later' \<Longrightarrow> left_clean later' es"
proof (induction es arbitrary: later later')
  case (Cons e es)
  have "left_clean (e # later') es" by (rule Cons.IH [of "e # later"]) (use Cons.prems in auto)
  then show ?case using Cons.prems by (auto simp: list_ex_iff split: option.splits)
qed simp

lemma left_clean_known: "made_known ns es \<Longrightarrow> all_dropped ns later \<Longrightarrow> left_clean later es"
proof (induction es arbitrary: later)
  case (Cons e es)
  have "left_clean (e # later) es"
    by (rule Cons.IH) (use Cons.prems in \<open>auto simp: made_known_def all_dropped_def list_all_iff\<close>)
  then show ?case using Cons.prems by (auto simp: made_known_def all_dropped_def list_all_iff split: option.splits)
qed simp

lemma left_clean_none: "made_known [] es \<Longrightarrow> left_clean later es"
  by (rule left_clean_known [where ns = "[]"]) (simp_all add: all_dropped_def)

lemma left_clean_append: "left_clean later (fs @ es) \<longleftrightarrow> left_clean later fs \<and> left_clean (rev fs @ later) es"
  by (induction fs arbitrary: later) auto

lemma harmless_made: "list_all harmless_request fs \<Longrightarrow> made_known [] fs"
  unfolding made_known_def list_all_iff harmless_request_def by auto

interpretation cleantrace: drill_trace "\<lambda>tr. left_clean []"
  by unfold_locales (auto simp: left_clean_append harmless_made left_clean_none intro: left_clean_mono)

definition scratches_known :: "event list \<Rightarrow> drill_state state \<Rightarrow> bool" where
  "scratches_known base s \<longleftrightarrow> (\<exists>es. fst s = es @ base \<and> made_known (map sc_database (dl_scratches (snd s))) es)"

lemma scratches_known_grow:
  assumes "case made_database e of None \<Rightarrow> True | Some n \<Rightarrow> n \<in> sc_database ` set (dl_scratches l)" "scratches_known base (tr, l)"
  shows "scratches_known base (e # tr, l)"
proof -
  from assms(2) obtain es where "tr = es @ base" "made_known (map sc_database (dl_scratches l)) es"
    by (auto simp: scratches_known_def)
  with assms(1) show ?thesis
    unfolding scratches_known_def by (intro exI [of _ "e # es"]) (auto simp: made_known_def split: option.splits)
qed

interpretation creates: stable_under "\<lambda>e. made_database e = None" "scratches_known base" for base
  by unfold_locales (simp add: scratches_known_grow)

interpretation known: drill_invariant "scratches_known base" for base
proof unfold_locales
  show "scratches_known base (e # tr, l)" if "harmless_request e" "scratches_known base (tr, l)" for e tr l
    using that scratches_known_grow by (simp add: harmless_request_def)
qed (auto simp: scratches_known_def)

lemma upholds_noted_then:
  assumes "\<And>tr l. I (tr, l) \<Longrightarrow> J (tr, f l)" "upholds J k" "\<And>s. J s \<Longrightarrow> I s"
  shows "upholds I (andthen (modl f) k)"
  using assms by (auto simp: upholds_def andthen_def bind_def modl_def)

text \<open>The scratch is recorded before its database is created.\<close>

definition scratch_noted :: "event list \<Rightarrow> str \<Rightarrow> drill_state state \<Rightarrow> bool" where
  "scratch_noted base n s \<longleftrightarrow> scratches_known base s \<and> n \<in> sc_database ` set (dl_scratches (snd s))"

interpretation scratching: stable_under "\<lambda>e. made_database e \<in> {None, Some n}" "scratch_noted base n" for base n
  by unfold_locales (auto simp: scratch_noted_def intro: scratches_known_grow)

lemma made_run [simp]:
  "c \<noteq> ''createdb'' \<Longrightarrow> made_database (ERun c as opts) = None"
  "made_database (ERun ''createdb'' as opts) = Some (last as)"
  "made_database ERandom = None" "made_database (EStat p) = None" "made_database (EWrite p t) = None"
  by (simp_all add: made_database_def)

lemma known_restore_database: "upholds (scratches_known base) (restore_database H sid ns n x)"
proof -
  have create: "upholds (scratch_noted base m) (create_database H m (Some w))" for m w
    unfolding create_database_def run_pg_def by (intro upholds_rules) (simp add: made_database_def)
  have restore: "upholds (scratch_noted base m) (pg_restore H f m (Some w))" for m f w
    unfolding pg_restore_def run_pg_def by (intro upholds_rules) (simp add: made_database_def)
  have tail: "upholds (scratches_known base) (andthen (modl (\<lambda>l. l\<lparr>dl_scratches := dl_scratches l @
        [\<lparr>sc_name = df_name f, sc_database = m, sc_password = pw, sc_dropped = None, sc_error = None\<rparr>]\<rparr>))
      (andthen (bind (create_database H m (Some m)) (\<lambda>_. ret ())) (bind (pg_restore H copy m (Some m)) (\<lambda>_. ret ()))))" for f m pw copy
    by (rule upholds_noted_then [where J = "scratch_noted base m"])
      (auto simp: scratch_noted_def scratches_known_def made_known_more intro!: upholds_rules create restore)
  show ?thesis
    unfolding restore_database_def Let_def
    by (auto intro!: upholds_rules tail known.noted)
qed

lemma known_start: "upholds (scratches_known base) (start_instance H svc d sp ns fs)"
  unfolding start_instance_def type_fault_def note_production_def adopt_instance_def
  by (intro upholds_rules upholds_getl) (auto simp: scratches_known_def)

lemma known_stop: "upholds (scratches_known base) (stop_recorded H n d)"
proof -
  note rules = creates.upholds_exec upholds_pure upholds_bind upholds_andthen upholds_try_catch upholds_cases
  have exit: "upholds (scratches_known base) (await_exit H k p t0 killed)" for k p t0 killed
  proof (induction k arbitrary: killed)
    case (Suc k)
    show ?case unfolding await_exit.simps by (intro rules Suc) (simp_all add: made_database_def)
  qed (simp add: upholds_pure)
  show ?thesis
    unfolding stop_recorded_def stop_instance_def
    by (intro rules upholds_getl upholds_modl exit) (auto simp: scratches_known_def made_database_def)
qed

lemma known_body: "upholds (scratches_known base)
    (try_catch (drill_body digest c svc d ns bk sp) (\<lambda>e. modl (note_failure ''error'' (exc_message e))))"
  unfolding drill_body_def restore_all_def Let_def
  by (intro upholds_rules known_restore_database known_start) (auto simp: note_failure_def known.quiet)

section \<open>What is recorded is dropped\<close>

lemma drop_scratch_run:
  "\<exists>x e1 e2. drop_scratch H s (tr, l) = (Inr x, e2 # e1 # tr, l) \<and> drops_database (sc_database s) e1 \<and>
     drops_role (sc_database s) e2 \<and> made_database e1 = None \<and> made_database e2 = None"
  by (simp add: drop_scratch_def drop_database_def run_pg_def drop_role_def psql_script_def try_catch_def bind_def andthen_def
      exec_run_def ask_def throw_def ret_def drops_database_def drops_role_def)

text \<open>A run of drops.\<close>

definition drops_of :: "str list \<Rightarrow> event list \<Rightarrow> bool" where
  "drops_of ns es \<longleftrightarrow> made_known [] es \<and> all_dropped ns es"

lemma drops_of_more:
  assumes "drops_of ns es" "drops_database n e1" "drops_role n e2" "made_database e1 = None" "made_database e2 = None"
  shows "drops_of (n # ns) (es @ [e2, e1])"
proof -
  have "list_ex p es \<Longrightarrow> list_ex p (es @ [e2, e1])" for p by simp
  with assms show ?thesis by (simp add: drops_of_def made_known_def all_dropped_def list_all_iff)
qed

lemma bind_goes: "m s = (Inr x, s') \<Longrightarrow> k x s' = z \<Longrightarrow> bind m k s = z"
  by (simp add: bind_def)

lemma drop_each_run:
  "\<exists>xs es. foldp (\<lambda>acc s. bind (drop_scratch H s) (\<lambda>y. ret (acc @ [y]))) b ss (tr, l) = (Inr xs, es @ tr, l) \<and>
     drops_of (map sc_database ss) es"
proof (induction ss arbitrary: b tr)
  case Nil
  show ?case
    by (intro exI [of _ b] exI [of _ "[]"]) (simp add: ret_def drops_of_def made_known_def all_dropped_def)
next
  case (Cons s ss)
  obtain x e1 e2 where x: "drop_scratch H s (tr, l) = (Inr x, e2 # e1 # tr, l)"
      "drops_database (sc_database s) e1" "drops_role (sc_database s) e2" "made_database e1 = None" "made_database e2 = None"
    using drop_scratch_run [of H s tr l] by blast
  obtain xs es where es: "foldp (\<lambda>acc s. bind (drop_scratch H s) (\<lambda>y. ret (acc @ [y]))) (b @ [x]) ss (e2 # e1 # tr, l) =
      (Inr xs, es @ e2 # e1 # tr, l)" "drops_of (map sc_database ss) es"
    using Cons.IH by blast
  have one: "bind (drop_scratch H s) (\<lambda>y. ret (b @ [y])) (tr, l) = (Inr (b @ [x]), e2 # e1 # tr, l)"
    by (simp add: bind_def x(1) ret_def)
  have "foldp (\<lambda>acc s. bind (drop_scratch H s) (\<lambda>y. ret (acc @ [y]))) b (s # ss) (tr, l) =
      (Inr xs, (es @ [e2, e1]) @ tr, l)"
    unfolding foldp.simps(2)
    by (rule bind_goes, rule one) (simp add: es(1))
  moreover have "drops_of (map sc_database (s # ss)) (es @ [e2, e1])"
    unfolding list.map by (rule drops_of_more [OF es(2) x(2-5)])
  ultimately show ?case by (intro exI [of _ xs] exI [of _ "es @ [e2, e1]"] conjI)
qed

lemma drop_scratches_run:
  "\<exists>l' es. drop_scratches H (tr, l) = (Inr (), es @ tr, l') \<and> drops_of (map sc_database (dl_scratches l)) es"
  using drop_each_run [of H "[]" "dl_scratches l" tr l]
  by (auto simp: drop_scratches_def mapp_def bind_def getl_def modl_def)

lemma end_harmless:
  "emits harmless_request (andthen (modl note_stuck) (remove_drill_dir c ns b))"
  unfolding remove_drill_dir_def Let_def by (auto intro!: emits_rules)

lemma stop_recorded_returns:
  assumes "clock_ok H"
  shows "\<exists>s'. stop_recorded H (42 + n) d s = (Inr (), s')"
proof -
  obtain tr l where s: "s = (tr, l)" by (cases s)
  obtain r tr' l' where run: "stop_instance H (42 + n) (dl_pid l) (dc_port d) (dl_production l) (tr, l) = (r, tr', l')"
    by (cases "stop_instance H (42 + n) (dl_pid l) (dc_port d) (dl_production l) (tr, l)") auto
  with stop_instance_ends [OF assms, of n "dl_pid l" "dc_port d" "dl_production l" tr l] have "r \<noteq> Inl OutOfFuel" by simp
  with run s show ?thesis
    by (auto simp: stop_recorded_def bind_def getl_def try_catch_def modl_def ret_def split: sum.split)
qed

lemma all_dropped_rev: "all_dropped ns (rev es) \<longleftrightarrow> all_dropped ns es"
  by (simp add: all_dropped_def list_ex_iff)

lemma clean_up_trace:
  assumes clock: "clock_ok (exec c)" and fuel: "42 \<le> ctx_fuel c"
  shows "trace_ok False (\<lambda>tr. left_clean []) (drill_run digest c svc d ns bk sp b)"
proof -
  obtain n where n: "ctx_fuel c = 42 + n" using fuel by (metis le_add_diff_inverse)
  let ?body = "try_catch (drill_body digest c svc d ns bk sp) (\<lambda>e. modl (note_failure ''error'' (exc_message e)))"
  have "trace_ok False (\<lambda>tr. left_clean []) (try_finally ?body (clean_up (exec c) (ctx_fuel c) d))"
    unfolding trace_ok_def
  proof (intro allI disjI2)
    fix tr l
    obtain r s1 where run: "?body (tr, l) = (r, s1)" by (cases "?body (tr, l)")
    have "scratches_known tr (tr, l)" by (simp add: scratches_known_def made_known_def)
    from upholdsD [OF known_body this run] have "scratches_known tr s1" .
    moreover obtain tr2 l2 where stop: "stop_recorded (exec c) (ctx_fuel c) d s1 = (Inr (), (tr2, l2))"
      using stop_recorded_returns [OF clock, of n d s1] unfolding n by (metis surj_pair)
    ultimately have "scratches_known tr (tr2, l2)" using upholdsD [OF known_stop] by blast
    then obtain es where es: "tr2 = es @ tr" "made_known (map sc_database (dl_scratches l2)) es"
      by (auto simp: scratches_known_def)
    obtain l3 fs where fs: "drop_scratches (exec c) (tr2, l2) = (Inr (), fs @ tr2, l3)" "drops_of (map sc_database (dl_scratches l2)) fs"
      using drop_scratches_run [of "exec c" tr2 l2] by blast
    have "fst (snd (try_finally ?body (clean_up (exec c) (ctx_fuel c) d) (tr, l))) = (fs @ es) @ tr"
      using run stop fs(1) es(1) by (simp add: try_finally_def clean_up_def andthen_def bind_def)
    moreover have "left_clean [] (fs @ es)"
      using es(2) fs(2) by (simp add: left_clean_append drops_of_def left_clean_none left_clean_known all_dropped_rev)
    ultimately show "\<exists>es. fst (snd (try_finally ?body (clean_up (exec c) (ctx_fuel c) d) (tr, l))) = es @ tr \<and> left_clean [] es"
      by blast
  qed
  then show ?thesis
    unfolding drill_run_def andthen_def [of "try_finally m f" for m f] by (rule cleantrace.trace_then) (rule end_harmless)
qed

text \<open>
  Property C13. Every scratch database that a drill creates is dropped by the same drill, and so is the role of that
  name, whatever the host answers and wherever the drill fails: after each \<^verbatim>\<open>createdb\<close> come a \<^verbatim>\<open>dropdb\<close> and a
  \<^verbatim>\<open>DROP ROLE\<close> for its name. The clock has to go on and the loop bound has to cover the twenty seconds the stopped
  instance is waited for.
\<close>

theorem drill_drops_its_databases:
  assumes "clock_ok (exec c)" and "42 \<le> ctx_fuel c"
  shows "\<exists>es. fst (snd ((drill digest row c sid chosen b :: ('l, nat \<times> drill_state) prog) (tr, l))) = es @ tr \<and> left_clean [] es"
proof -
  have "trace_ok False (\<lambda>tr. left_clean []) (drill digest row c sid chosen b :: ('l, nat \<times> drill_state) prog)"
  proof (rule cleantrace.trace_drill)
    show "trace_ok False (\<lambda>tr. left_clean []) (with_state fresh_drill (drill_run digest c svc d ns bk sp b) :: ('l, drill_state) prog)"
      for svc d ns bk sp
      using clean_up_trace [OF assms] by (simp add: trace_ok_def with_state_trace)
  qed
  then show ?thesis by (simp add: trace_ok_def)
qed

section \<open>An example\<close>

text \<open>A service with one database, a backup of it in \<^verbatim>\<open>/b\<close>, and an instance that exits on its first signal.\<close>

definition drilled_cfg :: drill_cfg where
  "drilled_cfg =
     \<lparr>dc_port = 5001, dc_databases = [(''app'', ''DATABASE_URL'', ''DIRECT_URL'')], dc_env = [(''VALKEY_URL'', ''redis://x'')], dc_dirs = [''data''],
      dc_command = Some [''/usr/bin/node'', ''app.js''], dc_unit = None, dc_production_port = Some 4000, dc_bind = [], dc_requires = [],
      dc_ready = ''/ready'', dc_ready_timeout = 30, dc_compare = [\<lparr>cc_path = ''/api'', cc_ignore = []\<rparr>], dc_counts = [(''app'', ''users'')],
      dc_counts_tolerance = 0, dc_acceptance = [\<lparr>ac_path = ''/'', ac_status = 200, ac_keys = []\<rparr>], dc_outbound = False, dc_runtime_max = 900\<rparr>"

definition drilled_host :: host where
  "drilled_host = (sample_host [] 200)\<lparr>
     h_run := (\<lambda>tr cmd args opts. said 0 (if cmd = ''systemctl'' then (if args ! 1 = ''app.service'' then ''MainPID=5'' else ''MainPID=77'') else [])),
     h_stat := (\<lambda>tr p. if p = ''/b'' then Some \<lparr>st_is_file = False, st_is_dir = True, st_is_symlink = False, st_nlink = 1, st_size = 0, st_mtime = 0, st_uid = 0, st_owner = ''root'', st_mode = 0\<rparr>
        else if p = ''/b/app.dump'' then Some \<lparr>st_is_file = True, st_is_dir = False, st_is_symlink = False, st_nlink = 1, st_size = 9, st_mtime = 0, st_uid = 0, st_owner = ''root'', st_mode = 0\<rparr> else None),
     h_statfs := (\<lambda>tr p. Inr 4294967296), h_psql := (\<lambda>tr d q. Inr (if d = ''postgres'' then [] else [[(''n'', Some ''3'')]]))\<rparr>"

definition drilled_ctx :: ctx where
  "drilled_ctx = (sample_ctx [] 200)\<lparr>exec := drilled_host, ctx_fuel := 42,
     inv := sample_inventory\<lparr>inv_services := [(''app'', sample_service\<lparr>s_databases := [\<lparr>db_name = ''app'', db_database = ''app'', db_engine = ''postgresql''\<rparr>],
       s_drill := Some (Drill_On drilled_cfg)\<rparr>)]\<rparr>\<rparr>"

lemma drilled_creates:
  "List.map_filter made_database (fst (snd (restore_database drilled_host ''app'' \<lparr>dn_tmp = ''/drills/app'', dn_unit = ''u'', dn_stamp = ''0''\<rparr> 1
     (0, \<lparr>df_name = ''app'', df_file = ''/b/app.dump'', df_database = ''app'', df_url = ''DATABASE_URL'', df_direct_url = ''DIRECT_URL''\<rparr>)
     ([], fresh_drill)))) = [''ov_app_drill_0'']"
  by code_simp

lemma drilled_clock: "clock_ok (exec drilled_ctx)"
  by (auto simp: clock_ok_def drilled_ctx_def drilled_host_def sample_host_def slept_def split: event.split)

theorem drill_drops_its_databases_witness:
  "clock_ok (exec drilled_ctx) \<and> 42 \<le> ctx_fuel drilled_ctx \<and>
   (\<exists>es. fst (snd ((drill (\<lambda>s. s) (\<lambda>l. []) drilled_ctx ''app'' (Some ''/b'') False :: (unit, nat \<times> drill_state) prog) ([], ()))) = es @ [] \<and>
     left_clean [] es)"
proof (intro conjI)
  show fuel: "42 \<le> ctx_fuel drilled_ctx" by (simp add: drilled_ctx_def)
  show "\<exists>es. fst (snd ((drill (\<lambda>s. s) (\<lambda>l. []) drilled_ctx ''app'' (Some ''/b'') False :: (unit, nat \<times> drill_state) prog) ([], ()))) = es @ [] \<and>
     left_clean [] es"
    by (rule drill_drops_its_databases [OF drilled_clock fuel])
qed (rule drilled_clock)

end
