(* ===== verification/Drill_Passes.thy ===== *)
theory Drill_Passes
  imports Drill_Drops
begin

text \<open>
  What a drill that passes has done: every database and object directory of the backup was restored and checked,
  the instance answered, agreed with production, passed its acceptance checks and was stopped.
\<close>

section \<open>What the record of a passed drill says\<close>

definition database_restored :: "database_check \<Rightarrow> bool" where
  "database_restored k \<longleftrightarrow> dk_integrity k = Some ''pg_restore --list ok''"

text \<open>The name of an object directory, and whether its files are named by their hash.\<close>

definition object_restored :: "str \<times> bool \<Rightarrow> object_check \<Rightarrow> bool" where
  "object_restored ob k \<longleftrightarrow>
     og_name k = fst ob \<and>
     (if snd ob then og_integrity k = Some ''sha256 ok'' \<and> og_mismatches k = 0
      else og_integrity k = Some ''archive only (blobs are not content-addressed on disk)'')"

definition came_up :: "drill_cfg \<Rightarrow> drill_state \<Rightarrow> bool" where
  "came_up d l \<longleftrightarrow> (case dl_ready l of None \<Rightarrow> False | Some k \<Rightarrow> rk_ok k \<and> rk_url k = drill_url (dc_port d) (dc_ready d))"

text \<open>How far the body of a drill has come.\<close>

definition all_restored :: "str list \<Rightarrow> (str \<times> bool) list \<Rightarrow> drill_state \<Rightarrow> bool" where
  "all_restored dbs obs l \<longleftrightarrow>
     map dk_name (dl_databases l) = dbs \<and> list_all database_restored (dl_databases l) \<and>
     list_all2 object_restored obs (dl_objects l)"

definition compared_to :: "str list \<Rightarrow> (str \<times> str) list \<Rightarrow> str list \<Rightarrow> drill_state \<Rightarrow> bool" where
  "compared_to cs ns as l \<longleftrightarrow>
     map cp_path (dl_compare l) = cs \<and> map (\<lambda>k. (ck_db k, ck_table k)) (dl_counts l) = ns \<and> map ak_path (dl_acceptance l) = as"

definition agreed :: "drill_state \<Rightarrow> bool" where
  "agreed l \<longleftrightarrow> list_all cp_match (dl_compare l) \<and> list_all ck_match (dl_counts l)"

definition accepted :: "drill_state \<Rightarrow> bool" where
  "accepted l \<longleftrightarrow> list_all (\<lambda>a. ak_detail a = None) (dl_acceptance l)"

definition stopped :: "drill_state \<Rightarrow> bool" where
  "stopped l \<longleftrightarrow> (case dl_stop l of None \<Rightarrow> False | Some k \<Rightarrow> sk_ok k \<and> sk_pid k = dl_pid l)"

text \<open>What holds at a point of the body; the flags say that the instance was started, came up, and agreed with production.\<close>

definition at_stage ::
  "drill_cfg \<Rightarrow> str list \<Rightarrow> (str \<times> bool) list \<Rightarrow> bool \<Rightarrow> bool \<Rightarrow> str list \<Rightarrow> (str \<times> str) list \<Rightarrow> bool \<Rightarrow> str list \<Rightarrow> drill_state \<Rightarrow> bool" where
  "at_stage d dbs obs started up cs ns same as l \<longleftrightarrow>
     all_restored dbs obs l \<and> compared_to cs ns as l \<and>
     (started \<longrightarrow> dl_pid l \<noteq> None) \<and> (up \<longrightarrow> came_up d l) \<and> (same \<longrightarrow> agreed l)"

text \<open>A property of the record that notes of a failure, a scratch or a directory do not touch.\<close>

locale recorded =
  fixes Q :: "drill_state \<Rightarrow> bool"
  assumes kept: "Q l \<Longrightarrow> Q (l\<lparr>dl_failure := v1\<rparr>)" "Q l \<Longrightarrow> Q (l\<lparr>dl_created := v2\<rparr>)" "Q l \<Longrightarrow> Q (l\<lparr>dl_kept := v3\<rparr>)"
    "Q l \<Longrightarrow> Q (l\<lparr>dl_scratches := v4\<rparr>)" "Q l \<Longrightarrow> Q (l\<lparr>dl_production := v5\<rparr>)"

sublocale recorded \<subseteq> quiet_invariant "\<lambda>s. Q (snd s)"
  by unfold_locales (simp_all add: kept)

sublocale recorded \<subseteq> anything: stable_under "\<lambda>e. True" "\<lambda>s. Q (snd s)"
  by unfold_locales simp

interpretation stage: recorded "at_stage d dbs obs started up cs ns same as" for d dbs obs started up cs ns same as
  by unfold_locales (simp_all add: at_stage_def all_restored_def compared_to_def came_up_def agreed_def)

lemma leads_abort: "leads P (abort a b) Q"
  by (simp add: leads_def abort_def andthen_def bind_def modl_def throw_def)

lemma leads_then_abort: "leads P (andthen m (abort a b)) Q"
  by (auto simp: leads_def abort_def andthen_def bind_def modl_def throw_def split: prod.splits sum.splits)

section \<open>Restoring\<close>

lemma on_last_append [simp]: "on_last f (xs @ [x]) = xs @ [f x]"
proof (induction xs)
  case (Cons y ys)
  then show ?case by (cases ys) auto
qed simp

text \<open>An entry under way: everything before it is good.\<close>

definition restoring_database :: "drill_cfg \<Rightarrow> str list \<Rightarrow> str \<Rightarrow> drill_state \<Rightarrow> bool" where
  "restoring_database d dbs n l \<longleftrightarrow>
     (\<exists>ks k. dl_databases l = ks @ [k] \<and> dk_name k = n \<and> at_stage d dbs [] False False [] [] False [] (l\<lparr>dl_databases := ks\<rparr>))"

interpretation entry: recorded "restoring_database d dbs n" for d dbs n
  by unfold_locales (simp_all add: restoring_database_def at_stage_def all_restored_def compared_to_def)

lemma leads_restore_database:
  "leads (\<lambda>s. at_stage d dbs [] False False [] [] False [] (snd s)) (restore_database H sid ns n x)
     (\<lambda>_ s. at_stage d (dbs @ [df_name (snd x)]) [] False False [] [] False [] (snd s))"
proof -
  obtain i f where x: "x = (i, f)" by (cases x)
  let ?P = "\<lambda>s. at_stage d dbs [] False False [] [] False [] (snd s)" and ?E = "\<lambda>s. restoring_database d dbs (df_name f) (snd s)"
    and ?Q = "\<lambda>s. at_stage d (dbs @ [df_name f]) [] False False [] [] False [] (snd s)"
  have check: "leads ?E (try_catch (bind (verify_dump H copy u) (\<lambda>_. ret ()))
      (\<lambda>e. andthen (note_database (\<lambda>k. k\<lparr>dk_integrity := Some (''error: '' @ exc_message e)\<rparr>)) (abort ''integrity'' (exc_message e))))
      (\<lambda>_. ?E)" for copy u
    by (intro leads_caught leads_upholds upholds_rules leads_then_abort)
  have entered: "leads ?P (modl (\<lambda>l. l\<lparr>dl_databases := dl_databases l @
      [\<lparr>dk_name = df_name f, dk_source = a, dk_copy = b, dk_bytes = z, dk_integrity = None\<rparr>]\<rparr>)) (\<lambda>_. ?E)" for a b z
    by (rule leads_modl) (simp add: restoring_database_def)
  have good: "leads ?E (note_database (\<lambda>k. k\<lparr>dk_integrity := Some ''pg_restore --list ok''\<rparr>)) (\<lambda>_. ?Q)"
    unfolding note_database_def
    by (rule leads_modl) (auto simp: restoring_database_def at_stage_def all_restored_def compared_to_def database_restored_def)
  have create: "upholds ?Q (create_database H m o')" for m o'
    unfolding create_database_def run_pg_def by (intro upholds_rules) simp_all
  show ?thesis
    unfolding restore_database_def Let_def x prod.case snd_conv
    by (intro leads_keep leads_cases leads_abort upholds_rules leads_andthen [OF entered] leads_andthen [OF check]
        leads_then_keep [OF good] create) (simp_all add: stage.kept)
qed

text \<open>The same for an object directory.\<close>

definition restoring_object :: "drill_cfg \<Rightarrow> str list \<Rightarrow> (str \<times> bool) list \<Rightarrow> str \<Rightarrow> (object_check \<Rightarrow> bool) \<Rightarrow> drill_state \<Rightarrow> bool" where
  "restoring_object d dbs obs n G l \<longleftrightarrow>
     (\<exists>ks k. dl_objects l = ks @ [k] \<and> og_name k = n \<and> G k \<and> at_stage d dbs obs False False [] [] False [] (l\<lparr>dl_objects := ks\<rparr>))"

interpretation object: recorded "restoring_object d dbs obs n G" for d dbs obs n G
  by unfold_locales (simp_all add: restoring_object_def at_stage_def all_restored_def compared_to_def)

lemma leads_note_object:
  "(\<And>k. og_name (f k) = og_name k) \<Longrightarrow> (\<And>k. F k \<Longrightarrow> G (f k)) \<Longrightarrow>
   leads (\<lambda>s. restoring_object d dbs obs n F (snd s)) (note_object f) (\<lambda>_ s. restoring_object d dbs obs n G (snd s))"
  unfolding note_object_def by (rule leads_modl) (auto simp: restoring_object_def at_stage_def all_restored_def compared_to_def)

lemma upholds_note_object:
  "(\<And>k. og_name (f k) = og_name k) \<Longrightarrow> upholds (\<lambda>s. restoring_object d dbs obs n (\<lambda>_. True) (snd s)) (note_object f)"
  unfolding note_object_def by (rule upholds_modl) (auto simp: restoring_object_def at_stage_def all_restored_def compared_to_def)

lemma leads_verify_blobs:
  "leads (\<lambda>s. restoring_object d dbs obs n (\<lambda>_. True) (snd s)) (verify_object_blobs digest H fuel dir)
     (\<lambda>_ s. restoring_object d dbs obs n (\<lambda>k. og_mismatches k = 0) (snd s))"
proof -
  let ?E = "\<lambda>s. restoring_object d dbs obs n (\<lambda>_. True) (snd s)"
  have blob: "upholds ?E (check_blob digest H bad p)" for bad p
    unfolding check_blob_def sha256_stream_def by (intro upholds_rules upholds_note_object) simp_all
  have tail: "leads ?E (andthen (note_object (\<lambda>k. k\<lparr>og_mismatches := length bad\<rparr>))
      (if bad \<noteq> [] then throw (JsError m) else ret ())) (\<lambda>_ s. restoring_object d dbs obs n (\<lambda>k. og_mismatches k = 0) (snd s))" for bad m
  proof (cases bad)
    case Nil
    then show ?thesis by (auto intro!: leads_then_keep leads_note_object upholds_rules)
  next
    case (Cons y ys)
    then show ?thesis by (auto intro!: leads_andthen leads_throw leads_note_object)
  qed
  show ?thesis
    unfolding verify_object_blobs_def by (intro leads_keep tail upholds_rules blob)
qed

lemma leads_restore_object:
  "leads (\<lambda>s. at_stage d dbs obs False False [] [] False [] (snd s)) (restore_object digest H fuel svc ns ob)
     (\<lambda>_ s. at_stage d dbs (obs @ [(do_name ob, do_verify ob)]) False False [] [] False [] (snd s))"
proof -
  let ?P = "\<lambda>s. at_stage d dbs obs False False [] [] False [] (snd s)"
    and ?E = "\<lambda>s. restoring_object d dbs obs (do_name ob) (\<lambda>_. True) (snd s)"
    and ?G = "\<lambda>s. restoring_object d dbs obs (do_name ob) (\<lambda>k. og_mismatches k = 0) (snd s)"
    and ?Q = "\<lambda>s. at_stage d dbs (obs @ [(do_name ob, do_verify ob)]) False False [] [] False [] (snd s)"
  have entered: "leads ?P (modl (\<lambda>l. l\<lparr>dl_objects := dl_objects l @ [\<lparr>og_name = do_name ob, og_source = a, og_copy = b, og_blobs = 0,
      og_skipped = 0, og_bytes = 0, og_mismatches = 0, og_integrity = None\<rparr>]\<rparr>)) (\<lambda>_. ?E)" for a b
    by (rule leads_modl) (simp add: restoring_object_def)
  have check: "leads ?E (try_catch (verify_object_blobs digest H fuel dest)
      (\<lambda>e. andthen (note_object (\<lambda>k. k\<lparr>og_integrity := Some (''error: '' @ exc_message e)\<rparr>)) (abort ''objects'' (exc_message e)))) (\<lambda>_. ?G)" for dest
    by (intro leads_caught leads_verify_blobs leads_then_abort)
  have noted: "leads (\<lambda>s. restoring_object d dbs obs (do_name ob) F (snd s)) (note_object (\<lambda>k. k\<lparr>og_integrity := Some m\<rparr>)) (\<lambda>_. ?Q)"
    if "\<And>k. F k \<Longrightarrow> og_name k = do_name ob \<Longrightarrow> object_restored (do_name ob, do_verify ob) (k\<lparr>og_integrity := Some m\<rparr>)" for F m
    unfolding note_object_def using that
    by (intro leads_modl) (auto simp: restoring_object_def at_stage_def all_restored_def compared_to_def intro!: list_all2_appendI)
  have tail: "leads ?E (if \<not> do_verify ob then note_object (\<lambda>k. k\<lparr>og_integrity := Some ''archive only (blobs are not content-addressed on disk)''\<rparr>)
      else andthen (try_catch (verify_object_blobs digest H fuel dest)
          (\<lambda>e. andthen (note_object (\<lambda>k. k\<lparr>og_integrity := Some (''error: '' @ exc_message e)\<rparr>)) (abort ''objects'' (exc_message e))))
        (note_object (\<lambda>k. k\<lparr>og_integrity := Some ''sha256 ok''\<rparr>))) (\<lambda>_. ?Q)" for dest
  proof (cases "do_verify ob")
    case True
    have "leads ?G (note_object (\<lambda>k. k\<lparr>og_integrity := Some ''sha256 ok''\<rparr>)) (\<lambda>_. ?Q)"
      by (rule noted) (simp add: object_restored_def True)
    with True show ?thesis using leads_andthen [OF check] by simp
  next
    case False
    have "leads ?E (note_object (\<lambda>k. k\<lparr>og_integrity := Some ''archive only (blobs are not content-addressed on disk)''\<rparr>)) (\<lambda>_. ?Q)"
      by (rule noted) (simp add: object_restored_def False)
    with False show ?thesis by simp
  qed
  have "upholds ?P (exec_mkdir H q w)" "upholds ?P (extract_archive H q w')" for q w w' by (intro upholds_rules; simp)+
  then show ?thesis
    unfolding restore_object_def Let_def
    by (intro leads_keep_then [where P = ?P and m = "exec_mkdir H q w" for q w]
        leads_keep_then [where P = ?P and m = "extract_archive H q w" for q w] leads_andthen [OF entered tail])
qed

lemma indexed_files: "map (\<lambda>x. df_name (snd x)) (indexed fs) = map df_name fs"
proof -
  have "map df_name (map snd (indexed fs)) = map df_name fs" by (simp add: indexed_def)
  then show ?thesis by (simp add: comp_def)
qed

lemma leads_restore_all:
  "leads (\<lambda>s. at_stage d [] [] False False [] [] False [] (snd s)) (restore_all digest c svc d0 ns bk)
     (\<lambda>_ s. at_stage d (map df_name (kb_files bk)) (map (\<lambda>ob. (do_name ob, do_verify ob)) (kb_objects bk)) False False [] [] False [] (snd s))"
proof -
  have files: "leads (\<lambda>s. at_stage d [] [] False False [] [] False [] (snd s)) (each (restore_database (exec c) (s_id svc) ns n) (indexed (kb_files bk)))
      (\<lambda>_ s. at_stage d (map df_name (kb_files bk)) [] False False [] [] False [] (snd s))" for n
    using leads_each [where P = "\<lambda>xs s. at_stage d (map (\<lambda>x. df_name (snd x)) xs) [] False False [] [] False [] (snd s)"
        and ys = "[]" and xs = "indexed (kb_files bk)" and f = "restore_database (exec c) (s_id svc) ns n"]
      leads_restore_database by (simp add: indexed_files)
  have objects: "leads (\<lambda>s. at_stage d dbs [] False False [] [] False [] (snd s)) (each (restore_object digest (exec c) (ctx_fuel c) svc ns) (kb_objects bk))
      (\<lambda>_ s. at_stage d dbs (map (\<lambda>ob. (do_name ob, do_verify ob)) (kb_objects bk)) False False [] [] False [] (snd s))" for dbs
    using leads_each [where P = "\<lambda>xs s. at_stage d dbs (map (\<lambda>ob. (do_name ob, do_verify ob)) xs) False False [] [] False [] (snd s)"
        and ys = "[]" and xs = "kb_objects bk" and f = "restore_object digest (exec c) (ctx_fuel c) svc ns"]
      leads_restore_object by simp
  show ?thesis
    unfolding restore_all_def Let_def
    by (intro leads_keep_then leads_andthen [OF files] objects upholds_rules)
qed

section \<open>Starting, comparing, accepting\<close>

lemma leads_start:
  "leads (\<lambda>s. at_stage d dbs obs False False cs ns False as (snd s)) (start_instance H svc d0 sp dn fs)
     (\<lambda>_ s. at_stage d dbs obs True False cs ns False as (snd s))"
proof -
  let ?P = "\<lambda>s. at_stage d dbs obs False False cs ns False as (snd s)"
  have production: "upholds ?P (each (note_production H) us)" for us
    unfolding note_production_def by (intro upholds_rules) (simp add: stage.kept)
  have adopt: "leads ?P (adopt_instance H dn) (\<lambda>_ s. at_stage d dbs obs True False cs ns False as (snd s))"
    unfolding adopt_instance_def
    by (intro leads_keep leads_cases leads_abort upholds_rules upholds_getl leads_modl)
      (auto simp: at_stage_def all_restored_def compared_to_def)
  have run: "upholds ?P (exec_run H c args opts)" "upholds ?P (exec_write H q t)" for c args opts q t
    by (intro stage.anything.upholds_exec; simp)+
  show ?thesis
    unfolding start_instance_def type_fault_def
    by (intro leads_keep [OF upholds_getl] leads_cases leads_throw leads_abort leads_keep [OF run(1)] leads_keep_then [OF run(2)]
        leads_keep_then [OF production] adopt)
qed

lemma leads_await_ready:
  "leads (\<lambda>s. at_stage d dbs obs True False cs ns False as (snd s)) (await_ready H n d0 t0 r)
     (\<lambda>_ s. at_stage d dbs obs True False cs ns False as (snd s))"
proof (induction n arbitrary: r)
  case 0
  then show ?case by (simp add: leads_throw)
next
  case (Suc n)
  have gone: "upholds (\<lambda>s. at_stage d dbs obs True False cs ns False as (snd s)) (pid_gone H)"
    unfolding pid_gone_def by (intro upholds_rules upholds_getl) simp_all
  show ?case
    unfolding await_ready.simps
    by (intro leads_keep [OF gone] leads_keep_then leads_keep leads_cases leads_then_abort leads_ret Suc stage.upholds_exec) simp_all
qed

lemma leads_check_ready:
  "leads (\<lambda>s. at_stage d dbs obs True False cs ns False as (snd s)) (check_ready H n d)
     (\<lambda>_ s. at_stage d dbs obs True True cs ns False as (snd s))"
proof -
  let ?P = "\<lambda>s. at_stage d dbs obs True False cs ns False as (snd s)"
  have noted: "?P (tr, l) \<Longrightarrow> ?P (tr, l\<lparr>dl_ready := v\<rparr>)" for tr l v
    by (simp add: at_stage_def all_restored_def compared_to_def)
  have tail: "leads ?P (andthen (modl (\<lambda>l. l\<lparr>dl_ready := Some \<lparr>rk_url = drill_url (dc_port d) (dc_ready d), rk_ok = good,
      rk_status = a, rk_seconds = b\<rparr>\<rparr>)) (if good then ret () else abort e m))
      (\<lambda>_ s. at_stage d dbs obs True True cs ns False as (snd s))" for good a b e m
  proof (cases good)
    case True
    then show ?thesis
      by (auto intro!: leads_then_keep leads_modl upholds_pure simp: at_stage_def all_restored_def compared_to_def came_up_def agreed_def)
  qed (simp add: leads_then_abort)
  have now: "upholds ?P (exec_now H)" by (intro stage.upholds_exec) simp
  show ?thesis
    unfolding check_ready_def Let_def
    by (intro leads_keep [OF now] leads_keep_then [OF upholds_modl] leads_bind [OF leads_await_ready] tail noted) 
qed

lemma compare_path [simp]: "cp_path (compare_bodies e a b) = cc_path e"
  by (simp add: compare_bodies_def differs_def same_answer_def Let_def split: option.split)

lemma leads_compare_one:
  "leads (\<lambda>s. at_stage d dbs obs True True cs [] False [] (snd s)) (compare_one H d0 e)
     (\<lambda>_ s. at_stage d dbs obs True True (cs @ [cc_path e]) [] False [] (snd s))"
  unfolding compare_one_def
  by (intro leads_keep leads_modl stage.upholds_exec) (auto simp: at_stage_def all_restored_def compared_to_def came_up_def)

lemma leads_compare_count:
  "leads (\<lambda>s. at_stage d dbs obs True True cs ns False [] (snd s)) (compare_count H svc d0 y)
     (\<lambda>_ s. at_stage d dbs obs True True cs (ns @ [fst y]) False [] (snd s))"
  unfolding compare_count_def
  by (intro leads_cases leads_keep leads_modl stage.upholds_counts) (auto simp: at_stage_def all_restored_def compared_to_def came_up_def)

lemma leads_check_same:
  "leads (\<lambda>s. at_stage d dbs obs True True cs ns False [] (snd s)) check_same
     (\<lambda>_ s. at_stage d dbs obs True True cs ns True [] (snd s))"
  unfolding check_same_def
  by (intro leads_bind_getl leads_cases leads_abort leads_ret) (auto simp: at_stage_def agreed_def)

lemma leads_accept_one:
  "leads (\<lambda>s. at_stage d dbs obs True True cs ns True as (snd s)) (accept_one H d0 a)
     (\<lambda>_ s. at_stage d dbs obs True True cs ns True (as @ [ac_path a]) (snd s))"
  unfolding accept_one_def Let_def
  by (intro leads_keep leads_modl stage.upholds_exec) (auto simp: at_stage_def all_restored_def compared_to_def came_up_def agreed_def)

lemma leads_check_accepted:
  "leads (\<lambda>s. at_stage d dbs obs True True cs ns True as (snd s)) check_accepted
     (\<lambda>_ s. at_stage d dbs obs True True cs ns True as (snd s) \<and> accepted (snd s))"
  unfolding check_accepted_def
  by (intro leads_bind_getl leads_cases leads_abort leads_ret) (auto simp: accepted_def)

text \<open>A body that returns has done everything.\<close>

definition body_done :: "drill_cfg \<Rightarrow> str list \<Rightarrow> (str \<times> bool) list \<Rightarrow> drill_state \<Rightarrow> bool" where
  "body_done d dbs obs l \<longleftrightarrow>
     at_stage d dbs obs True True (map cc_path (dc_compare d)) (dc_counts d) True (map ac_path (dc_acceptance d)) l \<and> accepted l"

lemma leads_check_copy_runs:
  assumes "length counts = length (dc_counts d)"
  shows "leads (\<lambda>s. at_stage d dbs obs True False [] [] False [] (snd s)) (check_copy_runs c svc d counts)
     (\<lambda>_ s. body_done d dbs obs (snd s))"
proof -
  have compares: "leads (\<lambda>s. at_stage d dbs obs True True [] [] False [] (snd s)) (each (compare_one H d) es)
      (\<lambda>_ s. at_stage d dbs obs True True (map cc_path es) [] False [] (snd s))" for H es
    using leads_each [where P = "\<lambda>xs s. at_stage d dbs obs True True (map cc_path xs) [] False [] (snd s)"
        and ys = "[]" and xs = es and f = "compare_one H d"] leads_compare_one by simp
  have counted: "leads (\<lambda>s. at_stage d dbs obs True True cs [] False [] (snd s)) (each (compare_count H svc d) ys)
      (\<lambda>_ s. at_stage d dbs obs True True cs (map fst ys) False [] (snd s))" for H ys cs
    using leads_each [where P = "\<lambda>xs s. at_stage d dbs obs True True cs (map fst xs) False [] (snd s)"
        and ys = "[]" and xs = ys and f = "compare_count H svc d"] leads_compare_count by simp
  have accepts: "leads (\<lambda>s. at_stage d dbs obs True True cs ns True [] (snd s)) (each (accept_one H d) ys)
      (\<lambda>_ s. at_stage d dbs obs True True cs ns True (map ac_path ys) (snd s))" for H ys cs ns
    using leads_each [where P = "\<lambda>xs s. at_stage d dbs obs True True cs ns True (map ac_path xs) (snd s)"
        and ys = "[]" and xs = ys and f = "accept_one H d"] leads_accept_one by simp
  have "map fst (zip (dc_counts d) counts) = dc_counts d" using assms by simp
  with counted [where ys = "zip (dc_counts d) counts"] have all_counted:
    "leads (\<lambda>s. at_stage d dbs obs True True cs [] False [] (snd s)) (each (compare_count H svc d) (zip (dc_counts d) counts))
      (\<lambda>_ s. at_stage d dbs obs True True cs (dc_counts d) False [] (snd s))" for H cs by simp
  show ?thesis
    unfolding check_copy_runs_def Let_def body_done_def
    by (intro leads_andthen [OF leads_check_ready] leads_andthen [OF compares] leads_andthen [OF all_counted]
        leads_andthen [OF leads_check_same] leads_andthen [OF accepts] leads_check_accepted)
qed

lemma leads_body:
  "leads (\<lambda>s. at_stage d [] [] False False [] [] False [] (snd s)) (drill_body digest c svc d ns bk sp)
     (\<lambda>_ s. body_done d (map df_name (kb_files bk)) (map (\<lambda>ob. (do_name ob, do_verify ob)) (kb_objects bk)) (snd s))"
proof -
  let ?P = "\<lambda>s. at_stage d (map df_name (kb_files bk)) (map (\<lambda>ob. (do_name ob, do_verify ob)) (kb_objects bk)) False False [] [] False [] (snd s)"
  have counts: "leads ?P (mapp (restored_count (exec c)) (dc_counts d)) (\<lambda>ns s. ?P s \<and> length ns = length (dc_counts d))"
  proof -
    have "returns (\<lambda>ns. map (\<lambda>n. ()) ns = map (\<lambda>x. ()) (dc_counts d)) (mapp (restored_count (exec c)) (dc_counts d))"
      by (rule returns_mapp_map) (simp add: returns_def)
    moreover have "upholds ?P (mapp (restored_count (exec c)) (dc_counts d))" by (intro upholds_rules)
    ultimately show ?thesis
      unfolding leads_def returns_def by (metis (mono_tags, lifting) length_map upholdsD)
  qed
  have tail: "leads (\<lambda>s. ?P s \<and> length counts = length (dc_counts d))
      (andthen (start_instance (exec c) svc d sp ns (kb_files bk)) (check_copy_runs c svc d counts))
      (\<lambda>_ s. body_done d (map df_name (kb_files bk)) (map (\<lambda>ob. (do_name ob, do_verify ob)) (kb_objects bk)) (snd s))" for counts
  proof (cases "length counts = length (dc_counts d)")
    case True
    then show ?thesis by (auto intro!: leads_andthen [OF leads_start] leads_check_copy_runs)
  qed (simp add: leads_def)
  show ?thesis
    unfolding drill_body_def by (intro leads_andthen [OF leads_restore_all] leads_bind [OF counts] tail)
qed

section \<open>The end of a run\<close>

definition stop_noted :: "drill_state \<Rightarrow> bool" where
  "stop_noted l \<longleftrightarrow> (case dl_stop l of None \<Rightarrow> False | Some k \<Rightarrow> sk_ok k \<longrightarrow> sk_pid k = dl_pid l)"

interpretation local: stable_under "\<lambda>e. True" "\<lambda>s. Q (snd s)" for Q
  by unfold_locales simp

lemma upholds_stop_instance: "upholds (\<lambda>s. Q (snd s)) (stop_instance H n pid port ps)"
proof -
  have exit: "upholds (\<lambda>s. Q (snd s)) (await_exit H n p t0 killed)" for p t0 killed
  proof (induction n arbitrary: killed)
    case (Suc n)
    show ?case unfolding await_exit.simps
      by (intro upholds_bind upholds_andthen upholds_cases upholds_pure local.upholds_exec Suc) simp_all
  qed (simp add: upholds_pure)
  show ?thesis
    unfolding stop_instance_def
    by (intro upholds_bind upholds_andthen upholds_cases upholds_pure local.upholds_exec exit) simp_all
qed

lemma leads_stop:
  "leads (\<lambda>s. body_done d dbs obs (snd s)) (stop_recorded H n d0)
     (\<lambda>_ s. body_done d dbs obs (snd s) \<and> stop_noted (snd s))"
proof -
  have stop: "returns (\<lambda>r. case r of None \<Rightarrow> False | Some k \<Rightarrow> sk_ok k \<longrightarrow> sk_pid k = Some p) (stop_instance H n (Some p) port ps)" for p port ps
    unfolding stop_instance_def option.case by (intro returns_rules) (auto intro!: returns_rules split: option.split)
  show ?thesis
    unfolding leads_def
  proof (intro allI impI)
    fix s u s' assume P: "body_done d dbs obs (snd s)" and run: "stop_recorded H n d0 s = (Inr u, s')"
    obtain tr l where s: "s = (tr, l)" by (cases s)
    from P s obtain p where p: "dl_pid l = Some p" by (auto simp: body_done_def at_stage_def)
    obtain x tr1 l1 where x: "stop_instance H n (Some p) (dc_port d0) (dl_production l) (tr, l) = (x, tr1, l1)"
      by (cases "stop_instance H n (Some p) (dc_port d0) (dl_production l) (tr, l)") auto
    have l1: "l1 = l" using upholdsD [OF upholds_stop_instance [where Q = "\<lambda>l'. l' = l"] _ x] by simp
    from run x p s l1 obtain r where r: "snd s' = l\<lparr>dl_stop := r\<rparr>"
        "x = Inr r \<or> (\<exists>k. r = Some k \<and> \<not> sk_ok k)"
      by (auto simp: stop_recorded_def run_iffs)
    have "case r of None \<Rightarrow> False | Some k \<Rightarrow> sk_ok k \<longrightarrow> sk_pid k = Some p"
    proof (cases "x = Inr r")
      case True
      show ?thesis by (rule returnsD [OF stop x [unfolded True]])
    qed (use r(2) in auto)
    with r(1) p P s show "body_done d dbs obs (snd s') \<and> stop_noted (snd s')"
      by (auto simp: stop_noted_def body_done_def at_stage_def all_restored_def compared_to_def came_up_def agreed_def accepted_def
          split: option.splits)
  qed
qed

interpretation body: recorded "body_done d dbs obs" for d dbs obs
  by unfold_locales (simp_all add: body_done_def at_stage_def all_restored_def compared_to_def came_up_def agreed_def accepted_def)

lemma recorded_conj: "recorded Q \<Longrightarrow> recorded R \<Longrightarrow> recorded (\<lambda>l. Q l \<and> R l)"
  by (simp add: recorded_def)

lemma recorded_stop: "recorded stop_noted" "recorded stopped"
  by unfold_locales (auto simp: stop_noted_def stopped_def split: option.splits)

interpretation finished: recorded "\<lambda>l. body_done d dbs obs l \<and> stop_noted l" for d dbs obs
  by (rule recorded_conj [OF body.recorded_axioms recorded_stop(1)])

interpretation ended: recorded "\<lambda>l. body_done d dbs obs l \<and> stopped l" for d dbs obs
  by (rule recorded_conj [OF body.recorded_axioms recorded_stop(2)])

text \<open>A failure, once noted, stays.\<close>

lemma failure_stays:
  "upholds (\<lambda>s. dl_failure (snd s) \<noteq> None) (clean_up H n d)" "upholds (\<lambda>s. dl_failure (snd s) \<noteq> None) (modl note_stuck)"
  "upholds (\<lambda>s. dl_failure (snd s) = v) (remove_drill_dir c ns b)"
proof -
  have stop: "upholds (\<lambda>s. dl_failure (snd s) \<noteq> None) (stop_instance H n pid port ps)" for pid port ps
    by (rule upholds_stop_instance [where Q = "\<lambda>l. dl_failure l \<noteq> None"])
  note rules = local.upholds_exec [where Q = "\<lambda>l. dl_failure l \<noteq> None"]
  have drop: "upholds (\<lambda>s. dl_failure (snd s) \<noteq> None) (drop_scratch H s)" for s
    unfolding drop_scratch_def drop_database_def run_pg_def drop_role_def psql_script_def
    by (intro upholds_bind upholds_andthen upholds_try_catch upholds_cases upholds_pure rules) simp_all
  show "upholds (\<lambda>s. dl_failure (snd s) \<noteq> None) (clean_up H n d)"
    unfolding clean_up_def stop_recorded_def drop_scratches_def
    by (intro upholds_bind upholds_andthen upholds_try_catch upholds_pure upholds_getl upholds_modl upholds_loops stop drop) simp_all
  show "upholds (\<lambda>s. dl_failure (snd s) \<noteq> None) (modl note_stuck)"
    by (rule upholds_modl) (auto simp: note_stuck_def note_failure_def split: option.split)
  show "upholds (\<lambda>s. dl_failure (snd s) = v) (remove_drill_dir c ns b)"
    unfolding remove_drill_dir_def Let_def
    by (intro upholds_bind upholds_cases upholds_getl upholds_modl upholds_pure local.upholds_exec [where Q = "\<lambda>l. dl_failure l = v"]) simp_all
qed

lemma note_stuck_none: "dl_failure (note_stuck l) = None \<Longrightarrow> stop_noted l \<Longrightarrow> note_stuck l = l \<and> stopped l"
  by (auto simp: note_stuck_def note_failure_def stop_noted_def stopped_def split: option.splits if_splits)

lemma leads_clean_up:
  "leads (\<lambda>s. body_done d dbs obs (snd s)) (clean_up H n d0) (\<lambda>_ s. body_done d dbs obs (snd s) \<and> stop_noted (snd s))"
proof -
  have "upholds (\<lambda>s. body_done d dbs obs (snd s) \<and> stop_noted (snd s)) (drop_scratches H)"
    unfolding drop_scratches_def drop_scratch_def
    by (intro upholds_bind upholds_try_catch upholds_cases upholds_getl upholds_modl upholds_loops upholds_pure upholds_andthen
        finished.upholds_database) (simp_all add: finished.kept body.kept recorded.kept [OF recorded_stop(1)])
  then show ?thesis unfolding clean_up_def by (intro leads_then_keep leads_stop)
qed

definition passed_every_check :: "service \<Rightarrow> drill_cfg \<Rightarrow> drill_state \<Rightarrow> bool" where
  "passed_every_check svc d l \<longleftrightarrow>
     all_restored (map fst (dc_databases d)) (map (\<lambda>ob. (ob_name ob, ob_verify ob)) (s_objects svc)) l \<and> came_up d l \<and>
     compared_to (map cc_path (dc_compare d)) (dc_counts d) (map ac_path (dc_acceptance d)) l \<and> agreed l \<and> accepted l \<and> stopped l"

lemma run_passes:
  assumes run: "drill_run digest c svc d ns bk sp b (tr, fresh_drill) = (Inr u, s')" and pass: "dl_failure (snd s') = None"
    and dbs: "map df_name (kb_files bk) = map fst (dc_databases d)"
    and obs: "map (\<lambda>ob. (do_name ob, do_verify ob)) (kb_objects bk) = map (\<lambda>ob. (ob_name ob, ob_verify ob)) (s_objects svc)"
  shows "passed_every_check svc d (snd s')"
proof -
  let ?body = "drill_body digest c svc d ns bk sp" and ?note = "\<lambda>e. modl (note_failure ''error'' (exc_message e)) :: (drill_state, unit) prog"
  from run obtain u1 s1 s2 u3 s3 where
    caught: "try_catch ?body ?note (tr, fresh_drill) = (Inr u1, s1)" and
    clean: "clean_up (exec c) (ctx_fuel c) d s1 = (Inr (), s2)" and
    stuck: "modl note_stuck s2 = (Inr u3, s3)" and remove: "remove_drill_dir c ns b s3 = (Inr u, s')"
    unfolding drill_run_def andthen_run try_finally_run by (elim exE conjE) (rule that, assumption+)
  have f3: "dl_failure (snd s3) = None"
    using upholdsD [OF failure_stays(3) _ remove, of "dl_failure (snd s3)"] pass by simp
  then have f2: "dl_failure (snd s2) = None"
    using upholdsD [OF failure_stays(2) _ stuck] by blast
  then have f1: "dl_failure (snd s1) = None"
    using upholdsD [OF failure_stays(1) _ clean] by blast
  have noted: "?note e (tr', l) = (Inr u1, s1) \<Longrightarrow> dl_failure (snd s1) \<noteq> None" for e tr' l
    by (auto simp: modl_def note_failure_def)
  have "?body (tr, fresh_drill) = (Inr u1, s1)"
    using caught f1 noted unfolding try_catch_run by blast
  moreover have "at_stage d [] [] False False [] [] False [] fresh_drill"
    by (simp add: at_stage_def all_restored_def compared_to_def fresh_drill_def)
  ultimately have "body_done d (map df_name (kb_files bk)) (map (\<lambda>ob. (do_name ob, do_verify ob)) (kb_objects bk)) (snd s1)"
    using leadsD [OF leads_body] by (metis (no_types, lifting) snd_conv)
  then have s2: "body_done d (map df_name (kb_files bk)) (map (\<lambda>ob. (do_name ob, do_verify ob)) (kb_objects bk)) (snd s2)" "stop_noted (snd s2)"
    using leadsD [OF leads_clean_up _ clean] by blast+
  have "snd s3 = note_stuck (snd s2)" using stuck by (cases s2) (auto simp: modl_def)
  with f3 s2(2) note_stuck_none have s3: "snd s3 = snd s2" "stopped (snd s2)" by metis+
  have "body_done d (map df_name (kb_files bk)) (map (\<lambda>ob. (do_name ob, do_verify ob)) (kb_objects bk)) (snd s') \<and> stopped (snd s')"
    by (rule upholdsD [OF ended.upholds_end(2) _ remove]) (use s2(1) s3 in simp)
  then show ?thesis
    unfolding dbs obs by (simp add: passed_every_check_def body_done_def at_stage_def)
qed

section \<open>A drill that passes\<close>

lemma returns_drill_of: "returns (\<lambda>d. s_drill svc = Some (Drill_On d)) (drill_of svc)"
  unfolding drill_of_def drill_fail_def by (auto intro!: returns_rules split: option.split drill_block.split)

lemma returns_resolve:
  "returns (\<lambda>bk. map df_name (kb_files bk) = map fst (dc_databases d) \<and>
     map (\<lambda>ob. (do_name ob, do_verify ob)) (kb_objects bk) = map (\<lambda>ob. (ob_name ob, ob_verify ob)) (s_objects svc))
   (resolve_backup H i svc d chosen)"
proof -
  have copy: "returns (\<lambda>f. df_name f = fst x) (drill_file_of H svc dir x)" for dir x
    unfolding drill_file_of_def type_fault_def Let_def by (auto intro!: returns_rules split: prod.split option.split)
  have ob: "returns (\<lambda>o'. (do_name o', do_verify o') = (ob_name ob, ob_verify ob)) (drill_object_of H dir r ob)" for dir r ob
    unfolding drill_object_of_def Let_def by (auto intro!: returns_rules)
  show ?thesis
    unfolding resolve_backup_def drill_fail_def
    by (intro returns_bind_any returns_prod returns_if returns_throw returns_bind [OF returns_mapp_map [OF copy]]
        returns_bind [OF returns_mapp_map [OF ob]] returns_ret) simp_all
qed

lemma returns_ready_to_drill: "returns (\<lambda>_. unmapped_databases svc d = []) (check_ready_to_drill H svc d)"
proof -
  have "returns (\<lambda>_. unmapped_databases svc d = []) (check_isolated svc d)"
    unfolding check_isolated_def drill_fail_def by (intro returns_rules) simp_all
  then show ?thesis
    unfolding check_ready_to_drill_def andthen_def by (rule returns_bind) (simp add: returns_def)
qed

lemma with_state_run:
  "with_state m0 p (tr, l) = (Inr m, s') \<Longrightarrow> \<exists>u tr'. p (tr, m0) = (Inr u, tr', m)"
  by (auto simp: with_state_def split: prod.splits sum.splits)

definition truthful_exit :: "ctx \<Rightarrow> str \<Rightarrow> nat \<times> drill_state \<Rightarrow> bool" where
  "truthful_exit c sid x =
     (case x of (code, l) \<Rightarrow>
        (if code = 0
         then \<exists>svc d. map_of (inv_services (inv c)) sid = Some svc \<and> s_drill svc = Some (Drill_On d) \<and>
           unmapped_databases svc d = [] \<and> dl_failure l = None \<and> passed_every_check svc d l
         else code = 2 \<and> dl_failure l \<noteq> None))"

lemma returns_drill: "returns (truthful_exit c sid) (drill digest row c sid chosen b)"
proof -
  have found: "returns (\<lambda>svc. map_of (inv_services i) sid = Some svc) (find_service i sid)" for i
    unfolding find_service_def by (auto intro!: returns_rules split: option.split)
  have run: "returns (\<lambda>l. dl_failure l = None \<longrightarrow> passed_every_check svc d l) (with_state fresh_drill (drill_run digest c svc d ns bk sp b))"
    if "map df_name (kb_files bk) = map fst (dc_databases d) \<and>
     map (\<lambda>ob. (do_name ob, do_verify ob)) (kb_objects bk) = map (\<lambda>ob. (ob_name ob, ob_verify ob)) (s_objects svc)" for svc d ns bk sp
    unfolding returns_def
  proof (intro allI impI)
    fix s l s' assume ran: "with_state fresh_drill (drill_run digest c svc d ns bk sp b) s = (Inr l, s')" and pass: "dl_failure l = None"
    obtain tr l0 where s: "s = (tr, l0)" by (cases s)
    from with_state_run [OF ran [unfolded s]] obtain u tr' where u: "drill_run digest c svc d ns bk sp b (tr, fresh_drill) = (Inr u, tr', l)"
      by blast
    show "passed_every_check svc d l" using run_passes [OF u] pass that by simp
  qed
  have written: "returns (truthful_exit c sid) (record_drill row c d ns bk h held l)"
    if "map_of (inv_services (inv c)) sid = Some svc" "s_drill svc = Some (Drill_On d)" "unmapped_databases svc d = []"
      "dl_failure l = None \<longrightarrow> passed_every_check svc d l" for svc d ns bk h held l
    unfolding record_drill_def using that by (auto simp: truthful_exit_def intro!: returns_bind_any returns_andthen returns_ret)
  show ?thesis
    unfolding drill_def Let_def drill_fail_def andthen_def [of "check_ready_to_drill H svc d" for H svc d]
    by (intro returns_bind [OF found] returns_if returns_throw returns_bind [OF returns_drill_of] returns_bind [OF returns_ready_to_drill]
        returns_bind [OF returns_resolve] returns_bind [OF run] returns_bind_any returns_prod written)
qed

text \<open>
  Property C14. A drill exits 0 only when it did everything that it is declared to do: every PostgreSQL database and every object
  directory of the service was restored from the backup and verified, the second instance came up, every declared
  path and row count agreed with production, every acceptance check passed, and the instance was confirmed stopped. Any
  other end that is not an error thrown to the caller is exit 2 with the failure in the record.
\<close>

theorem drill_exit_is_the_truth:
  "case fst ((drill digest row c sid chosen b :: ('l, nat \<times> drill_state) prog) s) of
     Inl e \<Rightarrow> True
   | Inr (code, l) \<Rightarrow>
       (if code = 0
        then \<exists>svc d. map_of (inv_services (inv c)) sid = Some svc \<and> s_drill svc = Some (Drill_On d) \<and>
          unmapped_databases svc d = [] \<and> dl_failure l = None \<and> passed_every_check svc d l
        else code = 2 \<and> dl_failure l \<noteq> None)"
proof -
  obtain r s' where Pair: "(drill digest row c sid chosen b :: ('l, nat \<times> drill_state) prog) s = (r, s')"
    by (metis surj_pair)
  show ?thesis
  proof (cases r)
    case (Inr x)
    have "truthful_exit c sid x" by (rule returnsD [OF returns_drill Pair [unfolded Inr]])
    then show ?thesis unfolding Pair Inr truthful_exit_def by (cases x) simp
  qed (simp add: Pair)
qed

end
