(* ===== verification/Drill_Facts.thy ===== *)
theory Drill_Facts
  imports Drill
begin

text \<open>
  What the comparison of two answers decides, and what the environment of the drill's instance holds.
\<close>

section \<open>When two answers agree\<close>

text \<open>Documents that agree: arrays element by element, objects member by member in any order.\<close>

definition is_compound :: "json \<Rightarrow> bool" where
  "is_compound v \<longleftrightarrow> (case v of JArr xs \<Rightarrow> True | JObj kvs \<Rightarrow> True | _ \<Rightarrow> False)"

inductive same_json :: "json \<Rightarrow> json \<Rightarrow> bool" where
  leaf: "\<not> is_compound a \<Longrightarrow> json_text a = json_text b \<Longrightarrow> same_json a b"
| arrays: "list_all2 same_json xs ys \<Longrightarrow> same_json (JArr xs) (JArr ys)"
| objects: "fst ` set as = fst ` set bs \<Longrightarrow> (\<And>kv. kv \<in> set as \<Longrightarrow> \<exists>w. map_of bs (fst kv) = Some w \<and> same_json (snd kv) w) \<Longrightarrow>
    same_json (JObj as) (JObj bs)"

inductive_simps same_leaf: "same_json JNull b" "same_json (JBool x) b" "same_json (JNum q) b" "same_json (JStr s) b"
inductive_simps same_array: "same_json (JArr xs) b"
inductive_simps same_object: "same_json (JObj as) b"

lemma differences_decide:
  "differences a b p = [] \<longleftrightarrow> same_json a b"
  "length xs = length ys \<Longrightarrow> element_differences xs ys p i = [] \<longleftrightarrow> list_all2 same_json xs ys"
  "member_differences as bs p = [] \<longleftrightarrow> (\<forall>kv \<in> set as. \<exists>w. map_of bs (fst kv) = Some w \<and> same_json (snd kv) w)"
proof (induction a b p and xs ys p i and as bs p rule: differences_element_differences_member_differences.induct)
  case (1 xs b p)
  then show ?case by (cases b) (auto simp: same_array is_compound_def list_all2_lengthD)
next
  case (2 as b p)
  show ?case
  proof (cases b)
    case (JObj bs)
    have keys: "fst ` set as \<subseteq> fst ` set bs" if "\<forall>kv \<in> set as. \<exists>w. map_of bs (fst kv) = Some w \<and> same_json (snd kv) w"
      using that by (force dest: map_of_SomeD)
    have "differences (JObj as) b p = [] \<longleftrightarrow> member_differences as bs p = [] \<and> fst ` set bs \<subseteq> fst ` set as"
      by (auto simp: JObj filter_empty_conv)
    with 2 JObj keys show ?thesis by (auto simp: same_object is_compound_def)
  qed (auto simp: same_object is_compound_def)
qed (auto simp: same_leaf is_compound_def split: list.split option.split)

text \<open>What \<^verbatim>\<open>ignore\<close> asks for: the bytes when nothing is ignored, else the documents without the ignored members.\<close>

definition bodies_agree :: "str list \<Rightarrow> str \<Rightarrow> str \<Rightarrow> bool" where
  "bodies_agree ks a b =
     (if ks = [] then a = b
      else case (json_parse a, json_parse b) of
          (Some x, Some y) \<Rightarrow> same_json (strip_keys ks x) (strip_keys ks y)
        | _ \<Rightarrow> False)"

lemma diff_paths_none: "diff_paths a b = [] \<longleftrightarrow> same_json a b"
  by (simp add: diff_paths_def differences_decide(1))


section \<open>The environment of the instance\<close>

lemma fst_obj_put: "fst ` set (obj_put k v kvs) = insert k (fst ` set kvs)"
  by (induction k v kvs rule: obj_put.induct) auto

lemma snd_obj_put: "snd ` set (obj_put k v kvs) \<subseteq> insert v (snd ` set kvs)"
  by (induction k v kvs rule: obj_put.induct) auto

definition scratch_url :: "scratch \<Rightarrow> str" where
  "scratch_url s = database_url (sc_database s) (sc_database s) (sc_password s)"

lemma database_env_facts:
  "database_env ss env fs = Some env' \<Longrightarrow> snd ` set env \<subseteq> scratch_url ` set ss \<Longrightarrow>
   fst ` set env' = fst ` set env \<union> df_url ` set fs \<union> df_direct_url ` set fs \<and> snd ` set env' \<subseteq> scratch_url ` set ss"
proof (induction fs arbitrary: env)
  case (Cons f fs)
  from Cons.prems(1) obtain x where x: "scratch_for (df_name f) ss = Some x" by (auto split: option.splits)
  then have x_in: "x \<in> set ss" by (auto simp: scratch_for_def find_Some_iff)
  let ?inner = "obj_put (df_url f) (scratch_url x) env"
  let ?env = "obj_put (df_direct_url f) (scratch_url x) ?inner"
  have run: "database_env ss ?env fs = Some env'" using Cons.prems(1) x by (simp add: scratch_url_def Let_def)
  have "snd ` set ?env \<subseteq> scratch_url ` set ss"
    using snd_obj_put [of "df_direct_url f" "scratch_url x" ?inner] snd_obj_put [of "df_url f" "scratch_url x" env] x_in Cons.prems(2)
    by blast
  from Cons.IH [OF run this] show ?case by (auto simp: fst_obj_put)
qed simp


section \<open>A member the listing hides\<close>

text \<open>
  The listing of an archive is checked by its lines, and a name is cut at the first arrow, as if it were a link. A
  regular file whose name holds an arrow is therefore checked by the first part of its name only.
\<close>

lemma arrow_hides_name:
  "tar_member_problem ''-rw-r--r-- root/root 5 2026-01-01 00:00 safe -> /../../etc/passwd'' = None"
  by code_simp

end
