(* ===== verification/Validate_Facts.thy ===== *)
theory Validate_Facts
  imports Validate Vhost
begin

text \<open>
  What validation does and what its verdict means: it only looks, what it calls valid the machine has answered so, and
  the verdict on the environment file.
\<close>

section \<open>Validation only looks\<close>

text \<open>Reads, the read-only calls of \<^verbatim>\<open>systemctl\<close> and git, and \<^verbatim>\<open>nginx -t\<close>.\<close>

fun looks :: "event \<Rightarrow> bool" where
  "looks (ERun cmd args opts) \<longleftrightarrow>
     cmd = ''systemctl'' \<and> args \<noteq> [] \<and> hd args \<in> set read_only_actions \<or>
     cmd = ''git'' \<and> take 1 args = [''-C''] \<and> take 1 (drop 2 args) \<in> {[''rev-parse''], [''status'']} \<or>
     args = [''-t'']"
| "looks (ERead p) \<longleftrightarrow> True"
| "looks (EStat p) \<longleftrightarrow> True"
| "looks (EReadlink p) \<longleftrightarrow> True"
| "looks (EReaddir p) \<longleftrightarrow> True"
| "looks (EListeners p) \<longleftrightarrow> True"
| "looks e \<longleftrightarrow> False"

lemma looks_systemctl: "action \<in> set read_only_actions \<Longrightarrow> emits looks (systemctl H action u)"
  unfolding systemctl_def
  by (intro emits_rules) (auto simp: systemctl_args_def read_only_actions_def Let_def split: option.splits)

lemma looks_show: "emits looks (show_unit H u)"
  unfolding show_unit_def by (intro emits_rules looks_systemctl) (simp add: read_only_actions_def)

lemma looks_instances: "emits looks (instances H w)"
  unfolding instances_def Let_def by (intro emits_rules looks_systemctl) (simp_all add: read_only_actions_def)

lemma looks_git: "emits looks (git_branch H (git_of svc))" "emits looks (git_head H (git_of svc))" "emits looks (git_dirty H (git_of svc))"
  unfolding git_branch_def git_head_def git_dirty_def git_run_def git_try_def
  by (intro emits_rules; simp add: git_pre_def git_of_def git_at_def)+

lemma looks_packages: "emits looks (expand_packages H svc)"
  unfolding expand_packages_def expand_pattern_def Let_def by (intro emits_rules) simp_all

lemma looks_verify: "emits looks (verify H svc ps)"
  unfolding verify_def verify_package_def check_dep_def Let_def
  by (intro emits_rules) (auto split: option.split intro!: emits_rules)

lemma looks_manifest: "emits looks (resolve_lifecycle H pkg svc f)"
  unfolding resolve_lifecycle_def parse_here_def read_here_def lifecycle_of_def
  by (auto split: option.split list.split sum.split intro!: emits_rules)

lemma looks_nginx: "emits looks (nginx_test c)"
  unfolding nginx_test_def by (intro emits_rules) simp

lemmas looking = looks_show looks_instances looks_git looks_packages looks_verify looks_manifest looks_nginx

lemma looks_checkout: "emits looks (check_checkout c svc st)"
  unfolding check_checkout_def check_release_def check_git_def tell_def Let_def
  by (intro emits_rules looking) simp_all

lemma looks_unit_names: "emits looks (unit_names H svc)"
  unfolding unit_names_def names_of_file_def by (intro emits_rules looking) simp

lemma looks_env: "emits looks (check_env c svc)"
  unfolding check_env_def tell_def Let_def by (intro emits_rules looks_unit_names) simp_all

lemma looks_units: "emits looks (check_units H svc)"
  unfolding check_units_def check_unit_def check_worker_def check_aux_unit_def check_socket_def check_source_def tell_def
  by (intro emits_rules looking) (auto split: sum.split intro!: emits_rules)

lemma emits_text: "(\<And>r. emits A (f r)) \<Longrightarrow> emits A g \<Longrightarrow> emits A (case j of JStr r \<Rightarrow> f r | _ \<Rightarrow> g)"
  by (simp split: json.split)

lemma looks_declaration: "emits looks (check_declaration c pkg svc st f)"
proof -
  have times: "emits looks (check_shutdown_times H svc sd)" for H sd
    unfolding check_shutdown_times_def check_deadline_def stop_timeout_def check_worker_drain_def tell_def
    by (intro emits_rules looking) simp
  have range': "emits looks (check_contract_range H svc rng)" for H rng
    unfolding check_contract_range_def check_installed_def tell_def by (intro emits_rules looking) simp
  show ?thesis
    unfolding check_declaration_def tell_def Let_def
    by (intro emits_rules looking emits_text times range')
qed

lemma looks_rest: "emits looks (check_port H svc pids)" "emits looks (check_nginx_setup c svc)" "emits looks (check_deps H svc st)"
  unfolding check_port_def check_nginx_setup_def check_vhost_def check_deps_def tell_def Let_def
  by (intro emits_rules looking; simp)+

lemma emits_with_state: "emits A p \<Longrightarrow> emits A (with_state m0 p)"
proof (rule emitsI)
  fix tr l
  assume "emits A p"
  then obtain es where "fst (snd (p (tr, m0))) = es @ tr" "\<forall>e \<in> set es. A e" unfolding emits_def by blast
  moreover have "fst (snd (with_state m0 p (tr, l))) = fst (snd (p (tr, m0)))"
    unfolding with_state_def by (simp split: prod.split sum.split)
  ultimately show "\<exists>es. fst (snd (with_state m0 p (tr, l))) = es @ tr \<and> (\<forall>e \<in> set es. A e)" by auto
qed

text \<open>
  Property C19. \<^verbatim>\<open>ovhost validate\<close> changes nothing: whatever the service and the answers of the machine, it only reads files,
  lists directories and listeners, and runs the read-only calls of systemctl and git and \<^verbatim>\<open>nginx -t\<close>.
\<close>

theorem validate_only_looks: "emits looks (validate c pkg sid manifestFile)"
  unfolding validate_def find_service_def check_all_def Let_def
  by (intro emits_rules emits_with_state looks_checkout looks_env looks_units looks_declaration looks_rest) simp


section \<open>What a valid service has answered\<close>

text \<open>A request of the history, with the history before it.\<close>

fun answered :: "(event \<Rightarrow> event list \<Rightarrow> bool) \<Rightarrow> event list \<Rightarrow> bool" where
  "answered K [] \<longleftrightarrow> False"
| "answered K (e # tr) \<longleftrightarrow> K e tr \<or> answered K tr"

text \<open>\<^verbatim>\<open>systemctl show\<close> of the unit answered a state with \<open>P\<close>.\<close>

definition shown_as :: "host \<Rightarrow> str \<Rightarrow> (unit_state \<Rightarrow> bool) \<Rightarrow> event \<Rightarrow> event list \<Rightarrow> bool" where
  "shown_as H u P e tr \<longleftrightarrow>
     (let args = systemctl_args ''show'' (Some u) in
      e = ERun ''systemctl'' args as_self \<and> P (unit_state_of u (rout (h_run H tr ''systemctl'' args as_self))))"

definition nginx_clean :: "ctx \<Rightarrow> event \<Rightarrow> event list \<Rightarrow> bool" where
  "nginx_clean c e tr \<longleftrightarrow>
     (let bin = nginx_bin (inv_nginx (inv c)) in
      e = ERun bin [''-t''] as_root \<and> rc (h_run (exec c) tr bin [''-t''] as_root) = 0)"

definition stat_as :: "host \<Rightarrow> str \<Rightarrow> (file_stat option \<Rightarrow> bool) \<Rightarrow> event \<Rightarrow> event list \<Rightarrow> bool" where
  "stat_as H f P e tr \<longleftrightarrow> e = EStat f \<and> P (h_stat H tr f)"

definition is_private :: "file_stat option \<Rightarrow> bool" where
  "is_private v = (case v of None \<Rightarrow> False | Some st \<Rightarrow> and (st_mode st) 4 = 0 \<and> and (st_mode st) 2 = 0)"

definition is_listening :: "unit_state \<Rightarrow> bool" where
  "is_listening st \<longleftrightarrow> u_load st = ''loaded'' \<and> u_active st = ''active''"

text \<open>Either an error was found, or the request was made and answered so.\<close>

definition refused_or :: "(event \<Rightarrow> event list \<Rightarrow> bool) \<Rightarrow> finding list state \<Rightarrow> bool" where
  "refused_or K s \<longleftrightarrow> list_ex is_error (snd s) \<or> answered K (fst s)"

interpretation asked: stable_under "\<lambda>e. True" "refused_or K" for K
  by unfold_locales (auto simp: refused_or_def)

lemma asked_tell [upholds_rules]: "upholds (refused_or K) (tell xs)"
  unfolding tell_def by (rule upholds_modl) (auto simp: refused_or_def)

lemma asked_systemctl [upholds_rules]: "upholds (refused_or K) (systemctl H action u)"
  unfolding systemctl_def by (intro upholds_rules) simp

lemma asked_parts [upholds_rules]:
  "upholds (refused_or K) (show_unit H u)" "upholds (refused_or K) (instances H w)"
  "upholds (refused_or K) (expand_packages H svc)" "upholds (refused_or K) (nginx_test c)"
  unfolding show_unit_def instances_def expand_packages_def expand_pattern_def nginx_test_def Let_def
  by (intro upholds_rules; simp)+

lemma asked_git [upholds_rules]:
  "upholds (refused_or K) (git_branch H g)" "upholds (refused_or K) (git_head H g)" "upholds (refused_or K) (git_dirty H g)"
  unfolding git_branch_def git_head_def git_dirty_def git_run_def git_try_def by (intro upholds_rules; simp)+

lemma asked_verify [upholds_rules]: "upholds (refused_or K) (verify H svc ps)"
  unfolding verify_def verify_package_def check_dep_def Let_def
  by (intro upholds_rules) (auto split: option.split intro!: upholds_rules)

lemma asked_manifest [upholds_rules]: "upholds (refused_or K) (resolve_lifecycle H pkg svc f)"
  unfolding resolve_lifecycle_def parse_here_def read_here_def lifecycle_of_def
  by (auto split: option.split list.split sum.split intro!: upholds_rules)

lemma asked_checkout [upholds_rules]: "upholds (refused_or K) (check_checkout c svc st)"
  unfolding check_checkout_def check_release_def check_git_def Let_def by (intro upholds_rules) simp_all

lemma asked_unit_names [upholds_rules]: "upholds (refused_or K) (unit_names H svc)"
  unfolding unit_names_def names_of_file_def by (intro upholds_rules) simp

lemma asked_env [upholds_rules]: "upholds (refused_or K) (check_env c svc)"
  unfolding check_env_def Let_def by (intro upholds_rules) simp_all

lemma asked_unit_checks [upholds_rules]:
  "upholds (refused_or K) (check_unit H u)" "upholds (refused_or K) (check_aux_unit H svc a)" "upholds (refused_or K) (check_socket H svc)"
  "upholds (refused_or K) (check_source H svc x)" "upholds (refused_or K) (check_worker H w)"
  unfolding check_unit_def check_aux_unit_def check_socket_def check_source_def check_worker_def
  by (intro upholds_rules; auto split: sum.split intro!: upholds_rules)+

lemma upholds_text: "(\<And>r. upholds I (f r)) \<Longrightarrow> upholds I g \<Longrightarrow> upholds I (case j of JStr r \<Rightarrow> f r | _ \<Rightarrow> g)"
  by (simp split: json.split)

lemma asked_declaration [upholds_rules]: "upholds (refused_or K) (check_declaration c pkg svc st f)"
proof -
  have "upholds (refused_or K) (check_shutdown_times H svc sd)" "upholds (refused_or K) (check_contract_range H svc rng)" for H sd rng
    unfolding check_shutdown_times_def check_deadline_def stop_timeout_def check_worker_drain_def check_contract_range_def check_installed_def
    by (intro upholds_rules; simp)+
  then show ?thesis
    unfolding check_declaration_def Let_def by (intro upholds_rules upholds_text) assumption+
qed

lemma asked_rest [upholds_rules]:
  "upholds (refused_or K) (check_port H svc pids)" "upholds (refused_or K) (check_nginx_setup c svc)"
  "upholds (refused_or K) (check_deps H svc st)"
  unfolding check_port_def check_nginx_setup_def check_vhost_def check_deps_def Let_def by (intro upholds_rules; simp)+

lemma asked_units [upholds_rules]: "upholds (refused_or K) (check_units H svc)"
  unfolding check_units_def by (intro upholds_rules)


section \<open>From a valid verdict to the answers\<close>

lemma answered_mono: "answered K tr \<Longrightarrow> (\<And>e tr. K e tr \<Longrightarrow> K' e tr) \<Longrightarrow> answered K' tr"
  by (induction tr) auto

abbreviation anywhere :: "'l state \<Rightarrow> bool" where
  "anywhere s \<equiv> True"

lemma leads_skip: "(\<And>x. leads anywhere (f x) R) \<Longrightarrow> leads anywhere (bind m f) R"
  by (rule leads_bind [of _ _ "\<lambda>_. anywhere"]) (simp_all add: leads_def)

lemma leads_skip_then: "leads anywhere k R \<Longrightarrow> leads anywhere (andthen m k) R"
  unfolding andthen_def by (rule leads_skip)

lemma leads_first: "leads P m (\<lambda>_. R) \<Longrightarrow> (\<And>x. upholds R (f x)) \<Longrightarrow> leads P (bind m f) (\<lambda>_. R)"
  by (rule leads_bind [OF _ leads_upholds])

lemma leads_first_then: "leads P m (\<lambda>_. R) \<Longrightarrow> upholds R k \<Longrightarrow> leads P (andthen m k) (\<lambda>_. R)"
  unfolding andthen_def by (rule leads_first)

lemma leads_foldp_at:
  assumes "x \<in> set xs" "\<And>b. leads anywhere (f b x) (\<lambda>_. R)" "\<And>b y. upholds R (f b y)"
  shows "leads anywhere (foldp f b xs) (\<lambda>_. R)"
  using assms(1)
proof (induction xs arbitrary: b)
  case (Cons y ys)
  show ?case
  proof (cases "y = x")
    case True
    then show ?thesis using assms(2,3) by (auto intro!: leads_first upholds_foldp)
  next
    case False
    with Cons show ?thesis by (auto intro!: leads_skip)
  qed
qed simp

lemma leads_mapp_at:
  assumes "x \<in> set xs" "leads anywhere (f x) (\<lambda>_. R)" "\<And>y. upholds R (f y)"
  shows "leads anywhere (mapp f xs) (\<lambda>_. R)"
  unfolding mapp_def
  by (rule leads_foldp_at [OF assms(1)]) (intro leads_first assms upholds_rules)+

lemma leads_each_at:
  assumes "x \<in> set xs" "leads anywhere (f x) (\<lambda>_. R)" "\<And>y. upholds R (f y)"
  shows "leads anywhere (each f xs) (\<lambda>_. R)"
  using assms(1)
proof (induction xs)
  case (Cons y ys)
  show ?case
  proof (cases "y = x")
    case True
    then show ?thesis unfolding each.simps using assms(2,3) by (intro leads_first_then upholds_loops) auto
  next
    case False
    with Cons show ?thesis by (auto intro!: leads_skip_then)
  qed
qed simp

lemma systemctl_show: "systemctl H ''show'' (Some u) = exec_run H ''systemctl'' (systemctl_args ''show'' (Some u)) as_self"
  by (simp add: systemctl_def allowed_actions_def socket_safe_actions_def run_opts_for_def read_only_actions_def)

lemma leads_show: "leads anywhere (show_unit H u) (\<lambda>st s. answered (shown_as H u (\<lambda>x. x = st)) (fst s))"
  by (auto simp: leads_def show_unit_def systemctl_show exec_run_def ask_def bind_def ret_def shown_as_def Let_def)

lemma leads_stat: "leads anywhere (exec_stat H f) (\<lambda>st s. answered (stat_as H f (\<lambda>x. x = st)) (fst s))"
  by (auto simp: leads_def exec_stat_def ask_def stat_as_def)

lemma leads_tell:
  assumes "list_ex is_error xs \<or> (\<forall>tr. answered L tr \<longrightarrow> answered K tr)"
  shows "leads (\<lambda>s. answered L (fst s)) (tell xs) (\<lambda>_. refused_or K)"
  unfolding tell_def by (rule leads_modl) (use assms in \<open>auto simp: refused_or_def\<close>)

lemma shown_mono: "P st \<Longrightarrow> answered (shown_as H u (\<lambda>x. x = st)) tr \<Longrightarrow> answered (shown_as H u P) tr"
  by (erule answered_mono) (auto simp: shown_as_def Let_def)

lemma stat_mono: "P st \<Longrightarrow> answered (stat_as H f (\<lambda>x. x = st)) tr \<Longrightarrow> answered (stat_as H f P) tr"
  by (erule answered_mono) (auto simp: stat_as_def)

lemmas judged = is_error_def found_def judge_def only_if_def

lemma leads_check_unit: "leads anywhere (check_unit H u) (\<lambda>_. refused_or (shown_as H u is_loaded))"
  unfolding check_unit_def
  by (rule leads_bind [OF leads_show], rule leads_first_then [OF leads_tell])
    (auto simp: judge_unit_def judged shown_mono intro!: upholds_rules)

lemma leads_check_aux_unit: "leads anywhere (check_aux_unit H svc a) (\<lambda>_. refused_or (shown_as H (a_unit a) is_loaded))"
  unfolding check_aux_unit_def
  by (rule leads_bind [OF leads_show], rule leads_tell) (auto simp: judge_auxiliary_def judged shown_mono)

lemma leads_check_socket:
  "s_socket_unit svc = Some u \<Longrightarrow> leads anywhere (check_socket H svc) (\<lambda>_. refused_or (shown_as H u is_listening))"
  unfolding check_socket_def
  by (simp, rule leads_bind [OF leads_show], rule leads_tell)
    (auto simp: judge_socket_def judged shown_mono is_listening_def)

lemma leads_check_env:
  assumes "s_env_file svc = Some f"
  shows "leads anywhere (check_env c svc) (\<lambda>_. refused_or (stat_as (exec c) f is_private))"
proof -
  have mode: "leads (\<lambda>s. answered (stat_as (exec c) f (\<lambda>x. x = Some st)) (fst s)) (tell (judge_env_mode f st))
      (\<lambda>_. refused_or (stat_as (exec c) f is_private))" for st
    by (rule leads_tell, cases "is_private (Some st)")
      (simp add: stat_mono, auto simp: judge_env_mode_def judged is_private_def)
  show ?thesis
    unfolding check_env_def Let_def assms option.case
    by (rule leads_skip, rule leads_bind [OF leads_stat], rule leads_cases(2))
      (simp add: leads_tell judged, simp, (intro leads_first_then mode upholds_rules; simp)+)
qed

lemma leads_check_checkout:
  "leads (\<lambda>s. answered (stat_as H d (\<lambda>x. x = st)) (fst s)) (check_checkout c svc st) (\<lambda>_. refused_or (stat_as H d is_there))"
proof (cases "is_there st")
  case True
  have "leads (\<lambda>s. answered (stat_as H d (\<lambda>x. x = st)) (fst s)) (ret ()) (\<lambda>_. refused_or (stat_as H d is_there))"
    by (rule leads_ret) (use True in \<open>auto simp: refused_or_def stat_mono\<close>)
  then show ?thesis
    using asked_checkout [of "stat_as H d is_there" c svc st]
    by (auto simp: leads_def upholds_def ret_def) (metis snd_conv)
next
  case False
  then show ?thesis
    unfolding check_checkout_def
    by (auto split: option.split simp: is_there_def judged intro!: leads_tell)
qed

lemma leads_nginx:
  assumes "s_nginx svc = Some n"
  shows "leads anywhere (check_nginx_setup c svc) (\<lambda>_. refused_or (nginx_clean c))"
proof -
  have test: "leads anywhere (nginx_test c) (\<lambda>r s. fst r \<longrightarrow> answered (nginx_clean c) (fst s))"
    by (auto simp: leads_def nginx_test_def exec_run_def ask_def bind_def ret_def nginx_clean_def Let_def)
  have "leads (\<lambda>s. fst r \<longrightarrow> answered (nginx_clean c) (fst s)) (tell [judge_nginx r]) (\<lambda>_. refused_or (nginx_clean c))" for r
    unfolding tell_def by (rule leads_modl) (auto simp: judge_nginx_def judged refused_or_def)
  then show ?thesis
    unfolding check_nginx_setup_def assms option.case by (intro leads_skip_then leads_bind [OF test])
qed


text \<open>What a valid service was seen to be.\<close>

definition vouched :: "ctx \<Rightarrow> service \<Rightarrow> event list \<Rightarrow> bool" where
  "vouched c svc tr \<longleftrightarrow>
     (let H = exec c in
      answered (stat_as H (s_repo svc) is_there) tr \<and>
      list_all (\<lambda>u. answered (shown_as H u is_loaded) tr) (s_units svc) \<and>
      list_all (\<lambda>a. answered (shown_as H (a_unit a) is_loaded) tr) (s_auxiliary_units svc) \<and>
      (case s_socket_unit svc of None \<Rightarrow> True | Some u \<Rightarrow> answered (shown_as H u is_listening) tr) \<and>
      (case s_env_file svc of None \<Rightarrow> True | Some f \<Rightarrow> answered (stat_as H f is_private) tr) \<and>
      (case s_nginx svc of None \<Rightarrow> True | Some n \<Rightarrow> answered (nginx_clean c) tr))"

lemma leads_check_units:
  "u \<in> set (s_units svc) \<Longrightarrow> leads anywhere (check_units H svc) (\<lambda>_. refused_or (shown_as H u is_loaded))"
  "a \<in> set (s_auxiliary_units svc) \<Longrightarrow> leads anywhere (check_units H svc) (\<lambda>_. refused_or (shown_as H (a_unit a) is_loaded))"
  "s_socket_unit svc = Some v \<Longrightarrow> leads anywhere (check_units H svc) (\<lambda>_. refused_or (shown_as H v is_listening))"
  unfolding check_units_def
  subgoal by (rule leads_first, rule leads_mapp_at, assumption) (intro leads_check_unit upholds_rules)+
  subgoal by (rule leads_skip, rule leads_skip_then, rule leads_first_then, rule leads_each_at, assumption)
      (intro leads_check_aux_unit upholds_rules)+
  subgoal by (rule leads_skip, rule leads_skip_then, rule leads_skip_then, rule leads_first_then, rule leads_check_socket, assumption)
      (intro upholds_rules)
  done

lemma leads_check_all:
  fixes K
  assumes "(\<forall>st. leads (\<lambda>s. answered (stat_as (exec c) (s_repo svc) (\<lambda>x. x = st)) (fst s)) (check_checkout c svc st) (\<lambda>_. refused_or K)) \<or>
    leads anywhere (check_env c svc) (\<lambda>_. refused_or K) \<or> leads anywhere (check_units (exec c) svc) (\<lambda>_. refused_or K) \<or>
    leads anywhere (check_nginx_setup c svc) (\<lambda>_. refused_or K)"
  shows "leads anywhere (check_all c pkg svc f) (\<lambda>_. refused_or K)"
  using assms unfolding check_all_def Let_def
  apply (elim disjE)
  subgoal by (rule leads_bind [OF leads_stat], rule leads_first_then, blast) (intro upholds_rules)
  subgoal by (rule leads_skip, rule leads_skip_then, rule leads_first_then, assumption) (intro upholds_rules)
  subgoal by (rule leads_skip, rule leads_skip_then, rule leads_skip_then, rule leads_first, assumption) (intro upholds_rules)
  subgoal by (rule leads_skip, rule leads_skip_then, rule leads_skip_then, rule leads_skip, rule leads_skip_then, rule leads_skip_then,
      rule leads_first_then, assumption) (intro upholds_rules)
  done

text \<open>
  Property C20. What \<^verbatim>\<open>ovhost validate\<close> calls valid, the machine has answered so during that run: the checkout is a directory,
  every unit and auxiliary unit is loaded from a unit file, the socket unit is loaded and active, nobody but its owner and
  group can read or write the env file, and \<^verbatim>\<open>nginx -t\<close> was clean.
\<close>

theorem valid_was_seen:
  "case validate c pkg sid manifestFile ([], l) of
     (Inr r, tr, l') \<Rightarrow>
       (if va_ok r then (case map_of (inv_services (inv c)) sid of None \<Rightarrow> False | Some svc \<Rightarrow> vouched c svc tr) else True)
   | (Inl e, s) \<Rightarrow> True"
proof (cases "map_of (inv_services (inv c)) sid")
  case None
  then show ?thesis by (simp add: validate_def find_service_def bind_def throw_def)
next
  case (Some svc)
  obtain r0 tr fs where run: "check_all c pkg svc manifestFile ([], []) = (r0, tr, fs)"
    by (cases "check_all c pkg svc manifestFile ([], [])") auto
  have seen: "answered K tr" if "r0 = Inr ()" "\<not> list_ex is_error fs"
    and "leads anywhere (check_all c pkg svc manifestFile) (\<lambda>_. refused_or K)" for K
    using leadsD [OF that(3) _ run [unfolded that(1)]] that(2) by (simp add: refused_or_def)
  have "vouched c svc tr" if ok: "r0 = Inr ()" "\<not> list_ex is_error fs"
    unfolding vouched_def Let_def list_all_iff
    by (auto split: option.split intro!: seen [OF ok] leads_check_all
        intro: leads_check_checkout leads_check_units leads_check_env leads_nginx)
  moreover have "(length (at_level Bad fs) = 0) = (\<not> list_ex is_error fs)"
    by (auto simp: at_level_def filter_empty_conv list_ex_iff is_error_def)
  ultimately show ?thesis
    using run Some
    by (cases r0) (simp_all add: validate_def find_service_def bind_def ret_def with_state_def Let_def)
qed


section \<open>The verdict on the environment\<close>

lemma map_of_unit_names:
  "map_of (with_unit_names ns known) n = (case map_of known n of Some b \<Rightarrow> Some b | None \<Rightarrow> (if n \<in> set ns then Some False else None))"
  unfolding with_unit_names_def
proof (induction ns arbitrary: known)
  case Nil
  then show ?case by (simp split: option.split)
next
  case (Cons m ns)
  show ?case
  proof (cases "m \<in> fst ` set known")
    case True
    with Cons [of known] show ?thesis by (auto split: option.split simp: map_of_eq_None_iff)
  next
    case False
    then have "map_of known m = None" by (simp add: map_of_eq_None_iff)
    then have "map_of (known @ [(m, False)]) n = (if n = m then Some False else map_of known n)"
      by (simp add: map_add_def split: option.split)
    with Cons [of "known @ [(m, False)]"] False \<open>map_of known m = None\<close> show ?thesis by (auto split: option.split)
  qed
qed

text \<open>
  Property C21. The environment passes exactly when others can neither read nor write the env file and every required name
  is set in it to a value that is not empty, or is not in it and is set by a unit of the service.
\<close>

theorem env_verdict:
  "list_all (\<lambda>f. fi_level f \<noteq> Bad) (judge_env_mode path st @ judge_env_names svc (with_unit_names ns entries) example) =
   (is_private (Some st) \<and>
    list_all (\<lambda>n. case map_of entries n of Some blank \<Rightarrow> \<not> blank | None \<Rightarrow> n \<in> set ns) (required_of svc example))"
proof -
  let ?known = "with_unit_names ns entries"
  have named: "n \<in> fst ` set ?known \<longleftrightarrow> map_of ?known n \<noteq> None" for n by (simp add: map_of_eq_None_iff)
  have passes: "list_all P (only_if b f) \<longleftrightarrow> (b \<longrightarrow> P f)" for P b and f :: finding by (simp add: only_if_def)
  have one: "map_of ?known n \<noteq> None \<and> map_of ?known n \<noteq> Some True \<longleftrightarrow>
      (case map_of entries n of Some blank \<Rightarrow> \<not> blank | None \<Rightarrow> n \<in> set ns)" for n
    unfolding map_of_unit_names by (auto split: option.split)
  have "list_all (\<lambda>f. fi_level f \<noteq> Bad) (judge_env_names svc ?known example) \<longleftrightarrow>
      list_all (\<lambda>n. map_of ?known n \<noteq> None \<and> map_of ?known n \<noteq> Some True) (required_of svc example)"
    unfolding judge_env_names_def Let_def named list_all_append passes
    by (auto simp: found_def filter_empty_conv list_all_iff)
  moreover have "list_all (\<lambda>f. fi_level f \<noteq> Bad) (judge_env_mode path st) \<longleftrightarrow> is_private (Some st)"
    by (simp add: judge_env_mode_def judged is_private_def)
  ultimately show ?thesis unfolding one by simp
qed

end
