(* ===== verification/Tar.thy ===== *)
theory Tar
  imports Backup_Crypto
begin

text \<open>
  The ustar archives of config snapshots, \<^verbatim>\<open>lib/tar.js\<close>. Names and contents are UTF-8 texts, so
  strings of bytes here; gzip is a parameter. Reading an archive may not end: a negative size in a
  header, which \<^verbatim>\<open>parseInt\<close> reads, can move the offset back.
\<close>

section \<open>Writing\<close>

text \<open>\<^verbatim>\<open>buf.write(s, off)\<close>: bytes beyond the end of the buffer are dropped.\<close>

definition put_at :: "nat \<Rightarrow> bytes \<Rightarrow> bytes \<Rightarrow> bytes" where
  "put_at off s b = take (length b) (take off b @ s @ drop (off + length s) b)"

definition oct_digit :: "nat \<Rightarrow> char" where
  "oct_digit n = char_of (48 + n)"

fun oct_str :: "nat \<Rightarrow> str" where
  "oct_str n = (if n < 8 then [oct_digit n] else oct_str (n div 8) @ [oct_digit (n mod 8)])"

declare oct_str.simps [simp del]

definition oct_field :: "nat \<Rightarrow> nat \<Rightarrow> bytes" where
  "oct_field w n = octets (pad_start w (CHR ''0'') (oct_str n)) @ [0]"

definition tar_fields :: "str \<Rightarrow> nat \<Rightarrow> nat \<Rightarrow> bytes" where
  "tar_fields name sz mtime =
     put_at 263 (octets ''00'')
     (put_at 257 (octets ''ustar'' @ [0])
     (put_at 156 (octets ''0'')
     (put_at 148 (octets ''        '')
     (put_at 136 (oct_field 11 (mtime div 1000))
     (put_at 124 (oct_field 11 sz)
     (put_at 116 (octets ''0000000'' @ [0])
     (put_at 108 (octets ''0000000'' @ [0])
     (put_at 100 (octets ''0000640'' @ [0])
     (put_at 0 (octets name) (zeros 512))))))))))"

definition tar_header :: "str \<Rightarrow> nat \<Rightarrow> nat \<Rightarrow> str + bytes" where
  "tar_header name sz mtime =
     (if 99 < length name then Inl ''tar: name too long''
      else
        let b = tar_fields name sz mtime; s = sum_list (map unat b) in
        Inr (put_at 148 (oct_field 6 s @ octets '' '') b))"

fun tar_parts :: "nat \<Rightarrow> (str \<times> str) list \<Rightarrow> str + bytes" where
  "tar_parts mtime [] = Inr []"
| "tar_parts mtime ((name, content) # fs) =
     (case tar_header name (length content) mtime of
        Inl e \<Rightarrow> Inl e
      | Inr h \<Rightarrow>
          map_sum id (\<lambda>rest. h @ octets content @ zeros ((512 - length content mod 512) mod 512) @ rest) (tar_parts mtime fs))"

definition create_tar_gz :: "(bytes \<Rightarrow> bytes) \<Rightarrow> (str \<times> str) list \<Rightarrow> nat \<Rightarrow> str + bytes" where
  "create_tar_gz gzip fs mtime = map_sum id (\<lambda>b. gzip (b @ zeros 1024)) (tar_parts mtime fs)"

section \<open>Reading\<close>

text \<open>\<^verbatim>\<open>b.subarray(s, e)\<close>: a negative index counts from the end.\<close>

definition clamp :: "nat \<Rightarrow> int \<Rightarrow> nat" where
  "clamp n i = (if i < 0 then nat (max 0 (int n + i)) else nat (min i (int n)))"

definition subarray :: "bytes \<Rightarrow> int \<Rightarrow> int \<Rightarrow> bytes" where
  "subarray b s e = (let x = clamp (length b) s; y = clamp (length b) e in take (y - x) (drop x b))"

definition text_bytes :: "bytes \<Rightarrow> str" where
  "text_bytes bs = map (\<lambda>b. char_of (unat b)) bs"

text \<open>Up to the first NUL.\<close>

definition c_string :: "bytes \<Rightarrow> str" where
  "c_string bs = text_bytes (takeWhile (\<lambda>b. b \<noteq> 0) bs)"

definition is_oct :: "char \<Rightarrow> bool" where
  "is_oct c \<longleftrightarrow> CHR ''0'' \<le> c \<and> c \<le> CHR ''7''"

definition oct_val :: "str \<Rightarrow> nat" where
  "oct_val s = foldl (\<lambda>n c. 8 * n + (of_char c - 48)) 0 s"

text \<open>\<^verbatim>\<open>parseInt(s, 8)\<close>, \<open>None\<close> for NaN.\<close>

definition parse_oct :: "str \<Rightarrow> int option" where
  "parse_oct s =
     (let neg = (s \<noteq> [] \<and> hd s = CHR ''-''); r = (if s \<noteq> [] \<and> hd s \<in> {CHR ''-'', CHR ''+''} then tl s else s);
          ds = takeWhile is_oct r in
      if ds = [] then None else Some (if neg then - int (oct_val ds) else int (oct_val ds)))"

definition entry_size :: "bytes \<Rightarrow> int \<Rightarrow> int option" where
  "entry_size tar off = parse_oct (trim (c_string (subarray tar (off + 124) (off + 136))))"

text \<open>A sz that is no number gives empty contents and an offset that ends the loop.\<close>

partial_function (option) read_loop :: "bytes \<Rightarrow> int \<Rightarrow> (str \<times> str) list \<Rightarrow> (str \<times> str) list option" where
  "read_loop tar off out =
     (if off + 512 \<le> int (length tar)
      then
        let name = c_string (subarray tar off (off + 100)) in
        if name = [] then Some out
        else case entry_size tar off of
            None \<Rightarrow> Some (out @ [(name, [])])
          | Some sz \<Rightarrow>
              read_loop tar (off + 512 + - (- sz div 512) * 512)
                (out @ [(name, text_bytes (subarray tar (off + 512) (off + 512 + sz)))])
      else Some out)"

definition read_tar_gz :: "(bytes \<Rightarrow> bytes) \<Rightarrow> bytes \<Rightarrow> (str \<times> str) list option" where
  "read_tar_gz gunzip buf = read_loop (gunzip buf) 0 []"

section \<open>Round trip\<close>

lemma length_octets [simp]: "length (octets s) = length s"
  by (simp add: octets_def)

lemma length_zeros [simp]: "length (zeros n) = n"
  by (simp add: zeros_def)

lemma text_octets [simp]: "text_bytes (octets s) = s"
proof -
  have "char_of (unat (byte (of_char c))) = c" for c :: char
    by (simp add: unat_byte)
  then show ?thesis by (simp add: text_bytes_def octets_def comp_def map_idI)
qed

lemma octets_append [simp]: "octets (s @ t) = octets s @ octets t"
  by (simp add: octets_def)

lemma octet_zero:
  assumes "b \<in> set (octets s)" "CHR 0x00 \<notin> set s"
  shows "b \<noteq> 0"
proof
  assume "b = 0"
  from assms(1) have "char_of (unat b) \<in> set (text_bytes (octets s))" unfolding text_bytes_def set_map by blast
  with assms(2) show False unfolding \<open>b = 0\<close> text_octets by (simp add: char_of_def)
qed

lemma length_put_at [simp]: "length (put_at off s b) = length b"
  by (simp add: put_at_def)

lemma take_put_before: "m \<le> off \<Longrightarrow> m \<le> length b \<Longrightarrow> take m (put_at off s b) = take m b"
  by (simp add: put_at_def min_def)

lemma take_put_at: "n + length s = m \<Longrightarrow> m \<le> length b \<Longrightarrow> take m (put_at n s b) = take n b @ s"
  by (auto simp: put_at_def min_def)

lemma oct_digit_code: "d < 8 \<Longrightarrow> of_char (oct_digit d) = 48 + d"
  by (simp add: oct_digit_def)

lemma oct_digit_is_oct: "d < 8 \<Longrightarrow> is_oct (oct_digit d)"
  unfolding is_oct_def less_eq_char_def oct_digit_code by (simp add: oct_digit_def)

lemma oct_val_digit: "d < 8 \<Longrightarrow> oct_val (s @ [oct_digit d]) = 8 * oct_val s + d"
  by (simp add: oct_val_def oct_digit_code)

lemma oct_str_value: "oct_val (replicate k (CHR ''0'') @ oct_str n) = n"
proof (induction n rule: oct_str.induct)
  case (1 n)
  have pad: "oct_val (replicate k (CHR ''0'')) = 0" by (induction k) (simp_all add: oct_val_def)
  show ?case
  proof (cases "n < 8")
    case True
    then show ?thesis by (subst oct_str.simps) (simp add: oct_val_digit pad)
  next
    case False
    with 1 have "oct_val ((replicate k (CHR ''0'') @ oct_str (n div 8)) @ [oct_digit (n mod 8)]) = n"
      by (subst oct_val_digit) simp_all
    with False show ?thesis by (subst oct_str.simps) simp
  qed
qed

lemma oct_str_chars: "list_all is_oct (oct_str n)"
proof (induction n rule: oct_str.induct)
  case (1 n)
  then show ?case by (subst oct_str.simps) (simp add: oct_digit_is_oct)
qed

lemma oct_str_length: "n < 8 ^ Suc k \<Longrightarrow> length (oct_str n) \<le> Suc k"
proof (induction k arbitrary: n)
  case 0
  then show ?case by (subst oct_str.simps) simp
next
  case (Suc k)
  show ?case
  proof (cases "n < 8")
    case False
    from Suc.prems have "n div 8 < 8 ^ Suc k" by (simp add: less_mult_imp_div_less mult.commute)
    from Suc.IH [OF this] False show ?thesis by (subst oct_str.simps) simp
  qed (subst oct_str.simps, simp)
qed

lemma oct_not_special: "is_oct c \<Longrightarrow> \<not> is_ws c \<and> c \<noteq> CHR ''-'' \<and> c \<noteq> CHR ''+'' \<and> c \<noteq> CHR 0x00"
  by (auto simp: is_oct_def is_ws_def less_eq_char_def)

lemma trim_oct: "list_all is_oct s \<Longrightarrow> trim s = s"
proof -
  have none: "list_all is_oct xs \<Longrightarrow> dropWhile is_ws xs = xs" for xs
    by (cases xs) (auto dest: oct_not_special)
  assume "list_all is_oct s"
  moreover then have "list_all is_oct (rev s)" by simp
  ultimately show "trim s = s" by (simp add: trim_def none)
qed

lemma parse_oct_digits: "list_all is_oct s \<Longrightarrow> s \<noteq> [] \<Longrightarrow> parse_oct s = Some (int (oct_val s))"
  unfolding parse_oct_def Let_def
  by (cases s) (auto dest!: oct_not_special simp: takeWhile_eq_all_conv [THEN iffD2] list_all_iff)

lemma c_string_text: "CHR 0x00 \<notin> set s \<Longrightarrow> c_string (octets s @ 0 # ys) = s"
proof -
  assume "CHR 0x00 \<notin> set s"
  then have "takeWhile (\<lambda>b. b \<noteq> 0) (octets s @ 0 # ys) = octets s"
    by (subst takeWhile_append2) (auto dest: octet_zero)
  then show ?thesis by (simp add: c_string_def)
qed

definition size_digits :: "nat \<Rightarrow> str" where
  "size_digits n = replicate (11 - length (oct_str n)) (CHR ''0'') @ oct_str n"

lemma size_digits_facts:
  "list_all is_oct (size_digits n)" "size_digits n \<noteq> []" "oct_val (size_digits n) = n"
  "n < 8 ^ 11 \<Longrightarrow> length (size_digits n) = 11"
proof -
  have "is_oct (CHR ''0'')" by (simp add: is_oct_def less_eq_char_def)
  then show "list_all is_oct (size_digits n)"
    unfolding size_digits_def list_all_append using oct_str_chars [of n] by (auto simp: list_all_iff)
  show "size_digits n \<noteq> []" by (subst size_digits_def) (subst oct_str.simps, simp)
  show "oct_val (size_digits n) = n" by (simp add: size_digits_def oct_str_value)
  show "n < 8 ^ 11 \<Longrightarrow> length (size_digits n) = 11"
    using oct_str_length [of n 10] by (simp add: size_digits_def)
qed

lemma size_reads_back:
  "parse_oct (trim (c_string (octets (size_digits n) @ [0]))) = Some (int n)"
proof -
  have "CHR 0x00 \<notin> set (size_digits n)"
    using size_digits_facts(1) [of n] oct_not_special by (auto simp: list_all_iff)
  then show ?thesis using size_digits_facts [of n] by (simp add: c_string_text trim_oct parse_oct_digits)
qed

section \<open>The layout of a header\<close>

lemma length_tar_fields [simp]: "length (tar_fields name sz mtime) = 512"
  by (simp add: tar_fields_def)

lemma oct_field_digits: "oct_field 11 n = octets (size_digits n) @ [0]"
  by (simp add: oct_field_def size_digits_def pad_start_def)

lemma tar_fields_front:
  assumes "length name \<le> 99" "sz < 8 ^ 11"
  shows "\<exists>mid. length mid = 24 \<and>
    take 136 (tar_fields name sz mtime) = octets name @ zeros (100 - length name) @ mid @ octets (size_digits sz) @ [0]"
proof -
  let ?mode = "octets ''0000640'' @ [0]" and ?id = "octets ''0000000'' @ [0]"
  define b0 where "b0 = put_at 0 (octets name) (zeros 512)"
  define b1 where "b1 = put_at 100 ?mode b0"
  define b2 where "b2 = put_at 108 ?id b1"
  define b3 where "b3 = put_at 116 ?id b2"
  define b4 where "b4 = put_at 124 (oct_field 11 sz) b3"
  have len: "length b0 = 512" "length b1 = 512" "length b2 = 512" "length b3 = 512" "length b4 = 512"
    by (simp_all add: b0_def b1_def b2_def b3_def b4_def)
  have "take 100 b0 = octets name @ zeros (100 - length name)"
    using assms(1) by (simp add: b0_def put_at_def zeros_def)
  then have "take 108 b1 = (octets name @ zeros (100 - length name)) @ ?mode"
    unfolding b1_def by (subst take_put_at [of 100]) (simp_all add: len)
  then have "take 116 b2 = ((octets name @ zeros (100 - length name)) @ ?mode) @ ?id"
    unfolding b2_def by (subst take_put_at [of 108]) (simp_all add: len)
  then have "take 124 b3 = (((octets name @ zeros (100 - length name)) @ ?mode) @ ?id) @ ?id"
    unfolding b3_def by (subst take_put_at [of 116]) (simp_all add: len)
  then have "take 136 b4 = ((((octets name @ zeros (100 - length name)) @ ?mode) @ ?id) @ ?id) @ octets (size_digits sz) @ [0]"
    unfolding b4_def oct_field_digits using size_digits_facts(4) [OF assms(2)]
    by (subst take_put_at [of 124]) (simp_all add: len)
  moreover have "take 136 (tar_fields name sz mtime) = take 136 b4"
    unfolding tar_fields_def b4_def b3_def b2_def b1_def b0_def by (simp add: take_put_before)
  ultimately show ?thesis by (intro exI [of _ "?mode @ ?id @ ?id"]) simp
qed

lemma tar_header_front:
  assumes "length name \<le> 99" "sz < 8 ^ 11"
  obtains h mid where "tar_header name sz mtime = Inr h" "length h = 512" "length mid = 24"
    "take 136 h = octets name @ zeros (100 - length name) @ mid @ octets (size_digits sz) @ [0]"
proof -
  from tar_fields_front [OF assms, of mtime] obtain mid where mid: "length mid = 24"
    "take 136 (tar_fields name sz mtime) = octets name @ zeros (100 - length name) @ mid @ octets (size_digits sz) @ [0]" by blast
  let ?h = "put_at 148 (oct_field 6 (sum_list (map unat (tar_fields name sz mtime))) @ octets '' '') (tar_fields name sz mtime)"
  have "tar_header name sz mtime = Inr ?h" using assms(1) by (simp add: tar_header_def Let_def)
  moreover have "take 136 ?h = take 136 (tar_fields name sz mtime)" by (simp add: take_put_before)
  ultimately show thesis using that [of ?h mid] mid by simp
qed

section \<open>Reading what was written\<close>

lemma subarray_at:
  assumes "x \<le> y" "y \<le> length ys"
  shows "subarray (pre @ ys) (int (length pre) + int x) (int (length pre) + int y) = take (y - x) (drop x ys)"
proof -
  have "clamp (length (pre @ ys)) (int (length pre) + int i) = length pre + i" if "i \<le> length ys" for i
    using that by (simp add: clamp_def)
  with assms show ?thesis by (simp add: subarray_def Let_def)
qed

definition packable :: "str \<times> str \<Rightarrow> bool" where
  "packable f \<longleftrightarrow> fst f \<noteq> [] \<and> CHR 0x00 \<notin> set (fst f) \<and> length (fst f) \<le> 99 \<and> length (snd f) < 8 ^ 11"

lemma read_header_fields:
  assumes front: "take 136 h = octets name @ zeros (100 - length name) @ mid @ octets (size_digits sz) @ [0]"
    and len: "length h = 512" "length mid = 24" "length name \<le> 99" "sz < 8 ^ 11" and nul: "CHR 0x00 \<notin> set name"
  shows "c_string (subarray (pre @ h @ rest) (int (length pre)) (int (length pre) + 100)) = name"
    and "entry_size (pre @ h @ rest) (int (length pre)) = Some (int sz)"
proof -
  have "take 100 h = take 100 (take 136 h)" by (simp add: min_def)
  also have "\<dots> = octets name @ zeros (100 - length name)" unfolding front using len by simp
  also have "\<dots> = octets name @ 0 # zeros (99 - length name)"
    using len(3) by (simp add: zeros_def replicate_Suc [symmetric] Suc_diff_le del: replicate_Suc)
  finally have name: "take 100 h = octets name @ 0 # zeros (99 - length name)" .
  show "c_string (subarray (pre @ h @ rest) (int (length pre)) (int (length pre) + 100)) = name"
    using subarray_at [of 0 100 "h @ rest" pre] len name nul by (simp add: c_string_text)
  have "take 12 (drop 124 h) = drop 124 (take 136 h)" by (simp add: drop_take)
  also have "\<dots> = octets (size_digits sz) @ [0]" unfolding front using len by simp
  finally have sz: "take 12 (drop 124 h) = octets (size_digits sz) @ [0]" .
  show "entry_size (pre @ h @ rest) (int (length pre)) = Some (int sz)"
    using subarray_at [of 124 136 "h @ rest" pre] len sz size_reads_back [of sz] by (simp add: entry_size_def)
qed

lemma padded_length: "int sz + int ((512 - sz mod 512) mod 512) = - (- int sz div 512) * 512"
proof -
  let ?u = "(512 - sz mod 512) mod 512"
  have "(sz + ?u) mod 512 = (sz mod 512 + (512 - sz mod 512)) mod 512" by (simp only: mod_add_right_eq mod_add_left_eq)
  also have "\<dots> = 0" by (simp add: less_imp_le)
  finally obtain k where k: "sz + ?u = 512 * k" by (auto simp: mod_eq_0_iff_dvd)
  then have u: "- int sz = int ?u + (- int k) * 512" by linarith
  have "- int sz div 512 = - int k" unfolding u by (subst div_mult_self1) simp_all
  with u show ?thesis by simp
qed

lemma read_written:
  assumes "list_all packable fs" "tar_parts mtime fs = Inr body"
  shows "read_loop (pre @ body @ zeros 1024) (int (length pre)) out = Some (out @ fs)"
  using assms
proof (induction fs arbitrary: pre body out)
  case Nil
  then have "c_string (subarray (pre @ body @ zeros 1024) (int (length pre)) (int (length pre) + 100)) = []"
    using subarray_at [of 0 100 "zeros 1024" pre] by (simp add: zeros_def c_string_def text_bytes_def)
  with Nil show ?case by (subst read_loop.simps) simp
next
  case (Cons f fs)
  obtain name content where f: "f = (name, content)" by (cases f)
  with Cons.prems(1) have ok: "name \<noteq> []" "CHR 0x00 \<notin> set name" "length name \<le> 99" "length content < 8 ^ 11"
    by (auto simp: packable_def)
  from tar_header_front [OF ok(3,4), of mtime] obtain h mid where
    h: "tar_header name (length content) mtime = Inr h" "length h = 512" "length mid = 24"
      "take 136 h = octets name @ zeros (100 - length name) @ mid @ octets (size_digits (length content)) @ [0]" by blast
  let ?pad = "zeros ((512 - length content mod 512) mod 512)"
  from Cons.prems(2) h(1) f obtain rest where rest: "tar_parts mtime fs = Inr rest"
    and body: "body = h @ octets content @ ?pad @ rest"
    by (cases "tar_parts mtime fs") auto
  let ?tar = "pre @ h @ octets content @ ?pad @ rest @ zeros 1024" and ?off = "int (length pre)"
  note fields = read_header_fields [OF h(4) h(2,3) ok(3,4,2), of pre "octets content @ ?pad @ rest @ zeros 1024"]
  have contents: "text_bytes (subarray ?tar (?off + 512) (?off + 512 + int (length content))) = content"
    using subarray_at [of 512 "512 + length content" "h @ octets content @ ?pad @ rest @ zeros 1024" pre] h(2)
    by (simp add: algebra_simps)
  have off: "?off + 512 + - (- int (length content) div 512) * 512 = int (length (pre @ h @ octets content @ ?pad))"
    using padded_length [of "length content"] h(2) by simp
  have "read_loop ?tar ?off out =
      read_loop ?tar (?off + 512 + - (- int (length content) div 512) * 512) (out @ [(name, content)])"
    by (subst read_loop.simps) (simp add: fields ok(1) contents h(2) Let_def)
  also have "\<dots> = read_loop ?tar (int (length (pre @ h @ octets content @ ?pad))) (out @ [(name, content)])"
    unfolding off ..
  also have "\<dots> = Some ((out @ [(name, content)]) @ fs)"
    using Cons.IH [of rest "pre @ h @ octets content @ ?pad" "out @ [(name, content)]"] Cons.prems(1) rest by simp
  finally show ?case using f body by simp
qed

lemma parts_written: "list_all packable fs \<Longrightarrow> \<exists>body. tar_parts mtime fs = Inr body"
proof (induction fs)
  case (Cons f fs)
  obtain name content where f: "f = (name, content)" by (cases f)
  with Cons.prems have "length name \<le> 99" "length content < 8 ^ 11" by (auto simp: packable_def)
  from tar_header_front [OF this, of mtime] obtain h where "tar_header name (length content) mtime = Inr h" by blast
  with Cons f show ?case by auto
qed simp

text \<open>
  Property C35. Round trip: files with names of 1 to 99 bytes without NUL and contents below 8 GiB are written as
  an archive, and reading that archive ends and gives the same names and contents in the same order.
\<close>

theorem tar_round_trip:
  assumes "list_all packable fs" "\<And>b. gunzip (gzip b) = b"
  shows "\<exists>buf. create_tar_gz gzip fs mtime = Inr buf \<and> read_tar_gz gunzip buf = Some fs"
proof -
  from parts_written [OF assms(1)] obtain body where body: "tar_parts mtime fs = Inr body" by blast
  from read_written [OF assms(1) body, of "[]" "[]"] assms(2) show ?thesis
    by (simp add: create_tar_gz_def read_tar_gz_def body)
qed

theorem tar_round_trip_witness:
  "\<exists>buf. create_tar_gz rev [(''a.json'', ''{}''), (''b'', [])] 1700000000000 = Inr buf \<and>
     read_tar_gz rev buf = Some [(''a.json'', ''{}''), (''b'', [])]"
  by (rule tar_round_trip) (simp_all add: packable_def)

end
