(* ===== verification/Doubles.thy ===== *)
theory Doubles
  imports Complex_Main
begin

text \<open>
  Numbers of JavaScript, IEEE 754 doubles, as the rationals they stand for: \<open>dbl\<close> rounds an exact
  result to the nearest double, ties to the even one, so \<^verbatim>\<open>a / b\<close> is \<open>dbl (a / b)\<close>.
  Overflow is asked separately (\<open>overflows\<close>). \<^verbatim>\<open>Math.sqrt\<close> is the correctly rounded root.
\<close>

fun bits :: "nat \<Rightarrow> nat" where
  "bits n = (if n = 0 then 0 else Suc (bits (n div 2)))"

declare bits.simps [simp del]

definition two_to :: "int \<Rightarrow> rat" where
  "two_to e = (if 0 \<le> e then 2 ^ nat e else 1 / 2 ^ nat (- e))"

text \<open>The exponent of a positive rational: \<open>two_to (exponent q) \<le> q < two_to (exponent q + 1)\<close>.\<close>

definition exponent :: "rat \<Rightarrow> int" where
  "exponent q =
     (let (n, d) = quotient_of q; e = int (bits (nat n)) - int (bits (nat d)) in
      if two_to e \<le> q then e else e - 1)"

text \<open>The exponent of the last of the 53 places, not below that of the subnormal numbers.\<close>

definition last_place :: "int \<Rightarrow> int" where
  "last_place e = max (e - 52) (- 1074)"

definition round_half_even :: "rat \<Rightarrow> int" where
  "round_half_even q =
     (let k = \<lfloor>q\<rfloor>; r = q - of_int k in
      if r < 1 / 2 then k else if 1 / 2 < r then k + 1 else if even k then k else k + 1)"

definition dbl :: "rat \<Rightarrow> rat" where
  "dbl q =
     (if q = 0 then 0
      else let u = two_to (last_place (exponent \<bar>q\<bar>)) in of_int (round_half_even (q / u)) * u)"

definition overflows :: "rat \<Rightarrow> bool" where
  "overflows q \<longleftrightarrow> 2 ^ 1024 - 2 ^ 970 \<le> \<bar>q\<bar>"

text \<open>\<^verbatim>\<open>Math.round\<close>, \<^verbatim>\<open>Math.ceil\<close>\<close>

definition math_round :: "rat \<Rightarrow> int" where
  "math_round q = \<lfloor>q + 1 / 2\<rfloor>"

fun isqrt :: "nat \<Rightarrow> nat" where
  "isqrt n = (if n < 2 then n else let r = 2 * isqrt (n div 4) in if (r + 1) * (r + 1) \<le> n then r + 1 else r)"

declare isqrt.simps [simp del]

text \<open>The root of \<open>q\<close> rounded at the last place of its own exponent, that is half of the exponent of \<open>q\<close>.\<close>

definition sqrt_dbl :: "rat \<Rightarrow> rat" where
  "sqrt_dbl q =
     (if q \<le> 0 then 0
      else let u = two_to (last_place (exponent q div 2)); m = q / (u * u); r = isqrt (nat \<lfloor>m\<rfloor>);
               half = (of_nat r + 1 / 2) * (of_nat r + 1 / 2)
           in of_nat (if half < m \<or> half = m \<and> odd r then r + 1 else r) * u)"

section \<open>Lemmas\<close>

lemma isqrt_spec: "isqrt n * isqrt n \<le> n \<and> n < (isqrt n + 1) * (isqrt n + 1)"
proof (induction n rule: isqrt.induct)
  case (1 n)
  show ?case
  proof (cases "n < 2")
    case True
    then have "n = 0 \<or> n = 1" by auto
    then show ?thesis by (elim disjE) (simp_all add: isqrt.simps)
  next
    case False
    define s where "s = isqrt (n div 4)"
    have s: "s * s \<le> n div 4" "n div 4 < (s + 1) * (s + 1)" using 1 False by (simp_all add: s_def)
    have lo: "4 * (s * s) \<le> n" using s(1) by simp
    have hi: "n < 4 * ((s + 1) * (s + 1))" using s(2) by (simp add: less_mult_imp_div_less div_less_iff_less_mult mult.commute)
    have eq: "isqrt n = (if (2 * s + 1) * (2 * s + 1) \<le> n then 2 * s + 1 else 2 * s)"
      using False by (subst isqrt.simps) (simp add: s_def Let_def)
    show ?thesis
    proof (cases "(2 * s + 1) * (2 * s + 1) \<le> n")
      case True
      then show ?thesis using hi unfolding eq by (simp add: algebra_simps)
    next
      case False
      then show ?thesis using lo unfolding eq by (simp add: algebra_simps)
    qed
  qed
qed

lemma round_half_even_int [simp]: "round_half_even (of_int n) = n"
  by (simp add: round_half_even_def)

lemma math_round_int [simp]: "math_round (of_int n) = n"
  by (simp add: math_round_def) linarith

lemma bits_le: "n < 2 ^ k \<Longrightarrow> bits n \<le> k"
proof (induction k arbitrary: n)
  case 0
  then show ?case by (simp add: bits.simps)
next
  case (Suc k)
  then have "n div 2 < 2 ^ k" by (simp add: less_mult_imp_div_less mult.commute)
  then show ?case using Suc.IH [of "n div 2"] by (subst bits.simps) simp
qed

lemma bits_1 [simp]: "bits (Suc 0) = 1"
  by (simp add: bits.simps [of "Suc 0"] bits.simps [of 0])

text \<open>Integers of 53 bits are doubles.\<close>

lemma two_to_le_1: "e \<le> 0 \<Longrightarrow> \<exists>k::nat. two_to e = 1 / 2 ^ k"
  by (cases "e = 0") (auto simp: two_to_def intro: exI [of _ 0])

lemma dbl_int:
  assumes "\<bar>n\<bar> < 2 ^ 53"
  shows "dbl (of_int n) = of_int n"
proof -
  have "quotient_of (of_int m) = (m, 1)" for m by (simp add: Rat.of_int_def [symmetric] quotient_of_int)
  then have q: "quotient_of \<bar>of_int n\<bar> = (\<bar>n\<bar>, 1)" by (metis of_int_abs)
  have "bits (nat \<bar>n\<bar>) \<le> 53" using assms by (intro bits_le) (simp add: nat_less_iff)
  then have "exponent \<bar>of_int n\<bar> \<le> 52" unfolding exponent_def q by (auto simp: Let_def)
  then have "last_place (exponent \<bar>of_int n\<bar>) \<le> 0" by (simp add: last_place_def)
  then obtain k :: nat where k: "two_to (last_place (exponent \<bar>of_int n\<bar>)) = 1 / 2 ^ k" using two_to_le_1 by blast
  have "(of_int n :: rat) * 2 ^ k = of_int (n * 2 ^ k)" by simp
  then have "round_half_even ((of_int n :: rat) * 2 ^ k) = n * 2 ^ k" by (metis round_half_even_int)
  then show ?thesis by (simp add: dbl_def k)
qed

lemma two_to_pos [simp]: "0 < two_to e"
  by (simp add: two_to_def)

lemma dbl_0 [simp]: "dbl 0 = 0"
  by (simp add: dbl_def)

lemma round_half_even_nonneg: "0 \<le> q \<Longrightarrow> 0 \<le> round_half_even q"
  unfolding round_half_even_def Let_def by (auto simp: zero_le_floor intro: order_trans)

lemma dbl_nonneg: "0 \<le> q \<Longrightarrow> 0 \<le> dbl q"
  by (simp add: dbl_def Let_def round_half_even_nonneg less_imp_le)

end
