(* ===== verification/Planner_Input.thy ===== *)
theory Planner_Input
  imports Checked Dates Doubles
begin

text \<open>
  The planning document of the inference planner, \<^verbatim>\<open>server/inference-planner.js\<close>: its validation, which
  stops at the first problem and names the field. A BigInt is an integer, a number of the document the
  double its literal reads as; a literal beyond the largest double reads as infinity.
\<close>

section \<open>Fields\<close>

definition fail_at :: "str \<Rightarrow> str \<Rightarrow> 'a checked" where
  "fail_at w m = refuse (w @ '': '' @ m)"

definition read_record :: "json option \<Rightarrow> str \<Rightarrow> (str \<times> json) list checked" where
  "read_record v w =
     (case v of
        None \<Rightarrow> fail_at w ''is required''
      | Some x \<Rightarrow> (case x of JObj kvs \<Rightarrow> Inr kvs | _ \<Rightarrow> fail_at w ''must be an object''))"

definition read_list :: "json option \<Rightarrow> str \<Rightarrow> nat \<Rightarrow> json list checked" where
  "read_list v w lo =
     (case v of
        None \<Rightarrow> fail_at w ''is required''
      | Some (JArr xs) \<Rightarrow>
          (if length xs < lo then fail_at w (''needs at least '' @ nat_str lo @ '' item'' @ (if lo = 1 then [] else ''s'')) else Inr xs)
      | Some _ \<Rightarrow> fail_at w ''must be an array'')"

definition read_text :: "json option \<Rightarrow> str \<Rightarrow> str checked" where
  "read_text v w =
     (if is_null v then fail_at w ''is required''
      else case string_of v of Some s \<Rightarrow> Inr s | None \<Rightarrow> fail_at w ''must be a string'')"

definition text_or :: "'a \<Rightarrow> (str \<Rightarrow> 'a) \<Rightarrow> json option \<Rightarrow> str \<Rightarrow> 'a checked" where
  "text_or fallback wrap v w =
     (if is_null v then Inr fallback
      else case string_of v of Some s \<Rightarrow> Inr (wrap s) | None \<Rightarrow> fail_at w ''must be a string'')"

text \<open>\<^verbatim>\<open>/^-?\d+$/\<close> and \<^verbatim>\<open>BigInt(s)\<close>\<close>

definition decimal_int :: "str \<Rightarrow> int option" where
  "decimal_int s =
     (let neg = starts_with s ''-''; ds = (if neg then tl s else s) in
      if ds \<noteq> [] \<and> list_all is_digit ds then Some (if neg then - int (digits_val ds) else int (digits_val ds)) else None)"

definition to_bigint :: "json option \<Rightarrow> int option" where
  "to_bigint v =
     (case v of
        Some (JNum q) \<Rightarrow> (if is_whole (dbl q) \<and> \<bar>dbl q\<bar> \<le> 9007199254740991 then Some \<lfloor>dbl q\<rfloor> else None)
      | Some (JStr s) \<Rightarrow> decimal_int (trim s)
      | _ \<Rightarrow> None)"

definition in_limits :: "str \<Rightarrow> int \<Rightarrow> int option \<Rightarrow> int \<Rightarrow> int checked" where
  "in_limits w lo hi n =
     (if n < lo then fail_at w (''must be >= '' @ int_str lo)
      else case hi of
          Some m \<Rightarrow> (if m < n then fail_at w (''must be <= '' @ int_str m) else Inr n)
        | None \<Rightarrow> Inr n)"

definition read_integer :: "json option \<Rightarrow> str \<Rightarrow> int \<Rightarrow> int option \<Rightarrow> int checked" where
  "read_integer v w lo hi =
     (if is_null v then fail_at w ''is required''
      else case to_bigint v of None \<Rightarrow> fail_at w ''must be an integer'' | Some n \<Rightarrow> in_limits w lo hi n)"

definition integer_or :: "int \<Rightarrow> json option \<Rightarrow> str \<Rightarrow> int \<Rightarrow> int option \<Rightarrow> int checked" where
  "integer_or fallback v w lo hi = (if is_null v then Inr fallback else read_integer v w lo hi)"

definition read_positive :: "json option \<Rightarrow> str \<Rightarrow> rat checked" where
  "read_positive v w =
     (if is_null v then fail_at w ''is required''
      else case v of
          Some (JNum q) \<Rightarrow> (if \<not> overflows q \<and> 0 < dbl q then Inr (dbl q) else fail_at w ''must be a positive number'')
        | _ \<Rightarrow> fail_at w ''must be a positive number'')"

definition read_non_negative :: "json option \<Rightarrow> str \<Rightarrow> rat checked" where
  "read_non_negative v w =
     (if is_null v then fail_at w ''is required''
      else case v of
          Some (JNum q) \<Rightarrow> (if \<not> overflows q \<and> 0 \<le> dbl q then Inr (dbl q) else fail_at w ''must be a non-negative number'')
        | _ \<Rightarrow> fail_at w ''must be a non-negative number'')"

section \<open>The series\<close>

record day_count =
  dc_date :: str
  dc_ms :: int
  dc_requests :: int
  dc_dow :: int

text \<open>\<^verbatim>\<open>/^(\d{4})-(\d{2})-(\d{2})$/\<close>\<close>

definition date_parts :: "str \<Rightarrow> (int \<times> int \<times> int) option" where
  "date_parts s =
     (case split_on (CHR ''-'') s of
        [y, m, d] \<Rightarrow>
          (if length y = 4 \<and> length m = 2 \<and> length d = 2 \<and> list_all is_digit (y @ m @ d)
           then Some (int (digits_val y), int (digits_val m), int (digits_val d)) else None)
      | _ \<Rightarrow> None)"

definition parse_date :: "str \<Rightarrow> str \<Rightarrow> int checked" where
  "parse_date s w =
     (case date_parts s of
        None \<Rightarrow> fail_at w ''must be a calendar date (YYYY-MM-DD)''
      | Some (y, m, d) \<Rightarrow>
          (let ms = date_utc y (m - 1) d 0 0 0 in
           if utc_civil ms \<noteq> (y, m, d) then fail_at w ''is not a real calendar date'' else Inr ms))"

definition read_point :: "nat \<times> json \<Rightarrow> day_count checked" where
  "read_point x =
     (let w = ''forecast.series['' @ nat_str (fst x) @ '']'' in
      sbind (read_record (Some (snd x)) w) (\<lambda>p.
      sbind (read_text (map_of p ''date'') (w @ ''.date'')) (\<lambda>date.
      sbind (parse_date date (w @ ''.date'')) (\<lambda>ms.
      sbind (read_integer (map_of p ''requests'') (w @ ''.requests'') 0 (Some 1000000000)) (\<lambda>n.
      Inr \<lparr>dc_date = date, dc_ms = ms, dc_requests = n, dc_dow = utc_weekday ms\<rparr>)))))"

text \<open>Every point must be the day after the one before it; \<open>i\<close> is the index of the second.\<close>

fun check_consecutive :: "nat \<Rightarrow> day_count list \<Rightarrow> unit checked" where
  "check_consecutive i (p # q # ps) =
     (let w = ''forecast.series['' @ nat_str i @ ''].date'' in
      if dc_ms q = dc_ms p then fail_at w ''duplicates an earlier date''
      else if dc_ms q \<noteq> dc_ms p + ms_per_day then fail_at w ''every point must be the next calendar day''
      else check_consecutive (i + 1) (q # ps))"
| "check_consecutive i _ = Inr ()"

record forecast_input =
  fi_horizon :: int
  fi_window :: int
  fi_points :: "day_count list"

definition validate_forecast :: "json option \<Rightarrow> forecast_input checked" where
  "validate_forecast v =
     sbind (read_record v ''forecast'') (\<lambda>f.
     next_check (demand (map_of f ''series'' \<noteq> None) ''forecast.series: is required'')
     (sbind (read_list (map_of f ''series'') ''forecast.series'' 14) (\<lambda>rows.
      sbind (map_checked read_point (zip [0..<length rows] rows)) (\<lambda>pts.
      let points = sort_key dc_ms pts in
      next_check (check_consecutive 1 points)
      (sbind (integer_or 30 (map_of f ''horizon_days'') ''forecast.horizon_days'' 1 (Some 365)) (\<lambda>h.
       sbind (integer_or 28 (map_of f ''window_days'') ''forecast.window_days'' 7 (Some (int (length points)))) (\<lambda>w.
       Inr \<lparr>fi_horizon = h, fi_window = w, fi_points = points\<rparr>)))))))"

section \<open>Requests, models and GPUs\<close>

record token_counts =
  tk_input :: int
  tk_cached_read :: int
  tk_cache_write :: int
  tk_output :: int

definition validate_request :: "json option \<Rightarrow> token_counts checked" where
  "validate_request v =
     sbind (read_record v ''request'') (\<lambda>r.
     let token = (\<lambda>k. read_integer (map_of r k) (''request.'' @ k) 0 (Some 1000000000)) in
     sbind (token ''input_tokens'') (\<lambda>a.
     sbind (token ''cached_read_tokens'') (\<lambda>b.
     sbind (token ''cache_write_tokens'') (\<lambda>c.
     sbind (token ''output_tokens'') (\<lambda>d.
     Inr \<lparr>tk_input = a, tk_cached_read = b, tk_cache_write = c, tk_output = d\<rparr>)))))"

record wholesale_rates =
  wr_input :: int
  wr_cached_read :: int
  wr_cache_write :: int
  wr_output :: int
  wr_per_request :: int
  wr_success_bps :: int

record planner_model =
  pm_id :: str
  pm_label :: str
  pm_prefill :: rat
  pm_decode :: rat
  pm_cached_read :: rat
  pm_concurrency :: int
  pm_success_bps :: int
  pm_wholesale :: wholesale_rates

definition validate_wholesale :: "json option \<Rightarrow> str \<Rightarrow> int \<Rightarrow> wholesale_rates checked" where
  "validate_wholesale v w success =
     sbind (read_record v w) (\<lambda>r.
     let rate = (\<lambda>k. read_integer (map_of r k) (w @ ''.'' @ k) 0 None) in
     sbind (rate ''input_nano_usd_per_million'') (\<lambda>a.
     sbind (rate ''cached_read_nano_usd_per_million'') (\<lambda>b.
     sbind (rate ''cache_write_nano_usd_per_million'') (\<lambda>c.
     sbind (rate ''output_nano_usd_per_million'') (\<lambda>d.
     sbind (rate ''per_request_nano_usd'') (\<lambda>e.
     sbind (integer_or success (map_of r ''success_bps'') (w @ ''.success_bps'') 1 (Some 10000)) (\<lambda>s.
     Inr \<lparr>wr_input = a, wr_cached_read = b, wr_cache_write = c, wr_output = d, wr_per_request = e, wr_success_bps = s\<rparr>)))))))"

definition read_id :: "(str \<times> json) list \<Rightarrow> str \<Rightarrow> str checked" where
  "read_id m w =
     sbind (read_text (map_of m ''id'') (w @ ''.id'')) (\<lambda>raw.
     if trim raw = [] then fail_at (w @ ''.id'') ''must not be empty'' else Inr (trim raw))"

definition validate_model :: "nat \<times> json \<Rightarrow> planner_model checked" where
  "validate_model x =
     (let w = ''models['' @ nat_str (fst x) @ '']'' in
      sbind (read_record (Some (snd x)) w) (\<lambda>m.
      sbind (read_id m w) (\<lambda>mid.
      sbind (text_or mid id (map_of m ''label'') (w @ ''.label'')) (\<lambda>label.
      sbind (read_record (map_of m ''throughput'') (w @ ''.throughput'')) (\<lambda>t.
      sbind (read_positive (map_of t ''prefill_tokens_per_sec'') (w @ ''.throughput.prefill_tokens_per_sec'')) (\<lambda>prefill.
      sbind (read_positive (map_of t ''decode_tokens_per_sec'') (w @ ''.throughput.decode_tokens_per_sec'')) (\<lambda>dec.
      sbind (if is_null (map_of t ''cached_read_tokens_per_sec'') then Inr prefill
             else read_positive (map_of t ''cached_read_tokens_per_sec'') (w @ ''.throughput.cached_read_tokens_per_sec'')) (\<lambda>cached.
      sbind (integer_or 1 (map_of t ''concurrency'') (w @ ''.throughput.concurrency'') 1 (Some 1024)) (\<lambda>conc.
      sbind (read_integer (map_of m ''success_bps'') (w @ ''.success_bps'') 1 (Some 10000)) (\<lambda>success.
      sbind (validate_wholesale (map_of m ''wholesale'') (w @ ''.wholesale'') success) (\<lambda>wholesale.
      Inr \<lparr>pm_id = mid, pm_label = label, pm_prefill = prefill, pm_decode = dec, pm_cached_read = cached,
           pm_concurrency = conc, pm_success_bps = success, pm_wholesale = wholesale\<rparr>)))))))))))"

record gpu_section =
  gs_storage_gb :: int
  gs_storage_rate :: int
  gs_egress_bytes :: int
  gs_egress_rate :: int

definition validate_gpu_section :: "json option \<Rightarrow> str \<Rightarrow> ((str \<times> json) list \<times> gpu_section) checked" where
  "validate_gpu_section v w =
     sbind (read_record v w) (\<lambda>s.
     let amount = (\<lambda>k. read_integer (map_of s k) (w @ ''.'' @ k) 0 None) in
     sbind (amount ''storage_gb'') (\<lambda>a.
     sbind (amount ''storage_nano_usd_per_gb_month'') (\<lambda>b.
     sbind (amount ''egress_bytes_per_request'') (\<lambda>c.
     sbind (amount ''egress_nano_usd_per_gb'') (\<lambda>d.
     Inr (s, \<lparr>gs_storage_gb = a, gs_storage_rate = b, gs_egress_bytes = c, gs_egress_rate = d\<rparr>))))))"

record gpu_class =
  gc_id :: str
  gc_label :: str
  gc_warm :: gpu_section
  gc_warm_hourly :: int
  gc_scale :: gpu_section
  gc_scale_hourly :: int
  gc_startup_seconds :: rat
  gc_requests_per_cold_start :: int

definition validate_gpu_class :: "nat \<times> json \<Rightarrow> gpu_class checked" where
  "validate_gpu_class x =
     (let w = ''gpu_classes['' @ nat_str (fst x) @ '']'' in
      sbind (read_record (Some (snd x)) w) (\<lambda>g.
      sbind (read_id g w) (\<lambda>gid.
      sbind (text_or gid id (map_of g ''label'') (w @ ''.label'')) (\<lambda>label.
      sbind (validate_gpu_section (map_of g ''warm'') (w @ ''.warm'')) (\<lambda>(kw, warm).
      sbind (read_integer (map_of kw ''hourly_nano_usd'') (w @ ''.warm.hourly_nano_usd'') 0 None) (\<lambda>hw.
      sbind (validate_gpu_section (map_of g ''scale_to_zero'') (w @ ''.scale_to_zero'')) (\<lambda>(ks, scale).
      sbind (read_integer (map_of ks ''hourly_nano_usd'') (w @ ''.scale_to_zero.hourly_nano_usd'') 0 None) (\<lambda>hs.
      sbind (read_non_negative (map_of ks ''startup_seconds'') (w @ ''.scale_to_zero.startup_seconds'')) (\<lambda>start.
      sbind (read_integer (map_of ks ''requests_per_cold_start'') (w @ ''.scale_to_zero.requests_per_cold_start'') 1 None) (\<lambda>rpc.
      Inr \<lparr>gc_id = gid, gc_label = label, gc_warm = warm, gc_warm_hourly = hw, gc_scale = scale, gc_scale_hourly = hs,
           gc_startup_seconds = start, gc_requests_per_cold_start = rpc\<rparr>))))))))))"

text \<open>\<^verbatim>\<open>unique\<close>: the first id that was seen before is refused.\<close>

fun check_unique :: "str \<Rightarrow> str list \<Rightarrow> str list \<Rightarrow> unit checked" where
  "check_unique kind seen [] = Inr ()"
| "check_unique kind seen (i # is) =
     (if i \<in> set seen then fail_at (kind @ ''.id'') ([CHR 0x27] @ i @ [CHR 0x27] @ '' is listed twice'') else check_unique kind (seen @ [i]) is)"

record planning_document =
  pd_note :: "str option"
  pd_forecast :: forecast_input
  pd_request :: token_counts
  pd_models :: "planner_model list"
  pd_gpu_classes :: "gpu_class list"

definition validate_document :: "json option \<Rightarrow> planning_document checked" where
  "validate_document input =
     (case object_of input of
        None \<Rightarrow> fail_at ''input'' ''must be a JSON object''
      | Some i \<Rightarrow>
          sbind (text_or None Some (map_of i ''note'') ''note'') (\<lambda>note'.
          sbind (validate_forecast (map_of i ''forecast'')) (\<lambda>f.
          sbind (validate_request (map_of i ''request'')) (\<lambda>r.
          sbind (read_list (map_of i ''models'') ''models'' 1) (\<lambda>ms.
          sbind (map_checked validate_model (zip [0..<length ms] ms)) (\<lambda>models.
          next_check (check_unique ''models'' [] (map pm_id models))
          (sbind (read_list (map_of i ''gpu_classes'') ''gpu_classes'' 1) (\<lambda>gs.
           sbind (map_checked validate_gpu_class (zip [0..<length gs] gs)) (\<lambda>gpus.
           next_check (check_unique ''gpu_classes'' [] (map gc_id gpus))
           (Inr \<lparr>pd_note = note', pd_forecast = f, pd_request = r, pd_models = models, pd_gpu_classes = gpus\<rparr>))))))))))"

end
