(* ===== verification/Planner.thy ===== *)
theory Planner
  imports Planner_Input
begin

text \<open>
  The inference planner, \<^verbatim>\<open>server/inference-planner.js\<close>: the demand forecast in doubles, the three cost
  functions in whole nano-dollars, the break-even search and the recommendation. The modes, labels
  and messages are the source's; the serialized result is a record of the same fields.
\<close>

section \<open>The forecast\<close>

definition weekdays :: "str list" where
  "weekdays = [''Sunday'', ''Monday'', ''Tuesday'', ''Wednesday'', ''Thursday'', ''Friday'', ''Saturday'']"

text \<open>\<^verbatim>\<open>isoDate\<close>; a year of five digits is printed as \<^verbatim>\<open>+010000\<close>.\<close>

definition iso_date :: "int \<Rightarrow> str" where
  "iso_date ms = take 10 (if 9999 < utc_year ms then ''+0'' @ iso_string ms else iso_string ms)"

text \<open>\<^verbatim>\<open>round(value, 4)\<close>\<close>

definition round4 :: "rat \<Rightarrow> rat" where
  "round4 q = dbl (of_int (math_round (dbl (q * 10000))) / 10000)"

definition dbl_sum :: "rat list \<Rightarrow> rat" where
  "dbl_sum qs = foldl (\<lambda>a q. dbl (a + q)) 0 qs"

text \<open>\<^verbatim>\<open>points.slice(-windowDays)\<close>\<close>

definition trailing :: "int \<Rightarrow> 'a list \<Rightarrow> 'a list" where
  "trailing n xs = drop (length xs - nat n) xs"

definition requests_of :: "day_count list \<Rightarrow> rat list" where
  "requests_of ps = map (\<lambda>p. of_int (dc_requests p)) ps"

definition mean_of :: "rat list \<Rightarrow> rat" where
  "mean_of qs = dbl (dbl_sum qs / of_nat (length qs))"

definition weekday_mean :: "day_count list \<Rightarrow> rat \<Rightarrow> int \<Rightarrow> rat" where
  "weekday_mean w level dow =
     (let ps = filter (\<lambda>p. dc_dow p = dow) w in if ps = [] then level else mean_of (requests_of ps))"

definition weekday_factor :: "day_count list \<Rightarrow> rat \<Rightarrow> int \<Rightarrow> rat" where
  "weekday_factor w level dow = (if 0 < level then dbl (weekday_mean w level dow / level) else 1)"

definition squares :: "(day_count \<Rightarrow> rat) \<Rightarrow> day_count list \<Rightarrow> rat" where
  "squares expected w =
     dbl_sum (map (\<lambda>p. let r = dbl (of_int (dc_requests p) - expected p) in dbl (r * r)) w)"

text \<open>
  The spread of the residuals: over the weekday means with \<^verbatim>\<open>windowDays - 7\<close> degrees of freedom, or
  over the level when there is none.
\<close>

definition spread :: "int \<Rightarrow> day_count list \<Rightarrow> rat \<Rightarrow> rat" where
  "spread window_days w level =
     (if 0 < window_days - 7 then dbl (squares (\<lambda>p. weekday_mean w level (dc_dow p)) w / of_int (window_days - 7))
      else dbl (squares (\<lambda>_. level) w / of_nat (max 1 (length w - 1))))"

record forecast_day =
  fd_date :: str
  fd_weekday :: str
  fd_requests :: rat
  fd_factor :: rat

record forecast_window =
  fw_start :: str
  fw_end :: str
  fw_days :: nat
  fw_level :: rat
  fw_sd :: rat
  fw_factors :: "(str \<times> rat) list"

record monthly_requests =
  mr_requests :: rat
  mr_band :: rat
  mr_low :: rat
  mr_high :: rat
  mr_band_bps :: int

record demand_forecast =
  df_points :: nat
  df_first_date :: str
  df_last_date :: str
  df_window :: forecast_window
  df_monthly :: monthly_requests
  df_daily :: "forecast_day list"

definition forecast_day_at :: "int \<Rightarrow> (int \<Rightarrow> rat) \<Rightarrow> rat \<Rightarrow> int \<Rightarrow> forecast_day" where
  "forecast_day_at last_ms factor level i =
     (let ms = last_ms + i * ms_per_day; dow = utc_weekday ms in
      \<lparr>fd_date = iso_date ms, fd_weekday = weekdays ! nat dow,
       fd_requests = of_int (math_round (dbl (level * factor dow))), fd_factor = round4 (factor dow)\<rparr>)"

definition z_95 :: rat where
  "z_95 = dbl (196 / 100)"

definition monthly_of :: "rat \<Rightarrow> rat \<Rightarrow> monthly_requests" where
  "monthly_of tot band =
     \<lparr>mr_requests = tot, mr_band = band, mr_low = max 0 (dbl (tot - band)), mr_high = dbl (tot + band),
      mr_band_bps = (if 0 < tot then math_round (dbl (dbl (band / tot) * 10000)) else 0)\<rparr>"

definition forecast :: "forecast_input \<Rightarrow> demand_forecast" where
  "forecast inp =
     (let points = fi_points inp;
          w = trailing (fi_window inp) points;
          level = mean_of (requests_of w);
          factor = weekday_factor w level;
          final = last points;
          daily = map (\<lambda>i. forecast_day_at (dc_ms final) factor level i) [1..fi_horizon inp];
          tot = dbl_sum (map fd_requests daily);
          sd = sqrt_dbl (spread (fi_window inp) w level);
          band = of_int \<lceil>dbl (dbl (z_95 * sd) * sqrt_dbl (of_int (fi_horizon inp)))\<rceil>
      in \<lparr>df_points = length points, df_first_date = dc_date (hd points), df_last_date = dc_date final,
          df_window = \<lparr>fw_start = dc_date (hd w), fw_end = dc_date (last w), fw_days = length w, fw_level = round4 level,
                       fw_sd = round4 sd, fw_factors = map (\<lambda>i. (weekdays ! i, round4 (factor (int i)))) [0..<7]\<rparr>,
          df_monthly = monthly_of tot band, df_daily = daily\<rparr>)"

section \<open>Costs\<close>

definition hours_per_month :: int where "hours_per_month = 730"
definition seconds_per_hour :: int where "seconds_per_hour = 3600"
definition nano_per_million :: int where "nano_per_million = 1000000"
definition bytes_per_gb :: int where "bytes_per_gb = 1000000000"
definition bps_unit :: int where "bps_unit = 10000"

lemmas planner_units = hours_per_month_def seconds_per_hour_def nano_per_million_def bytes_per_gb_def bps_unit_def

definition month_ms :: int where
  "month_ms = hours_per_month * seconds_per_hour * 1000"

text \<open>\<^verbatim>\<open>/\<close> of BigInt truncates. The divisors of \<^verbatim>\<open>ceilDiv\<close> are constants, validated or tested to be positive.\<close>

definition big_div :: "int \<Rightarrow> int \<Rightarrow> int" where
  "big_div a b = sgn a * sgn b * (\<bar>a\<bar> div \<bar>b\<bar>)"

definition ceil_div :: "int \<Rightarrow> int \<Rightarrow> int" where
  "ceil_div a b = big_div (a + b - 1) b"

text \<open>\<^verbatim>\<open>BigInt(x)\<close> of a number throws when it is not whole, and so on infinity.\<close>

definition big_of :: "rat \<Rightarrow> int checked" where
  "big_of q =
     (if overflows q \<or> \<not> is_whole q then refuse ''The number cannot be converted to a BigInt because it is not an integer''
      else Inr \<lfloor>q\<rfloor>)"

definition storage_monthly :: "gpu_section \<Rightarrow> int" where
  "storage_monthly s = gs_storage_gb s * gs_storage_rate s"

definition egress_per_request :: "gpu_section \<Rightarrow> int" where
  "egress_per_request s =
     (if gs_egress_bytes s = 0 \<or> gs_egress_rate s = 0 then 0 else ceil_div (gs_egress_bytes s * gs_egress_rate s) bytes_per_gb)"

record busy_time =
  bt_prefill :: rat
  bt_cached_read :: rat
  bt_decode :: rat
  bt_total :: rat
  bt_concurrency :: int

text \<open>
  \<^verbatim>\<open>Math.ceil(Number(tokens) * 1000 / rate)\<close>; a quotient that overflows is infinite and stays so in
  the sum, here the number \<open>infinite\<close> that overflows.
\<close>

definition infinite :: rat where
  "infinite = 2 ^ 1024"

definition phase_millis :: "int \<Rightarrow> rat \<Rightarrow> rat" where
  "phase_millis tokens rate =
     (if tokens = 0 then 0
      else let q = dbl (of_int tokens * 1000) / rate in if overflows q then infinite else of_int \<lceil>dbl q\<rceil>)"

definition busy_millis :: "planner_model \<Rightarrow> token_counts \<Rightarrow> busy_time" where
  "busy_millis m r =
     (let prefill = phase_millis (tk_input r + tk_cache_write r) (pm_prefill m);
          cached = phase_millis (tk_cached_read r) (pm_cached_read m);
          decode = phase_millis (tk_output r) (pm_decode m)
      in \<lparr>bt_prefill = prefill, bt_cached_read = cached, bt_decode = decode,
          bt_total = dbl (dbl (prefill + cached) + decode), bt_concurrency = pm_concurrency m\<rparr>)"

datatype gpu_mode = Warm | Scale_To_Zero | Wholesale

record mode_cost =
  mc_mode :: gpu_mode
  mc_total :: int
  mc_parts :: "(str \<times> int) list"
  mc_idle_burn :: int
  mc_gpu_count :: "int option"
  mc_occupancy :: "int option"
  mc_cold_starts :: "int option"
  mc_per_request :: "int option"

definition warm_cost :: "int \<Rightarrow> gpu_class \<Rightarrow> int \<Rightarrow> mode_cost" where
  "warm_cost n g busy_ms =
     (let gpu_ms = n * busy_ms;
          needed = ceil_div gpu_ms month_ms;
          gpus = (if 0 < needed then needed else 1);
          rental = gpus * hours_per_month * gc_warm_hourly g;
          busy_value = ceil_div (gpu_ms * gc_warm_hourly g) (1000 * seconds_per_hour);
          storage = storage_monthly (gc_warm g);
          egress = n * egress_per_request (gc_warm g)
      in \<lparr>mc_mode = Warm, mc_total = rental + storage + egress,
          mc_parts = [(''gpu_rental'', rental), (''storage'', storage), (''egress'', egress)],
          mc_idle_burn = rental - busy_value, mc_gpu_count = Some gpus,
          mc_occupancy = Some (if 0 < gpu_ms then big_div (gpu_ms * bps_unit) (gpus * month_ms) else 0),
          mc_cold_starts = None, mc_per_request = None\<rparr>)"

text \<open>\<^verbatim>\<open>BigInt(Math.round(section.startupSeconds * 1000))\<close>\<close>

definition startup_ms :: "gpu_class \<Rightarrow> int checked" where
  "startup_ms g =
     (let q = gc_startup_seconds g * 1000 in big_of (if overflows q then infinite else of_int (math_round (dbl q))))"

definition scale_to_zero_cost :: "int \<Rightarrow> gpu_class \<Rightarrow> int \<Rightarrow> int \<Rightarrow> mode_cost" where
  "scale_to_zero_cost n g busy_ms startup =
     (let per_request = ceil_div (busy_ms * gc_scale_hourly g) (1000 * seconds_per_hour);
          busy_cost = n * per_request;
          cold_starts = ceil_div n (gc_requests_per_cold_start g);
          cold_cost = ceil_div (cold_starts * startup * gc_scale_hourly g) (1000 * seconds_per_hour);
          storage = storage_monthly (gc_scale g);
          egress = n * egress_per_request (gc_scale g)
      in \<lparr>mc_mode = Scale_To_Zero, mc_total = busy_cost + cold_cost + storage + egress,
          mc_parts = [(''busy'', busy_cost), (''cold_start'', cold_cost), (''storage'', storage), (''egress'', egress)],
          mc_idle_burn = 0, mc_gpu_count = None, mc_occupancy = None, mc_cold_starts = Some cold_starts,
          mc_per_request = None\<rparr>)"

definition wholesale_parts :: "planner_model \<Rightarrow> token_counts \<Rightarrow> (str \<times> int) list" where
  "wholesale_parts m r =
     (let w = pm_wholesale m in
      [(''input'', ceil_div (tk_input r * wr_input w) nano_per_million),
       (''cached_read'', ceil_div (tk_cached_read r * wr_cached_read w) nano_per_million),
       (''cache_write'', ceil_div (tk_cache_write r * wr_cache_write w) nano_per_million),
       (''output'', ceil_div (tk_output r * wr_output w) nano_per_million),
       (''per_request'', wr_per_request w)])"

definition wholesale_cost :: "int \<Rightarrow> planner_model \<Rightarrow> token_counts \<Rightarrow> mode_cost" where
  "wholesale_cost n m r =
     (let parts = wholesale_parts m r; per_request = sum_list (map snd parts) in
      \<lparr>mc_mode = Wholesale, mc_total = n * per_request, mc_parts = parts, mc_idle_burn = 0,
       mc_gpu_count = None, mc_occupancy = None, mc_cold_starts = None, mc_per_request = Some per_request\<rparr>)"

record mode_costs =
  cs_warm :: mode_cost
  cs_scale :: mode_cost
  cs_wholesale :: mode_cost

fun cost_of :: "mode_costs \<Rightarrow> gpu_mode \<Rightarrow> mode_cost" where
  "cost_of c Warm = cs_warm c"
| "cost_of c Scale_To_Zero = cs_scale c"
| "cost_of c Wholesale = cs_wholesale c"

text \<open>\<^verbatim>\<open>costsAt\<close>, whose conversions to BigInt are made in the order of the calls.\<close>

definition costs_at :: "rat \<Rightarrow> planner_model \<Rightarrow> gpu_class \<Rightarrow> token_counts \<Rightarrow> busy_time \<Rightarrow> mode_costs checked" where
  "costs_at requests m g r b =
     sbind (big_of requests) (\<lambda>n.
     sbind (big_of (bt_total b)) (\<lambda>busy_ms.
     sbind (startup_ms g) (\<lambda>startup.
     Inr \<lparr>cs_warm = warm_cost n g busy_ms, cs_scale = scale_to_zero_cost n g busy_ms startup,
          cs_wholesale = wholesale_cost n m r\<rparr>)))"

section \<open>The result\<close>

definition success_of :: "int \<Rightarrow> int \<Rightarrow> int \<Rightarrow> int \<times> int option" where
  "success_of tot n success_bps =
     (let tasks = big_div (n * success_bps) bps_unit in (tasks, if 0 < tasks then Some (ceil_div tot tasks) else None))"

record cost_report =
  cr_total :: str
  cr_per_request :: str
  cr_parts :: "(str \<times> str) list"
  cr_idle_burn :: str
  cr_tasks :: str
  cr_per_task :: "str option"
  cr_gpu_count :: "str option"
  cr_occupancy :: "int option"
  cr_cold_starts :: "str option"

definition serialize_cost :: "mode_cost \<Rightarrow> int \<Rightarrow> int \<Rightarrow> cost_report" where
  "serialize_cost c n success_bps =
     (let per_request = (case mc_per_request c of Some p \<Rightarrow> p | None \<Rightarrow> if 0 < n then ceil_div (mc_total c) n else 0);
          (tasks, each) = success_of (mc_total c) n success_bps
      in \<lparr>cr_total = int_str (mc_total c), cr_per_request = int_str per_request,
          cr_parts = map (\<lambda>(k, v). (k, int_str v)) (mc_parts c), cr_idle_burn = int_str (mc_idle_burn c),
          cr_tasks = int_str tasks, cr_per_task = map_option int_str each,
          cr_gpu_count = map_option int_str (mc_gpu_count c), cr_occupancy = mc_occupancy c,
          cr_cold_starts = map_option int_str (mc_cold_starts c)\<rparr>)"

record costs_report =
  co_requests :: rat
  co_warm :: cost_report
  co_scale :: cost_report
  co_wholesale :: cost_report

definition serialize_costs :: "mode_costs \<Rightarrow> rat \<Rightarrow> planner_model \<Rightarrow> costs_report" where
  "serialize_costs c requests m =
     \<lparr>co_requests = requests,
      co_warm = serialize_cost (cs_warm c) \<lfloor>requests\<rfloor> (pm_success_bps m),
      co_scale = serialize_cost (cs_scale c) \<lfloor>requests\<rfloor> (pm_success_bps m),
      co_wholesale = serialize_cost (cs_wholesale c) \<lfloor>requests\<rfloor> (wr_success_bps (pm_wholesale m))\<rparr>"

definition tie_order :: "gpu_mode list" where
  "tie_order = [Wholesale, Scale_To_Zero, Warm]"

definition choose_mode :: "mode_costs \<Rightarrow> gpu_mode" where
  "choose_mode c =
     foldl (\<lambda>best m. if mc_total (cost_of c m) < mc_total (cost_of c best) then m else best) (hd tie_order) (tl tie_order)"

section \<open>Break-even\<close>

definition one_gpu_capacity :: "int \<Rightarrow> int" where
  "one_gpu_capacity busy_ms =
     (if busy_ms \<le> 0 then 1000000000
      else let capacity = big_div month_ms busy_ms in if 0 < capacity then capacity else 1)"

text \<open>The loop of \<^verbatim>\<open>firstAtMost\<close>: the predicate fails at \<open>low\<close> and holds at \<open>high\<close>.\<close>

function narrow :: "(int \<Rightarrow> bool) \<Rightarrow> int \<Rightarrow> int \<Rightarrow> int" where
  "narrow p low high =
     (if low + 1 < high then
        let mid = big_div (low + high) 2 in if p mid then narrow p low mid else narrow p mid high
      else high)"
  by pat_completeness auto

lemma big_div_half: "big_div a 2 = (if 0 \<le> a then a div 2 else - (- a div 2))"
  by (simp add: big_div_def sgn_if)

termination narrow
  by (relation "measure (\<lambda>(p, low, high). nat (high - low))") (auto simp: big_div_half)

declare narrow.simps [simp del]

definition first_at_most :: "(int \<Rightarrow> int) \<Rightarrow> (int \<Rightarrow> int) \<Rightarrow> int \<Rightarrow> int option" where
  "first_at_most a b m =
     (if a 0 \<le> b 0 then Some 0
      else if \<not> a m \<le> b m then None
      else Some (narrow (\<lambda>n. a n \<le> b n) 0 m))"

record break_even_report =
  be_capacity :: str
  be_warm_vs_scale :: "str option"
  be_warm_vs_wholesale :: "str option"

definition warm_against_scale :: "gpu_class \<Rightarrow> int \<Rightarrow> int \<Rightarrow> int option" where
  "warm_against_scale g busy_ms startup =
     first_at_most (\<lambda>n. mc_total (warm_cost n g busy_ms)) (\<lambda>n. mc_total (scale_to_zero_cost n g busy_ms startup))
       (one_gpu_capacity busy_ms)"

definition warm_against_wholesale :: "planner_model \<Rightarrow> gpu_class \<Rightarrow> token_counts \<Rightarrow> int \<Rightarrow> int option" where
  "warm_against_wholesale m g r busy_ms =
     first_at_most (\<lambda>n. mc_total (warm_cost n g busy_ms)) (\<lambda>n. mc_total (wholesale_cost n m r)) (one_gpu_capacity busy_ms)"

definition break_even :: "planner_model \<Rightarrow> gpu_class \<Rightarrow> token_counts \<Rightarrow> busy_time \<Rightarrow> break_even_report checked" where
  "break_even m g r b =
     sbind (big_of (bt_total b)) (\<lambda>busy_ms.
     sbind (startup_ms g) (\<lambda>startup.
     Inr \<lparr>be_capacity = int_str (one_gpu_capacity busy_ms),
          be_warm_vs_scale = map_option int_str (warm_against_scale g busy_ms startup),
          be_warm_vs_wholesale = map_option int_str (warm_against_wholesale m g r busy_ms)\<rparr>))"

section \<open>The recommendation\<close>

definition format_usd :: "int \<Rightarrow> nat \<Rightarrow> str" where
  "format_usd n digits =
     (let scale = 10 ^ (9 - digits);
          rounded = big_div (\<bar>n\<bar> + big_div scale 2) scale;
          unit' = 10 ^ digits
      in (if n < 0 then ''-'' else []) @ ''$'' @ int_str (big_div rounded unit') @ ''.''
         @ pad_start digits (CHR ''0'') (int_str (rounded - big_div rounded unit' * unit')))"

definition money_text :: "int \<Rightarrow> str" where
  "money_text n = format_usd n (if 0 < \<bar>n\<bar> \<and> \<bar>n\<bar> < 1000000 then 6 else 2)"

record budget_setting =
  bs_nano :: int
  bs_raw :: str
  bs_configured :: bool
  bs_valid :: bool

definition parse_budget :: "str option \<Rightarrow> budget_setting" where
  "parse_budget v =
     (let raw = (case v of None \<Rightarrow> [] | Some s \<Rightarrow> trim s) in
      if raw = [] then \<lparr>bs_nano = 0, bs_raw = raw, bs_configured = False, bs_valid = True\<rparr>
      else if \<not> list_all is_digit raw then \<lparr>bs_nano = 0, bs_raw = raw, bs_configured = True, bs_valid = False\<rparr>
      else \<lparr>bs_nano = int (digits_val raw), bs_raw = raw, bs_configured = True, bs_valid = True\<rparr>)"

fun mode_name :: "gpu_mode \<Rightarrow> str" where
  "mode_name Warm = ''warm''"
| "mode_name Scale_To_Zero = ''scale_to_zero''"
| "mode_name Wholesale = ''wholesale''"

fun mode_label :: "gpu_mode \<Rightarrow> str" where
  "mode_label Warm = ''Warm rented GPU''"
| "mode_label Scale_To_Zero = ''Scale to zero''"
| "mode_label Wholesale = ''Wholesale API''"

definition apostrophe :: str where
  "apostrophe = [CHR 0x27]"

definition cold_start_part :: "mode_cost \<Rightarrow> int" where
  "cold_start_part c = (case map_of (mc_parts c) ''cold_start'' of Some v \<Rightarrow> v | None \<Rightarrow> 0)"

definition reason_for :: "gpu_mode \<Rightarrow> gpu_mode \<Rightarrow> mode_costs \<Rightarrow> mode_costs \<Rightarrow> bool \<Rightarrow> budget_setting \<Rightarrow> bool \<Rightarrow> int \<Rightarrow> str" where
  "reason_for mode other fc hi is_stable budget needs_owner rec_high =
     join '' ''
       ([if is_stable
         then mode_label mode @ '' is cheapest at the forecast and at the high band ('' @ money_text (mc_total (cost_of fc mode)) @ ''/month).''
         else mode_label mode @ '' is cheapest at the forecast ('' @ money_text (mc_total (cost_of fc mode)) @ ''/month), but ''
              @ mode_label other @ '' is cheapest at the high band ('' @ money_text (mc_total (cost_of hi other))
              @ ''/month); the choice depends on demand.'',
         case mode of
           Warm \<Rightarrow> ''Its idle burn is '' @ money_text (mc_idle_burn (cs_warm fc)) @ ''/month at the forecast.''
         | Scale_To_Zero \<Rightarrow> ''Its cold-start cost is '' @ money_text (cold_start_part (cs_scale fc))
                            @ ''/month at the forecast; idle time is free.''
         | Wholesale \<Rightarrow> ''No GPU is rented and no idle burn is paid.'',
         if needs_owner
         then ''Needs the owner'' @ apostrophe @ ''s budget: '' @ money_text rec_high @ ''/month at the high band is above the configured ''
              @ money_text (bs_nano budget) @ ''/month.''
         else ''Within the configured '' @ money_text (bs_nano budget) @ ''/month budget.'']
        @ (if bs_valid budget then []
           else [''HOST_INFERENCE_BUDGET_NANO_USD is not a non-negative integer; it is treated as 0.'']))"

record recommendation =
  rm_mode :: gpu_mode
  rm_label :: str
  rm_reason :: str
  rm_stable :: bool
  rm_forecast :: str
  rm_high_band :: str
  rm_needs_owner :: bool
  rm_budget :: str
  rm_exceeds_forecast :: bool
  rm_exceeds_high_band :: bool

record plan_candidate =
  ca_model :: "str \<times> str"
  ca_gpu_class :: "str \<times> str"
  ca_busy :: busy_time
  ca_forecast_costs :: costs_report
  ca_high_costs :: costs_report
  ca_break_even :: break_even_report
  ca_recommendation :: recommendation

definition recommend :: "mode_costs \<Rightarrow> mode_costs \<Rightarrow> budget_setting \<Rightarrow> recommendation" where
  "recommend fc hi budget =
     (let mode = choose_mode fc; high_mode = choose_mode hi;
          rec_forecast = mc_total (cost_of fc mode);
          rec_high = mc_total (cost_of hi mode);
          over_forecast = bs_nano budget < rec_forecast;
          over_high = bs_nano budget < rec_high;
          needs_owner = (over_forecast \<or> over_high);
          is_stable = (mode = high_mode)
      in \<lparr>rm_mode = mode, rm_label = mode_label mode,
          rm_reason = reason_for mode high_mode fc hi is_stable budget needs_owner rec_high, rm_stable = is_stable,
          rm_forecast = int_str rec_forecast, rm_high_band = int_str rec_high, rm_needs_owner = needs_owner,
          rm_budget = int_str (bs_nano budget), rm_exceeds_forecast = over_forecast, rm_exceeds_high_band = over_high\<rparr>)"

definition plan_one :: "planner_model \<Rightarrow> gpu_class \<Rightarrow> token_counts \<Rightarrow> demand_forecast \<Rightarrow> budget_setting \<Rightarrow> plan_candidate checked" where
  "plan_one m g r f budget =
     (let b = busy_millis m r; low = mr_requests (df_monthly f); high = mr_high (df_monthly f) in
      sbind (costs_at low m g r b) (\<lambda>fc.
      sbind (costs_at high m g r b) (\<lambda>hi.
      sbind (break_even m g r b) (\<lambda>be.
      Inr \<lparr>ca_model = (pm_id m, pm_label m), ca_gpu_class = (gc_id g, gc_label g), ca_busy = b,
           ca_forecast_costs = serialize_costs fc low m, ca_high_costs = serialize_costs hi high m,
           ca_break_even = be, ca_recommendation = recommend fc hi budget\<rparr>))))"

record inference_plan =
  ip_note :: "str option"
  ip_forecast :: demand_forecast
  ip_budget :: budget_setting
  ip_candidates :: "plan_candidate list"
  ip_needs_owner :: nat
  ip_stable :: nat

definition inference_plan :: "json option \<Rightarrow> str option \<Rightarrow> inference_plan checked" where
  "inference_plan input budget_text =
     sbind (validate_document input) (\<lambda>d.
     let budget = parse_budget budget_text; f = forecast (pd_forecast d) in
     sbind (map_checked (\<lambda>(m, g). plan_one m g (pd_request d) f budget) (List.product (pd_models d) (pd_gpu_classes d))) (\<lambda>cs.
     Inr \<lparr>ip_note = pd_note d, ip_forecast = f, ip_budget = budget, ip_candidates = cs,
          ip_needs_owner = length (filter (\<lambda>c. rm_needs_owner (ca_recommendation c)) cs),
          ip_stable = length (filter (\<lambda>c. rm_stable (ca_recommendation c)) cs)\<rparr>))"

end
