(* ===== verification/Planner_Facts.thy ===== *)
theory Planner_Facts
  imports Planner
begin

text \<open>
  What the inference planner computes: the break-even search against the linear search, the choice of
  the mode, the idle burn, the budget, the validated series and the forecast of a steady demand.
\<close>

section \<open>Division\<close>

lemma big_div_nonneg: "0 \<le> a \<Longrightarrow> 0 < b \<Longrightarrow> big_div a b = a div b"
  by (auto simp: big_div_def sgn_if)

lemma ceil_div_nonpos: "a \<le> 0 \<Longrightarrow> 0 < b \<Longrightarrow> ceil_div a b \<le> 0"
proof (cases "0 \<le> a + b - 1")
  case True
  assume "a \<le> 0" "0 < b"
  with True have "(a + b - 1) div b = 0" by (intro div_pos_pos_trivial) auto
  with True \<open>0 < b\<close> show ?thesis by (simp add: ceil_div_def big_div_nonneg)
next
  case False
  assume "0 < b"
  with False show ?thesis by (simp add: ceil_div_def big_div_def sgn_if pos_imp_zdiv_nonneg_iff)
qed

lemma le_div: "0 < b \<Longrightarrow> (k::int) \<le> x div b \<longleftrightarrow> k * b \<le> x"
proof
  assume "0 < b" "k * b \<le> x"
  then show "k \<le> x div b" using zdiv_mono1 [of "k * b" x b] by simp
next
  assume "0 < b" "k \<le> x div b"
  then have "k * b \<le> x div b * b" by (simp add: mult_right_mono)
  also have "\<dots> \<le> x" using pos_mod_sign [OF \<open>0 < b\<close>, of x] div_mult_mod_eq [of x b] by linarith
  finally show "k * b \<le> x" .
qed

text \<open>\<open>ceil_div a b\<close> is the least integer whose product with \<open>b\<close> reaches \<open>a\<close>.\<close>

lemma ceil_div_le:
  assumes "0 \<le> a" "0 < b"
  shows "ceil_div a b \<le> c \<longleftrightarrow> a \<le> c * b"
proof -
  have "ceil_div a b = (a + b - 1) div b" using assms by (simp add: ceil_div_def big_div_nonneg)
  moreover have "(a + b - 1) div b \<le> c \<longleftrightarrow> (a + b - 1) div b < c + 1" by linarith
  moreover have "\<dots> \<longleftrightarrow> a + b - 1 < (c + 1) * b" using le_div [OF assms(2), of "c + 1" "a + b - 1"] by linarith
  moreover have "\<dots> \<longleftrightarrow> a \<le> c * b" by (simp add: distrib_right) linarith
  ultimately show ?thesis by simp
qed

lemma ceil_div_nonneg: "0 \<le> a \<Longrightarrow> 0 < b \<Longrightarrow> 0 \<le> ceil_div a b"
  by (simp add: ceil_div_def big_div_nonneg pos_imp_zdiv_nonneg_iff)

lemma ceil_div_mono: "0 \<le> a \<Longrightarrow> a \<le> a' \<Longrightarrow> 0 < b \<Longrightarrow> ceil_div a b \<le> ceil_div a' b"
  by (simp add: ceil_div_def big_div_nonneg zdiv_mono1)

section \<open>The search\<close>

text \<open>The reference: the first count from 0 to \<open>m\<close> that satisfies \<open>p\<close>, by trying them all.\<close>

definition least_count :: "(int \<Rightarrow> bool) \<Rightarrow> int \<Rightarrow> int option" where
  "least_count p m = List.find p [0..m]"

lemma find_upto: "List.find p [i..m] = Some n \<longleftrightarrow> i \<le> n \<and> n \<le> m \<and> p n \<and> (\<forall>k. i \<le> k \<and> k < n \<longrightarrow> \<not> p k)"
proof (induction i m rule: upto.induct)
  case (1 i m)
  show ?case
  proof (cases "i \<le> m")
    case True
    show ?thesis
    proof (cases "p i")
      case True
      then show ?thesis using \<open>i \<le> m\<close> by (subst upto.simps) (auto simp: order_le_less)
    next
      case False
      have "List.find p [i..m] = List.find p [i + 1..m]" using False True by (subst upto.simps) simp
      also have "\<dots> = Some n \<longleftrightarrow> i + 1 \<le> n \<and> n \<le> m \<and> p n \<and> (\<forall>k. i + 1 \<le> k \<and> k < n \<longrightarrow> \<not> p k)"
        using 1 True by simp
      also have "\<dots> \<longleftrightarrow> i \<le> n \<and> n \<le> m \<and> p n \<and> (\<forall>k. i \<le> k \<and> k < n \<longrightarrow> \<not> p k)"
        using False by (metis add1_zle_eq dual_order.strict_iff_order dual_order.trans order_le_less)
      finally show ?thesis .
    qed
  qed simp
qed

lemma find_upto_None: "List.find p [i..m] = None \<longleftrightarrow> (\<forall>k. i \<le> k \<and> k \<le> m \<longrightarrow> \<not> p k)"
  by (auto simp: find_None_iff)

lemma narrow_bounds: "low < high \<Longrightarrow> low < narrow p low high \<and> narrow p low high \<le> high"
proof (induction p low high rule: narrow.induct)
  case (1 p low high)
  show ?case
  proof (cases "low + 1 < high")
    case True
    define mid where "mid = big_div (low + high) 2"
    have mid: "low < mid" "mid < high" using True by (auto simp: mid_def big_div_half)
    have eq: "narrow p low high = (if p mid then narrow p low mid else narrow p mid high)"
      using True by (subst narrow.simps) (simp add: mid_def Let_def)
    show ?thesis
    proof (cases "p mid")
      case p: True
      have "low < narrow p low mid \<and> narrow p low mid \<le> mid" by (rule "1.IH"(1) [OF True mid_def p mid(1)])
      then show ?thesis using p mid by (simp add: eq)
    next
      case p: False
      have "mid < narrow p mid high \<and> narrow p mid high \<le> high" by (rule "1.IH"(2) [OF True mid_def p mid(2)])
      then show ?thesis using p mid by (simp add: eq)
    qed
  next
    case False
    then show ?thesis using 1 by (simp add: narrow.simps [of p low high])
  qed
qed

lemma narrow_least:
  assumes "low < high" "\<not> p low" "p high"
    and "\<And>i j. low \<le> i \<Longrightarrow> i \<le> j \<Longrightarrow> j \<le> high \<Longrightarrow> p i \<Longrightarrow> p j"
  shows "p (narrow p low high) \<and> (\<forall>k. low \<le> k \<and> k < narrow p low high \<longrightarrow> \<not> p k)"
  using assms
proof (induction p low high rule: narrow.induct)
  case (1 p low high)
  show ?case
  proof (cases "low + 1 < high")
    case True
    define mid where "mid = big_div (low + high) 2"
    have mid: "low < mid" "mid < high" using True by (auto simp: mid_def big_div_half)
    have eq: "narrow p low high = (if p mid then narrow p low mid else narrow p mid high)"
      using True by (subst narrow.simps) (simp add: mid_def Let_def)
    have upl: "\<And>i j. low \<le> i \<Longrightarrow> i \<le> j \<Longrightarrow> j \<le> mid \<Longrightarrow> p i \<Longrightarrow> p j"
      using "1.prems"(4) mid(2) by (meson less_imp_le order_trans)
    have upr: "\<And>i j. mid \<le> i \<Longrightarrow> i \<le> j \<Longrightarrow> j \<le> high \<Longrightarrow> p i \<Longrightarrow> p j"
      using "1.prems"(4) mid(1) by (meson less_imp_le order_trans)
    show ?thesis
    proof (cases "p mid")
      case p: True
      have "p (narrow p low mid) \<and> (\<forall>k. low \<le> k \<and> k < narrow p low mid \<longrightarrow> \<not> p k)"
        by (rule "1.IH"(1) [OF True mid_def p mid(1) "1.prems"(2) p]) (rule upl)
      then show ?thesis using p by (simp add: eq)
    next
      case p: False
      have "p (narrow p mid high) \<and> (\<forall>k. mid \<le> k \<and> k < narrow p mid high \<longrightarrow> \<not> p k)"
        by (rule "1.IH"(2) [OF True mid_def p mid(2) p "1.prems"(3)]) (rule upr)
      moreover have "\<not> p k" if "low \<le> k" "k < mid" for k using "1.prems"(4) [of k mid] p mid that by auto
      ultimately show ?thesis using p by (simp add: eq) (metis not_le)
    qed
  next
    case False
    then have "high = low + 1" using "1.prems"(1) by linarith
    have "narrow p low high = high" using False by (simp add: narrow.simps [of p low high])
    moreover have "\<not> p k" if "low \<le> k \<and> k < high" for k
    proof -
      have "k = low" using that \<open>high = low + 1\<close> by linarith
      then show ?thesis using "1.prems"(2) by simp
    qed
    ultimately show ?thesis using "1.prems"(3) by simp
  qed
qed

text \<open>Where the comparison, once it holds, goes on holding, the search finds the least count.\<close>

lemma first_at_most_least:
  assumes "0 < m" and up: "\<And>i j. \<not> a 0 \<le> b 0 \<Longrightarrow> 0 < i \<Longrightarrow> i \<le> j \<Longrightarrow> j \<le> m \<Longrightarrow> a i \<le> b i \<Longrightarrow> a j \<le> b j"
  shows "first_at_most a b m = least_count (\<lambda>n. a n \<le> b n) m"
proof -
  let ?p = "\<lambda>n. a n \<le> b n"
  consider "?p 0" | "\<not> ?p 0" "\<not> ?p m" | "\<not> ?p 0" "?p m" by blast
  then show ?thesis
  proof cases
    case 1
    then have "least_count ?p m = Some 0" using \<open>0 < m\<close> by (simp add: least_count_def find_upto)
    then show ?thesis using 1 by (simp add: first_at_most_def)
  next
    case 2
    have "\<not> ?p k" if "0 \<le> k \<and> k \<le> m" for k using up [of k m] that 2 by (cases "k = 0") auto
    then have "least_count ?p m = None" by (simp add: least_count_def find_upto_None)
    then show ?thesis using 2 by (simp add: first_at_most_def)
  next
    case 3
    let ?n = "narrow ?p 0 m"
    have up': "\<And>i j. 0 \<le> i \<Longrightarrow> i \<le> j \<Longrightarrow> j \<le> m \<Longrightarrow> ?p i \<Longrightarrow> ?p j"
      using up 3(1) by (metis order_le_less)
    have "?p ?n \<and> (\<forall>k. 0 \<le> k \<and> k < ?n \<longrightarrow> \<not> ?p k)"
      by (rule narrow_least [where p = ?p, OF \<open>0 < m\<close> 3]) (rule up')
    then have "least_count ?p m = Some ?n"
      using narrow_bounds [OF \<open>0 < m\<close>, of ?p] by (simp add: least_count_def find_upto)
    then show ?thesis using 3 by (simp add: first_at_most_def)
  qed
qed

section \<open>Break-even\<close>

lemma capacity_pos [simp]: "0 < one_gpu_capacity busy_ms"
  by (simp add: one_gpu_capacity_def Let_def)

lemma capacity_one: "month_ms < busy_ms \<Longrightarrow> one_gpu_capacity busy_ms = 1"
  by (simp add: one_gpu_capacity_def Let_def big_div_nonneg month_ms_def planner_units div_pos_pos_trivial)

text \<open>Within the capacity one GPU is enough, so the warm cost is affine.\<close>

lemma one_gpu:
  assumes "0 \<le> n" "n \<le> one_gpu_capacity busy_ms" "1 < one_gpu_capacity busy_ms"
  shows "\<not> 1 < ceil_div (n * busy_ms) month_ms"
proof (cases "0 < busy_ms \<and> 0 < n")
  case True
  have "n * busy_ms \<le> month_ms"
  proof (cases "busy_ms \<le> month_ms")
    case le: True
    have "big_div month_ms busy_ms = month_ms div busy_ms" using True by (intro big_div_nonneg) (simp_all add: month_ms_def planner_units)
    moreover have "1 \<le> month_ms div busy_ms" using le True by (simp add: le_div)
    ultimately have "n \<le> month_ms div busy_ms" using assms(2) True by (simp add: one_gpu_capacity_def Let_def)
    then show ?thesis using True by (simp add: le_div)
  next
    case False
    then show ?thesis using assms(3) capacity_one by simp
  qed
  moreover have "0 \<le> n * busy_ms" using True by simp
  ultimately have "ceil_div (n * busy_ms) month_ms \<le> 1" by (subst ceil_div_le) (simp_all add: month_ms_def planner_units)
  then show ?thesis by simp
next
  case False
  then have "n * busy_ms \<le> 0" using assms(1) by (auto simp: mult_nonneg_nonpos)
  then have "ceil_div (n * busy_ms) month_ms \<le> 0" by (rule ceil_div_nonpos) (simp add: month_ms_def planner_units)
  then show ?thesis by simp
qed

definition one_gpu_month :: "gpu_class \<Rightarrow> int" where
  "one_gpu_month g = hours_per_month * gc_warm_hourly g + storage_monthly (gc_warm g)"

lemma warm_total:
  assumes "0 \<le> n" "n \<le> one_gpu_capacity busy_ms" "1 < one_gpu_capacity busy_ms"
  shows "mc_total (warm_cost n g busy_ms) = one_gpu_month g + n * egress_per_request (gc_warm g)"
  using one_gpu [OF assms] by (auto simp: warm_cost_def Let_def one_gpu_month_def not_less order_le_less)


text \<open>
  Property C37. The warm-against-wholesale break-even is exact: the binary search returns the least
  request count within one GPU's capacity at which the warm GPU costs no more than the wholesale
  interface, or nothing when there is none, as the search through all counts does.
\<close>

theorem wholesale_break_even_exact:
  "warm_against_wholesale m g r busy_ms =
     least_count (\<lambda>n. mc_total (warm_cost n g busy_ms) \<le> mc_total (wholesale_cost n m r)) (one_gpu_capacity busy_ms)"
  unfolding warm_against_wholesale_def
proof (rule first_at_most_least)
  fix i j
  let ?q = "sum_list (map snd (wholesale_parts m r))" and ?e = "egress_per_request (gc_warm g)"
  let ?warm = "\<lambda>n. mc_total (warm_cost n g busy_ms)" and ?whole = "\<lambda>n. mc_total (wholesale_cost n m r)"
  assume free: "\<not> ?warm 0 \<le> ?whole 0" and ij: "0 < i" "i \<le> j" "j \<le> one_gpu_capacity busy_ms" and i: "?warm i \<le> ?whole i"
  have whole: "?whole n = n * ?q" for n by (simp add: wholesale_cost_def Let_def)
  show "?warm j \<le> ?whole j"
  proof (cases "i = j")
    case False
    then have busy: "1 < one_gpu_capacity busy_ms" using ij by linarith
    have warm: "?warm n = one_gpu_month g + n * ?e" if "0 \<le> n" "n \<le> j" for n
      using that ij busy by (intro warm_total) auto
    have pos: "0 < one_gpu_month g" using free warm [of 0] ij whole [of 0] by simp
    have "one_gpu_month g \<le> i * (?q - ?e)" using i warm [of i] ij whole [of i] by (simp add: right_diff_distrib)
    moreover then have "0 < ?q - ?e" using pos ij by (metis less_le_trans zero_less_mult_pos)
    ultimately have "one_gpu_month g \<le> j * (?q - ?e)" using ij by (meson mult_right_mono less_imp_le order_trans)
    then show ?thesis using warm [of j] ij whole [of j] by (simp add: right_diff_distrib)
  qed (use i in simp)
qed simp


text \<open>
  The warm-against-scale-to-zero break-even is exact too when a request costs a warm GPU
  no more egress than it costs scale-to-zero in busy time and egress.
\<close>

theorem scale_break_even_exact:
  assumes "0 < gc_requests_per_cold_start g" "0 \<le> startup" "0 \<le> gc_scale_hourly g"
    and cheaper: "egress_per_request (gc_warm g)
       \<le> ceil_div (busy_ms * gc_scale_hourly g) (1000 * seconds_per_hour) + egress_per_request (gc_scale g)"
  shows "warm_against_scale g busy_ms startup =
     least_count (\<lambda>n. mc_total (warm_cost n g busy_ms) \<le> mc_total (scale_to_zero_cost n g busy_ms startup))
       (one_gpu_capacity busy_ms)"
  unfolding warm_against_scale_def
proof (rule first_at_most_least)
  fix i j
  let ?e = "egress_per_request (gc_warm g)" and ?b = "ceil_div (busy_ms * gc_scale_hourly g) (1000 * seconds_per_hour)"
  let ?cold = "\<lambda>n. ceil_div (ceil_div n (gc_requests_per_cold_start g) * startup * gc_scale_hourly g) (1000 * seconds_per_hour)"
  let ?warm = "\<lambda>n. mc_total (warm_cost n g busy_ms)" and ?scale = "\<lambda>n. mc_total (scale_to_zero_cost n g busy_ms startup)"
  assume ij: "0 < i" "i \<le> j" "j \<le> one_gpu_capacity busy_ms" and i: "?warm i \<le> ?scale i"
  have scale: "?scale n = n * (?b + egress_per_request (gc_scale g)) + ?cold n + storage_monthly (gc_scale g)" for n
    by (simp add: scale_to_zero_cost_def Let_def distrib_left)
  show "?warm j \<le> ?scale j"
  proof (cases "i = j")
    case False
    then have busy: "1 < one_gpu_capacity busy_ms" using ij by linarith
    have warm: "?warm n = one_gpu_month g + n * ?e" if "0 \<le> n" "n \<le> j" for n
      using that ij busy by (intro warm_total) auto
    have "0 \<le> ceil_div i (gc_requests_per_cold_start g) * startup * gc_scale_hourly g"
      using assms(1-3) ij by (simp add: ceil_div_nonneg)
    then have "?cold i \<le> ?cold j"
      using assms(1-3) ij by (intro ceil_div_mono mult_right_mono) (simp_all add: ceil_div_mono planner_units)
    moreover have "(j - i) * ?e \<le> (j - i) * (?b + egress_per_request (gc_scale g))"
      using cheaper ij by (intro mult_left_mono) simp_all
    ultimately show ?thesis using i warm [of i] warm [of j] ij scale [of i] scale [of j] by (simp add: left_diff_distrib)
  qed (use i in simp)
qed simp

text \<open>Without that condition the search can miss the threshold: here it answers 11, yet one request is enough.\<close>

definition dear_egress_class :: gpu_class where
  "dear_egress_class =
     \<lparr>gc_id = ''g'', gc_label = ''g'', gc_warm = \<lparr>gs_storage_gb = 5, gs_storage_rate = 1, gs_egress_bytes = 1000000000, gs_egress_rate = 501\<rparr>,
      gc_warm_hourly = 0, gc_scale = \<lparr>gs_storage_gb = 0, gs_storage_rate = 0, gs_egress_bytes = 0, gs_egress_rate = 0\<rparr>,
      gc_scale_hourly = 10, gc_startup_seconds = 3600, gc_requests_per_cold_start = 10\<rparr>"

lemma scale_break_even_may_miss:
  "warm_against_scale dear_egress_class 180000000 3600000 = Some 11"
  "mc_total (warm_cost 1 dear_egress_class 180000000) \<le> mc_total (scale_to_zero_cost 1 dear_egress_class 180000000 3600000)"
  by code_simp+

definition cheap_egress_class :: gpu_class where
  "cheap_egress_class = dear_egress_class\<lparr>gc_warm := (gc_warm dear_egress_class)\<lparr>gs_egress_rate := 500\<rparr>\<rparr>"

theorem scale_break_even_exact_witness:
  "warm_against_scale cheap_egress_class 180000000 3600000 =
     least_count (\<lambda>n. mc_total (warm_cost n cheap_egress_class 180000000)
                      \<le> mc_total (scale_to_zero_cost n cheap_egress_class 180000000 3600000)) (one_gpu_capacity 180000000)"
  by (rule scale_break_even_exact) code_simp+

section \<open>The choice\<close>

text \<open>
  The recommended mode costs the least of the three, and a GPU is rented only where that
  is strictly cheaper: a warm one than both others, scale-to-zero than the wholesale interface.
\<close>

theorem choice_is_cheapest:
  "mc_total (cost_of c (choose_mode c)) =
     min (mc_total (cs_warm c)) (min (mc_total (cs_scale c)) (mc_total (cs_wholesale c)))
   \<and> (case choose_mode c of
        Warm \<Rightarrow> mc_total (cs_warm c) < min (mc_total (cs_scale c)) (mc_total (cs_wholesale c))
      | Scale_To_Zero \<Rightarrow> mc_total (cs_scale c) < mc_total (cs_wholesale c)
      | Wholesale \<Rightarrow> True)"
  by (simp add: choose_mode_def tie_order_def)

text \<open>
  What a warm GPU burns idle is never negative, its occupancy is at most the whole, and the
  rented GPUs have time for every request.
\<close>

theorem warm_bounds:
  assumes "0 \<le> n" "0 \<le> busy_ms" "0 \<le> gc_warm_hourly g"
  shows "0 \<le> mc_idle_burn (warm_cost n g busy_ms) \<and>
    (case (mc_gpu_count (warm_cost n g busy_ms), mc_occupancy (warm_cost n g busy_ms)) of
       (Some gpus, Some bps) \<Rightarrow> 1 \<le> gpus \<and> n * busy_ms \<le> gpus * month_ms \<and> 0 \<le> bps \<and> bps \<le> 10000
     | _ \<Rightarrow> False)"
proof -
  let ?ms = "n * busy_ms"
  define gpus where "gpus = (if 0 < ceil_div ?ms month_ms then ceil_div ?ms month_ms else 1)"
  have m: "0 < month_ms" by (simp add: month_ms_def planner_units)
  have ms: "0 \<le> ?ms" using assms by simp
  have gpus: "1 \<le> gpus" "?ms \<le> gpus * month_ms"
    using ceil_div_le [OF ms m, of gpus] by (auto simp: gpus_def)
  have "?ms * gc_warm_hourly g \<le> gpus * month_ms * gc_warm_hourly g" using gpus assms by (intro mult_right_mono) auto
  then have "?ms * gc_warm_hourly g \<le> gpus * hours_per_month * gc_warm_hourly g * (1000 * seconds_per_hour)"
    by (simp add: month_ms_def planner_units algebra_simps)
  then have burn: "ceil_div (?ms * gc_warm_hourly g) (1000 * seconds_per_hour) \<le> gpus * hours_per_month * gc_warm_hourly g"
    using assms by (subst ceil_div_le) (simp_all add: planner_units)
  have pos: "0 < gpus * month_ms" using gpus(1) m by simp
  have "?ms * bps_unit div (gpus * month_ms) \<le> 10000"
  proof -
    have "?ms * bps_unit < 10001 * (gpus * month_ms)" using gpus(2) pos by (simp add: bps_unit_def)
    then have "\<not> 10001 \<le> ?ms * bps_unit div (gpus * month_ms)" using pos by (simp add: le_div)
    then show ?thesis by simp
  qed
  moreover have "0 \<le> ?ms * bps_unit div (gpus * month_ms)" using ms pos by (simp add: pos_imp_zdiv_nonneg_iff bps_unit_def)
  moreover have "big_div (?ms * bps_unit) (gpus * month_ms) = ?ms * bps_unit div (gpus * month_ms)"
    using ms pos by (intro big_div_nonneg) (simp_all add: bps_unit_def)
  ultimately show ?thesis using burn gpus
    by (simp add: warm_cost_def Let_def gpus_def [symmetric])
qed

theorem warm_bounds_witness: "0 \<le> mc_idle_burn (warm_cost 20 (dear_egress_class\<lparr>gc_warm_hourly := 3\<rparr>) 180000000)"
  using warm_bounds [of 20 180000000 "dear_egress_class\<lparr>gc_warm_hourly := 3\<rparr>"] by simp

section \<open>What validation gives\<close>

definition amount_ok :: "int \<Rightarrow> bool" where
  "amount_ok n \<longleftrightarrow> 0 \<le> n \<and> n \<le> 1000000000"

definition bps_ok :: "int \<Rightarrow> bool" where
  "bps_ok n \<longleftrightarrow> 1 \<le> n \<and> n \<le> 10000"

definition series_ok :: "forecast_input \<Rightarrow> bool" where
  "series_ok f \<longleftrightarrow>
     14 \<le> length (fi_points f) \<and> successively (\<lambda>p q. dc_ms q = dc_ms p + ms_per_day) (fi_points f)
     \<and> list_all (\<lambda>p. amount_ok (dc_requests p) \<and> dc_dow p = utc_weekday (dc_ms p)) (fi_points f)
     \<and> 1 \<le> fi_horizon f \<and> fi_horizon f \<le> 365
     \<and> (fi_window f = 28 \<or> 7 \<le> fi_window f \<and> fi_window f \<le> int (length (fi_points f)))"

definition tokens_ok :: "token_counts \<Rightarrow> bool" where
  "tokens_ok r \<longleftrightarrow>
     amount_ok (tk_input r) \<and> amount_ok (tk_cached_read r) \<and> amount_ok (tk_cache_write r) \<and> amount_ok (tk_output r)"

definition rates_ok :: "wholesale_rates \<Rightarrow> bool" where
  "rates_ok w \<longleftrightarrow>
     0 \<le> wr_input w \<and> 0 \<le> wr_cached_read w \<and> 0 \<le> wr_cache_write w \<and> 0 \<le> wr_output w \<and> 0 \<le> wr_per_request w
     \<and> bps_ok (wr_success_bps w)"

definition model_ok :: "planner_model \<Rightarrow> bool" where
  "model_ok m \<longleftrightarrow>
     pm_id m \<noteq> [] \<and> 0 < pm_prefill m \<and> 0 < pm_decode m \<and> 0 < pm_cached_read m
     \<and> 1 \<le> pm_concurrency m \<and> pm_concurrency m \<le> 1024 \<and> bps_ok (pm_success_bps m) \<and> rates_ok (pm_wholesale m)"

definition section_ok :: "gpu_section \<Rightarrow> bool" where
  "section_ok s \<longleftrightarrow> 0 \<le> gs_storage_gb s \<and> 0 \<le> gs_storage_rate s \<and> 0 \<le> gs_egress_bytes s \<and> 0 \<le> gs_egress_rate s"

definition gpu_class_ok :: "gpu_class \<Rightarrow> bool" where
  "gpu_class_ok g \<longleftrightarrow>
     gc_id g \<noteq> [] \<and> section_ok (gc_warm g) \<and> 0 \<le> gc_warm_hourly g \<and> section_ok (gc_scale g) \<and> 0 \<le> gc_scale_hourly g
     \<and> 0 \<le> gc_startup_seconds g \<and> 1 \<le> gc_requests_per_cold_start g"

definition document_ok :: "planning_document \<Rightarrow> bool" where
  "document_ok d \<longleftrightarrow>
     series_ok (pd_forecast d) \<and> tokens_ok (pd_request d)
     \<and> pd_models d \<noteq> [] \<and> list_all model_ok (pd_models d) \<and> distinct (map pm_id (pd_models d))
     \<and> pd_gpu_classes d \<noteq> [] \<and> list_all gpu_class_ok (pd_gpu_classes d) \<and> distinct (map gc_id (pd_gpu_classes d))"

named_theorems planner_reads \<open>what a field that was read satisfies\<close>

lemma fail_at_Inr [passed_iffs]: "fail_at w m = Inr y \<longleftrightarrow> False"
  by (simp add: fail_at_def passed_iffs)

lemma in_limits_Inr [passed_iffs]:
  "in_limits w lo hi n = Inr k \<longleftrightarrow> k = n \<and> lo \<le> n \<and> (case hi of None \<Rightarrow> True | Some m \<Rightarrow> n \<le> m)"
  by (auto simp: in_limits_def passed_iffs split: option.splits)

lemma read_integer_limits [planner_reads]: "read_integer v w lo hi = Inr n \<Longrightarrow> lo \<le> n \<and> (case hi of None \<Rightarrow> True | Some m \<Rightarrow> n \<le> m)"
  by (auto simp: read_integer_def passed_iffs split: if_splits option.splits)

lemma integer_or_limits [planner_reads]:
  "integer_or d v w lo hi = Inr n \<Longrightarrow> n = d \<or> lo \<le> n \<and> (case hi of None \<Rightarrow> True | Some m \<Rightarrow> n \<le> m)"
  by (auto simp: integer_or_def dest: read_integer_limits split: if_splits)

lemma read_positive_pos [planner_reads]: "read_positive v w = Inr q \<Longrightarrow> 0 < q"
  by (auto simp: read_positive_def passed_iffs split: if_splits option.splits json.splits)

lemma read_non_negative_nonneg [planner_reads]: "read_non_negative v w = Inr q \<Longrightarrow> 0 \<le> q"
  by (auto simp: read_non_negative_def passed_iffs split: if_splits option.splits json.splits)

lemma read_list_long [planner_reads]: "read_list v w lo = Inr xs \<Longrightarrow> lo \<le> length xs"
  by (auto simp: read_list_def passed_iffs Suc_le_eq split: if_splits option.splits json.splits)

lemma read_id_nonempty [planner_reads]: "read_id m w = Inr i \<Longrightarrow> i \<noteq> []"
  by (auto simp: read_id_def passed_iffs split: if_splits)

lemma check_unique_distinct: "check_unique kind seen is = Inr u \<Longrightarrow> distinct is \<and> set is \<inter> set seen = {}"
  by (induction kind seen "is" rule: check_unique.induct) (auto simp: passed_iffs split: if_splits)

lemma check_consecutive_days: "check_consecutive i ps = Inr u \<Longrightarrow> successively (\<lambda>p q. dc_ms q = dc_ms p + ms_per_day) ps"
  by (induction i ps rule: check_consecutive.induct) (auto simp: passed_iffs Let_def split: if_splits)

lemma read_point_ok: "read_point x = Inr p \<Longrightarrow> amount_ok (dc_requests p) \<and> dc_dow p = utc_weekday (dc_ms p)"
  by (auto simp: read_point_def Let_def passed_iffs amount_ok_def dest!: planner_reads)

lemma list_all2_right: "list_all2 R xs ys \<Longrightarrow> (\<And>x y. R x y \<Longrightarrow> P y) \<Longrightarrow> list_all P ys"
  by (auto simp: list_all2_conv_all_nth list_all_length)

lemma validate_forecast_ok:
  assumes "validate_forecast v = Inr f"
  shows "series_ok f"
proof -
  from assms obtain rows pts where
    rows: "14 \<le> length rows" and pts: "list_all2 (\<lambda>x y. read_point x = Inr y) (zip [0..<length rows] rows) pts"
    and days: "check_consecutive 1 (sort_key dc_ms pts) = Inr ()" and f: "fi_points f = sort_key dc_ms pts"
    and limits: "1 \<le> fi_horizon f" "fi_horizon f \<le> 365" "fi_window f = 28 \<or> 7 \<le> fi_window f \<and> fi_window f \<le> int (length pts)"
    by (auto simp: validate_forecast_def Let_def passed_iffs dest!: planner_reads)
  have "length pts = length rows" using pts by (simp add: list_all2_conv_all_nth)
  moreover have "list_all (\<lambda>p. amount_ok (dc_requests p) \<and> dc_dow p = utc_weekday (dc_ms p)) pts"
    using pts by (rule list_all2_right) (rule read_point_ok)
  ultimately show ?thesis using rows days limits by (auto simp: series_ok_def f list_all_iff dest: check_consecutive_days)
qed

lemma validate_request_ok: "validate_request v = Inr r \<Longrightarrow> tokens_ok r"
  by (auto simp: validate_request_def Let_def passed_iffs tokens_ok_def amount_ok_def dest!: planner_reads)

lemma validate_wholesale_ok: "validate_wholesale v w success = Inr r \<Longrightarrow> 1 \<le> success \<and> success \<le> 10000 \<Longrightarrow> rates_ok r"
  by (auto simp: validate_wholesale_def Let_def passed_iffs rates_ok_def bps_ok_def dest!: planner_reads)

lemma cached_read_pos:
  "(if b then Inr d else read_positive v w) = Inr q \<Longrightarrow> 0 < d \<Longrightarrow> 0 < q"
  by (auto dest: read_positive_pos split: if_splits)

lemma validate_model_ok: "validate_model x = Inr m \<Longrightarrow> model_ok m"
  unfolding validate_model_def Let_def sbind_Inr
  by (elim exE conjE) (clarsimp simp: model_ok_def bps_ok_def dest!: planner_reads, auto dest: cached_read_pos validate_wholesale_ok)

lemma validate_gpu_section_ok: "validate_gpu_section v w = Inr (kvs, s) \<Longrightarrow> section_ok s"
  by (auto simp: validate_gpu_section_def Let_def passed_iffs section_ok_def dest!: planner_reads)

lemma validate_gpu_class_ok: "validate_gpu_class x = Inr g \<Longrightarrow> gpu_class_ok g"
  unfolding validate_gpu_class_def Let_def sbind_Inr
  by (elim exE conjE) (clarsimp simp: sbind_Inr gpu_class_ok_def dest!: planner_reads validate_gpu_section_ok split: prod.splits)

text \<open>
  Property C36. A planning document that validates is sound: a series of at least fourteen consecutive
  days with counts up to a thousand million, horizon and window in their ranges (or the default
  window), positive throughputs, no negative price or amount, success rates of 1 to 10000 basis points, and
  at least one model and one GPU class, each with an id of its own.
\<close>

theorem validated_document_ok:
  "case validate_document v of Inl _ \<Rightarrow> True | Inr d \<Rightarrow> document_ok d"
proof (cases "validate_document v")
  case (Inr d)
  then obtain i ms gs where
    d: "validate_forecast (map_of i ''forecast'') = Inr (pd_forecast d)" "validate_request (map_of i ''request'') = Inr (pd_request d)"
      "read_list (map_of i ''models'') ''models'' 1 = Inr ms"
      "list_all2 (\<lambda>x y. validate_model x = Inr y) (zip [0..<length ms] ms) (pd_models d)"
      "check_unique ''models'' [] (map pm_id (pd_models d)) = Inr ()"
      "read_list (map_of i ''gpu_classes'') ''gpu_classes'' 1 = Inr gs"
      "list_all2 (\<lambda>x y. validate_gpu_class x = Inr y) (zip [0..<length gs] gs) (pd_gpu_classes d)"
      "check_unique ''gpu_classes'' [] (map gc_id (pd_gpu_classes d)) = Inr ()"
    by (auto simp: validate_document_def passed_iffs split: option.splits)
  have "length (pd_models d) = length ms" "length (pd_gpu_classes d) = length gs"
    using d(4,7) by (simp_all add: list_all2_conv_all_nth)
  then have "pd_models d \<noteq> []" "pd_gpu_classes d \<noteq> []" using read_list_long [OF d(3)] read_list_long [OF d(6)] by auto
  moreover have "list_all model_ok (pd_models d)" using d(4) by (rule list_all2_right) (rule validate_model_ok)
  moreover have "list_all gpu_class_ok (pd_gpu_classes d)" using d(7) by (rule list_all2_right) (rule validate_gpu_class_ok)
  ultimately have "document_ok d"
    using validate_forecast_ok [OF d(1)] validate_request_ok [OF d(2)] check_unique_distinct [OF d(5)] check_unique_distinct [OF d(8)]
    by (simp add: document_ok_def)
  then show ?thesis using Inr by simp
qed simp

end
