(* ===== verification/Planner_Forecast.thy ===== *)
theory Planner_Forecast
  imports Planner
begin

text \<open>
  The forecast of the inference planner on a steady demand, through its rounding: every mean, factor
  and sum is exact as long as the counts add up to fewer than \<open>2 ^ 53\<close>.
\<close>

lemma dbl_sum_const:
  assumes "list_all (\<lambda>q. q = of_int c) qs" "0 \<le> c" "c * int (length qs) < 2 ^ 53"
  shows "dbl_sum qs = of_int (c * int (length qs))"
  using assms
proof (induction qs rule: rev_induct)
  case (snoc q qs)
  then have "c * int (length qs) < 2 ^ 53" by (simp add: distrib_left)
  with snoc have IH: "dbl_sum qs = of_int (c * int (length qs))" by simp
  have "q = of_int c" using snoc by simp
  then have "dbl_sum (qs @ [q]) = dbl (of_int (c * int (length qs) + c))" using IH by (simp add: dbl_sum_def)
  also have "\<dots> = of_int (c * int (length qs) + c)" using snoc.prems by (intro dbl_int) (simp add: distrib_left)
  finally show ?case by (simp add: distrib_left algebra_simps)
qed (simp add: dbl_sum_def)

lemma mean_const:
  assumes "list_all (\<lambda>q. q = of_int c) qs" "qs \<noteq> []" "0 \<le> c" "c * int (length qs) < 2 ^ 53"
  shows "mean_of qs = of_int c"
proof -
  have len: "0 < length qs" using assms(2) by simp
  have "c * 1 \<le> c * int (length qs)" using assms(3) len by (intro mult_left_mono) linarith+
  then have "\<bar>c\<bar> < 2 ^ 53" using assms by simp
  then have "dbl (of_int c) = of_int c" by (rule dbl_int)
  then show ?thesis using dbl_sum_const [OF assms(1,3,4)] len by (simp add: mean_of_def)
qed

definition steady :: "int \<Rightarrow> day_count list \<Rightarrow> bool" where
  "steady c ps \<longleftrightarrow> list_all (\<lambda>p. dc_requests p = c) ps"

lemma steady_requests: "steady c ps \<Longrightarrow> list_all (\<lambda>q. q = of_int c) (requests_of ps)"
  by (simp add: steady_def requests_of_def list_all_iff)

lemma steady_weekday:
  assumes "steady c w" "0 \<le> c" "c * int (length w) < 2 ^ 53"
  shows "weekday_mean w (of_int c) dow = of_int c"
proof -
  let ?ps = "filter (\<lambda>p. dc_dow p = dow) w"
  have "c * int (length ?ps) \<le> c * int (length w)" using assms(2) by (intro mult_left_mono) simp_all
  moreover have "steady c ?ps" using assms(1) by (simp add: steady_def list_all_iff)
  ultimately have "?ps \<noteq> [] \<Longrightarrow> mean_of (requests_of ?ps) = of_int c"
    using assms by (intro mean_const steady_requests) (simp_all add: requests_of_def)
  then show ?thesis by (simp add: weekday_mean_def Let_def)
qed

lemma dbl_1 [simp]: "dbl 1 = 1"
  using dbl_int [of 1] by simp

lemma math_round_0 [simp]: "math_round 0 = 0"
  using math_round_int [of 0] by simp

lemma dbl_sum_zeros: "list_all (\<lambda>q. q = 0) qs \<Longrightarrow> dbl_sum qs = 0"
  using dbl_sum_const [of 0 qs] by simp

lemma steady_spread:
  assumes "steady c w" "0 \<le> c" "c * int (length w) < 2 ^ 53"
  shows "spread n w (of_int c) = 0"
proof -
  have zero: "squares e w = 0" if "\<And>p. e p = of_int c" for e
    using assms(1) that by (auto simp: squares_def steady_def Let_def list_all_iff intro!: dbl_sum_zeros)
  show ?thesis using steady_weekday [OF assms] by (simp add: spread_def zero)
qed

text \<open>
  A steady demand is forecast as itself: when every day of the series has the same count, every
  day of the horizon gets that count, the total is the count times the days, and the band is empty,
  without an error of rounding.
\<close>

theorem steady_forecast:
  assumes "steady c (fi_points f)" "0 \<le> c" "c \<le> 1000000000" "fi_points f \<noteq> []"
    and "0 < fi_window f" "fi_window f \<le> 9000000" "0 \<le> fi_horizon f" "fi_horizon f \<le> 365"
  shows "map fd_requests (df_daily (forecast f)) = replicate (nat (fi_horizon f)) (of_int c)
    \<and> df_monthly (forecast f) =
        \<lparr>mr_requests = of_int (c * fi_horizon f), mr_band = 0, mr_low = of_int (c * fi_horizon f),
         mr_high = of_int (c * fi_horizon f), mr_band_bps = 0\<rparr>"
proof -
  define w where "w = trailing (fi_window f) (fi_points f)"
  have "0 < length (fi_points f)" using assms(4) by simp
  then have long: "length (fi_points f) - nat (fi_window f) < length (fi_points f)" using assms(5) by linarith
  have "w \<noteq> []" unfolding w_def trailing_def drop_eq_Nil not_le by (rule long)
  then have w: "steady c w" "w \<noteq> []" "int (length w) \<le> fi_window f"
    using assms by (auto simp: w_def trailing_def steady_def list_all_iff dest: in_set_dropD)
  have "c * int (length w) \<le> 1000000000 * 9000000" using w(3) assms by (intro mult_mono) auto
  then have small: "c * int (length w) < 2 ^ 53" by simp
  have level: "mean_of (requests_of w) = of_int c"
    using w small assms by (intro mean_const steady_requests) (simp_all add: requests_of_def)
  have factor: "weekday_factor w (of_int c) dow = 1" for dow
    using steady_weekday [OF w(1) assms(2) small] assms(2) by (simp add: weekday_factor_def)
  have c: "dbl (of_int c) = of_int c" using assms by (intro dbl_int) simp
  have day: "fd_requests (forecast_day_at m (weekday_factor w (of_int c)) (of_int c) i) = of_int c" for m i
    by (simp add: forecast_day_at_def Let_def factor c)
  let ?qs = "map (\<lambda>i. fd_requests (forecast_day_at (dc_ms (last (fi_points f))) (weekday_factor w (of_int c)) (of_int c) i)) [1..fi_horizon f]"
  have qs: "?qs = replicate (nat (fi_horizon f)) (of_int c)" by (simp add: day map_replicate_const)
  have total_small: "c * fi_horizon f \<le> 1000000000 * 365" using assms by (intro mult_mono) auto
  then have tot: "dbl_sum (replicate (nat (fi_horizon f)) (of_int c)) = of_int (c * fi_horizon f)"
    using dbl_sum_const [of c "replicate (nat (fi_horizon f)) (of_int c)"] assms by (simp add: list_all_iff)
  have total_dbl: "dbl (of_int (c * fi_horizon f)) = of_int (c * fi_horizon f)"
    using total_small assms by (intro dbl_int) simp
  have band: "sqrt_dbl (spread (fi_window f) w (of_int c)) = 0" using steady_spread [OF w(1) assms(2) small] by (simp add: sqrt_dbl_def)
  have nonneg: "0 \<le> c * fi_horizon f" using assms by simp
  show ?thesis
    using qs tot total_dbl nonneg
    by (simp add: forecast_def Let_def w_def [symmetric] level band monthly_of_def comp_def flip: of_int_mult)
qed

definition steady_days :: forecast_input where
  "steady_days =
     \<lparr>fi_horizon = 3, fi_window = 7, fi_points =
       map (\<lambda>i. \<lparr>dc_date = iso_date (i * ms_per_day), dc_ms = i * ms_per_day, dc_requests = 500, dc_dow = (i + 4) mod 7\<rparr>) [0..13]\<rparr>"

theorem steady_forecast_witness: "mr_high (df_monthly (forecast steady_days)) = 1500"
  using steady_forecast [of 500 steady_days] by (simp add: steady_days_def steady_def list_all_iff)

end
