(* ===== verification/Spec2Isabelle.thy ===== *)
theory Spec2Isabelle
  imports Guard Accepted Cli Executor Offsite_Facts Drill_Passes Drill_Facts Validate_Facts Envfile Lifecycle Tar Planner_Facts Planner_Forecast
begin

text \<open>
  A verification library of ovhost, the operator plane of OpenVibe.Host.

  ovhost is a command line that deploys the services of one machine, rolls them back, backs them up and
  reports on them. Its operations (\<^verbatim>\<open>src/lib\<close>) take a context: an executor, through which everything
  reaches the machine, the inventory of services, and a log. They are sequences of requests (run git, npm,
  systemctl, psql; read, write and link files; send HTTP requests; ask the clock) with early returns,
  exceptions and clean-up. What they must not do is take a listening socket away, restart a service
  whose sessions are protected, leave a checkout half moved, or delete what is still needed.

  \<^bold>\<open>How the code is modelled\<close>

  \<^item> \<open>Prelude\<close>, \<open>Json\<close>, \<open>Dates\<close>: what the sources use of JavaScript's strings, POSIX paths, JSON and UTC
    dates. A string is a list of UTF-8 bytes, and so is its length. A JSON number is a rational number: arithmetic is exact,
    and a number is written with at most 20 decimals. The order of an object's keys is their insertion order.
  \<^item> \<open>Host\<close>: the executor's interface (\<^verbatim>\<open>lib/executor.js\<close>). The machine is a record of functions that
    answer each request from the whole history of requests, so a theorem holds for every behaviour of git, npm,
    systemd, the disk, the network and the clock. A program maps the history and a local state to an
    exception or a value, and to a longer history. A request that can throw answers a sum. Headers and time limits of
    requests are not in the history; parallel requests (\<^verbatim>\<open>Promise.all\<close>) are made in source order. Log lines
    are left out, and messages keep their fixed words.
  \<^item> \<open>Outcome\<close>, \<open>Frames\<close>: what a program may raise and return, and what it leaves alone in its local state.
    The locales \<open>event_class\<close> and \<open>service_class\<close> of \<open>Systemd\<close> are the interface of the footprint lemmas: a class of
    requests that admits every harmless one, or also what keeps sockets listening. Each component proves its
    footprint in them once; they are interpreted for the classes the properties speak of.
  \<^item> Polling loops take their bound from \<open>ctx_fuel\<close>; running out is the exception \<open>OutOfFuel\<close>, which no handler
    sees. \<open>Guard\<close> and \<open>Accepted\<close> prove bounds that suffice when the clock advances with each sleep.
  \<^item> What is not under \<^verbatim>\<open>src\<close> is a parameter: the URL parser, \<^verbatim>\<open>Date.parse\<close>, the collation of the locale,
    SHA-256, HMAC, HKDF, AES-GCM, gzip, and the \<^verbatim>\<open>openvibe-contracts\<close> package.

  \<^bold>\<open>The components\<close>

  \<^item> \<open>Service\<close>: the typed view of an inventory entry and the context. \<open>Checked\<close>, \<open>Inventory_Parts\<close>, \<open>Inventory_Entry\<close>,
    \<open>Inventory\<close>: the validation of the inventory (\<^verbatim>\<open>lib/inventory.js\<close>) over JSON values of any type. \<open>Typed_Entry\<close>
    relates an accepted entry to the typed view, and \<open>Accepted\<close> proves what acceptance guarantees: among it the
    hypotheses of the deploy engine.
  \<^item> \<open>Systemd\<close>, \<open>Git\<close>, \<open>Nginx\<close>, \<open>Database\<close>, \<open>Locks\<close>, \<open>Deps\<close>, \<open>Preflight\<close>, \<open>Probes\<close>, \<open>Readiness\<close>, \<open>Releases\<close>: the adapters of
    the same names under \<^verbatim>\<open>lib\<close> (\<open>Locks\<close> is \<^verbatim>\<open>lock.js\<close> and \<^verbatim>\<open>deploy-guard.js\<close>, \<open>Database\<close> is \<^verbatim>\<open>dbengine.js\<close>).
  \<^item> \<open>Plan\<close>, \<open>Sessions\<close>, \<open>Operation\<close>, \<open>Release_Ops\<close>: \<^verbatim>\<open>lib/release-ops.js\<close>, the deploy of a checkout in place;
    \<open>Release_Layout\<close>: \<^verbatim>\<open>lib/release-layout.js\<close>, the deploy of a releases directory with a \<^verbatim>\<open>current\<close> link;
    \<open>Dispatch\<close> chooses between them. \<open>Deploy_Safety\<close>, \<open>Guard\<close>, \<open>Layout_Safety\<close>: sockets are kept, refusals restart
    nothing, locks go back, exit codes match records, waits end, pruning spares what is needed.
  \<^item> \<open>Incidents\<close>, \<open>Status_Page\<close>: freezes, and the incidents and maintenance windows on Network's status page
    (\<^verbatim>\<open>lib/incidents.js\<close>); \<open>Freeze_Control\<close>: the commands over them, and that a freeze holds deploys. \<open>Dns\<close>: the DNS adapter
    (\<^verbatim>\<open>lib/dns.js\<close>): what it refuses, and that it changes nothing unasked. \<open>Json_Text\<close>: written JSON objects read back;
    \<open>Counting\<close>: how often a program makes a request.
  \<^item> \<open>Manifests\<close>: where a service's manifest comes from. \<open>Vhost\<close>: rendering vhosts (\<^verbatim>\<open>lib/nginx.js\<close>), the templates included: a
    template is its pieces, and what is rendered names only domains its certificate covers. \<open>Validate_Parts\<close>, \<open>Validate\<close>:
    \<^verbatim>\<open>ovhost validate\<close> (\<^verbatim>\<open>lib/commands/validate.js\<close>), first what each check concludes, then the checks over the executor with
    the findings as local state. \<open>Validate_Facts\<close>: it only looks, what it calls valid was answered by the machine in that
    run, and what the environment check decides.
  \<^item> \<open>Reconcile\<close>: the deploy controller. \<open>Lifecycle\<close>: lifecycle declarations. \<open>Envfile\<close>: environment and
    unit files and the redaction of their secrets.
  \<^item> \<open>Retention\<close>, \<open>Backup\<close>: one service's backup, its record and pruning. \<open>Backup_Crypto\<close>: the encryption of off-host
    copies (\<^verbatim>\<open>lib/backup-crypto.js\<close>): the streams refine the file format, what was written decrypts to the plain
    text, and what decrypts is whole. \<open>Tar\<close>: the archives of config snapshots and their round trip.
  \<^item> \<open>Backup_Run\<close>: the run over all services, its summary and the metrics. \<open>Offsite\<close>, \<open>Offsite_Copy\<close>: the copies off the host
    (\<^verbatim>\<open>lib/offsite.js\<close>): configuration, uploads in parts, the stored runs, manifests, pruning, downloads; \<open>Archive\<close>: retired
    files (\<^verbatim>\<open>lib/archive.js\<close>). The client of the object store is a parameter that answers each command from the history.
    \<open>Offsite_Facts\<close>: uploads send their bytes whole, files come back as they were, pruning follows a complete push only, and
    a download keeps to its own directory.
  \<^item> \<open>Drill_Parts\<close>, \<open>Drill_Inputs\<close>, \<open>Drill\<close>: the restore drills (\<^verbatim>\<open>lib/commands/drill.js\<close>): a copy of a service is started on
    restored data, compared with production and removed. The state of a run is the record it writes; its clean-up is a
    \<open>try_finally\<close>. \<open>Upholds\<close> holds the logic of invariants over history and record, with the locale \<open>stable_under\<close> for the
    classes of requests that keep one; \<open>quiet_invariant\<close>, \<open>drill_invariant\<close> and \<open>recorded\<close> extend it for a drill's parts.
    \<open>Drill_Safety\<close>: only the drill's own process is signalled. \<open>Drill_Drops\<close>: every scratch database is dropped, and the
    wait for the exit ends (42 rounds cover its twenty seconds). \<open>Drill_Passes\<close>: exit 0 means that every check was done
    and passed. \<open>Drill_Facts\<close>: what the comparison decides, and which database URLs the instance gets. The row for the
    documentation, a display text, is a parameter.
  \<^item> \<open>Announce\<close>, \<open>Alerts\<close>, \<open>Nodes\<close>: release notifications, the alert relay and the node report
    (\<^verbatim>\<open>lib/announce.js\<close>, \<^verbatim>\<open>lib/alerts.js\<close>, \<^verbatim>\<open>lib/nodes.js\<close>): what they send, how often, and what their result says.
  \<^item> \<open>Doubles\<close>: numbers of JavaScript where rounding matters, as rationals rounded to the nearest double. \<open>Planner_Input\<close>,
    \<open>Planner\<close>: the inference planner (\<^verbatim>\<open>server/inference-planner.js\<close>): validation of the document, forecast in
    doubles, costs in integers, break-even and recommendation. \<open>Planner_Facts\<close>: what validates is sound, the
    break-even search equals the search through all counts (and where it does not), the choice is the cheapest.
    \<open>Planner_Forecast\<close>: a steady demand is forecast as itself, exactly.
  \<^item> \<open>Executor\<close>: the logic of the real executor (\<^verbatim>\<open>lib/executor.js\<close>) over system calls: which command runs as which user, how its
    output is read, which errors are thrown. \<open>Cli\<close>: arguments, commands and exit codes (\<^verbatim>\<open>lib/cli.js\<close>).
  \<^item> \<open>Sample\<close>: a concrete host and service, with which the witnesses evaluate the hypotheses of the properties.

  \<^bold>\<open>Not modelled\<close>

  What the real executor asks of the system (spawning, sockets, file calls, flock, streams) is a parameter. Left out for now:
  a stream that fails with part of its bytes written, a character split between two chunks of
  a downloaded manifest, what \<^verbatim>\<open>lib/cli.js\<close> prints, its commands that only
  report (an argument of \<open>dispatch_command\<close>), the acceptance and browser checks, and the rest of the web server under
  \<^verbatim>\<open>server\<close>.
\<close>

end
